(* ===== verification/Prelude.thy ===== *)
theory Prelude
  imports Main "HOL-Library.Word" "HOL-Library.Monad_Syntax"
begin

text \<open>
  Types and generic facts shared by every component of the model of the OpENer stack
  (\<^verbatim>\<open>src/components/opener/src\<close>).

  The target is the ESP32-P4, a 32-bit little-endian RISC-V core: \<^verbatim>\<open>size_t\<close>,
  \<^verbatim>\<open>unsigned int\<close> and \<^verbatim>\<open>unsigned long\<close> have 32 bits.

  A C function that may touch memory outside an object, dereference a null pointer or fail an
  \<^verbatim>\<open>OPENER_ASSERT\<close> is a function into \<open>'a run\<close>: \<open>None\<close> is such a fault, \<open>Some\<close> a
  regular return. Error codes that the C code returns are ordinary values inside \<open>Some\<close>.
\<close>

unbundle bit_operations_syntax

named_theorems wire_simps \<open>equations that turn an encoding operation into the bytes it emits\<close>
named_theorems frame_simps \<open>fields an operation leaves unchanged\<close>

subsection \<open>Machine types (typedefs.h)\<close>

type_synonym CipOctet = "8 word"
type_synonym CipByte = "8 word"
type_synonym CipUsint = "8 word"
type_synonym CipUint = "16 word"
type_synonym CipWord = "16 word"
type_synonym CipUdint = "32 word"
type_synonym CipDword = "32 word"
type_synonym CipUlint = "64 word"
type_synonym size_t = "32 word"
type_synonym MilliSeconds = "32 word"
type_synonym CipSessionHandle = "32 word"
type_synonym CipInstanceNum = "16 word"

type_synonym 'a run = "'a option"

datatype EipStatus = kEipStatusOk | kEipStatusOkSend | kEipStatusError

abbreviation (input) kEipInvalidSocket :: int where
  "kEipInvalidSocket \<equiv> - 1"

subsection \<open>Faults\<close>

definition c_assert :: "bool \<Rightarrow> unit run" where
  "c_assert b = (if b then Some () else None)"

lemma c_assert_simps [simp]: "c_assert True = Some ()" "c_assert False = None"
  by (simp_all add: c_assert_def)

lemma c_assert_eq_Some [simp]: "c_assert b = Some u \<longleftrightarrow> b"
  by (simp add: c_assert_def)

lemma bind_c_assert: "(c_assert b \<bind> f) = (if b then f () else None)"
  by (simp add: c_assert_def)

subsection \<open>Array access\<close>

definition array_get :: "'a list \<Rightarrow> nat \<Rightarrow> 'a run" where
  "array_get xs i = (if i < length xs then Some (xs ! i) else None)"

definition array_set :: "'a list \<Rightarrow> nat \<Rightarrow> 'a \<Rightarrow> 'a list run" where
  "array_set xs i v = (if i < length xs then Some (xs[i := v]) else None)"

text \<open>\<^verbatim>\<open>memcpy\<close> of the octets \<open>xs\<close> into an array from index \<open>p\<close> on.\<close>

definition write_at :: "'a list \<Rightarrow> nat \<Rightarrow> 'a list \<Rightarrow> 'a list run" where
  "write_at buf p xs =
     (if p + length xs \<le> length buf then Some (take p buf @ xs @ drop (p + length xs) buf)
      else None)"

text \<open>Reading \<open>n\<close> octets from a pointer, represented by the octets from it to the array's end.\<close>

definition read_bytes :: "nat \<Rightarrow> 'a list \<Rightarrow> ('a list \<times> 'a list) run" where
  "read_bytes n bs = (if n \<le> length bs then Some (take n bs, drop n bs) else None)"

lemma array_get_less [simp]: "i < length xs \<Longrightarrow> array_get xs i = Some (xs ! i)"
  by (simp add: array_get_def)

lemma array_set_less [simp]: "i < length xs \<Longrightarrow> array_set xs i v = Some (xs[i := v])"
  by (simp add: array_set_def)

lemma array_get_SomeD: "array_get xs i = Some v \<Longrightarrow> i < length xs \<and> xs ! i = v"
  by (simp add: array_get_def split: if_splits)

lemma array_set_SomeD: "array_set xs i v = Some ys \<Longrightarrow> i < length xs \<and> ys = xs[i := v]"
  by (simp add: array_set_def split: if_splits)

lemma write_at_Nil: "p \<le> length buf \<Longrightarrow> write_at buf p [] = Some buf"
  by (simp add: write_at_def)

lemma write_at_defined_iff: "(\<exists>b. write_at buf p xs = Some b) \<longleftrightarrow> p + length xs \<le> length buf"
  by (simp add: write_at_def)

lemma write_at_length: "write_at buf p xs = Some b \<Longrightarrow> length b = length buf"
  by (auto simp: write_at_def split: if_splits)

lemma write_at_SomeD:
  assumes "write_at buf p xs = Some b"
  shows "p + length xs \<le> length buf" "take p b = take p buf"
    "take (length xs) (drop p b) = xs" "drop (p + length xs) b = drop (p + length xs) buf"
  using assms by (auto simp: write_at_def split: if_splits)

lemma write_at_append:
  "write_at buf p (xs @ ys) = do { b \<leftarrow> write_at buf p xs; write_at b (p + length xs) ys }"
proof (cases "p + length xs + length ys \<le> length buf")
  case True
  have "drop (p + (length xs + length ys)) buf = drop (length ys) (drop (p + length xs) buf)"
    by (simp add: add.commute add.left_commute)
  with True show ?thesis
    by (simp add: write_at_def add.assoc min_absorb2)
next
  case False
  then show ?thesis
    by (auto simp: write_at_def split: if_splits)
qed

lemma read_bytes_append [simp]: "read_bytes (length xs) (xs @ ys) = Some (xs, ys)"
  by (simp add: read_bytes_def)

lemma read_bytes_SomeD: "read_bytes n bs = Some (xs, r) \<Longrightarrow> bs = xs @ r \<and> length xs = n"
  by (auto simp: read_bytes_def split: if_splits)

subsection \<open>Searching an array\<close>

text \<open>
  The index of the first element that satisfies a predicate, the shape of every
  \<^verbatim>\<open>for\<close>-loop with an early \<^verbatim>\<open>return\<close> over a session or timer table.
\<close>

fun first_index :: "('a \<Rightarrow> bool) \<Rightarrow> 'a list \<Rightarrow> nat option" where
  "first_index P [] = None"
| "first_index P (x # xs) = (if P x then Some 0 else map_option Suc (first_index P xs))"

lemma first_index_None: "first_index P xs = None \<longleftrightarrow> (\<forall>x \<in> set xs. \<not> P x)"
  by (induction xs) auto

lemma first_index_SomeD:
  "first_index P xs = Some i \<Longrightarrow> i < length xs \<and> P (xs ! i) \<and> (\<forall>j < i. \<not> P (xs ! j))"
proof (induction xs arbitrary: i)
  case Nil
  then show ?case by simp
next
  case (Cons x xs)
  show ?case
  proof (cases "P x")
    case True
    with Cons.prems show ?thesis by simp
  next
    case False
    with Cons.prems obtain k where k: "first_index P xs = Some k" "i = Suc k" by auto
    from Cons.IH [OF k(1)] k(2) False show ?thesis
      by (auto simp: less_Suc_eq_0_disj)
  qed
qed

lemma first_index_exists: "x \<in> set xs \<Longrightarrow> P x \<Longrightarrow> \<exists>i. first_index P xs = Some i"
  by (induction xs) auto


text \<open>
  The same loop over the first \<open>n\<close> elements behind a pointer, which faults when it runs past the
  array before it finds a match.
\<close>

fun scan :: "('a \<Rightarrow> bool) \<Rightarrow> nat \<Rightarrow> 'a list \<Rightarrow> nat option run" where
  "scan P 0 xs = Some None"
| "scan P (Suc n) [] = None"
| "scan P (Suc n) (x # xs) =
     (if P x then Some (Some 0) else map_option (map_option Suc) (scan P n xs))"

lemma scan_first_index: "n \<le> length xs \<Longrightarrow> scan P n xs = Some (first_index P (take n xs))"
  by (induction P n xs rule: scan.induct) auto

lemma scan_whole [simp]: "scan P (length xs) xs = Some (first_index P xs)"
  by (simp add: scan_first_index)

lemma scan_SomeD:
  "scan P n xs = Some (Some i) \<Longrightarrow> i < n \<and> i < length xs \<and> P (xs ! i) \<and> (\<forall>j < i. \<not> P (xs ! j))"
proof (induction P n xs arbitrary: i rule: scan.induct)
  case (3 P n x xs)
  then show ?case
    by (cases "P x") (auto simp: less_Suc_eq_0_disj)
qed simp_all

text \<open>Update the first list element that satisfies a predicate.\<close>

fun update_first :: "('a \<Rightarrow> bool) \<Rightarrow> ('a \<Rightarrow> 'a) \<Rightarrow> 'a list \<Rightarrow> 'a list" where
  "update_first P f [] = []"
| "update_first P f (x # xs) = (if P x then f x # xs else x # update_first P f xs)"

lemma length_update_first [simp]: "length (update_first P f xs) = length xs"
  by (induction xs) auto

lemma find_update_first:
  "find P xs = Some x \<Longrightarrow> P (f x) \<Longrightarrow> find P (update_first P f xs) = Some (f x)"
  by (induction xs) (auto split: if_splits)

lemma map_update_first: "(\<And>x. P x \<Longrightarrow> g (f x) = g x) \<Longrightarrow> map g (update_first P f xs) = map g xs"
  by (induction xs) auto

subsection \<open>Widening conversions\<close>

lemma unat_widen [simp]:
  "unat (ucast (x :: 8 word) :: 16 word) = unat x"
  "unat (ucast (x :: 8 word) :: 32 word) = unat x"
  "unat (ucast (y :: 16 word) :: 32 word) = unat y"
proof -
  have x: "unat x < 2 ^ 8" and y: "unat y < 2 ^ 16"
    using unsigned_less [of x] unsigned_less [of y] by simp_all
  from x show "unat (ucast x :: 16 word) = unat x" "unat (ucast x :: 32 word) = unat x"
    by (simp_all add: unsigned_ucast_eq take_bit_nat_eq_self)
  from y show "unat (ucast y :: 32 word) = unat y"
    by (simp add: unsigned_ucast_eq take_bit_nat_eq_self)
qed

lemma unat_of_nat_small [simp]:
  "n < 256 \<Longrightarrow> unat (of_nat n :: 8 word) = n"
  "n < 65536 \<Longrightarrow> unat (of_nat n :: 16 word) = n"
  "n < 4294967296 \<Longrightarrow> unat (of_nat n :: 32 word) = n"
  by (simp_all add: unat_of_nat take_bit_nat_eq_self)


lemma unat_bound:
  "unat (x :: 8 word) < 256" "unat (y :: 16 word) < 65536" "unat (z :: 32 word) < 4294967296"
  using unsigned_less [of x, where ?'a = nat] unsigned_less [of y, where ?'a = nat] unsigned_less [of z, where ?'a = nat] by simp_all

end
