(* ===== verification/Endian.thy ===== *)
theory Endian
  imports Prelude
begin

text \<open>
  Messages and byte order: \<^verbatim>\<open>utils/enipmessage.c\<close>, \<^verbatim>\<open>utils/enipmessage.h\<close> and
  \<^verbatim>\<open>enet_encap/endianconv.c\<close>.

  A pointer into a received message is the list of octets from the pointer to the end of the
  array it points into; the \<^verbatim>\<open>Get...FromMessage\<close> readers return the value and the advanced
  pointer, and fault where they would read past the array. An outgoing message keeps its array,
  the write position as an index into it, and the length counter as a 32-bit \<^verbatim>\<open>size_t\<close>.
\<close>

subsection \<open>The outgoing message (enipmessage.h)\<close>

abbreviation (input) PC_OPENER_ETHERNET_BUFFER_SIZE :: nat where
  "PC_OPENER_ETHERNET_BUFFER_SIZE \<equiv> 512"

text \<open>
  \<^verbatim>\<open>current_message_position\<close> normally points into the message's own buffer; one branch of
  \<^verbatim>\<open>NotifyConnectedCommonPacketFormat\<close> makes it point into the receive buffer.
\<close>

datatype message_pointer = InMessage nat | OutsideMessage

record ENIPMessage =
  message_buffer :: "CipOctet list"
  current_message_position :: message_pointer
  used_message_length :: size_t

definition InitializeENIPMessage :: "ENIPMessage \<Rightarrow> ENIPMessage" where
  "InitializeENIPMessage message =
     message\<lparr>message_buffer := replicate PC_OPENER_ETHERNET_BUFFER_SIZE 0,
       current_message_position := InMessage 0, used_message_length := 0\<rparr>"

text \<open>Storing octets through \<^verbatim>\<open>current_message_position\<close>, which itself does not move.\<close>

definition poke :: "CipOctet list \<Rightarrow> ENIPMessage \<Rightarrow> ENIPMessage run" where
  "poke bs m = (case current_message_position m of
       OutsideMessage \<Rightarrow> None
     | InMessage p \<Rightarrow> do {
         buf \<leftarrow> write_at (message_buffer m) p bs;
         Some (m\<lparr>message_buffer := buf\<rparr>) })"

text \<open>\<^verbatim>\<open>current_message_position += n\<close>; one past the last octet is the furthest legal address.\<close>

definition move_position :: "int \<Rightarrow> ENIPMessage \<Rightarrow> ENIPMessage run" where
  "move_position n m = (case current_message_position m of
       OutsideMessage \<Rightarrow> None
     | InMessage p \<Rightarrow>
         (if 0 \<le> int p + n \<and> int p + n \<le> int (length (message_buffer m))
          then Some (m\<lparr>current_message_position := InMessage (nat (int p + n))\<rparr>) else None))"

definition MoveMessageNOctets :: "int \<Rightarrow> ENIPMessage \<Rightarrow> ENIPMessage run" where
  "MoveMessageNOctets amount_of_bytes_moved m = do {
     m \<leftarrow> move_position amount_of_bytes_moved m;
     Some (m\<lparr>used_message_length := used_message_length m + of_int amount_of_bytes_moved\<rparr>) }"

text \<open>Store octets, then advance the position and the length by their number.\<close>

definition emit :: "CipOctet list \<Rightarrow> ENIPMessage \<Rightarrow> ENIPMessage run" where
  "emit bs m = do { m \<leftarrow> poke bs m; MoveMessageNOctets (int (length bs)) m }"

definition FillNextNMessageOctetsWith :: "CipOctet \<Rightarrow> nat \<Rightarrow> ENIPMessage \<Rightarrow> ENIPMessage run" where
  "FillNextNMessageOctetsWith value amount_of_bytes_written m =
     poke (replicate amount_of_bytes_written value) m"

definition FillNextNMessageOctetsWithValueAndMoveToNextPosition ::
    "CipOctet \<Rightarrow> nat \<Rightarrow> ENIPMessage \<Rightarrow> ENIPMessage run" where
  "FillNextNMessageOctetsWithValueAndMoveToNextPosition value amount_of_filled_bytes m = do {
     m \<leftarrow> FillNextNMessageOctetsWith value amount_of_filled_bytes m;
     MoveMessageNOctets (int amount_of_filled_bytes) m }"

subsection \<open>Writers\<close>

definition AddSintToMessage :: "CipUsint \<Rightarrow> ENIPMessage \<Rightarrow> ENIPMessage run" where
  "AddSintToMessage data m = emit [data] m"

definition AddIntToMessage :: "CipUint \<Rightarrow> ENIPMessage \<Rightarrow> ENIPMessage run" where
  "AddIntToMessage data m = emit [ucast data, ucast (drop_bit 8 data)] m"

definition AddDintToMessage :: "CipUdint \<Rightarrow> ENIPMessage \<Rightarrow> ENIPMessage run" where
  "AddDintToMessage data m =
     emit [ucast data, ucast (drop_bit 8 data), ucast (drop_bit 16 data), ucast (drop_bit 24 data)] m"

definition AddLintToMessage :: "CipUlint \<Rightarrow> ENIPMessage \<Rightarrow> ENIPMessage run" where
  "AddLintToMessage data m =
     emit [ucast data, ucast (drop_bit 8 data), ucast (drop_bit 16 data), ucast (drop_bit 24 data),
       ucast (drop_bit 32 data), ucast (drop_bit 40 data), ucast (drop_bit 48 data),
       ucast (drop_bit 56 data)] m"

subsection \<open>Readers\<close>

fun GetSintFromMessage :: "CipOctet list \<Rightarrow> (CipUsint \<times> CipOctet list) run" where
  "GetSintFromMessage (b0 # r) = Some (b0, r)"
| "GetSintFromMessage _ = None"

fun GetByteFromMessage :: "CipOctet list \<Rightarrow> (CipByte \<times> CipOctet list) run" where
  "GetByteFromMessage (b0 # r) = Some (b0, r)"
| "GetByteFromMessage _ = None"

fun GetUsintFromMessage :: "CipOctet list \<Rightarrow> (CipUsint \<times> CipOctet list) run" where
  "GetUsintFromMessage (b0 # r) = Some (b0, r)"
| "GetUsintFromMessage _ = None"

fun GetBoolFromMessage :: "CipOctet list \<Rightarrow> (CipUsint \<times> CipOctet list) run" where
  "GetBoolFromMessage (b0 # r) = Some (b0, r)"
| "GetBoolFromMessage _ = None"

text \<open>The signed 16-bit reader returns the same bit pattern; it is read with \<open>sint\<close> where used.\<close>

fun GetIntFromMessage :: "CipOctet list \<Rightarrow> (CipUint \<times> CipOctet list) run" where
  "GetIntFromMessage (b0 # b1 # r) = Some (ucast b0 OR push_bit 8 (ucast b1), r)"
| "GetIntFromMessage _ = None"

fun GetUintFromMessage :: "CipOctet list \<Rightarrow> (CipUint \<times> CipOctet list) run" where
  "GetUintFromMessage (b0 # b1 # r) = Some (ucast b0 OR push_bit 8 (ucast b1), r)"
| "GetUintFromMessage _ = None"

fun GetWordFromMessage :: "CipOctet list \<Rightarrow> (CipWord \<times> CipOctet list) run" where
  "GetWordFromMessage (b0 # b1 # r) = Some (ucast b0 OR push_bit 8 (ucast b1), r)"
| "GetWordFromMessage _ = None"

fun GetDintFromMessage :: "CipOctet list \<Rightarrow> (CipUdint \<times> CipOctet list) run" where
  "GetDintFromMessage (b0 # b1 # b2 # b3 # r) =
     Some (ucast b0 OR push_bit 8 (ucast b1) OR push_bit 16 (ucast b2) OR push_bit 24 (ucast b3), r)"
| "GetDintFromMessage _ = None"

fun GetUdintFromMessage :: "CipOctet list \<Rightarrow> (CipUdint \<times> CipOctet list) run" where
  "GetUdintFromMessage (b0 # b1 # b2 # b3 # r) =
     Some (ucast b0 OR push_bit 8 (ucast b1) OR push_bit 16 (ucast b2) OR push_bit 24 (ucast b3), r)"
| "GetUdintFromMessage _ = None"

fun GetDwordFromMessage :: "CipOctet list \<Rightarrow> (CipDword \<times> CipOctet list) run" where
  "GetDwordFromMessage (b0 # b1 # b2 # b3 # r) =
     Some (ucast b0 OR push_bit 8 (ucast b1) OR push_bit 16 (ucast b2) OR push_bit 24 (ucast b3), r)"
| "GetDwordFromMessage _ = None"

text \<open>The 64-bit reader takes the first octet as the most significant one.\<close>

fun GetLintFromMessage :: "CipOctet list \<Rightarrow> (CipUlint \<times> CipOctet list) run" where
  "GetLintFromMessage (b0 # b1 # b2 # b3 # b4 # b5 # b6 # b7 # r) =
     Some ((push_bit 56 (ucast b0) AND 0xFF00000000000000) +
           (push_bit 48 (ucast b1) AND 0x00FF000000000000) +
           (push_bit 40 (ucast b2) AND 0x0000FF0000000000) +
           (push_bit 32 (ucast b3) AND 0x000000FF00000000) +
           (push_bit 24 (ucast b4) AND 0x00000000FF000000) +
           (push_bit 16 (ucast b5) AND 0x0000000000FF0000) +
           (push_bit 8 (ucast b6) AND 0x000000000000FF00) +
           (ucast b7 AND 0x00000000000000FF), r)"
| "GetLintFromMessage _ = None"

subsection \<open>Platform byte order and socket addresses\<close>

datatype OpenerEndianess =
  kOpenerEndianessUnknown | kOpENerEndianessLittle | kOpENerEndianessBig

text \<open>\<open>first_byte\<close> is the octet at the lowest address of the \<^verbatim>\<open>int\<close> 1 on the platform.\<close>

definition DetermineEndianess :: "CipOctet \<Rightarrow> OpenerEndianess" where
  "DetermineEndianess first_byte =
     (if first_byte = 1 then kOpENerEndianessLittle else kOpENerEndianessBig)"

definition byte_swap16 :: "CipUint \<Rightarrow> CipUint" where
  "byte_swap16 x = push_bit 8 x OR drop_bit 8 x"

text \<open>\<^verbatim>\<open>htons\<close>: identity on a big-endian host, a byte swap on a little-endian one.\<close>

definition htons :: "OpenerEndianess \<Rightarrow> CipUint \<Rightarrow> CipUint" where
  "htons host x = (if host = kOpENerEndianessBig then x else byte_swap16 x)"

abbreviation (input) AF_INET :: CipUint where
  "AF_INET \<equiv> 2"

definition EncapsulateIpAddress ::
    "OpenerEndianess \<Rightarrow> CipUint \<Rightarrow> CipUdint \<Rightarrow> ENIPMessage \<Rightarrow> ENIPMessage run" where
  "EncapsulateIpAddress g_opener_platform_endianess port address m =
     (if g_opener_platform_endianess = kOpENerEndianessLittle then do {
        m \<leftarrow> AddIntToMessage (htons g_opener_platform_endianess AF_INET) m;
        m \<leftarrow> AddIntToMessage port m;
        AddDintToMessage address m }
      else if g_opener_platform_endianess = kOpENerEndianessBig then do {
        m \<leftarrow> AddIntToMessage (htons g_opener_platform_endianess AF_INET) m;
        m \<leftarrow> AddSintToMessage (ucast (drop_bit 8 port)) m;
        m \<leftarrow> AddSintToMessage (ucast port) m;
        m \<leftarrow> AddSintToMessage (ucast address) m;
        m \<leftarrow> AddSintToMessage (ucast (drop_bit 8 address)) m;
        m \<leftarrow> AddSintToMessage (ucast (drop_bit 16 address)) m;
        AddSintToMessage (ucast (drop_bit 24 address)) m }
      else None)"

subsection \<open>Emitting octets\<close>

definition message_wf :: "ENIPMessage \<Rightarrow> bool" where
  "message_wf m \<longleftrightarrow> length (message_buffer m) = PC_OPENER_ETHERNET_BUFFER_SIZE \<and>
     (case current_message_position m of
        InMessage p \<Rightarrow> p \<le> PC_OPENER_ETHERNET_BUFFER_SIZE | OutsideMessage \<Rightarrow> True)"

lemma emit_InMessage:
  assumes "current_message_position m = InMessage p"
  shows "emit bs m =
    (if p + length bs \<le> length (message_buffer m)
     then Some (m\<lparr>message_buffer := take p (message_buffer m) @ bs @ drop (p + length bs) (message_buffer m),
        current_message_position := InMessage (p + length bs),
        used_message_length := used_message_length m + of_nat (length bs)\<rparr>)
     else None)"
  using assms
  by (simp add: emit_def poke_def write_at_def MoveMessageNOctets_def move_position_def
      nat_int_add)

lemma emit_OutsideMessage [simp]: "current_message_position m = OutsideMessage \<Longrightarrow> emit bs m = None"
  by (simp add: emit_def poke_def)

lemma emit_append: "emit (xs @ ys) m = do { m \<leftarrow> emit xs m; emit ys m }"
proof (cases "current_message_position m")
  case (InMessage p)
  have "write_at (message_buffer m) p (xs @ ys) =
      do { b \<leftarrow> write_at (message_buffer m) p xs; write_at b (p + length xs) ys }"
    by (rule write_at_append)
  then show ?thesis
    using InMessage
    by (auto simp: emit_InMessage write_at_def add.assoc split: if_splits)
next
  case OutsideMessage
  then show ?thesis by simp
qed

lemma emit_emit: "(emit xs m \<bind> emit ys) = emit (xs @ ys) m"
  by (simp add: emit_append)

lemma emit_emit_bind: "(emit xs m \<bind> (\<lambda>m. emit ys m \<bind> f)) = (emit (xs @ ys) m \<bind> f)"
  by (simp add: emit_append)

lemma emit_Some:
  assumes "emit bs m = Some m'"
  obtains p where "current_message_position m = InMessage p"
    "p + length bs \<le> length (message_buffer m)"
    "message_buffer m' = take p (message_buffer m) @ bs @ drop (p + length bs) (message_buffer m)"
    "current_message_position m' = InMessage (p + length bs)"
    "used_message_length m' = used_message_length m + of_nat (length bs)"
  using assms by (cases "current_message_position m") (auto simp: emit_InMessage split: if_splits)

lemma emit_wf: "message_wf m \<Longrightarrow> emit bs m = Some m' \<Longrightarrow> message_wf m'"
  by (erule emit_Some) (simp add: message_wf_def)

text \<open>Inside a well-formed message an emission succeeds exactly when it fits the buffer.\<close>

lemma emit_defined_iff:
  "current_message_position m = InMessage p \<Longrightarrow>
     (\<exists>m'. emit bs m = Some m') \<longleftrightarrow> p + length bs \<le> length (message_buffer m)"
  by (simp add: emit_InMessage)

lemma InitializeENIPMessage_wf [simp]: "message_wf (InitializeENIPMessage m)"
  by (simp add: message_wf_def InitializeENIPMessage_def)

lemma InitializeENIPMessage_simps [simp]:
  "message_buffer (InitializeENIPMessage m) = replicate PC_OPENER_ETHERNET_BUFFER_SIZE 0"
  "current_message_position (InitializeENIPMessage m) = InMessage 0"
  "used_message_length (InitializeENIPMessage m) = 0"
  by (simp_all add: InitializeENIPMessage_def)

text \<open>The octets a message sends: the first \<^verbatim>\<open>used_message_length\<close> of its buffer.\<close>

definition sent_octets :: "ENIPMessage \<Rightarrow> CipOctet list" where
  "sent_octets m = take (unat (used_message_length m)) (message_buffer m)"

text \<open>A message that holds exactly the octets written to it since it was initialised.\<close>

definition holds_octets :: "ENIPMessage \<Rightarrow> CipOctet list \<Rightarrow> bool" where
  "holds_octets m bs \<longleftrightarrow> length (message_buffer m) = PC_OPENER_ETHERNET_BUFFER_SIZE \<and>
     length bs \<le> PC_OPENER_ETHERNET_BUFFER_SIZE \<and>
     current_message_position m = InMessage (length bs) \<and>
     used_message_length m = of_nat (length bs) \<and>
     take (length bs) (message_buffer m) = bs"

lemma holds_octets_init [simp]: "holds_octets (InitializeENIPMessage m) []"
  by (simp add: holds_octets_def)

lemma holds_octets_emit:
  assumes "holds_octets m bs" and "emit xs m = Some m'"
  shows "holds_octets m' (bs @ xs)"
  using assms(2,1) by (elim emit_Some) (simp add: holds_octets_def)

lemma holds_octets_emit_fits:
  "holds_octets m bs \<Longrightarrow> length bs + length xs \<le> PC_OPENER_ETHERNET_BUFFER_SIZE \<Longrightarrow>
     \<exists>m'. emit xs m = Some m' \<and> holds_octets m' (bs @ xs)"
  by (metis emit_defined_iff holds_octets_def holds_octets_emit)

lemma unat_of_nat_512: "n \<le> 512 \<Longrightarrow> unat (of_nat n :: size_t) = n"
  by (simp add: unat_of_nat take_bit_nat_eq_self)

lemma sent_octets_holds: "holds_octets m bs \<Longrightarrow> sent_octets m = bs"
  by (simp add: sent_octets_def holds_octets_def unat_of_nat_512)

subsection \<open>The bytes of each writer\<close>

definition sint_bytes :: "CipUsint \<Rightarrow> CipOctet list" where
  "sint_bytes x = [x]"

definition int_bytes :: "CipUint \<Rightarrow> CipOctet list" where
  "int_bytes x = [ucast x, ucast (drop_bit 8 x)]"

definition dint_bytes :: "CipUdint \<Rightarrow> CipOctet list" where
  "dint_bytes x = [ucast x, ucast (drop_bit 8 x), ucast (drop_bit 16 x), ucast (drop_bit 24 x)]"

definition lint_bytes :: "CipUlint \<Rightarrow> CipOctet list" where
  "lint_bytes x = [ucast x, ucast (drop_bit 8 x), ucast (drop_bit 16 x), ucast (drop_bit 24 x),
     ucast (drop_bit 32 x), ucast (drop_bit 40 x), ucast (drop_bit 48 x), ucast (drop_bit 56 x)]"

lemma bytes_length [simp]:
  "length (sint_bytes a) = 1" "length (int_bytes b) = 2" "length (dint_bytes c) = 4"
  "length (lint_bytes d) = 8"
  by (simp_all add: sint_bytes_def int_bytes_def dint_bytes_def lint_bytes_def)

lemma AddSintToMessage_wire [wire_simps]: "AddSintToMessage x = emit (sint_bytes x)"
  by (simp add: fun_eq_iff AddSintToMessage_def sint_bytes_def)

lemma AddIntToMessage_wire [wire_simps]: "AddIntToMessage x = emit (int_bytes x)"
  by (simp add: fun_eq_iff AddIntToMessage_def int_bytes_def)

lemma AddDintToMessage_wire [wire_simps]: "AddDintToMessage x = emit (dint_bytes x)"
  by (simp add: fun_eq_iff AddDintToMessage_def dint_bytes_def)

lemma AddLintToMessage_wire [wire_simps]: "AddLintToMessage x = emit (lint_bytes x)"
  by (simp add: fun_eq_iff AddLintToMessage_def lint_bytes_def)

lemma Fill_wire [wire_simps]:
  "FillNextNMessageOctetsWithValueAndMoveToNextPosition v n = emit (replicate n v)"
  by (simp add: fun_eq_iff FillNextNMessageOctetsWithValueAndMoveToNextPosition_def
      FillNextNMessageOctetsWith_def emit_def)

text \<open>The sixteen-octet socket address starts with these eight octets.\<close>

definition sockaddr_bytes :: "OpenerEndianess \<Rightarrow> CipUint \<Rightarrow> CipUdint \<Rightarrow> CipOctet list" where
  "sockaddr_bytes e port address =
     (if e = kOpENerEndianessLittle then int_bytes (byte_swap16 AF_INET) @ int_bytes port
      else int_bytes AF_INET @ rev (int_bytes port)) @ dint_bytes address"

lemma EncapsulateIpAddress_wire [wire_simps]:
  "e \<noteq> kOpenerEndianessUnknown \<Longrightarrow>
     EncapsulateIpAddress e port address = emit (sockaddr_bytes e port address)"
  by (cases e)
    (simp_all add: fun_eq_iff EncapsulateIpAddress_def wire_simps emit_emit emit_emit_bind sockaddr_bytes_def
      htons_def sint_bytes_def int_bytes_def dint_bytes_def)

subsection \<open>Codecs\<close>

text \<open>
  What a writer and a reader of one width promise each other. The message parsers below rely on
  nothing else.
\<close>

locale codec =
  fixes enc :: "'v \<Rightarrow> CipOctet list"
    and dec :: "CipOctet list \<Rightarrow> ('v \<times> CipOctet list) run"
    and width :: nat
  assumes enc_length: "length (enc v) = width"
    and dec_enc: "dec (enc v @ r) = Some (v, r)"
    and enc_dec: "dec bs = Some (v, r) \<Longrightarrow> bs = enc v @ r"
    and dec_defined: "dec bs = None \<longleftrightarrow> length bs < width"
begin

lemma enc_inject: "enc v = enc w \<Longrightarrow> v = w"
  using dec_enc [of v "[]"] dec_enc [of w "[]"] by simp

lemma dec_consumes: "dec bs = Some (v, r) \<Longrightarrow> r = drop width bs \<and> width \<le> length bs"
  using enc_dec [of bs v r] enc_length [of v] by auto

lemma dec_long: "width \<le> length bs \<Longrightarrow> \<exists>v. dec bs = Some (v, drop width bs)"
proof -
  assume "width \<le> length bs"
  then have "dec bs \<noteq> None"
    using dec_defined [of bs] by simp
  then obtain v r where d: "dec bs = Some (v, r)"
    by (cases "dec bs") auto
  with dec_consumes [OF d] show ?thesis by blast
qed

end

lemma join16: "(ucast (ucast (x :: 16 word) :: 8 word) :: 16 word) OR
    push_bit 8 (ucast (ucast (drop_bit 8 x) :: 8 word)) = x"
  by (rule bit_word_eqI) (auto simp: bit_simps)

lemma join32: "(ucast (ucast (x :: 32 word) :: 8 word) :: 32 word) OR
    push_bit 8 (ucast (ucast (drop_bit 8 x) :: 8 word)) OR
    push_bit 16 (ucast (ucast (drop_bit 16 x) :: 8 word)) OR
    push_bit 24 (ucast (ucast (drop_bit 24 x) :: 8 word)) = x"
proof (rule bit_word_eqI)
  fix n
  assume "n < LENGTH(32)"
  then consider "n < 8" | "8 \<le> n \<and> n < 16" | "16 \<le> n \<and> n < 24" | "24 \<le> n \<and> n < 32"
    by fastforce
  then show "bit ((ucast (ucast x :: 8 word) :: 32 word) OR
    push_bit 8 (ucast (ucast (drop_bit 8 x) :: 8 word)) OR
    push_bit 16 (ucast (ucast (drop_bit 16 x) :: 8 word)) OR
    push_bit 24 (ucast (ucast (drop_bit 24 x) :: 8 word))) n = bit x n"
    by cases (auto simp: bit_simps)
qed

lemma split16:
  "ucast (ucast (a :: 8 word) OR push_bit 8 (ucast (b :: 8 word)) :: 16 word) = a"
  "ucast (drop_bit 8 (ucast (a :: 8 word) OR push_bit 8 (ucast (b :: 8 word)) :: 16 word)) = b"
  by (rule bit_word_eqI, auto simp: bit_simps simp del: drop_bit_or dest: bit_imp_le_length)+

lemma split32:
  fixes a b c d :: "8 word"
  defines "w \<equiv> ucast a OR push_bit 8 (ucast b) OR push_bit 16 (ucast c) OR push_bit 24 (ucast d) :: 32 word"
  shows "ucast w = a" "ucast (drop_bit 8 w) = b" "ucast (drop_bit 16 w) = c" "ucast (drop_bit 24 w) = d"
  unfolding w_def
  by (rule bit_word_eqI, auto simp: bit_simps simp del: drop_bit_or dest: bit_imp_le_length)+

interpretation usint: codec sint_bytes GetUsintFromMessage 1
  by unfold_locales
    (auto simp: sint_bytes_def elim: GetUsintFromMessage.elims)

interpretation uint: codec int_bytes GetUintFromMessage 2
proof unfold_locales
  fix bs :: "CipOctet list" and v r
  show "GetUintFromMessage bs = None \<longleftrightarrow> length bs < 2"
    by (cases bs rule: GetUintFromMessage.cases) auto
  assume "GetUintFromMessage bs = Some (v, r)"
  then show "bs = int_bytes v @ r"
    by (cases bs rule: GetUintFromMessage.cases) (auto simp: int_bytes_def split16 simp del: drop_bit_or)
qed (simp_all add: int_bytes_def join16)

interpretation udint: codec dint_bytes GetUdintFromMessage 4
proof unfold_locales
  fix bs :: "CipOctet list" and v r
  show "GetUdintFromMessage bs = None \<longleftrightarrow> length bs < 4"
    by (cases bs rule: GetUdintFromMessage.cases) auto
  assume "GetUdintFromMessage bs = Some (v, r)"
  then show "bs = dint_bytes v @ r"
    by (cases bs rule: GetUdintFromMessage.cases) (auto simp: dint_bytes_def split32 simp del: drop_bit_or)
qed (simp_all add: dint_bytes_def join32)

text \<open>The readers of one width agree; only the type of the result differs in the C code.\<close>

lemma readers_agree:
  "GetSintFromMessage = GetUsintFromMessage" "GetByteFromMessage = GetUsintFromMessage"
  "GetBoolFromMessage = GetUsintFromMessage"
  "GetIntFromMessage = GetUintFromMessage" "GetWordFromMessage = GetUintFromMessage"
  "GetDintFromMessage = GetUdintFromMessage" "GetDwordFromMessage = GetUdintFromMessage"
proof -
  show "GetSintFromMessage = GetUsintFromMessage" "GetByteFromMessage = GetUsintFromMessage"
    "GetBoolFromMessage = GetUsintFromMessage"
    by (rule ext, case_tac x rule: GetUsintFromMessage.cases, simp_all)+
  show "GetIntFromMessage = GetUintFromMessage" "GetWordFromMessage = GetUintFromMessage"
    by (rule ext, case_tac x rule: GetUintFromMessage.cases, simp_all)+
  show "GetDintFromMessage = GetUdintFromMessage" "GetDwordFromMessage = GetUdintFromMessage"
    by (rule ext, case_tac x rule: GetUdintFromMessage.cases, simp_all)+
qed

subsection \<open>The 64-bit reader\<close>

lemma byte_mask:
  fixes b :: "8 word"
  shows "push_bit 56 (ucast b :: 64 word) AND 0xFF00000000000000 = push_bit 56 (ucast b)"
    "push_bit 48 (ucast b :: 64 word) AND 0x00FF000000000000 = push_bit 48 (ucast b)"
    "push_bit 40 (ucast b :: 64 word) AND 0x0000FF0000000000 = push_bit 40 (ucast b)"
    "push_bit 32 (ucast b :: 64 word) AND 0x000000FF00000000 = push_bit 32 (ucast b)"
    "push_bit 24 (ucast b :: 64 word) AND 0x00000000FF000000 = push_bit 24 (ucast b)"
    "push_bit 16 (ucast b :: 64 word) AND 0x0000000000FF0000 = push_bit 16 (ucast b)"
    "push_bit 8 (ucast b :: 64 word) AND 0x000000000000FF00 = push_bit 8 (ucast b)"
    "(ucast b :: 64 word) AND 0x00000000000000FF = ucast b"
proof -
  have m: "(0xFF :: 64 word) = mask 8" "(0xFF00 :: 64 word) = push_bit 8 (mask 8)"
    "(0xFF0000 :: 64 word) = push_bit 16 (mask 8)" "(0xFF000000 :: 64 word) = push_bit 24 (mask 8)"
    "(0xFF00000000 :: 64 word) = push_bit 32 (mask 8)" "(0xFF0000000000 :: 64 word) = push_bit 40 (mask 8)"
    "(0xFF000000000000 :: 64 word) = push_bit 48 (mask 8)"
    "(0xFF00000000000000 :: 64 word) = push_bit 56 (mask 8)"
    by (simp_all add: mask_eq_exp_minus_1 push_bit_eq_mult)
  have g: "push_bit k (ucast b :: 64 word) AND push_bit k (mask 8) = push_bit k (ucast b)" for k
    by (rule bit_word_eqI) (auto simp: bit_simps dest: bit_imp_le_length)
  show "push_bit 56 (ucast b :: 64 word) AND 0xFF00000000000000 = push_bit 56 (ucast b)"
    "push_bit 48 (ucast b :: 64 word) AND 0x00FF000000000000 = push_bit 48 (ucast b)"
    "push_bit 40 (ucast b :: 64 word) AND 0x0000FF0000000000 = push_bit 40 (ucast b)"
    "push_bit 32 (ucast b :: 64 word) AND 0x000000FF00000000 = push_bit 32 (ucast b)"
    "push_bit 24 (ucast b :: 64 word) AND 0x00000000FF000000 = push_bit 24 (ucast b)"
    "push_bit 16 (ucast b :: 64 word) AND 0x0000000000FF0000 = push_bit 16 (ucast b)"
    "push_bit 8 (ucast b :: 64 word) AND 0x000000000000FF00 = push_bit 8 (ucast b)"
    unfolding m by (rule g)+
  show "(ucast b :: 64 word) AND 0x00000000000000FF = ucast b"
    using g [of 0] by (simp add: m(1))
qed

text \<open>One octet of a word and the bits above it.\<close>

lemma split_low: "(x :: 64 word) = push_bit 8 (drop_bit 8 x) + ucast (ucast x :: 8 word)"
proof -
  have "push_bit 8 (drop_bit 8 x) + (ucast (ucast x :: 8 word) :: 64 word) =
      push_bit 8 (drop_bit 8 x) OR ucast (ucast x :: 8 word)"
    by (rule disjunctive_add) (auto simp: bit_simps)
  also have "\<dots> = x"
    by (rule bit_word_eqI) (auto simp: bit_simps)
  finally show ?thesis by simp
qed

lemma join64:
  fixes x :: "64 word"
  shows "push_bit 56 (ucast (ucast (drop_bit 56 x) :: 8 word)) +
   push_bit 48 (ucast (ucast (drop_bit 48 x) :: 8 word)) +
   push_bit 40 (ucast (ucast (drop_bit 40 x) :: 8 word)) +
   push_bit 32 (ucast (ucast (drop_bit 32 x) :: 8 word)) +
   push_bit 24 (ucast (ucast (drop_bit 24 x) :: 8 word)) +
   push_bit 16 (ucast (ucast (drop_bit 16 x) :: 8 word)) +
   push_bit 8 (ucast (ucast (drop_bit 8 x) :: 8 word)) +
   ucast (ucast x :: 8 word) = x"
proof -
  have s: "push_bit k (drop_bit k x) = push_bit (k + 8) (drop_bit (k + 8) x) + push_bit k (ucast (ucast (drop_bit k x) :: 8 word))" for k
    using arg_cong [OF split_low [of "drop_bit k x"], of "push_bit k"]
    by (simp add: push_bit_add add.commute)
  have top: "push_bit 64 (drop_bit 64 x) = 0" by simp
  show ?thesis
    using s [of 0] s [of 8] s [of 16] s [of 24] s [of 32] s [of 40] s [of 48] s [of 56] top
    by simp
qed

text \<open>The 64-bit reader decodes exactly the reversal of what the 64-bit writer emits, so a
  LINT that is written with \<^verbatim>\<open>AddLintToMessage\<close> and read with \<^verbatim>\<open>GetLintFromMessage\<close> comes
  back byte-swapped: 1 is read as 0x0100000000000000.\<close>

theorem lint_reader_reverses_writer:
  "GetLintFromMessage (rev (lint_bytes x) @ r) = Some (x, r) \<and>
   AddLintToMessage x m = emit (lint_bytes x) m \<and>
   GetLintFromMessage (lint_bytes 1 @ r) = Some (0x0100000000000000, r)"
  by (simp add: lint_bytes_def byte_mask join64 wire_simps)

text \<open>What the 8-, 16- and 32-bit writers put into a message, the readers of that width read
  back from the place it was written to, leaving the pointer just behind it; nothing before the
  write position changes.\<close>

theorem writer_reader_roundtrip:
  assumes "current_message_position m = InMessage p"
    and "AddSintToMessage a m = Some m1" and "AddIntToMessage b m1 = Some m2"
    and "AddDintToMessage c m2 = Some m3"
  shows "do { (a', r) \<leftarrow> GetUsintFromMessage (drop p (message_buffer m3));
              (b', r) \<leftarrow> GetUintFromMessage r;
              (c', r) \<leftarrow> GetUdintFromMessage r;
              Some (a', b', c', r) } = Some (a, b, c, drop (p + 7) (message_buffer m))
    \<and> take p (message_buffer m3) = take p (message_buffer m)
    \<and> used_message_length m3 = used_message_length m + 7"
proof -
  let ?bs = "sint_bytes a @ int_bytes b @ dint_bytes c"
  have "emit ?bs m = Some m3"
    using assms(2-4) by (simp add: emit_append wire_simps)
  then have fits: "p + 7 \<le> length (message_buffer m)" and
    buf: "message_buffer m3 = take p (message_buffer m) @ ?bs @ drop (p + 7) (message_buffer m)"
    and used: "used_message_length m3 = used_message_length m + 7"
    using assms(1) by (auto elim: emit_Some)
  then have "drop p (message_buffer m3) = ?bs @ drop (p + 7) (message_buffer m)"
    by simp
  then show ?thesis
    using buf fits used by (simp add: usint.dec_enc uint.dec_enc udint.dec_enc)
qed

theorem writer_reader_roundtrip_witness:
  "\<exists>m m3. (do { m1 \<leftarrow> AddSintToMessage 0x7F m; m2 \<leftarrow> AddIntToMessage 0x1234 m1;
                AddDintToMessage 0xCAFEBABE m2 }) = Some m3 \<and>
     do { (a', r) \<leftarrow> GetUsintFromMessage (drop 1 (message_buffer m3));
          (b', r) \<leftarrow> GetUintFromMessage r;
          (c', r) \<leftarrow> GetUdintFromMessage r;
          Some (a', b', c', r) } = Some (0x7F, 0x1234, 0xCAFEBABE, [9])"
proof -
  let ?m = "\<lparr>message_buffer = [5, 0, 0, 0, 0, 0, 0, 0, 9], current_message_position = InMessage 1,
              used_message_length = 1\<rparr>"
  obtain m1 m2 m3 where run: "AddSintToMessage 0x7F ?m = Some m1"
      "AddIntToMessage 0x1234 m1 = Some m2" "AddDintToMessage 0xCAFEBABE m2 = Some m3"
    by (simp add: AddSintToMessage_def AddIntToMessage_def AddDintToMessage_def emit_def poke_def
        write_at_def MoveMessageNOctets_def move_position_def)
  show ?thesis
    by (rule exI[of _ ?m], rule exI[of _ m3])
      (use run writer_reader_roundtrip[OF _ run, of 1] in simp)
qed

end
