(* ===== verification/CipTypes.thy ===== *)
theory CipTypes
  imports Endian
begin

text \<open>
  The data of \<^verbatim>\<open>cip/ciptypes.h\<close> and \<^verbatim>\<open>cip/ciperror.h\<close> that the message path shares:
  request paths, requests and responses of the message router, general status codes, data type
  codes, service codes and attribute flags.
\<close>

subsection \<open>General status codes (ciperror.h)\<close>

abbreviation (input) kCipErrorSuccess :: CipUsint where "kCipErrorSuccess \<equiv> 0x00"
abbreviation (input) kCipErrorConnectionFailure :: CipUsint where "kCipErrorConnectionFailure \<equiv> 0x01"
abbreviation (input) kCipErrorPathSegmentError :: CipUsint where "kCipErrorPathSegmentError \<equiv> 0x04"
abbreviation (input) kCipErrorPathDestinationUnknown :: CipUsint where "kCipErrorPathDestinationUnknown \<equiv> 0x05"
abbreviation (input) kCipErrorPartialTransfer :: CipUsint where "kCipErrorPartialTransfer \<equiv> 0x06"
abbreviation (input) kCipErrorServiceNotSupported :: CipUsint where "kCipErrorServiceNotSupported \<equiv> 0x08"
abbreviation (input) kCipErrorAttributeListError :: CipUsint where "kCipErrorAttributeListError \<equiv> 0x0A"
abbreviation (input) kCipErrorAttributeNotSetable :: CipUsint where "kCipErrorAttributeNotSetable \<equiv> 0x0E"
abbreviation (input) kCipErrorNotEnoughData :: CipUsint where "kCipErrorNotEnoughData \<equiv> 0x13"
abbreviation (input) kCipErrorAttributeNotSupported :: CipUsint where "kCipErrorAttributeNotSupported \<equiv> 0x14"
abbreviation (input) kCipErrorTooMuchData :: CipUsint where "kCipErrorTooMuchData \<equiv> 0x15"
abbreviation (input) kCipErrorPathSizeInvalid :: CipUsint where "kCipErrorPathSizeInvalid \<equiv> 0x26"
abbreviation (input) kCipErrorAttributeNotGettable :: CipUsint where "kCipErrorAttributeNotGettable \<equiv> 0x2C"
abbreviation (input) kCipErrorInstanceNotDeletable :: CipUsint where "kCipErrorInstanceNotDeletable \<equiv> 0x2D"

subsection \<open>Paths, requests and responses (ciptypes.h)\<close>

record CipEpath =
  path_size :: CipUsint
  class_id :: CipUint
  instance_number :: CipInstanceNum
  attribute_number :: CipUint

record CipMessageRouterRequest =
  req_service :: CipUsint
  request_path :: CipEpath
  request_data_size :: size_t
  req_data :: "CipOctet list"

abbreviation (input) MAX_SIZE_OF_ADD_STATUS :: nat where
  "MAX_SIZE_OF_ADD_STATUS \<equiv> 2"

record CipMessageRouterResponse =
  reply_service :: CipUsint
  reserved :: CipOctet
  general_status :: CipUsint
  size_of_additional_status :: CipUsint
  additional_status :: "CipUint list"
  message :: ENIPMessage

definition reply_code :: "CipUsint \<Rightarrow> CipUsint" where
  "reply_code service = 0x80 OR service"

text \<open>Apply an operation on the response's message.\<close>

definition on_message :: "(ENIPMessage \<Rightarrow> ENIPMessage run) \<Rightarrow>
    CipMessageRouterResponse \<Rightarrow> CipMessageRouterResponse run" where
  "on_message f resp = do { m \<leftarrow> f (message resp); Some (resp\<lparr>message := m\<rparr>) }"

lemma on_message_Some:
  "on_message f resp = Some resp' \<longleftrightarrow> (\<exists>m. f (message resp) = Some m \<and> resp' = resp\<lparr>message := m\<rparr>)"
  by (auto simp: on_message_def bind_eq_Some_conv)

lemma on_message_bind:
  "(on_message (emit xs) resp \<bind> on_message (emit ys)) = on_message (emit (xs @ ys)) resp"
  by (simp add: on_message_def emit_append)

subsection \<open>Data type codes and flags (ciptypes.h)\<close>

abbreviation (input) kCipBool :: CipUsint where "kCipBool \<equiv> 0xC1"
abbreviation (input) kCipSint :: CipUsint where "kCipSint \<equiv> 0xC2"
abbreviation (input) kCipInt :: CipUsint where "kCipInt \<equiv> 0xC3"
abbreviation (input) kCipDint :: CipUsint where "kCipDint \<equiv> 0xC4"
abbreviation (input) kCipLint :: CipUsint where "kCipLint \<equiv> 0xC5"
abbreviation (input) kCipUsint :: CipUsint where "kCipUsint \<equiv> 0xC6"
abbreviation (input) kCipUint :: CipUsint where "kCipUint \<equiv> 0xC7"
abbreviation (input) kCipUdint :: CipUsint where "kCipUdint \<equiv> 0xC8"
abbreviation (input) kCipUlint :: CipUsint where "kCipUlint \<equiv> 0xC9"
abbreviation (input) kCipReal :: CipUsint where "kCipReal \<equiv> 0xCA"
abbreviation (input) kCipLreal :: CipUsint where "kCipLreal \<equiv> 0xCB"
abbreviation (input) kCipStime :: CipUsint where "kCipStime \<equiv> 0xCC"
abbreviation (input) kCipDate :: CipUsint where "kCipDate \<equiv> 0xCD"
abbreviation (input) kCipTimeOfDay :: CipUsint where "kCipTimeOfDay \<equiv> 0xCE"
abbreviation (input) kCipString :: CipUsint where "kCipString \<equiv> 0xD0"
abbreviation (input) kCipByte :: CipUsint where "kCipByte \<equiv> 0xD1"
abbreviation (input) kCipWord :: CipUsint where "kCipWord \<equiv> 0xD2"
abbreviation (input) kCipDword :: CipUsint where "kCipDword \<equiv> 0xD3"
abbreviation (input) kCipLword :: CipUsint where "kCipLword \<equiv> 0xD4"
abbreviation (input) kCipString2 :: CipUsint where "kCipString2 \<equiv> 0xD5"
abbreviation (input) kCipFtime :: CipUsint where "kCipFtime \<equiv> 0xD6"
abbreviation (input) kCipLtime :: CipUsint where "kCipLtime \<equiv> 0xD7"
abbreviation (input) kCipItime :: CipUsint where "kCipItime \<equiv> 0xD8"
abbreviation (input) kCipStringN :: CipUsint where "kCipStringN \<equiv> 0xD9"
abbreviation (input) kCipShortString :: CipUsint where "kCipShortString \<equiv> 0xDA"
abbreviation (input) kCipTime :: CipUsint where "kCipTime \<equiv> 0xDB"
abbreviation (input) kCipEpathType :: CipUsint where "kCipEpathType \<equiv> 0xDC"
abbreviation (input) kCipEngUnit :: CipUsint where "kCipEngUnit \<equiv> 0xDD"
abbreviation (input) kCipUsintUsint :: CipUsint where "kCipUsintUsint \<equiv> 0xA0"
abbreviation (input) kCipAny :: CipUsint where "kCipAny \<equiv> 0"
abbreviation (input) kCipUdintUdintUdintUdintUdintString :: CipUsint where
  "kCipUdintUdintUdintUdintUdintString \<equiv> 0xA1"
abbreviation (input) kCip6Usint :: CipUsint where "kCip6Usint \<equiv> 0xA2"
abbreviation (input) kCipByteArray :: CipUsint where "kCipByteArray \<equiv> 0xA4"

abbreviation (input) kGetAttributeAll :: CipUsint where "kGetAttributeAll \<equiv> 0x01"
abbreviation (input) kGetAttributeSingle :: CipUsint where "kGetAttributeSingle \<equiv> 0x0E"
abbreviation (input) kSetAttributeSingle :: CipUsint where "kSetAttributeSingle \<equiv> 0x10"

abbreviation (input) kNotSetOrGetable :: CipByte where "kNotSetOrGetable \<equiv> 0x00"
abbreviation (input) kGetableAll :: CipByte where "kGetableAll \<equiv> 0x01"
abbreviation (input) kGetableSingle :: CipByte where "kGetableSingle \<equiv> 0x02"
abbreviation (input) kSetable :: CipByte where "kSetable \<equiv> 0x04"
abbreviation (input) kSetAndGetAble :: CipByte where "kSetAndGetAble \<equiv> 0x07"
abbreviation (input) kGetableSingleAndAll :: CipByte where "kGetableSingleAndAll \<equiv> 0x03"
abbreviation (input) kGetableAllDummy :: CipByte where "kGetableAllDummy \<equiv> 0x08"
abbreviation (input) kPreGetFunc :: CipByte where "kPreGetFunc \<equiv> 0x10"
abbreviation (input) kPostGetFunc :: CipByte where "kPostGetFunc \<equiv> 0x20"
abbreviation (input) kPreSetFunc :: CipByte where "kPreSetFunc \<equiv> 0x40"
abbreviation (input) kPostSetFunc :: CipByte where "kPostSetFunc \<equiv> 0x80"
abbreviation (input) kNvDataFunc :: CipByte where "kNvDataFunc \<equiv> 0x80"

end
