(* ===== verification/EPath.thy ===== *)
theory EPath
  imports CipTypes
begin

text \<open>
  Encoded paths: \<^verbatim>\<open>cip/cipepath.c\<close> (one definition per function), the format-4 key of
  \<^verbatim>\<open>cip/cipelectronickey.c\<close>, and the request-path functions \<^verbatim>\<open>EncodeEPath\<close>,
  \<^verbatim>\<open>DecodePaddedEPath\<close> of \<^verbatim>\<open>cip/cipcommon.c\<close>. A path pointer is the list of octets from
  it to the end of its array; \<^verbatim>\<open>*cip_path\<close> on the empty list is a fault, as is a failed
  \<^verbatim>\<open>OPENER_ASSERT\<close>.
\<close>

subsection \<open>Enumerations (cipepath.h)\<close>

datatype SegmentType =
    kSegmentTypePortSegment | kSegmentTypeLogicalSegment | kSegmentTypeNetworkSegment
  | kSegmentTypeSymbolicSegment | kSegmentTypeDataSegment | kSegmentTypeDataTypeConstructed
  | kSegmentTypeDataTypeElementary | kSegmentTypeReserved | kSegmentTypeInvalid

datatype LogicalSegmentLogicalType =
    kLogicalSegmentLogicalTypeClassId | kLogicalSegmentLogicalTypeInstanceId
  | kLogicalSegmentLogicalTypeMemberId | kLogicalSegmentLogicalTypeConnectionPoint
  | kLogicalSegmentLogicalTypeAttributeId | kLogicalSegmentLogicalTypeSpecial
  | kLogicalSegmentLogicalTypeServiceId | kLogicalSegmentLogicalTypeExtendedLogical
  | kLogicalSegmentLogicalTypeInvalid

datatype LogicalSegmentExtendedLogicalType =
    kLogicalSegmentExtendedLogicalTypeReserved | kLogicalSegmentExtendedLogicalTypeArrayIndex
  | kLogicalSegmentExtendedLogicalTypeIndirectArrayIndex
  | kLogicalSegmentExtendedLogicalTypeBitIndex
  | kLogicalSegmentExtendedLogicalTypeIndirectBitIndex
  | kLogicalSegmentExtendedLogicalTypeStructureMemberNumber
  | kLogicalSegmentExtendedLogicalTypeStructureMemberHandle
  | kLogicalSegmentExtendedLogicalTypeInvalid

datatype LogicalSegmentLogicalFormat =
    kLogicalSegmentLogicalFormatEightBit | kLogicalSegmentLogicalFormatSixteenBit
  | kLogicalSegmentLogicalFormatThirtyTwoBit | kLogicalSegmentLogicalFormatInvalid

datatype LogicalSegmentSpecialTypeLogicalFormat =
    kLogicalSegmentSpecialTypeLogicalFormatReserved
  | kLogicalSegmentSpecialTypeLogicalFormatElectronicKey

datatype ElectronicKeySegmentFormat =
    kElectronicKeySegmentFormatReserved | kElectronicKeySegmentFormatKeyFormat4

datatype NetworkSegmentSubtype =
    kNetworkSegmentSubtypeReserved | kNetworkSegmentSubtypeScheduleSegment
  | kNetworkSegmentSubtypeFixedTagSegment
  | kNetworkSegmentSubtypeProductionInhibitTimeInMilliseconds
  | kNetworkSegmentSubtypeSafetySegment
  | kNetworkSegmentSubtypeProductionInhibitTimeInMicroseconds
  | kNetworkSegmentSubtypeExtendedNetworkSegment

datatype DataSegmentSubtype =
    kDataSegmentSubtypeReserved | kDataSegmentSubtypeSimpleData
  | kDataSegmentSubtypeANSIExtendedSymbol

datatype SymbolicSegmentFormat =
  kSymbolicSegmentFormatASCII | kSymbolicSegmentFormatExtendedString

datatype SymbolicSegmentExtendedFormat =
    kSymbolicSegmentExtendedFormatDoubleByteChars | kSymbolicSegmentExtendedFormatTripleByteChars
  | kSymbolicSegmentExtendedFormatNumericSymbolUSINT
  | kSymbolicSegmentExtendedFormatNumericSymbolUINT
  | kSymbolicSegmentExtendedFormatNumericSymbolUDINT
  | kSymbolicSegmentExtendedFormatReserved

subsection \<open>Segment type\<close>

definition octet0 :: "CipOctet list \<Rightarrow> CipOctet run" where
  "octet0 cip_path = array_get cip_path 0"

definition octet1 :: "CipOctet list \<Rightarrow> CipOctet run" where
  "octet1 cip_path = array_get cip_path 1"

definition GetPathSegmentType :: "CipOctet list \<Rightarrow> SegmentType run" where
  "GetPathSegmentType cip_path = do {
     b \<leftarrow> octet0 cip_path;
     let segment_type = b AND 0xE0;
     Some (if segment_type = 0x00 then kSegmentTypePortSegment
       else if segment_type = 0x20 then kSegmentTypeLogicalSegment
       else if segment_type = 0x40 then kSegmentTypeNetworkSegment
       else if segment_type = 0x60 then kSegmentTypeSymbolicSegment
       else if segment_type = 0x80 then kSegmentTypeDataSegment
       else if segment_type = 0xA0 then kSegmentTypeDataTypeConstructed
       else if segment_type = 0xC0 then kSegmentTypeDataTypeElementary
       else if segment_type = 0xE0 then kSegmentTypeReserved
       else kSegmentTypeInvalid) }"

definition SetPathSegmentType :: "SegmentType \<Rightarrow> CipOctet list \<Rightarrow> CipOctet list run" where
  "SetPathSegmentType segment_type cip_path = (case segment_type of
       kSegmentTypePortSegment \<Rightarrow> array_set cip_path 0 0x00
     | kSegmentTypeLogicalSegment \<Rightarrow> array_set cip_path 0 0x20
     | kSegmentTypeNetworkSegment \<Rightarrow> array_set cip_path 0 0x40
     | kSegmentTypeSymbolicSegment \<Rightarrow> array_set cip_path 0 0x60
     | kSegmentTypeDataSegment \<Rightarrow> array_set cip_path 0 0x80
     | kSegmentTypeDataTypeConstructed \<Rightarrow> array_set cip_path 0 0xA0
     | kSegmentTypeDataTypeElementary \<Rightarrow> array_set cip_path 0 0xC0
     | kSegmentTypeReserved \<Rightarrow> array_set cip_path 0 0xE0
     | kSegmentTypeInvalid \<Rightarrow> None)"

definition assert_segment :: "SegmentType \<Rightarrow> CipOctet list \<Rightarrow> unit run" where
  "assert_segment t cip_path = do { s \<leftarrow> GetPathSegmentType cip_path; c_assert (s = t) }"

subsection \<open>Port segment\<close>

definition GetPathPortSegmentExtendedLinkAddressSizeBit :: "CipOctet list \<Rightarrow> bool run" where
  "GetPathPortSegmentExtendedLinkAddressSizeBit cip_path = do {
     b \<leftarrow> octet0 cip_path; Some (b AND 0x10 = 0x10) }"

definition GetPathPortSegmentPortIdentifier :: "CipOctet list \<Rightarrow> CipUdint run" where
  "GetPathPortSegmentPortIdentifier cip_path = do {
     b \<leftarrow> octet0 cip_path;
     let port_identifier = ucast (b AND 0x0F);
     assert_segment kSegmentTypePortSegment cip_path;
     c_assert (port_identifier \<noteq> 0);
     Some port_identifier }"

text \<open>\<^verbatim>\<open>(*cip_path) |= v\<close>, truncated to the octet.\<close>

definition or_octet0 :: "CipOctet \<Rightarrow> CipOctet list \<Rightarrow> CipOctet list run" where
  "or_octet0 v cip_path = do { b \<leftarrow> octet0 cip_path; array_set cip_path 0 (b OR v) }"

definition SetPathPortSegmentPortIdentifier :: "CipUdint \<Rightarrow> CipOctet list \<Rightarrow> CipOctet list run" where
  "SetPathPortSegmentPortIdentifier port_identifier cip_path = do {
     c_assert (port_identifier < 16);
     or_octet0 (ucast port_identifier) cip_path }"

definition GetPathPortSegmentLinkAddressSize :: "CipOctet list \<Rightarrow> CipUdint run" where
  "GetPathPortSegmentLinkAddressSize cip_path = do {
     e \<leftarrow> GetPathPortSegmentExtendedLinkAddressSizeBit cip_path;
     c_assert e;
     b \<leftarrow> octet1 cip_path;
     Some (ucast b) }"

abbreviation (input) kPortSegmentExtendedPort :: CipUdint where
  "kPortSegmentExtendedPort \<equiv> 15"

definition GetPathPortSegmentExtendedPortNumber :: "CipOctet list \<Rightarrow> CipUdint run" where
  "GetPathPortSegmentExtendedPortNumber cip_path = do {
     port \<leftarrow> GetPathPortSegmentPortIdentifier cip_path;
     c_assert (kPortSegmentExtendedPort = port);
     e \<leftarrow> GetPathPortSegmentExtendedLinkAddressSizeBit cip_path;
     let kExtendedPortSegmentPosition = (if e then 2 else 1);
     lo \<leftarrow> array_get cip_path kExtendedPortSegmentPosition;
     hi \<leftarrow> array_get cip_path (kExtendedPortSegmentPosition + 1);
     Some (ucast lo + push_bit 8 (ucast hi)) }"

definition SetPathPortSegmentExtendedPortIdentifier ::
    "CipUdint \<Rightarrow> CipOctet list \<Rightarrow> CipOctet list run" where
  "SetPathPortSegmentExtendedPortIdentifier extended_port_identifier cip_path = do {
     cip_path \<leftarrow> SetPathPortSegmentPortIdentifier kPortSegmentExtendedPort cip_path;
     e \<leftarrow> GetPathPortSegmentExtendedLinkAddressSizeBit cip_path;
     let kExtendedPortSegmentPosition = (if e then 2 else 1);
     cip_path \<leftarrow> array_set cip_path kExtendedPortSegmentPosition
       (ucast (extended_port_identifier AND 0x00FF));
     array_set cip_path (kExtendedPortSegmentPosition + 1)
       (ucast (drop_bit 8 (extended_port_identifier AND 0xFF00))) }"

subsection \<open>Logical segment\<close>

definition GetPathLogicalSegmentLogicalType ::
    "CipOctet list \<Rightarrow> LogicalSegmentLogicalType run" where
  "GetPathLogicalSegmentLogicalType cip_path = do {
     assert_segment kSegmentTypeLogicalSegment cip_path;
     b \<leftarrow> octet0 cip_path;
     let logical_type = b AND 0x1C;
     Some (if logical_type = 0x00 then kLogicalSegmentLogicalTypeClassId
       else if logical_type = 0x04 then kLogicalSegmentLogicalTypeInstanceId
       else if logical_type = 0x08 then kLogicalSegmentLogicalTypeMemberId
       else if logical_type = 0x0C then kLogicalSegmentLogicalTypeConnectionPoint
       else if logical_type = 0x10 then kLogicalSegmentLogicalTypeAttributeId
       else if logical_type = 0x14 then kLogicalSegmentLogicalTypeSpecial
       else if logical_type = 0x18 then kLogicalSegmentLogicalTypeServiceId
       else if logical_type = 0x1C then kLogicalSegmentLogicalTypeExtendedLogical
       else kLogicalSegmentLogicalTypeInvalid) }"

definition SetPathLogicalSegmentLogicalType ::
    "LogicalSegmentLogicalType \<Rightarrow> CipOctet list \<Rightarrow> CipOctet list run" where
  "SetPathLogicalSegmentLogicalType logical_type cip_path = do {
     assert_segment kSegmentTypeLogicalSegment cip_path;
     (case logical_type of
        kLogicalSegmentLogicalTypeClassId \<Rightarrow> or_octet0 0x00 cip_path
      | kLogicalSegmentLogicalTypeInstanceId \<Rightarrow> or_octet0 0x04 cip_path
      | kLogicalSegmentLogicalTypeMemberId \<Rightarrow> or_octet0 0x08 cip_path
      | kLogicalSegmentLogicalTypeConnectionPoint \<Rightarrow> or_octet0 0x0C cip_path
      | kLogicalSegmentLogicalTypeAttributeId \<Rightarrow> or_octet0 0x10 cip_path
      | kLogicalSegmentLogicalTypeSpecial \<Rightarrow> or_octet0 0x14 cip_path
      | kLogicalSegmentLogicalTypeServiceId \<Rightarrow> or_octet0 0x18 cip_path
      | kLogicalSegmentLogicalTypeExtendedLogical \<Rightarrow> or_octet0 0x1C cip_path
      | kLogicalSegmentLogicalTypeInvalid \<Rightarrow> None) }"

definition GetPathLogicalSegmentLogicalFormat ::
    "CipOctet list \<Rightarrow> LogicalSegmentLogicalFormat run" where
  "GetPathLogicalSegmentLogicalFormat cip_path = do {
     assert_segment kSegmentTypeLogicalSegment cip_path;
     b \<leftarrow> octet0 cip_path;
     let logical_format = b AND 0x03;
     Some (if logical_format = 0x00 then kLogicalSegmentLogicalFormatEightBit
       else if logical_format = 0x01 then kLogicalSegmentLogicalFormatSixteenBit
       else if logical_format = 0x02 then kLogicalSegmentLogicalFormatThirtyTwoBit
       else kLogicalSegmentLogicalFormatInvalid) }"

definition SetPathLogicalSegmentLogicalFormat ::
    "LogicalSegmentLogicalFormat \<Rightarrow> CipOctet list \<Rightarrow> CipOctet list run" where
  "SetPathLogicalSegmentLogicalFormat format cip_path = do {
     assert_segment kSegmentTypeLogicalSegment cip_path;
     (case format of
        kLogicalSegmentLogicalFormatEightBit \<Rightarrow> or_octet0 0x00 cip_path
      | kLogicalSegmentLogicalFormatSixteenBit \<Rightarrow> or_octet0 0x01 cip_path
      | kLogicalSegmentLogicalFormatThirtyTwoBit \<Rightarrow> or_octet0 0x02 cip_path
      | kLogicalSegmentLogicalFormatInvalid \<Rightarrow> None) }"

text \<open>The initial value of \<^verbatim>\<open>data\<close> is the enumerator \<^verbatim>\<open>kLogicalSegmentLogicalFormatInvalid\<close>, 3.\<close>

definition CipEpathGetLogicalValue :: "CipOctet list \<Rightarrow> (CipDword \<times> CipOctet list) run" where
  "CipEpathGetLogicalValue msg = do {
     logical_format \<leftarrow> GetPathLogicalSegmentLogicalFormat msg;
     (case logical_format of
        kLogicalSegmentLogicalFormatEightBit \<Rightarrow> do {
          (v, r) \<leftarrow> GetByteFromMessage (drop 1 msg); Some (ucast v, r) }
      | kLogicalSegmentLogicalFormatSixteenBit \<Rightarrow> do {
          (v, r) \<leftarrow> GetWordFromMessage (drop 2 msg); Some (ucast v, r) }
      | kLogicalSegmentLogicalFormatThirtyTwoBit \<Rightarrow> GetDwordFromMessage (drop 2 msg)
      | kLogicalSegmentLogicalFormatInvalid \<Rightarrow> Some (3, drop 1 msg)) }"

definition CipEpathSetLogicalValue :: "CipDword \<Rightarrow> LogicalSegmentLogicalFormat \<Rightarrow>
    CipMessageRouterResponse \<Rightarrow> CipMessageRouterResponse run" where
  "CipEpathSetLogicalValue logical_value logical_format resp = (case logical_format of
       kLogicalSegmentLogicalFormatEightBit \<Rightarrow> do {
         c_assert (logical_value \<le> 0xFF);
         on_message (AddSintToMessage (ucast logical_value)) resp }
     | kLogicalSegmentLogicalFormatSixteenBit \<Rightarrow> do {
         resp \<leftarrow> on_message (MoveMessageNOctets 1) resp;
         c_assert (logical_value \<le> 0xFFFF);
         on_message (AddIntToMessage (ucast logical_value)) resp }
     | kLogicalSegmentLogicalFormatThirtyTwoBit \<Rightarrow> do {
         resp \<leftarrow> on_message (MoveMessageNOctets 1) resp;
         on_message (AddDintToMessage logical_value) resp }
     | kLogicalSegmentLogicalFormatInvalid \<Rightarrow> None)"

definition GetPathLogicalSegmentExtendedLogicalType ::
    "CipOctet list \<Rightarrow> LogicalSegmentExtendedLogicalType run" where
  "GetPathLogicalSegmentExtendedLogicalType cip_path = do {
     t \<leftarrow> GetPathLogicalSegmentLogicalType cip_path;
     c_assert (t = kLogicalSegmentLogicalTypeExtendedLogical);
     extended_logical_type \<leftarrow> octet1 cip_path;
     Some (if extended_logical_type = 1 then kLogicalSegmentExtendedLogicalTypeArrayIndex
       else if extended_logical_type = 2 then kLogicalSegmentExtendedLogicalTypeIndirectArrayIndex
       else if extended_logical_type = 3 then kLogicalSegmentExtendedLogicalTypeBitIndex
       else if extended_logical_type = 4 then kLogicalSegmentExtendedLogicalTypeIndirectBitIndex
       else if extended_logical_type = 5 then kLogicalSegmentExtendedLogicalTypeStructureMemberNumber
       else if extended_logical_type = 6 then kLogicalSegmentExtendedLogicalTypeStructureMemberHandle
       else if extended_logical_type = 0 then kLogicalSegmentExtendedLogicalTypeReserved
       else kLogicalSegmentExtendedLogicalTypeInvalid) }"

definition GetPathLogicalSegmentSpecialTypeLogicalType ::
    "CipOctet list \<Rightarrow> LogicalSegmentSpecialTypeLogicalFormat run" where
  "GetPathLogicalSegmentSpecialTypeLogicalType cip_path = do {
     assert_segment kSegmentTypeLogicalSegment cip_path;
     t \<leftarrow> GetPathLogicalSegmentLogicalType cip_path;
     c_assert (t = kLogicalSegmentLogicalTypeSpecial);
     b \<leftarrow> octet0 cip_path;
     Some (if b AND 0x03 = 0x00 then kLogicalSegmentSpecialTypeLogicalFormatElectronicKey
       else kLogicalSegmentSpecialTypeLogicalFormatReserved) }"

definition GetPathLogicalSegmentElectronicKeyFormat ::
    "CipOctet list \<Rightarrow> ElectronicKeySegmentFormat run" where
  "GetPathLogicalSegmentElectronicKeyFormat cip_path = do {
     t \<leftarrow> GetPathLogicalSegmentSpecialTypeLogicalType cip_path;
     c_assert (t = kLogicalSegmentSpecialTypeLogicalFormatElectronicKey);
     b \<leftarrow> octet1 cip_path;
     Some (if b = 0x04 then kElectronicKeySegmentFormatKeyFormat4
       else kElectronicKeySegmentFormatReserved) }"

subsection \<open>Electronic key, format 4 (cipelectronickey.c)\<close>

record ElectronicKeyFormat4 =
  key_vendor_id :: CipUint
  key_device_type :: CipUint
  key_product_code :: CipUint
  key_major_revision_compatibility :: CipByte
  key_minor_revision :: CipUsint

definition ElectronicKeyFormat4New :: ElectronicKeyFormat4 where
  "ElectronicKeyFormat4New = \<lparr>key_vendor_id = 0, key_device_type = 0, key_product_code = 0,
     key_major_revision_compatibility = 0, key_minor_revision = 0\<rparr>"

definition ElectronicKeyFormat4GetMajorRevision :: "ElectronicKeyFormat4 \<Rightarrow> CipByte" where
  "ElectronicKeyFormat4GetMajorRevision key = key_major_revision_compatibility key AND 0x7F"

definition ElectronicKeyFormat4GetMajorRevisionCompatibility :: "ElectronicKeyFormat4 \<Rightarrow> bool" where
  "ElectronicKeyFormat4GetMajorRevisionCompatibility key \<longleftrightarrow>
     key_major_revision_compatibility key AND 0x80 = 0x80"

definition GetElectronicKeyFormat4FromMessage ::
    "CipOctet list \<Rightarrow> ElectronicKeyFormat4 \<Rightarrow> (ElectronicKeyFormat4 \<times> CipOctet list) run" where
  "GetElectronicKeyFormat4FromMessage msg key = do {
     f \<leftarrow> GetPathLogicalSegmentElectronicKeyFormat msg;
     c_assert (f = kElectronicKeySegmentFormatKeyFormat4);
     (vendor, msg) \<leftarrow> GetUintFromMessage (drop 2 msg);
     (device, msg) \<leftarrow> GetUintFromMessage msg;
     (product, msg) \<leftarrow> GetUintFromMessage msg;
     (major, msg) \<leftarrow> GetByteFromMessage msg;
     (minor, msg) \<leftarrow> GetUsintFromMessage msg;
     Some (key\<lparr>key_vendor_id := vendor, key_device_type := device, key_product_code := product,
       key_major_revision_compatibility := major, key_minor_revision := minor\<rparr>, msg) }"

subsection \<open>Network segment\<close>

definition GetPathNetworkSegmentSubtype :: "CipOctet list \<Rightarrow> NetworkSegmentSubtype run" where
  "GetPathNetworkSegmentSubtype cip_path = do {
     assert_segment kSegmentTypeNetworkSegment cip_path;
     b \<leftarrow> octet0 cip_path;
     let subtype = b AND 0x1F;
     Some (if subtype = 0x01 then kNetworkSegmentSubtypeScheduleSegment
       else if subtype = 0x02 then kNetworkSegmentSubtypeFixedTagSegment
       else if subtype = 0x03 then kNetworkSegmentSubtypeProductionInhibitTimeInMilliseconds
       else if subtype = 0x04 then kNetworkSegmentSubtypeSafetySegment
       else if subtype = 0x10 then kNetworkSegmentSubtypeProductionInhibitTimeInMicroseconds
       else if subtype = 0x1F then kNetworkSegmentSubtypeExtendedNetworkSegment
       else kNetworkSegmentSubtypeReserved) }"

definition GetPathNetworkSegmentProductionInhibitTimeInMilliseconds ::
    "CipOctet list \<Rightarrow> CipUsint run" where
  "GetPathNetworkSegmentProductionInhibitTimeInMilliseconds cip_path = do {
     assert_segment kSegmentTypeNetworkSegment cip_path;
     t \<leftarrow> GetPathNetworkSegmentSubtype cip_path;
     c_assert (t = kNetworkSegmentSubtypeProductionInhibitTimeInMilliseconds);
     octet1 cip_path }"

definition GetPathNetworkSegmentProductionInhibitTimeInMicroseconds ::
    "CipOctet list \<Rightarrow> CipUdint run" where
  "GetPathNetworkSegmentProductionInhibitTimeInMicroseconds cip_path = do {
     assert_segment kSegmentTypeNetworkSegment cip_path;
     t \<leftarrow> GetPathNetworkSegmentSubtype cip_path;
     c_assert (t = kNetworkSegmentSubtypeProductionInhibitTimeInMicroseconds);
     n \<leftarrow> octet1 cip_path;
     c_assert (n = 2);
     (v, _) \<leftarrow> GetUdintFromMessage (drop 2 cip_path);
     Some v }"

subsection \<open>Symbolic segment\<close>

definition GetPathSymbolicSegmentFormat :: "CipOctet list \<Rightarrow> SymbolicSegmentFormat run" where
  "GetPathSymbolicSegmentFormat cip_path = do {
     b \<leftarrow> octet0 cip_path;
     Some (if b AND 0x1F = 0x00 then kSymbolicSegmentFormatExtendedString
       else kSymbolicSegmentFormatASCII) }"

definition GetPathSymbolicSegmentASCIIFormatLength :: "CipOctet list \<Rightarrow> CipUdint run" where
  "GetPathSymbolicSegmentASCIIFormatLength cip_path = do {
     b \<leftarrow> octet0 cip_path;
     let length = ucast (b AND 0x1F);
     c_assert (length \<noteq> 0);
     Some length }"

definition GetPathSymbolicSegmentNumericType ::
    "CipOctet list \<Rightarrow> SymbolicSegmentExtendedFormat run" where
  "GetPathSymbolicSegmentNumericType cip_path = do {
     b \<leftarrow> octet1 cip_path;
     let numeric_subtype = b AND 0x1F;
     Some (if numeric_subtype = 0x06 then kSymbolicSegmentExtendedFormatNumericSymbolUSINT
       else if numeric_subtype = 0x07 then kSymbolicSegmentExtendedFormatNumericSymbolUINT
       else if numeric_subtype = 0x08 then kSymbolicSegmentExtendedFormatNumericSymbolUDINT
       else kSymbolicSegmentExtendedFormatReserved) }"

definition GetPathSymbolicSegmentExtendedFormat ::
    "CipOctet list \<Rightarrow> SymbolicSegmentExtendedFormat run" where
  "GetPathSymbolicSegmentExtendedFormat cip_path = do {
     assert_segment kSegmentTypeSymbolicSegment cip_path;
     f \<leftarrow> GetPathSymbolicSegmentFormat cip_path;
     c_assert (f = kSymbolicSegmentFormatExtendedString);
     b \<leftarrow> octet1 cip_path;
     let extended_type = b AND 0xE0;
     if extended_type = 0x20 then Some kSymbolicSegmentExtendedFormatDoubleByteChars
     else if extended_type = 0x40 then Some kSymbolicSegmentExtendedFormatTripleByteChars
     else if extended_type = 0xC0 then GetPathSymbolicSegmentNumericType cip_path
     else Some kSymbolicSegmentExtendedFormatReserved }"

subsection \<open>Data segment\<close>

definition GetPathDataSegmentSubtype :: "CipOctet list \<Rightarrow> DataSegmentSubtype run" where
  "GetPathDataSegmentSubtype cip_path = do {
     b \<leftarrow> octet0 cip_path;
     let data_subtype = b AND 0x1F;
     Some (if data_subtype = 0x00 then kDataSegmentSubtypeSimpleData
       else if data_subtype = 0x11 then kDataSegmentSubtypeANSIExtendedSymbol
       else kDataSegmentSubtypeReserved) }"

definition GetPathDataSegmentSimpleDataWordLength :: "CipOctet list \<Rightarrow> CipUsint run" where
  "GetPathDataSegmentSimpleDataWordLength cip_path = do {
     assert_segment kSegmentTypeDataSegment cip_path;
     t \<leftarrow> GetPathDataSegmentSubtype cip_path;
     c_assert (t = kDataSegmentSubtypeSimpleData);
     (v, _) \<leftarrow> GetUsintFromMessage (drop 1 cip_path);
     Some v }"

subsection \<open>Special purpose functions\<close>

definition CipEpathGetNeededLogicalFormatForValue :: "CipDword \<Rightarrow> LogicalSegmentLogicalFormat" where
  "CipEpathGetNeededLogicalFormatForValue value = (
     let logical_format = kLogicalSegmentLogicalFormatEightBit;
         logical_format = (if 0xFF < value then kLogicalSegmentLogicalFormatSixteenBit
           else logical_format)
     in if 0xFFFF < value then kLogicalSegmentLogicalFormatThirtyTwoBit else logical_format)"

text \<open>The comparison loop runs from index \<open>i\<close> up to the common length.\<close>

function epath_equal_from :: "nat \<Rightarrow> nat \<Rightarrow> CipOctet list \<Rightarrow> CipOctet list \<Rightarrow> bool run" where
  "epath_equal_from i n path1 path2 =
     (if i < n then do {
        a \<leftarrow> array_get path1 i;
        b \<leftarrow> array_get path2 i;
        if a \<noteq> b then Some False else epath_equal_from (Suc i) n path1 path2 }
      else Some True)"
  by pat_completeness auto
termination
  by (relation "measure (\<lambda>(i, n, _). n - i)") auto

declare epath_equal_from.simps [simp del]

definition CipEpathEqual :: "CipOctet list \<Rightarrow> CipUint \<Rightarrow> CipOctet list \<Rightarrow> CipUint \<Rightarrow> bool run" where
  "CipEpathEqual path1 path1_length path2 path2_length =
     (if path1_length \<noteq> path2_length then Some False
      else epath_equal_from 0 (unat path1_length) path1 path2)"

subsection \<open>Request paths (cipcommon.c)\<close>

text \<open>
  \<^verbatim>\<open>length\<close> is an \<^verbatim>\<open>unsigned int\<close> that wraps when the path size is too small for the ids; the
  closing assertion then fails.
\<close>

definition encode_id :: "CipUsint \<Rightarrow> CipUsint \<Rightarrow> CipUint \<Rightarrow> ENIPMessage \<times> CipUdint \<Rightarrow>
    (ENIPMessage \<times> CipUdint) run" where
  "encode_id code8 code16 v = (\<lambda>(m, len).
     if v < 256 then do {
       m \<leftarrow> AddSintToMessage code8 m;
       m \<leftarrow> AddSintToMessage (ucast v) m;
       Some (m, len - 1) }
     else do {
       m \<leftarrow> AddSintToMessage code16 m;
       m \<leftarrow> AddSintToMessage 0 m;
       m \<leftarrow> AddIntToMessage v m;
       Some (m, len - 2) })"

definition EncodeEPath :: "CipEpath \<Rightarrow> ENIPMessage \<Rightarrow> ENIPMessage run" where
  "EncodeEPath epath m = do {
     let start_length = used_message_length m;
     (m, len) \<leftarrow> encode_id 0x20 0x21 (class_id epath) (m, ucast (path_size epath));
     (m, len) \<leftarrow> (if 0 < len then do {
         (m, len) \<leftarrow> encode_id 0x24 0x25 (instance_number epath) (m, len);
         if 0 < len then encode_id 0x30 0x31 (attribute_number epath) (m, len)
         else Some (m, len) }
       else Some (m, len));
     c_assert (ucast (path_size epath) * 2 = used_message_length m - start_length);
     Some m }"

text \<open>
  One round of the decoding loop: the octet at the pointer selects what is decoded; the result
  carries the updated path, the advanced pointer and by how much
  \<^verbatim>\<open>number_of_decoded_elements\<close> grows. The first test compares with the enumerator
  \<^verbatim>\<open>kSegmentTypeReserved\<close>, whose value is 7.
\<close>

datatype segment_result = SegmentError | SegmentDecoded CipEpath "CipOctet list" nat

definition decode_segment :: "CipEpath \<Rightarrow> CipOctet list \<Rightarrow> segment_result run" where
  "decode_segment epath runner = do {
     b \<leftarrow> octet0 runner;
     if b AND 7 = 7 then Some SegmentError
     else if b = 0x20 then do {
       v \<leftarrow> octet1 runner;
       Some (SegmentDecoded (epath\<lparr>class_id := ucast v\<rparr>) (drop 2 runner) 1) }
     else if b = 0x21 then do {
       (v, r) \<leftarrow> GetUintFromMessage (drop 2 runner);
       Some (SegmentDecoded (epath\<lparr>class_id := v\<rparr>) r 2) }
     else if b = 0x24 then do {
       v \<leftarrow> octet1 runner;
       Some (SegmentDecoded (epath\<lparr>instance_number := ucast v\<rparr>) (drop 2 runner) 1) }
     else if b = 0x25 then do {
       (v, r) \<leftarrow> GetUintFromMessage (drop 2 runner);
       Some (SegmentDecoded (epath\<lparr>instance_number := v\<rparr>) r 2) }
     else if b = 0x30 then do {
       v \<leftarrow> octet1 runner;
       Some (SegmentDecoded (epath\<lparr>attribute_number := ucast v\<rparr>) (drop 2 runner) 1) }
     else if b = 0x31 then do {
       (v, r) \<leftarrow> GetUintFromMessage (drop 2 runner);
       Some (SegmentDecoded (epath\<lparr>attribute_number := v\<rparr>) r 2) }
     else if b = 0x28 then Some (SegmentDecoded epath (drop 2 runner) 1)
     else if b = 0x29 then Some (SegmentDecoded epath (drop 2 runner) 2)
     else Some SegmentError }"

lemma decode_segment_words: "decode_segment e r = Some (SegmentDecoded e' r' k) \<Longrightarrow> k = 1 \<or> k = 2"
  by (auto simp: decode_segment_def bind_eq_Some_conv split: if_splits)

text \<open>
  The loop. \<open>n\<close> is \<^verbatim>\<open>number_of_decoded_elements\<close>; it counts up to at most 256, so a natural
  number stands for the \<^verbatim>\<open>unsigned int\<close>.
\<close>

function decode_segments :: "nat \<Rightarrow> nat \<Rightarrow> CipEpath \<Rightarrow> CipOctet list \<Rightarrow>
    (EipStatus \<times> CipEpath \<times> CipOctet list \<times> nat) run" where
  "decode_segments psize n epath runner =
     (if n < psize then
        (case decode_segment epath runner of
           None \<Rightarrow> None
         | Some SegmentError \<Rightarrow> Some (kEipStatusError, epath, runner, n)
         | Some (SegmentDecoded e r k) \<Rightarrow> decode_segments psize (n + k) e r)
      else Some (kEipStatusOk, epath, runner, n))"
  by pat_completeness auto
termination
  by (relation "measure (\<lambda>(psize, n, _). psize - n)") (auto dest: decode_segment_words)

declare decode_segments.simps [simp del]

text \<open>
  The results are the status, the updated path, the advanced pointer and
  \<^verbatim>\<open>*bytes_consumed\<close>; on an error neither the caller's pointer nor \<^verbatim>\<open>*bytes_consumed\<close> is
  written (\<open>None\<close>).
\<close>

definition DecodePaddedEPath :: "CipEpath \<Rightarrow> CipOctet list \<Rightarrow>
    (EipStatus \<times> CipEpath \<times> CipOctet list \<times> size_t option) run" where
  "DecodePaddedEPath epath msg = do {
     psize \<leftarrow> octet0 msg;
     let epath = epath\<lparr>path_size := psize, class_id := 0, instance_number := 0, attribute_number := 0\<rparr>;
     (status, epath, runner, n) \<leftarrow> decode_segments (unat psize) 0 epath (drop 1 msg);
     Some (if status = kEipStatusOk then (kEipStatusOk, epath, runner, Some (of_nat (n * 2 + 1)))
           else (kEipStatusError, epath, msg, None)) }"

subsection \<open>Octets of a segment\<close>

lemma octet_high_bits:
  assumes "n \<le> 8"
  shows "\<exists>k < 2 ^ (8 - n). drop_bit n (b :: 8 word) = of_nat k"
proof (intro exI conjI)
  show "drop_bit n b = of_nat (unat (drop_bit n b))" by simp
  have b: "unat b < 2 ^ 8" using unsigned_less [of b] by simp
  then have "unat b < 2 ^ (8 - n) * 2 ^ n"
    using assms by (simp flip: power_add)
  moreover have "unat (drop_bit n b) = unat b div 2 ^ n"
    using b by (simp only: unsigned_drop_bit_eq) (simp add: drop_bit_eq_div take_bit_eq_mod)
  ultimately show "unat (drop_bit n b) < 2 ^ (8 - n)"
    by (simp add: less_mult_imp_div_less)
qed

lemma segment_mask_cases:
  "(b :: 8 word) AND 0xE0 \<in> {0x00, 0x20, 0x40, 0x60, 0x80, 0xA0, 0xC0, 0xE0}"
proof -
  have "(0xE0 :: 8 word) = push_bit 5 (mask 3)" by (simp add: mask_eq_exp_minus_1)
  moreover have "b AND push_bit 5 (mask 3) = push_bit 5 (drop_bit 5 b)"
    by (rule bit_word_eqI) (auto simp: bit_simps)
  moreover obtain k :: nat where "k < 8" "drop_bit 5 b = of_nat k"
    using octet_high_bits [of 5 b] by auto
  ultimately have "b AND 0xE0 = push_bit 5 (of_nat k)" by simp
  with \<open>k < 8\<close> show ?thesis
    by (auto simp: less_Suc_eq numeral_eq_Suc push_bit_eq_mult)
qed

subsection \<open>Segments\<close>

lemma octet0_simps [simp]: "octet0 [] = None" "octet0 (b # r) = Some b"
  by (simp_all add: octet0_def array_get_def)

lemma octet1_simps [simp]: "octet1 [] = None" "octet1 [b] = None" "octet1 (a # b # r) = Some b"
  by (simp_all add: octet1_def array_get_def)

text \<open>On a readable path the segment type is always one of the eight the protocol defines
  (the invalid value is never returned), and a segment type that has been set is read back.\<close>

theorem segment_type_roundtrip:
  "cip_path \<noteq> [] \<Longrightarrow> GetPathSegmentType cip_path \<noteq> Some kSegmentTypeInvalid \<and>
   (t \<noteq> kSegmentTypeInvalid \<longrightarrow>
     (\<exists>p. SetPathSegmentType t cip_path = Some p \<and> GetPathSegmentType p = Some t))"
proof (intro conjI impI)
  assume ne: "cip_path \<noteq> []"
  then obtain b r where c: "cip_path = b # r" by (cases cip_path) auto
  show "GetPathSegmentType cip_path \<noteq> Some kSegmentTypeInvalid"
    using segment_mask_cases [of b] by (auto simp: c GetPathSegmentType_def Let_def)
  assume "t \<noteq> kSegmentTypeInvalid"
  with c show "\<exists>p. SetPathSegmentType t cip_path = Some p \<and> GetPathSegmentType p = Some t"
    by (cases t) (simp_all add: SetPathSegmentType_def array_set_def GetPathSegmentType_def)
qed

definition id_bytes :: "CipUsint \<Rightarrow> CipUsint \<Rightarrow> CipUint \<Rightarrow> CipOctet list" where
  "id_bytes code8 code16 v =
     (if v < 256 then [code8, ucast v] else [code16, 0] @ int_bytes v)"

definition id_words :: "CipUint \<Rightarrow> nat" where
  "id_words v = (if v < 256 then 1 else 2)"

lemma length_id_bytes [simp]: "length (id_bytes a b v) = 2 * id_words v"
  by (simp add: id_bytes_def id_words_def)

lemma encode_id_wire:
  "encode_id a b v (m, len) =
     do { m \<leftarrow> emit (id_bytes a b v) m; Some (m, len - of_nat (id_words v)) }"
  by (simp add: encode_id_def wire_simps emit_emit_bind id_bytes_def id_words_def sint_bytes_def)

text \<open>The octets of a path: as many of the three ids as the path size announces.\<close>

definition epath_bytes :: "CipEpath \<Rightarrow> CipOctet list" where
  "epath_bytes e = id_bytes 0x20 0x21 (class_id e) @ id_bytes 0x24 0x25 (instance_number e) @
     id_bytes 0x30 0x31 (attribute_number e)"

definition epath_words :: "CipEpath \<Rightarrow> nat" where
  "epath_words e = id_words (class_id e) + id_words (instance_number e) +
     id_words (attribute_number e)"

lemma id_words_cases: "id_words v = 1 \<or> id_words v = 2"
  by (simp add: id_words_def)

lemma EncodeEPath_wire:
  assumes "unat (path_size e) = epath_words e"
  shows "EncodeEPath e m = emit (epath_bytes e) m"
proof -
  let ?i = "id_words (class_id e)" and ?j = "id_words (instance_number e)"
    and ?k = "id_words (attribute_number e)"
  let ?A = "id_bytes 0x20 0x21 (class_id e)" and ?B = "id_bytes 0x24 0x25 (instance_number e)"
    and ?C = "id_bytes 0x30 0x31 (attribute_number e)"
  have "(of_nat (unat (path_size e)) :: 32 word) = of_nat (?i + ?j + ?k)"
    using assms by (simp only: epath_words_def)
  then have size: "(ucast (path_size e) :: 32 word) = of_nat ?i + of_nat ?j + of_nat ?k"
    by simp
  have used: "emit bs m = Some m' \<Longrightarrow>
      used_message_length m' = used_message_length m + of_nat (length bs)" for bs m m'
    by (erule emit_Some) simp
  have pos: "(0 :: 32 word) < of_nat ?j + of_nat ?k" "(0 :: 32 word) < of_nat ?k"
    by (auto simp: id_words_def)
  have "EncodeEPath e m = do {
      m1 \<leftarrow> emit ?A m; m2 \<leftarrow> emit ?B m1; m3 \<leftarrow> emit ?C m2;
      c_assert (ucast (path_size e) * 2 = used_message_length m3 - used_message_length m);
      Some m3 }"
    by (simp add: EncodeEPath_def encode_id_wire size pos)
  also have "\<dots> = do { m1 \<leftarrow> emit ?A m; m2 \<leftarrow> emit ?B m1; emit ?C m2 }"
    by (auto simp: size used algebra_simps intro!: bind_option_cong split: bind_splits)
  finally show ?thesis
    by (simp add: epath_bytes_def emit_append)
qed

lemma decode_id8:
  assumes "n < psize"
  shows "decode_segments psize n e (0x20 # v # r) = decode_segments psize (n + 1) (e\<lparr>class_id := ucast v\<rparr>) r"
   and "decode_segments psize n e (0x24 # v # r) = decode_segments psize (n + 1) (e\<lparr>instance_number := ucast v\<rparr>) r"
   and "decode_segments psize n e (0x30 # v # r) = decode_segments psize (n + 1) (e\<lparr>attribute_number := ucast v\<rparr>) r"
  using assms by (simp_all add: decode_segments.simps [of psize n] decode_segment_def)

lemma decode_id16:
  assumes "n < psize"
  shows "decode_segments psize n e (0x21 # p # int_bytes v @ r) = decode_segments psize (n + 2) (e\<lparr>class_id := v\<rparr>) r"
   and "decode_segments psize n e (0x25 # p # int_bytes v @ r) = decode_segments psize (n + 2) (e\<lparr>instance_number := v\<rparr>) r"
   and "decode_segments psize n e (0x31 # p # int_bytes v @ r) = decode_segments psize (n + 2) (e\<lparr>attribute_number := v\<rparr>) r"
  using assms by (simp_all add: decode_segments.simps [of psize n] decode_segment_def uint.dec_enc)

lemma ucast_octet: "v < 256 \<Longrightarrow> (ucast (ucast (v :: 16 word) :: 8 word) :: 16 word) = v"
  by (simp add: word_unat_eq_iff word_less_nat_alt unsigned_ucast_eq unsigned_take_bit_eq take_bit_nat_eq_self)

lemma decode_id_bytes:
  assumes "n < psize"
  shows "decode_segments psize n e (id_bytes 0x20 0x21 v @ r) =
      decode_segments psize (n + id_words v) (e\<lparr>class_id := v\<rparr>) r"
    and "decode_segments psize n e (id_bytes 0x24 0x25 v @ r) =
      decode_segments psize (n + id_words v) (e\<lparr>instance_number := v\<rparr>) r"
    and "decode_segments psize n e (id_bytes 0x30 0x31 v @ r) =
      decode_segments psize (n + id_words v) (e\<lparr>attribute_number := v\<rparr>) r"
  using decode_id8 [OF assms, of _ "ucast v"] decode_id16 [OF assms, of _ 0 v]
  by (simp_all add: id_bytes_def id_words_def ucast_octet)

lemma decode_segments_done: "psize \<le> n \<Longrightarrow> decode_segments psize n e r = Some (kEipStatusOk, e, r, n)"
  by (simp add: decode_segments.simps)

lemma epath_bytes_length: "length (epath_bytes e) = 2 * epath_words e" "epath_words e \<le> 6"
  by (auto simp: epath_bytes_def epath_words_def id_words_def)

lemma decode_epath_bytes:
  "DecodePaddedEPath e0 (of_nat (epath_words e) # epath_bytes e @ r) =
      Some (kEipStatusOk, e0\<lparr>path_size := of_nat (epath_words e), class_id := class_id e,
        instance_number := instance_number e, attribute_number := attribute_number e\<rparr>, r,
        Some (of_nat (2 * epath_words e + 1)))"
proof -
  let ?i = "id_words (class_id e)" and ?j = "id_words (instance_number e)" and ?k = "id_words (attribute_number e)"
  have pos: "0 < ?i" "0 < ?j" "0 < ?k" and sz: "epath_words e = ?i + ?j + ?k"
    by (simp_all add: id_words_def epath_words_def)
  have "decode_segments (epath_words e) 0 e1 (epath_bytes e @ r) =
      Some (kEipStatusOk, e1\<lparr>class_id := class_id e, instance_number := instance_number e,
        attribute_number := attribute_number e\<rparr>, r, epath_words e)" for e1
    unfolding epath_bytes_def append_assoc
    using pos by (simp add: decode_id_bytes decode_segments_done sz)
  moreover have "unat (of_nat (epath_words e) :: CipUsint) = epath_words e"
    using epath_bytes_length(2) [of e] by (simp add: unat_of_nat take_bit_nat_eq_self)
  ultimately show ?thesis
    by (simp add: DecodePaddedEPath_def mult.commute del: of_nat_add of_nat_mult)
qed

text \<open>The first \<open>k\<close> of class, instance and attribute, as octets, as words and as the path the decoder makes of them.\<close>

definition prefix_bytes :: "nat \<Rightarrow> CipEpath \<Rightarrow> CipOctet list" where
  "prefix_bytes k e = concat (take k [id_bytes 0x20 0x21 (class_id e), id_bytes 0x24 0x25 (instance_number e),
     id_bytes 0x30 0x31 (attribute_number e)])"

definition prefix_words :: "nat \<Rightarrow> CipEpath \<Rightarrow> nat" where
  "prefix_words k e = sum_list (map id_words (take k [class_id e, instance_number e, attribute_number e]))"

definition prefix_path :: "nat \<Rightarrow> CipEpath \<Rightarrow> CipEpath" where
  "prefix_path k e = e\<lparr>instance_number := (if k < 2 then 0 else instance_number e),
     attribute_number := (if k < 3 then 0 else attribute_number e)\<rparr>"

lemma prefix_simps:
  "prefix_bytes 1 e = id_bytes 0x20 0x21 (class_id e)"
  "prefix_bytes 2 e = id_bytes 0x20 0x21 (class_id e) @ id_bytes 0x24 0x25 (instance_number e)"
  "prefix_bytes 3 e = epath_bytes e"
  "prefix_words 1 e = id_words (class_id e)"
  "prefix_words 2 e = id_words (class_id e) + id_words (instance_number e)"
  "prefix_words 3 e = epath_words e"
  by (simp_all add: prefix_bytes_def prefix_words_def epath_bytes_def epath_words_def take_Cons numeral_eq_Suc)

lemma EncodeEPath_short:
  "unat (path_size e) = id_words (class_id e) \<Longrightarrow> EncodeEPath e m = emit (id_bytes 0x20 0x21 (class_id e)) m"
  "unat (path_size e) = id_words (class_id e) + id_words (instance_number e) \<Longrightarrow>
    EncodeEPath e m = emit (id_bytes 0x20 0x21 (class_id e) @ id_bytes 0x24 0x25 (instance_number e)) m"
proof -
  let ?i = "id_words (class_id e)" and ?j = "id_words (instance_number e)"
  let ?A = "id_bytes 0x20 0x21 (class_id e)" and ?B = "id_bytes 0x24 0x25 (instance_number e)"
  have used: "emit bs m = Some m' \<Longrightarrow>
      used_message_length m' = used_message_length m + of_nat (length bs)" for bs m m'
    by (erule emit_Some) simp
  show "EncodeEPath e m = emit ?A m" if "unat (path_size e) = ?i"
  proof -
    have size: "(ucast (path_size e) :: 32 word) = of_nat ?i" using that by (metis of_nat_unat)
    have "EncodeEPath e m = do { m1 \<leftarrow> emit ?A m; c_assert (ucast (path_size e) * 2 = used_message_length m1 - used_message_length m); Some m1 }"
      by (simp add: EncodeEPath_def encode_id_wire size)
    also have "\<dots> = emit ?A m" by (auto simp: size used algebra_simps split: bind_splits)
    finally show ?thesis .
  qed
  show "EncodeEPath e m = emit (?A @ ?B) m" if "unat (path_size e) = ?i + ?j"
  proof -
    have "(of_nat (unat (path_size e)) :: 32 word) = of_nat (?i + ?j)" using that by (simp only:)
    then have size: "(ucast (path_size e) :: 32 word) = of_nat ?i + of_nat ?j" by simp
    have pos: "(0 :: 32 word) < of_nat ?j" by (auto simp: id_words_def)
    have "EncodeEPath e m = do { m1 \<leftarrow> emit ?A m; m2 \<leftarrow> emit ?B m1;
        c_assert (ucast (path_size e) * 2 = used_message_length m2 - used_message_length m); Some m2 }"
      by (simp add: EncodeEPath_def encode_id_wire size pos)
    also have "\<dots> = do { m1 \<leftarrow> emit ?A m; emit ?B m1 }"
      by (auto simp: size used algebra_simps intro!: bind_option_cong split: bind_splits)
    finally show ?thesis by (simp add: emit_append)
  qed
qed

lemma decode_segments_short:
  "decode_segments (id_words c) 0 e (id_bytes 0x20 0x21 c @ r) = Some (kEipStatusOk, e\<lparr>class_id := c\<rparr>, r, id_words c)"
  "decode_segments (id_words c + id_words i) 0 e (id_bytes 0x20 0x21 c @ id_bytes 0x24 0x25 i @ r) =
    Some (kEipStatusOk, e\<lparr>class_id := c, instance_number := i\<rparr>, r, id_words c + id_words i)"
proof -
  have pos: "0 < id_words c" "0 < id_words i" by (simp_all add: id_words_def)
  then show "decode_segments (id_words c) 0 e (id_bytes 0x20 0x21 c @ r) = Some (kEipStatusOk, e\<lparr>class_id := c\<rparr>, r, id_words c)"
    by (simp add: decode_id_bytes decode_segments_done)
  from pos show "decode_segments (id_words c + id_words i) 0 e (id_bytes 0x20 0x21 c @ id_bytes 0x24 0x25 i @ r) =
    Some (kEipStatusOk, e\<lparr>class_id := c, instance_number := i\<rparr>, r, id_words c + id_words i)"
    by (simp add: decode_id_bytes decode_segments_done)
qed

text \<open>C21: a path whose size counts the words of its class, of class and instance, or of class,
  instance and attribute, is written as exactly these ids, with 8- or 16-bit segments; the decoder
  recovers them from the octets, sets the ids that are not part of the path to 0, leaves the pointer
  behind the path and reports one octet for the size plus two per word.\<close>

theorem epath_encode_decode:
  assumes "k \<in> {1, 2, 3}" and "unat (path_size e) = prefix_words k e"
  shows "EncodeEPath e m = emit (prefix_bytes k e) m \<and>
    DecodePaddedEPath e0 (path_size e # prefix_bytes k e @ r) =
      Some (kEipStatusOk, prefix_path k e, r, Some (of_nat (2 * unat (path_size e) + 1)))"
proof -
  have path: "e0\<lparr>path_size := path_size e, class_id := class_id e, instance_number := i, attribute_number := a\<rparr> =
      e\<lparr>instance_number := i, attribute_number := a\<rparr>" for i a
    by (cases e; cases e0) simp
  consider "k = 1" | "k = 2" | "k = 3" using assms(1) by auto
  then show ?thesis
  proof cases
    case 1
    with assms(2) EncodeEPath_short(1) [of e m] decode_segments_short(1) [of "class_id e"] path show ?thesis
      by (simp add: prefix_simps [simplified] prefix_path_def DecodePaddedEPath_def)
  next
    case 2
    with assms(2) EncodeEPath_short(2) [of e m] decode_segments_short(2) [of "class_id e" "instance_number e"] path show ?thesis
      by (simp add: prefix_simps prefix_path_def DecodePaddedEPath_def)
  next
    case 3
    with assms(2) have size: "unat (path_size e) = epath_words e" by (simp add: prefix_simps)
    have "path_size e = of_nat (epath_words e)" by (simp flip: size)
    note size = size this
    from EncodeEPath_wire [OF size(1)] decode_epath_bytes [of e0 e r] path 3 show ?thesis
      by (simp add: prefix_simps prefix_path_def size(1) flip: size(2))
  qed
qed










text \<open>For a 16-bit member id the decoder counts two words but advances the pointer by one
  word only, so the request data start inside the path.\<close>

theorem member_id_16_pointer_mismatch:
  "DecodePaddedEPath e [2, 0x29, 0x00, 0x05, 0x00, 0xAA] =
     Some (kEipStatusOk, e\<lparr>path_size := 2, class_id := 0, instance_number := 0, attribute_number := 0\<rparr>,
       [0x05, 0x00, 0xAA], Some 5)"
  by (simp add: DecodePaddedEPath_def decode_segments.simps decode_segment_def)

lemma epath_equal_from_iff:
  "i \<le> n \<Longrightarrow> n \<le> length p \<Longrightarrow> n \<le> length q \<Longrightarrow>
    epath_equal_from i n p q = Some (drop i (take n p) = drop i (take n q))"
proof (induction i n p q rule: epath_equal_from.induct)
  case (1 i n p q)
  show ?case
  proof (cases "i < n")
    case True
    have "drop i (take n p) = p ! i # drop (Suc i) (take n p)"
      "drop i (take n q) = q ! i # drop (Suc i) (take n q)"
      using True "1.prems" by (simp_all add: Cons_nth_drop_Suc [symmetric])
    with 1 True show ?thesis by (simp add: epath_equal_from.simps [of i])
  next
    case False
    with 1 show ?thesis by (simp add: epath_equal_from.simps [of n])
  qed
qed

text \<open>The path comparison is equality of the octets within the two given lengths.\<close>

theorem CipEpathEqual_correct:
  assumes "unat n1 \<le> length p1" and "unat n2 \<le> length p2"
  shows "CipEpathEqual p1 n1 p2 n2 = Some (take (unat n1) p1 = take (unat n2) p2)"
proof (cases "n1 = n2")
  case True
  then show ?thesis using assms by (simp add: CipEpathEqual_def epath_equal_from_iff)
next
  case False
  then have "length (take (unat n1) p1) \<noteq> length (take (unat n2) p2)"
    using assms by (simp add: min_absorb2 word_unat_eq_iff)
  with False show ?thesis by (auto simp: CipEpathEqual_def dest: arg_cong [where f = length])
qed

theorem CipEpathEqual_correct_witness:
  "CipEpathEqual [0x20, 0x04] 2 [0x20, 0x04, 0x24] 2 = Some True"
  using CipEpathEqual_correct [of 2 "[0x20, 0x04]" 2 "[0x20, 0x04, 0x24]"] by simp

theorem epath_encode_decode_witness:
  "DecodePaddedEPath \<lparr>path_size = 0, class_id = 0, instance_number = 0, attribute_number = 0\<rparr>
      (2 # prefix_bytes 2 \<lparr>path_size = 2, class_id = 0xF6, instance_number = 1, attribute_number = 0\<rparr> @ [7]) =
    Some (kEipStatusOk, \<lparr>path_size = 2, class_id = 0xF6, instance_number = 1, attribute_number = 0\<rparr>, [7], Some 5)"
  using epath_encode_decode [of 2 "\<lparr>path_size = 2, class_id = 0xF6, instance_number = 1, attribute_number = 0\<rparr>" _
     "\<lparr>path_size = 0, class_id = 0, instance_number = 0, attribute_number = 0\<rparr>" "[7]"]
  by (simp add: prefix_simps prefix_path_def id_words_def)

theorem segment_type_roundtrip_witness:
  "\<exists>p. SetPathSegmentType kSegmentTypeLogicalSegment [0xFF, 1] = Some p \<and>
     GetPathSegmentType p = Some kSegmentTypeLogicalSegment"
  using segment_type_roundtrip [of "[0xFF, 1]" kSegmentTypeLogicalSegment] by simp

end
