(* ===== verification/DoublyLinkedList.thy ===== *)
theory DoublyLinkedList
  imports Prelude
begin

text \<open>
  The doubly linked list of \<^verbatim>\<open>utils/doublylinkedlist.c\<close> with the array allocator of
  \<^verbatim>\<open>cip/cipconnectionobject.c\<close>, the only one the program installs. A node pointer is an index
  into the allocator's static array; the null pointer is \<open>None\<close>. The data pointer of a node is the
  number of the connection object it refers to.

  The operations are shown to implement insertion into and removal from a finite sequence, and the
  clients use them through the locale \<open>node_sequence\<close>.
\<close>

subsection \<open>Nodes and lists\<close>

record DoublyLinkedListNode =
  previous_node :: "nat option"
  next_node :: "nat option"
  node_data :: "nat option"

definition null_node :: DoublyLinkedListNode where
  "null_node = \<lparr>previous_node = None, next_node = None, node_data = None\<rparr>"

text \<open>\<open>allocator\<close> and \<open>deallocator\<close> say whether the two function pointers are set.\<close>

record DoublyLinkedList =
  nodes :: "DoublyLinkedListNode list"
  first_node :: "nat option"
  last_node :: "nat option"
  allocator :: bool
  deallocator :: bool

definition DoublyLinkedListInitialize :: "DoublyLinkedList \<Rightarrow> DoublyLinkedList" where
  "DoublyLinkedListInitialize l =
     l\<lparr>first_node := None, last_node := None, allocator := True, deallocator := True\<rparr>"

definition CipConnectionObjectListArrayAllocator :: "DoublyLinkedList \<Rightarrow> nat option" where
  "CipConnectionObjectListArrayAllocator l =
     first_index (\<lambda>n. previous_node n = None \<and> next_node n = None \<and> node_data n = None) (nodes l)"

definition update_node :: "nat \<Rightarrow> (DoublyLinkedListNode \<Rightarrow> DoublyLinkedListNode) \<Rightarrow> DoublyLinkedList \<Rightarrow> DoublyLinkedList run" where
  "update_node i f l = do {
     n \<leftarrow> array_get (nodes l) i;
     ns \<leftarrow> array_set (nodes l) i (f n);
     Some (l\<lparr>nodes := ns\<rparr>) }"

definition CipConnectionObjectListArrayFree :: "nat option \<Rightarrow> DoublyLinkedList \<Rightarrow> DoublyLinkedList run" where
  "CipConnectionObjectListArrayFree node l = (case node of
       Some i \<Rightarrow> update_node i (\<lambda>_. null_node) l
     | None \<Rightarrow> Some l)"

definition DoublyLinkedListNodeCreate :: "nat \<Rightarrow> DoublyLinkedList \<Rightarrow> (nat \<times> DoublyLinkedList) run" where
  "DoublyLinkedListNodeCreate data l = do {
     i \<leftarrow> CipConnectionObjectListArrayAllocator l;
     l \<leftarrow> update_node i (\<lambda>n. n\<lparr>node_data := Some data\<rparr>) l;
     Some (i, l) }"

definition DoublyLinkedListNodeDestroy :: "nat option \<Rightarrow> DoublyLinkedList \<Rightarrow> DoublyLinkedList run" where
  "DoublyLinkedListNodeDestroy node l = do {
     c_assert (deallocator l);
     CipConnectionObjectListArrayFree node l }"

definition DoublyLinkedListInsertAtHead :: "nat \<Rightarrow> DoublyLinkedList \<Rightarrow> DoublyLinkedList run" where
  "DoublyLinkedListInsertAtHead data l = do {
     c_assert (allocator l);
     (i, l) \<leftarrow> DoublyLinkedListNodeCreate data l;
     (case first_node l of
        None \<Rightarrow> Some (l\<lparr>first_node := Some i, last_node := Some i\<rparr>)
      | Some f \<Rightarrow> do {
          l \<leftarrow> update_node i (\<lambda>n. n\<lparr>next_node := Some f\<rparr>) l;
          l \<leftarrow> update_node f (\<lambda>n. n\<lparr>previous_node := Some i\<rparr>) l;
          Some (l\<lparr>first_node := Some i\<rparr>) }) }"

definition DoublyLinkedListInsertAtTail :: "nat \<Rightarrow> DoublyLinkedList \<Rightarrow> DoublyLinkedList run" where
  "DoublyLinkedListInsertAtTail data l = do {
     c_assert (allocator l);
     (i, l) \<leftarrow> DoublyLinkedListNodeCreate data l;
     (case last_node l of
        None \<Rightarrow> Some (l\<lparr>first_node := Some i, last_node := Some i\<rparr>)
      | Some t \<Rightarrow> do {
          l \<leftarrow> update_node i (\<lambda>n. n\<lparr>previous_node := Some t\<rparr>) l;
          l \<leftarrow> update_node t (\<lambda>n. n\<lparr>next_node := Some i\<rparr>) l;
          Some (l\<lparr>last_node := Some i\<rparr>) }) }"

definition DoublyLinkedListInsertBeforeNode :: "nat \<Rightarrow> nat \<Rightarrow> DoublyLinkedList \<Rightarrow> DoublyLinkedList run" where
  "DoublyLinkedListInsertBeforeNode node data l = do {
     c_assert (allocator l);
     if first_node l = Some node then DoublyLinkedListInsertAtHead data l
     else do {
       (i, l) \<leftarrow> DoublyLinkedListNodeCreate data l;
       n \<leftarrow> array_get (nodes l) node;
       l \<leftarrow> update_node i (\<lambda>x. x\<lparr>previous_node := previous_node n, next_node := Some node\<rparr>) l;
       l \<leftarrow> update_node node (\<lambda>x. x\<lparr>previous_node := Some i\<rparr>) l;
       p \<leftarrow> previous_node n;
       update_node p (\<lambda>x. x\<lparr>next_node := Some i\<rparr>) l } }"

definition DoublyLinkedListInsertAfterNode :: "nat \<Rightarrow> nat \<Rightarrow> DoublyLinkedList \<Rightarrow> DoublyLinkedList run" where
  "DoublyLinkedListInsertAfterNode node data l = do {
     c_assert (allocator l);
     if last_node l = Some node then DoublyLinkedListInsertAtTail data l
     else do {
       (i, l) \<leftarrow> DoublyLinkedListNodeCreate data l;
       n \<leftarrow> array_get (nodes l) node;
       l \<leftarrow> update_node i (\<lambda>x. x\<lparr>previous_node := Some node, next_node := next_node n\<rparr>) l;
       k \<leftarrow> next_node n;
       l \<leftarrow> update_node k (\<lambda>x. x\<lparr>previous_node := Some i\<rparr>) l;
       update_node node (\<lambda>x. x\<lparr>next_node := Some i\<rparr>) l } }"

definition DoublyLinkedListRemoveNode :: "nat \<Rightarrow> DoublyLinkedList \<Rightarrow> DoublyLinkedList run" where
  "DoublyLinkedListRemoveNode node l = do {
     n \<leftarrow> array_get (nodes l) node;
     l \<leftarrow> (if first_node l = Some node \<and> last_node l = Some node
           then Some (l\<lparr>first_node := None, last_node := None\<rparr>)
           else do {
             let l = (if first_node l = Some node then l\<lparr>first_node := next_node n\<rparr> else l);
             let l = (if last_node l = Some node then l\<lparr>last_node := previous_node n\<rparr> else l);
             l \<leftarrow> (case previous_node n of
                     Some p \<Rightarrow> update_node p (\<lambda>x. x\<lparr>next_node := next_node n\<rparr>) l
                   | None \<Rightarrow> Some l);
             (case next_node n of
                Some k \<Rightarrow> update_node k (\<lambda>x. x\<lparr>previous_node := previous_node n\<rparr>) l
              | None \<Rightarrow> Some l) });
     DoublyLinkedListNodeDestroy (Some node) l }"

text \<open>
  The loop of \<^verbatim>\<open>DoublyLinkedListDestroy\<close>; the successor is read before the node is freed. It
  does not end on a cyclic list.
\<close>

partial_function (option) destroy_from :: "nat option \<Rightarrow> DoublyLinkedList \<Rightarrow> DoublyLinkedList option" where
  "destroy_from iterator l = (case iterator of
       None \<Rightarrow> Some l
     | Some i \<Rightarrow> do {
         n \<leftarrow> array_get (nodes l) i;
         l \<leftarrow> DoublyLinkedListNodeDestroy (Some i) l;
         destroy_from (next_node n) l })"

definition DoublyLinkedListDestroy :: "DoublyLinkedList \<Rightarrow> DoublyLinkedList run" where
  "DoublyLinkedListDestroy l = do {
     l \<leftarrow> destroy_from (first_node l) l;
     Some (l\<lparr>first_node := None, last_node := None, allocator := False, deallocator := False\<rparr>) }"

subsection \<open>Chains of nodes\<close>

definition head_or :: "nat list \<Rightarrow> nat option \<Rightarrow> nat option" where
  "head_or is q = (case is of [] \<Rightarrow> q | i # _ \<Rightarrow> Some i)"

definition last_or :: "nat list \<Rightarrow> nat option \<Rightarrow> nat option" where
  "last_or is p = (if is = [] then p else Some (last is))"

text \<open>The nodes \<open>is\<close> in order, entered from \<open>p\<close> and left towards \<open>q\<close>.\<close>

fun linked :: "DoublyLinkedListNode list \<Rightarrow> nat option \<Rightarrow> nat list \<Rightarrow> nat option \<Rightarrow> bool" where
  "linked ns p [] q = True"
| "linked ns p (i # is) q = (i < length ns \<and> previous_node (ns ! i) = p \<and>
     next_node (ns ! i) = head_or is q \<and> node_data (ns ! i) \<noteq> None \<and> linked ns (Some i) is q)"

lemma head_or_simps [simp]: "head_or [] q = q" "head_or (i # is) q = Some i"
  "head_or (xs @ ys) q = head_or xs (head_or ys q)"
  by (simp_all add: head_or_def split: list.splits)

lemma last_or_simps [simp]: "last_or [] p = p" "last_or (i # is) p = last_or is (Some i)"
  "last_or (xs @ ys) p = last_or ys (last_or xs p)"
  by (simp_all add: last_or_def)

lemma linked_append:
  "linked ns p (xs @ ys) q \<longleftrightarrow> linked ns p xs (head_or ys q) \<and> linked ns (last_or xs p) ys q"
  by (induction xs arbitrary: p) auto

lemma linked_bound: "linked ns p is q \<Longrightarrow> i \<in> set is \<Longrightarrow> i < length ns \<and> node_data (ns ! i) \<noteq> None"
  by (induction ns p "is" q rule: linked.induct) auto

lemma linked_frame [frame_simps]: "k \<notin> set is \<Longrightarrow> linked (ns[k := n]) p is q = linked ns p is q"
  by (induction "is" arbitrary: p) (auto simp: nth_list_update)

text \<open>Redirecting the pointer that leaves a chain and the one that enters it.\<close>

lemma linked_redirect_next:
  assumes "linked ns p (xs @ [x]) q" and "x \<notin> set xs"
  shows "linked (ns[x := (ns ! x)\<lparr>next_node := q'\<rparr>]) p (xs @ [x]) q'"
  using assms by (simp add: linked_append linked_frame)

lemma linked_redirect_previous:
  assumes "linked ns p (y # ys) q" and "y \<notin> set ys"
  shows "linked (ns[y := (ns ! y)\<lparr>previous_node := p'\<rparr>]) p' (y # ys) q"
  using assms by (simp add: linked_frame)

subsection \<open>Well-formed lists\<close>

definition dll_wf :: "DoublyLinkedList \<Rightarrow> nat list \<Rightarrow> bool" where
  "dll_wf l is \<longleftrightarrow> linked (nodes l) None is None \<and> distinct is \<and>
     first_node l = head_or is None \<and> last_node l = last_or is None \<and>
     (\<forall>i < length (nodes l). i \<notin> set is \<longrightarrow> nodes l ! i = null_node) \<and> allocator l \<and> deallocator l"

definition dll_data :: "DoublyLinkedList \<Rightarrow> nat list \<Rightarrow> nat list" where
  "dll_data l is = map (\<lambda>i. the (node_data (nodes l ! i))) is"

lemma update_node_less: "i < length (nodes l) \<Longrightarrow> update_node i f l = Some (l\<lparr>nodes := (nodes l)[i := f (nodes l ! i)]\<rparr>)"
  by (simp add: update_node_def)

lemma Initialize_wf: "\<forall>n \<in> set (nodes l). n = null_node \<Longrightarrow> dll_wf (DoublyLinkedListInitialize l) []"
  by (simp add: dll_wf_def DoublyLinkedListInitialize_def)

lemma allocator_fresh:
  assumes "dll_wf l is" and "length is < length (nodes l)"
  shows "\<exists>i < length (nodes l). CipConnectionObjectListArrayAllocator l = Some i \<and> i \<notin> set is \<and> nodes l ! i = null_node"
proof -
  have "card (set is) < card {..< length (nodes l)}"
    using assms by (simp add: dll_wf_def distinct_card)
  then obtain k where k: "k < length (nodes l)" "k \<notin> set is"
    by (metis card_mono finite_lessThan lessThan_iff linorder_not_less subsetI finite_set)
  then have "nodes l ! k = null_node"
    using assms(1) by (simp add: dll_wf_def)
  with k(1) have "null_node \<in> set (nodes l)" by (metis nth_mem)
  then obtain i where i: "CipConnectionObjectListArrayAllocator l = Some i"
    unfolding CipConnectionObjectListArrayAllocator_def
    using first_index_exists [of null_node "nodes l"] by (force simp: null_node_def)
  then have "i < length (nodes l)" "node_data (nodes l ! i) = None"
    using first_index_SomeD unfolding CipConnectionObjectListArrayAllocator_def by fastforce+
  moreover from this have "i \<notin> set is"
    using assms(1) linked_bound unfolding dll_wf_def by blast
  ultimately show ?thesis
    using assms(1) i by (auto simp: dll_wf_def)
qed


subsection \<open>Insertion\<close>

lemma NodeCreate_fresh:
  assumes "dll_wf l is" and "length is < length (nodes l)"
  shows "\<exists>i < length (nodes l). i \<notin> set is \<and> nodes l ! i = null_node \<and>
    DoublyLinkedListNodeCreate d l = Some (i, l\<lparr>nodes := (nodes l)[i := null_node\<lparr>node_data := Some d\<rparr>]\<rparr>)"
  using allocator_fresh [OF assms] by (force simp: DoublyLinkedListNodeCreate_def update_node_less)

text \<open>The data of the nodes that stay, when only link fields of the old nodes change.\<close>

lemma dll_data_cong:
  "(\<And>i. i \<in> set is \<Longrightarrow> node_data (nodes l' ! i) = node_data (nodes l ! i)) \<Longrightarrow> dll_data l' is = dll_data l is"
  by (simp add: dll_data_def)

lemma InsertAtHead_wf:
  assumes wf: "dll_wf l is" and room: "length is < length (nodes l)"
  shows "\<exists>l' i. DoublyLinkedListInsertAtHead d l = Some l' \<and> dll_wf l' (i # is) \<and> i \<notin> set is \<and>
    dll_data l' (i # is) = d # dll_data l is \<and> length (nodes l') = length (nodes l)"
proof -
  obtain i where i: "i < length (nodes l)" "i \<notin> set is"
    "DoublyLinkedListNodeCreate d l = Some (i, l\<lparr>nodes := (nodes l)[i := null_node\<lparr>node_data := Some d\<rparr>]\<rparr>)"
    using NodeCreate_fresh [OF assms] by blast
  show ?thesis
  proof (cases "is")
    case Nil
    with wf i show ?thesis
      by (auto simp: DoublyLinkedListInsertAtHead_def dll_wf_def dll_data_def null_node_def
          intro!: exI [of _ i])
  next
    case (Cons f r)
    with wf i have f: "f < length (nodes l)" "f \<noteq> i" "f \<notin> set r" "i \<notin> set r" by (auto simp: dll_wf_def)
    let ?n = "\<lparr>previous_node = None, next_node = Some f, node_data = Some d\<rparr>"
    let ?ns = "(nodes l)[i := ?n, f := (nodes l ! f)\<lparr>previous_node := Some i\<rparr>]"
    let ?l = "l\<lparr>nodes := ?ns, first_node := Some i\<rparr>"
    have "DoublyLinkedListInsertAtHead d l = Some ?l"
      using wf i f Cons
      by (simp add: DoublyLinkedListInsertAtHead_def dll_wf_def update_node_less null_node_def)
    moreover have "dll_wf ?l (i # is)"
      using wf i(1,2) f Cons by (auto simp: dll_wf_def linked_frame nth_list_update)
    moreover have "dll_data ?l (i # is) = d # dll_data l is"
      using i f Cons by (auto simp: dll_data_def nth_list_update)
    ultimately show ?thesis
      using i(2) by (intro exI [of _ ?l] exI [of _ i]) simp
  qed
qed

lemma InsertAtTail_wf:
  assumes wf: "dll_wf l is" and room: "length is < length (nodes l)"
  shows "\<exists>l' i. DoublyLinkedListInsertAtTail d l = Some l' \<and> dll_wf l' (is @ [i]) \<and> i \<notin> set is \<and>
    dll_data l' (is @ [i]) = dll_data l is @ [d] \<and> length (nodes l') = length (nodes l)"
proof -
  obtain i where i: "i < length (nodes l)" "i \<notin> set is"
    "DoublyLinkedListNodeCreate d l = Some (i, l\<lparr>nodes := (nodes l)[i := null_node\<lparr>node_data := Some d\<rparr>]\<rparr>)"
    using NodeCreate_fresh [OF assms] by blast
  show ?thesis
  proof (cases "is" rule: rev_cases)
    case Nil
    with wf i show ?thesis
      by (auto simp: DoublyLinkedListInsertAtTail_def dll_wf_def dll_data_def null_node_def
          intro!: exI [of _ i])
  next
    case (snoc r t)
    with wf i have t: "t < length (nodes l)" "t \<noteq> i" "t \<notin> set r" "i \<notin> set r"
      by (auto simp: dll_wf_def linked_append)
    let ?n = "\<lparr>previous_node = Some t, next_node = None, node_data = Some d\<rparr>"
    let ?ns = "(nodes l)[i := ?n, t := (nodes l ! t)\<lparr>next_node := Some i\<rparr>]"
    let ?l = "l\<lparr>nodes := ?ns, last_node := Some i\<rparr>"
    have "DoublyLinkedListInsertAtTail d l = Some ?l"
      using wf i t snoc
      by (simp add: DoublyLinkedListInsertAtTail_def dll_wf_def update_node_less null_node_def)
    moreover have "dll_wf ?l (is @ [i])"
      using wf i(1,2) t snoc by (auto simp: dll_wf_def linked_frame linked_append nth_list_update)
    moreover have "dll_data ?l (is @ [i]) = dll_data l is @ [d]"
      using i t snoc by (auto simp: dll_data_def nth_list_update)
    ultimately show ?thesis
      using i(2) by (intro exI [of _ ?l] exI [of _ i]) simp
  qed
qed

lemma ends_in:
  "last_or zs p = Some k \<Longrightarrow> k \<in> set zs \<or> p = Some k" "head_or zs p = Some k \<Longrightarrow> k \<in> set zs \<or> p = Some k"
  by (cases zs rule: rev_cases; auto simp: last_or_def) (cases zs; auto)

subsection \<open>Removal\<close>

lemma RemoveNode_wf:
  assumes wf: "dll_wf l (xs @ i # ys)"
  shows "\<exists>l'. DoublyLinkedListRemoveNode i l = Some l' \<and> dll_wf l' (xs @ ys) \<and>
    dll_data l' (xs @ ys) = dll_data l xs @ dll_data l ys \<and> nodes l' ! i = null_node \<and>
    length (nodes l') = length (nodes l)"
proof -
  have i: "i < length (nodes l)" "i \<notin> set xs" "i \<notin> set ys" "set xs \<inter> set ys = {}" "distinct xs" "distinct ys"
    and p: "previous_node (nodes l ! i) = last_or xs None" and n: "next_node (nodes l ! i) = head_or ys None"
    using wf by (auto simp: dll_wf_def linked_append)
  note defs = DoublyLinkedListRemoveNode_def DoublyLinkedListNodeDestroy_def
    CipConnectionObjectListArrayFree_def update_node_less
  show ?thesis
  proof (cases xs rule: rev_cases)
    case xs: Nil
    show ?thesis
    proof (cases ys)
      case Nil
      with wf xs i p n show ?thesis
        by (simp add: defs dll_wf_def dll_data_def nth_list_update)
    next
      case (Cons y zs)
      then have y: "y < length (nodes l)" "y \<noteq> i" "y \<notin> set zs" "i \<notin> set zs" using wf xs i by (auto simp: dll_wf_def)
      then have "last_or zs (Some y) \<noteq> Some i" using ends_in by blast
      with wf xs i p n Cons y show ?thesis
        by (auto simp: defs dll_wf_def dll_data_def linked_frame nth_list_update split: if_splits)
    qed
  next
    case xs: (snoc ws w)
    then have w: "w < length (nodes l)" "w \<noteq> i" "w \<notin> set ws" "i \<notin> set ws" using wf i by (auto simp: dll_wf_def linked_append)
    then have hw: "head_or ws (Some w) \<noteq> Some i" using ends_in by blast
    show ?thesis
    proof (cases ys)
      case Nil
      with wf xs i p n w hw show ?thesis
        by (auto simp: defs dll_wf_def dll_data_def linked_append linked_frame nth_list_update split: if_splits)
    next
      case (Cons y zs)
      then have y: "y < length (nodes l)" "y \<noteq> i" "y \<notin> set zs" "i \<notin> set zs" "y \<noteq> w" "y \<notin> set ws" "w \<notin> set zs"
        using wf xs i by (auto simp: dll_wf_def linked_append)
      then have "last_or zs (Some y) \<noteq> Some i" using ends_in by blast
      with wf xs i p n w hw y Cons show ?thesis
        by (auto simp: defs dll_wf_def dll_data_def linked_append linked_frame nth_list_update split: if_splits)
    qed
  qed
qed

lemma InsertBeforeNode_wf:
  assumes wf: "dll_wf l (xs @ k # ys)" and room: "length (xs @ k # ys) < length (nodes l)"
  shows "\<exists>l' i. DoublyLinkedListInsertBeforeNode k d l = Some l' \<and> dll_wf l' (xs @ i # k # ys) \<and>
    dll_data l' (xs @ i # k # ys) = dll_data l xs @ d # dll_data l (k # ys)"
proof (cases xs rule: rev_cases)
  case Nil
  then have "DoublyLinkedListInsertBeforeNode k d l = DoublyLinkedListInsertAtHead d l"
    using wf by (simp add: DoublyLinkedListInsertBeforeNode_def dll_wf_def)
  with InsertAtHead_wf [OF wf room, of d] Nil show ?thesis by (auto simp: dll_data_def)
next
  case (snoc ws w)
  obtain i where i: "i < length (nodes l)" "i \<notin> set (xs @ k # ys)" "nodes l ! i = null_node"
    "DoublyLinkedListNodeCreate d l = Some (i, l\<lparr>nodes := (nodes l)[i := null_node\<lparr>node_data := Some d\<rparr>]\<rparr>)"
    using NodeCreate_fresh [OF assms] by blast
  have k: "k < length (nodes l)" "w < length (nodes l)" "w \<noteq> k" "k \<notin> set ws" "k \<notin> set ys" "w \<notin> set ws" "w \<notin> set ys"
    "previous_node (nodes l ! k) = Some w"
    using wf snoc by (auto simp: dll_wf_def linked_append)
  have "head_or ws (Some w) \<noteq> Some k" using k ends_in by blast
  then have f: "first_node l \<noteq> Some k" using wf snoc by (simp add: dll_wf_def)
  let ?n = "\<lparr>previous_node = Some w, next_node = Some k, node_data = Some d\<rparr>"
  let ?l = "l\<lparr>nodes := (nodes l)[i := ?n, k := (nodes l ! k)\<lparr>previous_node := Some i\<rparr>, w := (nodes l ! w)\<lparr>next_node := Some i\<rparr>]\<rparr>"
  have "DoublyLinkedListInsertBeforeNode k d l = Some ?l"
    using wf i k f snoc
    by (auto simp: DoublyLinkedListInsertBeforeNode_def dll_wf_def update_node_less null_node_def nth_list_update)
  moreover have "dll_wf ?l (xs @ i # k # ys)"
    using wf i(1,2) k snoc by (auto simp: dll_wf_def linked_append linked_frame nth_list_update)
  moreover have "dll_data ?l (xs @ i # k # ys) = dll_data l xs @ d # dll_data l (k # ys)"
    using i k snoc by (auto simp: dll_data_def nth_list_update)
  ultimately show ?thesis by blast
qed

lemma InsertAfterNode_wf:
  assumes wf: "dll_wf l (xs @ k # ys)" and room: "length (xs @ k # ys) < length (nodes l)"
  shows "\<exists>l' i. DoublyLinkedListInsertAfterNode k d l = Some l' \<and> dll_wf l' (xs @ k # i # ys) \<and>
    dll_data l' (xs @ k # i # ys) = dll_data l (xs @ [k]) @ d # dll_data l ys"
proof (cases ys)
  case Nil
  then have "DoublyLinkedListInsertAfterNode k d l = DoublyLinkedListInsertAtTail d l"
    using wf by (simp add: DoublyLinkedListInsertAfterNode_def dll_wf_def)
  with InsertAtTail_wf [OF wf room, of d] Nil show ?thesis by (auto simp: dll_data_def)
next
  case (Cons y zs)
  obtain i where i: "i < length (nodes l)" "i \<notin> set (xs @ k # ys)" "nodes l ! i = null_node"
    "DoublyLinkedListNodeCreate d l = Some (i, l\<lparr>nodes := (nodes l)[i := null_node\<lparr>node_data := Some d\<rparr>]\<rparr>)"
    using NodeCreate_fresh [OF assms] by blast
  have k: "k < length (nodes l)" "y < length (nodes l)" "y \<noteq> k" "k \<notin> set zs" "k \<notin> set xs" "y \<notin> set xs" "y \<notin> set zs"
    "next_node (nodes l ! k) = Some y"
    using wf Cons by (auto simp: dll_wf_def linked_append)
  have "last_or zs (Some y) \<noteq> Some k" using k ends_in by blast
  then have f: "last_node l \<noteq> Some k" using wf Cons by (simp add: dll_wf_def)
  let ?n = "\<lparr>previous_node = Some k, next_node = Some y, node_data = Some d\<rparr>"
  let ?l = "l\<lparr>nodes := (nodes l)[i := ?n, y := (nodes l ! y)\<lparr>previous_node := Some i\<rparr>, k := (nodes l ! k)\<lparr>next_node := Some i\<rparr>]\<rparr>"
  have "DoublyLinkedListInsertAfterNode k d l = Some ?l"
    using wf i k f Cons
    by (auto simp: DoublyLinkedListInsertAfterNode_def dll_wf_def update_node_less null_node_def nth_list_update)
  moreover have "dll_wf ?l (xs @ k # i # ys)"
    using wf i(1,2) k Cons by (auto simp: dll_wf_def linked_append linked_frame nth_list_update)
  moreover have "dll_data ?l (xs @ k # i # ys) = dll_data l (xs @ [k]) @ d # dll_data l ys"
    using i k Cons by (auto simp: dll_data_def nth_list_update)
  ultimately show ?thesis by blast
qed

subsection \<open>Walking the list\<close>

text \<open>
  The search loops over the connection list: the first node whose data satisfy a predicate. A node
  without data is dereferenced as a null pointer.
\<close>

partial_function (option) find_from :: "(nat \<Rightarrow> bool) \<Rightarrow> nat option \<Rightarrow> DoublyLinkedList \<Rightarrow> nat option option" where
  "find_from P iterator l = (case iterator of
       None \<Rightarrow> Some None
     | Some i \<Rightarrow> do {
         n \<leftarrow> array_get (nodes l) i;
         d \<leftarrow> node_data n;
         if P d then Some (Some i) else find_from P (next_node n) l })"

lemma find_from_linked:
  "linked (nodes l) p is None \<Longrightarrow>
     find_from P (head_or is None) l = Some (find (\<lambda>i. P (the (node_data (nodes l ! i)))) is)"
proof (induction "is" arbitrary: p)
  case Nil
  then show ?case by (simp add: find_from.simps)
next
  case (Cons i "is")
  then show ?case by (subst find_from.simps) auto
qed

lemma destroy_from_linked:
  assumes "linked (nodes l) p is None" and "distinct is" and "deallocator l"
  shows "\<exists>ns. destroy_from (head_or is None) l = Some (l\<lparr>nodes := ns\<rparr>) \<and> length ns = length (nodes l) \<and>
    (\<forall>j < length ns. ns ! j = (if j \<in> set is then null_node else nodes l ! j))"
  using assms
proof (induction "is" arbitrary: p l)
  case Nil
  then show ?case by (intro exI [of _ "nodes l"]) (simp add: destroy_from.simps)
next
  case (Cons i "is")
  let ?l = "l\<lparr>nodes := (nodes l)[i := null_node]\<rparr>"
  have "destroy_from (head_or (i # is) None) l = destroy_from (head_or is None) ?l"
    using Cons.prems by (subst destroy_from.simps)
      (simp add: DoublyLinkedListNodeDestroy_def CipConnectionObjectListArrayFree_def update_node_less)
  moreover obtain ns where "destroy_from (head_or is None) ?l = Some (?l\<lparr>nodes := ns\<rparr>)" "length ns = length (nodes ?l)"
    "\<forall>j < length ns. ns ! j = (if j \<in> set is then null_node else nodes ?l ! j)"
    using Cons.IH [of ?l "Some i"] Cons.prems by (auto simp: linked_frame)
  ultimately show ?case
    by (intro exI [of _ ns]) (auto simp: nth_list_update)
qed

subsection \<open>The sequence interface\<close>

text \<open>
  What the users of a node list rely on: \<open>rep l is\<close> says that the nodes \<open>is\<close> make up the list, and
  \<open>content l i\<close> is the pointer stored in node \<open>i\<close>.
\<close>

locale node_sequence =
  fixes rep :: "'l \<Rightarrow> nat list \<Rightarrow> bool"
    and content :: "'l \<Rightarrow> nat \<Rightarrow> nat"
    and capacity :: "'l \<Rightarrow> nat"
    and push_front push_back remove :: "nat \<Rightarrow> 'l \<Rightarrow> 'l run"
  assumes push_front: "rep l is \<Longrightarrow> length is < capacity l \<Longrightarrow>
      \<exists>l' i. push_front d l = Some l' \<and> rep l' (i # is) \<and> i \<notin> set is \<and>
        map (content l') (i # is) = d # map (content l) is \<and> capacity l' = capacity l"
    and push_back: "rep l is \<Longrightarrow> length is < capacity l \<Longrightarrow>
      \<exists>l' i. push_back d l = Some l' \<and> rep l' (is @ [i]) \<and> i \<notin> set is \<and>
        map (content l') (is @ [i]) = map (content l) is @ [d] \<and> capacity l' = capacity l"
    and remove: "rep l (xs @ i # ys) \<Longrightarrow>
      \<exists>l'. remove i l = Some l' \<and> rep l' (xs @ ys) \<and>
        map (content l') (xs @ ys) = map (content l) (xs @ ys) \<and> capacity l' = capacity l"
begin

text \<open>Adding an element at either end and removing its node restores the sequence.\<close>

lemma push_then_remove:
  assumes "rep l is" and "length is < capacity l"
  shows "\<exists>l' i l''. push_front d l = Some l' \<and> rep l' (i # is) \<and> content l' i = d \<and>
    remove i l' = Some l'' \<and> rep l'' is \<and> map (content l'') is = map (content l) is"
proof -
  obtain l' i where l': "push_front d l = Some l'" "rep l' (i # is)" "map (content l') (i # is) = d # map (content l) is"
    using push_front [OF assms, of d] by (elim exE conjE)
  obtain l'' where "remove i l' = Some l''" "rep l'' is" "map (content l'') is = map (content l') is"
    using remove [of l' "[]" i "is"] l'(2) by auto
  with l' show ?thesis by auto
qed

text \<open>Every node can be removed, and the others keep their place.\<close>

lemma remove_any:
  assumes "rep l is" and "i \<in> set is" and "distinct is"
  shows "\<exists>l'. remove i l = Some l' \<and> rep l' (remove1 i is) \<and>
    map (content l') (remove1 i is) = map (content l) (remove1 i is) \<and> capacity l' = capacity l"
proof -
  obtain xs ys where s: "is = xs @ i # ys" "i \<notin> set xs"
    using assms(2) by (meson split_list_first)
  then have "remove1 i is = xs @ ys" by (simp add: remove1_append)
  with remove [of l xs i ys] assms(1) s(1) show ?thesis by metis
qed

end

definition node_content :: "DoublyLinkedList \<Rightarrow> nat \<Rightarrow> nat" where
  "node_content l i = the (node_data (nodes l ! i))"

lemma dll_data_content: "dll_data l is = map (node_content l) is"
  by (simp add: dll_data_def node_content_def fun_eq_iff)

interpretation dll: node_sequence dll_wf node_content "\<lambda>l. length (nodes l)"
  DoublyLinkedListInsertAtHead DoublyLinkedListInsertAtTail DoublyLinkedListRemoveNode
proof unfold_locales
  fix l "is" d
  assume a: "dll_wf l is" "length is < length (nodes l)"
  show "\<exists>l' i. DoublyLinkedListInsertAtHead d l = Some l' \<and> dll_wf l' (i # is) \<and> i \<notin> set is \<and>
      map (node_content l') (i # is) = d # map (node_content l) is \<and> length (nodes l') = length (nodes l)"
    using InsertAtHead_wf [OF a, of d] unfolding dll_data_content by blast
  show "\<exists>l' i. DoublyLinkedListInsertAtTail d l = Some l' \<and> dll_wf l' (is @ [i]) \<and> i \<notin> set is \<and>
      map (node_content l') (is @ [i]) = map (node_content l) is @ [d] \<and> length (nodes l') = length (nodes l)"
    using InsertAtTail_wf [OF a, of d] unfolding dll_data_content by blast
next
  fix l xs i ys
  assume "dll_wf l (xs @ i # ys)"
  from RemoveNode_wf [OF this]
  show "\<exists>l'. DoublyLinkedListRemoveNode i l = Some l' \<and> dll_wf l' (xs @ ys) \<and>
      map (node_content l') (xs @ ys) = map (node_content l) (xs @ ys) \<and> length (nodes l') = length (nodes l)"
    unfolding dll_data_content by (simp only: map_append) blast
qed

text \<open>C23: on a well-formed list with a free node, inserting at the head or at the tail prepends or
  appends the data pointer to the sequence the list stands for; removing a node takes exactly its
  element out of the sequence and leaves every other one in place; the list stays well formed, so
  that the freed node is the one the allocator can hand out again.\<close>

theorem linked_list_refines_sequence:
  assumes "dll_wf l is"
  shows "(length is < length (nodes l) \<longrightarrow>
      (\<exists>l' i. DoublyLinkedListInsertAtHead d l = Some l' \<and> dll_wf l' (i # is) \<and>
        map (node_content l') (i # is) = d # map (node_content l) is)) \<and>
    (length is < length (nodes l) \<longrightarrow>
      (\<exists>l' i. DoublyLinkedListInsertAtTail d l = Some l' \<and> dll_wf l' (is @ [i]) \<and>
        map (node_content l') (is @ [i]) = map (node_content l) is @ [d])) \<and>
    (i \<in> set is \<longrightarrow>
      (\<exists>l'. DoublyLinkedListRemoveNode i l = Some l' \<and> dll_wf l' (remove1 i is) \<and>
        map (node_content l') (remove1 i is) = map (node_content l) (remove1 i is) \<and> nodes l' ! i = null_node))"
proof (intro conjI impI)
  show "\<exists>l' i. DoublyLinkedListInsertAtHead d l = Some l' \<and> dll_wf l' (i # is) \<and>
        map (node_content l') (i # is) = d # map (node_content l) is" if "length is < length (nodes l)"
    using dll.push_front [OF assms that, of d] by metis
  show "\<exists>l' i. DoublyLinkedListInsertAtTail d l = Some l' \<and> dll_wf l' (is @ [i]) \<and>
        map (node_content l') (is @ [i]) = map (node_content l) is @ [d]" if "length is < length (nodes l)"
    using dll.push_back [OF assms that, of d] by metis
  assume i: "i \<in> set is"
  have d: "distinct is" using assms by (simp add: dll_wf_def)
  obtain l' where l': "DoublyLinkedListRemoveNode i l = Some l'" "dll_wf l' (remove1 i is)"
    "map (node_content l') (remove1 i is) = map (node_content l) (remove1 i is)" "length (nodes l') = length (nodes l)"
    using dll.remove_any [OF assms i d] by blast
  moreover have "i < length (nodes l)" using linked_bound [of "nodes l" None "is" None i] assms i by (simp add: dll_wf_def)
  moreover have "i \<notin> set (remove1 i is)" using d by simp
  ultimately have "nodes l' ! i = null_node" by (simp add: dll_wf_def)
  with l' show "\<exists>l'. DoublyLinkedListRemoveNode i l = Some l' \<and> dll_wf l' (remove1 i is) \<and>
        map (node_content l') (remove1 i is) = map (node_content l) (remove1 i is) \<and> nodes l' ! i = null_node"
    by blast
qed

definition empty_list :: "nat \<Rightarrow> DoublyLinkedList" where
  "empty_list n = \<lparr>nodes = replicate n null_node, first_node = None, last_node = None, allocator = True, deallocator = True\<rparr>"

lemma empty_list_wf: "dll_wf (empty_list n) []"
  by (simp add: empty_list_def dll_wf_def)

theorem linked_list_refines_sequence_witness:
  "\<exists>l' i. DoublyLinkedListInsertAtHead 7 (empty_list 9) = Some l' \<and> dll_wf l' [i] \<and> map (node_content l') [i] = [7]"
  using linked_list_refines_sequence [OF empty_list_wf, of 9 7] by (simp add: empty_list_def)

text \<open>Destroying a well-formed list ends and gives every node back to the allocator.\<close>

theorem destroy_frees_all_nodes:
  assumes "dll_wf l is"
  shows "\<exists>l'. DoublyLinkedListDestroy l = Some l' \<and> first_node l' = None \<and> last_node l' = None \<and>
    length (nodes l') = length (nodes l) \<and> (\<forall>n \<in> set (nodes l'). n = null_node)"
proof -
  obtain ns where ns: "destroy_from (first_node l) l = Some (l\<lparr>nodes := ns\<rparr>)" "length ns = length (nodes l)"
    "\<forall>j < length ns. ns ! j = (if j \<in> set is then null_node else nodes l ! j)"
    using destroy_from_linked [of l None "is"] assms by (auto simp: dll_wf_def)
  then have "\<forall>n \<in> set ns. n = null_node"
    using assms by (auto simp: dll_wf_def in_set_conv_nth)
  with ns show ?thesis by (simp add: DoublyLinkedListDestroy_def)
qed

theorem destroy_frees_all_nodes_witness:
  "\<exists>l'. DoublyLinkedListDestroy (empty_list 2) = Some l' \<and> (\<forall>n \<in> set (nodes l'). n = null_node)"
  using destroy_frees_all_nodes [OF empty_list_wf, of 2] by blast


end
