(* ===== verification/ConnectionObject.thy ===== *)
theory ConnectionObject
  imports EPath CipTypes DoublyLinkedList
begin

text \<open>
  The connection object of \<^verbatim>\<open>cip/cipconnectionobject.c\<close>: its fields, the accessors of the fields
  and of the bit fields of the network connection parameters, the packet rate and watchdog
  arithmetic, and the reading of the fixed part of a Forward Open request.

  Pointers to CIP instances are instance numbers of the assembly class; the functions a connection
  object points to are named by datatypes.
\<close>

subsection \<open>Enumerations\<close>

datatype ConnectionObjectState = kConnectionObjectStateNonExistent | kConnectionObjectStateConfiguring
  | kConnectionObjectStateWaitingForConnectionID | kConnectionObjectStateEstablished
  | kConnectionObjectStateTimedOut | kConnectionObjectStateDeferredDelete
  | kConnectionObjectStateClosing | kConnectionObjectStateInvalid

abbreviation (input) CIP_CONNECTION_OBJECT_STATE_NON_EXISTENT :: CipUsint where "CIP_CONNECTION_OBJECT_STATE_NON_EXISTENT \<equiv> 0"
abbreviation (input) CIP_CONNECTION_OBJECT_STATE_CONFIGURING :: CipUsint where "CIP_CONNECTION_OBJECT_STATE_CONFIGURING \<equiv> 1"
abbreviation (input) CIP_CONNECTION_OBJECT_STATE_WAITING_FOR_CONNECTION_ID :: CipUsint where
  "CIP_CONNECTION_OBJECT_STATE_WAITING_FOR_CONNECTION_ID \<equiv> 2"
abbreviation (input) CIP_CONNECTION_OBJECT_STATE_ESTABLISHED :: CipUsint where "CIP_CONNECTION_OBJECT_STATE_ESTABLISHED \<equiv> 3"
abbreviation (input) CIP_CONNECTION_OBJECT_STATE_TIMEOUT :: CipUsint where "CIP_CONNECTION_OBJECT_STATE_TIMEOUT \<equiv> 4"
abbreviation (input) CIP_CONNECTION_OBJECT_STATE_DEFERRED_DELETE :: CipUsint where "CIP_CONNECTION_OBJECT_STATE_DEFERRED_DELETE \<equiv> 5"
abbreviation (input) CIP_CONNECTION_OBJECT_STATE_CLOSING :: CipUsint where "CIP_CONNECTION_OBJECT_STATE_CLOSING \<equiv> 6"

text \<open>The instance type is stored and returned as its number.\<close>

type_synonym ConnectionObjectInstanceType = CipUsint

abbreviation (input) kConnectionObjectInstanceTypeInvalid :: ConnectionObjectInstanceType where "kConnectionObjectInstanceTypeInvalid \<equiv> 255"
abbreviation (input) kConnectionObjectInstanceTypeExplicitMessaging :: ConnectionObjectInstanceType where
  "kConnectionObjectInstanceTypeExplicitMessaging \<equiv> 0"
abbreviation (input) kConnectionObjectInstanceTypeIO :: ConnectionObjectInstanceType where "kConnectionObjectInstanceTypeIO \<equiv> 1"
abbreviation (input) kConnectionObjectInstanceTypeIOExclusiveOwner :: ConnectionObjectInstanceType where
  "kConnectionObjectInstanceTypeIOExclusiveOwner \<equiv> 2"
abbreviation (input) kConnectionObjectInstanceTypeIOInputOnly :: ConnectionObjectInstanceType where
  "kConnectionObjectInstanceTypeIOInputOnly \<equiv> 3"
abbreviation (input) kConnectionObjectInstanceTypeIOListenOnly :: ConnectionObjectInstanceType where
  "kConnectionObjectInstanceTypeIOListenOnly \<equiv> 4"
abbreviation (input) kConnectionObjectInstanceTypeCipBridged :: ConnectionObjectInstanceType where
  "kConnectionObjectInstanceTypeCipBridged \<equiv> 5"

datatype ConnectionObjectTransportClassTriggerDirection =
  kConnectionObjectTransportClassTriggerDirectionClient | kConnectionObjectTransportClassTriggerDirectionServer

datatype ConnectionObjectTransportClassTriggerProductionTrigger =
  kConnectionObjectTransportClassTriggerProductionTriggerInvalid
  | kConnectionObjectTransportClassTriggerProductionTriggerCyclic
  | kConnectionObjectTransportClassTriggerProductionTriggerChangeOfState
  | kConnectionObjectTransportClassTriggerProductionTriggerApplicationObject

datatype ConnectionObjectTransportClassTriggerTransportClass =
  kConnectionObjectTransportClassTriggerTransportClassInvalid
  | kConnectionObjectTransportClassTriggerTransportClass0 | kConnectionObjectTransportClassTriggerTransportClass1
  | kConnectionObjectTransportClassTriggerTransportClass2 | kConnectionObjectTransportClassTriggerTransportClass3

type_synonym ConnectionObjectWatchdogTimeoutAction = CipUsint

abbreviation (input) kConnectionObjectWatchdogTimeoutActionTransitionToTimedOut :: ConnectionObjectWatchdogTimeoutAction where
  "kConnectionObjectWatchdogTimeoutActionTransitionToTimedOut \<equiv> 0"
abbreviation (input) kConnectionObjectWatchdogTimeoutActionAutoDelete :: ConnectionObjectWatchdogTimeoutAction where
  "kConnectionObjectWatchdogTimeoutActionAutoDelete \<equiv> 1"
abbreviation (input) kConnectionObjectWatchdogTimeoutActionAutoReset :: ConnectionObjectWatchdogTimeoutAction where
  "kConnectionObjectWatchdogTimeoutActionAutoReset \<equiv> 2"
abbreviation (input) kConnectionObjectWatchdogTimeoutActionDeferredDelete :: ConnectionObjectWatchdogTimeoutAction where
  "kConnectionObjectWatchdogTimeoutActionDeferredDelete \<equiv> 3"
abbreviation (input) kConnectionObjectWatchdogTimeoutActionInvalid :: ConnectionObjectWatchdogTimeoutAction where
  "kConnectionObjectWatchdogTimeoutActionInvalid \<equiv> 4"

datatype ConnectionObjectConnectionType = kConnectionObjectConnectionTypeNull | kConnectionObjectConnectionTypeMulticast
  | kConnectionObjectConnectionTypePointToPoint | kConnectionObjectConnectionTypeInvalid

datatype ConnectionObjectPriority = kConnectionObjectPriorityLow | kConnectionObjectPriorityHigh
  | kConnectionObjectPriorityScheduled | kConnectionObjectPriorityUrgent | kConnectionObjectPriorityExplicit

datatype ConnectionObjectConnectionSizeType =
  kConnectionObjectConnectionSizeTypeFixed | kConnectionObjectConnectionSizeTypeVariable

subsection \<open>The object\<close>

record CipConnectionPathEpath =
  cp_class_id :: CipDword
  cp_instance_id :: CipInstanceNum
  cp_attribute_id_or_connection_point :: CipDword

record CipElectronicKey =
  key_format :: CipUsint
  key_data :: "ElectronicKeyFormat4 option"

record sockaddr_in =
  sin_port :: CipUint
  sin_addr :: CipUdint

datatype close_function = CloseConnectionFn | CloseIoConnectionFn
datatype timeout_function = Class3ConnectionTimeoutHandlerFn | HandleIoConnectionTimeOutFn
datatype send_function = SendConnectedDataFn
datatype receive_function = HandleReceivedIoConnectionDataFn
datatype state_handler = CipClass3ConnectionObjectStateEstablishedHandlerFn | CipClass3ConnectionObjectStateNonExistentHandlerFn

record CipConnectionObject =
  conn_state :: CipUsint
  instance_type :: CipUsint
  transport_class_trigger :: CipByte
  produced_connection_size :: CipUint
  consumed_connection_size :: CipUint
  expected_packet_rate :: CipUint
  cip_produced_connection_id :: CipUdint
  cip_consumed_connection_id :: CipUdint
  watchdog_timeout_action :: CipUsint
  produced_connection_path_length :: CipUint
  produced_connection_path :: "CipOctet list"
  produced_path :: CipConnectionPathEpath
  consumed_connection_path_length :: CipUint
  consumed_connection_path :: "CipOctet list"
  consumed_path :: CipConnectionPathEpath
  production_inhibit_time :: CipUint
  connection_timeout_multiplier :: CipUsint
  electronic_key :: CipElectronicKey
  configuration_path :: CipConnectionPathEpath
  producing_instance :: "CipInstanceNum option"
  consuming_instance :: "CipInstanceNum option"
  requested_produced_connection_size :: CipUint
  requested_consumed_connection_size :: CipUint
  transmission_trigger_timer :: CipUlint
  inactivity_watchdog_timer :: CipUlint
  last_package_watchdog_timer :: CipUlint
  production_inhibit_timer :: CipUlint
  connection_serial_number :: CipUint
  originator_vendor_id :: CipUint
  originator_serial_number :: CipUdint
  connection_number :: CipUint
  o_to_t_requested_packet_interval :: CipUdint
  o_to_t_network_connection_parameters :: CipDword
  t_to_o_requested_packet_interval :: CipUdint
  t_to_o_network_connection_parameters :: CipDword
  sequence_count_producing :: CipUint
  sequence_count_consuming :: CipUint
  eip_level_sequence_count_producing :: CipUdint
  eip_level_sequence_count_consuming :: CipUdint
  eip_first_level_sequence_count_received :: bool
  correct_originator_to_target_size :: CipUint
  correct_target_to_originator_size :: CipUint
  socket_consuming :: int
  socket_producing :: int
  remote_address :: sockaddr_in
  originator_address :: sockaddr_in
  associated_encapsulation_session :: CipSessionHandle
  current_state_handler :: "state_handler option"
  connection_close_function :: "close_function option"
  connection_timeout_function :: "timeout_function option"
  connection_send_data_function :: "send_function option"
  connection_receive_data_function :: "receive_function option"
  last_reply_sent :: ENIPMessage
  is_large_forward_open :: bool

definition zero_path :: CipConnectionPathEpath where
  "zero_path = \<lparr>cp_class_id = 0, cp_instance_id = 0, cp_attribute_id_or_connection_point = 0\<rparr>"

definition zero_sockaddr :: sockaddr_in where
  "zero_sockaddr = \<lparr>sin_port = 0, sin_addr = 0\<rparr>"

definition zero_message :: ENIPMessage where
  "zero_message = \<lparr>message_buffer = replicate PC_OPENER_ETHERNET_BUFFER_SIZE 0, current_message_position = OutsideMessage,
     used_message_length = 0\<rparr>"

text \<open>The object \<^verbatim>\<open>memset\<close> to zero. A zeroed message has a null position; it is initialised before use.\<close>

definition zero_connection :: "CipConnectionObject" where
  "zero_connection = \<lparr>conn_state = 0, instance_type = 0, transport_class_trigger = 0,
     produced_connection_size = 0, consumed_connection_size = 0, expected_packet_rate = 0,
     cip_produced_connection_id = 0, cip_consumed_connection_id = 0, watchdog_timeout_action = 0,
     produced_connection_path_length = 0, produced_connection_path = [], produced_path = zero_path,
     consumed_connection_path_length = 0, consumed_connection_path = [], consumed_path = zero_path,
     production_inhibit_time = 0, connection_timeout_multiplier = 0,
     electronic_key = \<lparr>key_format = 0, key_data = None\<rparr>, configuration_path = zero_path,
     producing_instance = None, consuming_instance = None, requested_produced_connection_size = 0,
     requested_consumed_connection_size = 0, transmission_trigger_timer = 0, inactivity_watchdog_timer = 0,
     last_package_watchdog_timer = 0, production_inhibit_timer = 0, connection_serial_number = 0,
     originator_vendor_id = 0, originator_serial_number = 0, connection_number = 0,
     o_to_t_requested_packet_interval = 0, o_to_t_network_connection_parameters = 0,
     t_to_o_requested_packet_interval = 0, t_to_o_network_connection_parameters = 0,
     sequence_count_producing = 0, sequence_count_consuming = 0, eip_level_sequence_count_producing = 0,
     eip_level_sequence_count_consuming = 0, eip_first_level_sequence_count_received = False,
     correct_originator_to_target_size = 0, correct_target_to_originator_size = 0,
     socket_consuming = 0, socket_producing = 0, remote_address = zero_sockaddr,
     originator_address = zero_sockaddr, associated_encapsulation_session = 0,
     current_state_handler = None, connection_close_function = None, connection_timeout_function = None,
     connection_send_data_function = None, connection_receive_data_function = None,
     last_reply_sent = zero_message, is_large_forward_open = False\<rparr>"


subsection \<open>State and types\<close>

definition ConnectionObjectGetState :: "CipConnectionObject \<Rightarrow> ConnectionObjectState" where
  "ConnectionObjectGetState co = (
     if conn_state co = CIP_CONNECTION_OBJECT_STATE_NON_EXISTENT then kConnectionObjectStateNonExistent
     else if conn_state co = CIP_CONNECTION_OBJECT_STATE_CONFIGURING then kConnectionObjectStateConfiguring
     else if conn_state co = CIP_CONNECTION_OBJECT_STATE_WAITING_FOR_CONNECTION_ID then kConnectionObjectStateWaitingForConnectionID
     else if conn_state co = CIP_CONNECTION_OBJECT_STATE_ESTABLISHED then kConnectionObjectStateEstablished
     else if conn_state co = CIP_CONNECTION_OBJECT_STATE_TIMEOUT then kConnectionObjectStateTimedOut
     else if conn_state co = CIP_CONNECTION_OBJECT_STATE_DEFERRED_DELETE then kConnectionObjectStateDeferredDelete
     else if conn_state co = CIP_CONNECTION_OBJECT_STATE_CLOSING then kConnectionObjectStateClosing
     else kConnectionObjectStateInvalid)"

fun ConnectionObjectSetState :: "ConnectionObjectState \<Rightarrow> CipConnectionObject \<Rightarrow> CipConnectionObject run" where
  "ConnectionObjectSetState kConnectionObjectStateNonExistent co = Some (co\<lparr>conn_state := CIP_CONNECTION_OBJECT_STATE_NON_EXISTENT\<rparr>)"
| "ConnectionObjectSetState kConnectionObjectStateConfiguring co = Some (co\<lparr>conn_state := CIP_CONNECTION_OBJECT_STATE_CONFIGURING\<rparr>)"
| "ConnectionObjectSetState kConnectionObjectStateWaitingForConnectionID co =
     Some (co\<lparr>conn_state := CIP_CONNECTION_OBJECT_STATE_WAITING_FOR_CONNECTION_ID\<rparr>)"
| "ConnectionObjectSetState kConnectionObjectStateEstablished co = Some (co\<lparr>conn_state := CIP_CONNECTION_OBJECT_STATE_ESTABLISHED\<rparr>)"
| "ConnectionObjectSetState kConnectionObjectStateTimedOut co = Some (co\<lparr>conn_state := CIP_CONNECTION_OBJECT_STATE_TIMEOUT\<rparr>)"
| "ConnectionObjectSetState kConnectionObjectStateDeferredDelete co =
     Some (co\<lparr>conn_state := CIP_CONNECTION_OBJECT_STATE_DEFERRED_DELETE\<rparr>)"
| "ConnectionObjectSetState kConnectionObjectStateClosing co = Some (co\<lparr>conn_state := CIP_CONNECTION_OBJECT_STATE_CLOSING\<rparr>)"
| "ConnectionObjectSetState kConnectionObjectStateInvalid co = None"

definition ConnectionObjectInitializeEmpty :: "CipConnectionObject \<Rightarrow> CipConnectionObject run" where
  "ConnectionObjectInitializeEmpty co = do {
     co \<leftarrow> ConnectionObjectSetState kConnectionObjectStateNonExistent zero_connection;
     Some (co\<lparr>socket_consuming := kEipInvalidSocket, socket_producing := kEipInvalidSocket\<rparr>) }"

definition ConnectionObjectGetInstanceType :: "CipConnectionObject \<Rightarrow> ConnectionObjectInstanceType" where
  "ConnectionObjectGetInstanceType co = instance_type co"

definition ConnectionObjectSetInstanceType :: "ConnectionObjectInstanceType \<Rightarrow> CipConnectionObject \<Rightarrow> CipConnectionObject" where
  "ConnectionObjectSetInstanceType x co = co\<lparr>instance_type := x\<rparr>"

definition ConnectionObjectGetInstanceTypeForAttribute :: "CipConnectionObject \<Rightarrow> CipUsint run" where
  "ConnectionObjectGetInstanceTypeForAttribute co = (
     if instance_type co = kConnectionObjectInstanceTypeExplicitMessaging then Some 0
     else if instance_type co \<in> {kConnectionObjectInstanceTypeIO, kConnectionObjectInstanceTypeIOExclusiveOwner,
       kConnectionObjectInstanceTypeIOInputOnly, kConnectionObjectInstanceTypeIOListenOnly} then Some 1
     else if instance_type co = kConnectionObjectInstanceTypeCipBridged then Some 2
     else None)"

definition ConnectionObjectIsTypeNonLOIOConnection :: "CipConnectionObject \<Rightarrow> bool" where
  "ConnectionObjectIsTypeNonLOIOConnection co \<longleftrightarrow> instance_type co \<in> {kConnectionObjectInstanceTypeIO,
     kConnectionObjectInstanceTypeIOExclusiveOwner, kConnectionObjectInstanceTypeIOInputOnly}"

definition ConnectionObjectIsTypeIOConnection :: "CipConnectionObject \<Rightarrow> bool" where
  "ConnectionObjectIsTypeIOConnection co \<longleftrightarrow> instance_type co \<in> {kConnectionObjectInstanceTypeIO,
     kConnectionObjectInstanceTypeIOExclusiveOwner, kConnectionObjectInstanceTypeIOInputOnly,
     kConnectionObjectInstanceTypeIOListenOnly}"

definition ConnectionObjectGetTransportClassTriggerDirection ::
    "CipConnectionObject \<Rightarrow> ConnectionObjectTransportClassTriggerDirection" where
  "ConnectionObjectGetTransportClassTriggerDirection co =
     (if transport_class_trigger co AND 0x80 = 0x80 then kConnectionObjectTransportClassTriggerDirectionServer
      else kConnectionObjectTransportClassTriggerDirectionClient)"

definition ConnectionObjectGetTransportClassTriggerProductionTrigger ::
    "CipConnectionObject \<Rightarrow> ConnectionObjectTransportClassTriggerProductionTrigger" where
  "ConnectionObjectGetTransportClassTriggerProductionTrigger co = (let t = transport_class_trigger co AND 0x70 in
     if t = 0x00 then kConnectionObjectTransportClassTriggerProductionTriggerCyclic
     else if t = 0x10 then kConnectionObjectTransportClassTriggerProductionTriggerChangeOfState
     else if t = 0x20 then kConnectionObjectTransportClassTriggerProductionTriggerApplicationObject
     else kConnectionObjectTransportClassTriggerProductionTriggerInvalid)"

definition ConnectionObjectGetTransportClassTriggerTransportClass ::
    "CipConnectionObject \<Rightarrow> ConnectionObjectTransportClassTriggerTransportClass" where
  "ConnectionObjectGetTransportClassTriggerTransportClass co = (let t = transport_class_trigger co AND 0x0F in
     if t = 0 then kConnectionObjectTransportClassTriggerTransportClass0
     else if t = 1 then kConnectionObjectTransportClassTriggerTransportClass1
     else if t = 2 then kConnectionObjectTransportClassTriggerTransportClass2
     else if t = 3 then kConnectionObjectTransportClassTriggerTransportClass3
     else kConnectionObjectTransportClassTriggerTransportClassInvalid)"

subsection \<open>Fields\<close>

definition ConnectionObjectGetProducedConnectionSize :: "CipConnectionObject \<Rightarrow> CipUint" where
  "ConnectionObjectGetProducedConnectionSize co = produced_connection_size co"

definition ConnectionObjectSetProducedConnectionSize :: "CipUint \<Rightarrow> CipConnectionObject \<Rightarrow> CipConnectionObject" where
  "ConnectionObjectSetProducedConnectionSize x co = co\<lparr>produced_connection_size := x\<rparr>"

definition ConnectionObjectGetConsumedConnectionSize :: "CipConnectionObject \<Rightarrow> CipUint" where
  "ConnectionObjectGetConsumedConnectionSize co = consumed_connection_size co"

definition ConnectionObjectSetConsumedConnectionSize :: "CipUint \<Rightarrow> CipConnectionObject \<Rightarrow> CipConnectionObject" where
  "ConnectionObjectSetConsumedConnectionSize x co = co\<lparr>consumed_connection_size := x\<rparr>"

definition ConnectionObjectGetExpectedPacketRate :: "CipConnectionObject \<Rightarrow> CipUint" where
  "ConnectionObjectGetExpectedPacketRate co = expected_packet_rate co"

definition ConnectionObjectGetCipProducedConnectionID :: "CipConnectionObject \<Rightarrow> CipUdint" where
  "ConnectionObjectGetCipProducedConnectionID co = cip_produced_connection_id co"

definition ConnectionObjectSetCipProducedConnectionID :: "CipUdint \<Rightarrow> CipConnectionObject \<Rightarrow> CipConnectionObject" where
  "ConnectionObjectSetCipProducedConnectionID x co = co\<lparr>cip_produced_connection_id := x\<rparr>"

definition ConnectionObjectGetCipConsumedConnectionID :: "CipConnectionObject \<Rightarrow> CipUdint" where
  "ConnectionObjectGetCipConsumedConnectionID co = cip_consumed_connection_id co"

definition ConnectionObjectSetCipConsumedConnectionID :: "CipUdint \<Rightarrow> CipConnectionObject \<Rightarrow> CipConnectionObject" where
  "ConnectionObjectSetCipConsumedConnectionID x co = co\<lparr>cip_consumed_connection_id := x\<rparr>"

definition ConnectionObjectGetProducedConnectionPathLength :: "CipConnectionObject \<Rightarrow> CipUint" where
  "ConnectionObjectGetProducedConnectionPathLength co = produced_connection_path_length co"

definition ConnectionObjectSetProducedConnectionPathLength :: "CipUint \<Rightarrow> CipConnectionObject \<Rightarrow> CipConnectionObject" where
  "ConnectionObjectSetProducedConnectionPathLength x co = co\<lparr>produced_connection_path_length := x\<rparr>"

definition ConnectionObjectGetConsumedConnectionPathLength :: "CipConnectionObject \<Rightarrow> CipUint" where
  "ConnectionObjectGetConsumedConnectionPathLength co = consumed_connection_path_length co"

definition ConnectionObjectSetConsumedConnectionPathLength :: "CipUint \<Rightarrow> CipConnectionObject \<Rightarrow> CipConnectionObject" where
  "ConnectionObjectSetConsumedConnectionPathLength x co = co\<lparr>consumed_connection_path_length := x\<rparr>"

definition ConnectionObjectGetProductionInhibitTime :: "CipConnectionObject \<Rightarrow> CipUint" where
  "ConnectionObjectGetProductionInhibitTime co = production_inhibit_time co"

definition ConnectionObjectSetProductionInhibitTime :: "CipUint \<Rightarrow> CipConnectionObject \<Rightarrow> CipConnectionObject" where
  "ConnectionObjectSetProductionInhibitTime x co = co\<lparr>production_inhibit_time := x\<rparr>"

definition ConnectionObjectGetConnectionSerialNumber :: "CipConnectionObject \<Rightarrow> CipUint" where
  "ConnectionObjectGetConnectionSerialNumber co = connection_serial_number co"

definition ConnectionObjectSetConnectionSerialNumber :: "CipUint \<Rightarrow> CipConnectionObject \<Rightarrow> CipConnectionObject" where
  "ConnectionObjectSetConnectionSerialNumber x co = co\<lparr>connection_serial_number := x\<rparr>"

definition ConnectionObjectGetOriginatorVendorId :: "CipConnectionObject \<Rightarrow> CipUint" where
  "ConnectionObjectGetOriginatorVendorId co = originator_vendor_id co"

definition ConnectionObjectSetOriginatorVendorId :: "CipUint \<Rightarrow> CipConnectionObject \<Rightarrow> CipConnectionObject" where
  "ConnectionObjectSetOriginatorVendorId x co = co\<lparr>originator_vendor_id := x\<rparr>"

definition ConnectionObjectGetOriginatorSerialNumber :: "CipConnectionObject \<Rightarrow> CipUdint" where
  "ConnectionObjectGetOriginatorSerialNumber co = originator_serial_number co"

definition ConnectionObjectSetOriginatorSerialNumber :: "CipUdint \<Rightarrow> CipConnectionObject \<Rightarrow> CipConnectionObject" where
  "ConnectionObjectSetOriginatorSerialNumber x co = co\<lparr>originator_serial_number := x\<rparr>"

definition ConnectionObjectGetConnectionTimeoutMultiplier :: "CipConnectionObject \<Rightarrow> CipUsint" where
  "ConnectionObjectGetConnectionTimeoutMultiplier co = connection_timeout_multiplier co"

definition ConnectionObjectSetConnectionTimeoutMultiplier :: "CipUsint \<Rightarrow> CipConnectionObject \<Rightarrow> CipConnectionObject" where
  "ConnectionObjectSetConnectionTimeoutMultiplier x co = co\<lparr>connection_timeout_multiplier := x\<rparr>"

definition ConnectionObjectGetOToTRequestedPacketInterval :: "CipConnectionObject \<Rightarrow> CipUdint" where
  "ConnectionObjectGetOToTRequestedPacketInterval co = o_to_t_requested_packet_interval co"

definition ConnectionObjectSetOToTRequestedPacketInterval :: "CipUdint \<Rightarrow> CipConnectionObject \<Rightarrow> CipConnectionObject" where
  "ConnectionObjectSetOToTRequestedPacketInterval x co = co\<lparr>o_to_t_requested_packet_interval := x\<rparr>"

definition ConnectionObjectGetTToORequestedPacketInterval :: "CipConnectionObject \<Rightarrow> CipUdint" where
  "ConnectionObjectGetTToORequestedPacketInterval co = t_to_o_requested_packet_interval co"

definition ConnectionObjectSetTToORequestedPacketInterval :: "CipUdint \<Rightarrow> CipConnectionObject \<Rightarrow> CipConnectionObject" where
  "ConnectionObjectSetTToORequestedPacketInterval x co = co\<lparr>t_to_o_requested_packet_interval := x\<rparr>"

definition ConnectionObjectGetConnectionlNumber :: "CipConnectionObject \<Rightarrow> CipUdint" where
  "ConnectionObjectGetConnectionlNumber co = ucast (connection_number co)"

definition ConnectionObjectSetTToONetworkConnectionParameters :: "CipDword \<Rightarrow> CipConnectionObject \<Rightarrow> CipConnectionObject" where
  "ConnectionObjectSetTToONetworkConnectionParameters x co = co\<lparr>t_to_o_network_connection_parameters := x\<rparr>"

definition ConnectionObjectSetOToTNetworkConnectionParameters :: "CipDword \<Rightarrow> CipConnectionObject \<Rightarrow> CipConnectionObject" where
  "ConnectionObjectSetOToTNetworkConnectionParameters x co = co\<lparr>o_to_t_network_connection_parameters := x\<rparr>"

definition ConnectionObjectGetWatchdogTimeoutAction :: "CipConnectionObject \<Rightarrow> ConnectionObjectWatchdogTimeoutAction" where
  "ConnectionObjectGetWatchdogTimeoutAction co = (
     if watchdog_timeout_action co = 0 then kConnectionObjectWatchdogTimeoutActionTransitionToTimedOut
     else if watchdog_timeout_action co = 1 then kConnectionObjectWatchdogTimeoutActionAutoDelete
     else if watchdog_timeout_action co = 2 then kConnectionObjectWatchdogTimeoutActionAutoReset
     else if watchdog_timeout_action co = 3 then kConnectionObjectWatchdogTimeoutActionDeferredDelete
     else kConnectionObjectWatchdogTimeoutActionInvalid)"

definition ConnectionObjectSetWatchdogTimeoutAction :: "CipUsint \<Rightarrow> CipConnectionObject \<Rightarrow> CipConnectionObject" where
  "ConnectionObjectSetWatchdogTimeoutAction action co = co\<lparr>watchdog_timeout_action := (
     if action = 0 then kConnectionObjectWatchdogTimeoutActionTransitionToTimedOut
     else if action = 1 then kConnectionObjectWatchdogTimeoutActionAutoDelete
     else if action = 2 then kConnectionObjectWatchdogTimeoutActionAutoReset
     else if action = 3 then kConnectionObjectWatchdogTimeoutActionDeferredDelete
     else kConnectionObjectWatchdogTimeoutActionInvalid)\<rparr>"

subsection \<open>Packet rates\<close>

abbreviation (input) kOpenerTimerTickInMilliSeconds :: MilliSeconds where "kOpenerTimerTickInMilliSeconds \<equiv> 10"

definition ConnectionObjectGetRequestedPacketInterval :: "CipConnectionObject \<Rightarrow> CipUint" where
  "ConnectionObjectGetRequestedPacketInterval co = (
     let t = t_to_o_requested_packet_interval co;
         remainder_to_resolution = t mod (kOpenerTimerTickInMilliSeconds * 1000)
     in if remainder_to_resolution = 0 then ucast (t div 1000)
        else ucast (t div 1000 - remainder_to_resolution div 1000))"

definition ConnectionObjectSetExpectedPacketRate :: "CipConnectionObject \<Rightarrow> CipConnectionObject" where
  "ConnectionObjectSetExpectedPacketRate co = (
     let t = t_to_o_requested_packet_interval co;
         remainder_to_resolution = t mod (kOpenerTimerTickInMilliSeconds * 1000)
     in co\<lparr>expected_packet_rate := (if remainder_to_resolution = 0 then ucast (t div 1000)
          else ucast (t div 1000 + (kOpenerTimerTickInMilliSeconds - remainder_to_resolution div 1000)))\<rparr>)"

subsection \<open>Watchdog timers\<close>

text \<open>A shift by 64 or more is undefined in C.\<close>

definition ConnectionObjectCalculateRegularInactivityWatchdogTimerValue :: "CipConnectionObject \<Rightarrow> CipUlint run" where
  "ConnectionObjectCalculateRegularInactivityWatchdogTimerValue co = (
     let packet_interval = (if t_to_o_requested_packet_interval co > o_to_t_requested_packet_interval co
           then t_to_o_requested_packet_interval co else o_to_t_requested_packet_interval co);
         shift = 2 + unat (connection_timeout_multiplier co)
     in do { c_assert (shift < 64); Some (push_bit shift ((ucast packet_interval :: CipUlint) div 1000)) })"

definition ConnectionObjectSetInitialInactivityWatchdogTimerValue :: "CipConnectionObject \<Rightarrow> CipConnectionObject run" where
  "ConnectionObjectSetInitialInactivityWatchdogTimerValue co = do {
     t \<leftarrow> ConnectionObjectCalculateRegularInactivityWatchdogTimerValue co;
     Some (co\<lparr>inactivity_watchdog_timer := (if t > 10000 then t else 10000)\<rparr>) }"

definition ConnectionObjectResetInactivityWatchdogTimerValue :: "CipConnectionObject \<Rightarrow> CipConnectionObject run" where
  "ConnectionObjectResetInactivityWatchdogTimerValue co = do {
     t \<leftarrow> ConnectionObjectCalculateRegularInactivityWatchdogTimerValue co;
     Some (co\<lparr>inactivity_watchdog_timer := t\<rparr>) }"

definition ConnectionObjectResetLastPackageInactivityTimerValue :: "CipConnectionObject \<Rightarrow> CipConnectionObject run" where
  "ConnectionObjectResetLastPackageInactivityTimerValue co = do {
     t \<leftarrow> ConnectionObjectCalculateRegularInactivityWatchdogTimerValue co;
     Some (co\<lparr>last_package_watchdog_timer := t\<rparr>) }"

definition ConnectionObjectResetSequenceCounts :: "CipConnectionObject \<Rightarrow> CipConnectionObject" where
  "ConnectionObjectResetSequenceCounts co = co\<lparr>eip_level_sequence_count_producing := 0, sequence_count_producing := 0,
     eip_level_sequence_count_consuming := 0, eip_first_level_sequence_count_received := False,
     sequence_count_consuming := 0\<rparr>"

definition ConnectionObjectResetProductionInhibitTimer :: "CipConnectionObject \<Rightarrow> CipConnectionObject" where
  "ConnectionObjectResetProductionInhibitTimer co = co\<lparr>production_inhibit_timer := ucast (production_inhibit_time co)\<rparr>"

subsection \<open>Network connection parameters\<close>

definition ConnectionObjectIsRedundantOwner :: "CipDword \<Rightarrow> bool \<Rightarrow> bool" where
  "ConnectionObjectIsRedundantOwner params is_lfo \<longleftrightarrow>
     (if is_lfo then params AND push_bit 31 1 \<noteq> 0 else params AND push_bit 15 1 \<noteq> 0)"

definition ConnectionObjectGetConnectionType :: "CipDword \<Rightarrow> bool \<Rightarrow> ConnectionObjectConnectionType" where
  "ConnectionObjectGetConnectionType params is_lfo = (
     let t = (ucast (if is_lfo then drop_bit 29 (params AND push_bit 29 3) else drop_bit 13 (params AND push_bit 13 3)) :: CipUsint)
     in if t = 0 then kConnectionObjectConnectionTypeNull
        else if t = 1 then kConnectionObjectConnectionTypeMulticast
        else if t = 2 then kConnectionObjectConnectionTypePointToPoint
        else kConnectionObjectConnectionTypeInvalid)"

definition ConnectionObjectGetPriority :: "CipDword \<Rightarrow> bool \<Rightarrow> ConnectionObjectPriority run" where
  "ConnectionObjectGetPriority params is_lfo = (
     let p = (ucast (if is_lfo then drop_bit 26 (params AND push_bit 26 3) else drop_bit 10 (params AND push_bit 10 3)) :: CipUsint)
     in if p = 0 then Some kConnectionObjectPriorityLow
        else if p = 1 then Some kConnectionObjectPriorityHigh
        else if p = 2 then Some kConnectionObjectPriorityScheduled
        else if p = 3 then Some kConnectionObjectPriorityUrgent
        else None)"

definition ConnectionObjectGetConnectionSizeType :: "CipDword \<Rightarrow> bool \<Rightarrow> ConnectionObjectConnectionSizeType" where
  "ConnectionObjectGetConnectionSizeType params is_lfo =
     (if (if is_lfo then params AND push_bit 25 1 \<noteq> 0 else params AND push_bit 9 1 \<noteq> 0)
      then kConnectionObjectConnectionSizeTypeVariable else kConnectionObjectConnectionSizeTypeFixed)"

definition ConnectionObjectGetConnectionSize :: "CipDword \<Rightarrow> bool \<Rightarrow> size_t" where
  "ConnectionObjectGetConnectionSize params is_lfo = params AND (if is_lfo then 0x0000FFFF else 0x000001FF)"

definition ConnectionObjectIsOToTRedundantOwner :: "CipConnectionObject \<Rightarrow> bool" where
  "ConnectionObjectIsOToTRedundantOwner co = ConnectionObjectIsRedundantOwner (o_to_t_network_connection_parameters co) (is_large_forward_open co)"

definition ConnectionObjectGetOToTConnectionType :: "CipConnectionObject \<Rightarrow> ConnectionObjectConnectionType" where
  "ConnectionObjectGetOToTConnectionType co = ConnectionObjectGetConnectionType (o_to_t_network_connection_parameters co) (is_large_forward_open co)"

definition ConnectionObjectGetOToTPriority :: "CipConnectionObject \<Rightarrow> ConnectionObjectPriority run" where
  "ConnectionObjectGetOToTPriority co = ConnectionObjectGetPriority (o_to_t_network_connection_parameters co) (is_large_forward_open co)"

definition ConnectionObjectGetOToTConnectionSizeType :: "CipConnectionObject \<Rightarrow> ConnectionObjectConnectionSizeType" where
  "ConnectionObjectGetOToTConnectionSizeType co = ConnectionObjectGetConnectionSizeType (o_to_t_network_connection_parameters co) (is_large_forward_open co)"

definition ConnectionObjectGetOToTConnectionSize :: "CipConnectionObject \<Rightarrow> size_t" where
  "ConnectionObjectGetOToTConnectionSize co = ConnectionObjectGetConnectionSize (o_to_t_network_connection_parameters co) (is_large_forward_open co)"

definition ConnectionObjectIsTToORedundantOwner :: "CipConnectionObject \<Rightarrow> bool" where
  "ConnectionObjectIsTToORedundantOwner co = ConnectionObjectIsRedundantOwner (t_to_o_network_connection_parameters co) (is_large_forward_open co)"

definition ConnectionObjectGetTToOConnectionType :: "CipConnectionObject \<Rightarrow> ConnectionObjectConnectionType" where
  "ConnectionObjectGetTToOConnectionType co = ConnectionObjectGetConnectionType (t_to_o_network_connection_parameters co) (is_large_forward_open co)"

definition ConnectionObjectGetTToOPriority :: "CipConnectionObject \<Rightarrow> ConnectionObjectPriority run" where
  "ConnectionObjectGetTToOPriority co = ConnectionObjectGetPriority (t_to_o_network_connection_parameters co) (is_large_forward_open co)"

definition ConnectionObjectGetTToOConnectionSizeType :: "CipConnectionObject \<Rightarrow> ConnectionObjectConnectionSizeType" where
  "ConnectionObjectGetTToOConnectionSizeType co = ConnectionObjectGetConnectionSizeType (t_to_o_network_connection_parameters co) (is_large_forward_open co)"

definition ConnectionObjectGetTToOConnectionSize :: "CipConnectionObject \<Rightarrow> size_t" where
  "ConnectionObjectGetTToOConnectionSize co = ConnectionObjectGetConnectionSize (t_to_o_network_connection_parameters co) (is_large_forward_open co)"

subsection \<open>Comparison and copying\<close>

definition ConnectionObjectDeepCopy :: "CipConnectionObject \<Rightarrow> CipConnectionObject \<Rightarrow> CipConnectionObject" where
  "ConnectionObjectDeepCopy destination source = source"

definition ConnectionObjectEqualOriginator :: "CipConnectionObject \<Rightarrow> CipConnectionObject \<Rightarrow> bool" where
  "ConnectionObjectEqualOriginator a b \<longleftrightarrow> originator_vendor_id a = originator_vendor_id b \<and>
     originator_serial_number a = originator_serial_number b"

definition EqualConnectionTriad :: "CipConnectionObject \<Rightarrow> CipConnectionObject \<Rightarrow> bool" where
  "EqualConnectionTriad a b \<longleftrightarrow> connection_serial_number a = connection_serial_number b \<and>
     originator_vendor_id a = originator_vendor_id b \<and> originator_serial_number a = originator_serial_number b"

definition CipConnectionObjectOriginatorHasSameIP :: "CipConnectionObject \<Rightarrow> sockaddr_in \<Rightarrow> bool" where
  "CipConnectionObjectOriginatorHasSameIP co addr \<longleftrightarrow> sin_addr addr = sin_addr (originator_address co)"

subsection \<open>The Forward Open request\<close>

definition network_parameters :: "bool \<Rightarrow> CipOctet list \<Rightarrow> (CipDword \<times> CipOctet list) run" where
  "network_parameters is_lfo msg = (if is_lfo then GetDwordFromMessage msg
     else do { (w, msg) \<leftarrow> GetWordFromMessage msg; Some (ucast w, msg) })"

text \<open>The connection number is the one \<^verbatim>\<open>GenerateRandomConnectionNumber\<close> gives.\<close>

definition ConnectionObjectInitializeFromMessage :: "CipUint \<Rightarrow> CipOctet list \<Rightarrow> CipConnectionObject \<Rightarrow>
    (CipConnectionObject \<times> CipOctet list) run" where
  "ConnectionObjectInitializeFromMessage number msg co = do {
     (_, msg) \<leftarrow> GetByteFromMessage msg;
     (_, msg) \<leftarrow> GetUsintFromMessage msg;
     (v, msg) \<leftarrow> GetUdintFromMessage msg;
     let co = ConnectionObjectSetCipConsumedConnectionID v co;
     (v, msg) \<leftarrow> GetUdintFromMessage msg;
     let co = ConnectionObjectSetCipProducedConnectionID v co;
     (v, msg) \<leftarrow> GetUintFromMessage msg;
     let co = ConnectionObjectSetConnectionSerialNumber v co;
     (v, msg) \<leftarrow> GetUintFromMessage msg;
     let co = ConnectionObjectSetOriginatorVendorId v co;
     (v, msg) \<leftarrow> GetUdintFromMessage msg;
     let co = ConnectionObjectSetOriginatorSerialNumber v co;
     let co = co\<lparr>connection_number := number\<rparr>;
     co \<leftarrow> ConnectionObjectSetState kConnectionObjectStateNonExistent co;
     let co = co\<lparr>sequence_count_producing := 0\<rparr>;
     (v, msg) \<leftarrow> GetUsintFromMessage msg;
     let co = ConnectionObjectSetConnectionTimeoutMultiplier v co;
     (_, msg) \<leftarrow> read_bytes 3 msg;
     (v, msg) \<leftarrow> GetUdintFromMessage msg;
     let co = ConnectionObjectSetOToTRequestedPacketInterval v co;
     co \<leftarrow> ConnectionObjectSetInitialInactivityWatchdogTimerValue co;
     (v, msg) \<leftarrow> network_parameters (is_large_forward_open co) msg;
     let co = ConnectionObjectSetOToTNetworkConnectionParameters v co;
     (v, msg) \<leftarrow> GetUdintFromMessage msg;
     let co = ConnectionObjectSetTToORequestedPacketInterval v co;
     let co = ConnectionObjectSetExpectedPacketRate co;
     (v, msg) \<leftarrow> network_parameters (is_large_forward_open co) msg;
     let co = ConnectionObjectSetTToONetworkConnectionParameters v co;
     (v, msg) \<leftarrow> GetByteFromMessage msg;
     Some (co\<lparr>transport_class_trigger := v\<rparr>, msg) }"

text \<open>\<open>ids\<close> are the results of the next calls of \<^verbatim>\<open>GetConnectionId\<close>; the remaining ones are returned.\<close>

definition ConnectionObjectGeneralConfiguration :: "(nat \<Rightarrow> CipUdint) \<Rightarrow> CipConnectionObject \<Rightarrow> CipConnectionObject \<times> nat" where
  "ConnectionObjectGeneralConfiguration ids co = (
     let co = co\<lparr>socket_consuming := kEipInvalidSocket, socket_producing := kEipInvalidSocket\<rparr>;
         (co, k) = (if ConnectionObjectGetOToTConnectionType co = kConnectionObjectConnectionTypePointToPoint
           then (ConnectionObjectSetCipConsumedConnectionID (ids 0) co, 1) else (co, 0));
         (co, k) = (if ConnectionObjectGetTToOConnectionType co = kConnectionObjectConnectionTypeMulticast
           then (ConnectionObjectSetCipProducedConnectionID (ids k) co, Suc k) else (co, k));
         co = ConnectionObjectResetSequenceCounts co;
         co = ConnectionObjectSetWatchdogTimeoutAction kConnectionObjectWatchdogTimeoutActionInvalid co;
         co = ConnectionObjectResetProductionInhibitTimer co
     in (co\<lparr>transmission_trigger_timer := 0\<rparr>, k))"

subsection \<open>Arithmetic of rates and timers\<close>

lemma packet_arith:
  fixes t :: nat
  shows "t mod 10000 = 0 \<Longrightarrow> t div 1000 = 10 * ((t + 9999) div 10000)"
    and "t mod 10000 \<noteq> 0 \<Longrightarrow> t div 1000 + (10 - t mod 10000 div 1000) = 10 * ((t + 9999) div 10000)"
    and "t div 1000 - t mod 10000 div 1000 = 10 * (t div 10000)"
    and "t mod 10000 = 0 \<Longrightarrow> t div 1000 = 10 * (t div 10000)"
proof -
  define q where "q = t div 10000"
  define r where "r = t mod 10000"
  have t: "t = 10000 * q + r" "r < 10000" by (simp_all add: q_def r_def)
  have d: "t div 1000 = 10 * q + r div 1000"
    using div_mult_self2 [of 1000 r "10 * q"] t(1) by (simp add: add.commute)
  have r: "r div 1000 < 10" using t(2) by (simp add: less_mult_imp_div_less)
  have up: "(t + 9999) div 10000 = q + (r + 9999) div 10000"
    using div_mult_self2 [of 10000 "r + 9999" q] t(1) by (simp add: add.commute add.left_commute)
  have ceil: "(r + 9999) div 10000 = (if r = 0 then 0 else 1)"
    using t(2) by (auto intro!: div_nat_eqI)
  show "t mod 10000 = 0 \<Longrightarrow> t div 1000 = 10 * ((t + 9999) div 10000)"
    "t mod 10000 \<noteq> 0 \<Longrightarrow> t div 1000 + (10 - t mod 10000 div 1000) = 10 * ((t + 9999) div 10000)"
    "t div 1000 - t mod 10000 div 1000 = 10 * (t div 10000)" "t mod 10000 = 0 \<Longrightarrow> t div 1000 = 10 * (t div 10000)"
    unfolding up r_def [symmetric] q_def [symmetric] using d r ceil by simp_all
qed

lemma unat_packet:
  fixes t :: CipUdint
  shows "unat (t div 1000) = unat t div 1000" "unat (t mod 10000) = unat t mod 10000"
    "unat (t mod 10000 div 1000) = unat t mod 10000 div 1000"
    "unat (10 - t mod 10000 div 1000) = 10 - unat t mod 10000 div 1000"
    "unat (t div 1000 + (10 - t mod 10000 div 1000)) = unat t div 1000 + (10 - unat t mod 10000 div 1000)"
    "unat (t div 1000 - t mod 10000 div 1000) = unat t div 1000 - unat t mod 10000 div 1000"
proof -
  show d: "unat (t div 1000) = unat t div 1000" and m: "unat (t mod 10000) = unat t mod 10000"
    by (simp_all add: unat_div unat_mod)
  show r: "unat (t mod 10000 div 1000) = unat t mod 10000 div 1000"
    by (simp add: unat_div unat_mod)
  have le: "t mod 10000 div 1000 \<le> 10" "t mod 10000 div 1000 \<le> t div 1000"
    using div_le_mono [of "unat t mod 10000" "unat t" 1000] div_le_mono [of "unat t mod 10000" 10000 1000]
    by (simp_all add: word_le_nat_alt r d less_imp_le)
  show s: "unat (10 - t mod 10000 div 1000) = 10 - unat t mod 10000 div 1000"
    using le(1) by (simp add: unat_sub r)
  show "unat (t div 1000 - t mod 10000 div 1000) = unat t div 1000 - unat t mod 10000 div 1000"
    using le(2) by (simp add: unat_sub r d)
  have "unat t < 4294967296" using unsigned_less [of t] by simp
  then have "unat t div 1000 < 4294968" by (simp add: less_mult_imp_div_less)
  then have "unat (t div 1000) + unat (10 - t mod 10000 div 1000) < 2 ^ LENGTH(32)"
    unfolding s d by simp
  from iffD1 [OF unat_add_lem this]
  show "unat (t div 1000 + (10 - t mod 10000 div 1000)) = unat t div 1000 + (10 - unat t mod 10000 div 1000)"
    unfolding s d .
qed

lemma ucast16_unat: "unat (ucast (x :: CipUdint) :: CipUint) = unat x mod 65536"
  by (simp add: unsigned_ucast_eq take_bit_eq_mod)

text \<open>
  The expected packet rate is the requested T-to-O interval rounded up to the next multiple of the
  10 ms timer tick, in milliseconds and modulo 2^16; the interval the transmission timer uses is
  rounded down, so that it is 0 for intervals below one tick.
\<close>

theorem packet_rate_rounding:
  "unat (expected_packet_rate (ConnectionObjectSetExpectedPacketRate co)) =
     10 * ((unat (t_to_o_requested_packet_interval co) + 9999) div 10000) mod 65536 \<and>
   unat (ConnectionObjectGetRequestedPacketInterval co) =
     10 * (unat (t_to_o_requested_packet_interval co) div 10000) mod 65536"
proof -
  let ?t = "t_to_o_requested_packet_interval co"
  have z: "?t mod 10000 = 0 \<longleftrightarrow> unat ?t mod 10000 = 0"
    by (metis unat_packet(2) unat_eq_zero)
  show ?thesis
    using packet_arith [of "unat ?t"]
    by (simp add: ConnectionObjectSetExpectedPacketRate_def ConnectionObjectGetRequestedPacketInterval_def Let_def
        ucast16_unat unat_packet z)
qed

definition longest_interval :: "CipConnectionObject \<Rightarrow> nat" where
  "longest_interval co = max (unat (o_to_t_requested_packet_interval co)) (unat (t_to_o_requested_packet_interval co))"

lemma longest_interval_word:
  "unat (if t_to_o_requested_packet_interval co > o_to_t_requested_packet_interval co
     then t_to_o_requested_packet_interval co else o_to_t_requested_packet_interval co) = longest_interval co"
  by (auto simp: longest_interval_def word_less_nat_alt max_def)

lemma longest_interval_bound: "longest_interval co < 4294967296" "longest_interval co div 1000 < 2 ^ 23"
proof -
  show "longest_interval co < 4294967296"
    using unsigned_less [of "o_to_t_requested_packet_interval co"] unsigned_less [of "t_to_o_requested_packet_interval co"]
    by (simp add: longest_interval_def)
  then show "longest_interval co div 1000 < 2 ^ 23" by simp
qed

lemma unat_push_bit: "unat (x :: CipUlint) * 2 ^ n < 2 ^ 64 \<Longrightarrow> unat (push_bit n x) = unat x * 2 ^ n"
  unfolding unsigned_push_bit_eq push_bit_eq_mult [of n "unat x"] take_bit_eq_mod by simp

lemma watchdog_value:
  assumes "unat (connection_timeout_multiplier co) < 40"
  shows "\<exists>w. ConnectionObjectCalculateRegularInactivityWatchdogTimerValue co = Some w \<and>
    unat w = longest_interval co div 1000 * 2 ^ (2 + unat (connection_timeout_multiplier co))"
proof -
  let ?n = "2 + unat (connection_timeout_multiplier co)"
  let ?t = "if t_to_o_requested_packet_interval co > o_to_t_requested_packet_interval co
     then t_to_o_requested_packet_interval co else o_to_t_requested_packet_interval co"
  have i: "unat ((ucast ?t :: CipUlint) div 1000) = longest_interval co div 1000"
    using longest_interval_word [of co] longest_interval_bound(1) [of co]
    by (simp only: unat_div unsigned_ucast_eq) (simp add: take_bit_eq_mod)
  have "longest_interval co div 1000 * 2 ^ ?n < 2 ^ 23 * 2 ^ 41"
    using longest_interval_bound(2) [of co] assms power_increasing [of ?n 41 "2::nat"]
    by (intro mult_less_le_imp_less) simp_all
  then have "unat (push_bit ?n ((ucast ?t :: CipUlint) div 1000)) = longest_interval co div 1000 * 2 ^ ?n"
    using unat_push_bit [of "(ucast ?t :: CipUlint) div 1000" ?n] unfolding i by simp
  then show ?thesis
    using assms by (simp add: ConnectionObjectCalculateRegularInactivityWatchdogTimerValue_def Let_def)
qed


text \<open>
  C38: Watchdog values. For a timeout multiplier below 40 the inactivity timeout is the longer of the
  two packet intervals in milliseconds times four times two to the multiplier, without overflow, and
  the initial timeout is that value but at least ten seconds; a multiplier of 62 or more makes the
  shift exceed the width of the timer.
\<close>

theorem watchdog_timer_values:
  "(unat (connection_timeout_multiplier co) < 40 \<longrightarrow>
     (\<exists>w co'. ConnectionObjectCalculateRegularInactivityWatchdogTimerValue co = Some w \<and>
       unat w = longest_interval co div 1000 * 2 ^ (2 + unat (connection_timeout_multiplier co)) \<and>
       ConnectionObjectSetInitialInactivityWatchdogTimerValue co = Some co' \<and>
       unat (inactivity_watchdog_timer co') = max 10000 (unat w))) \<and>
   (62 \<le> unat (connection_timeout_multiplier co) \<longrightarrow>
     ConnectionObjectCalculateRegularInactivityWatchdogTimerValue co = None)"
proof (intro conjI impI)
  assume "unat (connection_timeout_multiplier co) < 40"
  from watchdog_value [OF this] obtain w where w: "ConnectionObjectCalculateRegularInactivityWatchdogTimerValue co = Some w"
    "unat w = longest_interval co div 1000 * 2 ^ (2 + unat (connection_timeout_multiplier co))"
    by blast
  then show "\<exists>w co'. ConnectionObjectCalculateRegularInactivityWatchdogTimerValue co = Some w \<and>
       unat w = longest_interval co div 1000 * 2 ^ (2 + unat (connection_timeout_multiplier co)) \<and>
       ConnectionObjectSetInitialInactivityWatchdogTimerValue co = Some co' \<and>
       unat (inactivity_watchdog_timer co') = max 10000 (unat w)"
    by (auto simp: ConnectionObjectSetInitialInactivityWatchdogTimerValue_def word_less_nat_alt max_def)
qed (simp add: ConnectionObjectCalculateRegularInactivityWatchdogTimerValue_def Let_def)

theorem watchdog_timer_values_witness:
  "\<exists>w co'. ConnectionObjectCalculateRegularInactivityWatchdogTimerValue
       (zero_connection\<lparr>o_to_t_requested_packet_interval := 20000, connection_timeout_multiplier := 3\<rparr>) = Some w \<and>
     unat w = 640 \<and> ConnectionObjectSetInitialInactivityWatchdogTimerValue
       (zero_connection\<lparr>o_to_t_requested_packet_interval := 20000, connection_timeout_multiplier := 3\<rparr>) = Some co' \<and>
     unat (inactivity_watchdog_timer co') = 10000"
  using watchdog_timer_values [of "zero_connection\<lparr>o_to_t_requested_packet_interval := 20000, connection_timeout_multiplier := 3\<rparr>"]
  by (auto simp: longest_interval_def zero_connection_def)

lemma GetState_SetState:
  "ConnectionObjectSetState s co = Some co' \<Longrightarrow> ConnectionObjectGetState co' = s \<and> co' = co\<lparr>conn_state := conn_state co'\<rparr>"
  by (cases s) (auto simp: ConnectionObjectGetState_def)

lemma SetState_defined [simp]: "(ConnectionObjectSetState s co = None) = (s = kConnectionObjectStateInvalid)"
  by (cases s) auto

subsection \<open>The fixed part of a Forward Open request\<close>

text \<open>What a Forward Open request announces, and its octets on the wire.\<close>

record forward_open =
  fo_priority_tick :: CipByte
  fo_timeout_ticks :: CipUsint
  fo_o_to_t_id :: CipUdint
  fo_t_to_o_id :: CipUdint
  fo_serial :: CipUint
  fo_vendor :: CipUint
  fo_originator_serial :: CipUdint
  fo_multiplier :: CipUsint
  fo_reserved :: "CipOctet list"
  fo_o_to_t_interval :: CipUdint
  fo_o_to_t_params :: CipDword
  fo_t_to_o_interval :: CipUdint
  fo_t_to_o_params :: CipDword
  fo_transport :: CipByte

definition params_bytes :: "bool \<Rightarrow> CipDword \<Rightarrow> CipOctet list" where
  "params_bytes is_lfo p = (if is_lfo then dint_bytes p else int_bytes (ucast p))"

definition forward_open_bytes :: "bool \<Rightarrow> forward_open \<Rightarrow> CipOctet list" where
  "forward_open_bytes is_lfo fo = [fo_priority_tick fo, fo_timeout_ticks fo] @ dint_bytes (fo_o_to_t_id fo) @
     dint_bytes (fo_t_to_o_id fo) @ int_bytes (fo_serial fo) @ int_bytes (fo_vendor fo) @
     dint_bytes (fo_originator_serial fo) @ [fo_multiplier fo] @ fo_reserved fo @ dint_bytes (fo_o_to_t_interval fo) @
     params_bytes is_lfo (fo_o_to_t_params fo) @ dint_bytes (fo_t_to_o_interval fo) @
     params_bytes is_lfo (fo_t_to_o_params fo) @ [fo_transport fo]"

definition fo_wf :: "bool \<Rightarrow> forward_open \<Rightarrow> bool" where
  "fo_wf is_lfo fo \<longleftrightarrow> length (fo_reserved fo) = 3 \<and> unat (fo_multiplier fo) < 40 \<and>
     (\<not> is_lfo \<longrightarrow> unat (fo_o_to_t_params fo) < 65536 \<and> unat (fo_t_to_o_params fo) < 65536)"

lemma ucast_ucast_small: "unat (p :: CipDword) < 65536 \<Longrightarrow> (ucast (ucast p :: CipUint) :: CipDword) = p"
  by (rule word_unat_eq_iff [THEN iffD2]) (simp add: unsigned_ucast_eq take_bit_eq_mod unat_mod)

lemma network_parameters_bytes:
  "(\<not> is_lfo \<longrightarrow> unat p < 65536) \<Longrightarrow> network_parameters is_lfo (params_bytes is_lfo p @ r) = Some (p, r)"
  using udint.dec_enc [of p r] uint.dec_enc [of "ucast p" r]
  by (auto simp: network_parameters_def params_bytes_def readers_agree ucast_ucast_small)

lemma initial_watchdog:
  assumes "unat (connection_timeout_multiplier co) < 40"
  shows "\<exists>w. ConnectionObjectSetInitialInactivityWatchdogTimerValue co = Some (co\<lparr>inactivity_watchdog_timer := w\<rparr>) \<and>
    unat w = max 10000 (longest_interval co div 1000 * 2 ^ (2 + unat (connection_timeout_multiplier co)))"
proof -
  obtain w where w: "ConnectionObjectCalculateRegularInactivityWatchdogTimerValue co = Some w"
    "unat w = longest_interval co div 1000 * 2 ^ (2 + unat (connection_timeout_multiplier co))"
    using watchdog_value [OF assms] by blast
  have "unat (if w > 10000 then w else 10000) = max 10000 (unat w)"
    by (simp add: word_less_nat_alt max_def)
  with w show ?thesis
    by (auto simp: ConnectionObjectSetInitialInactivityWatchdogTimerValue_def simp del: if_split)
qed

lemma usint_read: "GetUsintFromMessage (b # r) = Some (b, r)"
  using usint.dec_enc [of b r] by (simp add: sint_bytes_def)

lemmas read_fields = usint_read uint.dec_enc udint.dec_enc

text \<open>The object a request announces: its number, the request, the watchdog and the object it is read into.\<close>

definition announced :: "CipUint \<Rightarrow> forward_open \<Rightarrow> CipUlint \<Rightarrow> CipConnectionObject \<Rightarrow> CipConnectionObject" where
  "announced n fo w co = (ConnectionObjectSetExpectedPacketRate (co\<lparr>cip_consumed_connection_id := fo_o_to_t_id fo,
    cip_produced_connection_id := fo_t_to_o_id fo, connection_serial_number := fo_serial fo, originator_vendor_id := fo_vendor fo,
    originator_serial_number := fo_originator_serial fo, connection_number := n, conn_state := 0,
    sequence_count_producing := 0, connection_timeout_multiplier := fo_multiplier fo,
    o_to_t_requested_packet_interval := fo_o_to_t_interval fo, inactivity_watchdog_timer := w,
    o_to_t_network_connection_parameters := fo_o_to_t_params fo, t_to_o_requested_packet_interval := fo_t_to_o_interval fo\<rparr>))
    \<lparr>t_to_o_network_connection_parameters := fo_t_to_o_params fo, transport_class_trigger := fo_transport fo\<rparr>"

lemma announced_simps [simp]:
  "ConnectionObjectGetState (announced n fo w co) = kConnectionObjectStateNonExistent" "connection_number (announced n fo w co) = n"
  "cip_consumed_connection_id (announced n fo w co) = fo_o_to_t_id fo" "cip_produced_connection_id (announced n fo w co) = fo_t_to_o_id fo"
  "connection_serial_number (announced n fo w co) = fo_serial fo" "originator_vendor_id (announced n fo w co) = fo_vendor fo"
  "originator_serial_number (announced n fo w co) = fo_originator_serial fo"
  "connection_timeout_multiplier (announced n fo w co) = fo_multiplier fo"
  "o_to_t_requested_packet_interval (announced n fo w co) = fo_o_to_t_interval fo"
  "o_to_t_network_connection_parameters (announced n fo w co) = fo_o_to_t_params fo"
  "t_to_o_requested_packet_interval (announced n fo w co) = fo_t_to_o_interval fo"
  "t_to_o_network_connection_parameters (announced n fo w co) = fo_t_to_o_params fo"
  "transport_class_trigger (announced n fo w co) = fo_transport fo"
  "is_large_forward_open (announced n fo w co) = is_large_forward_open co" "inactivity_watchdog_timer (announced n fo w co) = w"
  by (simp_all add: announced_def ConnectionObjectSetExpectedPacketRate_def Let_def ConnectionObjectGetState_def)

lemma forward_open_announced:
  assumes "fo_wf (is_large_forward_open co) fo"
  shows "\<exists>w. ConnectionObjectInitializeFromMessage n (forward_open_bytes (is_large_forward_open co) fo @ r) co =
      Some (announced n fo w co, r) \<and>
    unat w = max 10000 (max (unat (fo_o_to_t_interval fo)) (unat (t_to_o_requested_packet_interval co)) div 1000 *
      2 ^ (2 + unat (fo_multiplier fo)))"
proof -
  let ?co1 = "co\<lparr>cip_consumed_connection_id := fo_o_to_t_id fo, cip_produced_connection_id := fo_t_to_o_id fo,
    connection_serial_number := fo_serial fo, originator_vendor_id := fo_vendor fo,
    originator_serial_number := fo_originator_serial fo, connection_number := n, conn_state := 0,
    sequence_count_producing := 0, connection_timeout_multiplier := fo_multiplier fo,
    o_to_t_requested_packet_interval := fo_o_to_t_interval fo\<rparr>"
  obtain w where w: "ConnectionObjectSetInitialInactivityWatchdogTimerValue ?co1 = Some (?co1\<lparr>inactivity_watchdog_timer := w\<rparr>)"
    "unat w = max 10000 (max (unat (fo_o_to_t_interval fo)) (unat (t_to_o_requested_packet_interval co)) div 1000 *
      2 ^ (2 + unat (fo_multiplier fo)))"
    using initial_watchdog [of ?co1] assms by (auto simp: fo_wf_def longest_interval_def)
  have res: "read_bytes 3 (fo_reserved fo @ x) = Some (fo_reserved fo, x)" for x
    using assms read_bytes_append [of "fo_reserved fo" x] by (simp add: fo_wf_def)
  have params: "network_parameters (is_large_forward_open co) (params_bytes (is_large_forward_open co) (fo_o_to_t_params fo) @ x) = Some (fo_o_to_t_params fo, x)"
    "network_parameters (is_large_forward_open co) (params_bytes (is_large_forward_open co) (fo_t_to_o_params fo) @ x) = Some (fo_t_to_o_params fo, x)" for x
    using assms by (auto simp: fo_wf_def intro!: network_parameters_bytes)
  define co2 where "co2 = ConnectionObjectSetExpectedPacketRate (?co1\<lparr>inactivity_watchdog_timer := w,
    o_to_t_network_connection_parameters := fo_o_to_t_params fo, t_to_o_requested_packet_interval := fo_t_to_o_interval fo\<rparr>)"
  have co2: "is_large_forward_open co2 = is_large_forward_open co" by (simp add: co2_def ConnectionObjectSetExpectedPacketRate_def Let_def)
  have "ConnectionObjectInitializeFromMessage n (forward_open_bytes (is_large_forward_open co) fo @ r) co =
      Some (co2\<lparr>t_to_o_network_connection_parameters := fo_t_to_o_params fo, transport_class_trigger := fo_transport fo\<rparr>, r)"
    by (simp add: ConnectionObjectInitializeFromMessage_def forward_open_bytes_def readers_agree read_fields res params w(1) co2
        ConnectionObjectSetCipConsumedConnectionID_def ConnectionObjectSetCipProducedConnectionID_def
        ConnectionObjectSetConnectionSerialNumber_def ConnectionObjectSetOriginatorVendorId_def
        ConnectionObjectSetOriginatorSerialNumber_def ConnectionObjectSetConnectionTimeoutMultiplier_def
        ConnectionObjectSetOToTRequestedPacketInterval_def ConnectionObjectSetOToTNetworkConnectionParameters_def
        ConnectionObjectSetTToORequestedPacketInterval_def ConnectionObjectSetTToONetworkConnectionParameters_def
        co2_def [symmetric])
  then show ?thesis
    using w(2) by (auto simp: co2_def announced_def)
qed

text \<open>
  C29: Reading the fixed part of a Forward Open or Large Forward Open request takes every field from its
  place, whichever of the two layouts the object was marked with, and leaves the pointer at the
  connection path. The initial watchdog is computed from the new O-to-T interval and the T-to-O
  interval the object had before the request was read.
\<close>

theorem forward_open_fields:
  assumes "fo_wf (is_large_forward_open co) fo"
  shows "\<exists>co'. ConnectionObjectInitializeFromMessage n (forward_open_bytes (is_large_forward_open co) fo @ r) co = Some (co', r) \<and>
    ConnectionObjectGetState co' = kConnectionObjectStateNonExistent \<and> connection_number co' = n \<and>
    cip_consumed_connection_id co' = fo_o_to_t_id fo \<and> cip_produced_connection_id co' = fo_t_to_o_id fo \<and>
    connection_serial_number co' = fo_serial fo \<and> originator_vendor_id co' = fo_vendor fo \<and>
    originator_serial_number co' = fo_originator_serial fo \<and> connection_timeout_multiplier co' = fo_multiplier fo \<and>
    o_to_t_requested_packet_interval co' = fo_o_to_t_interval fo \<and>
    o_to_t_network_connection_parameters co' = fo_o_to_t_params fo \<and>
    t_to_o_requested_packet_interval co' = fo_t_to_o_interval fo \<and>
    t_to_o_network_connection_parameters co' = fo_t_to_o_params fo \<and> transport_class_trigger co' = fo_transport fo \<and>
    is_large_forward_open co' = is_large_forward_open co \<and>
    unat (inactivity_watchdog_timer co') = max 10000 (max (unat (fo_o_to_t_interval fo))
      (unat (t_to_o_requested_packet_interval co)) div 1000 * 2 ^ (2 + unat (fo_multiplier fo)))"
  using forward_open_announced [OF assms, of n r] by force


definition example_forward_open :: forward_open where
  "example_forward_open = \<lparr>fo_priority_tick = 10, fo_timeout_ticks = 14, fo_o_to_t_id = 0, fo_t_to_o_id = 0x80000001,
     fo_serial = 7, fo_vendor = 0x004D, fo_originator_serial = 0x12345678, fo_multiplier = 1, fo_reserved = [0, 0, 0],
     fo_o_to_t_interval = 50000, fo_o_to_t_params = 0x43F8, fo_t_to_o_interval = 50000, fo_t_to_o_params = 0x43F8,
     fo_transport = 0xA3\<rparr>"

lemma example_forward_open_wf: "fo_wf False example_forward_open"
  by (simp add: fo_wf_def example_forward_open_def)

theorem forward_open_fields_witness:
  "\<exists>co'. ConnectionObjectInitializeFromMessage 9 (forward_open_bytes False example_forward_open @ [2, 0x20]) zero_connection =
       Some (co', [2, 0x20]) \<and> connection_serial_number co' = 7 \<and> transport_class_trigger co' = 0xA3 \<and>
     unat (inactivity_watchdog_timer co') = 10000"
  using forward_open_fields [of zero_connection example_forward_open 9 "[2, 0x20]"] example_forward_open_wf
  by (auto simp: zero_connection_def example_forward_open_def)

subsection \<open>Random connection numbers\<close>

text \<open>
  \<open>rnd k\<close> is the value of the \<open>k\<close>-th call of \<^verbatim>\<open>rand\<close>, cut to 16 bits. The recursive call of
  \<^verbatim>\<open>GenerateRandomConnectionNumber\<close> scans the list anew; the loop goes on with its result.
\<close>

partial_function (option) random_from :: "(nat \<Rightarrow> CipUint) \<Rightarrow> CipConnectionObject list \<Rightarrow> DoublyLinkedList \<Rightarrow>
    nat option \<Rightarrow> CipUint \<Rightarrow> nat \<Rightarrow> (CipUint \<times> nat) option" where
  "random_from rnd conns l iterator rand_num k = (case iterator of
       None \<Rightarrow> Some (rand_num, k)
     | Some i \<Rightarrow> do {
         n \<leftarrow> array_get (nodes l) i;
         d \<leftarrow> node_data n;
         co \<leftarrow> array_get conns d;
         (rand_num, k) \<leftarrow> (if connection_number co = rand_num
           then random_from rnd conns l (first_node l) (rnd k) (Suc k) else Some (rand_num, k));
         random_from rnd conns l (next_node n) rand_num k })"

definition GenerateRandomConnectionNumber :: "(nat \<Rightarrow> CipUint) \<Rightarrow> CipConnectionObject list \<Rightarrow> DoublyLinkedList \<Rightarrow>
    nat \<Rightarrow> (CipUint \<times> nat) run" where
  "GenerateRandomConnectionNumber rnd conns l k = random_from rnd conns l (first_node l) (rnd k) (Suc k)"

text \<open>The numbers of the connections whose nodes are given.\<close>

definition numbers_of :: "CipConnectionObject list \<Rightarrow> DoublyLinkedList \<Rightarrow> nat list \<Rightarrow> CipUint set" where
  "numbers_of conns l js = (\<lambda>i. connection_number (conns ! node_content l i)) ` set js"

definition nodes_refer :: "CipConnectionObject list \<Rightarrow> DoublyLinkedList \<Rightarrow> nat list \<Rightarrow> bool" where
  "nodes_refer conns l js \<longleftrightarrow> (\<forall>i \<in> set js. node_content l i < length conns)"

lemma random_from_fresh:
  "linked (nodes l) p js None \<Longrightarrow> nodes_refer conns l js \<Longrightarrow> r \<notin> numbers_of conns l js \<Longrightarrow>
     random_from rnd conns l (head_or js None) r k = Some (r, k)"
proof (induction js arbitrary: p)
  case Nil
  then show ?case by (simp add: random_from.simps)
next
  case (Cons i js)
  then show ?case
    by (subst random_from.simps) (auto simp: nodes_refer_def numbers_of_def node_content_def)
qed

lemma random_from_taken:
  assumes "random_from rnd conns l (first_node l) (rnd k) (Suc k) = Some (r', k')"
  shows "linked (nodes l) p js None \<Longrightarrow> nodes_refer conns l js \<Longrightarrow> r' \<notin> numbers_of conns l js \<Longrightarrow> r \<in> numbers_of conns l js \<Longrightarrow>
     random_from rnd conns l (head_or js None) r k = Some (r', k')"
proof (induction js arbitrary: p)
  case (Cons i js)
  show ?case
  proof (cases "connection_number (conns ! node_content l i) = r")
    case True
    have "random_from rnd conns l (head_or js None) r' k' = Some (r', k')"
      using Cons.prems by (intro random_from_fresh [where p = "Some i"]) (auto simp: nodes_refer_def numbers_of_def)
    with True Cons.prems assms show ?thesis
      by (subst random_from.simps) (auto simp: nodes_refer_def node_content_def)
  next
    case False
    have "random_from rnd conns l (head_or js None) r k = Some (r', k')"
      using Cons.prems False by (intro Cons.IH [where p = "Some i"]) (auto simp: nodes_refer_def numbers_of_def)
    with False Cons.prems show ?thesis
      by (subst random_from.simps) (auto simp: nodes_refer_def node_content_def)
  qed
qed (simp add: numbers_of_def)

lemma random_first_fresh:
  assumes "dll_wf l is" and "nodes_refer conns l is"
    and "\<forall>j. k \<le> j \<and> j < m \<longrightarrow> rnd j \<in> numbers_of conns l is" and "k \<le> m" and "rnd m \<notin> numbers_of conns l is"
  shows "GenerateRandomConnectionNumber rnd conns l k = Some (rnd m, Suc m)"
  using assms(3,4)
proof (induction "m - k" arbitrary: k)
  case 0
  then have "k = m" by simp
  then show ?case
    using assms(1,2,5) random_from_fresh [of l None "is" conns "rnd m" rnd "Suc m"]
    by (simp add: GenerateRandomConnectionNumber_def dll_wf_def)
next
  case (Suc d)
  then have "GenerateRandomConnectionNumber rnd conns l (Suc k) = Some (rnd m, Suc m)"
    by (intro Suc.hyps(1)) auto
  moreover have "rnd k \<in> numbers_of conns l is" using Suc.prems Suc.hyps(2) by simp
  ultimately show ?case
    using assms(1,2,5) random_from_taken [of rnd conns l "Suc k" "rnd m" "Suc m" None "is" "rnd k"]
    by (simp add: GenerateRandomConnectionNumber_def dll_wf_def)
qed

text \<open>
  C37: The new connection number. On a well-formed connection list the generator returns the first value of
  the random sequence that no listed connection uses, however many values before it are taken, and
  has then consumed the sequence up to it.
\<close>

theorem random_number_is_first_fresh:
  assumes "dll_wf l is" and "nodes_refer conns l is"
    and "\<forall>j. k \<le> j \<and> j < m \<longrightarrow> rnd j \<in> numbers_of conns l is" and "k \<le> m" and "rnd m \<notin> numbers_of conns l is"
  shows "GenerateRandomConnectionNumber rnd conns l k = Some (rnd m, Suc m)"
  using assms by (rule random_first_fresh)

theorem random_number_is_first_fresh_witness:
  "GenerateRandomConnectionNumber (\<lambda>k. of_nat k) [zero_connection\<lparr>connection_number := 5\<rparr>]
     \<lparr>nodes = [\<lparr>previous_node = None, next_node = None, node_data = Some 0\<rparr>], first_node = Some 0, last_node = Some 0,
       allocator = True, deallocator = True\<rparr> 5 = Some (6, 7)"
proof -
  have five: "(of_nat j :: CipUint) = 5" if "5 \<le> j \<and> j < 6" for j :: nat
  proof -
    from that have "j = 5" by linarith
    then show ?thesis by simp
  qed
  then show ?thesis
    using random_number_is_first_fresh [of "\<lparr>nodes = [\<lparr>previous_node = None, next_node = None, node_data = Some 0\<rparr>],
      first_node = Some 0, last_node = Some 0, allocator = True, deallocator = True\<rparr>" "[0]"
      "[zero_connection\<lparr>connection_number := 5\<rparr>]" 5 6 "\<lambda>k. of_nat k"]
    by (simp add: dll_wf_def nodes_refer_def numbers_of_def node_content_def)
qed

subsection \<open>Fields of the network connection parameters\<close>

text \<open>The parameter word of a direction, assembled from its fields.\<close>

definition compose_params :: "bool \<Rightarrow> bool \<Rightarrow> nat \<Rightarrow> nat \<Rightarrow> bool \<Rightarrow> nat \<Rightarrow> CipDword" where
  "compose_params is_lfo owner type_code prio variable_size sz = (let s = (if is_lfo then 16 else 0) in
     push_bit (15 + s) (of_bool owner) OR push_bit (13 + s) (of_nat type_code) OR push_bit (10 + s) (of_nat prio) OR
     push_bit (9 + s) (of_bool variable_size) OR of_nat sz)"

lemma bit_small: "n < 2 ^ k \<Longrightarrow> bit (of_nat n :: CipDword) i \<longleftrightarrow> i < 32 \<and> i < k \<and> bit n i"
proof -
  assume "n < 2 ^ k"
  then have "take_bit k n = n" by (simp add: take_bit_nat_eq_self_iff)
  then have "bit n i \<Longrightarrow> i < k" by (metis bit_take_bit_iff)
  then show ?thesis by (auto simp: bit_simps)
qed

lemma compose_params_bits:
  fixes owner variable_size :: bool
  assumes "type_code < 4" and "prio < 4" and "sz < 2 ^ n" and "n \<le> 9 + s" and "s \<le> 16"
  defines "p \<equiv> push_bit (15 + s) (of_bool owner) OR push_bit (13 + s) (of_nat type_code) OR push_bit (10 + s) (of_nat prio) OR
     push_bit (9 + s) (of_bool variable_size) OR of_nat sz :: CipDword"
  shows "bit p (15 + s) \<longleftrightarrow> owner" and "j < 2 \<Longrightarrow> bit p (13 + s + j) \<longleftrightarrow> bit type_code j"
    and "j < 2 \<Longrightarrow> bit p (10 + s + j) \<longleftrightarrow> bit prio j" and "bit p (9 + s) \<longleftrightarrow> variable_size"
    and "i < n \<Longrightarrow> bit p i \<longleftrightarrow> i < 32 \<and> bit sz i"
proof -
  have b: "bit (of_nat type_code :: CipDword) i \<longleftrightarrow> i < 32 \<and> i < 2 \<and> bit type_code i"
    "bit (of_nat prio :: CipDword) i \<longleftrightarrow> i < 32 \<and> i < 2 \<and> bit prio i"
    "bit (of_nat sz :: CipDword) i \<longleftrightarrow> i < 32 \<and> i < n \<and> bit sz i"
    "bit (of_bool w :: CipDword) i \<longleftrightarrow> w \<and> i = 0" for i w
    using assms(1-3) by (intro bit_small; simp)+ (auto simp: bit_of_bool_iff)
  note bits = p_def bit_or_iff bit_push_bit_iff b
  show "bit p (15 + s) \<longleftrightarrow> owner" "bit p (9 + s) \<longleftrightarrow> variable_size"
    using assms(4,5) by (simp_all add: bits)
  show "bit p (13 + s + j) \<longleftrightarrow> bit type_code j" "bit p (10 + s + j) \<longleftrightarrow> bit prio j" if "j < 2"
    using that assms(4,5) by (simp_all add: bits)
  show "bit p i \<longleftrightarrow> i < 32 \<and> bit sz i" if "i < n"
    using that assms(4,5) by (simp add: bits)
qed

lemma two_bit_field:
  assumes "\<And>j. j < 2 \<Longrightarrow> bit (p :: CipDword) (k + j) \<longleftrightarrow> bit n j" and "n < 4" and "k \<le> 30"
  shows "(ucast (drop_bit k (p AND push_bit k 3)) :: CipUsint) = of_nat n"
proof (rule bit_word_eqI)
  fix j assume j: "j < LENGTH(8)"
  have three: "(3 :: CipDword) = Bit_Operations.mask 2" by (simp add: mask_eq_exp_minus_1)
  have n: "bit n j \<Longrightarrow> j < 2"
    using assms(2) by (metis bit_take_bit_iff numeral_2_eq_2 power2_eq_square take_bit_nat_eq_self_iff num_double numeral_times_numeral)
  show "bit (ucast (drop_bit k (p AND push_bit k 3)) :: CipUsint) j = bit (of_nat n :: CipUsint) j"
    using assms(1) [of j] assms(3) n j
    by (auto simp: bit_ucast_iff bit_drop_bit_eq bit_and_iff bit_push_bit_iff three bit_mask_iff bit_simps)
qed


lemma one_bit_field: "(p :: CipDword) AND push_bit k 1 \<noteq> 0 \<longleftrightarrow> bit p k"
proof -
  have "push_bit k 1 = (2 ^ k :: CipDword)" by (simp add: push_bit_eq_mult)
  then show ?thesis by (simp add: and_exp_eq_0_iff_not_bit)
qed

lemma low_bits_field:
  assumes "\<And>i. i < n \<Longrightarrow> bit (p :: CipDword) i \<longleftrightarrow> i < 32 \<and> bit sz i" and "sz < 2 ^ n"
  shows "p AND Bit_Operations.mask n = of_nat sz"
proof (rule bit_word_eqI)
  fix i assume "i < LENGTH(32)"
  then show "bit (p AND Bit_Operations.mask n) i = bit (of_nat sz :: CipDword) i"
    using assms(1) [of i] bit_small [OF assms(2), of i] by (auto simp: bit_and_iff bit_mask_iff)
qed

lemma type_codes: "k < 4 \<Longrightarrow> k = 0 \<or> k = 1 \<or> k = 2 \<or> k = (3 :: nat)"
  by arith

text \<open>
  Network connection parameters. For the 16-bit layout of a Forward Open and the 32-bit layout of a
  Large Forward Open alike, the accessors return the redundant owner flag, the connection type, the
  priority, the size type and the connection size the word was assembled from.
\<close>

theorem network_parameter_fields:
  assumes "type_code < 4" and "prio < 4" and "sz < (if is_lfo then 2 ^ 16 else 2 ^ 9)"
  shows "(let p = compose_params is_lfo owner type_code prio variable_size sz in
    ConnectionObjectIsRedundantOwner p is_lfo = owner \<and>
    ConnectionObjectGetConnectionType p is_lfo = [kConnectionObjectConnectionTypeNull, kConnectionObjectConnectionTypeMulticast,
      kConnectionObjectConnectionTypePointToPoint, kConnectionObjectConnectionTypeInvalid] ! type_code \<and>
    ConnectionObjectGetPriority p is_lfo = Some ([kConnectionObjectPriorityLow, kConnectionObjectPriorityHigh,
      kConnectionObjectPriorityScheduled, kConnectionObjectPriorityUrgent] ! prio) \<and>
    ConnectionObjectGetConnectionSizeType p is_lfo = (if variable_size then kConnectionObjectConnectionSizeTypeVariable
      else kConnectionObjectConnectionSizeTypeFixed) \<and>
    ConnectionObjectGetConnectionSize p is_lfo = of_nat sz)"
proof -
  define s where "s = (if is_lfo then 16 else 0 :: nat)"
  define n where "n = (if is_lfo then 16 else 9 :: nat)"
  define p where "p = compose_params is_lfo owner type_code prio variable_size sz"
  have sz: "sz < 2 ^ n" "n \<le> 9 + s" "s \<le> 16" using assms(3) by (auto simp: s_def n_def split: if_splits)
  have p: "p = push_bit (15 + s) (of_bool owner) OR push_bit (13 + s) (of_nat type_code) OR push_bit (10 + s) (of_nat prio) OR
     push_bit (9 + s) (of_bool variable_size) OR of_nat sz"
    unfolding p_def compose_params_def Let_def s_def ..
  note bits = compose_params_bits [OF assms(1,2) sz, where owner = owner and variable_size = variable_size, folded p]
  have ty: "(ucast (drop_bit (13 + s) (p AND push_bit (13 + s) 3)) :: CipUsint) = of_nat type_code"
    using bits(2) assms(1) sz(3) by (intro two_bit_field) auto
  have pr: "(ucast (drop_bit (10 + s) (p AND push_bit (10 + s) 3)) :: CipUsint) = of_nat prio"
    using bits(3) assms(2) sz(3) by (intro two_bit_field) auto
  have size_mask: "p AND Bit_Operations.mask n = of_nat sz" using bits(5) sz(1) by (rule low_bits_field)
  have masks: "(0xFFFF :: CipDword) = Bit_Operations.mask 16" "(0x1FF :: CipDword) = Bit_Operations.mask 9"
    by (simp_all add: mask_eq_exp_minus_1)
  have "ConnectionObjectIsRedundantOwner p is_lfo = owner"
    using bits(1) by (simp add: ConnectionObjectIsRedundantOwner_def one_bit_field s_def del: push_bit_of_1 split: if_splits)
  moreover have "ConnectionObjectGetConnectionType p is_lfo = [kConnectionObjectConnectionTypeNull, kConnectionObjectConnectionTypeMulticast,
      kConnectionObjectConnectionTypePointToPoint, kConnectionObjectConnectionTypeInvalid] ! type_code"
    using ty type_codes [OF assms(1)] by (cases is_lfo) (auto simp: ConnectionObjectGetConnectionType_def Let_def s_def)
  moreover have "ConnectionObjectGetPriority p is_lfo = Some ([kConnectionObjectPriorityLow, kConnectionObjectPriorityHigh,
      kConnectionObjectPriorityScheduled, kConnectionObjectPriorityUrgent] ! prio)"
    using pr type_codes [OF assms(2)] by (cases is_lfo) (auto simp: ConnectionObjectGetPriority_def Let_def s_def)
  moreover have "ConnectionObjectGetConnectionSizeType p is_lfo = (if variable_size then kConnectionObjectConnectionSizeTypeVariable
      else kConnectionObjectConnectionSizeTypeFixed)"
    using bits(4) by (simp add: ConnectionObjectGetConnectionSizeType_def one_bit_field s_def del: push_bit_of_1 split: if_splits)
  moreover have "ConnectionObjectGetConnectionSize p is_lfo = of_nat sz"
    using size_mask by (cases is_lfo) (simp_all add: ConnectionObjectGetConnectionSize_def n_def masks)
  ultimately show ?thesis unfolding p_def [symmetric] Let_def by blast
qed

theorem network_parameter_fields_witness:
  "ConnectionObjectGetConnectionType (compose_params False False 2 0 True 504) False = kConnectionObjectConnectionTypePointToPoint \<and>
   ConnectionObjectGetConnectionSize (compose_params False False 2 0 True 504) False = 504"
  using network_parameter_fields [of 2 0 504 False False True] by (simp add: Let_def)

end
