(* ===== verification/Cpf.thy ===== *)
theory Cpf
  imports ConnectionObject
begin

text \<open>
  The common packet format of \<^verbatim>\<open>enet_encap/cpf.c\<close>: the packet structure, its parser
  \<^verbatim>\<open>CreateCommonPacketFormatStructure\<close> and the encoders that assemble a reply or an I/O message.
  The two functions that hand a packet to the message router are in the theory of the encapsulation
  layer, which they call.
\<close>

subsection \<open>Items\<close>

abbreviation (input) kCipItemIdNullAddress :: CipUint where "kCipItemIdNullAddress \<equiv> 0x0000"
abbreviation (input) kCipItemIdListIdentityResponse :: CipUint where "kCipItemIdListIdentityResponse \<equiv> 0x000C"
abbreviation (input) kCipItemIdConnectionAddress :: CipUint where "kCipItemIdConnectionAddress \<equiv> 0x00A1"
abbreviation (input) kCipItemIdConnectedDataItem :: CipUint where "kCipItemIdConnectedDataItem \<equiv> 0x00B1"
abbreviation (input) kCipItemIdUnconnectedDataItem :: CipUint where "kCipItemIdUnconnectedDataItem \<equiv> 0x00B2"
abbreviation (input) kCipItemIdListServiceResponse :: CipUint where "kCipItemIdListServiceResponse \<equiv> 0x0100"
abbreviation (input) kCipItemIdSocketAddressInfoOriginatorToTarget :: CipUint where
  "kCipItemIdSocketAddressInfoOriginatorToTarget \<equiv> 0x8000"
abbreviation (input) kCipItemIdSocketAddressInfoTargetToOriginator :: CipUint where
  "kCipItemIdSocketAddressInfoTargetToOriginator \<equiv> 0x8001"
abbreviation (input) kCipItemIdSequencedAddressItem :: CipUint where "kCipItemIdSequencedAddressItem \<equiv> 0x8002"
abbreviation (input) kSequencedAddressItemLength :: CipUint where "kSequencedAddressItemLength \<equiv> 8"

record AddressData =
  connection_identifier :: CipUdint
  sequence_number :: CipUdint

record AddressItem =
  address_type_id :: CipUint
  address_length :: CipUint
  address_data :: AddressData

record DataItem =
  data_type_id :: CipUint
  data_item_length :: CipUint
  data_item_data :: "CipOctet list"

record SocketAddressInfoItem =
  info_type_id :: CipUint
  info_length :: CipUint
  info_sin_family :: CipUint
  info_sin_port :: CipUint
  info_sin_addr :: CipUdint
  info_nasin_zero :: "CipOctet list"

record CipCommonPacketFormatData =
  item_count :: CipUint
  address_item :: AddressItem
  data_item :: DataItem
  address_info_item :: "SocketAddressInfoItem list"

text \<open>The global structure as the program starts.\<close>

definition zero_info_item :: SocketAddressInfoItem where
  "zero_info_item = \<lparr>info_type_id = 0, info_length = 0, info_sin_family = 0, info_sin_port = 0, info_sin_addr = 0,
     info_nasin_zero = replicate 8 0\<rparr>"

definition zero_packet :: CipCommonPacketFormatData where
  "zero_packet = \<lparr>item_count = 0, address_item = \<lparr>address_type_id = 0, address_length = 0,
     address_data = \<lparr>connection_identifier = 0, sequence_number = 0\<rparr>\<rparr>,
     data_item = \<lparr>data_type_id = 0, data_item_length = 0, data_item_data = []\<rparr>,
     address_info_item = replicate 2 zero_info_item\<rparr>"

definition set_info_type :: "nat \<Rightarrow> CipUint \<Rightarrow> CipCommonPacketFormatData \<Rightarrow> CipCommonPacketFormatData" where
  "set_info_type j t p = p\<lparr>address_info_item := (address_info_item p)[j := (address_info_item p ! j)\<lparr>info_type_id := t\<rparr>]\<rparr>"

subsection \<open>Parsing\<close>

text \<open>
  One round of the loop over the socket address items. Where no such item is found, the read
  position goes back but the octet count keeps the two octets.
\<close>

definition parse_info_item :: "nat \<Rightarrow> CipOctet list \<Rightarrow> size_t \<Rightarrow> CipCommonPacketFormatData \<Rightarrow>
    (CipOctet list \<times> size_t \<times> CipCommonPacketFormatData) run" where
  "parse_info_item j data length_count p = do {
     (t, rest) \<leftarrow> GetIntFromMessage data;
     let p = set_info_type j t p;
     let length_count = length_count + 2;
     if t = kCipItemIdSocketAddressInfoOriginatorToTarget \<or> t = kCipItemIdSocketAddressInfoTargetToOriginator
     then do {
       (len, rest) \<leftarrow> GetIntFromMessage rest;
       (family, rest) \<leftarrow> GetIntFromMessage rest;
       (port, rest) \<leftarrow> GetIntFromMessage rest;
       (addr, rest) \<leftarrow> GetUdintFromMessage rest;
       (zeros, rest) \<leftarrow> read_bytes 8 rest;
       let item = \<lparr>info_type_id = t, info_length = len, info_sin_family = family, info_sin_port = port,
         info_sin_addr = addr, info_nasin_zero = zeros\<rparr>;
       Some (rest, length_count + 18, p\<lparr>address_info_item := (address_info_item p)[j := item]\<rparr>) }
     else Some (data, length_count, set_info_type j 0 p) }"

fun parse_info_items :: "nat list \<Rightarrow> CipOctet list \<Rightarrow> size_t \<Rightarrow> CipCommonPacketFormatData \<Rightarrow>
    (size_t \<times> CipCommonPacketFormatData) run" where
  "parse_info_items [] data length_count p = Some (length_count, p)"
| "parse_info_items (j # js) data length_count p = do {
     (data, length_count, p) \<leftarrow> parse_info_item j data length_count p;
     parse_info_items js data length_count p }"

definition parse_address_item :: "CipOctet list \<Rightarrow> size_t \<Rightarrow> CipCommonPacketFormatData \<Rightarrow>
    (CipOctet list \<times> size_t \<times> CipCommonPacketFormatData) run" where
  "parse_address_item data length_count p = do {
     (t, data) \<leftarrow> GetUintFromMessage data;
     (len, data) \<leftarrow> GetUintFromMessage data;
     let length_count = length_count + 4;
     let item = (address_item p)\<lparr>address_type_id := t, address_length := len\<rparr>;
     (data, length_count, item) \<leftarrow> (if len \<ge> 4 then do {
         (cid, data) \<leftarrow> GetUdintFromMessage data;
         Some (data, length_count + 4, item\<lparr>address_data := (address_data item)\<lparr>connection_identifier := cid\<rparr>\<rparr>) }
       else Some (data, length_count, item));
     (data, length_count, item) \<leftarrow> (if len = 8 then do {
         (seq, data) \<leftarrow> GetUdintFromMessage data;
         Some (data, length_count + 4, item\<lparr>address_data := (address_data item)\<lparr>sequence_number := seq\<rparr>\<rparr>) }
       else Some (data, length_count, item));
     Some (data, length_count, p\<lparr>address_item := item\<rparr>) }"

text \<open>The end of the function: items not received are marked and the octet count is compared.\<close>

definition finish_packet :: "size_t \<Rightarrow> size_t \<Rightarrow> CipCommonPacketFormatData \<Rightarrow> EipStatus \<times> CipCommonPacketFormatData" where
  "finish_packet data_length length_count p = (
     let p = (if item_count p < 4 then set_info_type 1 0 p else p);
         p = (if item_count p < 3 then set_info_type 0 0 p else p)
     in (if length_count = data_length then (kEipStatusOk, p)
         else if item_count p > 2 then (kEipStatusOk, p) else (kEipStatusError, p)))"

definition CreateCommonPacketFormatStructure :: "CipOctet list \<Rightarrow> size_t \<Rightarrow> CipCommonPacketFormatData \<Rightarrow>
    (EipStatus \<times> CipCommonPacketFormatData) run" where
  "CreateCommonPacketFormatStructure data data_length p = do {
     let p = set_info_type 1 0 (set_info_type 0 0 p);
     (count, data) \<leftarrow> GetUintFromMessage data;
     let p = p\<lparr>item_count := count\<rparr>;
     (data, length_count, p) \<leftarrow> (if count \<ge> 1 then parse_address_item data 2 p else Some (data, 2, p));
     if count \<ge> 2 then do {
       (t, data) \<leftarrow> GetUintFromMessage data;
       (len, data) \<leftarrow> GetUintFromMessage data;
       let p = p\<lparr>data_item := \<lparr>data_type_id = t, data_item_length = len, data_item_data = data\<rparr>\<rparr>;
       if data_length \<ge> length_count + 4 + ucast len then do {
         (_, data) \<leftarrow> read_bytes (unat len) data;
         let address_item_count = count - 2;
         (length_count, p) \<leftarrow> parse_info_items [0..<(if address_item_count > 2 then 2 else unat address_item_count)]
           data (length_count + (4 + ucast len)) p;
         Some (finish_packet data_length length_count p) }
       else Some (kEipStatusError, p) }
     else Some (finish_packet data_length length_count p) }"

subsection \<open>Encoders\<close>

definition EncodeNullAddressItem :: "ENIPMessage \<Rightarrow> ENIPMessage run" where
  "EncodeNullAddressItem m = do { m \<leftarrow> AddIntToMessage kCipItemIdNullAddress m; AddIntToMessage 0 m }"

definition EncodeConnectedAddressItem :: "CipCommonPacketFormatData \<Rightarrow> ENIPMessage \<Rightarrow> ENIPMessage run" where
  "EncodeConnectedAddressItem p m = do {
     m \<leftarrow> AddIntToMessage kCipItemIdConnectionAddress m;
     m \<leftarrow> AddIntToMessage 4 m;
     AddDintToMessage (connection_identifier (address_data (address_item p))) m }"

definition EncodeSequencedAddressItem :: "CipCommonPacketFormatData \<Rightarrow> ENIPMessage \<Rightarrow> ENIPMessage run" where
  "EncodeSequencedAddressItem p m = do {
     m \<leftarrow> AddIntToMessage kCipItemIdSequencedAddressItem m;
     m \<leftarrow> AddIntToMessage kSequencedAddressItemLength m;
     m \<leftarrow> AddDintToMessage (connection_identifier (address_data (address_item p))) m;
     AddDintToMessage (sequence_number (address_data (address_item p))) m }"

definition EncodeItemCount :: "CipCommonPacketFormatData \<Rightarrow> ENIPMessage \<Rightarrow> ENIPMessage run" where
  "EncodeItemCount p = AddIntToMessage (item_count p)"

definition EncodeDataItemType :: "CipCommonPacketFormatData \<Rightarrow> ENIPMessage \<Rightarrow> ENIPMessage run" where
  "EncodeDataItemType p = AddIntToMessage (data_type_id (data_item p))"

definition EncodeDataItemLength :: "CipCommonPacketFormatData \<Rightarrow> ENIPMessage \<Rightarrow> ENIPMessage run" where
  "EncodeDataItemLength p = AddIntToMessage (data_item_length (data_item p))"

definition EncodeDataItemData :: "CipCommonPacketFormatData \<Rightarrow> ENIPMessage \<Rightarrow> ENIPMessage run" where
  "EncodeDataItemData p m = do {
     (bs, _) \<leftarrow> read_bytes (unat (data_item_length (data_item p))) (data_item_data (data_item p));
     emit bs m }"

definition EncodeConnectedDataItemLength :: "CipMessageRouterResponse \<Rightarrow> ENIPMessage \<Rightarrow> ENIPMessage run" where
  "EncodeConnectedDataItemLength resp =
     AddIntToMessage (ucast (used_message_length (message resp) + 4 + 2 + 2 * ucast (size_of_additional_status resp)))"

definition EncodeSequenceNumber :: "CipCommonPacketFormatData \<Rightarrow> ENIPMessage \<Rightarrow> ENIPMessage run" where
  "EncodeSequenceNumber p = AddIntToMessage (ucast (sequence_number (address_data (address_item p))))"

definition EncodeReplyService :: "CipMessageRouterResponse \<Rightarrow> ENIPMessage \<Rightarrow> ENIPMessage run" where
  "EncodeReplyService resp = AddSintToMessage (reply_service resp)"

definition EncodeReservedFieldOfLengthByte :: "CipMessageRouterResponse \<Rightarrow> ENIPMessage \<Rightarrow> ENIPMessage run" where
  "EncodeReservedFieldOfLengthByte resp = AddSintToMessage (reserved resp)"

definition EncodeGeneralStatus :: "CipMessageRouterResponse \<Rightarrow> ENIPMessage \<Rightarrow> ENIPMessage run" where
  "EncodeGeneralStatus resp = AddSintToMessage (general_status resp)"

definition EncodeExtendedStatusLength :: "CipMessageRouterResponse \<Rightarrow> ENIPMessage \<Rightarrow> ENIPMessage run" where
  "EncodeExtendedStatusLength resp = AddSintToMessage (size_of_additional_status resp)"

fun encode_status_from :: "CipMessageRouterResponse \<Rightarrow> nat list \<Rightarrow> ENIPMessage \<Rightarrow> ENIPMessage run" where
  "encode_status_from resp [] m = Some m"
| "encode_status_from resp (i # is) m = do {
     x \<leftarrow> array_get (additional_status resp) i;
     m \<leftarrow> AddIntToMessage x m;
     encode_status_from resp is m }"

definition EncodeExtendedStatusDataItems :: "CipMessageRouterResponse \<Rightarrow> ENIPMessage \<Rightarrow> ENIPMessage run" where
  "EncodeExtendedStatusDataItems resp =
     encode_status_from resp [0..<min (unat (size_of_additional_status resp)) MAX_SIZE_OF_ADD_STATUS]"

definition EncodeExtendedStatus :: "CipMessageRouterResponse \<Rightarrow> ENIPMessage \<Rightarrow> ENIPMessage run" where
  "EncodeExtendedStatus resp m = do {
     m \<leftarrow> EncodeExtendedStatusLength resp m;
     EncodeExtendedStatusDataItems resp m }"

definition EncodeUnconnectedDataItemLength :: "CipMessageRouterResponse \<Rightarrow> ENIPMessage \<Rightarrow> ENIPMessage run" where
  "EncodeUnconnectedDataItemLength resp =
     AddIntToMessage (ucast (used_message_length (message resp) + 4 + 2 * ucast (size_of_additional_status resp)))"

definition EncodeMessageRouterResponseData :: "CipMessageRouterResponse \<Rightarrow> ENIPMessage \<Rightarrow> ENIPMessage run" where
  "EncodeMessageRouterResponseData resp m = do {
     (bs, _) \<leftarrow> read_bytes (unat (used_message_length (message resp))) (message_buffer (message resp));
     emit bs m }"

definition EncodeSockaddrInfoItemTypeId :: "nat \<Rightarrow> CipCommonPacketFormatData \<Rightarrow> ENIPMessage \<Rightarrow> ENIPMessage run" where
  "EncodeSockaddrInfoItemTypeId item_type p m = do {
     c_assert (item_type = 0 \<or> item_type = 1);
     i \<leftarrow> array_get (address_info_item p) item_type;
     AddIntToMessage (info_type_id i) m }"

definition EncodeSockaddrInfoLength :: "nat \<Rightarrow> CipCommonPacketFormatData \<Rightarrow> ENIPMessage \<Rightarrow> ENIPMessage run" where
  "EncodeSockaddrInfoLength item_type p m = do {
     i \<leftarrow> array_get (address_info_item p) item_type;
     AddIntToMessage (info_length i) m }"

text \<open>The socket address of the first item of a type, if there is one. The host is little-endian.\<close>

definition encode_info_item :: "CipCommonPacketFormatData \<Rightarrow> CipUint \<Rightarrow> ENIPMessage \<Rightarrow> ENIPMessage run" where
  "encode_info_item p t m = (case first_index (\<lambda>i. info_type_id i = t) (take 2 (address_info_item p)) of
       None \<Rightarrow> Some m
     | Some j \<Rightarrow> do {
         m \<leftarrow> EncodeSockaddrInfoItemTypeId j p m;
         m \<leftarrow> EncodeSockaddrInfoLength j p m;
         i \<leftarrow> array_get (address_info_item p) j;
         m \<leftarrow> EncapsulateIpAddress kOpENerEndianessLittle (info_sin_port i) (info_sin_addr i) m;
         FillNextNMessageOctetsWithValueAndMoveToNextPosition 0 8 m })"

definition encode_response :: "CipCommonPacketFormatData \<Rightarrow> CipMessageRouterResponse \<Rightarrow> ENIPMessage \<Rightarrow> ENIPMessage run" where
  "encode_response p resp m = do {
     m \<leftarrow> EncodeDataItemType p m;
     m \<leftarrow> (if data_type_id (data_item p) = kCipItemIdConnectedDataItem
           then do { m \<leftarrow> EncodeConnectedDataItemLength resp m; EncodeSequenceNumber p m }
           else EncodeUnconnectedDataItemLength resp m);
     m \<leftarrow> EncodeReplyService resp m;
     m \<leftarrow> EncodeReservedFieldOfLengthByte resp m;
     m \<leftarrow> EncodeGeneralStatus resp m;
     m \<leftarrow> EncodeExtendedStatus resp m;
     EncodeMessageRouterResponseData resp m }"

text \<open>\<open>None\<close> as the response is the null pointer \<^verbatim>\<open>AssembleIOMessage\<close> passes.\<close>

definition AssembleLinearMessage :: "CipMessageRouterResponse option \<Rightarrow> CipCommonPacketFormatData \<Rightarrow> ENIPMessage \<Rightarrow>
    (EipStatus \<times> ENIPMessage) run" where
  "AssembleLinearMessage response p m = do {
     m \<leftarrow> (case response of
             Some _ \<Rightarrow> do { m \<leftarrow> AddDintToMessage 0 m; AddIntToMessage 0 m }
           | None \<Rightarrow> Some m);
     m \<leftarrow> EncodeItemCount p m;
     let t = address_type_id (address_item p);
     if t \<notin> {kCipItemIdNullAddress, kCipItemIdConnectionAddress, kCipItemIdSequencedAddressItem}
     then Some (kEipStatusError, m)
     else do {
       m \<leftarrow> (if t = kCipItemIdNullAddress then EncodeNullAddressItem m
             else if t = kCipItemIdConnectionAddress then EncodeConnectedAddressItem p m
             else EncodeSequencedAddressItem p m);
       m \<leftarrow> (if data_type_id (data_item p) = kCipItemIdUnconnectedDataItem \<or>
                data_type_id (data_item p) = kCipItemIdConnectedDataItem
             then (case response of
                     Some resp \<Rightarrow> encode_response p resp m
                   | None \<Rightarrow> do {
                       m \<leftarrow> EncodeDataItemType p m;
                       m \<leftarrow> EncodeDataItemLength p m;
                       EncodeDataItemData p m })
             else Some m);
       m \<leftarrow> encode_info_item p kCipItemIdSocketAddressInfoOriginatorToTarget m;
       m \<leftarrow> encode_info_item p kCipItemIdSocketAddressInfoTargetToOriginator m;
       Some (kEipStatusOk, m) } }"

definition AssembleIOMessage :: "CipCommonPacketFormatData \<Rightarrow> ENIPMessage \<Rightarrow> ENIPMessage run" where
  "AssembleIOMessage p m = do { (_, m) \<leftarrow> AssembleLinearMessage None p m; Some m }"

subsection \<open>The octets of a packet\<close>

definition address_bytes :: "CipCommonPacketFormatData \<Rightarrow> CipOctet list" where
  "address_bytes p = (let a = address_item p; t = address_type_id a in
     if t = kCipItemIdNullAddress then int_bytes 0 @ int_bytes 0
     else if t = kCipItemIdConnectionAddress then int_bytes t @ int_bytes 4 @ dint_bytes (connection_identifier (address_data a))
     else int_bytes t @ int_bytes 8 @ dint_bytes (connection_identifier (address_data a)) @
       dint_bytes (sequence_number (address_data a)))"

definition known_address :: "CipCommonPacketFormatData \<Rightarrow> bool" where
  "known_address p \<longleftrightarrow> address_type_id (address_item p) \<in>
     {kCipItemIdNullAddress, kCipItemIdConnectionAddress, kCipItemIdSequencedAddressItem}"

definition info_item_bytes :: "SocketAddressInfoItem \<Rightarrow> CipOctet list" where
  "info_item_bytes i = int_bytes (info_type_id i) @ int_bytes (info_length i) @
     sockaddr_bytes kOpENerEndianessLittle (info_sin_port i) (info_sin_addr i) @ replicate 8 0"

definition info_bytes :: "CipCommonPacketFormatData \<Rightarrow> CipUint \<Rightarrow> CipOctet list" where
  "info_bytes p t = (case find (\<lambda>i. info_type_id i = t) (take 2 (address_info_item p)) of None \<Rightarrow> [] | Some i \<Rightarrow> info_item_bytes i)"

definition all_info_bytes :: "CipCommonPacketFormatData \<Rightarrow> CipOctet list" where
  "all_info_bytes p = info_bytes p kCipItemIdSocketAddressInfoOriginatorToTarget @
     info_bytes p kCipItemIdSocketAddressInfoTargetToOriginator"

lemma find_first_index: "find P xs = map_option (\<lambda>i. xs ! i) (first_index P xs)"
  by (induction xs) (auto simp: option.map_comp comp_def)

lemma first_index_less: "first_index P xs = Some i \<Longrightarrow> i < length xs"
  by (induction xs arbitrary: i) (auto split: if_splits)

subsection \<open>Writers\<close>

text \<open>A message that can be written to, and functions that append known octets to such a message.\<close>

definition ready :: "ENIPMessage \<Rightarrow> bool" where
  "ready m \<longleftrightarrow> (\<exists>p. current_message_position m = InMessage p \<and> p \<le> length (message_buffer m))"

definition writes :: "(ENIPMessage \<Rightarrow> ENIPMessage run) \<Rightarrow> CipOctet list \<Rightarrow> bool" where
  "writes f xs \<longleftrightarrow> (\<forall>m. ready m \<longrightarrow> f m = emit xs m)"

lemma emit_ready: "emit xs m = Some m' \<Longrightarrow> ready m'"
  by (erule emit_Some) (simp add: ready_def)

lemma holds_ready: "holds_octets m bs \<Longrightarrow> ready m"
  by (simp add: holds_octets_def ready_def)

lemma emit_Nil_ready: "ready m \<Longrightarrow> emit [] m = Some m"
  by (auto simp: ready_def emit_InMessage)

lemma writes_emit: "writes (emit xs) xs"
  by (simp add: writes_def)

lemma writes_Some: "writes Some []"
  by (simp add: writes_def emit_Nil_ready)

lemma writes_bind: "writes f xs \<Longrightarrow> writes g ys \<Longrightarrow> writes (\<lambda>m. f m \<bind> g) (xs @ ys)"
  by (auto simp: writes_def emit_append emit_ready intro!: bind_option_cong)

lemma writes_if: "(b \<Longrightarrow> writes f xs) \<Longrightarrow> (\<not> b \<Longrightarrow> writes g ys) \<Longrightarrow> writes (\<lambda>m. if b then f m else g m) (if b then xs else ys)"
  by simp

lemma writesD: "writes f xs \<Longrightarrow> ready m \<Longrightarrow> f m = emit xs m"
  by (simp add: writes_def)

lemma encode_address_writes:
  assumes "known_address p"
  shows "writes (\<lambda>m. if address_type_id (address_item p) = kCipItemIdNullAddress then EncodeNullAddressItem m
     else if address_type_id (address_item p) = kCipItemIdConnectionAddress then EncodeConnectedAddressItem p m
     else EncodeSequencedAddressItem p m) (address_bytes p)"
  using assms
  by (auto simp: writes_def known_address_def address_bytes_def Let_def EncodeNullAddressItem_def EncodeConnectedAddressItem_def
      EncodeSequencedAddressItem_def wire_simps emit_emit emit_emit_bind)

lemma encode_info_item_writes: "writes (encode_info_item p t) (info_bytes p t)"
proof (cases "first_index (\<lambda>i. info_type_id i = t) (take 2 (address_info_item p))")
  case None
  then show ?thesis by (simp add: writes_def encode_info_item_def info_bytes_def find_first_index emit_Nil_ready)
next
  case (Some j)
  then have "j < length (address_info_item p)" "j < 2" by (auto dest: first_index_less)
  then have "j = 0 \<or> j = 1" "j < length (address_info_item p)" "j < 2" by auto
  with Some show ?thesis
    by (auto simp: writes_def encode_info_item_def info_bytes_def find_first_index EncodeSockaddrInfoItemTypeId_def
        EncodeSockaddrInfoLength_def info_item_bytes_def wire_simps emit_emit emit_emit_bind)
qed

definition response_data :: "CipMessageRouterResponse \<Rightarrow> CipOctet list" where
  "response_data resp = [reply_service resp, reserved resp, general_status resp, size_of_additional_status resp] @
     concat (map int_bytes (take (min (unat (size_of_additional_status resp)) 2) (additional_status resp))) @
     sent_octets (message resp)"

text \<open>The data item of a reply: its type, its announced length and what follows.\<close>

definition reply_item_bytes :: "CipCommonPacketFormatData \<Rightarrow> CipMessageRouterResponse \<Rightarrow> CipOctet list" where
  "reply_item_bytes p resp = int_bytes (data_type_id (data_item p)) @
     (if data_type_id (data_item p) = kCipItemIdConnectedDataItem
      then int_bytes (of_nat (2 + length (response_data resp))) @
        int_bytes (ucast (sequence_number (address_data (address_item p))))
      else int_bytes (of_nat (length (response_data resp)))) @ response_data resp"

definition response_ok :: "CipMessageRouterResponse \<Rightarrow> bool" where
  "response_ok resp \<longleftrightarrow> unat (size_of_additional_status resp) \<le> 2 \<and> length (additional_status resp) = 2 \<and>
     (\<exists>bs. holds_octets (message resp) bs)"

lemma encode_status_writes:
  "\<forall>i \<in> set is. i < length (additional_status resp) \<Longrightarrow>
     writes (encode_status_from resp is) (concat (map (\<lambda>i. int_bytes (additional_status resp ! i)) is))"
proof (induction "is")
  case Nil
  have "encode_status_from resp [] = Some" by (rule ext) simp
  then show ?case by (simp add: writes_Some)
next
  case (Cons i "is")
  have "encode_status_from resp (i # is) = (\<lambda>m. emit (int_bytes (additional_status resp ! i)) m \<bind> encode_status_from resp is)"
    using Cons.prems by (intro ext) (simp add: wire_simps)
  with Cons show ?case using writes_bind [OF writes_emit Cons.IH] by simp
qed

lemma response_data_length:
  assumes "response_ok resp"
  shows "length (response_data resp) = 4 + 2 * unat (size_of_additional_status resp) + unat (used_message_length (message resp))"
    "length (response_data resp) \<le> 520"
proof -
  have s: "length (concat (map int_bytes (take (min (unat (size_of_additional_status resp)) 2) (additional_status resp)))) =
      2 * unat (size_of_additional_status resp)"
    using assms by (simp add: response_ok_def length_concat comp_def sum_list_triv)
  obtain bs where bs: "holds_octets (message resp) bs" using assms by (auto simp: response_ok_def)
  then show "length (response_data resp) = 4 + 2 * unat (size_of_additional_status resp) + unat (used_message_length (message resp))"
    using s sent_octets_holds [OF bs] unat_of_nat_512 [of "length bs"] by (simp add: response_data_def holds_octets_def)
  moreover have "unat (used_message_length (message resp)) \<le> 512"
    using bs unat_of_nat_512 [of "length bs"] by (simp add: holds_octets_def)
  ultimately show "length (response_data resp) \<le> 520" using assms by (simp add: response_ok_def)
qed

lemma ucast_of_unat: "(ucast (w :: size_t) :: CipUint) = of_nat (unat w)"
  by (rule word_unat_eq_iff [THEN iffD2]) (simp add: unsigned_ucast_eq unat_of_nat)

lemma announced_length:
  assumes "response_ok resp"
  shows "(ucast (used_message_length (message resp) + 4 + 2 * ucast (size_of_additional_status resp)) :: CipUint) =
      of_nat (length (response_data resp))"
    and "(ucast (used_message_length (message resp) + 4 + 2 + 2 * ucast (size_of_additional_status resp)) :: CipUint) =
      of_nat (2 + length (response_data resp))"
proof -
  have small: "unat (used_message_length (message resp)) \<le> 512" "unat (size_of_additional_status resp) \<le> 2"
    using assms unat_of_nat_512 by (auto simp: response_ok_def holds_octets_def)
  then have "unat (ucast (size_of_additional_status resp) :: size_t) = unat (size_of_additional_status resp)"
    by (simp add: unsigned_ucast_eq take_bit_nat_eq_self)
  with small have "unat (used_message_length (message resp) + 4 + 2 * ucast (size_of_additional_status resp)) = length (response_data resp)"
    "unat (used_message_length (message resp) + 4 + 2 + 2 * ucast (size_of_additional_status resp)) = 2 + length (response_data resp)"
    by (simp_all add: response_data_length [OF assms] unat_word_ariths)
  then show "(ucast (used_message_length (message resp) + 4 + 2 * ucast (size_of_additional_status resp)) :: CipUint) =
      of_nat (length (response_data resp))"
    "(ucast (used_message_length (message resp) + 4 + 2 + 2 * ucast (size_of_additional_status resp)) :: CipUint) =
      of_nat (2 + length (response_data resp))"
    by (simp_all only: ucast_of_unat)
qed

lemma encode_response_writes:
  assumes "response_ok resp"
  shows "writes (encode_response p resp) (reply_item_bytes p resp)"
proof -
  have len: "EncodeConnectedDataItemLength resp = emit (int_bytes (of_nat (2 + length (response_data resp))))"
    "EncodeUnconnectedDataItemLength resp = emit (int_bytes (of_nat (length (response_data resp))))"
    by (simp_all only: EncodeConnectedDataItemLength_def EncodeUnconnectedDataItemLength_def announced_length [OF assms] wire_simps)
  let ?ks = "[0..<min (unat (size_of_additional_status resp)) 2]"
  have "concat (map (\<lambda>i. int_bytes (additional_status resp ! i)) ?ks) =
      concat (map int_bytes (take (min (unat (size_of_additional_status resp)) 2) (additional_status resp)))"
    using assms map_nth [of "take (min (unat (size_of_additional_status resp)) 2) (additional_status resp)"]
    by (intro arg_cong [where f = concat]) (auto simp: response_ok_def intro!: nth_equalityI)
  then have st: "writes (encode_status_from resp ?ks)
      (concat (map int_bytes (take (min (unat (size_of_additional_status resp)) 2) (additional_status resp))))"
    using assms encode_status_writes [of ?ks resp] by (simp add: response_ok_def)
  obtain bs where bs: "holds_octets (message resp) bs" using assms by (auto simp: response_ok_def)
  then have data: "EncodeMessageRouterResponseData resp = emit (sent_octets (message resp))"
    using unat_of_nat_512 [of "length bs"]
    by (intro ext) (simp add: EncodeMessageRouterResponseData_def read_bytes_def sent_octets_def holds_octets_def)
  have head: "encode_response p resp = (\<lambda>m.
      (if data_type_id (data_item p) = kCipItemIdConnectedDataItem
       then emit (int_bytes (data_type_id (data_item p)) @ int_bytes (of_nat (2 + length (response_data resp))) @
         int_bytes (ucast (sequence_number (address_data (address_item p)))) @
         [reply_service resp, reserved resp, general_status resp, size_of_additional_status resp]) m
       else emit (int_bytes (data_type_id (data_item p)) @ int_bytes (of_nat (length (response_data resp))) @
         [reply_service resp, reserved resp, general_status resp, size_of_additional_status resp]) m)
      \<bind> (\<lambda>m. encode_status_from resp ?ks m \<bind> emit (sent_octets (message resp))))"
    by (rule ext) (simp add: encode_response_def EncodeDataItemType_def len EncodeSequenceNumber_def EncodeReplyService_def
        EncodeReservedFieldOfLengthByte_def EncodeGeneralStatus_def EncodeExtendedStatus_def EncodeExtendedStatusLength_def
        EncodeExtendedStatusDataItems_def data wire_simps emit_emit_bind sint_bytes_def)
  let ?st = "concat (map int_bytes (take (min (unat (size_of_additional_status resp)) 2) (additional_status resp)))"
  have w: "writes (\<lambda>m. emit xs m \<bind> (\<lambda>m. encode_status_from resp ?ks m \<bind> emit (sent_octets (message resp))))
      (xs @ ?st @ sent_octets (message resp))" for xs
    by (rule writes_bind [OF writes_emit writes_bind [OF st writes_emit]])
  have split: "xs = zs @ ?st @ sent_octets (message resp) \<Longrightarrow>
      writes (\<lambda>m. emit zs m \<bind> (\<lambda>m. encode_status_from resp ?ks m \<bind> emit (sent_octets (message resp)))) xs" for xs zs
    using w [of zs] by simp
  have rd: "response_data resp = [reply_service resp, reserved resp, general_status resp, size_of_additional_status resp] @
      ?st @ sent_octets (message resp)"
    by (simp add: response_data_def)
  have tail: "xs @ response_data resp = (xs @ [reply_service resp, reserved resp, general_status resp, size_of_additional_status resp]) @
      ?st @ sent_octets (message resp)" for xs
    by (subst rd) simp
  show ?thesis
  proof (cases "data_type_id (data_item p) = kCipItemIdConnectedDataItem")
    case True
    then show ?thesis
      by (simp only: head reply_item_bytes_def simp_thms if_True append_assoc [symmetric] tail)
        (rule split, simp only: append_assoc)
  next
    case False
    then show ?thesis
      by (simp only: head reply_item_bytes_def simp_thms if_False append_assoc [symmetric] tail)
        (rule split, simp only: append_assoc)
  qed
qed

definition reply_packet_bytes :: "CipCommonPacketFormatData \<Rightarrow> CipMessageRouterResponse \<Rightarrow> CipOctet list" where
  "reply_packet_bytes p resp = dint_bytes 0 @ int_bytes 0 @ int_bytes (item_count p) @ address_bytes p @
     (if data_type_id (data_item p) \<in> {kCipItemIdUnconnectedDataItem, kCipItemIdConnectedDataItem}
      then reply_item_bytes p resp else []) @ all_info_bytes p"

lemma AssembleLinearMessage_reply:
  assumes "known_address p" and "response_ok resp" and "ready m"
  shows "AssembleLinearMessage (Some resp) p m = do { m \<leftarrow> emit (reply_packet_bytes p resp) m; Some (kEipStatusOk, m) }"
proof -
  let ?A = "\<lambda>m. if address_type_id (address_item p) = kCipItemIdNullAddress then EncodeNullAddressItem m
     else if address_type_id (address_item p) = kCipItemIdConnectionAddress then EncodeConnectedAddressItem p m
     else EncodeSequencedAddressItem p m"
  let ?D = "\<lambda>m. if data_type_id (data_item p) = kCipItemIdUnconnectedDataItem \<or> data_type_id (data_item p) = kCipItemIdConnectedDataItem
     then encode_response p resp m else Some m"
  let ?d = "if data_type_id (data_item p) \<in> {kCipItemIdUnconnectedDataItem, kCipItemIdConnectedDataItem}
      then reply_item_bytes p resp else []"
  have d: "writes ?D ?d"
    using writes_if [OF encode_response_writes [OF assms(2)] writes_Some] by simp
  have w: "writes (\<lambda>m. emit (dint_bytes 0 @ int_bytes 0 @ int_bytes (item_count p)) m \<bind> (\<lambda>m. ?A m \<bind> (\<lambda>m. ?D m \<bind>
      (\<lambda>m. encode_info_item p kCipItemIdSocketAddressInfoOriginatorToTarget m \<bind> encode_info_item p kCipItemIdSocketAddressInfoTargetToOriginator))))
      ((dint_bytes 0 @ int_bytes 0 @ int_bytes (item_count p)) @ address_bytes p @ ?d @
        info_bytes p kCipItemIdSocketAddressInfoOriginatorToTarget @ info_bytes p kCipItemIdSocketAddressInfoTargetToOriginator)"
    by (intro writes_bind writes_emit encode_address_writes [OF assms(1)] d encode_info_item_writes)
  have "AssembleLinearMessage (Some resp) p m = ((\<lambda>m. emit (dint_bytes 0 @ int_bytes 0 @ int_bytes (item_count p)) m \<bind> (\<lambda>m. ?A m \<bind> (\<lambda>m. ?D m \<bind>
      (\<lambda>m. encode_info_item p kCipItemIdSocketAddressInfoOriginatorToTarget m \<bind> encode_info_item p kCipItemIdSocketAddressInfoTargetToOriginator)))) m)
      \<bind> (\<lambda>m. Some (kEipStatusOk, m))"
  proof -
    have known: "\<not> address_type_id (address_item p) \<notin> {kCipItemIdNullAddress, kCipItemIdConnectionAddress, kCipItemIdSequencedAddressItem}"
      using assms(1) by (simp add: known_address_def)
    show ?thesis
      unfolding AssembleLinearMessage_def Let_def if_not_P [OF known] option.case EncodeItemCount_def wire_simps
        emit_emit_bind by (simp add: emit_emit_bind)
  qed
  then show ?thesis
    using writesD [OF w assms(3)] by (simp add: reply_packet_bytes_def all_info_bytes_def)
qed

subsection \<open>Parsing what was assembled\<close>

text \<open>What the receiver's structure holds for the sender's address item.\<close>

definition received_address :: "AddressItem \<Rightarrow> AddressItem \<Rightarrow> AddressItem" where
  "received_address sent old = (let t = address_type_id sent in
     if t = kCipItemIdNullAddress then old\<lparr>address_type_id := t, address_length := 0\<rparr>
     else if t = kCipItemIdConnectionAddress then old\<lparr>address_type_id := t, address_length := 4,
       address_data := (address_data old)\<lparr>connection_identifier := connection_identifier (address_data sent)\<rparr>\<rparr>
     else old\<lparr>address_type_id := t, address_length := 8, address_data := address_data sent\<rparr>)"

lemma parse_address_bytes:
  assumes "known_address p"
  shows "parse_address_item (address_bytes p @ r) n q =
    Some (r, n + of_nat (length (address_bytes p)), q\<lparr>address_item := received_address (address_item p) (address_item q)\<rparr>)"
proof -
  consider "address_type_id (address_item p) = kCipItemIdNullAddress" | "address_type_id (address_item p) = kCipItemIdConnectionAddress"
    | "address_type_id (address_item p) = kCipItemIdSequencedAddressItem"
    using assms by (auto simp: known_address_def)
  then show ?thesis
    by cases (simp_all add: parse_address_item_def address_bytes_def received_address_def Let_def uint.dec_enc udint.dec_enc)
qed

lemma finish_two_items: "item_count p = 2 \<Longrightarrow> finish_packet n n p = (kEipStatusOk, set_info_type 0 0 (set_info_type 1 0 p))"
  by (simp add: finish_packet_def set_info_type_def Let_def word_less_nat_alt)

lemma parse_two_items:
  assumes "known_address p" and "length data + length (address_bytes p) + 6 < 2 ^ 16"
  shows "CreateCommonPacketFormatStructure (int_bytes 2 @ address_bytes p @ int_bytes t @ int_bytes (of_nat (length data)) @ data)
      (of_nat (length (int_bytes 2 @ address_bytes p @ int_bytes t @ int_bytes (of_nat (length data)) @ data))) q =
    Some (kEipStatusOk, set_info_type 0 0 (set_info_type 1 0 (set_info_type 1 0 (set_info_type 0 0 q)
      \<lparr>item_count := 2, address_item := received_address (address_item p) (address_item q),
       data_item := \<lparr>data_type_id = t, data_item_length = of_nat (length data), data_item_data = data\<rparr>\<rparr>)))"
proof -
  have a: "address_item (set_info_type j x q) = address_item q" for j x q by (simp add: set_info_type_def)
  have c: "item_count (set_info_type j x q) = item_count q" for j x q by (simp add: set_info_type_def)
  have l: "(ucast (of_nat (length data) :: CipUint) :: size_t) = of_nat (length data)" "unat (of_nat (length data) :: CipUint) = length data"
  proof -
    show u: "unat (of_nat (length data) :: CipUint) = length data"
      using assms(2) by (simp add: unat_of_nat take_bit_nat_eq_self)
    have "unat (ucast (of_nat (length data) :: CipUint) :: size_t) = unat (of_nat (length data) :: size_t)"
      using assms(2) u by (simp add: unsigned_ucast_eq unat_of_nat take_bit_nat_eq_self)
    then show "(ucast (of_nat (length data) :: CipUint) :: size_t) = of_nat (length data)"
      by (simp only: word_unat_eq_iff)
  qed
  show ?thesis
    unfolding CreateCommonPacketFormatStructure_def
    by (simp add: uint.dec_enc parse_address_bytes [OF assms(1)] Let_def l read_bytes_def a c finish_two_items add_ac)
qed


definition no_info :: "CipCommonPacketFormatData \<Rightarrow> bool" where
  "no_info p \<longleftrightarrow> (\<forall>i \<in> set (address_info_item p). info_type_id i \<notin>
     {kCipItemIdSocketAddressInfoOriginatorToTarget, kCipItemIdSocketAddressInfoTargetToOriginator})"

lemma no_info_bytes: "no_info p \<Longrightarrow> all_info_bytes p = []"
proof -
  assume "no_info p"
  then have "find (\<lambda>i. info_type_id i = t) (take 2 (address_info_item p)) = None" if "t = 0x8000 \<or> t = 0x8001" for t
    using that by (auto simp: no_info_def find_None_iff dest!: in_set_takeD)
  then show ?thesis by (simp add: all_info_bytes_def info_bytes_def)
qed

lemma address_bytes_length: "length (address_bytes p) \<le> 12"
  by (simp add: address_bytes_def Let_def)

definition io_packet_bytes :: "CipCommonPacketFormatData \<Rightarrow> CipOctet list" where
  "io_packet_bytes p = int_bytes (item_count p) @ address_bytes p @ int_bytes (data_type_id (data_item p)) @
     int_bytes (data_item_length (data_item p)) @ take (unat (data_item_length (data_item p))) (data_item_data (data_item p))"

lemma AssembleIOMessage_octets:
  assumes "known_address p" and "no_info p" and "data_type_id (data_item p) \<in> {kCipItemIdUnconnectedDataItem, kCipItemIdConnectedDataItem}"
    and "unat (data_item_length (data_item p)) \<le> length (data_item_data (data_item p))" and "ready m"
  shows "AssembleIOMessage p m = emit (io_packet_bytes p) m"
proof -
  let ?A = "\<lambda>m. if address_type_id (address_item p) = kCipItemIdNullAddress then EncodeNullAddressItem m
     else if address_type_id (address_item p) = kCipItemIdConnectionAddress then EncodeConnectedAddressItem p m
     else EncodeSequencedAddressItem p m"
  let ?d = "int_bytes (data_type_id (data_item p)) @ int_bytes (data_item_length (data_item p)) @
     take (unat (data_item_length (data_item p))) (data_item_data (data_item p))"
  have w: "writes (\<lambda>m. emit (int_bytes (item_count p)) m \<bind> (\<lambda>m. ?A m \<bind> (\<lambda>m. emit ?d m \<bind>
      (\<lambda>m. encode_info_item p kCipItemIdSocketAddressInfoOriginatorToTarget m \<bind> encode_info_item p kCipItemIdSocketAddressInfoTargetToOriginator))))
      (int_bytes (item_count p) @ address_bytes p @ ?d @
        info_bytes p kCipItemIdSocketAddressInfoOriginatorToTarget @ info_bytes p kCipItemIdSocketAddressInfoTargetToOriginator)"
    by (intro writes_bind writes_emit encode_address_writes [OF assms(1)] encode_info_item_writes)
  have known: "\<not> address_type_id (address_item p) \<notin> {kCipItemIdNullAddress, kCipItemIdConnectionAddress, kCipItemIdSequencedAddressItem}"
    using assms(1) by (simp add: known_address_def)
  have data: "EncodeDataItemData p = emit (take (unat (data_item_length (data_item p))) (data_item_data (data_item p)))"
    using assms(4) by (intro ext) (simp add: EncodeDataItemData_def read_bytes_def)
  have dt: "data_type_id (data_item p) = kCipItemIdUnconnectedDataItem \<or> data_type_id (data_item p) = kCipItemIdConnectedDataItem"
    using assms(3) by simp
  have "AssembleIOMessage p m = (\<lambda>m. emit (int_bytes (item_count p)) m \<bind> (\<lambda>m. ?A m \<bind> (\<lambda>m. emit ?d m \<bind>
      (\<lambda>m. encode_info_item p kCipItemIdSocketAddressInfoOriginatorToTarget m \<bind> encode_info_item p kCipItemIdSocketAddressInfoTargetToOriginator)))) m"
    unfolding AssembleIOMessage_def AssembleLinearMessage_def Let_def if_not_P [OF known] if_P [OF dt] option.case EncodeItemCount_def
      EncodeDataItemType_def EncodeDataItemLength_def data wire_simps emit_emit_bind by (simp add: emit_emit emit_emit_bind)
  then show ?thesis
    using writesD [OF w assms(5)] no_info_bytes [OF assms(2)] by (simp add: io_packet_bytes_def all_info_bytes_def)
qed

text \<open>What a receiver's structure holds after a two-item packet has been parsed.\<close>

definition received_packet :: "CipCommonPacketFormatData \<Rightarrow> AddressItem \<Rightarrow> CipUint \<Rightarrow> CipOctet list \<Rightarrow> CipCommonPacketFormatData \<Rightarrow> bool" where
  "received_packet q' a t data q \<longleftrightarrow> item_count q' = 2 \<and> address_item q' = received_address a (address_item q) \<and>
     data_item q' = \<lparr>data_type_id = t, data_item_length = of_nat (length data), data_item_data = data\<rparr> \<and>
     (length (address_info_item q) = 2 \<longrightarrow> map info_type_id (address_info_item q') = [0, 0])"

lemma parse_received:
  assumes "known_address p" and "length data \<le> 512"
    and "bs = int_bytes 2 @ address_bytes p @ int_bytes t @ int_bytes (of_nat (length data)) @ data"
  shows "\<exists>q'. CreateCommonPacketFormatStructure bs (of_nat (length bs)) q = Some (kEipStatusOk, q') \<and>
    received_packet q' (address_item p) t data q"
proof -
  have two: "xs = [a, b] \<Longrightarrow> map f (xs[0 := u, Suc 0 := v]) = [f u, f v]" for xs a b f u v by simp
  have "length data + length (address_bytes p) + 6 < 2 ^ 16" using assms(2) address_bytes_length [of p] by simp
  then show ?thesis
    unfolding assms(3) parse_two_items [OF assms(1) \<open>length data + length (address_bytes p) + 6 < 2 ^ 16\<close>]
    by (auto simp: received_packet_def set_info_type_def length_Suc_conv numeral_2_eq_2)
qed

text \<open>
  C31: An I/O packet of two items that is assembled and parsed again, by a receiver whose structure
  held any earlier packet, comes back whole: the same address item, the same data and no socket
  address items.
\<close>

theorem io_message_roundtrip:
  assumes "known_address p" and "item_count p = 2" and "no_info p"
    and "data_type_id (data_item p) \<in> {kCipItemIdUnconnectedDataItem, kCipItemIdConnectedDataItem}"
    and "unat (data_item_length (data_item p)) = length (data_item_data (data_item p))"
    and "length (data_item_data (data_item p)) \<le> 494" and "holds_octets m []"
  shows "\<exists>m' q'. AssembleIOMessage p m = Some m' \<and>
    CreateCommonPacketFormatStructure (sent_octets m') (used_message_length m') q = Some (kEipStatusOk, q') \<and>
    received_packet q' (address_item p) (data_type_id (data_item p)) (data_item_data (data_item p)) q"
proof -
  have n: "data_item_length (data_item p) = of_nat (length (data_item_data (data_item p)))"
    using assms(5) [symmetric] by simp
  have "length (io_packet_bytes p) \<le> 512"
    using assms(6) address_bytes_length [of p] by (simp add: io_packet_bytes_def)
  then obtain m' where m': "emit (io_packet_bytes p) m = Some m'" "holds_octets m' (io_packet_bytes p)"
    using holds_octets_emit_fits [OF assms(7), of "io_packet_bytes p"] by auto
  have bytes: "io_packet_bytes p = int_bytes 2 @ address_bytes p @ int_bytes (data_type_id (data_item p)) @
      int_bytes (of_nat (length (data_item_data (data_item p)))) @ data_item_data (data_item p)"
    using assms(2,5) n by (simp add: io_packet_bytes_def)
  have "sent_octets m' = io_packet_bytes p" "used_message_length m' = of_nat (length (io_packet_bytes p))"
    using m'(2) sent_octets_holds by (auto simp: holds_octets_def)
  then show ?thesis
    using m'(1) AssembleIOMessage_octets [OF assms(1,3,4) _ holds_ready [OF assms(7)]] assms(5,6)
      parse_received [OF assms(1) _ bytes, of q] by simp
qed

definition example_packet :: "CipUint \<Rightarrow> CipUint \<Rightarrow> CipOctet list \<Rightarrow> CipCommonPacketFormatData" where
  "example_packet a t data = zero_packet\<lparr>item_count := 2, address_item := \<lparr>address_type_id = a, address_length = 8,
     address_data = \<lparr>connection_identifier = 0x12345678, sequence_number = 7\<rparr>\<rparr>,
     data_item := \<lparr>data_type_id = t, data_item_length = of_nat (length data), data_item_data = data\<rparr>\<rparr>"

lemma example_packet_ok: "t = 0 \<or> t = 0xA1 \<or> t = 0x8002 \<Longrightarrow> known_address (example_packet t u data)"
    "no_info (example_packet t u data)" "item_count (example_packet t u data) = 2"
  by (auto simp: example_packet_def known_address_def no_info_def zero_packet_def zero_info_item_def)

theorem io_message_roundtrip_witness:
  "\<exists>m' q'. AssembleIOMessage (example_packet 0x8002 0xB1 [1, 2, 3]) (InitializeENIPMessage zero_message) = Some m' \<and>
    CreateCommonPacketFormatStructure (sent_octets m') (used_message_length m') zero_packet = Some (kEipStatusOk, q') \<and>
    received_packet q' (address_item (example_packet 0x8002 0xB1 [1, 2, 3])) 0xB1 [1, 2, 3] zero_packet"
  using io_message_roundtrip [of "example_packet 0x8002 0xB1 [1, 2, 3]" "InitializeENIPMessage zero_message" zero_packet, OF example_packet_ok(1,3,2)]
  by (simp add: example_packet_def)

text \<open>
  A reply of the message router that fits the outgoing buffer is written after the interface
  handle and the timeout, and a receiver that parses it finds the announced length equal to the
  octets that follow: reply service, status, additional status and data, after the sequence count
  for a connected data item.
\<close>

theorem reply_roundtrip:
  assumes "known_address p" and "item_count p = 2" and "no_info p"
    and "data_type_id (data_item p) \<in> {kCipItemIdUnconnectedDataItem, kCipItemIdConnectedDataItem}"
    and "response_ok resp" and "holds_octets m bs" and "length bs + length (response_data resp) \<le> 486"
  shows "\<exists>m' packet q'. AssembleLinearMessage (Some resp) p m = Some (kEipStatusOk, m') \<and>
    holds_octets m' (bs @ replicate 6 0 @ packet) \<and>
    CreateCommonPacketFormatStructure packet (of_nat (length packet)) q = Some (kEipStatusOk, q') \<and>
    received_packet q' (address_item p) (data_type_id (data_item p))
      ((if data_type_id (data_item p) = kCipItemIdConnectedDataItem
        then int_bytes (ucast (sequence_number (address_data (address_item p)))) else []) @ response_data resp) q"
proof -
  let ?data = "(if data_type_id (data_item p) = kCipItemIdConnectedDataItem
        then int_bytes (ucast (sequence_number (address_data (address_item p)))) else []) @ response_data resp"
  let ?packet = "int_bytes 2 @ address_bytes p @ int_bytes (data_type_id (data_item p)) @ int_bytes (of_nat (length ?data)) @ ?data"
  have bytes: "reply_packet_bytes p resp = replicate 6 0 @ ?packet"
    using assms(2,4) by (auto simp: reply_packet_bytes_def reply_item_bytes_def no_info_bytes [OF assms(3)]
      dint_bytes_def numeral_eq_Suc int_bytes_def)
  have "length bs + length (reply_packet_bytes p resp) \<le> 512"
    using assms(7) address_bytes_length [of p] by (simp add: bytes)
  then obtain m' where m': "emit (reply_packet_bytes p resp) m = Some m'" "holds_octets m' (bs @ reply_packet_bytes p resp)"
    using holds_octets_emit_fits [OF assms(6), of "reply_packet_bytes p resp"] by auto
  have "length ?data \<le> 512" using assms(7) by simp
  from parse_received [OF assms(1) this refl, of "data_type_id (data_item p)" q] m'
    AssembleLinearMessage_reply [OF assms(1,5) holds_ready [OF assms(6)]]
  show ?thesis unfolding bytes by fastforce
qed

definition example_reply :: CipMessageRouterResponse where
  "example_reply = \<lparr>reply_service = 0x8E, reserved = 0, general_status = 5, size_of_additional_status = 1,
     additional_status = [0x0107, 0], message = InitializeENIPMessage zero_message\<rparr>"

theorem reply_roundtrip_witness:
  "\<exists>m' packet q'. AssembleLinearMessage (Some example_reply) (example_packet 0xA1 0xB1 []) (InitializeENIPMessage zero_message) =
      Some (kEipStatusOk, m') \<and>
    holds_octets m' (replicate 6 0 @ packet) \<and>
    CreateCommonPacketFormatStructure packet (of_nat (length packet)) zero_packet = Some (kEipStatusOk, q') \<and>
    received_packet q' (address_item (example_packet 0xA1 0xB1 [])) 0xB1 [7, 0, 0x8E, 0, 5, 1, 7, 1] zero_packet"
proof -
  have r: "response_ok example_reply"
    by (auto simp: response_ok_def example_reply_def intro: holds_octets_init)
  have d: "response_data example_reply = [0x8E, 0, 5, 1, 7, 1]"
    by (simp add: response_data_def example_reply_def int_bytes_def sent_octets_def drop_bit_eq_div)
  show ?thesis
    using reply_roundtrip [of "example_packet 0xA1 0xB1 []", OF _ _ _ _ r holds_octets_init [of zero_message], where q = zero_packet]
    by (simp add: d example_packet_ok) (simp add: example_packet_def int_bytes_def)
qed

end
