(* ===== verification/CipData.thy ===== *)
theory CipData
  imports EPath
begin

text \<open>
  CIP attribute data: the strings of \<^verbatim>\<open>cip/cipstring.c\<close>, the length table of
  \<^verbatim>\<open>cip/ciptypes.c\<close>, and the attribute encoders and decoders of \<^verbatim>\<open>cip/cipcommon.c\<close>.

  An encoder receives an untyped pointer; the object behind it is a \<open>cip_value\<close>, and reading it
  at another type than it has is a fault. A decoder returns the new object, the request with its
  data pointer advanced, the response with its status set, and the count the C function returns.
  \<^verbatim>\<open>CipCalloc\<close> is taken to succeed.
\<close>

subsection \<open>Data objects\<close>

record CipString =
  cs_length :: CipUint
  cs_string :: "CipOctet list option"

record CipShortString =
  css_length :: CipUsint
  css_string :: "CipOctet list option"

record CipByteArray =
  ba_length :: CipUint
  ba_data :: "CipOctet list"

record CipString2 =
  s2_length :: CipUint
  s2_string :: "CipOctet list option"

record CipStringN =
  sn_size :: CipUint
  sn_length :: CipUint
  sn_string :: "CipOctet list option"

text \<open>The payload of one STRINGI entry: a null pointer or one of the four string types.\<close>

datatype stringi_payload =
    NullPayload
  | PayloadString CipString
  | PayloadShortString CipShortString
  | PayloadString2 CipString2
  | PayloadStringN CipStringN

record CipStringIStruct =
  language_char_1 :: CipUsint
  language_char_2 :: CipUsint
  language_char_3 :: CipUsint
  char_string_struct :: CipUint
  character_set :: CipUint
  si_string :: stringi_payload

record CipStringI =
  number_of_strings :: CipUsint
  array_of_string_i_structs :: "CipStringIStruct list"

datatype cip_value =
    V8 "8 word" | V16 "16 word" | V32 "32 word" | V64 "64 word"
  | VString CipString | VShortString CipShortString | VByteArray CipByteArray
  | VStringI CipStringI | VEpath CipEpath | VOctets "CipOctet list"

fun get8 :: "cip_value \<Rightarrow> (8 word) run" where "get8 (V8 x) = Some x" | "get8 _ = None"
fun get16 :: "cip_value \<Rightarrow> (16 word) run" where "get16 (V16 x) = Some x" | "get16 _ = None"
fun get32 :: "cip_value \<Rightarrow> (32 word) run" where "get32 (V32 x) = Some x" | "get32 _ = None"
fun get64 :: "cip_value \<Rightarrow> (64 word) run" where "get64 (V64 x) = Some x" | "get64 _ = None"

subsection \<open>Strings (cipstring.c)\<close>

definition ClearCipString :: "CipString \<Rightarrow> CipString" where
  "ClearCipString s = (case cs_string s of None \<Rightarrow> s
     | Some _ \<Rightarrow> s\<lparr>cs_string := None, cs_length := 0\<rparr>)"

definition SetCipStringByData :: "CipString \<Rightarrow> CipUint \<Rightarrow> CipOctet list \<Rightarrow> CipString run" where
  "SetCipStringByData s str_len data = (
     let s = ClearCipString s in
     if str_len \<noteq> 0 then do {
       (bs, _) \<leftarrow> read_bytes (unat str_len) data;
       Some (s\<lparr>cs_length := str_len, cs_string := Some bs\<rparr>) }
     else Some s)"

definition ClearCipShortString :: "CipShortString \<Rightarrow> CipShortString" where
  "ClearCipShortString s = (case css_string s of None \<Rightarrow> s
     | Some _ \<Rightarrow> s\<lparr>css_string := None, css_length := 0\<rparr>)"

definition SetCipShortStringByData ::
    "CipShortString \<Rightarrow> CipUsint \<Rightarrow> CipOctet list \<Rightarrow> CipShortString run" where
  "SetCipShortStringByData s str_len data = (
     let s = ClearCipShortString s in
     if str_len \<noteq> 0 then do {
       (bs, _) \<leftarrow> read_bytes (unat str_len) data;
       Some (s\<lparr>css_length := str_len, css_string := Some bs\<rparr>) }
     else Some s)"

text \<open>C strings are the octets before the terminating NUL.\<close>

definition SetCipStringByCstr :: "CipString \<Rightarrow> CipOctet list \<Rightarrow> CipString run" where
  "SetCipStringByCstr s cstr = SetCipStringByData s (of_nat (length cstr)) (cstr @ [0])"

definition SetCipShortStringByCstr :: "CipShortString \<Rightarrow> CipOctet list \<Rightarrow> CipShortString run" where
  "SetCipShortStringByCstr s cstr = SetCipShortStringByData s (of_nat (length cstr)) (cstr @ [0])"

subsection \<open>Data type lengths (ciptypes.c)\<close>

text \<open>
  The argument \<open>data\<close> is \<open>None\<close> for a null pointer and otherwise the octets behind the pointer;
  \<open>array_length\<close> is what the same pointer yields when it is read as a \<^verbatim>\<open>CipByteArray\<close>.
  The string lengths are read as signed values before the addition.
\<close>

definition GetCipDataTypeLength ::
    "CipUsint \<Rightarrow> CipOctet list option \<Rightarrow> CipUint run \<Rightarrow> size_t run" where
  "GetCipDataTypeLength type data array_length =
     (if type \<in> {kCipBool, kCipSint, kCipUsint, kCipByte} then Some 1
      else if type \<in> {kCipInt, kCipUint, kCipWord, kCipUsintUsint, kCipItime, kCipDate, kCipEngUnit}
      then Some 2
      else if type \<in> {kCipDint, kCipUdint, kCipDword, kCipStime, kCipFtime, kCipTime, kCipReal,
        kCipTimeOfDay} then Some 4
      else if type \<in> {kCipLint, kCipUlint, kCipLreal, kCipLword, kCipLtime} then Some 8
      else if type = kCip6Usint then Some 6
      else if type \<in> {kCipString, kCipString2, kCipStringN} then
        (case data of None \<Rightarrow> Some 0
         | Some bs \<Rightarrow> do { (v, _) \<leftarrow> GetIntFromMessage bs; Some (scast v + 2) })
      else if type = kCipShortString then
        (case data of None \<Rightarrow> Some 0
         | Some bs \<Rightarrow> do { (v, _) \<leftarrow> GetSintFromMessage bs; Some (scast v + 1) })
      else if type = kCipEpathType then
        (case data of None \<Rightarrow> Some 0
         | Some bs \<Rightarrow> do { (v, _) \<leftarrow> GetIntFromMessage bs; Some (scast v + 2) })
      else if type = kCipByteArray then
        (case data of None \<Rightarrow> Some 0 | Some _ \<Rightarrow> do { n \<leftarrow> array_length; Some (ucast n) })
      else Some 0)"

subsection \<open>Encoders (cipcommon.c)\<close>

definition EncodeCipBool :: "cip_value \<Rightarrow> ENIPMessage \<Rightarrow> ENIPMessage run" where
  "EncodeCipBool d m = do { x \<leftarrow> get8 d; AddSintToMessage x m }"
definition EncodeCipByte :: "cip_value \<Rightarrow> ENIPMessage \<Rightarrow> ENIPMessage run" where
  "EncodeCipByte d m = do { x \<leftarrow> get8 d; AddSintToMessage x m }"
definition EncodeCipWord :: "cip_value \<Rightarrow> ENIPMessage \<Rightarrow> ENIPMessage run" where
  "EncodeCipWord d m = do { x \<leftarrow> get16 d; AddIntToMessage x m }"
definition EncodeCipDword :: "cip_value \<Rightarrow> ENIPMessage \<Rightarrow> ENIPMessage run" where
  "EncodeCipDword d m = do { x \<leftarrow> get32 d; AddDintToMessage x m }"
definition EncodeCipLword :: "cip_value \<Rightarrow> ENIPMessage \<Rightarrow> ENIPMessage run" where
  "EncodeCipLword d m = do { x \<leftarrow> get64 d; AddLintToMessage x m }"
definition EncodeCipUsint :: "cip_value \<Rightarrow> ENIPMessage \<Rightarrow> ENIPMessage run" where
  "EncodeCipUsint d m = do { x \<leftarrow> get8 d; AddSintToMessage x m }"
definition EncodeCipUint :: "cip_value \<Rightarrow> ENIPMessage \<Rightarrow> ENIPMessage run" where
  "EncodeCipUint d m = do { x \<leftarrow> get16 d; AddIntToMessage x m }"
definition EncodeCipUdint :: "cip_value \<Rightarrow> ENIPMessage \<Rightarrow> ENIPMessage run" where
  "EncodeCipUdint d m = do { x \<leftarrow> get32 d; AddDintToMessage x m }"
definition EncodeCipUlint :: "cip_value \<Rightarrow> ENIPMessage \<Rightarrow> ENIPMessage run" where
  "EncodeCipUlint d m = do { x \<leftarrow> get64 d; AddLintToMessage x m }"
definition EncodeCipSint :: "cip_value \<Rightarrow> ENIPMessage \<Rightarrow> ENIPMessage run" where
  "EncodeCipSint d m = do { x \<leftarrow> get8 d; AddSintToMessage x m }"
definition EncodeCipInt :: "cip_value \<Rightarrow> ENIPMessage \<Rightarrow> ENIPMessage run" where
  "EncodeCipInt d m = do { x \<leftarrow> get16 d; AddIntToMessage x m }"
definition EncodeCipDint :: "cip_value \<Rightarrow> ENIPMessage \<Rightarrow> ENIPMessage run" where
  "EncodeCipDint d m = do { x \<leftarrow> get32 d; AddDintToMessage x m }"
definition EncodeCipLint :: "cip_value \<Rightarrow> ENIPMessage \<Rightarrow> ENIPMessage run" where
  "EncodeCipLint d m = do { x \<leftarrow> get64 d; AddLintToMessage x m }"
definition EncodeCipReal :: "cip_value \<Rightarrow> ENIPMessage \<Rightarrow> ENIPMessage run" where
  "EncodeCipReal d m = do { x \<leftarrow> get32 d; AddDintToMessage x m }"
definition EncodeCipLreal :: "cip_value \<Rightarrow> ENIPMessage \<Rightarrow> ENIPMessage run" where
  "EncodeCipLreal d m = do { x \<leftarrow> get64 d; AddLintToMessage x m }"

text \<open>\<^verbatim>\<open>memcpy\<close> of \<open>n\<close> octets from a possibly null pointer into the message.\<close>

definition copy_octets :: "nat \<Rightarrow> CipOctet list option \<Rightarrow> ENIPMessage \<Rightarrow> ENIPMessage run" where
  "copy_octets n src m = (case src of
       None \<Rightarrow> (if n = 0 then Some m else None)
     | Some bs \<Rightarrow> do { (xs, _) \<leftarrow> read_bytes n bs; emit xs m })"

fun EncodeCipShortString :: "cip_value \<Rightarrow> ENIPMessage \<Rightarrow> ENIPMessage run" where
  "EncodeCipShortString (VShortString s) m = do {
     m \<leftarrow> AddSintToMessage (css_length s) m;
     copy_octets (unat (css_length s)) (css_string s) m }"
| "EncodeCipShortString _ m = None"

fun EncodeCipString :: "cip_value \<Rightarrow> ENIPMessage \<Rightarrow> ENIPMessage run" where
  "EncodeCipString (VString s) m = do {
     m \<leftarrow> AddIntToMessage (cs_length s) m;
     if cs_length s \<noteq> 0 then do {
       m \<leftarrow> copy_octets (unat (cs_length s)) (cs_string s) m;
       if used_message_length m AND 1 \<noteq> 0 then AddSintToMessage 0 m else Some m }
     else Some m }"
| "EncodeCipString _ m = None"

definition CipStringIHeaderEncoding :: "CipStringIStruct \<Rightarrow> ENIPMessage \<Rightarrow> ENIPMessage run" where
  "CipStringIHeaderEncoding s m = do {
     m \<leftarrow> AddSintToMessage (language_char_1 s) m;
     m \<leftarrow> AddSintToMessage (language_char_2 s) m;
     m \<leftarrow> AddSintToMessage (language_char_3 s) m;
     m \<leftarrow> AddSintToMessage (ucast (char_string_struct s)) m;
     AddIntToMessage (character_set s) m }"

text \<open>\<^verbatim>\<open>EncodeCipString2\<close>, \<^verbatim>\<open>EncodeCipStringN\<close> and unknown encodings fail an assertion.\<close>

definition encode_stringi_entry :: "CipStringIStruct \<Rightarrow> ENIPMessage \<Rightarrow> ENIPMessage run" where
  "encode_stringi_entry s m = do {
     m \<leftarrow> CipStringIHeaderEncoding s m;
     (case si_string s of
        PayloadString x \<Rightarrow>
          if char_string_struct s = ucast kCipString then EncodeCipString (VString x) m else None
      | PayloadShortString x \<Rightarrow>
          if char_string_struct s = ucast kCipShortString
          then EncodeCipShortString (VShortString x) m else None
      | _ \<Rightarrow> None) }"

fun encode_stringi_entries :: "CipStringIStruct list \<Rightarrow> ENIPMessage \<Rightarrow> ENIPMessage run" where
  "encode_stringi_entries [] m = Some m"
| "encode_stringi_entries (s # ss) m = do {
     m \<leftarrow> encode_stringi_entry s m; encode_stringi_entries ss m }"

fun EncodeCipStringI :: "cip_value \<Rightarrow> ENIPMessage \<Rightarrow> ENIPMessage run" where
  "EncodeCipStringI (VStringI si) m = do {
     m \<leftarrow> AddSintToMessage (number_of_strings si) m;
     (ss, _) \<leftarrow> read_bytes (unat (number_of_strings si)) (array_of_string_i_structs si);
     encode_stringi_entries ss m }"
| "EncodeCipStringI _ m = None"

fun EncodeCipByteArray :: "cip_value \<Rightarrow> ENIPMessage \<Rightarrow> ENIPMessage run" where
  "EncodeCipByteArray (VByteArray a) m = copy_octets (unat (ba_length a)) (Some (ba_data a)) m"
| "EncodeCipByteArray _ m = None"

fun EncodeCipEPath :: "cip_value \<Rightarrow> ENIPMessage \<Rightarrow> ENIPMessage run" where
  "EncodeCipEPath (VEpath e) m = do {
     m \<leftarrow> AddIntToMessage (ucast (path_size e)) m; EncodeEPath e m }"
| "EncodeCipEPath _ m = None"

fun EncodeCipEthernetLinkPhyisicalAddress :: "cip_value \<Rightarrow> ENIPMessage \<Rightarrow> ENIPMessage run" where
  "EncodeCipEthernetLinkPhyisicalAddress (VOctets bs) m = copy_octets 6 (Some bs) m"
| "EncodeCipEthernetLinkPhyisicalAddress _ m = None"

subsection \<open>Integer to floating point conversion\<close>

text \<open>
  Assigning an integer to a C \<^verbatim>\<open>float\<close> or \<^verbatim>\<open>double\<close> converts its value: the result is the
  bit pattern of the nearest IEEE 754 number, ties to even. \<open>mb\<close> is the number of stored mantissa
  bits (23 or 52) and \<open>bias\<close> the exponent bias (127 or 1023); the sign bit is added by the users.
\<close>

function ilog2 :: "int \<Rightarrow> nat" where
  "ilog2 n = (if n \<le> 1 then 0 else Suc (ilog2 (n div 2)))"
  by auto
termination
  by (relation "measure nat") auto

declare ilog2.simps [simp del]

definition ieee_magnitude :: "nat \<Rightarrow> int \<Rightarrow> int \<Rightarrow> int" where
  "ieee_magnitude mb bias a =
     (if a = 0 then 0 else
      let e = ilog2 a;
          q = (if e \<le> mb then a * 2 ^ (mb - e) else
                 let d = 2 ^ (e - mb); q = a div d; r = a mod d
                 in if d < 2 * r \<or> (2 * r = d \<and> odd q) then q + 1 else q)
      in (int e + bias) * 2 ^ mb + q - 2 ^ mb)"

definition float_of_dint :: "32 word \<Rightarrow> 32 word" where
  "float_of_dint w = of_int ((if sint w < 0 then 2 ^ 31 else 0) + ieee_magnitude 23 127 \<bar>sint w\<bar>)"

definition double_of_ulint :: "64 word \<Rightarrow> 64 word" where
  "double_of_ulint w = of_int (ieee_magnitude 52 1023 (uint w))"

subsection \<open>Decoders (cipcommon.c)\<close>

type_synonym decode_result = "(cip_value \<times> CipMessageRouterRequest \<times> CipMessageRouterResponse \<times> int) run"

text \<open>
  The scalar decoders read the request data with one of the readers, store the value, advance the
  request's data pointer, report success and return a constant.
\<close>

definition decode_scalar :: "(CipOctet list \<Rightarrow> ('v \<times> CipOctet list) run) \<Rightarrow> ('v \<Rightarrow> cip_value) \<Rightarrow>
    int \<Rightarrow> CipMessageRouterRequest \<Rightarrow> CipMessageRouterResponse \<Rightarrow> decode_result" where
  "decode_scalar reader mk count req resp = do {
     (v, r) \<leftarrow> reader (req_data req);
     Some (mk v, req\<lparr>req_data := r\<rparr>, resp\<lparr>general_status := kCipErrorSuccess\<rparr>, count) }"

definition DecodeCipBool :: "CipMessageRouterRequest \<Rightarrow> CipMessageRouterResponse \<Rightarrow> decode_result" where
  "DecodeCipBool = decode_scalar GetBoolFromMessage V8 1"
definition DecodeCipByte :: "CipMessageRouterRequest \<Rightarrow> CipMessageRouterResponse \<Rightarrow> decode_result" where
  "DecodeCipByte = decode_scalar GetByteFromMessage V8 1"
definition DecodeCipWord :: "CipMessageRouterRequest \<Rightarrow> CipMessageRouterResponse \<Rightarrow> decode_result" where
  "DecodeCipWord = decode_scalar GetWordFromMessage V16 2"
definition DecodeCipDword :: "CipMessageRouterRequest \<Rightarrow> CipMessageRouterResponse \<Rightarrow> decode_result" where
  "DecodeCipDword = decode_scalar GetDintFromMessage V32 4"
definition DecodeCipLword :: "CipMessageRouterRequest \<Rightarrow> CipMessageRouterResponse \<Rightarrow> decode_result" where
  "DecodeCipLword = decode_scalar GetLintFromMessage V64 4"
definition DecodeCipUsint :: "CipMessageRouterRequest \<Rightarrow> CipMessageRouterResponse \<Rightarrow> decode_result" where
  "DecodeCipUsint = decode_scalar GetUsintFromMessage V8 1"
definition DecodeCipUint :: "CipMessageRouterRequest \<Rightarrow> CipMessageRouterResponse \<Rightarrow> decode_result" where
  "DecodeCipUint = decode_scalar GetUintFromMessage V16 2"
definition DecodeCipUdint :: "CipMessageRouterRequest \<Rightarrow> CipMessageRouterResponse \<Rightarrow> decode_result" where
  "DecodeCipUdint = decode_scalar GetUdintFromMessage V32 4"
definition DecodeCipUlint :: "CipMessageRouterRequest \<Rightarrow> CipMessageRouterResponse \<Rightarrow> decode_result" where
  "DecodeCipUlint = decode_scalar GetLintFromMessage V64 8"
definition DecodeCipSint :: "CipMessageRouterRequest \<Rightarrow> CipMessageRouterResponse \<Rightarrow> decode_result" where
  "DecodeCipSint = decode_scalar GetSintFromMessage V8 1"
definition DecodeCipInt :: "CipMessageRouterRequest \<Rightarrow> CipMessageRouterResponse \<Rightarrow> decode_result" where
  "DecodeCipInt = decode_scalar GetIntFromMessage V16 2"
definition DecodeCipDint :: "CipMessageRouterRequest \<Rightarrow> CipMessageRouterResponse \<Rightarrow> decode_result" where
  "DecodeCipDint = decode_scalar GetDintFromMessage V32 4"
definition DecodeCipLint :: "CipMessageRouterRequest \<Rightarrow> CipMessageRouterResponse \<Rightarrow> decode_result" where
  "DecodeCipLint = decode_scalar GetLintFromMessage V64 8"
definition DecodeCipReal :: "CipMessageRouterRequest \<Rightarrow> CipMessageRouterResponse \<Rightarrow> decode_result" where
  "DecodeCipReal = decode_scalar GetDintFromMessage (\<lambda>v. V32 (float_of_dint v)) 4"
definition DecodeCipLreal :: "CipMessageRouterRequest \<Rightarrow> CipMessageRouterResponse \<Rightarrow> decode_result" where
  "DecodeCipLreal = decode_scalar GetLintFromMessage (\<lambda>v. V64 (double_of_ulint v)) 8"

text \<open>The byte array decoder checks the request size against the array; \<open>-1\<close> reports a refusal.\<close>

fun DecodeCipByteArray ::
    "cip_value \<Rightarrow> CipMessageRouterRequest \<Rightarrow> CipMessageRouterResponse \<Rightarrow> decode_result" where
  "DecodeCipByteArray (VByteArray a) req resp =
     (if request_data_size req < ucast (ba_length a)
      then Some (VByteArray a, req, resp\<lparr>general_status := kCipErrorNotEnoughData\<rparr>, - 1)
      else if request_data_size req > ucast (ba_length a)
      then Some (VByteArray a, req, resp\<lparr>general_status := kCipErrorTooMuchData\<rparr>, - 1)
      else do {
        (bs, _) \<leftarrow> read_bytes (unat (ba_length a)) (req_data req);
        buf \<leftarrow> write_at (ba_data a) 0 bs;
        Some (VByteArray (a\<lparr>ba_data := buf\<rparr>), req, resp\<lparr>general_status := kCipErrorSuccess\<rparr>,
          int (unat (ba_length a))) })"
| "DecodeCipByteArray _ req resp = None"

fun DecodeCipString ::
    "cip_value \<Rightarrow> CipMessageRouterRequest \<Rightarrow> CipMessageRouterResponse \<Rightarrow> decode_result" where
  "DecodeCipString (VString s) req resp = do {
     (len, r) \<leftarrow> GetUintFromMessage (req_data req);
     s \<leftarrow> SetCipStringByData s len r;
     let r = drop (unat (cs_length s)) r;
     let number_of_decoded_bytes = int (unat (cs_length s)) + 2;
     let (r, number_of_decoded_bytes) =
       (if odd number_of_decoded_bytes then (drop 1 r, number_of_decoded_bytes + 1)
        else (r, number_of_decoded_bytes));
     Some (VString s, req\<lparr>req_data := r\<rparr>, resp\<lparr>general_status := kCipErrorSuccess\<rparr>,
       number_of_decoded_bytes) }"
| "DecodeCipString _ req resp = None"

fun DecodeCipShortString ::
    "cip_value \<Rightarrow> CipMessageRouterRequest \<Rightarrow> CipMessageRouterResponse \<Rightarrow> decode_result" where
  "DecodeCipShortString (VShortString s) req resp = do {
     (len, r) \<leftarrow> GetUsintFromMessage (req_data req);
     s \<leftarrow> SetCipShortStringByData s len r;
     Some (VShortString s, req\<lparr>req_data := drop (unat (css_length s)) r\<rparr>,
       resp\<lparr>general_status := kCipErrorSuccess\<rparr>, int (unat (css_length s)) + 1) }"
| "DecodeCipShortString _ req resp = None"

subsection \<open>Dispatch through the attribute's function pointers\<close>

text \<open>\<open>EncOther\<close> and \<open>DecOther\<close> stand for the functions other components install.\<close>

datatype encode_function =
    EncCipBool | EncCipByte | EncCipWord | EncCipDword | EncCipLword | EncCipUsint | EncCipUint
  | EncCipUdint | EncCipUlint | EncCipSint | EncCipInt | EncCipDint | EncCipLint | EncCipReal
  | EncCipLreal | EncCipShortString | EncCipString | EncCipStringI | EncCipByteArray | EncCipEPath
  | EncPhysicalAddress | EncOther nat

datatype decode_function =
    DecCipBool | DecCipByte | DecCipWord | DecCipDword | DecCipLword | DecCipUsint | DecCipUint
  | DecCipUdint | DecCipUlint | DecCipSint | DecCipInt | DecCipDint | DecCipLint | DecCipReal
  | DecCipLreal | DecCipShortString | DecCipString | DecCipByteArray | DecOther nat

type_synonym encode_env = "nat \<Rightarrow> cip_value \<Rightarrow> ENIPMessage \<Rightarrow> ENIPMessage run"
type_synonym decode_env =
  "nat \<Rightarrow> cip_value \<Rightarrow> CipMessageRouterRequest \<Rightarrow> CipMessageRouterResponse \<Rightarrow> decode_result"

fun call_encode :: "encode_env \<Rightarrow> encode_function \<Rightarrow> cip_value \<Rightarrow> ENIPMessage \<Rightarrow> ENIPMessage run" where
  "call_encode env EncCipBool d = EncodeCipBool d"
| "call_encode env EncCipByte d = EncodeCipByte d"
| "call_encode env EncCipWord d = EncodeCipWord d"
| "call_encode env EncCipDword d = EncodeCipDword d"
| "call_encode env EncCipLword d = EncodeCipLword d"
| "call_encode env EncCipUsint d = EncodeCipUsint d"
| "call_encode env EncCipUint d = EncodeCipUint d"
| "call_encode env EncCipUdint d = EncodeCipUdint d"
| "call_encode env EncCipUlint d = EncodeCipUlint d"
| "call_encode env EncCipSint d = EncodeCipSint d"
| "call_encode env EncCipInt d = EncodeCipInt d"
| "call_encode env EncCipDint d = EncodeCipDint d"
| "call_encode env EncCipLint d = EncodeCipLint d"
| "call_encode env EncCipReal d = EncodeCipReal d"
| "call_encode env EncCipLreal d = EncodeCipLreal d"
| "call_encode env EncCipShortString d = EncodeCipShortString d"
| "call_encode env EncCipString d = EncodeCipString d"
| "call_encode env EncCipStringI d = EncodeCipStringI d"
| "call_encode env EncCipByteArray d = EncodeCipByteArray d"
| "call_encode env EncCipEPath d = EncodeCipEPath d"
| "call_encode env EncPhysicalAddress d = EncodeCipEthernetLinkPhyisicalAddress d"
| "call_encode env (EncOther i) d = env i d"

fun call_decode :: "decode_env \<Rightarrow> decode_function \<Rightarrow> cip_value \<Rightarrow> CipMessageRouterRequest \<Rightarrow>
    CipMessageRouterResponse \<Rightarrow> decode_result" where
  "call_decode env DecCipBool d = DecodeCipBool"
| "call_decode env DecCipByte d = DecodeCipByte"
| "call_decode env DecCipWord d = DecodeCipWord"
| "call_decode env DecCipDword d = DecodeCipDword"
| "call_decode env DecCipLword d = DecodeCipLword"
| "call_decode env DecCipUsint d = DecodeCipUsint"
| "call_decode env DecCipUint d = DecodeCipUint"
| "call_decode env DecCipUdint d = DecodeCipUdint"
| "call_decode env DecCipUlint d = DecodeCipUlint"
| "call_decode env DecCipSint d = DecodeCipSint"
| "call_decode env DecCipInt d = DecodeCipInt"
| "call_decode env DecCipDint d = DecodeCipDint"
| "call_decode env DecCipLint d = DecodeCipLint"
| "call_decode env DecCipReal d = DecodeCipReal"
| "call_decode env DecCipLreal d = DecodeCipLreal"
| "call_decode env DecCipShortString d = DecodeCipShortString d"
| "call_decode env DecCipString d = DecodeCipString d"
| "call_decode env DecCipByteArray d = DecodeCipByteArray d"
| "call_decode env (DecOther i) d = env i d"


subsection \<open>Attribute codecs\<close>

text \<open>
  What the attribute services need of an encoder and the decoder of the same type: the encoder
  emits the wire form of the object, the decoder takes exactly that form from the request, stores
  the object, and returns the number of octets it took.
\<close>

locale attribute_codec =
  fixes encode :: "cip_value \<Rightarrow> ENIPMessage \<Rightarrow> ENIPMessage run"
    and decode :: "cip_value \<Rightarrow> CipMessageRouterRequest \<Rightarrow> CipMessageRouterResponse \<Rightarrow> decode_result"
    and wire :: "cip_value \<Rightarrow> CipOctet list"
    and valid :: "cip_value \<Rightarrow> bool"
  assumes encode_wire: "valid v \<Longrightarrow> encode v m = emit (wire v) m"
    and decode_wire: "valid v \<Longrightarrow> valid old \<Longrightarrow> req_data req = wire v @ r \<Longrightarrow>
      decode old req resp = Some (v, req\<lparr>req_data := r\<rparr>,
        resp\<lparr>general_status := kCipErrorSuccess\<rparr>, int (length (wire v)))"
begin

lemma encode_total:
  "valid v \<Longrightarrow> holds_octets m bs \<Longrightarrow> length bs + length (wire v) \<le> PC_OPENER_ETHERNET_BUFFER_SIZE \<Longrightarrow>
     \<exists>m'. encode v m = Some m' \<and> holds_octets m' (bs @ wire v)"
  using encode_wire holds_octets_emit_fits by metis

end

text \<open>The fixed-size types: reading an object at another type is a fault.\<close>

locale exact_attribute_codec = attribute_codec +
  assumes encode_invalid: "\<not> valid v \<Longrightarrow> encode v m = None"
begin

lemma encode_SomeD: "encode v m = Some m' \<Longrightarrow> valid v \<and> emit (wire v) m = Some m'"
  using encode_wire encode_invalid by (cases "valid v") auto

lemma decode_of_encode:
  assumes "encode v m = Some m'" and "valid old" and "req_data req = wire v @ r"
  shows "emit (wire v) m = Some m' \<and>
    decode old req resp = Some (v, req\<lparr>req_data := r\<rparr>,
      resp\<lparr>general_status := kCipErrorSuccess\<rparr>, int (length (wire v)))"
  using assms encode_SomeD decode_wire by blast

end

fun wire8 :: "cip_value \<Rightarrow> CipOctet list" where "wire8 (V8 x) = sint_bytes x" | "wire8 _ = []"
fun wire16 :: "cip_value \<Rightarrow> CipOctet list" where "wire16 (V16 x) = int_bytes x" | "wire16 _ = []"
fun wire32 :: "cip_value \<Rightarrow> CipOctet list" where "wire32 (V32 x) = dint_bytes x" | "wire32 _ = []"
fun is_V8 :: "cip_value \<Rightarrow> bool" where "is_V8 (V8 x) = True" | "is_V8 _ = False"
fun is_V16 :: "cip_value \<Rightarrow> bool" where "is_V16 (V16 x) = True" | "is_V16 _ = False"
fun is_V32 :: "cip_value \<Rightarrow> bool" where "is_V32 (V32 x) = True" | "is_V32 _ = False"

lemma wire_length [simp]:
  "is_V8 v \<Longrightarrow> length (wire8 v) = 1" "is_V16 v \<Longrightarrow> length (wire16 v) = 2"
  "is_V32 v \<Longrightarrow> length (wire32 v) = 4"
  by (cases v; simp)+

lemma decode_scalar_wire:
  "req_data req = sint_bytes x @ r \<Longrightarrow> decode_scalar GetUsintFromMessage V8 n req resp =
     Some (V8 x, req\<lparr>req_data := r\<rparr>, resp\<lparr>general_status := kCipErrorSuccess\<rparr>, n)"
  "req_data req = int_bytes y @ r \<Longrightarrow> decode_scalar GetUintFromMessage V16 n req resp =
     Some (V16 y, req\<lparr>req_data := r\<rparr>, resp\<lparr>general_status := kCipErrorSuccess\<rparr>, n)"
  "req_data req = dint_bytes z @ r \<Longrightarrow> decode_scalar GetUdintFromMessage V32 n req resp =
     Some (V32 z, req\<lparr>req_data := r\<rparr>, resp\<lparr>general_status := kCipErrorSuccess\<rparr>, n)"
  by (simp_all add: decode_scalar_def usint.dec_enc uint.dec_enc udint.dec_enc)

lemma encode_scalar_wire:
  "is_V8 v \<Longrightarrow> (get8 v \<bind> (\<lambda>x. AddSintToMessage x m)) = emit (wire8 v) m"
  "is_V16 v \<Longrightarrow> (get16 v \<bind> (\<lambda>x. AddIntToMessage x m)) = emit (wire16 v) m"
  "is_V32 v \<Longrightarrow> (get32 v \<bind> (\<lambda>x. AddDintToMessage x m)) = emit (wire32 v) m"
  "\<not> is_V8 v \<Longrightarrow> get8 v = None" "\<not> is_V16 v \<Longrightarrow> get16 v = None" "\<not> is_V32 v \<Longrightarrow> get32 v = None"
  by (cases v; simp add: wire_simps)+

lemmas scalar_encoder_defs =
  EncodeCipBool_def EncodeCipByte_def EncodeCipUsint_def EncodeCipSint_def
  EncodeCipWord_def EncodeCipUint_def EncodeCipInt_def
  EncodeCipDword_def EncodeCipUdint_def EncodeCipDint_def

lemmas scalar_decoder_defs =
  DecodeCipBool_def DecodeCipByte_def DecodeCipUsint_def DecodeCipSint_def
  DecodeCipWord_def DecodeCipUint_def DecodeCipInt_def
  DecodeCipDword_def DecodeCipUdint_def DecodeCipDint_def

text \<open>
  The encoder/decoder pairs of the fixed-size types whose decoder copies the octets. REAL, LREAL and
  the 64-bit types are not among them.
\<close>

definition codecs8 :: "(encode_function \<times> decode_function) list" where
  "codecs8 = [(EncCipBool, DecCipBool), (EncCipByte, DecCipByte), (EncCipUsint, DecCipUsint),
     (EncCipSint, DecCipSint)]"

definition codecs16 :: "(encode_function \<times> decode_function) list" where
  "codecs16 = [(EncCipWord, DecCipWord), (EncCipUint, DecCipUint), (EncCipInt, DecCipInt)]"

definition codecs32 :: "(encode_function \<times> decode_function) list" where
  "codecs32 = [(EncCipDword, DecCipDword), (EncCipUdint, DecCipUdint), (EncCipDint, DecCipDint)]"

lemma codec8_laws: "(e, d) \<in> set codecs8 \<Longrightarrow>
    exact_attribute_codec (call_encode env e) (call_decode denv d) wire8 is_V8"
  by unfold_locales
    (auto simp: codecs8_def scalar_encoder_defs scalar_decoder_defs encode_scalar_wire readers_agree
      decode_scalar_wire wire_simps elim!: is_V8.elims)

lemma codec16_laws: "(e, d) \<in> set codecs16 \<Longrightarrow>
    exact_attribute_codec (call_encode env e) (call_decode denv d) wire16 is_V16"
  by unfold_locales
    (auto simp: codecs16_def scalar_encoder_defs scalar_decoder_defs encode_scalar_wire readers_agree
      decode_scalar_wire wire_simps elim!: is_V16.elims)

lemma codec32_laws: "(e, d) \<in> set codecs32 \<Longrightarrow>
    exact_attribute_codec (call_encode env e) (call_decode denv d) wire32 is_V32"
  by unfold_locales
    (auto simp: codecs32_def scalar_encoder_defs scalar_decoder_defs encode_scalar_wire readers_agree
      decode_scalar_wire wire_simps elim!: is_V32.elims)

fun wire_short_string :: "cip_value \<Rightarrow> CipOctet list" where
  "wire_short_string (VShortString s) = sint_bytes (css_length s) @ (case css_string s of None \<Rightarrow> [] | Some bs \<Rightarrow> bs)"
| "wire_short_string _ = []"

text \<open>A short string owns exactly the octets its length announces; the empty one owns none.\<close>

fun short_string_wf :: "cip_value \<Rightarrow> bool" where
  "short_string_wf (VShortString s) = (case css_string s of None \<Rightarrow> css_length s = 0
     | Some bs \<Rightarrow> bs \<noteq> [] \<and> length bs = unat (css_length s))"
| "short_string_wf _ = False"

lemma SetCipShortStringByData_wf:
  assumes "short_string_wf (VShortString old)" and "short_string_wf (VShortString s)"
  shows "SetCipShortStringByData old (css_length s) ((case css_string s of None \<Rightarrow> [] | Some bs \<Rightarrow> bs) @ r) = Some s"
proof -
  have old: "css_string (ClearCipShortString old) = None" "css_length (ClearCipShortString old) = 0"
    using assms(1) by (auto simp: ClearCipShortString_def split: option.splits)
  show ?thesis
  proof (cases "css_string s")
    case None
    with assms(2) old show ?thesis
      by (simp add: SetCipShortStringByData_def)
  next
    case (Some bs)
    with assms(2) have "css_length s \<noteq> 0" "length bs = unat (css_length s)" by auto
    with Some old show ?thesis
      by (simp add: SetCipShortStringByData_def read_bytes_def)
  qed
qed

lemma call_decode_uint: "call_decode denv DecCipUint = (\<lambda>_. DecodeCipUint)"
  and call_encode_uint: "call_encode env EncCipUint = EncodeCipUint"
  by (rule ext, simp)+

interpretation uint_attribute: exact_attribute_codec EncodeCipUint "\<lambda>_. DecodeCipUint" wire16 is_V16
  using codec16_laws [of EncCipUint DecCipUint]
  by (simp add: codecs16_def call_decode_uint call_encode_uint)

lemma copy_octets_simps:
  "copy_octets 0 None = Some" "length bs = n \<Longrightarrow> copy_octets n (Some bs) = emit bs"
  by (simp_all add: fun_eq_iff copy_octets_def read_bytes_def)

interpretation short_string: attribute_codec EncodeCipShortString DecodeCipShortString
  wire_short_string short_string_wf
proof unfold_locales
  fix v m
  show "EncodeCipShortString v m = emit (wire_short_string v) m" if "short_string_wf v"
    using that
    by (cases v) (auto simp: copy_octets_simps emit_emit wire_simps split: option.splits)
next
  fix v old r and req :: CipMessageRouterRequest and resp :: CipMessageRouterResponse
  assume v: "short_string_wf v" and old: "short_string_wf old"
    and d: "req_data req = wire_short_string v @ r"
  from v obtain s where s: "v = VShortString s" by (cases v) auto
  from old obtain o' where o: "old = VShortString o'" by (cases old) auto
  let ?bs = "case css_string s of None \<Rightarrow> [] | Some bs \<Rightarrow> bs"
  have "length ?bs = unat (css_length s)"
    using v s by (auto split: option.splits)
  with SetCipShortStringByData_wf [of o' s r] v old d s o
  show "DecodeCipShortString old req resp = Some (v, req\<lparr>req_data := r\<rparr>,
      resp\<lparr>general_status := kCipErrorSuccess\<rparr>, int (length (wire_short_string v)))"
    by (simp add: usint.dec_enc)
qed

text \<open>A BOOL, BYTE, USINT, SINT, WORD, UINT, INT, DWORD, UDINT or DINT attribute that is
  encoded and sent back as the data of a set request is decoded to the value that was encoded;
  the decoder takes exactly the encoded octets and reports success.\<close>

theorem scalar_attribute_roundtrip:
  assumes "(e, d) \<in> set (codecs8 @ codecs16 @ codecs32)"
    and "call_encode env e v m = Some m'" and "call_encode env e old m2 = Some m2'"
  shows "\<exists>bs. emit bs m = Some m' \<and>
    (\<forall>req resp r. req_data req = bs @ r \<longrightarrow>
       call_decode denv d old req resp = Some (v, req\<lparr>req_data := r\<rparr>,
         resp\<lparr>general_status := kCipErrorSuccess\<rparr>, int (length bs)))"
proof -
  have rt: ?thesis if "exact_attribute_codec (call_encode env e) (call_decode denv d) w P" for w P
    using exact_attribute_codec.decode_of_encode [OF that assms(2)] exact_attribute_codec.encode_SomeD [OF that assms(3)]
      exact_attribute_codec.encode_SomeD [OF that assms(2)]
    by blast
  from assms(1) consider "(e, d) \<in> set codecs8" | "(e, d) \<in> set codecs16" | "(e, d) \<in> set codecs32"
    by auto
  then show ?thesis
    by cases (blast intro: rt codec8_laws codec16_laws codec32_laws)+
qed

theorem scalar_attribute_roundtrip_witness:
  "\<exists>bs. emit bs (InitializeENIPMessage undefined) = AddIntToMessage 0x1234 (InitializeENIPMessage undefined) \<and>
    (\<forall>req resp r. req_data req = bs @ r \<longrightarrow>
       DecodeCipUint req resp = Some (V16 0x1234, req\<lparr>req_data := r\<rparr>,
         resp\<lparr>general_status := kCipErrorSuccess\<rparr>, int (length bs)))"
proof -
  let ?m = "InitializeENIPMessage undefined"
  obtain m' where m': "AddIntToMessage 0x1234 ?m = Some m'"
    by (simp add: wire_simps emit_InMessage)
  then have "call_encode (\<lambda>_ _ _. None) EncCipUint (V16 0x1234) ?m = Some m'"
    by (simp add: EncodeCipUint_def)
  from scalar_attribute_roundtrip [OF _ this this, of DecCipUint "\<lambda>_ _ _ _. None"] m' show ?thesis
    by (simp add: codecs16_def)
qed

text \<open>A SHORT_STRING attribute survives encoding and decoding, whatever string it replaces.\<close>

theorem short_string_roundtrip:
  assumes "short_string_wf v" and "short_string_wf old" and "req_data req = wire_short_string v @ r"
  shows "EncodeCipShortString v m = emit (wire_short_string v) m \<and>
    DecodeCipShortString old req resp = Some (v, req\<lparr>req_data := r\<rparr>,
      resp\<lparr>general_status := kCipErrorSuccess\<rparr>, int (length (wire_short_string v)))"
  using short_string.encode_wire [OF assms(1)] short_string.decode_wire [OF assms] by simp

theorem short_string_roundtrip_witness:
  "DecodeCipShortString (VShortString \<lparr>css_length = 1, css_string = Some [0x7A]\<rparr>)
     \<lparr>req_service = 0x10, request_path = CipEpath.make 0 0 0 0, request_data_size = 3, req_data = [2, 0x41, 0x42, 9]\<rparr>
     (CipMessageRouterResponse.make 0 0 8 0 [] (InitializeENIPMessage undefined)) =
   Some (VShortString \<lparr>css_length = 2, css_string = Some [0x41, 0x42]\<rparr>,
     \<lparr>req_service = 0x10, request_path = CipEpath.make 0 0 0 0, request_data_size = 3, req_data = [9]\<rparr>,
     CipMessageRouterResponse.make 0 0 0 0 [] (InitializeENIPMessage undefined), 3)"
  using short_string_roundtrip
    [of "VShortString \<lparr>css_length = 2, css_string = Some [0x41, 0x42]\<rparr>"
        "VShortString \<lparr>css_length = 1, css_string = Some [0x7A]\<rparr>"
        "\<lparr>req_service = 0x10, request_path = CipEpath.make 0 0 0 0, request_data_size = 3,
           req_data = [2, 0x41, 0x42, 9]\<rparr>" "[9]" _
        "CipMessageRouterResponse.make 0 0 8 0 [] (InitializeENIPMessage undefined)"]
  by (simp add: sint_bytes_def CipMessageRouterResponse.make_def)

text \<open>\<^verbatim>\<open>DecodeCipReal\<close> converts the received 32-bit pattern as an integer value instead of
  storing it: the octets of 1.0 are stored as the number 1065353216.0, which is what a later read
  returns.\<close>

theorem real_decode_converts:
  assumes "req_data req = dint_bytes 0x3F800000 @ r"
  shows "DecodeCipReal req resp = Some (V32 0x4E7E0000, req\<lparr>req_data := r\<rparr>,
      resp\<lparr>general_status := kCipErrorSuccess\<rparr>, 4) \<and>
    EncodeCipReal (V32 0x4E7E0000) m = emit (dint_bytes 0x4E7E0000) m"
proof
  have f: "float_of_dint 0x3F800000 = 0x4E7E0000"
    by (simp add: float_of_dint_def ieee_magnitude_def ilog2.simps)
  then show "DecodeCipReal req resp = Some (V32 0x4E7E0000, req\<lparr>req_data := r\<rparr>,
      resp\<lparr>general_status := kCipErrorSuccess\<rparr>, 4)"
    by (simp add: DecodeCipReal_def decode_scalar_def readers_agree udint.dec_enc assms)
  show "EncodeCipReal (V32 0x4E7E0000) m = emit (dint_bytes 0x4E7E0000) m"
    by (simp add: EncodeCipReal_def wire_simps)
qed

theorem real_decode_converts_witness:
  "DecodeCipReal \<lparr>req_service = 0x10, request_path = CipEpath.make 0 0 0 0, request_data_size = 4,
       req_data = [0, 0, 0x80, 0x3F]\<rparr>
     (CipMessageRouterResponse.make 0 0 8 0 [] (InitializeENIPMessage undefined)) =
   Some (V32 0x4E7E0000, \<lparr>req_service = 0x10, request_path = CipEpath.make 0 0 0 0,
       request_data_size = 4, req_data = []\<rparr>,
     CipMessageRouterResponse.make 0 0 0 0 [] (InitializeENIPMessage undefined), 4)"
  using real_decode_converts
    [of "\<lparr>req_service = 0x10, request_path = CipEpath.make 0 0 0 0, request_data_size = 4,
       req_data = [0, 0, 0x80, 0x3F]\<rparr>" "[]"
       "CipMessageRouterResponse.make 0 0 8 0 [] (InitializeENIPMessage undefined)"]
  by (simp add: dint_bytes_def CipMessageRouterResponse.make_def)

text \<open>\<^verbatim>\<open>DecodeCipByteArray\<close> changes the array only when the request carries exactly as many
  octets as the array has; a shorter or longer request is refused with its own status, and an
  accepted one is what \<^verbatim>\<open>EncodeCipByteArray\<close> then sends.\<close>

theorem byte_array_decode:
  assumes "length (ba_data a) = unat (ba_length a)"
    and "unat (request_data_size req) \<le> length (req_data req)"
  shows "\<exists>a' resp' n. DecodeCipByteArray (VByteArray a) req resp = Some (VByteArray a', req, resp', n) \<and>
    (if request_data_size req = ucast (ba_length a)
     then general_status resp' = kCipErrorSuccess \<and> n = int (unat (ba_length a)) \<and>
       EncodeCipByteArray (VByteArray a') m = emit (take (unat (ba_length a)) (req_data req)) m
     else a' = a \<and> n = - 1 \<and> general_status resp' =
       (if request_data_size req < ucast (ba_length a) then kCipErrorNotEnoughData
        else kCipErrorTooMuchData))"
proof (cases "request_data_size req = ucast (ba_length a)")
  case True
  then have "unat (ba_length a) \<le> length (req_data req)"
    using assms(2) by simp
  with True assms(1) show ?thesis
    by (simp add: read_bytes_def write_at_def copy_octets_simps)
next
  case False
  then consider "request_data_size req < ucast (ba_length a)" | "request_data_size req > ucast (ba_length a)"
    by (meson linorder_less_linear)
  then show ?thesis
    by cases (use False in \<open>auto\<close>)
qed

theorem byte_array_decode_witness:
  "\<exists>a' resp' n. DecodeCipByteArray (VByteArray \<lparr>ba_length = 2, ba_data = [1, 2]\<rparr>)
      \<lparr>req_service = 0x10, request_path = CipEpath.make 0 0 0 0, request_data_size = 2, req_data = [7, 8]\<rparr>
      (CipMessageRouterResponse.make 0 0 8 0 [] (InitializeENIPMessage undefined)) =
     Some (VByteArray a', \<lparr>req_service = 0x10, request_path = CipEpath.make 0 0 0 0,
       request_data_size = 2, req_data = [7, 8]\<rparr>, resp', n) \<and>
     EncodeCipByteArray (VByteArray a') (InitializeENIPMessage undefined) =
       emit [7, 8] (InitializeENIPMessage undefined)"
  using byte_array_decode [of "\<lparr>ba_length = 2, ba_data = [1, 2]\<rparr>"
      "\<lparr>req_service = 0x10, request_path = CipEpath.make 0 0 0 0, request_data_size = 2, req_data = [7, 8]\<rparr>"
      "CipMessageRouterResponse.make 0 0 8 0 [] (InitializeENIPMessage undefined)" "InitializeENIPMessage undefined"]
  by auto

end
