(* ===== verification/CipObject.thy ===== *)
theory CipObject
  imports CipData
begin

text \<open>
  The CIP object model of \<^verbatim>\<open>cip/ciptypes.h\<close> and \<^verbatim>\<open>cip/cipcommon.c\<close>: classes with their metaclass,
  instances, attributes and services, and the registry \<^verbatim>\<open>g_first_object\<close> of
  \<^verbatim>\<open>cip/cipmessagerouter.c\<close>.

  A pointer to an instance is its class and its number: number 0 is the class object itself, whose
  class is the metaclass. A data pointer of an attribute is a \<open>data_ref\<close>, resolved in the state;
  a function pointer is a name, resolved in an environment for the functions other components
  install. \<^verbatim>\<open>CipCalloc\<close> is taken to succeed, and \<^verbatim>\<open>class_name\<close>, used by traces only, is left out.
\<close>

subsection \<open>Data (ciptypes.h)\<close>

datatype data_ref =
    DRevision CipUdint | DMaxInstance CipUdint | DNumberOfInstances CipUdint
  | DHighestAttribute CipUdint | DMetaHighestAttribute CipUdint | DUintZero | DVar nat

datatype service_function =
    SvcGetAttributeSingle | SvcGetAttributeAll | SvcSetAttributeSingle | SvcGetAttributeList
  | SvcSetAttributeList | SvcCreate | SvcDelete | SvcReset | SvcOther nat

record CipAttributeStruct =
  attr_number :: CipUint
  attr_type :: CipUsint
  attr_encode :: "encode_function option"
  attr_decode :: "decode_function option"
  attribute_flags :: CipByte
  attr_data :: "data_ref option"

record CipServiceStruct =
  service_number :: CipUsint
  service_fn :: "service_function option"

record CipInstance =
  inst_number :: CipInstanceNum
  attributes :: "CipAttributeStruct list"

record CipClass =
  class_code :: CipUdint
  revision :: CipUint
  max_instance :: CipUint
  number_of_instances :: CipUint
  number_of_attributes :: CipUint
  highest_attribute_number :: CipUint
  get_single_bit_mask :: "CipOctet list"
  set_bit_mask :: "CipOctet list"
  get_all_bit_mask :: "CipOctet list"
  number_of_services :: CipUint
  services :: "CipServiceStruct list"
  PreGetCallback :: "nat option"
  PostGetCallback :: "nat option"
  PreSetCallback :: "nat option"
  PostSetCallback :: "nat option"
  PreCreateCallback :: "nat option"
  PostCreateCallback :: "nat option"
  PreDeleteCallback :: "nat option"
  PostDeleteCallback :: "nat option"
  PreResetCallback :: "nat option"
  PostResetCallback :: "nat option"

record CipClassObject =
  cip_class :: CipClass
  meta_class :: CipClass
  class_attributes :: "CipAttributeStruct list"
  instances :: "CipInstance list"

record cip_state =
  g_first_object :: "CipClassObject list"
  data_store :: "nat \<Rightarrow> cip_value option"
  g_message_router_request :: CipMessageRouterRequest

type_synonym instance_ref = "CipUdint \<times> CipInstanceNum"

text \<open>The storage \<^verbatim>\<open>CipCalloc\<close> returns.\<close>

definition zero_attribute :: CipAttributeStruct where
  "zero_attribute = \<lparr>attr_number = 0, attr_type = 0, attr_encode = None, attr_decode = None,
     attribute_flags = 0, attr_data = None\<rparr>"

definition zero_service :: CipServiceStruct where
  "zero_service = \<lparr>service_number = 0, service_fn = None\<rparr>"

definition zero_class :: CipClass where
  "zero_class = \<lparr>class_code = 0, revision = 0, max_instance = 0, number_of_instances = 0,
     number_of_attributes = 0, highest_attribute_number = 0, get_single_bit_mask = [],
     set_bit_mask = [], get_all_bit_mask = [], number_of_services = 0, services = [],
     PreGetCallback = None, PostGetCallback = None, PreSetCallback = None, PostSetCallback = None,
     PreCreateCallback = None, PostCreateCallback = None, PreDeleteCallback = None,
     PostDeleteCallback = None, PreResetCallback = None, PostResetCallback = None\<rparr>"

subsection \<open>Following pointers\<close>

definition find_instance :: "CipInstanceNum \<Rightarrow> CipInstance list \<Rightarrow> CipInstance option" where
  "find_instance n = find (\<lambda>i. inst_number i = n)"

text \<open>The attribute array and the class behind an instance pointer.\<close>

definition attributes_of :: "CipInstanceNum \<Rightarrow> CipClassObject \<Rightarrow> CipAttributeStruct list run" where
  "attributes_of n ob = (if n = 0 then Some (class_attributes ob)
     else map_option attributes (find_instance n (instances ob)))"

definition class_of :: "CipInstanceNum \<Rightarrow> CipClassObject \<Rightarrow> CipClass" where
  "class_of n ob = (if n = 0 then meta_class ob else cip_class ob)"

definition set_attributes :: "CipInstanceNum \<Rightarrow> CipAttributeStruct list \<Rightarrow> CipClassObject \<Rightarrow> CipClassObject" where
  "set_attributes n xs ob = (if n = 0 then ob\<lparr>class_attributes := xs\<rparr>
     else ob\<lparr>instances := update_first (\<lambda>i. inst_number i = n) (\<lambda>i. i\<lparr>attributes := xs\<rparr>) (instances ob)\<rparr>)"

definition set_class_of :: "CipInstanceNum \<Rightarrow> CipClass \<Rightarrow> CipClassObject \<Rightarrow> CipClassObject" where
  "set_class_of n c ob = (if n = 0 then ob\<lparr>meta_class := c\<rparr> else ob\<lparr>cip_class := c\<rparr>)"

subsection \<open>The class registry (cipmessagerouter.c)\<close>

definition GetRegisteredObject :: "CipUdint \<Rightarrow> 'e cip_state_scheme \<Rightarrow> CipClassObject option" where
  "GetRegisteredObject code st = find (\<lambda>ob. class_code (cip_class ob) = code) (g_first_object st)"

definition GetCipClass :: "CipUdint \<Rightarrow> 'e cip_state_scheme \<Rightarrow> CipClassObject option" where
  "GetCipClass code st = (case GetRegisteredObject code st of Some ob \<Rightarrow> Some ob | None \<Rightarrow> None)"

text \<open>\<open>Some n\<close> is the instance (the class object for 0), \<open>None\<close> the null pointer.\<close>

definition GetCipInstance :: "CipClassObject \<Rightarrow> CipInstanceNum \<Rightarrow> CipInstanceNum option" where
  "GetCipInstance ob n = (if n = 0 then Some 0
     else map_option inst_number (find_instance n (instances ob)))"

definition RegisterCipClass :: "CipClassObject \<Rightarrow> 'e cip_state_scheme \<Rightarrow> EipStatus \<times> 'e cip_state_scheme" where
  "RegisterCipClass ob st = (kEipStatusOk, st\<lparr>g_first_object := g_first_object st @ [ob]\<rparr>)"

definition DeleteAllClasses :: "'e cip_state_scheme \<Rightarrow> 'e cip_state_scheme" where
  "DeleteAllClasses st = st\<lparr>g_first_object := []\<rparr>"

definition update_class :: "CipUdint \<Rightarrow> (CipClassObject \<Rightarrow> CipClassObject run) \<Rightarrow>
    'e cip_state_scheme \<Rightarrow> 'e cip_state_scheme run" where
  "update_class code f st = do {
     ob \<leftarrow> GetCipClass code st;
     ob' \<leftarrow> f ob;
     Some (st\<lparr>g_first_object :=
       update_first (\<lambda>x. class_code (cip_class x) = code) (\<lambda>_. ob') (g_first_object st)\<rparr>) }"

subsection \<open>Instances\<close>

definition GetMaxInstanceNumber :: "CipClassObject \<Rightarrow> CipUint" where
  "GetMaxInstanceNumber ob =
     fold (\<lambda>i m. if inst_number i > m then inst_number i else m) (instances ob) 0"

text \<open>The search for an unused number does not end when every number is in use.\<close>

partial_function (option) free_number :: "CipInstance list \<Rightarrow> CipInstanceNum \<Rightarrow> CipInstanceNum option" where
  "free_number is n = (if list_ex (\<lambda>i. inst_number i = n) is then free_number is (n + 1) else Some n)"

definition new_instance :: "CipInstanceNum \<Rightarrow> CipClassObject \<Rightarrow> CipInstance" where
  "new_instance n ob = \<lparr>inst_number = n,
     attributes = replicate (unat (number_of_attributes (cip_class ob))) zero_attribute\<rparr>"

fun add_instances :: "nat \<Rightarrow> CipInstanceNum \<Rightarrow> CipInstanceNum option \<Rightarrow> CipClassObject \<Rightarrow>
    (CipInstanceNum option \<times> CipClassObject) run" where
  "add_instances 0 n first_instance ob = Some (first_instance, ob)"
| "add_instances (Suc k) n first_instance ob = do {
     m \<leftarrow> free_number (instances ob) n;
     let first_instance = (case first_instance of None \<Rightarrow> Some m | Some f \<Rightarrow> Some f);
     let ob = ob\<lparr>instances := instances ob @ [new_instance m ob],
       cip_class := (cip_class ob)\<lparr>number_of_instances := number_of_instances (cip_class ob) + 1\<rparr>\<rparr>;
     add_instances k (m + 1) first_instance ob }"

definition set_max_instance :: "CipClassObject \<Rightarrow> CipClassObject" where
  "set_max_instance ob = ob\<lparr>cip_class := (cip_class ob)\<lparr>max_instance := GetMaxInstanceNumber ob\<rparr>\<rparr>"

definition AddCipInstances :: "CipInstanceNum \<Rightarrow> CipClassObject \<Rightarrow>
    (CipInstanceNum option \<times> CipClassObject) run" where
  "AddCipInstances k ob = do {
     (first_instance, ob) \<leftarrow> add_instances (unat k) 1 None ob;
     Some (first_instance, set_max_instance ob) }"

definition AddCipInstance :: "CipInstanceNum \<Rightarrow> CipClassObject \<Rightarrow>
    (CipInstanceNum \<times> CipClassObject) run" where
  "AddCipInstance instance_id ob = (case GetCipInstance ob instance_id of
       Some n \<Rightarrow> Some (n, set_max_instance ob)
     | None \<Rightarrow> do {
         (new, ob) \<leftarrow> AddCipInstances 1 ob;
         m \<leftarrow> new;
         let ob = ob\<lparr>instances := update_first (\<lambda>i. inst_number i = m)
           (\<lambda>i. i\<lparr>inst_number := instance_id\<rparr>) (instances ob)\<rparr>;
         Some (instance_id, set_max_instance ob) })"

subsection \<open>Attributes, services and callbacks\<close>

definition CalculateIndex :: "CipUint \<Rightarrow> nat" where
  "CalculateIndex n = unat n div 8"

definition attribute_bit :: "CipUint \<Rightarrow> CipOctet" where
  "attribute_bit n = push_bit (unat n mod 8) 1"

definition AllocateAttributeMasks :: "CipClass \<Rightarrow> CipClass" where
  "AllocateAttributeMasks c = (
     let bits = replicate (1 + CalculateIndex (highest_attribute_number c)) 0
     in c\<lparr>get_single_bit_mask := bits, set_bit_mask := bits, get_all_bit_mask := bits\<rparr>)"

text \<open>\<^verbatim>\<open>mask[index] |= condition ? bit : 0\<close>\<close>

definition or_mask :: "bool \<Rightarrow> CipUint \<Rightarrow> CipOctet list \<Rightarrow> CipOctet list run" where
  "or_mask cond n bits = do {
     b \<leftarrow> array_get bits (CalculateIndex n);
     array_set bits (CalculateIndex n) (b OR (if cond then attribute_bit n else 0)) }"

definition InsertAttribute :: "CipInstanceNum \<Rightarrow> CipUint \<Rightarrow> CipUsint \<Rightarrow> encode_function option \<Rightarrow>
    decode_function option \<Rightarrow> data_ref option \<Rightarrow> CipByte \<Rightarrow> CipClassObject \<Rightarrow> CipClassObject run" where
  "InsertAttribute inst n type enc dec data flags ob = do {
     c_assert (data \<noteq> None);
     as \<leftarrow> attributes_of inst ob;
     let c = class_of inst ob;
     c_assert (as \<noteq> []);
     slot \<leftarrow> scan (\<lambda>a. attr_data a = None) (unat (number_of_attributes c)) as;
     (case slot of
        None \<Rightarrow> None
      | Some i \<Rightarrow> do {
          as \<leftarrow> array_set as i \<lparr>attr_number = n, attr_type = type, attr_encode = enc,
            attr_decode = dec, attribute_flags = flags, attr_data = data\<rparr>;
          c_assert (n \<le> highest_attribute_number c);
          gs \<leftarrow> or_mask (flags AND kGetableSingle \<noteq> 0) n (get_single_bit_mask c);
          ga \<leftarrow> or_mask (flags AND (kGetableAll OR kGetableAllDummy) \<noteq> 0) n (get_all_bit_mask c);
          ss \<leftarrow> or_mask (flags AND kSetable \<noteq> 0) n (set_bit_mask c);
          Some (set_class_of inst (c\<lparr>get_single_bit_mask := gs, get_all_bit_mask := ga,
            set_bit_mask := ss\<rparr>) (set_attributes inst as ob)) }) }"

definition InsertService :: "CipUsint \<Rightarrow> service_function \<Rightarrow> CipClass \<Rightarrow> CipClass run" where
  "InsertService n f c = do {
     slot \<leftarrow> scan (\<lambda>s. service_number s = n \<or> service_fn s = None) (unat (number_of_services c)) (services c);
     (case slot of
        None \<Rightarrow> None
      | Some i \<Rightarrow> do {
          ss \<leftarrow> array_set (services c) i \<lparr>service_number = n, service_fn = Some f\<rparr>;
          Some (c\<lparr>services := ss\<rparr>) }) }"

definition InsertGetSetCallback :: "nat \<Rightarrow> CipByte \<Rightarrow> CipClass \<Rightarrow> CipClass" where
  "InsertGetSetCallback f which c = (
     let c = (if kPreGetFunc AND which \<noteq> 0 then c\<lparr>PreGetCallback := Some f\<rparr> else c);
         c = (if kPostGetFunc AND which \<noteq> 0 then c\<lparr>PostGetCallback := Some f\<rparr> else c);
         c = (if kPreSetFunc AND which \<noteq> 0 then c\<lparr>PreSetCallback := Some f\<rparr> else c)
     in if (kPostSetFunc OR kNvDataFunc) AND which \<noteq> 0 then c\<lparr>PostSetCallback := Some f\<rparr> else c)"

text \<open>The index of the attribute in the instance's array, \<open>None\<close> for the null pointer.\<close>

definition GetCipAttribute :: "CipInstanceNum \<Rightarrow> CipUint \<Rightarrow> CipClassObject \<Rightarrow> nat option run" where
  "GetCipAttribute inst n ob = do {
     as \<leftarrow> attributes_of inst ob;
     scan (\<lambda>a. n = attr_number a) (unat (number_of_attributes (class_of inst ob))) as }"

definition GetCipService :: "CipInstanceNum \<Rightarrow> CipUsint \<Rightarrow> CipClassObject \<Rightarrow> nat option run" where
  "GetCipService inst n ob =
     scan (\<lambda>s. service_number s = n) (unat (number_of_services (class_of inst ob)))
       (services (class_of inst ob))"


subsection \<open>Creating a class\<close>

text \<open>
  The class is built first and appended to the registry with its class attributes in place; the C
  code registers the same object before it fills in the class attributes.
\<close>

definition class_attribute :: "CipUint \<Rightarrow> data_ref \<Rightarrow> CipByte \<Rightarrow> CipClassObject \<Rightarrow> CipClassObject run" where
  "class_attribute n ref flags = InsertAttribute 0 n kCipUint (Some EncCipUint) None (Some ref) flags"

definition on_meta_class :: "(CipClass \<Rightarrow> CipClass run) \<Rightarrow> CipClassObject \<Rightarrow> CipClassObject run" where
  "on_meta_class f ob = do { c \<leftarrow> f (meta_class ob); Some (ob\<lparr>meta_class := c\<rparr>) }"

definition on_cip_class :: "(CipClass \<Rightarrow> CipClass run) \<Rightarrow> CipClassObject \<Rightarrow> CipClassObject run" where
  "on_cip_class f ob = do { c \<leftarrow> f (cip_class ob); Some (ob\<lparr>cip_class := c\<rparr>) }"

definition default_class_attributes :: "int \<Rightarrow> CipClassObject \<Rightarrow> CipClassObject run" where
  "default_class_attributes number_of_class_services ob = do {
     let cc = class_code (cip_class ob);
     ob \<leftarrow> class_attribute 1 (DRevision cc) kGetableSingleAndAll ob;
     ob \<leftarrow> class_attribute 2 (DMaxInstance cc) kGetableSingleAndAll ob;
     ob \<leftarrow> class_attribute 3 (DNumberOfInstances cc) kGetableSingleAndAll ob;
     ob \<leftarrow> class_attribute 4 DUintZero kGetableAllDummy ob;
     ob \<leftarrow> class_attribute 5 DUintZero kNotSetOrGetable ob;
     ob \<leftarrow> class_attribute 6 (DMetaHighestAttribute cc) kGetableSingle ob;
     ob \<leftarrow> class_attribute 7 (DHighestAttribute cc) kGetableSingle ob;
     if number_of_class_services > 0 then do {
       ob \<leftarrow> (if number_of_class_services > 1
              then on_meta_class (InsertService kGetAttributeAll SvcGetAttributeAll) ob else Some ob);
       on_meta_class (InsertService kGetAttributeSingle SvcGetAttributeSingle) ob }
     else Some ob }"

text \<open>The counts are C \<^verbatim>\<open>int\<close>s that the assignments to 16-bit fields truncate; the arrays are as
  long as the truncated fields say.\<close>

definition CreateCipClass :: "CipUdint \<Rightarrow> int \<Rightarrow> CipUdint \<Rightarrow> int \<Rightarrow> int \<Rightarrow> CipUdint \<Rightarrow> int \<Rightarrow>
    CipInstanceNum \<Rightarrow> CipUint \<Rightarrow> (CipClassObject \<Rightarrow> CipClassObject run) option \<Rightarrow>
    'e cip_state_scheme \<Rightarrow> 'e cip_state_scheme run" where
  "CreateCipClass code number_of_class_attributes highest_class_attribute number_of_class_services
      number_of_instance_attributes highest_instance_attribute number_of_instance_services
      k class_revision initializer st = do {
     c_assert (GetCipClass code st = None);
     let c = zero_class\<lparr>class_code := code, revision := class_revision,
       number_of_attributes := of_int number_of_instance_attributes,
       highest_attribute_number := ucast highest_instance_attribute,
       number_of_services := of_int number_of_instance_services\<rparr>;
     let mc = zero_class\<lparr>class_code := 0xFFFFFFFF, number_of_instances := 1,
       number_of_attributes := of_int (number_of_class_attributes + 7),
       highest_attribute_number := ucast highest_class_attribute,
       number_of_services := of_int number_of_class_services\<rparr>;
     let mc = mc\<lparr>services := replicate (unat (number_of_services mc)) zero_service\<rparr>;
     let c = c\<lparr>services := replicate (unat (number_of_services c)) zero_service\<rparr>;
     let ob = \<lparr>cip_class = c, meta_class = mc,
       class_attributes = replicate (unat (number_of_attributes mc)) zero_attribute, instances = []\<rparr>;
     (_, ob) \<leftarrow> (if k > 0 then AddCipInstances k ob else Some (None, ob));
     let ob = ob\<lparr>meta_class := AllocateAttributeMasks (meta_class ob),
       cip_class := AllocateAttributeMasks (cip_class ob)\<rparr>;
     ob \<leftarrow> (case initializer of
              None \<Rightarrow> default_class_attributes number_of_class_services ob
            | Some f \<Rightarrow> f ob);
     let (_, st) = RegisterCipClass ob st;
     Some st }"

subsection \<open>Reading and writing attribute data\<close>

definition read_ref :: "data_ref \<Rightarrow> 'e cip_state_scheme \<Rightarrow> cip_value run" where
  "read_ref ref st = (case ref of
       DRevision cc \<Rightarrow> do { ob \<leftarrow> GetCipClass cc st; Some (V16 (revision (cip_class ob))) }
     | DMaxInstance cc \<Rightarrow> do { ob \<leftarrow> GetCipClass cc st; Some (V16 (max_instance (cip_class ob))) }
     | DNumberOfInstances cc \<Rightarrow> do { ob \<leftarrow> GetCipClass cc st; Some (V16 (number_of_instances (cip_class ob))) }
     | DHighestAttribute cc \<Rightarrow> do { ob \<leftarrow> GetCipClass cc st; Some (V16 (highest_attribute_number (cip_class ob))) }
     | DMetaHighestAttribute cc \<Rightarrow> do { ob \<leftarrow> GetCipClass cc st; Some (V16 (highest_attribute_number (meta_class ob))) }
     | DUintZero \<Rightarrow> Some (V16 0)
     | DVar i \<Rightarrow> data_store st i)"

text \<open>A store through a decoder; the constant \<^verbatim>\<open>kCipUintZero\<close> is not writable.\<close>

definition write_ref :: "data_ref \<Rightarrow> cip_value \<Rightarrow> 'e cip_state_scheme \<Rightarrow> 'e cip_state_scheme run" where
  "write_ref ref v st = (case ref of
       DRevision cc \<Rightarrow> do { x \<leftarrow> get16 v; update_class cc (\<lambda>ob. Some (ob\<lparr>cip_class := (cip_class ob)\<lparr>revision := x\<rparr>\<rparr>)) st }
     | DMaxInstance cc \<Rightarrow> do { x \<leftarrow> get16 v; update_class cc (\<lambda>ob. Some (ob\<lparr>cip_class := (cip_class ob)\<lparr>max_instance := x\<rparr>\<rparr>)) st }
     | DNumberOfInstances cc \<Rightarrow> do { x \<leftarrow> get16 v; update_class cc (\<lambda>ob. Some (ob\<lparr>cip_class := (cip_class ob)\<lparr>number_of_instances := x\<rparr>\<rparr>)) st }
     | DHighestAttribute cc \<Rightarrow> do { x \<leftarrow> get16 v; update_class cc (\<lambda>ob. Some (ob\<lparr>cip_class := (cip_class ob)\<lparr>highest_attribute_number := x\<rparr>\<rparr>)) st }
     | DMetaHighestAttribute cc \<Rightarrow> do { x \<leftarrow> get16 v; update_class cc (\<lambda>ob. Some (ob\<lparr>meta_class := (meta_class ob)\<lparr>highest_attribute_number := x\<rparr>\<rparr>)) st }
     | DUintZero \<Rightarrow> None
     | DVar i \<Rightarrow> Some (st\<lparr>data_store := (data_store st)(i \<mapsto> v)\<rparr>))"

subsection \<open>The environment of installed functions\<close>

record 's cip_env =
  env_encode :: encode_env
  env_decode :: decode_env
  env_get_set :: "nat \<Rightarrow> instance_ref \<Rightarrow> CipUint \<Rightarrow> CipUsint \<Rightarrow> 's \<Rightarrow> 's run"
  env_callback :: "nat \<Rightarrow> instance_ref \<Rightarrow> CipMessageRouterRequest \<Rightarrow> CipMessageRouterResponse \<Rightarrow> 's \<Rightarrow>
    (EipStatus \<times> CipMessageRouterResponse \<times> 's) run"
  env_service :: "nat \<Rightarrow> instance_ref \<Rightarrow> CipMessageRouterRequest \<Rightarrow> CipMessageRouterResponse \<Rightarrow>
    CipSessionHandle \<Rightarrow> 's \<Rightarrow> (EipStatus \<times> CipMessageRouterRequest \<times> CipMessageRouterResponse \<times> 's) run"

definition call_get_set :: "'s cip_env \<Rightarrow> bool \<Rightarrow> nat option \<Rightarrow> instance_ref \<Rightarrow> CipUint \<Rightarrow> CipUsint \<Rightarrow> 's \<Rightarrow> 's run" where
  "call_get_set env enabled cb inst n svc st = (case cb of
       Some f \<Rightarrow> if enabled then env_get_set env f inst n svc st else Some st
     | None \<Rightarrow> Some st)"

definition call_callback :: "'s cip_env \<Rightarrow> nat option \<Rightarrow> instance_ref \<Rightarrow> CipMessageRouterRequest \<Rightarrow>
    CipMessageRouterResponse \<Rightarrow> 's \<Rightarrow> (EipStatus \<times> CipMessageRouterResponse \<times> 's) run" where
  "call_callback env cb inst req resp st = (case cb of
       Some f \<Rightarrow> env_callback env f inst req resp st
     | None \<Rightarrow> Some (kEipStatusOk, resp, st))"

definition class_at :: "instance_ref \<Rightarrow> 'e cip_state_scheme \<Rightarrow> CipClass run" where
  "class_at inst st = do { ob \<leftarrow> GetCipClass (fst inst) st; Some (class_of (snd inst) ob) }"

definition attribute_at :: "instance_ref \<Rightarrow> nat \<Rightarrow> 'e cip_state_scheme \<Rightarrow> CipAttributeStruct run" where
  "attribute_at inst i st = do {
     ob \<leftarrow> GetCipClass (fst inst) st; as \<leftarrow> attributes_of (snd inst) ob; array_get as i }"

definition find_attribute :: "instance_ref \<Rightarrow> CipUint \<Rightarrow> 'e cip_state_scheme \<Rightarrow> nat option run" where
  "find_attribute inst n st = do { ob \<leftarrow> GetCipClass (fst inst) st; GetCipAttribute (snd inst) n ob }"

text \<open>\<^verbatim>\<open>attribute->encode(attribute->data, message)\<close> and \<^verbatim>\<open>attribute->decode(...)\<close>\<close>

definition encode_attribute :: "'s cip_env \<Rightarrow> CipAttributeStruct \<Rightarrow> 'e cip_state_scheme \<Rightarrow> ENIPMessage \<Rightarrow> ENIPMessage run" where
  "encode_attribute env a st m = do {
     e \<leftarrow> attr_encode a; ref \<leftarrow> attr_data a; v \<leftarrow> read_ref ref st;
     call_encode (env_encode env) e v m }"

definition decode_attribute :: "'s cip_env \<Rightarrow> CipAttributeStruct \<Rightarrow> CipMessageRouterRequest \<Rightarrow>
    CipMessageRouterResponse \<Rightarrow> 'e cip_state_scheme \<Rightarrow>
    (CipMessageRouterRequest \<times> CipMessageRouterResponse \<times> 'e cip_state_scheme) run" where
  "decode_attribute env a req resp st = do {
     d \<leftarrow> attr_decode a; ref \<leftarrow> attr_data a; v \<leftarrow> read_ref ref st;
     (v', req, resp, _) \<leftarrow> call_decode (env_decode env) d v req resp;
     st \<leftarrow> write_ref ref v' st;
     Some (req, resp, st) }"

definition mask_bit :: "CipOctet list \<Rightarrow> CipUint \<Rightarrow> bool run" where
  "mask_bit bits n = do { b \<leftarrow> array_get bits (CalculateIndex n); Some (b AND attribute_bit n \<noteq> 0) }"


subsection \<open>Fresh instance numbers\<close>

lemma free_number_simps:
  "list_ex (\<lambda>i. inst_number i = n) is \<Longrightarrow> free_number is n = free_number is (n + 1)"
  "\<not> list_ex (\<lambda>i. inst_number i = n) is \<Longrightarrow> free_number is n = Some n"
  by (subst free_number.simps; simp)+

abbreviation used_numbers :: "CipInstance list \<Rightarrow> nat set" where
  "used_numbers is \<equiv> (\<lambda>i. unat (inst_number i)) ` set is"

lemma used_iff: "n < 65536 \<Longrightarrow> list_ex (\<lambda>i. inst_number i = of_nat n) is \<longleftrightarrow> n \<in> used_numbers is"
  by (auto simp: list_ex_iff word_unat_eq_iff)

lemma card_used: "card (used_numbers is) \<le> length is"
  by (meson card_image_le card_length finite_set le_trans)

lemma extend_block: "{1..<n} \<subseteq> U \<Longrightarrow> n \<in> U \<Longrightarrow> {1..<Suc n} \<subseteq> U"
  by (auto simp: less_Suc_eq)

lemma all_used_many: "{1..<Suc n} \<subseteq> used_numbers is \<Longrightarrow> n \<le> length is"
  using card_mono [of "used_numbers is" "{1..<Suc n}"] card_used [of "is"] by simp

text \<open>
  The search that starts behind a block of used numbers ends at the first number that is not used,
  as long as fewer than 65535 instances exist.
\<close>

lemma free_number_fresh:
  assumes "length is < 65535" and "1 \<le> n" "n \<le> 65535" and "{1..<n} \<subseteq> used_numbers is"
  shows "\<exists>m. free_number is (of_nat n) = Some (of_nat m) \<and> n \<le> m \<and> m \<le> 65535 \<and>
    m \<notin> used_numbers is \<and> {1..<m} \<subseteq> used_numbers is"
  using assms(2-4)
proof (induction "65535 - n" arbitrary: n)
  case 0
  then have "n = 65535" by simp
  have "n \<notin> used_numbers is"
  proof
    assume "n \<in> used_numbers is"
    from all_used_many [OF extend_block [OF 0(4) this]] assms(1) \<open>n = 65535\<close> show False by simp
  qed
  with 0 \<open>n = 65535\<close> show ?case
    using free_number_simps(2) [of "of_nat n" "is"] used_iff [of n "is"] by (intro exI [of _ n]) auto
next
  case (Suc k)
  show ?case
  proof (cases "n \<in> used_numbers is")
    case True
    have "{1..<Suc n} \<subseteq> used_numbers is"
      by (rule extend_block [OF Suc.prems(3) True])
    moreover have "k = 65535 - Suc n" "Suc n \<le> 65535"
      using Suc.hyps(2) by arith+
    ultimately obtain m where "free_number is (of_nat (Suc n)) = Some (of_nat m)" "Suc n \<le> m" "m \<le> 65535"
      "m \<notin> used_numbers is" "{1..<m} \<subseteq> used_numbers is"
      using Suc.hyps(1) [of "Suc n"] by auto
    moreover have "free_number is (of_nat n) = free_number is (of_nat (Suc n))"
      using free_number_simps(1) [of "of_nat n" "is"] used_iff [of n "is"] True Suc.prems(2)
      by (simp add: add.commute)
    ultimately show ?thesis by (intro exI [of _ m]) auto
  next
    case False
    with Suc.prems show ?thesis
      using free_number_simps(2) [of "of_nat n" "is"] used_iff [of n "is"] by (intro exI [of _ n]) auto
  qed
qed

lemma add_instances_fresh:
  assumes "length (instances ob) + k \<le> 65535" and "1 \<le> n" and "n \<le> 65535 \<or> k = 0"
    and "{1..<n} \<subseteq> used_numbers (instances ob)"
    and "distinct (map inst_number (instances ob))" and "0 \<notin> inst_number ` set (instances ob)"
  shows "\<exists>f ob' new. add_instances k (of_nat n) first_instance ob = Some (f, ob') \<and>
    instances ob' = instances ob @ new \<and> length new = k \<and>
    (\<forall>i \<in> set new. attributes i = replicate (unat (number_of_attributes (cip_class ob))) zero_attribute) \<and>
    distinct (map inst_number (instances ob')) \<and> 0 \<notin> inst_number ` set (instances ob') \<and>
    cip_class ob' = (cip_class ob)\<lparr>number_of_instances := number_of_instances (cip_class ob) + of_nat k\<rparr> \<and>
    meta_class ob' = meta_class ob \<and> class_attributes ob' = class_attributes ob \<and>
    f = (case first_instance of Some x \<Rightarrow> Some x | None \<Rightarrow> if new = [] then None else Some (inst_number (hd new)))"
  using assms
proof (induction k arbitrary: n first_instance ob)
  case 0
  then show ?case by (intro exI [of _ first_instance] exI [of _ ob] exI [of _ "[]"]) (auto split: option.splits)
next
  case (Suc k)
  have "length (instances ob) < 65535" "n \<le> 65535" using Suc.prems by auto
  then obtain m where m: "free_number (instances ob) (of_nat n) = Some (of_nat m)" "n \<le> m" "m \<le> 65535"
      "m \<notin> used_numbers (instances ob)" "{1..<m} \<subseteq> used_numbers (instances ob)"
    using free_number_fresh Suc.prems(2,4) by meson
  define i where "i = new_instance (of_nat m) ob"
  define ob1 where "ob1 = ob\<lparr>instances := instances ob @ [i],
       cip_class := (cip_class ob)\<lparr>number_of_instances := number_of_instances (cip_class ob) + 1\<rparr>\<rparr>"
  have ui: "unat (inst_number i) = m" "inst_number i \<noteq> 0"
    using m Suc.prems(2) by (auto simp: i_def new_instance_def word_unat_eq_iff)
  have u1: "{1..<Suc m} \<subseteq> used_numbers (instances ob1)"
    using m(5) ui by (auto simp: ob1_def less_Suc_eq)
  have d1: "distinct (map inst_number (instances ob1))"
    using Suc.prems(5) m(4) ui by (auto simp: ob1_def)
  have lt: "Suc m \<le> 65535 \<or> k = 0"
  proof (rule ccontr)
    assume "\<not> ?thesis"
    with m(3) have "m = 65535" "0 < k" by auto
    with all_used_many [OF u1] Suc.prems(1) show False by (simp add: ob1_def)
  qed
  obtain f ob' new where step:
    "add_instances k (of_nat (Suc m)) (case first_instance of None \<Rightarrow> Some (of_nat m) | Some f \<Rightarrow> Some f) ob1 = Some (f, ob')"
    "instances ob' = instances ob1 @ new" "length new = k"
    "\<forall>i \<in> set new. attributes i = replicate (unat (number_of_attributes (cip_class ob1))) zero_attribute"
    "distinct (map inst_number (instances ob'))" "0 \<notin> inst_number ` set (instances ob')"
    "cip_class ob' = (cip_class ob1)\<lparr>number_of_instances := number_of_instances (cip_class ob1) + of_nat k\<rparr>"
    "meta_class ob' = meta_class ob1" "class_attributes ob' = class_attributes ob1"
    "f = (case (case first_instance of None \<Rightarrow> Some (of_nat m) | Some f \<Rightarrow> Some f) of Some x \<Rightarrow> Some x | None \<Rightarrow> if new = [] then None else Some (inst_number (hd new)))"
    using Suc.IH [of ob1 "Suc m" "case first_instance of None \<Rightarrow> Some (of_nat m) | Some f \<Rightarrow> Some f"]
      Suc.prems(1,6) u1 d1 lt ui by (auto simp: ob1_def)
  have "add_instances (Suc k) (of_nat n) first_instance ob = Some (f, ob')"
    using step(1) m(1) by (simp add: ob1_def i_def Let_def add.commute)
  then show ?case
    using step by (intro exI [of _ f] exI [of _ ob'] exI [of _ "i # new"])
      (auto simp: ob1_def i_def new_instance_def add.assoc add.commute split: option.splits)
qed


subsection \<open>Well-formed classes\<close>

definition masks_wf :: "CipClass \<Rightarrow> bool" where
  "masks_wf c \<longleftrightarrow> (let n = 1 + CalculateIndex (highest_attribute_number c) in
     length (get_single_bit_mask c) = n \<and> length (set_bit_mask c) = n \<and> length (get_all_bit_mask c) = n)"

definition class_wf :: "CipClass \<Rightarrow> bool" where
  "class_wf c \<longleftrightarrow> masks_wf c \<and> length (services c) = unat (number_of_services c)"

definition attributes_wf :: "CipClass \<Rightarrow> CipAttributeStruct list \<Rightarrow> bool" where
  "attributes_wf c as \<longleftrightarrow> length as = unat (number_of_attributes c) \<and>
     (\<forall>a \<in> set as. attr_number a \<le> highest_attribute_number c)"

text \<open>
  The invariant of a registered class: arrays as long as the class says, every attribute number
  within the masks, instance numbers unique and not 0, and the two instance counters exact.
\<close>

definition object_wf :: "CipClassObject \<Rightarrow> bool" where
  "object_wf ob \<longleftrightarrow> class_wf (cip_class ob) \<and> class_wf (meta_class ob) \<and>
     attributes_wf (meta_class ob) (class_attributes ob) \<and>
     (\<forall>i \<in> set (instances ob). attributes_wf (cip_class ob) (attributes i)) \<and>
     distinct (map inst_number (instances ob)) \<and> 0 \<notin> inst_number ` set (instances ob) \<and>
     number_of_instances (cip_class ob) = of_nat (length (instances ob)) \<and>
     max_instance (cip_class ob) = GetMaxInstanceNumber ob"

lemma zero_attribute_simps [simp]: "attr_number zero_attribute = 0" "attr_data zero_attribute = None"
  by (simp_all add: zero_attribute_def)

lemma attributes_wf_replicate: "attributes_wf c (replicate (unat (number_of_attributes c)) zero_attribute)"
  by (auto simp: attributes_wf_def)

lemma class_wf_cong:
  "class_wf (c\<lparr>number_of_instances := x\<rparr>) = class_wf c" "class_wf (c\<lparr>max_instance := x\<rparr>) = class_wf c"
  "attributes_wf (c\<lparr>number_of_instances := x\<rparr>) as = attributes_wf c as"
  "attributes_wf (c\<lparr>max_instance := x\<rparr>) as = attributes_wf c as"
  by (simp_all add: class_wf_def masks_wf_def attributes_wf_def)

lemma set_max_instance_simps [simp]:
  "instances (set_max_instance ob) = instances ob" "meta_class (set_max_instance ob) = meta_class ob"
  "class_attributes (set_max_instance ob) = class_attributes ob"
  "cip_class (set_max_instance ob) = (cip_class ob)\<lparr>max_instance := GetMaxInstanceNumber ob\<rparr>"
  by (simp_all add: set_max_instance_def)

lemma GetMaxInstanceNumber_instances: "instances a = instances b \<Longrightarrow> GetMaxInstanceNumber a = GetMaxInstanceNumber b"
  by (simp add: GetMaxInstanceNumber_def)

lemma fold_max_word:
  "fold (\<lambda>i m. if inst_number i > m then inst_number i else m) is m = fold max (map inst_number is) m"
proof (induction "is" arbitrary: m)
  case (Cons i "is")
  have "(if inst_number i > m then inst_number i else m) = max (inst_number i) m"
    by (auto simp: max_def)
  with Cons show ?case by simp
qed simp

lemma GetMaxInstanceNumber_eq: "GetMaxInstanceNumber ob = Max (insert 0 (inst_number ` set (instances ob)))"
  using Max.set_eq_fold [of 0 "map inst_number (instances ob)"]
  by (simp add: GetMaxInstanceNumber_def fold_max_word)

text \<open>C25: \<^verbatim>\<open>AddCipInstances\<close> ends and returns for every request that leaves at most 65535
  instances: it appends the requested number of instances with blank attribute arrays, gives them
  unused non-zero numbers, keeps the class invariant, and returns the first of them.\<close>

theorem AddCipInstances_correct:
  assumes "object_wf ob" and "length (instances ob) + unat k \<le> 65535"
  shows "\<exists>ob' new. AddCipInstances k ob = Some (if k = 0 then None else Some (inst_number (hd new)), ob') \<and>
    instances ob' = instances ob @ new \<and> length new = unat k \<and> object_wf ob' \<and>
    inst_number ` set new \<inter> inst_number ` set (instances ob) = {} \<and>
    max_instance (cip_class ob') = Max (insert 0 (inst_number ` set (instances ob')))"
proof -
  obtain f ob1 new where a: "add_instances (unat k) (of_nat 1) None ob = Some (f, ob1)"
    "instances ob1 = instances ob @ new" "length new = unat k"
    "\<forall>i \<in> set new. attributes i = replicate (unat (number_of_attributes (cip_class ob))) zero_attribute"
    "distinct (map inst_number (instances ob1))" "0 \<notin> inst_number ` set (instances ob1)"
    "cip_class ob1 = (cip_class ob)\<lparr>number_of_instances := number_of_instances (cip_class ob) + of_nat (unat k)\<rparr>"
    "meta_class ob1 = meta_class ob" "class_attributes ob1 = class_attributes ob"
    "f = (if new = [] then None else Some (inst_number (hd new)))"
    using add_instances_fresh [of ob "unat k" 1 None] assms by (auto simp: object_wf_def)
  have "object_wf (set_max_instance ob1)"
    using assms(1) a(2-9) attributes_wf_replicate [of "cip_class ob"]
    by (auto simp: object_wf_def class_wf_cong GetMaxInstanceNumber_def)
  moreover have "f = (if k = 0 then None else Some (inst_number (hd new)))"
    using a(3,10) by (auto simp: unat_eq_zero)
  moreover have "inst_number ` set new \<inter> inst_number ` set (instances ob) = {}"
    using a(2,5) by auto
  ultimately show ?thesis
    using a by (intro exI [of _ "set_max_instance ob1"] exI [of _ new])
      (auto simp: AddCipInstances_def GetMaxInstanceNumber_eq)
qed

text \<open>A concrete class for the witnesses: one instance attribute slot, no instances yet.\<close>

definition example_class :: CipClassObject where
  "example_class = \<lparr>cip_class = AllocateAttributeMasks (zero_class\<lparr>class_code := 0x70, revision := 1,
       number_of_attributes := 2, highest_attribute_number := 3\<rparr>),
     meta_class = AllocateAttributeMasks (zero_class\<lparr>class_code := 0xFFFFFFFF, number_of_instances := 1\<rparr>),
     class_attributes = [], instances = []\<rparr>"

lemmas example_class_simps =
  example_class_def zero_class_def AllocateAttributeMasks_def CalculateIndex_def Let_def

lemma example_class_wf: "object_wf example_class"
  by (simp add: object_wf_def class_wf_def masks_wf_def attributes_wf_def GetMaxInstanceNumber_def
      example_class_simps)

theorem AddCipInstances_correct_witness:
  "\<exists>f ob'. AddCipInstances 2 example_class = Some (Some f, ob') \<and>
    length (instances ob') = 2 \<and> object_wf ob'"
proof -
  have "instances example_class = []" by (simp add: example_class_def)
  then show ?thesis
    using AddCipInstances_correct [OF example_class_wf, of 2] by auto
qed

text \<open>Storing through an instance pointer.\<close>

lemma find_instance_SomeD: "find_instance n is = Some i \<Longrightarrow> i \<in> set is \<and> inst_number i = n"
  by (auto simp: find_instance_def find_Some_iff)

lemma set_attributes_simps [simp]:
  "cip_class (set_attributes n as ob) = cip_class ob" "meta_class (set_attributes n as ob) = meta_class ob"
  "map inst_number (instances (set_attributes n as ob)) = map inst_number (instances ob)"
  "length (instances (set_attributes n as ob)) = length (instances ob)"
  by (simp_all add: set_attributes_def map_update_first)

lemma find_instance_update:
  "find_instance n is = Some i \<Longrightarrow>
     find_instance n (update_first (\<lambda>i. inst_number i = n) (\<lambda>i. i\<lparr>attributes := as\<rparr>) is) = Some (i\<lparr>attributes := as\<rparr>)"
  using find_instance_SomeD [of n "is" i] by (simp add: find_instance_def find_update_first)

lemma attributes_of_set_attributes:
  "attributes_of n ob = Some old \<Longrightarrow> attributes_of n (set_attributes n as ob) = Some as"
  by (auto simp: attributes_of_def set_attributes_def find_instance_update split: if_splits)

lemma set_update_first: "x \<in> set (update_first P f xs) \<Longrightarrow> x \<in> set xs \<or> (\<exists>y \<in> set xs. x = f y)"
  by (induction xs) (auto split: if_splits)

lemma set_class_of_simps [simp]:
  "instances (set_class_of n c ob) = instances ob" "class_attributes (set_class_of n c ob) = class_attributes ob"
  "class_of n (set_class_of n c ob) = c" "attributes_of k (set_class_of n c ob) = attributes_of k ob"
  by (simp_all add: set_class_of_def class_of_def attributes_of_def)

lemma object_wf_class_of: "object_wf ob \<Longrightarrow> class_wf (class_of n ob)"
  by (simp add: object_wf_def class_of_def)

lemma object_wf_attributes_of: "object_wf ob \<Longrightarrow> attributes_of n ob = Some as \<Longrightarrow> attributes_wf (class_of n ob) as"
  by (auto simp: object_wf_def class_of_def attributes_of_def dest!: find_instance_SomeD split: if_splits)

subsection \<open>Inserting an attribute\<close>

lemma CalculateIndex_mono: "n \<le> h \<Longrightarrow> CalculateIndex n \<le> CalculateIndex h"
  by (simp add: CalculateIndex_def word_le_nat_alt div_le_mono)

lemma or_mask_SomeD:
  "or_mask cond n bits = Some bits' \<Longrightarrow> length bits' = length bits \<and> CalculateIndex n < length bits \<and>
     bits' = bits[CalculateIndex n := bits ! CalculateIndex n OR (if cond then attribute_bit n else 0)]"
  by (auto simp: or_mask_def bind_eq_Some_conv dest!: array_get_SomeD array_set_SomeD)

lemma bit_attribute_bit: "bit (attribute_bit n) k \<longleftrightarrow> k = unat n mod 8"
  by (auto simp: attribute_bit_def bit_simps bit_1_iff)

lemma and_attribute_bit: "b AND attribute_bit n \<noteq> 0 \<longleftrightarrow> bit b (unat n mod 8)"
proof -
  have "b AND attribute_bit n = (if bit b (unat n mod 8) then attribute_bit n else 0)"
    by (rule bit_word_eqI) (auto simp: bit_simps bit_attribute_bit)
  moreover have "attribute_bit n \<noteq> 0"
    using bit_attribute_bit [of n "unat n mod 8"] by auto
  ultimately show ?thesis by simp
qed

text \<open>Setting the bit of one attribute number leaves every other number's bit as it was.\<close>

lemma mask_bit_or_mask:
  assumes "or_mask cond n bits = Some bits'"
  shows "mask_bit bits' k = (if k = n then Some (bit (bits ! CalculateIndex n) (unat n mod 8) \<or> cond) else mask_bit bits k)"
proof (cases "CalculateIndex k = CalculateIndex n")
  case True
  have "k = n \<longleftrightarrow> unat k mod 8 = unat n mod 8"
    using True unfolding CalculateIndex_def word_unat_eq_iff by (metis div_mult_mod_eq)
  with True or_mask_SomeD [OF assms] show ?thesis
    by (auto simp: mask_bit_def array_get_def and_attribute_bit bit_or_iff bit_attribute_bit)
next
  case False
  with or_mask_SomeD [OF assms] show ?thesis
    by (auto simp: mask_bit_def array_get_def)
qed

lemma or_mask_defined: "CalculateIndex n < length bits \<Longrightarrow> \<exists>bits'. or_mask cond n bits = Some bits'"
  by (simp add: or_mask_def)

lemma InsertAttribute_SomeE:
  assumes "InsertAttribute inst n type enc dec data flags ob = Some ob'"
  obtains as i gs ga ss where "data \<noteq> None" "attributes_of inst ob = Some as"
    "i < length as" "i < unat (number_of_attributes (class_of inst ob))" "attr_data (as ! i) = None"
    "\<forall>j < i. attr_data (as ! j) \<noteq> None"
    "n \<le> highest_attribute_number (class_of inst ob)"
    "or_mask (flags AND kGetableSingle \<noteq> 0) n (get_single_bit_mask (class_of inst ob)) = Some gs"
    "or_mask (flags AND (kGetableAll OR kGetableAllDummy) \<noteq> 0) n (get_all_bit_mask (class_of inst ob)) = Some ga"
    "or_mask (flags AND kSetable \<noteq> 0) n (set_bit_mask (class_of inst ob)) = Some ss"
    "ob' = set_class_of inst ((class_of inst ob)\<lparr>get_single_bit_mask := gs, get_all_bit_mask := ga,
       set_bit_mask := ss\<rparr>) (set_attributes inst (as[i := \<lparr>attr_number = n, attr_type = type, attr_encode = enc,
            attr_decode = dec, attribute_flags = flags, attr_data = data\<rparr>]) ob)"
  using assms
  by (auto simp: InsertAttribute_def bind_eq_Some_conv Let_def split: option.splits
      dest!: scan_SomeD array_set_SomeD)

lemma InsertAttribute_defined:
  assumes "object_wf ob" and "attributes_of inst ob = Some as" and "a \<in> set as" "attr_data a = None"
    and "n \<le> highest_attribute_number (class_of inst ob)"
  shows "\<exists>ob'. InsertAttribute inst n type enc dec (Some d) flags ob = Some ob'"
proof -
  let ?c = "class_of inst ob"
  have len: "length as = unat (number_of_attributes ?c)"
    using object_wf_attributes_of [OF assms(1,2)] by (simp add: attributes_wf_def)
  obtain i where i: "first_index (\<lambda>a. attr_data a = None) as = Some i"
    using first_index_exists [of a as "\<lambda>a. attr_data a = None"] assms(3,4) by auto
  have m: "masks_wf ?c"
    using object_wf_class_of [OF assms(1)] by (simp add: class_wf_def)
  then have "CalculateIndex n < length (get_single_bit_mask ?c)"
    "CalculateIndex n < length (get_all_bit_mask ?c)" "CalculateIndex n < length (set_bit_mask ?c)"
    using CalculateIndex_mono [OF assms(5)] by (simp_all add: masks_wf_def Let_def)
  then obtain gs ga ss where
    "or_mask (flags AND kGetableSingle \<noteq> 0) n (get_single_bit_mask ?c) = Some gs"
    "or_mask (flags AND (kGetableAll OR kGetableAllDummy) \<noteq> 0) n (get_all_bit_mask ?c) = Some ga"
    "or_mask (flags AND kSetable \<noteq> 0) n (set_bit_mask ?c) = Some ss"
    using or_mask_defined by metis
  moreover have "i < length as" "as \<noteq> []" "scan (\<lambda>a. attr_data a = None) (unat (number_of_attributes ?c)) as = Some (Some i)"
    using first_index_SomeD [OF i] i scan_whole [of "\<lambda>a. attr_data a = None" as] len by auto
  ultimately show ?thesis
    using assms(2,5) by (simp add: InsertAttribute_def Let_def)
qed

lemma InsertAttribute_wf:
  assumes wf: "object_wf ob" and ins: "InsertAttribute inst n type enc dec data flags ob = Some ob'"
  shows "object_wf ob'"
  using ins
proof (rule InsertAttribute_SomeE)
  fix as i gs ga ss
  let ?c = "class_of inst ob"
  let ?a = "\<lparr>attr_number = n, attr_type = type, attr_encode = enc, attr_decode = dec,
    attribute_flags = flags, attr_data = data\<rparr>"
  let ?c' = "?c\<lparr>get_single_bit_mask := gs, get_all_bit_mask := ga, set_bit_mask := ss\<rparr>"
  assume as: "attributes_of inst ob = Some as" and n: "n \<le> highest_attribute_number ?c"
    and masks: "or_mask (flags AND kGetableSingle \<noteq> 0) n (get_single_bit_mask ?c) = Some gs"
    "or_mask (flags AND (kGetableAll OR kGetableAllDummy) \<noteq> 0) n (get_all_bit_mask ?c) = Some ga"
    "or_mask (flags AND kSetable \<noteq> 0) n (set_bit_mask ?c) = Some ss"
    and ob': "ob' = set_class_of inst ?c' (set_attributes inst (as[i := ?a]) ob)"
  have c': "class_wf ?c'"
    using object_wf_class_of [OF wf, of inst] masks
    by (simp add: class_wf_def masks_wf_def Let_def or_mask_SomeD)
  have new: "attributes_wf ?c' (as[i := ?a])"
    using object_wf_attributes_of [OF wf as] n
    by (auto simp: attributes_wf_def dest!: set_update_subset_insert [THEN subsetD])
  have keep: "attributes_wf ?c' xs" if "attributes_wf ?c xs" for xs
    using that by (simp add: attributes_wf_def)
  show ?thesis
  proof (cases "inst = 0")
    case True
    with wf c' new ob' show ?thesis
      by (simp add: object_wf_def set_class_of_def set_attributes_def GetMaxInstanceNumber_def)
  next
    case False
    then have "\<forall>x \<in> set (instances ob'). attributes_wf ?c' (attributes x)"
      using wf new keep ob' False
      by (auto simp: object_wf_def class_of_def set_attributes_def set_class_of_def dest!: set_update_first)
    moreover have "map inst_number (instances ob') = map inst_number (instances ob)"
      using ob' by simp
    moreover from this have "inst_number ` set (instances ob') = inst_number ` set (instances ob)"
      by (metis set_map)
    moreover from calculation have "GetMaxInstanceNumber ob' = GetMaxInstanceNumber ob" "length (instances ob') = length (instances ob)"
      by (simp_all add: GetMaxInstanceNumber_eq ob')
    ultimately show ?thesis
      using wf c' ob' False by (simp add: object_wf_def set_class_of_def class_of_def set_attributes_def)
  qed
qed

lemma flag_bits:
  fixes b :: CipByte
  shows "b AND 2 \<noteq> 0 \<longleftrightarrow> bit b 1" "b AND 4 \<noteq> 0 \<longleftrightarrow> bit b 2" "b AND (1 OR 8) \<noteq> 0 \<longleftrightarrow> bit b 0 \<or> bit b 3"
proof -
  have k: "b AND 1 \<noteq> 0 \<longleftrightarrow> bit b 0" "b AND 2 \<noteq> 0 \<longleftrightarrow> bit b 1" "b AND 4 \<noteq> 0 \<longleftrightarrow> bit b 2" "b AND 8 \<noteq> 0 \<longleftrightarrow> bit b 3"
    using and_attribute_bit [of b 0] and_attribute_bit [of b 1] and_attribute_bit [of b 2] and_attribute_bit [of b 3]
    by (simp_all add: attribute_bit_def)
  then show "b AND 2 \<noteq> 0 \<longleftrightarrow> bit b 1" "b AND 4 \<noteq> 0 \<longleftrightarrow> bit b 2"
    by simp_all
  have "b AND (1 OR 8) = (b AND 1) OR (b AND 8)"
    by (rule bit.conj_disj_distrib)
  with k show "b AND (1 OR 8) \<noteq> 0 \<longleftrightarrow> bit b 0 \<or> bit b 3"
    by (simp add: or_eq_0_iff del: and_one_eq)
qed

lemma mask_bit_in: "CalculateIndex n < length bits \<Longrightarrow> mask_bit bits n = Some (bit (bits ! CalculateIndex n) (unat n mod 8))"
  by (simp add: mask_bit_def and_attribute_bit)

lemma first_index_update:
  "i < length as \<Longrightarrow> P a \<Longrightarrow> \<forall>x \<in> set as. \<not> P x \<Longrightarrow> first_index P (as[i := a]) = Some i"
  by (induction as arbitrary: i) (auto split: nat.splits)

text \<open>C28: inserting an attribute whose number is not in use and not above the highest number of the
  class, where a slot is free, succeeds and keeps the class invariant. The attribute fills the first
  slot without data, all other slots stay as they are, and it is the one that is then found under its
  number; the call sets its bits in the get-single, get-all and set masks exactly as its flags say, without
  touching the bits of any other attribute number.\<close>

theorem InsertAttribute_correct:
  assumes "object_wf ob" and "attributes_of inst ob = Some as" and "a \<in> set as" "attr_data a = None"
    and "n \<le> highest_attribute_number (class_of inst ob)" and "n \<notin> attr_number ` set as"
  shows "\<exists>ob' as' i gs ss ga. InsertAttribute inst n type enc dec (Some d) flags ob = Some ob' \<and> object_wf ob' \<and>
    attributes_of inst ob' = Some as' \<and> GetCipAttribute inst n ob' = Some (Some i) \<and>
    i < length as \<and> attr_data (as ! i) = None \<and> (\<forall>j < i. attr_data (as ! j) \<noteq> None) \<and>
    as' = as[i := \<lparr>attr_number = n, attr_type = type, attr_encode = enc, attr_decode = dec,
      attribute_flags = flags, attr_data = Some d\<rparr>] \<and>
    (let c = class_of inst ob; c' = class_of inst ob' in
      (\<forall>k. mask_bit (get_single_bit_mask c') k =
         (if k = n then Some (gs \<or> bit flags 1) else mask_bit (get_single_bit_mask c) k)) \<and>
      (\<forall>k. mask_bit (set_bit_mask c') k =
         (if k = n then Some (ss \<or> bit flags 2) else mask_bit (set_bit_mask c) k)) \<and>
      (\<forall>k. mask_bit (get_all_bit_mask c') k =
         (if k = n then Some (ga \<or> bit flags 0 \<or> bit flags 3) else mask_bit (get_all_bit_mask c) k)) \<and>
      mask_bit (get_single_bit_mask c) n = Some gs \<and> mask_bit (set_bit_mask c) n = Some ss \<and>
      mask_bit (get_all_bit_mask c) n = Some ga)"
proof -
  let ?new = "\<lparr>attr_number = n, attr_type = type, attr_encode = enc, attr_decode = dec,
      attribute_flags = flags, attr_data = Some d\<rparr>"
  obtain ob' where ins: "InsertAttribute inst n type enc dec (Some d) flags ob = Some ob'"
    using InsertAttribute_defined [OF assms(1-5)] by blast
  then obtain i gs ga ss where
    i: "i < length as" and free: "attr_data (as ! i) = None" "\<forall>j < i. attr_data (as ! j) \<noteq> None" and
    masks: "or_mask (flags AND kGetableSingle \<noteq> 0) n (get_single_bit_mask (class_of inst ob)) = Some gs"
    "or_mask (flags AND (kGetableAll OR kGetableAllDummy) \<noteq> 0) n (get_all_bit_mask (class_of inst ob)) = Some ga"
    "or_mask (flags AND kSetable \<noteq> 0) n (set_bit_mask (class_of inst ob)) = Some ss" and
    ob': "ob' = set_class_of inst ((class_of inst ob)\<lparr>get_single_bit_mask := gs, get_all_bit_mask := ga,
       set_bit_mask := ss\<rparr>) (set_attributes inst (as[i := ?new]) ob)"
    using assms(2) by (elim InsertAttribute_SomeE) auto
  have as': "attributes_of inst ob' = Some (as[i := ?new])"
    using attributes_of_set_attributes [OF assms(2)] by (simp add: ob')
  have "length (as[i := ?new]) = unat (number_of_attributes (class_of inst ob'))"
    using object_wf_attributes_of [OF assms(1,2)] by (simp add: ob' attributes_wf_def)
  moreover have "first_index (\<lambda>a. n = attr_number a) (as[i := ?new]) = Some i"
    using assms(6) by (intro first_index_update i) auto
  ultimately have "GetCipAttribute inst n ob' = Some (Some i)"
    using as' scan_whole [of "\<lambda>a. n = attr_number a" "as[i := ?new]"] by (simp add: GetCipAttribute_def)
  moreover have "CalculateIndex n < length (get_single_bit_mask (class_of inst ob))"
    "CalculateIndex n < length (get_all_bit_mask (class_of inst ob))"
    "CalculateIndex n < length (set_bit_mask (class_of inst ob))"
    using masks by (simp_all add: or_mask_SomeD)
  moreover have "get_single_bit_mask (class_of inst ob') = gs" "get_all_bit_mask (class_of inst ob') = ga"
    "set_bit_mask (class_of inst ob') = ss"
    by (simp_all add: ob')
  ultimately show ?thesis
    using ins InsertAttribute_wf [OF assms(1) ins] as' i free
      mask_bit_or_mask [OF masks(1), unfolded flag_bits] mask_bit_or_mask [OF masks(2), unfolded flag_bits]
      mask_bit_or_mask [OF masks(3), unfolded flag_bits]
    by (intro exI [of _ ob'] exI [of _ "as[i := ?new]"] exI [of _ i]
          exI [of _ "bit (get_single_bit_mask (class_of inst ob) ! CalculateIndex n) (unat n mod 8)"]
          exI [of _ "bit (set_bit_mask (class_of inst ob) ! CalculateIndex n) (unat n mod 8)"]
          exI [of _ "bit (get_all_bit_mask (class_of inst ob) ! CalculateIndex n) (unat n mod 8)"])
      (simp add: Let_def mask_bit_in)
qed

theorem InsertAttribute_correct_witness:
  "\<exists>ob ob' i. AddCipInstances 1 example_class = Some (Some 1, ob) \<and>
     InsertAttribute 1 3 kCipUint (Some EncCipUint) (Some DecCipUint) (Some (DVar 0)) kSetAndGetAble ob = Some ob' \<and>
     object_wf ob' \<and> GetCipAttribute 1 3 ob' = Some (Some i)"
proof -
  define ob where "ob = snd (the (AddCipInstances 1 example_class))"
  have ob: "AddCipInstances 1 example_class = Some (Some 1, ob)"
    and as: "attributes_of 1 ob = Some (replicate 2 zero_attribute)"
    and h: "highest_attribute_number (class_of 1 ob) = 3"
    and wf: "object_wf ob"
    by (simp_all add: ob_def AddCipInstances_def free_number.simps new_instance_def example_class_simps
        attributes_of_def find_instance_def class_of_def set_max_instance_def object_wf_def class_wf_def
        masks_wf_def attributes_wf_def GetMaxInstanceNumber_def)
  then show ?thesis
    using InsertAttribute_correct [of ob 1 _ zero_attribute 3 kCipUint "Some EncCipUint" "Some DecCipUint" "DVar 0" kSetAndGetAble]
    by fastforce
qed

end
