(* ===== verification/CipServices.thy ===== *)
theory CipServices
  imports CipObject
begin

text \<open>
  The common services of \<^verbatim>\<open>cip/cipcommon.c\<close> and the dispatch of a request to an instance
  (\<^verbatim>\<open>NotifyClass\<close>). A service returns its status, the request and the response it was given by
  reference, and the new state.
\<close>

type_synonym 's service_result =
  "(EipStatus \<times> CipMessageRouterRequest \<times> CipMessageRouterResponse \<times> 's) run"

subsection \<open>Get and set of one attribute\<close>

definition GenerateGetAttributeSingleHeader ::
    "CipMessageRouterRequest \<Rightarrow> CipMessageRouterResponse \<Rightarrow> CipMessageRouterResponse" where
  "GenerateGetAttributeSingleHeader req resp =
     resp\<lparr>message := InitializeENIPMessage (message resp), reply_service := reply_code (req_service req),
       general_status := kCipErrorAttributeNotSupported, size_of_additional_status := 0\<rparr>"

definition GetAttributeSingle :: "'e cip_state_scheme cip_env \<Rightarrow> instance_ref \<Rightarrow> CipMessageRouterRequest \<Rightarrow>
    CipMessageRouterResponse \<Rightarrow> 'e cip_state_scheme \<Rightarrow> 'e cip_state_scheme service_result" where
  "GetAttributeSingle env inst req resp st = do {
     let n = attribute_number (request_path req);
     slot \<leftarrow> find_attribute inst n st;
     let resp = GenerateGetAttributeSingleHeader req resp;
     (case slot of
        None \<Rightarrow> Some (kEipStatusOkSend, req, resp, st)
      | Some i \<Rightarrow> do {
          a \<leftarrow> attribute_at inst i st;
          c \<leftarrow> class_at inst st;
          if attr_data a = None then Some (kEipStatusOkSend, req, resp, st)
          else do {
            gettable \<leftarrow> mask_bit (get_single_bit_mask c) n;
            if gettable then do {
              st \<leftarrow> call_get_set env (attribute_flags a AND kPreGetFunc \<noteq> 0) (PreGetCallback c)
                inst n (req_service req) st;
              a \<leftarrow> attribute_at inst i st;
              m \<leftarrow> encode_attribute env a st (message resp);
              let resp = resp\<lparr>message := m, general_status := kCipErrorSuccess\<rparr>;
              c \<leftarrow> class_at inst st;
              st \<leftarrow> call_get_set env (attribute_flags a AND kPostGetFunc \<noteq> 0) (PostGetCallback c)
                inst n (req_service req) st;
              Some (kEipStatusOkSend, req, resp, st) }
            else Some (kEipStatusOkSend, req, resp, st) } }) }"

definition GenerateSetAttributeSingleHeader ::
    "CipMessageRouterRequest \<Rightarrow> CipMessageRouterResponse \<Rightarrow> CipMessageRouterResponse" where
  "GenerateSetAttributeSingleHeader req resp =
     resp\<lparr>message := InitializeENIPMessage (message resp), reply_service := reply_code (req_service req),
       general_status := kCipErrorAttributeNotSupported, size_of_additional_status := 0\<rparr>"

definition SetAttributeSingle :: "'e cip_state_scheme cip_env \<Rightarrow> instance_ref \<Rightarrow> CipMessageRouterRequest \<Rightarrow>
    CipMessageRouterResponse \<Rightarrow> 'e cip_state_scheme \<Rightarrow> 'e cip_state_scheme service_result" where
  "SetAttributeSingle env inst req resp st = do {
     let n = attribute_number (request_path req);
     slot \<leftarrow> find_attribute inst n st;
     let resp = GenerateSetAttributeSingleHeader req resp;
     (case slot of
        None \<Rightarrow> Some (kEipStatusOkSend, req, resp, st)
      | Some i \<Rightarrow> do {
          a \<leftarrow> attribute_at inst i st;
          c \<leftarrow> class_at inst st;
          if attr_data a = None then Some (kEipStatusOkSend, req, resp, st)
          else if attribute_flags a = kGetableAllDummy \<or> attribute_flags a = kNotSetOrGetable \<or>
            attribute_flags a = kGetableAll then Some (kEipStatusOkSend, req, resp, st)
          else do {
            setable \<leftarrow> mask_bit (set_bit_mask c) n;
            if setable then do {
              st \<leftarrow> call_get_set env (attribute_flags a AND kPreSetFunc \<noteq> 0) (PreSetCallback c)
                inst n (req_service req) st;
              a \<leftarrow> attribute_at inst i st;
              (req, resp, st) \<leftarrow> decode_attribute env a req resp st;
              a \<leftarrow> attribute_at inst i st;
              c \<leftarrow> class_at inst st;
              st \<leftarrow> call_get_set env (attribute_flags a AND (kPostSetFunc OR kNvDataFunc) \<noteq> 0)
                (PostSetCallback c) inst n (req_service req) st;
              Some (kEipStatusOkSend, req, resp, st) }
            else Some (kEipStatusOkSend, req, resp\<lparr>general_status := kCipErrorAttributeNotSetable\<rparr>, st) } }) }"

subsection \<open>Get of all attributes\<close>

text \<open>
  The loop over the attribute numbers; its 16-bit counter never exceeds a highest attribute number
  of 65535, for which the loop does not end.
\<close>

partial_function (option) get_all_from :: "'e cip_state_scheme cip_env \<Rightarrow> instance_ref \<Rightarrow>
    'e cip_state_scheme \<Rightarrow> CipUint \<Rightarrow> CipMessageRouterRequest \<Rightarrow> ENIPMessage \<Rightarrow>
    (CipMessageRouterRequest \<times> ENIPMessage) option" where
  "get_all_from env inst st attr_num req m = do {
     c \<leftarrow> class_at inst st;
     if attr_num \<le> highest_attribute_number c then do {
       flagged \<leftarrow> mask_bit (get_all_bit_mask c) attr_num;
       (req, m) \<leftarrow> (if flagged then do {
           slot \<leftarrow> find_attribute inst attr_num st;
           (case slot of
              None \<Rightarrow> Some (req, m)
            | Some i \<Rightarrow> do {
                a \<leftarrow> attribute_at inst i st;
                if attr_data a = None then Some (req, m)
                else do {
                  m \<leftarrow> encode_attribute env a st m;
                  Some (req\<lparr>request_path := (request_path req)\<lparr>attribute_number := attr_num\<rparr>\<rparr>, m) } }) }
         else Some (req, m));
       get_all_from env inst st (attr_num + 1) req m }
     else Some (req, m) }"

definition GetAttributeAll :: "'e cip_state_scheme cip_env \<Rightarrow> instance_ref \<Rightarrow> CipMessageRouterRequest \<Rightarrow>
    CipMessageRouterResponse \<Rightarrow> 'e cip_state_scheme \<Rightarrow> 'e cip_state_scheme service_result" where
  "GetAttributeAll env inst req resp st = do {
     let resp = resp\<lparr>message := InitializeENIPMessage (message resp)\<rparr>;
     c \<leftarrow> class_at inst st;
     if number_of_attributes c = 0 then
       Some (kEipStatusOkSend, req, resp\<lparr>reply_service := reply_code (req_service req),
         general_status := kCipErrorServiceNotSupported, size_of_additional_status := 0\<rparr>, st)
     else do {
       let resp = (GenerateGetAttributeSingleHeader req resp)\<lparr>general_status := kCipErrorSuccess\<rparr>;
       (req, m) \<leftarrow> get_all_from env inst st 1 req (message resp);
       Some (kEipStatusOkSend, req, resp\<lparr>message := m\<rparr>, st) } }"

subsection \<open>Attribute lists\<close>

text \<open>
  The leading octets of an object in memory, as far as \<^verbatim>\<open>GetCipDataTypeLength\<close> looks at them when
  it is handed an attribute's data pointer. Structures are zero-padded.
\<close>

fun object_octets :: "cip_value \<Rightarrow> CipOctet list" where
  "object_octets (V8 x) = sint_bytes x"
| "object_octets (V16 x) = int_bytes x"
| "object_octets (V32 x) = dint_bytes x"
| "object_octets (V64 x) = lint_bytes x"
| "object_octets (VString s) = int_bytes (cs_length s)"
| "object_octets (VShortString s) = sint_bytes (css_length s)"
| "object_octets (VByteArray a) = int_bytes (ba_length a)"
| "object_octets (VStringI s) = sint_bytes (number_of_strings s)"
| "object_octets (VEpath e) = [path_size e, 0]"
| "object_octets (VOctets bs) = bs"

definition uint_at :: "CipOctet list \<Rightarrow> CipUint run" where
  "uint_at bs = map_option fst (GetUintFromMessage bs)"

definition attribute_length :: "CipAttributeStruct \<Rightarrow> 'e cip_state_scheme \<Rightarrow> size_t run" where
  "attribute_length a st = (case attr_data a of
       None \<Rightarrow> GetCipDataTypeLength (attr_type a) None None
     | Some ref \<Rightarrow> do {
         v \<leftarrow> read_ref ref st;
         GetCipDataTypeLength (attr_type a) (Some (object_octets v)) (uint_at (object_octets v)) })"

definition list_header ::
    "CipMessageRouterRequest \<Rightarrow> CipMessageRouterResponse \<Rightarrow> CipMessageRouterResponse" where
  "list_header req resp = resp\<lparr>message := InitializeENIPMessage (message resp),
     reply_service := reply_code (req_service req), general_status := kCipErrorSuccess,
     size_of_additional_status := 0\<rparr>"

text \<open>Write the attribute count into the place reserved at the start of the reply.\<close>

definition finish_list :: "CipUint \<Rightarrow> message_pointer \<Rightarrow> ENIPMessage \<Rightarrow> ENIPMessage run" where
  "finish_list count count_position m = do {
     let m = m\<lparr>used_message_length := used_message_length m - 2\<rparr>;
     let saved = current_message_position m;
     m \<leftarrow> AddIntToMessage count (m\<lparr>current_message_position := count_position\<rparr>);
     Some (m\<lparr>current_message_position := saved\<rparr>) }"

definition no_space :: "int \<Rightarrow> ENIPMessage \<Rightarrow> bool" where
  "no_space needed m \<longleftrightarrow>
     needed > int PC_OPENER_ETHERNET_BUFFER_SIZE - int (unat (used_message_length m)) - 33"

definition status_octets :: "CipUsint \<Rightarrow> CipMessageRouterResponse \<Rightarrow> CipMessageRouterResponse run" where
  "status_octets status resp = do {
     resp \<leftarrow> on_message (AddSintToMessage status) resp;
     on_message (AddSintToMessage 0) resp }"

definition needed_space :: "instance_ref \<Rightarrow> nat option \<Rightarrow> 'e cip_state_scheme \<Rightarrow> int run" where
  "needed_space inst slot st = (case slot of
       None \<Rightarrow> Some 2
     | Some i \<Rightarrow> do { a \<leftarrow> attribute_at inst i st; n \<leftarrow> attribute_length a st; Some (int (unat n)) })"

datatype list_outcome = ListDone | ListNoSpace | ListAbort

fun get_list_loop :: "'e cip_state_scheme cip_env \<Rightarrow> instance_ref \<Rightarrow> 'e cip_state_scheme \<Rightarrow> nat \<Rightarrow>
    CipMessageRouterRequest \<Rightarrow> CipMessageRouterResponse \<Rightarrow>
    (list_outcome \<times> CipMessageRouterRequest \<times> CipMessageRouterResponse) run" where
  "get_list_loop env inst st 0 req resp = Some (ListDone, req, resp)"
| "get_list_loop env inst st (Suc j) req resp = do {
     (n, r) \<leftarrow> GetUintFromMessage (req_data req);
     let req = req\<lparr>req_data := r\<rparr>;
     slot \<leftarrow> find_attribute inst n st;
     needed \<leftarrow> needed_space inst slot st;
     if no_space needed (message resp) then Some (ListNoSpace, req, resp)
     else do {
       resp \<leftarrow> on_message (AddIntToMessage n) resp;
       resp \<leftarrow> (case slot of
           Some i \<Rightarrow> do {
             a \<leftarrow> attribute_at inst i st;
             c \<leftarrow> class_at inst st;
             gettable \<leftarrow> mask_bit (get_single_bit_mask c) n;
             if gettable then do {
               resp \<leftarrow> status_octets kCipErrorSuccess resp;
               on_message (encode_attribute env a st) resp }
             else do {
               resp \<leftarrow> status_octets kCipErrorAttributeNotGettable resp;
               Some (resp\<lparr>general_status := kCipErrorAttributeListError\<rparr>) } }
         | None \<Rightarrow> do {
             resp \<leftarrow> status_octets kCipErrorAttributeNotSupported resp;
             Some (resp\<lparr>general_status := kCipErrorAttributeListError\<rparr>) });
       get_list_loop env inst st j req resp } }"

text \<open>What follows either loop: the count is written except on the abort path.\<close>

definition end_list :: "CipUint \<Rightarrow> message_pointer \<Rightarrow> list_outcome \<Rightarrow> CipMessageRouterResponse \<Rightarrow>
    CipMessageRouterResponse run" where
  "end_list count count_position outcome resp = (case outcome of
       ListDone \<Rightarrow> on_message (finish_list count count_position) resp
     | ListNoSpace \<Rightarrow> do {
         resp \<leftarrow> on_message (finish_list count count_position) resp;
         Some (if general_status resp \<noteq> kCipErrorAttributeListError
               then resp\<lparr>general_status := kCipErrorPartialTransfer\<rparr> else resp) }
     | ListAbort \<Rightarrow> Some resp)"

definition GetAttributeList :: "'e cip_state_scheme cip_env \<Rightarrow> instance_ref \<Rightarrow> CipMessageRouterRequest \<Rightarrow>
    CipMessageRouterResponse \<Rightarrow> 'e cip_state_scheme \<Rightarrow> 'e cip_state_scheme service_result" where
  "GetAttributeList env inst req resp st = do {
     let resp = list_header req resp;
     (count, r) \<leftarrow> GetUintFromMessage (req_data req);
     let req = req\<lparr>req_data := r\<rparr>;
     if count \<noteq> 0 then do {
       let count_position = current_message_position (message resp);
       resp \<leftarrow> on_message (MoveMessageNOctets 2) resp;
       (outcome, req, resp) \<leftarrow> get_list_loop env inst st (unat count) req resp;
       resp \<leftarrow> end_list count count_position outcome resp;
       Some (kEipStatusOkSend, req, resp, st) }
     else Some (kEipStatusOkSend, req, resp\<lparr>general_status := kCipErrorAttributeListError\<rparr>, st) }"

fun set_list_loop :: "'e cip_state_scheme cip_env \<Rightarrow> instance_ref \<Rightarrow> nat \<Rightarrow>
    CipMessageRouterRequest \<Rightarrow> CipMessageRouterResponse \<Rightarrow> 'e cip_state_scheme \<Rightarrow>
    (list_outcome \<times> CipMessageRouterRequest \<times> CipMessageRouterResponse \<times> 'e cip_state_scheme) run" where
  "set_list_loop env inst 0 req resp st = Some (ListDone, req, resp, st)"
| "set_list_loop env inst (Suc j) req resp st = do {
     (n, r) \<leftarrow> GetUintFromMessage (req_data req);
     let req = req\<lparr>req_data := r\<rparr>;
     slot \<leftarrow> find_attribute inst n st;
     needed \<leftarrow> needed_space inst slot st;
     if no_space needed (message resp) then Some (ListNoSpace, req, resp, st)
     else do {
       resp \<leftarrow> on_message (AddIntToMessage n) resp;
       (case slot of
           Some i \<Rightarrow> do {
             a \<leftarrow> attribute_at inst i st;
             c \<leftarrow> class_at inst st;
             setable \<leftarrow> mask_bit (set_bit_mask c) n;
             if setable then do {
               resp \<leftarrow> status_octets kCipErrorSuccess resp;
               (req, resp, st) \<leftarrow> decode_attribute env a req resp st;
               set_list_loop env inst j req resp st }
             else do {
               resp \<leftarrow> status_octets kCipErrorAttributeNotSetable resp;
               len \<leftarrow> GetCipDataTypeLength (attr_type a) (Some (req_data req)) (uint_at (req_data req));
               if len \<noteq> 0 then do {
                 (_, r) \<leftarrow> read_bytes (unat len) (req_data req);
                 set_list_loop env inst j (req\<lparr>req_data := r\<rparr>)
                   (resp\<lparr>general_status := kCipErrorAttributeListError\<rparr>) st }
               else Some (ListAbort, req, resp\<lparr>general_status := kCipErrorPartialTransfer\<rparr>, st) } }
         | None \<Rightarrow> do {
             resp \<leftarrow> status_octets kCipErrorAttributeNotSupported resp;
             set_list_loop env inst j req (resp\<lparr>general_status := kCipErrorAttributeListError\<rparr>) st }) } }"

definition SetAttributeList :: "'e cip_state_scheme cip_env \<Rightarrow> instance_ref \<Rightarrow> CipMessageRouterRequest \<Rightarrow>
    CipMessageRouterResponse \<Rightarrow> 'e cip_state_scheme \<Rightarrow> 'e cip_state_scheme service_result" where
  "SetAttributeList env inst req resp st = do {
     let resp = list_header req resp;
     (count, r) \<leftarrow> GetUintFromMessage (req_data req);
     let req = req\<lparr>req_data := r\<rparr>;
     if count \<noteq> 0 then do {
       let count_position = current_message_position (message resp);
       resp \<leftarrow> on_message (MoveMessageNOctets 2) resp;
       (outcome, req, resp, st) \<leftarrow> set_list_loop env inst (unat count) req resp st;
       resp \<leftarrow> end_list count count_position outcome resp;
       Some (kEipStatusOkSend, req, resp, st) }
     else Some (kEipStatusOkSend, req, resp\<lparr>general_status := kCipErrorAttributeListError\<rparr>, st) }"


subsection \<open>Create, delete and reset\<close>

definition plain_header ::
    "CipUsint \<Rightarrow> CipMessageRouterRequest \<Rightarrow> CipMessageRouterResponse \<Rightarrow> CipMessageRouterResponse" where
  "plain_header status req resp = resp\<lparr>message := InitializeENIPMessage (message resp),
     reply_service := reply_code (req_service req), general_status := status,
     size_of_additional_status := 0\<rparr>"

definition CipCreateService :: "'e cip_state_scheme cip_env \<Rightarrow> instance_ref \<Rightarrow> CipMessageRouterRequest \<Rightarrow>
    CipMessageRouterResponse \<Rightarrow> 'e cip_state_scheme \<Rightarrow> 'e cip_state_scheme service_result" where
  "CipCreateService env inst req resp st = do {
     let resp = plain_header kCipErrorSuccess req resp;
     let code = ucast (class_id (request_path req));
     ob \<leftarrow> GetCipClass code st;
     (internal_state, resp, st) \<leftarrow> call_callback env (PreCreateCallback (cip_class ob)) inst req resp st;
     if internal_state = kEipStatusOk then do {
       ob \<leftarrow> GetCipClass code st;
       (new, ob') \<leftarrow> AddCipInstances 1 ob;
       st \<leftarrow> update_class code (\<lambda>_. Some ob') st;
       n \<leftarrow> new;
       (_, resp, st) \<leftarrow> call_callback env (PostCreateCallback (cip_class ob')) (code, n) req resp st;
       Some (kEipStatusOkSend, req, resp, st) }
     else Some (kEipStatusOkSend, req, resp, st) }"

text \<open>Unlinking the first instance with a given number; the empty list is a null dereference.\<close>

fun remove_instance :: "CipInstanceNum \<Rightarrow> CipInstance list \<Rightarrow> CipInstance list" where
  "remove_instance n [] = []"
| "remove_instance n (i # is) = (if inst_number i = n then is else i # remove_instance n is)"

text \<open>
  Deleting the class object (number 0) frees memory the registry still points to and is a fault.
  The instance passed to the callback after the unlinking is no longer in the list.
\<close>

definition CipDeleteService :: "'e cip_state_scheme cip_env \<Rightarrow> instance_ref \<Rightarrow> CipMessageRouterRequest \<Rightarrow>
    CipMessageRouterResponse \<Rightarrow> 'e cip_state_scheme \<Rightarrow> 'e cip_state_scheme service_result" where
  "CipDeleteService env inst req resp st = do {
     let resp = plain_header kCipErrorInstanceNotDeletable req resp;
     let (code, n) = inst;
     c_assert (n \<noteq> 0);
     ob \<leftarrow> GetCipClass code st;
     (internal_state, resp, st) \<leftarrow> call_callback env (PreDeleteCallback (cip_class ob)) inst req resp st;
     if internal_state = kEipStatusOk then do {
       ob \<leftarrow> GetCipClass code st;
       c_assert (instances ob \<noteq> []);
       st \<leftarrow> update_class code (\<lambda>ob. Some (ob\<lparr>instances := remove_instance n (instances ob)\<rparr>)) st;
       (_, resp, st) \<leftarrow> call_callback env (PostDeleteCallback (cip_class ob)) inst req resp st;
       st \<leftarrow> update_class code (\<lambda>ob. Some (set_max_instance (ob\<lparr>cip_class :=
         (cip_class ob)\<lparr>number_of_instances := number_of_instances (cip_class ob) - 1\<rparr>\<rparr>))) st;
       Some (kEipStatusOk, req, resp\<lparr>general_status := kCipErrorSuccess\<rparr>, st) }
     else Some (kEipStatusOk, req, resp, st) }"

definition CipResetService :: "'e cip_state_scheme cip_env \<Rightarrow> instance_ref \<Rightarrow> CipMessageRouterRequest \<Rightarrow>
    CipMessageRouterResponse \<Rightarrow> 'e cip_state_scheme \<Rightarrow> 'e cip_state_scheme service_result" where
  "CipResetService env inst req resp st = do {
     let resp = plain_header kCipErrorSuccess req resp;
     c \<leftarrow> class_at inst st;
     (internal_state, resp, st) \<leftarrow> call_callback env (PreResetCallback c) inst req resp st;
     if internal_state \<noteq> kEipStatusError then do {
       c \<leftarrow> class_at inst st;
       (_, resp, st) \<leftarrow> call_callback env (PostResetCallback c) inst req resp st;
       Some (internal_state, req, resp, st) }
     else Some (internal_state, req, resp, st) }"

subsection \<open>Dispatch\<close>

fun call_service :: "'e cip_state_scheme cip_env \<Rightarrow> service_function \<Rightarrow> instance_ref \<Rightarrow>
    CipMessageRouterRequest \<Rightarrow> CipMessageRouterResponse \<Rightarrow> CipSessionHandle \<Rightarrow>
    'e cip_state_scheme \<Rightarrow> 'e cip_state_scheme service_result" where
  "call_service env SvcGetAttributeSingle inst req resp session st = GetAttributeSingle env inst req resp st"
| "call_service env SvcGetAttributeAll inst req resp session st = GetAttributeAll env inst req resp st"
| "call_service env SvcSetAttributeSingle inst req resp session st = SetAttributeSingle env inst req resp st"
| "call_service env SvcGetAttributeList inst req resp session st = GetAttributeList env inst req resp st"
| "call_service env SvcSetAttributeList inst req resp session st = SetAttributeList env inst req resp st"
| "call_service env SvcCreate inst req resp session st = CipCreateService env inst req resp st"
| "call_service env SvcDelete inst req resp session st = CipDeleteService env inst req resp st"
| "call_service env SvcReset inst req resp session st = CipResetService env inst req resp st"
| "call_service env (SvcOther i) inst req resp session st = env_service env i inst req resp session st"

definition NotifyClass :: "'e cip_state_scheme cip_env \<Rightarrow> CipClassObject \<Rightarrow> CipMessageRouterRequest \<Rightarrow>
    CipMessageRouterResponse \<Rightarrow> CipSessionHandle \<Rightarrow> 'e cip_state_scheme \<Rightarrow>
    'e cip_state_scheme service_result" where
  "NotifyClass env ob req resp session st = (
     case GetCipInstance ob (instance_number (request_path req)) of
       Some n \<Rightarrow> do {
         let c = class_of n ob;
         slot \<leftarrow> scan (\<lambda>s. req_service req = service_number s) (unat (number_of_services c)) (services c);
         (case slot of
            Some i \<Rightarrow> do {
              s \<leftarrow> array_get (services c) i;
              f \<leftarrow> service_fn s;
              call_service env f (class_code (cip_class ob), n) req resp session st }
          | None \<Rightarrow> Some (kEipStatusOkSend, req, plain_header kCipErrorServiceNotSupported req resp, st)) }
     | None \<Rightarrow> Some (kEipStatusOkSend, req, plain_header kCipErrorPathDestinationUnknown req resp, st))"

subsection \<open>Access to one attribute\<close>

text \<open>
  A request for attribute \<open>k\<close> of an instance resolves to the attribute \<open>a\<close> in slot \<open>i\<close> and to the
  class \<open>c\<close> that holds the masks and callbacks.
\<close>

definition resolves :: "instance_ref \<Rightarrow> CipUint \<Rightarrow> 'e cip_state_scheme \<Rightarrow> nat \<Rightarrow> CipAttributeStruct \<Rightarrow> CipClass \<Rightarrow> bool" where
  "resolves inst k st i a c \<longleftrightarrow> find_attribute inst k st = Some (Some i) \<and>
     attribute_at inst i st = Some a \<and> class_at inst st = Some c"

lemma GetCipClass_data_store [frame_simps]:
  "GetCipClass code (st\<lparr>data_store := x\<rparr>) = GetCipClass code st"
  "GetCipClass code (st\<lparr>g_message_router_request := q\<rparr>) = GetCipClass code st"
  by (simp_all add: GetCipClass_def GetRegisteredObject_def)

lemma resolves_data_store [frame_simps]:
  "resolves inst k (st\<lparr>data_store := x\<rparr>) i a c = resolves inst k st i a c"
  by (simp add: resolves_def find_attribute_def attribute_at_def class_at_def frame_simps)

definition quiet_callbacks :: "'s cip_env \<Rightarrow> bool" where
  "quiet_callbacks env \<longleftrightarrow> env_get_set env = (\<lambda>_ _ _ _ st. Some st)"

lemma call_get_set_quiet: "quiet_callbacks env \<Longrightarrow> call_get_set env e cb inst n svc st = Some st"
  by (simp add: call_get_set_def quiet_callbacks_def split: option.splits)

lemma GetAttributeSingle_resolved:
  assumes "resolves inst (attribute_number (request_path req)) st i a c" and "quiet_callbacks env"
    and "attr_data a = Some ref" and "mask_bit (get_single_bit_mask c) (attribute_number (request_path req)) = Some True"
  shows "GetAttributeSingle env inst req resp st = do {
      m \<leftarrow> encode_attribute env a st (InitializeENIPMessage (message resp));
      Some (kEipStatusOkSend, req, (GenerateGetAttributeSingleHeader req resp)\<lparr>message := m, general_status := kCipErrorSuccess\<rparr>, st) }"
  using assms
  by (simp add: GetAttributeSingle_def resolves_def call_get_set_quiet GenerateGetAttributeSingleHeader_def)

lemma SetAttributeSingle_resolved:
  assumes "resolves inst (attribute_number (request_path req)) st i a c" and "quiet_callbacks env"
    and "attr_data a = Some (DVar x)" and "attr_decode a = Some d" and "data_store st x = Some old"
    and "attribute_flags a \<notin> {kGetableAllDummy, kNotSetOrGetable, kGetableAll}"
    and "mask_bit (set_bit_mask c) (attribute_number (request_path req)) = Some True"
    and "call_decode (env_decode env) d old req (GenerateSetAttributeSingleHeader req resp) = Some (v, req', resp', n)"
  shows "SetAttributeSingle env inst req resp st =
    Some (kEipStatusOkSend, req', resp', st\<lparr>data_store := (data_store st)(x \<mapsto> v)\<rparr>)"
proof -
  let ?st = "st\<lparr>data_store := (data_store st)(x \<mapsto> v)\<rparr>"
  have r: "resolves inst (attribute_number (request_path req)) ?st i a c"
    using assms(1) by (simp add: frame_simps)
  have d: "decode_attribute env a req (GenerateSetAttributeSingleHeader req resp) st = Some (req', resp', ?st)"
    using assms by (simp add: decode_attribute_def read_ref_def write_ref_def)
  show ?thesis
    using assms(1-3,6,7) r d
    by (simp add: SetAttributeSingle_def resolves_def call_get_set_quiet)
qed

text \<open>C18: an attribute of an integer or bit-string type of 8, 16 or 32 bits that may be set and
  read, in an application whose callbacks before and after an access change nothing (as those of the
  robot): after a SetAttributeSingle request whose data start with the encoding of a value, which is
  answered with success, a GetAttributeSingle request for the same attribute is answered with success
  and exactly the octets of that encoding. The types of 64 bits, the real types, strings and
  structures are not covered.\<close>

theorem set_then_get_attribute:
  assumes codec: "(e, d) \<in> set (codecs8 @ codecs16 @ codecs32)"
    and attr: "resolves inst k st i a c" "attr_encode a = Some e" "attr_decode a = Some d"
      "attr_data a = Some (DVar x)" "attribute_flags a \<notin> {kGetableAllDummy, kNotSetOrGetable, kGetableAll}"
      "mask_bit (set_bit_mask c) k = Some True" "mask_bit (get_single_bit_mask c) k = Some True"
    and quiet: "quiet_callbacks env"
    and old: "data_store st x = Some old" "call_encode (env_encode env) e old m2 = Some m2'"
    and enc: "call_encode (env_encode env) e v (InitializeENIPMessage m1) = Some m1'"
    and req: "attribute_number (request_path req) = k" "req_data req = sent_octets m1' @ r"
    and req2: "attribute_number (request_path req2) = k"
  shows "\<exists>req' resp' st' resp2'.
    SetAttributeSingle env inst req resp st = Some (kEipStatusOkSend, req', resp', st') \<and>
    general_status resp' = kCipErrorSuccess \<and> req_data req' = r \<and>
    GetAttributeSingle env inst req2 resp2 st' = Some (kEipStatusOkSend, req2, resp2', st') \<and>
    general_status resp2' = kCipErrorSuccess \<and> sent_octets (message resp2') = sent_octets m1'"
proof -
  have rt: ?thesis if w: "exact_attribute_codec (call_encode (env_encode env) e) (call_decode (env_decode env) d) w P" for w P
  proof -
    have v: "P v" "emit (w v) (InitializeENIPMessage m1) = Some m1'"
      using exact_attribute_codec.encode_SomeD [OF w enc] by auto
    have o: "P old"
      using exact_attribute_codec.encode_SomeD [OF w old(2)] by auto
    have sent: "sent_octets m1' = w v"
      using sent_octets_holds [OF holds_octets_emit [OF holds_octets_init v(2)]] by simp
    let ?st = "st\<lparr>data_store := (data_store st)(x \<mapsto> v)\<rparr>"
    let ?resp = "(GenerateSetAttributeSingleHeader req resp)\<lparr>general_status := kCipErrorSuccess\<rparr>"
    have "call_decode (env_decode env) d old req (GenerateSetAttributeSingleHeader req resp) =
        Some (v, req\<lparr>req_data := r\<rparr>, ?resp, int (length (w v)))"
      using attribute_codec.decode_wire [OF exact_attribute_codec.axioms(1) [OF w] v(1) o] req(2) sent by simp
    then have s: "SetAttributeSingle env inst req resp st = Some (kEipStatusOkSend, req\<lparr>req_data := r\<rparr>, ?resp, ?st)"
      using attr quiet old(1) req(1) by (intro SetAttributeSingle_resolved) auto
    have fits: "length (w v) \<le> PC_OPENER_ETHERNET_BUFFER_SIZE"
      using emit_defined_iff [of "InitializeENIPMessage m1" 0 "w v"] v(2) by auto
    obtain m3 where m3: "call_encode (env_encode env) e v (InitializeENIPMessage (message resp2)) = Some m3" "holds_octets m3 (w v)"
      using attribute_codec.encode_total [OF exact_attribute_codec.axioms(1) [OF w] v(1) holds_octets_init] fits by auto
    have "encode_attribute env a ?st (InitializeENIPMessage (message resp2)) = Some m3"
      using attr(2,4) m3(1) by (simp add: encode_attribute_def read_ref_def)
    then have g: "GetAttributeSingle env inst req2 resp2 ?st = Some (kEipStatusOkSend, req2,
        (GenerateGetAttributeSingleHeader req2 resp2)\<lparr>message := m3, general_status := kCipErrorSuccess\<rparr>, ?st)"
      using GetAttributeSingle_resolved [of inst req2 ?st i a c env "DVar x" resp2] attr quiet req2 by (simp add: frame_simps)
    show ?thesis
      using s g sent sent_octets_holds [OF m3(2)]
      by (intro exI [of _ "req\<lparr>req_data := r\<rparr>"] exI [of _ ?resp] exI [of _ ?st]
        exI [of _ "(GenerateGetAttributeSingleHeader req2 resp2)\<lparr>message := m3, general_status := kCipErrorSuccess\<rparr>"]) simp
  qed
  from codec consider "(e, d) \<in> set codecs8" | "(e, d) \<in> set codecs16" | "(e, d) \<in> set codecs32"
    by auto
  then show ?thesis
    by cases (blast intro: rt codec8_laws codec16_laws codec32_laws)+
qed

subsection \<open>A concrete device\<close>

text \<open>One class 0x70 with instance 1, whose attribute 3 is a settable UINT with value 5.\<close>

definition example_attribute :: CipAttributeStruct where
  "example_attribute = \<lparr>attr_number = 3, attr_type = kCipUint, attr_encode = Some EncCipUint,
     attr_decode = Some DecCipUint, attribute_flags = kSetAndGetAble, attr_data = Some (DVar 0)\<rparr>"

definition example_services :: "CipServiceStruct list" where
  "example_services = [\<lparr>service_number = 0x0E, service_fn = Some SvcGetAttributeSingle\<rparr>,
     \<lparr>service_number = 0x10, service_fn = Some SvcSetAttributeSingle\<rparr>,
     \<lparr>service_number = 0x03, service_fn = Some SvcGetAttributeList\<rparr>,
     \<lparr>service_number = 0x04, service_fn = Some SvcSetAttributeList\<rparr>,
     \<lparr>service_number = 0x01, service_fn = Some SvcGetAttributeAll\<rparr>]"

definition example_object :: CipClassObject where
  "example_object = \<lparr>cip_class = zero_class\<lparr>class_code := 0x70, revision := 1, max_instance := 1,
       number_of_instances := 1, number_of_attributes := 2, highest_attribute_number := 3,
       get_single_bit_mask := [8], set_bit_mask := [8], get_all_bit_mask := [8],
       number_of_services := 5, services := example_services\<rparr>,
     meta_class = AllocateAttributeMasks (zero_class\<lparr>class_code := 0xFFFFFFFF, number_of_instances := 1\<rparr>),
     class_attributes = [],
     instances = [\<lparr>inst_number = 1, attributes = [example_attribute, zero_attribute]\<rparr>]\<rparr>"

definition example_state :: cip_state where
  "example_state = \<lparr>g_first_object = [example_object], data_store = [0 \<mapsto> V16 5],
     g_message_router_request = \<lparr>req_service = 0, request_path = CipEpath.make 0 0 0 0,
       request_data_size = 0, req_data = []\<rparr>\<rparr>"

definition example_env :: "cip_state cip_env" where
  "example_env = \<lparr>env_encode = (\<lambda>_ _ _. None), env_decode = (\<lambda>_ _ _ _. None),
     env_get_set = (\<lambda>_ _ _ _ st. Some st), env_callback = (\<lambda>_ _ _ resp st. Some (kEipStatusOk, resp, st)),
     env_service = (\<lambda>_ _ _ _ _ _. None)\<rparr>"

definition example_request :: "CipUsint \<Rightarrow> CipOctet list \<Rightarrow> CipMessageRouterRequest" where
  "example_request service bs = \<lparr>req_service = service, request_path = CipEpath.make 3 0x70 1 3,
     request_data_size = of_nat (length bs), req_data = bs\<rparr>"

definition example_response :: CipMessageRouterResponse where
  "example_response = CipMessageRouterResponse.make 0 0 0 0 [] (InitializeENIPMessage undefined)"

lemmas example_simps = example_state_def example_object_def example_attribute_def zero_class_def
  zero_attribute_def GetCipClass_def GetRegisteredObject_def find_instance_def class_of_def
  attributes_of_def CalculateIndex_def

lemma example_resolves: "resolves (0x70, 1) 3 example_state 0 example_attribute (cip_class example_object)"
  by (simp add: resolves_def find_attribute_def attribute_at_def class_at_def GetCipAttribute_def example_simps
      scan_first_index array_get_def)

lemma example_masks:
  "mask_bit (set_bit_mask (cip_class example_object)) 3 = Some True"
  "mask_bit (get_single_bit_mask (cip_class example_object)) 3 = Some True"
  by (simp_all add: example_object_def mask_bit_def CalculateIndex_def attribute_bit_def)

lemma example_quiet: "quiet_callbacks example_env"
  by (simp add: quiet_callbacks_def example_env_def)

theorem set_then_get_attribute_witness:
  "\<exists>req' resp' st' resp2'.
    SetAttributeSingle example_env (0x70, 1) (example_request 0x10 [0x34, 0x12]) example_response example_state =
      Some (kEipStatusOkSend, req', resp', st') \<and> general_status resp' = kCipErrorSuccess \<and>
    GetAttributeSingle example_env (0x70, 1) (example_request 0x0E []) example_response st' =
      Some (kEipStatusOkSend, example_request 0x0E [], resp2', st') \<and>
    sent_octets (message resp2') = [0x34, 0x12]"
proof -
  let ?m = "InitializeENIPMessage undefined"
  obtain m' where m': "emit (int_bytes 0x1234) ?m = Some m'"
    by (simp add: emit_InMessage)
  have e: "call_encode (env_encode example_env) EncCipUint (V16 0x1234) ?m = Some m'"
    using m' by (simp add: EncodeCipUint_def wire_simps)
  have o: "call_encode (env_encode example_env) EncCipUint (V16 5) ?m \<noteq> None"
    by (simp add: EncodeCipUint_def wire_simps emit_InMessage)
  have "sent_octets m' = [0x34, 0x12]"
    using sent_octets_holds [OF holds_octets_emit [OF holds_octets_init m']] by (simp add: int_bytes_def drop_bit_eq_div)
  with set_then_get_attribute [OF _ example_resolves _ _ _ _ example_masks example_quiet _ _ e,
      of DecCipUint 0 "V16 5" ?m _ "example_request 0x10 [0x34, 0x12]" "[]" "example_request 0x0E []"
      example_response example_response] o
  show ?thesis
    by (fastforce simp: codecs16_def example_attribute_def example_state_def example_request_def
        CipEpath.make_def)
qed


subsection \<open>Reply size of GetAttributeList\<close>

text \<open>An attribute whose encoder emits no more octets than \<^verbatim>\<open>GetCipDataTypeLength\<close> announces.\<close>

definition sized_attribute :: "'s cip_env \<Rightarrow> 'e cip_state_scheme \<Rightarrow> CipAttributeStruct \<Rightarrow> bool" where
  "sized_attribute env st a \<longleftrightarrow> (\<exists>bs n. attribute_length a st = Some n \<and> length bs \<le> unat n \<and>
     (\<forall>m. encode_attribute env a st m = emit bs m))"

definition listable :: "'s cip_env \<Rightarrow> instance_ref \<Rightarrow> 'e cip_state_scheme \<Rightarrow> bool" where
  "listable env inst st \<longleftrightarrow> (\<exists>ob as. GetCipClass (fst inst) st = Some ob \<and> object_wf ob \<and>
     attributes_of (snd inst) ob = Some as \<and>
     (\<forall>a \<in> set as. attribute_length a st \<noteq> None \<and>
        (mask_bit (get_single_bit_mask (class_of (snd inst) ob)) (attr_number a) = Some True \<longrightarrow>
           sized_attribute env st a)))"

lemma mask_bit_defined: "masks_wf c \<Longrightarrow> k \<le> highest_attribute_number c \<Longrightarrow>
    (\<exists>b. mask_bit (get_single_bit_mask c) k = Some b) \<and> (\<exists>b. mask_bit (set_bit_mask c) k = Some b) \<and>
    (\<exists>b. mask_bit (get_all_bit_mask c) k = Some b)"
  using CalculateIndex_mono [of k "highest_attribute_number c"]
  by (simp add: masks_wf_def Let_def mask_bit_in)

lemma listable_cases:
  assumes "listable env inst st"
  shows "find_attribute inst k st = Some None \<or>
    (\<exists>i a c b n. resolves inst k st i a c \<and> mask_bit (get_single_bit_mask c) k = Some b \<and>
       attribute_length a st = Some n \<and> (b \<longrightarrow> sized_attribute env st a))"
proof -
  obtain ob as where l: "GetCipClass (fst inst) st = Some ob" "object_wf ob" "attributes_of (snd inst) ob = Some as"
    "\<forall>a \<in> set as. attribute_length a st \<noteq> None \<and>
        (mask_bit (get_single_bit_mask (class_of (snd inst) ob)) (attr_number a) = Some True \<longrightarrow> sized_attribute env st a)"
    using assms by (auto simp: listable_def)
  let ?c = "class_of (snd inst) ob"
  have wf: "attributes_wf ?c as" "masks_wf ?c"
    using object_wf_attributes_of [OF l(2,3)] object_wf_class_of [OF l(2)] by (auto simp: class_wf_def)
  then have f: "find_attribute inst k st = Some (first_index (\<lambda>a. k = attr_number a) as)"
    using l(1,3) scan_whole [of "\<lambda>a. k = attr_number a" as]
    by (simp add: find_attribute_def GetCipAttribute_def attributes_wf_def)
  show ?thesis
  proof (cases "first_index (\<lambda>a. k = attr_number a) as")
    case None
    with f show ?thesis by simp
  next
    case (Some i)
    from first_index_SomeD [OF Some] have i: "i < length as" "attr_number (as ! i) = k" by auto
    then have m: "as ! i \<in> set as" by simp
    then have "k \<le> highest_attribute_number ?c"
      using wf(1) i(2) by (auto simp: attributes_wf_def)
    then obtain b where "mask_bit (get_single_bit_mask ?c) k = Some b"
      using mask_bit_defined [OF wf(2)] by blast
    moreover have "resolves inst k st i (as ! i) ?c"
      using f Some i l(1,3) by (simp add: resolves_def attribute_at_def class_at_def)
    moreover have "attribute_length (as ! i) st \<noteq> None" "b \<longrightarrow> sized_attribute env st (as ! i)"
      using l(4) m i(2) calculation(1) by auto
    ultimately show ?thesis by blast
  qed
qed

lemma on_message_holds:
  assumes "holds_octets (message resp) bs" "length bs + length xs \<le> PC_OPENER_ETHERNET_BUFFER_SIZE"
  shows "\<exists>m. on_message (emit xs) resp = Some (resp\<lparr>message := m\<rparr>) \<and> holds_octets m (bs @ xs)"
  using holds_octets_emit_fits [OF assms] by (auto simp: on_message_def)

lemma status_octets_wire: "status_octets s resp = on_message (emit (sint_bytes s @ sint_bytes 0)) resp"
  by (simp add: status_octets_def wire_simps on_message_def emit_append)

lemma on_message_emit2:
  "(on_message (emit xs) resp \<bind> (\<lambda>r. on_message (emit ys) r \<bind> f)) = (on_message (emit (xs @ ys)) resp \<bind> f)"
  by (simp add: on_message_def emit_append)

text \<open>
  One round of the loop: the space check keeps the reply at 483 octets, 29 short of the buffer.
\<close>

abbreviation entry :: "CipUint \<Rightarrow> CipUsint \<Rightarrow> CipOctet list \<Rightarrow> CipOctet list" where
  "entry n status xs \<equiv> int_bytes n @ sint_bytes status @ sint_bytes 0 @ xs"

lemma list_entry_fits:
  assumes "holds_octets (message resp) bs" and "\<not> no_space k (message resp)" and "int (length xs) \<le> k"
  shows "\<exists>m. on_message (emit (entry n s xs)) resp = Some (resp\<lparr>message := m\<rparr>) \<and>
      holds_octets m (bs @ entry n s xs) \<and> length (bs @ entry n s xs) \<le> 483"
proof -
  have "int (unat (used_message_length (message resp))) = int (length bs)"
    using assms(1) by (simp add: holds_octets_def)
  then show ?thesis
    using on_message_holds [OF assms(1), of "entry n s xs"] assms(2,3) by (auto simp: no_space_def)
qed

lemma get_list_step_missing:
  assumes h: "holds_octets (message resp) bs" and r: "GetUintFromMessage (req_data req) = Some (n, r)"
    and f: "find_attribute inst n st = Some None"
  shows "get_list_loop env inst st (Suc j) req resp = Some (ListNoSpace, req\<lparr>req_data := r\<rparr>, resp) \<or>
    (\<exists>xs m. holds_octets m (bs @ xs) \<and> length (bs @ xs) \<le> 483 \<and>
       get_list_loop env inst st (Suc j) req resp = get_list_loop env inst st j (req\<lparr>req_data := r\<rparr>)
         (resp\<lparr>message := m, general_status := kCipErrorAttributeListError\<rparr>))"
proof (cases "no_space 2 (message resp)")
  case True
  with f r show ?thesis by (simp add: needed_space_def)
next
  case False
  let ?xs = "entry n kCipErrorAttributeNotSupported []"
  from list_entry_fits [OF h False, of "[]"]
  obtain m where "on_message (emit ?xs) resp = Some (resp\<lparr>message := m\<rparr>)"
    "holds_octets m (bs @ ?xs)" "length (bs @ ?xs) \<le> 483" by fastforce
  then show ?thesis
    using f r False
    by (intro disjI2 exI [of _ ?xs] exI [of _ m])
      (simp add: needed_space_def wire_simps status_octets_wire on_message_emit2)
qed

lemma get_list_step_found:
  assumes h: "holds_octets (message resp) bs" and r: "GetUintFromMessage (req_data req) = Some (n, r)"
    and f: "resolves inst n st i a c" "mask_bit (get_single_bit_mask c) n = Some b"
      "attribute_length a st = Some len" "b \<longrightarrow> sized_attribute env st a"
  shows "get_list_loop env inst st (Suc j) req resp = Some (ListNoSpace, req\<lparr>req_data := r\<rparr>, resp) \<or>
    (\<exists>xs m s. holds_octets m (bs @ xs) \<and> length (bs @ xs) \<le> 483 \<and>
       s \<in> {general_status resp, kCipErrorAttributeListError} \<and>
       get_list_loop env inst st (Suc j) req resp = get_list_loop env inst st j (req\<lparr>req_data := r\<rparr>)
         (resp\<lparr>message := m, general_status := s\<rparr>))"
proof (cases "no_space (int (unat len)) (message resp)")
  case True
  with f r show ?thesis by (simp add: needed_space_def resolves_def)
next
  case False
  note res = f(1) [unfolded resolves_def]
  obtain enc where enc: "length enc \<le> unat len" "b \<Longrightarrow> encode_attribute env a st = emit enc" "\<not> b \<Longrightarrow> enc = []"
    using f(3,4) by (cases b) (auto simp: sized_attribute_def fun_eq_iff)
  let ?xs = "entry n (if b then kCipErrorSuccess else kCipErrorAttributeNotGettable) enc"
  let ?s = "if b then general_status resp else kCipErrorAttributeListError"
  have "int (length enc) \<le> int (unat len)" using enc(1) by linarith
  from list_entry_fits [OF h False this]
  obtain m where "on_message (emit ?xs) resp = Some (resp\<lparr>message := m\<rparr>)"
    "holds_octets m (bs @ ?xs)" "length (bs @ ?xs) \<le> 483" by blast
  then show ?thesis
    using f(2,3) res r False enc(2,3)
    by (intro disjI2 exI [of _ ?xs] exI [of _ m] exI [of _ ?s], cases b)
      (simp_all add: needed_space_def wire_simps status_octets_wire on_message_emit2)
qed

lemma get_list_loop_bounded:
  assumes "listable env inst st" and "holds_octets (message resp) bs" "length bs \<le> 483"
    and "2 * j \<le> length (req_data req)"
  shows "\<exists>outcome req' resp' xs. get_list_loop env inst st j req resp = Some (outcome, req', resp') \<and>
    outcome \<noteq> ListAbort \<and> holds_octets (message resp') (bs @ xs) \<and> length (bs @ xs) \<le> 483 \<and>
    reply_service resp' = reply_service resp \<and> general_status resp' \<in> {general_status resp, kCipErrorAttributeListError}"
  using assms(2-4)
proof (induction j arbitrary: req resp bs)
  case 0
  then show ?case by (intro exI [of _ ListDone] exI [of _ req] exI [of _ resp] exI [of _ "[]"]) simp
next
  case (Suc j)
  obtain n where n: "GetUintFromMessage (req_data req) = Some (n, drop 2 (req_data req))"
    using uint.dec_long [of "req_data req"] Suc.prems(3) by auto
  have "get_list_loop env inst st (Suc j) req resp = Some (ListNoSpace, req\<lparr>req_data := drop 2 (req_data req)\<rparr>, resp) \<or>
    (\<exists>xs m s. holds_octets m (bs @ xs) \<and> length (bs @ xs) \<le> 483 \<and>
       s \<in> {general_status resp, kCipErrorAttributeListError} \<and>
       get_list_loop env inst st (Suc j) req resp =
         get_list_loop env inst st j (req\<lparr>req_data := drop 2 (req_data req)\<rparr>) (resp\<lparr>message := m, general_status := s\<rparr>))"
    using listable_cases [OF assms(1), of n] get_list_step_missing [OF Suc.prems(1) n]
      get_list_step_found [OF Suc.prems(1) n] by blast
  then show ?case
  proof (elim disjE exE conjE)
    assume "get_list_loop env inst st (Suc j) req resp = Some (ListNoSpace, req\<lparr>req_data := drop 2 (req_data req)\<rparr>, resp)"
    with Suc.prems show ?thesis
      by (intro exI [of _ ListNoSpace] exI [of _ "req\<lparr>req_data := drop 2 (req_data req)\<rparr>"] exI [of _ resp] exI [of _ "[]"]) simp
  next
    fix xs m s
    assume step: "holds_octets m (bs @ xs)" "length (bs @ xs) \<le> 483" "s \<in> {general_status resp, kCipErrorAttributeListError}"
      "get_list_loop env inst st (Suc j) req resp =
         get_list_loop env inst st j (req\<lparr>req_data := drop 2 (req_data req)\<rparr>) (resp\<lparr>message := m, general_status := s\<rparr>)"
    have "2 * j \<le> length (req_data (req\<lparr>req_data := drop 2 (req_data req)\<rparr>))"
      using Suc.prems(3) by simp
    from Suc.IH [of "resp\<lparr>message := m, general_status := s\<rparr>", OF _ step(2) this] step(1)
    obtain outcome req' resp' ys where
      "get_list_loop env inst st j (req\<lparr>req_data := drop 2 (req_data req)\<rparr>) (resp\<lparr>message := m, general_status := s\<rparr>) = Some (outcome, req', resp')"
      "outcome \<noteq> ListAbort" "reply_service resp' = reply_service resp" "holds_octets (message resp') ((bs @ xs) @ ys)" "length ((bs @ xs) @ ys) \<le> 483"
      "general_status resp' \<in> {s, kCipErrorAttributeListError}" by (auto simp del: get_list_loop.simps)
    with step show ?thesis
      by (intro exI [of _ outcome] exI [of _ req'] exI [of _ resp'] exI [of _ "xs @ ys"]) (auto simp del: get_list_loop.simps)
  qed
qed

lemma finish_list_holds:
  assumes "holds_octets m (a # b # bs)"
  shows "\<exists>m'. finish_list count (InMessage 0) m = Some m' \<and> holds_octets m' (int_bytes count @ bs)"
proof -
  have "take (length bs) (drop 2 (message_buffer m)) = bs"
  proof -
    have "drop 2 (take (length (a # b # bs)) (message_buffer m)) = bs"
      using assms by (simp only: holds_octets_def) simp
    then show ?thesis by (simp add: drop_take)
  qed
  with assms show ?thesis
    by (simp add: finish_list_def Let_def wire_simps emit_InMessage holds_octets_def numeral_2_eq_2)
qed

text \<open>C22: for a request with a count other than 0 that carries as many attribute numbers, and an
  instance whose readable attributes encode to no more octets than their data type announces,
  GetAttributeList always returns a reply that fits: the reply starts with the count of the request
  (also when fewer attributes were processed, which the status partial transfer tells), is at most 483
  octets long (the rest of the frame needs 29), and its status is success, attribute list error, or
  partial transfer; nothing outside the reply buffer is written.\<close>

theorem GetAttributeList_bounded:
  assumes "listable env inst st" and "GetUintFromMessage (req_data req) = Some (count, r)"
    and "2 * unat count \<le> length r" and "count \<noteq> 0"
  shows "\<exists>req' resp' bs. GetAttributeList env inst req resp st = Some (kEipStatusOkSend, req', resp', st) \<and>
    sent_octets (message resp') = int_bytes count @ bs \<and> length bs \<le> 481 \<and>
    reply_service resp' = reply_code (req_service req) \<and>
    general_status resp' \<in> {kCipErrorSuccess, kCipErrorAttributeListError, kCipErrorPartialTransfer}"
proof -
  let ?req = "req\<lparr>req_data := r\<rparr>"
  let ?m = "InitializeENIPMessage (message resp)"
  obtain m where m: "MoveMessageNOctets 2 ?m = Some m" "holds_octets m [0, 0]"
    by (simp add: MoveMessageNOctets_def move_position_def holds_octets_def)
  let ?resp = "(list_header req resp)\<lparr>message := m\<rparr>"
  obtain outcome req' resp' xs where l:
    "get_list_loop env inst st (unat count) ?req ?resp = Some (outcome, req', resp')"
    "outcome \<noteq> ListAbort" "holds_octets (message resp') ([0, 0] @ xs)" "length ([0, 0] @ xs :: CipOctet list) \<le> 483"
    "general_status resp' \<in> {kCipErrorSuccess, kCipErrorAttributeListError}"
    "reply_service resp' = reply_code (req_service req)"
    using get_list_loop_bounded [OF assms(1), of ?resp "[0, 0]" "unat count" ?req] m(2) assms(3)
    by (auto simp: list_header_def)
  obtain m' where m': "finish_list count (InMessage 0) (message resp') = Some m'" "holds_octets m' (int_bytes count @ xs)"
    using finish_list_holds [of "message resp'" 0 0 xs count] l(3) by auto
  let ?out = "if outcome = ListNoSpace \<and> general_status resp' \<noteq> kCipErrorAttributeListError
    then resp'\<lparr>message := m', general_status := kCipErrorPartialTransfer\<rparr> else resp'\<lparr>message := m'\<rparr>"
  have "end_list count (InMessage 0) outcome resp' = Some ?out"
    using l(2) m'(1) by (cases outcome) (auto simp: end_list_def on_message_def)
  then have "GetAttributeList env inst req resp st = Some (kEipStatusOkSend, req', ?out, st)"
    using assms(2,4) m(1) l(1) by (simp add: GetAttributeList_def Let_def on_message_def list_header_def)
  then show ?thesis
    using sent_octets_holds [OF m'(2)] l(4-6)
    by (intro exI [of _ req'] exI [of _ ?out] exI [of _ xs]) auto
qed

lemma example_object_wf: "object_wf example_object"
  by (simp add: object_wf_def class_wf_def masks_wf_def attributes_wf_def GetMaxInstanceNumber_def
      example_simps example_services_def AllocateAttributeMasks_def Let_def word_less_nat_alt word_le_nat_alt)

lemma example_listable: "listable example_env (0x70, 1) example_state"
proof -
  have "attribute_length zero_attribute example_state = Some 0"
    by (simp add: attribute_length_def zero_attribute_def GetCipDataTypeLength_def)
  moreover have "mask_bit (get_single_bit_mask (cip_class example_object)) 0 = Some False"
    by (simp add: mask_bit_def example_object_def CalculateIndex_def attribute_bit_def)
  moreover have "attribute_length example_attribute example_state = Some 2"
    "encode_attribute example_env example_attribute example_state m = emit (int_bytes 5) m" for m
    by (simp_all add: attribute_length_def example_attribute_def GetCipDataTypeLength_def read_ref_def
        example_state_def encode_attribute_def EncodeCipUint_def wire_simps)
  moreover have "GetCipClass 0x70 example_state = Some example_object"
    "attributes_of 1 example_object = Some [example_attribute, zero_attribute]" "class_of 1 example_object = cip_class example_object"
    by (simp_all add: example_simps)
  ultimately show ?thesis
    using example_object_wf unfolding listable_def
    by (intro exI [of _ example_object] exI [of _ "[example_attribute, zero_attribute]"])
      (auto simp: sized_attribute_def intro!: exI [of _ "int_bytes 5"])
qed

theorem GetAttributeList_bounded_witness:
  "\<exists>req' resp' bs. GetAttributeList example_env (0x70, 1) (example_request 0x03 [2, 0, 3, 0, 9, 0]) example_response example_state =
      Some (kEipStatusOkSend, req', resp', example_state) \<and>
    sent_octets (message resp') = int_bytes 2 @ bs \<and> length bs \<le> 481"
proof -
  have "GetUintFromMessage (req_data (example_request 0x03 [2, 0, 3, 0, 9, 0])) = Some (2, [3, 0, 9, 0])"
    by (simp add: example_request_def)
  from GetAttributeList_bounded [OF example_listable this, of example_response] show ?thesis by fastforce
qed


lemma example_missing: "find_attribute (0x70, 1) 9 example_state = Some None"
  by (simp add: find_attribute_def GetCipAttribute_def example_simps scan_first_index)

lemma example_needed: "needed_space (0x70, 1) (Some 0) example_state = Some 2"
  by (simp add: needed_space_def attribute_at_def attribute_length_def example_attribute_def GetCipDataTypeLength_def read_ref_def
        example_simps)

lemma example_decode: "req_data req = [0x34, 0x12] \<Longrightarrow> decode_attribute example_env example_attribute req resp example_state =
    Some (req\<lparr>req_data := []\<rparr>, resp\<lparr>general_status := kCipErrorSuccess\<rparr>, example_state\<lparr>data_store := [0 \<mapsto> V16 0x1234]\<rparr>)"
  by (simp add: decode_attribute_def example_attribute_def read_ref_def write_ref_def example_state_def
      DecodeCipUint_def decode_scalar_def)

lemma no_space_holds: "holds_octets m bs \<Longrightarrow> no_space k m \<longleftrightarrow> k > 479 - int (length bs)"
  by (simp add: no_space_def holds_octets_def)

lemma missing_round:
  assumes "holds_octets (message resp) [0, 0]" "req_data req = [9, 0, 3, 0, 0x34, 0x12]"
  shows "\<exists>m. set_list_loop example_env (0x70, 1) (Suc j) req resp example_state =
     set_list_loop example_env (0x70, 1) j (req\<lparr>req_data := [3, 0, 0x34, 0x12]\<rparr>)
       (resp\<lparr>message := m, general_status := kCipErrorAttributeListError\<rparr>) example_state \<and>
     holds_octets m ([0, 0] @ entry 9 0x14 [])"
proof -
  obtain m where m: "on_message (emit (entry 9 0x14 [])) resp = Some (resp\<lparr>message := m\<rparr>)"
    "holds_octets m ([0, 0] @ entry 9 0x14 [])"
    using on_message_holds [OF assms(1), of "entry 9 0x14 []"] by auto
  then show ?thesis
    using assms by (intro exI [of _ m]) 
      (simp add: example_missing needed_space_def no_space_holds wire_simps status_octets_wire on_message_emit2)
qed

lemma set_round:
  assumes "holds_octets (message resp) ([0, 0] @ entry 9 0x14 [])" "req_data req = [3, 0, 0x34, 0x12]"
  shows "\<exists>m. set_list_loop example_env (0x70, 1) (Suc 0) req resp example_state =
     Some (ListDone, req\<lparr>req_data := []\<rparr>, resp\<lparr>message := m, general_status := kCipErrorSuccess\<rparr>,
       example_state\<lparr>data_store := [0 \<mapsto> V16 0x1234]\<rparr>) \<and>
     holds_octets m (([0, 0] @ entry 9 0x14 []) @ entry 3 0 [])"
proof -
  obtain m where m: "on_message (emit (entry 3 0 [])) resp = Some (resp\<lparr>message := m\<rparr>)"
    "holds_octets m (([0, 0] @ entry 9 0x14 []) @ entry 3 0 [])"
    using on_message_holds [OF assms(1), of "entry 3 0 []"] by auto
  then show ?thesis
    using assms example_resolves example_masks(1) by (intro exI [of _ m]) 
      (simp add: resolves_def example_needed no_space_holds wire_simps status_octets_wire on_message_emit2 example_decode)
qed

text \<open>SetAttributeList forgets the error of an earlier entry: a list that names an unsupported
  attribute first and a settable one last is answered with the entry status 0x14 for the first and
  still the general status success, because the decoder of the last entry overwrites it.\<close>

theorem SetAttributeList_loses_error:
  "\<exists>req' resp'. SetAttributeList example_env (0x70, 1) (example_request 0x04 [2, 0, 9, 0, 3, 0, 0x34, 0x12])
      example_response example_state =
    Some (kEipStatusOkSend, req', resp', example_state\<lparr>data_store := [0 \<mapsto> V16 0x1234]\<rparr>) \<and>
    general_status resp' = kCipErrorSuccess \<and>
    sent_octets (message resp') = int_bytes 2 @ entry 9 kCipErrorAttributeNotSupported [] @ entry 3 kCipErrorSuccess []"
proof -
  let ?req = "(example_request 0x04 [2, 0, 9, 0, 3, 0, 0x34, 0x12])\<lparr>req_data := [9, 0, 3, 0, 0x34, 0x12]\<rparr>"
  obtain m where m: "MoveMessageNOctets 2 (InitializeENIPMessage (message example_response)) = Some m" "holds_octets m [0, 0]"
    by (simp add: MoveMessageNOctets_def move_position_def holds_octets_def)
  let ?resp = "(list_header (example_request 0x04 [2, 0, 9, 0, 3, 0, 0x34, 0x12]) example_response)\<lparr>message := m\<rparr>"
  obtain m1 where m1: "set_list_loop example_env (0x70, 1) (Suc (Suc 0)) ?req ?resp example_state =
     set_list_loop example_env (0x70, 1) (Suc 0) (?req\<lparr>req_data := [3, 0, 0x34, 0x12]\<rparr>)
       (?resp\<lparr>message := m1, general_status := kCipErrorAttributeListError\<rparr>) example_state"
     "holds_octets m1 ([0, 0] @ entry 9 0x14 [])"
    using missing_round [of ?resp ?req "Suc 0"] m(2) by (auto simp del: set_list_loop.simps)
  obtain m2 where m2: "set_list_loop example_env (0x70, 1) (Suc 0) (?req\<lparr>req_data := [3, 0, 0x34, 0x12]\<rparr>)
       (?resp\<lparr>message := m1, general_status := kCipErrorAttributeListError\<rparr>) example_state =
     Some (ListDone, ?req\<lparr>req_data := []\<rparr>, ?resp\<lparr>message := m2, general_status := kCipErrorSuccess\<rparr>,
       example_state\<lparr>data_store := [0 \<mapsto> V16 0x1234]\<rparr>)"
     "holds_octets m2 ([0, 0] @ entry 9 0x14 [] @ entry 3 0 [])"
    using set_round [of "?resp\<lparr>message := m1, general_status := kCipErrorAttributeListError\<rparr>" "?req\<lparr>req_data := [3, 0, 0x34, 0x12]\<rparr>"] m1(2)
    by (auto simp del: set_list_loop.simps)
  obtain m3 where m3: "finish_list 2 (InMessage 0) m2 = Some m3" "holds_octets m3 (int_bytes 2 @ entry 9 0x14 [] @ entry 3 0 [])"
    using finish_list_holds [of m2 0 0 "entry 9 0x14 [] @ entry 3 0 []" 2] m2(2) by auto
  show ?thesis
    using m(1) m1(1) [unfolded numeral_2_eq_2 [symmetric]] m2(1) m3(1) sent_octets_holds [OF m3(2)]
    by (simp add: SetAttributeList_def Let_def example_request_def list_header_def on_message_def end_list_def
        del: set_list_loop.simps)
qed


subsection \<open>GetAttributeAll\<close>

text \<open>The octets attribute number \<open>k\<close> contributes to the reply.\<close>

definition get_all_entry :: "'s cip_env \<Rightarrow> instance_ref \<Rightarrow> 'e cip_state_scheme \<Rightarrow> CipClass \<Rightarrow> CipUint \<Rightarrow> CipOctet list \<Rightarrow> bool" where
  "get_all_entry env inst st c k bs \<longleftrightarrow>
     mask_bit (get_all_bit_mask c) k = Some False \<and> bs = [] \<or>
     mask_bit (get_all_bit_mask c) k = Some True \<and>
       (find_attribute inst k st = Some None \<and> bs = [] \<or>
        (\<exists>i a c'. resolves inst k st i a c' \<and>
           (attr_data a = None \<and> bs = [] \<or>
            attr_data a \<noteq> None \<and> (\<forall>m. encode_attribute env a st m = emit bs m))))"

lemma emit_Nil_holds: "holds_octets m bs \<Longrightarrow> emit [] m = Some m"
  using append_take_drop_id [of "length bs" "message_buffer m"]
  by (cases m) (auto simp: holds_octets_def emit_InMessage simp del: append_take_drop_id)

lemma get_all_step:
  assumes "class_at inst st = Some c" and "k \<le> highest_attribute_number c"
    and "get_all_entry env inst st c k w" and "holds_octets m bs"
  shows "\<exists>req'. get_all_from env inst st k req m =
    do { m \<leftarrow> emit w m; get_all_from env inst st (k + 1) req' m }"
  using assms
  by (subst get_all_from.simps)
    (auto simp: get_all_entry_def emit_Nil_holds resolves_def Let_def)

lemma get_all_from_emit:
  assumes "class_at inst st = Some c" and "highest_attribute_number c \<noteq> 0xFFFF"
    and "\<forall>j. 1 \<le> j \<and> j \<le> unat (highest_attribute_number c) \<longrightarrow> get_all_entry env inst st c (of_nat j) (w j)"
    and "holds_octets m bs" and "1 \<le> k" "k \<le> Suc (unat (highest_attribute_number c))"
  shows "\<exists>req'. get_all_from env inst st (of_nat k) req m =
    do { m \<leftarrow> emit (concat (map w [k..<Suc (unat (highest_attribute_number c))])) m; Some (req', m) }"
  using assms(4-6)
proof (induction "Suc (unat (highest_attribute_number c)) - k" arbitrary: k req m bs)
  case 0
  let ?h = "unat (highest_attribute_number c)"
  have h: "?h < 65535"
    using assms(2) unat_bound(2) [of "highest_attribute_number c"] by (simp add: word_unat_eq_iff)
  have "k = Suc ?h" using 0 by simp
  moreover from this h have "\<not> (of_nat k :: CipUint) \<le> highest_attribute_number c"
    by (simp add: word_le_nat_alt unat_of_nat_small(2) del: of_nat_Suc)
  ultimately show ?case
    using assms(1) 0(2) by (subst get_all_from.simps) (simp add: emit_Nil_holds)
next
  case (Suc d)
  let ?h = "unat (highest_attribute_number c)"
  have k: "k \<le> ?h" "[k..<Suc ?h] = k # [Suc k..<Suc ?h]" using Suc.hyps(2) by (auto simp: upt_conv_Cons)
  have "k < 65536"
    using k(1) unat_bound(2) [of "highest_attribute_number c"] by simp
  then have "(of_nat k :: CipUint) \<le> highest_attribute_number c"
    using k(1) by (simp add: word_le_nat_alt)
  then obtain req1 where step: "get_all_from env inst st (of_nat k) req m =
      do { m \<leftarrow> emit (w k) m; get_all_from env inst st (of_nat k + 1) req1 m }"
    using get_all_step [OF assms(1) _ _ Suc.prems(1)] assms(3) k(1) Suc.prems(2) by blast
  show ?case
  proof (cases "emit (w k) m")
    case None
    with step k(2) show ?thesis by (simp add: emit_append)
  next
    case (Some m1)
    from Suc.hyps(1) [of "Suc k" m1 "bs @ w k" req1] holds_octets_emit [OF Suc.prems(1) Some] Suc.hyps(2) k(1)
    show ?thesis
      using step Some k(2) by (auto simp: emit_append add.commute)
  qed
qed

text \<open>GetAttributeAll answers with the concatenation, in ascending attribute number, of the
  octets of the attributes that are flagged for it; the loop ends for every class whose highest
  attribute number is below 65535. There is no space check: a reply that does not fit the buffer
  is written past its end (the fault \<open>None\<close>).\<close>

theorem GetAttributeAll_concat:
  assumes "class_at inst st = Some c" and "highest_attribute_number c \<noteq> 0xFFFF" and "number_of_attributes c \<noteq> 0"
    and "\<forall>j. 1 \<le> j \<and> j \<le> unat (highest_attribute_number c) \<longrightarrow> get_all_entry env inst st c (of_nat j) (w j)"
    and "W = concat (map w [1..<Suc (unat (highest_attribute_number c))])"
  shows "if length W \<le> PC_OPENER_ETHERNET_BUFFER_SIZE
    then \<exists>req' resp'. GetAttributeAll env inst req resp st = Some (kEipStatusOkSend, req', resp', st) \<and>
      general_status resp' = kCipErrorSuccess \<and> reply_service resp' = reply_code (req_service req) \<and>
      sent_octets (message resp') = W
    else GetAttributeAll env inst req resp st = None"
proof -
  let ?h = "GenerateGetAttributeSingleHeader req (resp\<lparr>message := InitializeENIPMessage (message resp)\<rparr>)"
  have h: "holds_octets (message ?h) []"
    by (simp add: GenerateGetAttributeSingleHeader_def)
  obtain req' where g: "get_all_from env inst st 1 req (message ?h) = do { m \<leftarrow> emit W (message ?h); Some (req', m) }"
    using get_all_from_emit [OF assms(1,2,4) h, of 1 req] assms(5) by auto
  show ?thesis
  proof (cases "length W \<le> PC_OPENER_ETHERNET_BUFFER_SIZE")
    case True
    then obtain m where "emit W (message ?h) = Some m" "holds_octets m W"
      using holds_octets_emit_fits [OF h, of W] by auto
    with True g assms(1,3) show ?thesis
      by (simp add: GetAttributeAll_def sent_octets_holds) (simp add: GenerateGetAttributeSingleHeader_def)
  next
    case False
    then have "emit W (message ?h) = None"
      using h by (simp add: holds_octets_def emit_InMessage)
    with False g assms(1,3) show ?thesis by (simp add: GetAttributeAll_def)
  qed
qed

theorem GetAttributeAll_concat_witness:
  "\<exists>req' resp'. GetAttributeAll example_env (0x70, 1) (example_request 0x01 []) example_response example_state =
     Some (kEipStatusOkSend, req', resp', example_state) \<and> sent_octets (message resp') = int_bytes 5"
proof -
  let ?w = "\<lambda>j :: nat. if j = 3 then int_bytes 5 else []"
  have c: "class_at (0x70, 1) example_state = Some (cip_class example_object)"
    using example_resolves by (simp add: resolves_def)
  have "encode_attribute example_env example_attribute example_state m = emit (int_bytes 5) m" for m
    by (simp add: example_attribute_def read_ref_def example_state_def encode_attribute_def EncodeCipUint_def wire_simps)
  moreover have "mask_bit (get_all_bit_mask (cip_class example_object)) 3 = Some True" "attr_data example_attribute \<noteq> None"
    by (simp_all add: mask_bit_def example_object_def CalculateIndex_def attribute_bit_def example_attribute_def)
  ultimately have "get_all_entry example_env (0x70, 1) example_state (cip_class example_object) 3 (int_bytes 5)"
    using example_resolves unfolding get_all_entry_def by blast
  moreover have "get_all_entry example_env (0x70, 1) example_state (cip_class example_object) 1 []"
    "get_all_entry example_env (0x70, 1) example_state (cip_class example_object) 2 []"
    by (simp_all add: get_all_entry_def mask_bit_def example_object_def CalculateIndex_def attribute_bit_def)
  moreover have "unat (highest_attribute_number (cip_class example_object)) = 3"
    by (simp add: example_object_def)
  moreover have "j = 1 \<or> j = 2 \<or> j = 3" if "1 \<le> j" "j \<le> 3" for j :: nat
    using that by arith
  ultimately have "\<forall>j. 1 \<le> j \<and> j \<le> unat (highest_attribute_number (cip_class example_object)) \<longrightarrow>
      get_all_entry example_env (0x70, 1) example_state (cip_class example_object) (of_nat j) (?w j)"
    by fastforce
  from GetAttributeAll_concat [OF c _ _ this refl, of "example_request 0x01 []" example_response] show ?thesis
    by (auto simp: example_object_def upt_rec)
qed


end
