(* ===== verification/MessageRouter.thy ===== *)
theory MessageRouter
  imports CipServices
begin

text \<open>
  The message router of \<^verbatim>\<open>cip/cipmessagerouter.c\<close>: it parses a request, finds the registered
  class and passes the request on to \<^verbatim>\<open>NotifyClass\<close>. The theorems show which part of a message
  a request may use and how every request that reaches no service is answered.
\<close>

subsection \<open>The message router (cipmessagerouter.c)\<close>

text \<open>
  The length is a 16-bit signed value; the comparison with the decoded length and the subtraction
  convert it to the unsigned \<^verbatim>\<open>size_t\<close>. On an error the request keeps its former data fields.
\<close>

definition CreateMessageRouterRequestStructure :: "CipOctet list \<Rightarrow> CipUint \<Rightarrow>
    CipMessageRouterRequest \<Rightarrow> (CipUsint \<times> CipMessageRouterRequest) run" where
  "CreateMessageRouterRequestStructure data data_length req = do {
     b \<leftarrow> octet0 data;
     let req = req\<lparr>req_service := b\<rparr>;
     let data_length = data_length - 1;
     (path_result, epath, r, consumed) \<leftarrow> DecodePaddedEPath (request_path req) (drop 1 data);
     let req = req\<lparr>request_path := epath\<rparr>;
     (case consumed of
        None \<Rightarrow> Some (kCipErrorPathSegmentError, req)
      | Some n \<Rightarrow>
          if n > scast data_length then Some (kCipErrorPathSizeInvalid, req)
          else Some (kCipErrorSuccess,
            req\<lparr>req_data := r, request_data_size := scast data_length - n\<rparr>)) }"

definition router_error :: "CipUsint \<Rightarrow> CipMessageRouterRequest \<Rightarrow> CipMessageRouterResponse \<Rightarrow> CipMessageRouterResponse" where
  "router_error status req resp = resp\<lparr>general_status := status, size_of_additional_status := 0,
     reserved := 0, reply_service := reply_code (req_service req)\<rparr>"

definition NotifyMessageRouter :: "'e cip_state_scheme cip_env \<Rightarrow> CipOctet list \<Rightarrow> int \<Rightarrow>
    CipMessageRouterResponse \<Rightarrow> CipSessionHandle \<Rightarrow> 'e cip_state_scheme \<Rightarrow>
    (EipStatus \<times> CipMessageRouterResponse \<times> 'e cip_state_scheme) run" where
  "NotifyMessageRouter env data data_length resp session st = do {
     (status, req) \<leftarrow> CreateMessageRouterRequestStructure data (of_int data_length) (g_message_router_request st);
     let st = st\<lparr>g_message_router_request := req\<rparr>;
     if status \<noteq> kCipErrorSuccess then Some (kEipStatusOkSend, router_error status req resp, st)
     else (case GetRegisteredObject (ucast (class_id (request_path req))) st of
         None \<Rightarrow> Some (kEipStatusOkSend, router_error kCipErrorPathDestinationUnknown req resp, st)
       | Some ob \<Rightarrow> do {
           (eip_status, req, resp, st) \<leftarrow> NotifyClass env ob req (resp\<lparr>reserved := 0\<rparr>) session st;
           Some (eip_status, resp, st\<lparr>g_message_router_request := req\<rparr>) }) }"

definition InitializeCipMessageRouterClass :: "CipClassObject \<Rightarrow> CipClassObject run" where
  "InitializeCipMessageRouterClass ob = do {
     let cc = class_code (cip_class ob);
     ob \<leftarrow> class_attribute 1 (DRevision cc) kGetableSingleAndAll ob;
     ob \<leftarrow> class_attribute 2 (DNumberOfInstances cc) kGetableSingle ob;
     ob \<leftarrow> class_attribute 3 (DNumberOfInstances cc) kGetableSingle ob;
     ob \<leftarrow> class_attribute 4 DUintZero kGetableAll ob;
     ob \<leftarrow> class_attribute 5 DUintZero kGetableAll ob;
     ob \<leftarrow> class_attribute 6 (DMetaHighestAttribute cc) kGetableSingleAndAll ob;
     ob \<leftarrow> class_attribute 7 (DHighestAttribute cc) kGetableSingleAndAll ob;
     ob \<leftarrow> on_meta_class (InsertService kGetAttributeAll SvcGetAttributeAll) ob;
     on_meta_class (InsertService kGetAttributeSingle SvcGetAttributeSingle) ob }"

abbreviation (input) kCipMessageRouterClassCode :: CipUdint where "kCipMessageRouterClassCode \<equiv> 2"

definition CipMessageRouterInit :: "'e cip_state_scheme \<Rightarrow> (EipStatus \<times> 'e cip_state_scheme) run" where
  "CipMessageRouterInit st = do {
     st \<leftarrow> CreateCipClass kCipMessageRouterClassCode 7 7 2 0 0 1 1 1 (Some InitializeCipMessageRouterClass) st;
     st \<leftarrow> update_class kCipMessageRouterClassCode
       (on_cip_class (InsertService kGetAttributeSingle SvcGetAttributeSingle)) st;
     Some (kEipStatusOk, st) }"


subsection \<open>Parsing a request\<close>

lemma scast_nonneg:
  fixes x :: CipUint
  assumes "unat x < 32768"
  shows "(scast x :: size_t) = ucast x"
proof -
  have t: "take_bit 15 x = x"
    using assms by (simp add: word_unat_eq_iff unsigned_take_bit_eq take_bit_nat_eq_self)
  have "bit x n \<Longrightarrow> n < 15" for n
    by (metis t bit_take_bit_iff)
  then have "bit x (min 15 n) \<longleftrightarrow> bit x n" for n
    by (metis linorder_not_less min.absorb4 min_absorb1 nat_less_le)
  then show ?thesis
    by (intro bit_word_eqI) (auto simp: bit_simps)
qed

text \<open>For a message of 1 to 32768 octets the router accepts a request only when its path
  lies inside the message, and then service, path octets and request data account for exactly the
  length of the message: the size handed to the service is the length minus the service octet and
  the octets of the path.\<close>

theorem router_request_size:
  assumes "CreateMessageRouterRequestStructure data len req = Some (kCipErrorSuccess, req')"
    and "0 < unat len" "unat len \<le> 32768"
  shows "\<exists>epath r n. DecodePaddedEPath (request_path req) (tl data) = Some (kEipStatusOk, epath, r, Some n) \<and>
     req_service req' = hd data \<and> request_path req' = epath \<and> req_data req' = r \<and>
     unat len = 1 + unat n + unat (request_data_size req')"
proof -
  have l: "unat (len - 1) = unat len - 1"
    using assms(2) by (intro unat_minus_one) auto
  then have sc: "(scast (len - 1) :: size_t) = ucast (len - 1)"
    using assms by (intro scast_nonneg) simp
  obtain b bs where d: "data = b # bs"
    using assms(1) by (cases data) (auto simp: CreateMessageRouterRequestStructure_def)
  obtain status epath r c where dec: "DecodePaddedEPath (request_path req) bs = Some (status, epath, r, c)"
    using assms(1) by (cases "DecodePaddedEPath (request_path req) bs")
      (auto simp: CreateMessageRouterRequestStructure_def d)
  obtain n where n: "c = Some n" "\<not> n > ucast (len - 1)"
      "req' = req\<lparr>req_service := b, request_path := epath, req_data := r, request_data_size := ucast (len - 1) - n\<rparr>"
    using assms(1) dec by (auto simp: CreateMessageRouterRequestStructure_def d sc Let_def split: option.splits if_splits)
  have "status = kEipStatusOk"
    using dec n(1) by (auto simp: DecodePaddedEPath_def bind_eq_Some_conv split: if_splits)
  moreover have "unat (ucast (len - 1) - n :: size_t) = unat (len - 1) - unat n" "unat n \<le> unat (len - 1)"
    using n(2) by (simp_all add: unat_sub not_less word_le_nat_alt)
  ultimately show ?thesis
    using dec n l assms(2) by (intro exI [of _ epath] exI [of _ r] exI [of _ n]) (simp add: d)
qed

theorem router_request_size_witness:
  "\<exists>req'. CreateMessageRouterRequestStructure [0x0E, 1, 0x20, 0x01, 0xAA] 5 (g_message_router_request example_state) =
     Some (kCipErrorSuccess, req') \<and> request_data_size req' = 1"
proof -
  let ?req = "g_message_router_request example_state"
  let ?e = "(request_path ?req)\<lparr>path_size := 1, class_id := 1, instance_number := 0, attribute_number := 0\<rparr>"
  have d: "DecodePaddedEPath (request_path ?req) [1, 0x20, 0x01, 0xAA] = Some (kEipStatusOk, ?e, [0xAA], Some 3)"
    by (simp add: DecodePaddedEPath_def decode_segments.simps [of _ 0] decode_segments_done decode_segment_def)
  obtain req' where req': "CreateMessageRouterRequestStructure [0x0E, 1, 0x20, 0x01, 0xAA] 5 ?req = Some (kCipErrorSuccess, req')"
    by (simp add: CreateMessageRouterRequestStructure_def d scast_nonneg)
  from router_request_size [OF req'] d have "unat (request_data_size req') = 1" by auto
  with req' show ?thesis by (simp add: word_unat_eq_iff)
qed

text \<open>A message item of length 0 passes the length check of the router, because the length
  minus one is compared as an unsigned number: the request is accepted with a data size of
  4294967294 octets.\<close>

theorem router_accepts_empty_item:
  "CreateMessageRouterRequestStructure (s # 0 # r) 0 req =
     Some (kCipErrorSuccess, req\<lparr>req_service := s,
       request_path := (request_path req)\<lparr>path_size := 0, class_id := 0, instance_number := 0, attribute_number := 0\<rparr>,
       req_data := r, request_data_size := 4294967294\<rparr>)"
  by (simp add: CreateMessageRouterRequestStructure_def DecodePaddedEPath_def decode_segments_done)



subsection \<open>Requests that reach no service\<close>

lemma router_request_SomeD:
  "CreateMessageRouterRequestStructure data len req = Some (status, req') \<Longrightarrow> \<exists>b. data \<noteq> [] \<and> req_service req' = hd data"
  by (cases data) (auto simp: CreateMessageRouterRequestStructure_def bind_eq_Some_conv Let_def split: option.splits if_splits)

text \<open>The status of a request that reaches no service.\<close>

definition undelivered :: "CipUsint \<Rightarrow> CipMessageRouterRequest \<Rightarrow> 'e cip_state_scheme \<Rightarrow> CipUsint option" where
  "undelivered status req st = (
     if status \<noteq> kCipErrorSuccess then Some status
     else case GetRegisteredObject (ucast (class_id (request_path req))) st of
       None \<Rightarrow> Some kCipErrorPathDestinationUnknown
     | Some ob \<Rightarrow> (case GetCipInstance ob (instance_number (request_path req)) of
         None \<Rightarrow> Some kCipErrorPathDestinationUnknown
       | Some n \<Rightarrow> if req_service req \<in> service_number ` set (services (class_of n ob)) then None
                   else Some kCipErrorServiceNotSupported))"

lemma NotifyClass_undelivered:
  assumes wf: "object_wf ob"
    and reason: "(case GetCipInstance ob (instance_number (request_path req)) of
         None \<Rightarrow> Some kCipErrorPathDestinationUnknown
       | Some n \<Rightarrow> if req_service req \<in> service_number ` set (services (class_of n ob)) then None
                   else Some kCipErrorServiceNotSupported) = Some reason"
  shows "NotifyClass env ob req r session st = Some (kEipStatusOkSend, req, plain_header reason req r, st)"
proof (cases "GetCipInstance ob (instance_number (request_path req))")
  case None
  then show ?thesis
    using reason by (simp add: NotifyClass_def)
next
  case (Some n)
  let ?P = "\<lambda>s. req_service req = service_number s"
  have "first_index ?P (services (class_of n ob)) = None" and r: "reason = kCipErrorServiceNotSupported"
    using Some reason by (auto simp: first_index_None split: if_splits)
  moreover have "length (services (class_of n ob)) = unat (number_of_services (class_of n ob))"
    using object_wf_class_of [OF wf] by (simp add: class_wf_def)
  ultimately show ?thesis
    using Some scan_whole [of ?P "services (class_of n ob)"] by (simp add: NotifyClass_def Let_def)
qed

text \<open>C27: a request with a malformed path, for an unregistered class, an unknown instance or a
  service the class does not offer is always answered: the reply carries the service code with the
  reply bit, the status that names the reason, no additional status and, as the response is handed
  in without data, no data; nothing but the router's request buffer changes.\<close>

theorem router_error_reply:
  assumes "CreateMessageRouterRequestStructure data (of_int len) (g_message_router_request st) = Some (status, req)"
    and "undelivered status req st = Some reason"
    and "\<forall>ob \<in> set (g_first_object st). object_wf ob" and "used_message_length (message resp) = 0"
  shows "\<exists>resp'. NotifyMessageRouter env data len resp session st =
      Some (kEipStatusOkSend, resp', st\<lparr>g_message_router_request := req\<rparr>) \<and>
    general_status resp' = reason \<and> reply_service resp' = 0x80 OR hd data \<and>
    size_of_additional_status resp' = 0 \<and> reserved resp' = 0 \<and>
    used_message_length (message resp') = 0 \<and> sent_octets (message resp') = []"
proof -
  let ?st = "st\<lparr>g_message_router_request := req\<rparr>"
  have svc: "req_service req = hd data"
    using router_request_SomeD [OF assms(1)] by auto
  have reg: "GetRegisteredObject c ?st = GetRegisteredObject c st" for c
    by (simp add: GetRegisteredObject_def)
  show ?thesis
  proof (cases "status = kCipErrorSuccess")
    case False
    then show ?thesis
      using assms(1,2,4) by (simp add: NotifyMessageRouter_def undelivered_def router_error_def reply_code_def svc sent_octets_def)
  next
    case True
    show ?thesis
    proof (cases "GetRegisteredObject (ucast (class_id (request_path req))) st")
      case None
      then show ?thesis
        using True assms(1,2,4) by (simp add: NotifyMessageRouter_def undelivered_def router_error_def reply_code_def svc reg Let_def
            sent_octets_def)
    next
      case (Some ob)
      then have wf: "object_wf ob"
        using assms(3) by (auto simp: GetRegisteredObject_def find_Some_iff)
      have "NotifyClass env ob req r session ?st = Some (kEipStatusOkSend, req, plain_header reason req r, ?st)" for r
        using True Some assms(2) by (intro NotifyClass_undelivered [OF wf]) (simp add: undelivered_def)
      then show ?thesis
        using True Some assms(1) by (simp add: NotifyMessageRouter_def reg Let_def plain_header_def reply_code_def svc
            InitializeENIPMessage_def sent_octets_def)
    qed
  qed
qed

theorem router_error_reply_witness:
  "\<exists>resp' st'. NotifyMessageRouter example_env [0x4B, 1, 0x20, 0x71] 4 example_response 0 example_state =
      Some (kEipStatusOkSend, resp', st') \<and>
    general_status resp' = kCipErrorPathDestinationUnknown \<and> reply_service resp' = 0xCB \<and> sent_octets (message resp') = []"
proof -
  let ?req = "g_message_router_request example_state"
  let ?e = "(request_path ?req)\<lparr>path_size := 1, class_id := 0x71, instance_number := 0, attribute_number := 0\<rparr>"
  let ?r = "?req\<lparr>req_service := 0x4B, request_path := ?e, req_data := [], request_data_size := 0\<rparr>"
  have d: "DecodePaddedEPath (request_path ?req) [1, 0x20, 0x71] = Some (kEipStatusOk, ?e, [], Some 3)"
    by (simp add: DecodePaddedEPath_def decode_segments.simps [of _ 0] decode_segments_done decode_segment_def)
  then have c: "CreateMessageRouterRequestStructure [0x4B, 1, 0x20, 0x71] (of_int 4) ?req = Some (kCipErrorSuccess, ?r)"
    by (simp add: CreateMessageRouterRequestStructure_def scast_nonneg)
  have "undelivered kCipErrorSuccess ?r example_state = Some kCipErrorPathDestinationUnknown"
    by (simp add: undelivered_def GetRegisteredObject_def example_state_def example_object_def)
  moreover have "used_message_length (message example_response) = 0"
    by (simp add: example_response_def InitializeENIPMessage_def CipMessageRouterResponse.defs)
  ultimately show ?thesis
    using router_error_reply [OF c] example_object_wf by (fastforce simp: example_state_def)
qed


end
