(* ===== verification/ActiveConnections.thy ===== *)
theory ActiveConnections
  imports Cpf MessageRouter
begin

text \<open>
  The state of the communication stack and its list of active connections: the functions of
  \<^verbatim>\<open>cip/cipconnectionmanager.c\<close> that search and change the list, the searches of
  \<^verbatim>\<open>cip/appcontype.c\<close> and the close functions of \<^verbatim>\<open>cip/cipconnectionmanager.c\<close> and
  \<^verbatim>\<open>cip/cipioconnection.c\<close>.

  A pointer to a connection object is an index into \<open>connections\<close>: 0 to 5 is the pool of explicit
  connections, 6 the exclusive owner, 7 to 9 the input only and 10 to 12 the listen only
  connections. What the stack does to sockets is recorded in \<open>net_events\<close>, and \<open>os_calls\<close> counts
  the calls into the operating system whose results are not determined by the state.
\<close>

subsection \<open>State\<close>

abbreviation (input) OPENER_CIP_NUM_EXPLICIT_CONNS :: nat where "OPENER_CIP_NUM_EXPLICIT_CONNS \<equiv> 6"
abbreviation (input) OPENER_NUMBER_OF_SUPPORTED_SESSIONS :: nat where "OPENER_NUMBER_OF_SUPPORTED_SESSIONS \<equiv> 32"

datatype OpenConnectionFunction = EstablishClass3ConnectionFn | EstablishIoConnectionFn

record ConnectionManagementHandling =
  handled_class_id :: CipUdint
  open_connection_function :: "OpenConnectionFunction option"

record SocketTimer =
  timer_socket :: int
  last_update :: MilliSeconds

datatype net_event = SocketShutDown int | SocketClosed int | DatagramSent sockaddr_in "CipOctet list" | StreamSent int "CipOctet list"

text \<open>The traffic counters of the interface.\<close>

record NetworkInterfaceCounters =
  in_octets :: CipUdint
  in_ucast_packets :: CipUdint
  in_nucast_packets :: CipUdint
  in_discards :: CipUdint
  in_errors :: CipUdint
  in_unknown_protos :: CipUdint
  out_octets :: CipUdint
  out_ucast_packets :: CipUdint
  out_nucast_packets :: CipUdint
  out_discards :: CipUdint
  out_errors :: CipUdint

text \<open>The assembly numbers of an application connection.\<close>

record connection_point =
  output_assembly :: CipUdint
  input_assembly :: CipUdint
  config_assembly :: CipUdint

record stack_state = cip_state +
  connections :: "CipConnectionObject list"
  connection_list :: DoublyLinkedList
  g_dummy_connection_object :: CipConnectionObject
  g_incarnation_id :: CipUdint
  connection_id :: CipUint
  g_connection_management_list :: "ConnectionManagementHandling list"
  g_exlusive_owner_connections :: connection_point
  g_input_only_connections :: connection_point
  g_listen_only_connections :: connection_point
  g_common_packet_format_data_item :: CipCommonPacketFormatData
  g_config_data_buffer :: "CipOctet list option"
  g_config_data_length :: CipUdint
  network_ip_address :: CipUdint
  network_mask :: CipUdint
  g_registered_sessions :: "int list"
  g_timestamps :: "SocketTimer list"
  g_actual_time :: MilliSeconds
  originator_sockaddr :: sockaddr_in
  udp_io_messaging :: int
  active_tcp_socket :: int
  starting_multicast_address :: CipUdint
  s_consume_run_idle :: bool
  s_produce_run_idle :: bool
  g_run_idle_state :: CipUdint
  master_socket :: "int set"
  highest_socket_handle :: int
  g_network_interface_counters :: NetworkInterfaceCounters
  os_calls :: nat
  net_events :: "net_event list"

definition get_connection :: "nat \<Rightarrow> 'e stack_state_scheme \<Rightarrow> CipConnectionObject run" where
  "get_connection d st = array_get (connections st) d"

definition update_connection :: "nat \<Rightarrow> (CipConnectionObject \<Rightarrow> CipConnectionObject run) \<Rightarrow> 'e stack_state_scheme \<Rightarrow>
    'e stack_state_scheme run" where
  "update_connection d f st = do {
     co \<leftarrow> get_connection d st;
     co \<leftarrow> f co;
     cs \<leftarrow> array_set (connections st) d co;
     Some (st\<lparr>connections := cs\<rparr>) }"

definition note_event :: "net_event \<Rightarrow> 'e stack_state_scheme \<Rightarrow> 'e stack_state_scheme" where
  "note_event e st = st\<lparr>net_events := net_events st @ [e]\<rparr>"

subsection \<open>Sockets and their timers (generic_networkhandler.c, socket_timer.c)\<close>

definition SocketTimerSetSocket :: "int \<Rightarrow> SocketTimer \<Rightarrow> SocketTimer" where
  "SocketTimerSetSocket s t = t\<lparr>timer_socket := s\<rparr>"

definition SocketTimerSetLastUpdate :: "MilliSeconds \<Rightarrow> SocketTimer \<Rightarrow> SocketTimer" where
  "SocketTimerSetLastUpdate now t = t\<lparr>last_update := now\<rparr>"

definition SocketTimerGetLastUpdate :: "SocketTimer \<Rightarrow> MilliSeconds" where
  "SocketTimerGetLastUpdate t = last_update t"

definition SocketTimerClear :: "SocketTimer \<Rightarrow> SocketTimer" where
  "SocketTimerClear t = t\<lparr>timer_socket := kEipInvalidSocket, last_update := 0\<rparr>"

definition SocketTimerArrayInitialize :: "SocketTimer list \<Rightarrow> SocketTimer list" where
  "SocketTimerArrayInitialize ts = map SocketTimerClear ts"

definition SocketTimerArrayGetSocketTimer :: "SocketTimer list \<Rightarrow> int \<Rightarrow> nat option" where
  "SocketTimerArrayGetSocketTimer ts s = first_index (\<lambda>t. s = timer_socket t) ts"

definition SocketTimerArrayGetEmptySocketTimer :: "SocketTimer list \<Rightarrow> nat option" where
  "SocketTimerArrayGetEmptySocketTimer ts = SocketTimerArrayGetSocketTimer ts kEipInvalidSocket"

text \<open>The loop clears timers until none carries the socket; a cleared timer carries the invalid socket.\<close>

partial_function (option) remove_timers :: "int \<Rightarrow> SocketTimer list \<Rightarrow> SocketTimer list option" where
  "remove_timers s ts = (case SocketTimerArrayGetSocketTimer ts s of
       None \<Rightarrow> Some ts
     | Some i \<Rightarrow> remove_timers s (ts[i := SocketTimerClear (ts ! i)]))"

definition RemoveSocketTimerFromList :: "int \<Rightarrow> 'e stack_state_scheme \<Rightarrow> 'e stack_state_scheme run" where
  "RemoveSocketTimerFromList s st = do {
     ts \<leftarrow> remove_timers s (g_timestamps st);
     Some (st\<lparr>g_timestamps := ts\<rparr>) }"

definition CloseSocket :: "int \<Rightarrow> 'e stack_state_scheme \<Rightarrow> 'e stack_state_scheme" where
  "CloseSocket s st = (if s \<noteq> kEipInvalidSocket
     then note_event (SocketClosed s) (st\<lparr>master_socket := master_socket st - {s}\<rparr>) else st)"

definition CloseUdpSocket :: "int \<Rightarrow> 'e stack_state_scheme \<Rightarrow> 'e stack_state_scheme" where
  "CloseUdpSocket s st = CloseSocket s st"

definition CloseTcpSocket :: "int \<Rightarrow> 'e stack_state_scheme \<Rightarrow> 'e stack_state_scheme run" where
  "CloseTcpSocket s st = do {
     let st = note_event (SocketShutDown s) st;
     st \<leftarrow> RemoveSocketTimerFromList s st;
     Some (CloseSocket s st) }"

subsection \<open>Traffic counters (generic_networkhandler.c)\<close>

definition NetworkResetInterfaceCounters :: NetworkInterfaceCounters where
  "NetworkResetInterfaceCounters = \<lparr>in_octets = 0, in_ucast_packets = 0, in_nucast_packets = 0, in_discards = 0, in_errors = 0,
     in_unknown_protos = 0, out_octets = 0, out_ucast_packets = 0, out_nucast_packets = 0, out_discards = 0, out_errors = 0\<rparr>"

definition on_counters :: "(NetworkInterfaceCounters \<Rightarrow> NetworkInterfaceCounters) \<Rightarrow> 'e stack_state_scheme \<Rightarrow> 'e stack_state_scheme" where
  "on_counters f st = st\<lparr>g_network_interface_counters := f (g_network_interface_counters st)\<rparr>"

definition NetworkCountersRecordRx :: "size_t \<Rightarrow> bool \<Rightarrow> 'e stack_state_scheme \<Rightarrow> 'e stack_state_scheme" where
  "NetworkCountersRecordRx octets is_multicast = on_counters (\<lambda>c. (if is_multicast
       then c\<lparr>in_nucast_packets := in_nucast_packets c + 1\<rparr> else c\<lparr>in_ucast_packets := in_ucast_packets c + 1\<rparr>)
     \<lparr>in_octets := in_octets c + octets\<rparr>)"

definition NetworkCountersRecordTx :: "size_t \<Rightarrow> bool \<Rightarrow> 'e stack_state_scheme \<Rightarrow> 'e stack_state_scheme" where
  "NetworkCountersRecordTx octets is_multicast = on_counters (\<lambda>c. (if is_multicast
       then c\<lparr>out_nucast_packets := out_nucast_packets c + 1\<rparr> else c\<lparr>out_ucast_packets := out_ucast_packets c + 1\<rparr>)
     \<lparr>out_octets := out_octets c + octets\<rparr>)"

definition NetworkCountersRecordRxError :: "'e stack_state_scheme \<Rightarrow> 'e stack_state_scheme" where
  "NetworkCountersRecordRxError = on_counters (\<lambda>c. c\<lparr>in_errors := in_errors c + 1\<rparr>)"

definition NetworkCountersRecordTxError :: "'e stack_state_scheme \<Rightarrow> 'e stack_state_scheme" where
  "NetworkCountersRecordTxError = on_counters (\<lambda>c. c\<lparr>out_errors := out_errors c + 1\<rparr>)"

definition NetworkCountersRecordRxDiscard :: "'e stack_state_scheme \<Rightarrow> 'e stack_state_scheme" where
  "NetworkCountersRecordRxDiscard = on_counters (\<lambda>c. c\<lparr>in_discards := in_discards c + 1\<rparr>)"

definition NetworkCountersRecordTxDiscard :: "'e stack_state_scheme \<Rightarrow> 'e stack_state_scheme" where
  "NetworkCountersRecordTxDiscard = on_counters (\<lambda>c. c\<lparr>out_discards := out_discards c + 1\<rparr>)"

lemmas counter_defs = NetworkCountersRecordRx_def NetworkCountersRecordTx_def NetworkCountersRecordRxError_def
  NetworkCountersRecordTxError_def NetworkCountersRecordRxDiscard_def NetworkCountersRecordTxDiscard_def on_counters_def

subsection \<open>The list of active connections\<close>

definition list_head :: "'e stack_state_scheme \<Rightarrow> nat option" where
  "list_head st = first_node (connection_list st)"

text \<open>The connection object of a node.\<close>

definition node_object :: "nat \<Rightarrow> 'e stack_state_scheme \<Rightarrow> nat run" where
  "node_object i st = do { n \<leftarrow> array_get (nodes (connection_list st)) i; node_data n }"

text \<open>The first listed connection object with a property.\<close>

definition find_connection :: "(CipConnectionObject \<Rightarrow> bool) \<Rightarrow> 'e stack_state_scheme \<Rightarrow> nat option run" where
  "find_connection P st = do {
     found \<leftarrow> find_from (\<lambda>d. P (connections st ! d)) (list_head st) (connection_list st);
     (case found of
        None \<Rightarrow> Some None
      | Some i \<Rightarrow> do { d \<leftarrow> node_object i st; Some (Some d) }) }"

definition GetConnectedObject :: "CipUdint \<Rightarrow> 'e stack_state_scheme \<Rightarrow> nat option run" where
  "GetConnectedObject cid st = find_connection (\<lambda>co.
     ConnectionObjectGetState co = kConnectionObjectStateEstablished \<and>
     cid = ConnectionObjectGetCipConsumedConnectionID co) st"

definition GetConnectedOutputAssembly :: "CipUdint \<Rightarrow> 'e stack_state_scheme \<Rightarrow> nat option run" where
  "GetConnectedOutputAssembly output_assembly_id st = find_connection (\<lambda>co.
     ConnectionObjectGetInstanceType co = kConnectionObjectInstanceTypeIOExclusiveOwner \<and>
     (ConnectionObjectGetState co = kConnectionObjectStateEstablished \<or>
      ConnectionObjectGetState co = kConnectionObjectStateTimedOut) \<and>
     output_assembly_id = ucast (cp_instance_id (produced_path co))) st"

definition CheckForExistingConnection :: "CipConnectionObject \<Rightarrow> 'e stack_state_scheme \<Rightarrow> nat option run" where
  "CheckForExistingConnection connection_object st = find_connection (\<lambda>co.
     ConnectionObjectGetState co = kConnectionObjectStateEstablished \<and> EqualConnectionTriad connection_object co) st"

definition IsConnectedOutputAssembly :: "CipInstanceNum \<Rightarrow> 'e stack_state_scheme \<Rightarrow> bool run" where
  "IsConnectedOutputAssembly n st = do {
     found \<leftarrow> find_connection (\<lambda>co. n = cp_instance_id (consumed_path co) \<and> ConnectionObjectIsTypeIOConnection co) st;
     Some (found \<noteq> None) }"

definition ConnectionWithSameConfigPointExists :: "CipUdint \<Rightarrow> 'e stack_state_scheme \<Rightarrow> bool run" where
  "ConnectionWithSameConfigPointExists config_point st = do {
     found \<leftarrow> find_connection (\<lambda>co. config_point = ucast (cp_instance_id (configuration_path co))) st;
     Some (found \<noteq> None) }"

definition GetExistingProducerIoConnection :: "bool \<Rightarrow> CipUdint \<Rightarrow> 'e stack_state_scheme \<Rightarrow> nat option run" where
  "GetExistingProducerIoConnection multicast_only input_point st = find_connection (\<lambda>co.
     ConnectionObjectIsTypeIOConnection co \<and> input_point = ucast (cp_instance_id (produced_path co)) \<and>
     socket_producing co \<noteq> kEipInvalidSocket \<and>
     (ConnectionObjectGetTToOConnectionType co = kConnectionObjectConnectionTypeMulticast \<or>
      \<not> multicast_only \<and> ConnectionObjectGetTToOConnectionType co = kConnectionObjectConnectionTypePointToPoint)) st"

definition GetNextNonControlMasterConnection :: "CipUdint \<Rightarrow> 'e stack_state_scheme \<Rightarrow> nat option run" where
  "GetNextNonControlMasterConnection input_point st = find_connection (\<lambda>co.
     ConnectionObjectIsTypeNonLOIOConnection co \<and> ConnectionObjectGetState co = kConnectionObjectStateEstablished \<and>
     input_point = ucast (cp_instance_id (produced_path co)) \<and>
     ConnectionObjectGetTToOConnectionType co = kConnectionObjectConnectionTypeMulticast \<and>
     socket_producing co = kEipInvalidSocket) st"

definition AddNewActiveConnection :: "nat \<Rightarrow> 'e stack_state_scheme \<Rightarrow> 'e stack_state_scheme run" where
  "AddNewActiveConnection d st = do {
     l \<leftarrow> DoublyLinkedListInsertAtHead d (connection_list st);
     update_connection d (ConnectionObjectSetState kConnectionObjectStateEstablished) (st\<lparr>connection_list := l\<rparr>) }"

definition RemoveFromActiveConnections :: "nat \<Rightarrow> 'e stack_state_scheme \<Rightarrow> 'e stack_state_scheme run" where
  "RemoveFromActiveConnections d st = do {
     found \<leftarrow> find_from (\<lambda>x. x = d) (list_head st) (connection_list st);
     (case found of
        None \<Rightarrow> Some st
      | Some i \<Rightarrow> do {
          l \<leftarrow> DoublyLinkedListRemoveNode i (connection_list st);
          Some (st\<lparr>connection_list := l\<rparr>) }) }"

definition TriggerConnections :: "CipUdint \<Rightarrow> CipUdint \<Rightarrow> 'e stack_state_scheme \<Rightarrow> (EipStatus \<times> 'e stack_state_scheme) run" where
  "TriggerConnections output_asm input_asm st = do {
     found \<leftarrow> find_connection (\<lambda>co. output_asm = ucast (cp_instance_id (consumed_path co)) \<and>
       input_asm = ucast (cp_instance_id (produced_path co))) st;
     (case found of
        None \<Rightarrow> Some (kEipStatusError, st)
      | Some d \<Rightarrow> do {
          co \<leftarrow> get_connection d st;
          if ConnectionObjectGetTransportClassTriggerProductionTrigger co =
             kConnectionObjectTransportClassTriggerProductionTriggerApplicationObject
          then do {
            st \<leftarrow> update_connection d (\<lambda>co. Some (co\<lparr>transmission_trigger_timer := ucast (production_inhibit_time co)\<rparr>)) st;
            Some (kEipStatusOk, st) }
          else Some (kEipStatusError, st) }) }"

subsection \<open>Closing connections\<close>

definition CloseConnection :: "nat \<Rightarrow> 'e stack_state_scheme \<Rightarrow> 'e stack_state_scheme run" where
  "CloseConnection d st = do {
     co \<leftarrow> get_connection d st;
     st \<leftarrow> (if ConnectionObjectGetTransportClassTriggerTransportClass co \<noteq>
              kConnectionObjectTransportClassTriggerTransportClass3
           then update_connection d (\<lambda>co. Some (co\<lparr>socket_consuming := kEipInvalidSocket, socket_producing := kEipInvalidSocket\<rparr>))
             (CloseUdpSocket (socket_producing co) (CloseUdpSocket (socket_consuming co) st))
           else Some st);
     st \<leftarrow> RemoveFromActiveConnections d st;
     update_connection d ConnectionObjectInitializeEmpty st }"

definition CloseCommunicationChannelsAndRemoveFromActiveConnectionsList :: "nat \<Rightarrow> 'e stack_state_scheme \<Rightarrow>
    'e stack_state_scheme run" where
  "CloseCommunicationChannelsAndRemoveFromActiveConnectionsList d st = do {
     co \<leftarrow> get_connection d st;
     let st = (if socket_consuming co \<noteq> kEipInvalidSocket then CloseUdpSocket (socket_consuming co) st else st);
     let st = (if socket_producing co \<noteq> kEipInvalidSocket then CloseUdpSocket (socket_producing co) st else st);
     st \<leftarrow> RemoveFromActiveConnections d st;
     update_connection d ConnectionObjectInitializeEmpty st }"

text \<open>\<open>True\<close> is the result 1: there was no connection to transfer to.\<close>

definition transfer_master_connection :: "nat \<Rightarrow> 'e stack_state_scheme \<Rightarrow> (bool \<times> 'e stack_state_scheme) run" where
  "transfer_master_connection d st = do {
     co \<leftarrow> get_connection d st;
     active \<leftarrow> GetNextNonControlMasterConnection (ucast (cp_instance_id (produced_path co))) st;
     (case active of
        None \<Rightarrow> Some (True, st)
      | Some a \<Rightarrow> do {
          st \<leftarrow> update_connection a (\<lambda>x. Some (x\<lparr>socket_producing := socket_producing co\<rparr>)) st;
          st \<leftarrow> update_connection d (\<lambda>x. Some (x\<lparr>socket_producing := kEipInvalidSocket\<rparr>)) st;
          st \<leftarrow> update_connection a (\<lambda>x. Some (x\<lparr>remote_address := remote_address co,
            eip_level_sequence_count_producing := eip_level_sequence_count_producing co,
            sequence_count_producing := sequence_count_producing co,
            transmission_trigger_timer := transmission_trigger_timer co\<rparr>)) st;
          Some (False, st) }) }"

text \<open>
  Whether a connection produces for all listeners of its input assembly, and the body of
  \<^verbatim>\<open>CloseIoConnection\<close> with the call of \<^verbatim>\<open>CloseAllConnectionsForInputWithSameType\<close> as a parameter:
  the two functions call each other through the function pointers of the connections.
\<close>

definition controls_production :: "CipConnectionObject \<Rightarrow> bool" where
  "controls_production co \<longleftrightarrow>
     (ConnectionObjectGetInstanceType co = kConnectionObjectInstanceTypeIOExclusiveOwner \<or>
      ConnectionObjectGetInstanceType co = kConnectionObjectInstanceTypeIOInputOnly) \<and>
     ConnectionObjectGetTToOConnectionType co = kConnectionObjectConnectionTypeMulticast \<and>
     socket_producing co \<noteq> kEipInvalidSocket"

definition close_io_body :: "(CipUdint \<Rightarrow> 'e stack_state_scheme \<Rightarrow> 'e stack_state_scheme option) \<Rightarrow> nat \<Rightarrow>
    'e stack_state_scheme \<Rightarrow> 'e stack_state_scheme option" where
  "close_io_body close_listeners d st = do {
     co \<leftarrow> get_connection d st;
     st \<leftarrow> update_connection d (ConnectionObjectSetState kConnectionObjectStateNonExistent) st;
     st \<leftarrow> (if controls_production co then do {
             (failed, st) \<leftarrow> transfer_master_connection d st;
             if failed then close_listeners (ucast (cp_instance_id (produced_path co))) st else Some st }
           else Some st);
     CloseCommunicationChannelsAndRemoveFromActiveConnectionsList d st }"

lemma close_io_body_mono [partial_function_mono]:
  assumes "\<And>ip s. mono_option (\<lambda>f. F f ip s)"
  shows "mono_option (\<lambda>f. close_io_body (F f) d st)"
  unfolding close_io_body_def
  by (intro partial_function_mono assms) (case_tac y, simp only: prod.case, intro partial_function_mono assms)

partial_function (option) close_all_from :: "CipUdint \<Rightarrow> ConnectionObjectInstanceType \<Rightarrow> nat option \<Rightarrow>
    'e stack_state_scheme \<Rightarrow> 'e stack_state_scheme option" where
  "close_all_from input_point ty node st = (case node of
       None \<Rightarrow> Some st
     | Some i \<Rightarrow> do {
         n \<leftarrow> array_get (nodes (connection_list st)) i;
         d \<leftarrow> node_data n;
         co \<leftarrow> get_connection d st;
         if ConnectionObjectGetInstanceType co = ty \<and> input_point = ucast (cp_instance_id (produced_path co))
         then do {
           f \<leftarrow> connection_close_function co;
           st \<leftarrow> (case f of
               CloseConnectionFn \<Rightarrow> CloseConnection d st
             | CloseIoConnectionFn \<Rightarrow> close_io_body
                 (\<lambda>ip s. close_all_from ip kConnectionObjectInstanceTypeIOListenOnly (list_head s) s) d st);
           close_all_from input_point ty (next_node n) st }
         else close_all_from input_point ty (next_node n) st })"

definition CloseAllConnectionsForInputWithSameType :: "CipUdint \<Rightarrow> ConnectionObjectInstanceType \<Rightarrow>
    'e stack_state_scheme \<Rightarrow> 'e stack_state_scheme run" where
  "CloseAllConnectionsForInputWithSameType input_point ty st = close_all_from input_point ty (list_head st) st"

definition CloseIoConnection :: "nat \<Rightarrow> 'e stack_state_scheme \<Rightarrow> 'e stack_state_scheme run" where
  "CloseIoConnection = close_io_body
     (\<lambda>ip. CloseAllConnectionsForInputWithSameType ip kConnectionObjectInstanceTypeIOListenOnly)"

text \<open>The call through \<^verbatim>\<open>connection_close_function\<close>; a null pointer is a fault.\<close>

definition call_close_function :: "nat \<Rightarrow> 'e stack_state_scheme \<Rightarrow> 'e stack_state_scheme run" where
  "call_close_function d st = do {
     co \<leftarrow> get_connection d st;
     f \<leftarrow> connection_close_function co;
     (case f of CloseConnectionFn \<Rightarrow> CloseConnection d st | CloseIoConnectionFn \<Rightarrow> CloseIoConnection d st) }"

partial_function (option) close_while_listed :: "nat option \<Rightarrow> 'e stack_state_scheme \<Rightarrow> 'e stack_state_scheme option" where
  "close_while_listed node st = (case node of
       None \<Rightarrow> Some st
     | Some i \<Rightarrow> do {
         d \<leftarrow> node_object i st;
         st \<leftarrow> call_close_function d st;
         close_while_listed (list_head st) st })"

definition CloseAllConnections :: "'e stack_state_scheme \<Rightarrow> 'e stack_state_scheme run" where
  "CloseAllConnections st = close_while_listed (list_head st) st"

subsection \<open>Timers\<close>

definition clear_timers :: "int \<Rightarrow> SocketTimer list \<Rightarrow> SocketTimer list" where
  "clear_timers s ts = map (\<lambda>t. if timer_socket t = s then SocketTimerClear t else t) ts"

lemma remove_timers_valid:
  assumes "s \<noteq> kEipInvalidSocket"
  shows "remove_timers s ts = Some (clear_timers s ts)"
proof (induction "length (filter (\<lambda>t. timer_socket t = s) ts)" arbitrary: ts rule: less_induct)
  case less
  show ?case
  proof (cases "SocketTimerArrayGetSocketTimer ts s")
    case None
    then have "\<forall>t \<in> set ts. timer_socket t \<noteq> s"
      by (auto simp: SocketTimerArrayGetSocketTimer_def first_index_None)
    then show ?thesis
      using None by (subst remove_timers.simps) (simp add: clear_timers_def map_idI)
  next
    case (Some i)
    then have i: "i < length ts" "timer_socket (ts ! i) = s"
      using first_index_SomeD by (fastforce simp: SocketTimerArrayGetSocketTimer_def)+
    let ?ts = "ts[i := SocketTimerClear (ts ! i)]"
    have "length (filter (\<lambda>t. timer_socket t = s) ts) = length (filter (\<lambda>t. timer_socket t = s) (take i ts)) + 1 +
        length (filter (\<lambda>t. timer_socket t = s) (drop (Suc i) ts))"
      by (subst id_take_nth_drop [OF i(1)]) (simp add: i(2))
    moreover have "length (filter (\<lambda>t. timer_socket t = s) ?ts) = length (filter (\<lambda>t. timer_socket t = s) (take i ts)) +
        length (filter (\<lambda>t. timer_socket t = s) (drop (Suc i) ts))"
      using assms by (simp add: upd_conv_take_nth_drop [OF i(1)] SocketTimerClear_def)
    ultimately have "length (filter (\<lambda>t. timer_socket t = s) ?ts) < length (filter (\<lambda>t. timer_socket t = s) ts)"
      by simp
    from less [OF this] have "remove_timers s ?ts = Some (clear_timers s ?ts)" .
    moreover have "clear_timers s ?ts = clear_timers s ts"
      using i assms by (auto simp: clear_timers_def list_eq_iff_nth_eq nth_list_update SocketTimerClear_def)
    ultimately show ?thesis
      using Some by (subst remove_timers.simps) simp
  qed
qed

text \<open>With the invalid socket the loop never ends while there is a free timer.\<close>

lemma remove_timers_invalid:
  assumes "remove_timers s ts = Some ts'"
  shows "s = kEipInvalidSocket \<longrightarrow> (\<forall>t \<in> set ts. timer_socket t \<noteq> kEipInvalidSocket)"
proof (rule remove_timers.raw_induct [OF _ assms, where P = "\<lambda>s ts _. s = kEipInvalidSocket \<longrightarrow>
    (\<forall>t \<in> set ts. timer_socket t \<noteq> kEipInvalidSocket)"])
  fix f s ts ts'
  assume IH: "\<And>s ts ts'. f s ts = Some ts' \<Longrightarrow> s = kEipInvalidSocket \<longrightarrow> (\<forall>t \<in> set ts. timer_socket t \<noteq> kEipInvalidSocket)"
    and step: "(case SocketTimerArrayGetSocketTimer ts s of None \<Rightarrow> Some ts | Some i \<Rightarrow> f s (ts[i := SocketTimerClear (ts ! i)])) = Some ts'"
  show "s = kEipInvalidSocket \<longrightarrow> (\<forall>t \<in> set ts. timer_socket t \<noteq> kEipInvalidSocket)"
  proof (cases "SocketTimerArrayGetSocketTimer ts s")
    case None
    then show ?thesis by (auto simp: SocketTimerArrayGetSocketTimer_def first_index_None)
  next
    case (Some i)
    then have "i < length ts"
      using first_index_SomeD by (fastforce simp: SocketTimerArrayGetSocketTimer_def)
    then have "SocketTimerClear (ts ! i) \<in> set (ts[i := SocketTimerClear (ts ! i)])"
      by (simp add: set_update_memI)
    moreover have "f s (ts[i := SocketTimerClear (ts ! i)]) = Some ts'" using step Some by simp
    note IH [OF this]
    ultimately show ?thesis by (auto simp: SocketTimerClear_def)
  qed
qed

lemma CloseTcpSocket_hangs:
  "\<exists>t \<in> set (g_timestamps st). timer_socket t = kEipInvalidSocket \<Longrightarrow> CloseTcpSocket kEipInvalidSocket st = None"
  using remove_timers_invalid [of kEipInvalidSocket "g_timestamps st"]
  by (cases "remove_timers kEipInvalidSocket (g_timestamps st)")
    (auto simp: CloseTcpSocket_def RemoveSocketTimerFromList_def note_event_def)

definition tcp_closed :: "int \<Rightarrow> 'e stack_state_scheme \<Rightarrow> 'e stack_state_scheme" where
  "tcp_closed s st = st\<lparr>g_timestamps := clear_timers s (g_timestamps st), master_socket := master_socket st - {s},
     net_events := net_events st @ [SocketShutDown s, SocketClosed s]\<rparr>"

lemma CloseTcpSocket_valid: "s \<noteq> kEipInvalidSocket \<Longrightarrow> CloseTcpSocket s st = Some (tcp_closed s st)"
  by (simp add: CloseTcpSocket_def RemoveSocketTimerFromList_def remove_timers_valid CloseSocket_def note_event_def tcp_closed_def)

subsection \<open>The active connections as a sequence\<close>

definition active_list :: "'e stack_state_scheme \<Rightarrow> nat list \<Rightarrow> bool" where
  "active_list st ds \<longleftrightarrow> (\<exists>is. dll_wf (connection_list st) is \<and> dll_data (connection_list st) is = ds)"

definition list_room :: "'e stack_state_scheme \<Rightarrow> nat" where
  "list_room st = length (nodes (connection_list st))"

lemma linked_unique: "linked ns p is None \<Longrightarrow> linked ns p js None \<Longrightarrow> head_or is None = head_or js None \<Longrightarrow> is = js"
proof (induction "is" arbitrary: p js)
  case Nil
  then show ?case by (cases js) auto
next
  case (Cons i "is")
  from Cons.prems(3) obtain js' where js: "js = i # js'" by (cases js) auto
  with Cons.prems(1,2) have "linked ns (Some i) is None" "linked ns (Some i) js' None" "head_or is None = head_or js' None"
    by auto
  from Cons.IH [OF this] js show ?case by simp
qed

lemma active_list_unique: "active_list st ds \<Longrightarrow> active_list st ds' \<Longrightarrow> ds = ds'"
  unfolding active_list_def dll_wf_def by (metis linked_unique)

lemma find_map_nodes: "find (\<lambda>i. P (f i)) is = Some i \<Longrightarrow> find P (map f is) = Some (f i)"
  "find (\<lambda>i. P (f i)) is = None \<Longrightarrow> find P (map f is) = None"
  by (induction "is") (auto split: if_splits)

lemma dll_wf_find:
  assumes "dll_wf l is"
  shows "find_from P (first_node l) l = Some (find (\<lambda>i. P (the (node_data (nodes l ! i)))) is)"
  using assms find_from_linked [of l None "is" P] by (simp add: dll_wf_def)

lemma find_connection_active:
  assumes "active_list st ds"
  shows "find_connection P st = Some (find (\<lambda>d. P (connections st ! d)) ds)"
proof -
  obtain "is" where wf: "dll_wf (connection_list st) is" and ds: "ds = dll_data (connection_list st) is"
    using assms by (auto simp: active_list_def)
  let ?c = "\<lambda>i. the (node_data (nodes (connection_list st) ! i))"
  let ?P = "\<lambda>d. P (connections st ! d)"
  have f: "find_from ?P (list_head st) (connection_list st) = Some (find (\<lambda>i. ?P (?c i)) is)"
    using dll_wf_find [OF wf, of ?P] by (simp add: list_head_def)
  show ?thesis
  proof (cases "find (\<lambda>i. ?P (?c i)) is")
    case None
    then show ?thesis
      using f find_map_nodes(2) [of ?P ?c "is"] by (simp add: find_connection_def ds dll_data_def)
  next
    case (Some i)
    then have "i \<in> set is" by (auto simp: find_Some_iff)
    then have "i < length (nodes (connection_list st))" "node_data (nodes (connection_list st) ! i) \<noteq> None"
      using wf linked_bound by (auto simp: dll_wf_def)
    then have "node_object i st = Some (?c i)" by (auto simp: node_object_def)
    then show ?thesis
      using f Some find_map_nodes(1) [of ?P ?c "is" i] by (simp add: find_connection_def ds dll_data_def)
  qed
qed

lemma insert_active:
  assumes "active_list st ds" and "length ds < list_room st"
  shows "\<exists>l. DoublyLinkedListInsertAtHead d (connection_list st) = Some l \<and> length (nodes l) = list_room st \<and>
    (\<forall>st' :: 'f stack_state_scheme. connection_list st' = l \<longrightarrow> active_list st' (d # ds))"
proof -
  obtain "is" where wf: "dll_wf (connection_list st) is" and ds: "ds = dll_data (connection_list st) is"
    using assms(1) by (auto simp: active_list_def)
  then have "length is < length (nodes (connection_list st))" using assms(2) by (simp add: dll_data_def list_room_def)
  from InsertAtHead_wf [OF wf this] show ?thesis
    by (auto simp: active_list_def list_room_def ds) metis
qed

lemma remove_active_node:
  assumes wf: "dll_wf (connection_list st) (xs @ i # ys)" and i: "node_content (connection_list st) i = d"
    and xs: "d \<notin> set (dll_data (connection_list st) xs)"
  shows "\<exists>l. RemoveFromActiveConnections d st = Some (st\<lparr>connection_list := l\<rparr>) \<and> dll_wf l (xs @ ys) \<and>
    dll_data l (xs @ ys) = dll_data (connection_list st) xs @ dll_data (connection_list st) ys \<and>
    nodes l ! i = null_node \<and> length (nodes l) = list_room st"
proof -
  have "\<forall>x \<in> set xs. node_content (connection_list st) x \<noteq> d"
    using xs by (auto simp: dll_data_content)
  then have "find (\<lambda>i. node_content (connection_list st) i = d) (xs @ i # ys) = Some i"
    using i by (induction xs) auto
  then have "find_from (\<lambda>x. x = d) (list_head st) (connection_list st) = Some (Some i)"
    using dll_wf_find [OF wf, of "\<lambda>x. x = d"] by (simp add: list_head_def node_content_def)
  with RemoveNode_wf [OF wf] show ?thesis
    by (auto simp: RemoveFromActiveConnections_def list_room_def)
qed

lemma active_list_split:
  assumes "active_list st ds" and "d \<in> set ds"
  obtains xs i ys where "dll_wf (connection_list st) (xs @ i # ys)" "node_content (connection_list st) i = d"
    "d \<notin> set (dll_data (connection_list st) xs)"
    "ds = dll_data (connection_list st) xs @ d # dll_data (connection_list st) ys"
proof -
  obtain "is" where wf: "dll_wf (connection_list st) is" and ds: "ds = map (node_content (connection_list st)) is"
    using assms(1) by (auto simp: active_list_def dll_data_content)
  obtain us vs where "ds = us @ d # vs" "d \<notin> set us" using split_list_first [OF assms(2)] by blast
  then obtain xs i ys where "is = xs @ i # ys" "us = map (node_content (connection_list st)) xs"
      "d = node_content (connection_list st) i" "vs = map (node_content (connection_list st)) ys"
    using ds by (auto simp: map_eq_append_conv map_eq_Cons_conv Cons_eq_map_conv append_eq_map_conv)
  with wf \<open>ds = us @ d # vs\<close> \<open>d \<notin> set us\<close> show ?thesis
    by (intro that [of xs i ys]) (auto simp: dll_data_content)
qed

lemma remove_active:
  assumes "active_list st ds"
  shows "\<exists>l. RemoveFromActiveConnections d st = Some (st\<lparr>connection_list := l\<rparr>) \<and> length (nodes l) = list_room st \<and>
    (\<forall>st' :: 'f stack_state_scheme. connection_list st' = l \<longrightarrow> active_list st' (remove1 d ds))"
proof (cases "d \<in> set ds")
  case True
  from assms True obtain xs i ys where n: "dll_wf (connection_list st) (xs @ i # ys)"
      "node_content (connection_list st) i = d" "d \<notin> set (dll_data (connection_list st) xs)"
      "ds = dll_data (connection_list st) xs @ d # dll_data (connection_list st) ys"
    by (rule active_list_split)
  from remove_active_node [OF n(1,2,3)] obtain l where
      l: "RemoveFromActiveConnections d st = Some (st\<lparr>connection_list := l\<rparr>)" "dll_wf l (xs @ ys)"
      "dll_data l (xs @ ys) = dll_data (connection_list st) xs @ dll_data (connection_list st) ys"
      "length (nodes l) = list_room st"
    by auto
  moreover have "remove1 d ds = dll_data l (xs @ ys)" using n(3,4) l(3) by (simp add: remove1_append)
  ultimately show ?thesis by (intro exI [of _ l]) (auto simp: active_list_def)
next
  case False
  obtain "is" where wf: "dll_wf (connection_list st) is" and ds: "ds = map (node_content (connection_list st)) is"
    using assms by (auto simp: active_list_def dll_data_content)
  with False have "find (\<lambda>i. node_content (connection_list st) i = d) is = None" by (auto simp: find_None_iff)
  then show ?thesis
    using dll_wf_find [OF wf, of "\<lambda>x. x = d"] assms False
    by (intro exI [of _ "connection_list st"])
      (auto simp: RemoveFromActiveConnections_def remove1_idem list_room_def active_list_def list_head_def node_content_def)
qed

subsection \<open>Closing an explicit connection\<close>

definition empty_connection :: CipConnectionObject where
  "empty_connection = zero_connection\<lparr>socket_consuming := kEipInvalidSocket, socket_producing := kEipInvalidSocket\<rparr>"

lemma InitializeEmpty_empty [simp]: "ConnectionObjectInitializeEmpty co = Some empty_connection"
  by (simp add: ConnectionObjectInitializeEmpty_def empty_connection_def zero_connection_def)

lemma update_connection_less:
  "d < length (connections st) \<Longrightarrow> f (connections st ! d) = Some co \<Longrightarrow>
     update_connection d f st = Some (st\<lparr>connections := (connections st)[d := co]\<rparr>)"
  by (simp add: update_connection_def get_connection_def)

lemma get_connection_less [simp]: "d < length (connections st) \<Longrightarrow> get_connection d st = Some (connections st ! d)"
  by (simp add: get_connection_def)

definition class3 :: "CipConnectionObject \<Rightarrow> bool" where
  "class3 co \<longleftrightarrow> ConnectionObjectGetTransportClassTriggerTransportClass co = kConnectionObjectTransportClassTriggerTransportClass3"

lemma CloseConnection_class3:
  assumes "active_list st ds" and "d < length (connections st)" and "class3 (connections st ! d)"
  shows "\<exists>l. CloseConnection d st = Some (st\<lparr>connection_list := l, connections := (connections st)[d := empty_connection]\<rparr>) \<and>
    length (nodes l) = list_room st \<and>
    (\<forall>st' :: 'f stack_state_scheme. connection_list st' = l \<longrightarrow> active_list st' (remove1 d ds))"
proof -
  obtain l where l: "RemoveFromActiveConnections d st = Some (st\<lparr>connection_list := l\<rparr>)" "length (nodes l) = list_room st"
      "\<forall>st' :: 'f stack_state_scheme. connection_list st' = l \<longrightarrow> active_list st' (remove1 d ds)"
    using remove_active [OF assms(1), of d] by auto
  then have "CloseConnection d st = Some (st\<lparr>connection_list := l, connections := (connections st)[d := empty_connection]\<rparr>)"
    using assms(2,3) by (simp add: CloseConnection_def class3_def update_connection_less)
  with l show ?thesis by auto
qed

end
