(* ===== verification/ClassLayout.thy ===== *)
theory ClassLayout
  imports CipServices
begin

text \<open>
  What a class looks like after an application created it, filled in the attributes of every
  instance and inserted its services: the layout of a class, the lookups it answers, and the
  contract \<open>class_builder\<close> of a function that creates one class. The theories of the object
  definitions rest on these facts.
\<close>

subsection \<open>The class a creation starts from\<close>

definition blank_instances :: "nat \<Rightarrow> nat \<Rightarrow> CipInstance list" where
  "blank_instances na k = map (\<lambda>i. \<lparr>inst_number = of_nat (Suc i), attributes = replicate na zero_attribute\<rparr>) [0..<k]"

lemma fresh_next_number: "n < 65535 \<Longrightarrow> free_number (blank_instances na n) (of_nat (Suc n)) = Some (of_nat (Suc n))"
  by (rule free_number_simps(2)) (auto simp: blank_instances_def list_ex_iff word_unat_eq_iff simp del: of_nat_Suc)

lemma add_instances_blank:
  assumes "instances ob = blank_instances (unat (number_of_attributes (cip_class ob))) n" and "n + k \<le> 65535"
  shows "\<exists>f. add_instances k (of_nat (Suc n)) first_instance ob = Some (f, ob\<lparr>
      instances := blank_instances (unat (number_of_attributes (cip_class ob))) (n + k),
      cip_class := (cip_class ob)\<lparr>number_of_instances := number_of_instances (cip_class ob) + of_nat k\<rparr>\<rparr>)"
  using assms
proof (induction k arbitrary: n first_instance ob)
  case 0
  then show ?case by simp
next
  case (Suc k)
  let ?ob = "ob\<lparr>instances := instances ob @ [new_instance (of_nat (Suc n)) ob],
       cip_class := (cip_class ob)\<lparr>number_of_instances := number_of_instances (cip_class ob) + 1\<rparr>\<rparr>"
  have "instances ?ob = blank_instances (unat (number_of_attributes (cip_class ?ob))) (Suc n)"
    using Suc.prems(1) by (simp add: blank_instances_def new_instance_def)
  from Suc.IH [OF this, of "case first_instance of None \<Rightarrow> Some (1 + of_nat n) | Some f \<Rightarrow> Some f"] Suc.prems
  show ?case
    using fresh_next_number [of n] by (auto simp: Let_def add.assoc add.commute add.left_commute)
qed

definition fresh_class :: "CipUdint \<Rightarrow> nat \<Rightarrow> nat \<Rightarrow> nat \<Rightarrow> CipUint \<Rightarrow> CipClass" where
  "fresh_class code na ns k r = AllocateAttributeMasks (zero_class\<lparr>class_code := code, revision := r,
     max_instance := of_nat k, number_of_instances := of_nat k, number_of_attributes := of_nat na,
     highest_attribute_number := of_nat na, number_of_services := of_nat ns,
     services := replicate ns zero_service\<rparr>)"

subsection \<open>Filling an attribute array\<close>

definition add_mask :: "bool \<Rightarrow> CipUint \<Rightarrow> CipOctet list \<Rightarrow> CipOctet list" where
  "add_mask cond n bits = bits[CalculateIndex n := bits ! CalculateIndex n OR (if cond then attribute_bit n else 0)]"

text \<open>The class after an attribute with the given number and flags was inserted.\<close>

definition add_masks :: "CipUint \<Rightarrow> CipByte \<Rightarrow> CipClass \<Rightarrow> CipClass" where
  "add_masks n flags c = c\<lparr>
     get_single_bit_mask := add_mask (flags AND kGetableSingle \<noteq> 0) n (get_single_bit_mask c),
     get_all_bit_mask := add_mask (flags AND (kGetableAll OR kGetableAllDummy) \<noteq> 0) n (get_all_bit_mask c),
     set_bit_mask := add_mask (flags AND kSetable \<noteq> 0) n (set_bit_mask c)\<rparr>"

lemma add_masks_frame [frame_simps]:
  "class_code (add_masks n f c) = class_code c" "revision (add_masks n f c) = revision c"
  "number_of_attributes (add_masks n f c) = number_of_attributes c"
  "number_of_instances (add_masks n f c) = number_of_instances c"
  "max_instance (add_masks n f c) = max_instance c"
  "highest_attribute_number (add_masks n f c) = highest_attribute_number c"
  "number_of_services (add_masks n f c) = number_of_services c" "services (add_masks n f c) = services c"
  "PreGetCallback (add_masks n f c) = PreGetCallback c" "PostGetCallback (add_masks n f c) = PostGetCallback c"
  "PreSetCallback (add_masks n f c) = PreSetCallback c" "PostSetCallback (add_masks n f c) = PostSetCallback c"
  "masks_wf (add_masks n f c) = masks_wf c"
  by (simp_all add: add_masks_def masks_wf_def add_mask_def)

lemma or_mask_add_mask: "CalculateIndex n < length bits \<Longrightarrow> or_mask cond n bits = Some (add_mask cond n bits)"
  by (simp add: or_mask_def add_mask_def)

lemma first_index_append: "\<forall>x \<in> set xs. \<not> P x \<Longrightarrow> P y \<Longrightarrow> first_index P (xs @ y # ys) = Some (length xs)"
  by (induction xs) auto

lemma InsertAttribute_next:
  assumes "attributes_of inst ob = Some (done @ a # rest)" and "attr_data a = None" and "\<forall>x \<in> set done. attr_data x \<noteq> None"
    and "length (done @ a # rest) = unat (number_of_attributes (class_of inst ob))"
    and "n \<le> highest_attribute_number (class_of inst ob)" and "masks_wf (class_of inst ob)"
  shows "InsertAttribute inst n type enc dec (Some d) flags ob =
    Some (set_class_of inst (add_masks n flags (class_of inst ob)) (set_attributes inst
      (done @ \<lparr>attr_number = n, attr_type = type, attr_encode = enc, attr_decode = dec, attribute_flags = flags,
        attr_data = Some d\<rparr> # rest) ob))"
proof -
  let ?c = "class_of inst ob"
  have "scan (\<lambda>a. attr_data a = None) (unat (number_of_attributes ?c)) (done @ a # rest) = Some (Some (length done))"
    using scan_whole [of "\<lambda>a. attr_data a = None" "done @ a # rest"] assms(2-4)
      first_index_append [of "done" "\<lambda>a. attr_data a = None" a rest] by simp
  moreover have "CalculateIndex n < length (get_single_bit_mask ?c)" "CalculateIndex n < length (get_all_bit_mask ?c)"
    "CalculateIndex n < length (set_bit_mask ?c)"
    using assms(6) CalculateIndex_mono [OF assms(5)] by (simp_all add: masks_wf_def Let_def)
  ultimately show ?thesis
    using assms(1,5) by (simp add: InsertAttribute_def or_mask_add_mask add_masks_def Let_def)
qed

fun insert_all :: "CipInstanceNum \<Rightarrow> CipAttributeStruct list \<Rightarrow> CipClassObject \<Rightarrow> CipClassObject run" where
  "insert_all inst [] ob = Some ob"
| "insert_all inst (a # as) ob = do {
     ob \<leftarrow> InsertAttribute inst (attr_number a) (attr_type a) (attr_encode a) (attr_decode a) (attr_data a) (attribute_flags a) ob;
     insert_all inst as ob }"

abbreviation add_all_masks :: "CipAttributeStruct list \<Rightarrow> CipClass \<Rightarrow> CipClass" where
  "add_all_masks as \<equiv> fold (\<lambda>a. add_masks (attr_number a) (attribute_flags a)) as"

lemma add_all_masks_frame [frame_simps]:
  "class_code (add_all_masks as c) = class_code c" "revision (add_all_masks as c) = revision c"
  "number_of_attributes (add_all_masks as c) = number_of_attributes c"
  "number_of_instances (add_all_masks as c) = number_of_instances c"
  "max_instance (add_all_masks as c) = max_instance c"
  "highest_attribute_number (add_all_masks as c) = highest_attribute_number c"
  "number_of_services (add_all_masks as c) = number_of_services c" "services (add_all_masks as c) = services c"
  "PreGetCallback (add_all_masks as c) = PreGetCallback c" "PostGetCallback (add_all_masks as c) = PostGetCallback c"
  "PreSetCallback (add_all_masks as c) = PreSetCallback c" "PostSetCallback (add_all_masks as c) = PostSetCallback c"
  "masks_wf (add_all_masks as c) = masks_wf c"
  by (induction as arbitrary: c) (simp_all add: frame_simps)

lemma set_attributes_set_attributes:
  "set_attributes n ys (set_class_of n c (set_attributes n xs ob)) = set_class_of n c (set_attributes n ys ob)"
proof -
  have "update_first P (attributes_update (\<lambda>_. ys)) (update_first P (attributes_update (\<lambda>_. xs)) is) =
      update_first P (attributes_update (\<lambda>_. ys)) is" if "\<And>x f. P (attributes_update f x) = P x" for P and "is" :: "CipInstance list"
    using that by (induction "is") auto
  from this [of "\<lambda>i. inst_number i = n"] show ?thesis
    by (cases ob) (simp add: set_attributes_def set_class_of_def)
qed

lemma set_class_of_set_class_of [simp]: "set_class_of n c (set_class_of n d ob) = set_class_of n c ob"
  by (simp add: set_class_of_def)

lemma insert_all_fills:
  assumes "attributes_of inst ob = Some (done @ replicate (length as) zero_attribute)"
    and "\<forall>x \<in> set (done @ as). attr_data x \<noteq> None" and "length (done @ as) = unat (number_of_attributes (class_of inst ob))"
    and "\<forall>a \<in> set as. attr_number a \<le> highest_attribute_number (class_of inst ob)" and "masks_wf (class_of inst ob)"
    and "as \<noteq> []"
  shows "insert_all inst as ob = Some (set_class_of inst (add_all_masks as (class_of inst ob)) (set_attributes inst (done @ as) ob))"
  using assms
proof (induction as arbitrary: "done" ob)
  case (Cons a as)
  let ?ob = "set_class_of inst (add_masks (attr_number a) (attribute_flags a) (class_of inst ob)) (set_attributes inst
      (done @ a # replicate (length as) zero_attribute) ob)"
  obtain d where d: "attr_data a = Some d" using Cons.prems(2) by auto
  have one: "InsertAttribute inst (attr_number a) (attr_type a) (attr_encode a) (attr_decode a) (attr_data a) (attribute_flags a) ob = Some ?ob"
    using InsertAttribute_next [of inst ob "done" zero_attribute "replicate (length as) zero_attribute" "attr_number a" "attr_type a"
        "attr_encode a" "attr_decode a" d "attribute_flags a"] Cons.prems d by (cases a) simp
  have as: "attributes_of inst ?ob = Some ((done @ [a]) @ replicate (length as) zero_attribute)"
    using attributes_of_set_attributes [OF Cons.prems(1)] by simp
  show ?case
  proof (cases "as = []")
    case True
    with one show ?thesis by simp
  next
    case False
    have "insert_all inst as ?ob = Some (set_class_of inst (add_all_masks as (class_of inst ?ob)) (set_attributes inst ((done @ [a]) @ as) ?ob))"
      using Cons.prems False by (intro Cons.IH [OF as]) (auto simp: frame_simps)
    with one show ?thesis by (simp add: set_attributes_set_attributes)
  qed
qed simp

definition default_attributes :: "CipUdint \<Rightarrow> CipAttributeStruct list" where
  "default_attributes cc = map (\<lambda>(n, ref, flags). \<lparr>attr_number = n, attr_type = kCipUint, attr_encode = Some EncCipUint,
       attr_decode = None, attribute_flags = flags, attr_data = Some ref\<rparr>)
     [(1, DRevision cc, kGetableSingleAndAll), (2, DMaxInstance cc, kGetableSingleAndAll),
      (3, DNumberOfInstances cc, kGetableSingleAndAll), (4, DUintZero, kGetableAllDummy),
      (5, DUintZero, kNotSetOrGetable), (6, DMetaHighestAttribute cc, kGetableSingle),
      (7, DHighestAttribute cc, kGetableSingle)]"

lemma default_class_attributes_all:
  "default_class_attributes 2 ob = do {
     ob \<leftarrow> insert_all 0 (default_attributes (class_code (cip_class ob))) ob;
     ob \<leftarrow> on_meta_class (InsertService kGetAttributeAll SvcGetAttributeAll) ob;
     on_meta_class (InsertService kGetAttributeSingle SvcGetAttributeSingle) ob }"
  by (simp add: default_class_attributes_def default_attributes_def class_attribute_def Let_def)

subsection \<open>Filling a service table\<close>

abbreviation mk_service :: "CipUsint \<times> service_function \<Rightarrow> CipServiceStruct" where
  "mk_service s \<equiv> \<lparr>service_number = fst s, service_fn = Some (snd s)\<rparr>"

lemma InsertService_next:
  assumes "services c = map mk_service done @ zero_service # rest"
    and "n \<notin> fst ` set done" and "number_of_services c = of_nat (length (services c))" "length (services c) < 65536"
  shows "InsertService n f c = Some (c\<lparr>services := map mk_service (done @ [(n, f)]) @ rest\<rparr>)"
proof -
  have "first_index (\<lambda>s. service_number s = n \<or> service_fn s = None) (map mk_service done @ zero_service # rest) = Some (length done)"
    using assms(2) first_index_append [of "map mk_service done" "\<lambda>s. service_number s = n \<or> service_fn s = None" zero_service rest]
    by (force simp: zero_service_def)
  moreover have "length (services c) = unat (number_of_services c)"
    using assms(3,4) by simp
  ultimately have "scan (\<lambda>s. service_number s = n \<or> service_fn s = None) (unat (number_of_services c)) (services c) = Some (Some (length done))"
    using scan_whole [of "\<lambda>s. service_number s = n \<or> service_fn s = None" "services c"] assms(1) by simp
  then show ?thesis
    by (simp add: InsertService_def assms(1) list_update_append)
qed

lemma default_class_attributes_defined:
  assumes "meta_class ob = AllocateAttributeMasks (zero_class\<lparr>class_code := 0xFFFFFFFF,
       number_of_instances := 1, number_of_attributes := 7, highest_attribute_number := 7, number_of_services := 2,
       services := replicate 2 zero_service\<rparr>)" and "class_attributes ob = replicate 7 zero_attribute"
  shows "\<exists>mc as. default_class_attributes 2 ob = Some (ob\<lparr>meta_class := mc, class_attributes := as\<rparr>)"
proof -
  let ?as = "default_attributes (class_code (cip_class ob))"
  let ?c = "add_all_masks ?as (meta_class ob)"
  let ?ob = "ob\<lparr>meta_class := ?c, class_attributes := ?as\<rparr>"
  have mc: "masks_wf (meta_class ob)" "number_of_attributes (meta_class ob) = 7" "highest_attribute_number (meta_class ob) = 7"
    "services (meta_class ob) = [zero_service, zero_service]" "number_of_services (meta_class ob) = 2"
    by (simp_all add: assms(1) AllocateAttributeMasks_def masks_wf_def zero_class_def Let_def numeral_2_eq_2)
  have as: "length ?as = 7" "?as \<noteq> []" "\<forall>a \<in> set ?as. attr_data a \<noteq> None" "\<forall>a \<in> set ?as. attr_number a \<le> 7"
    by (simp_all add: default_attributes_def)
  have "insert_all 0 ?as ob = Some (set_class_of 0 ?c (set_attributes 0 ([] @ ?as) ob))"
    using insert_all_fills [of 0 ob "[]" ?as] mc assms(2) as by (simp add: attributes_of_def class_of_def)
  then have 1: "insert_all 0 ?as ob = Some ?ob"
    by (simp add: set_class_of_def set_attributes_def)
  obtain d where 2: "InsertService kGetAttributeAll SvcGetAttributeAll ?c = Some d"
    and d: "d = ?c\<lparr>services := map mk_service [(kGetAttributeAll, SvcGetAttributeAll)] @ [zero_service]\<rparr>"
    using InsertService_next [of ?c "[]"] mc by (simp add: frame_simps)
  obtain e where 3: "InsertService kGetAttributeSingle SvcGetAttributeSingle d = Some e"
    using InsertService_next [of d "[(kGetAttributeAll, SvcGetAttributeAll)]" "[]"] mc by (auto simp: d frame_simps)
  show ?thesis
    by (cases ob) (use 1 2 3 in \<open>auto simp: default_class_attributes_all on_meta_class_def\<close>)
qed


subsection \<open>Creating a class without an initializer\<close>

lemma ucast_of_nat_small: "n < 65536 \<Longrightarrow> (ucast (of_nat n :: 32 word) :: 16 word) = of_nat n"
  by (simp add: word_unat_eq_iff unsigned_ucast_eq take_bit_nat_eq_self)

lemma max_blank_instances:
  assumes "instances ob = blank_instances na k" and "k \<le> 65535"
  shows "GetMaxInstanceNumber ob = of_nat k"
proof -
  have "Max (insert 0 ((\<lambda>i. of_nat (Suc i) :: CipUint) ` {0..<k})) = of_nat k"
  proof (rule Max_eqI)
    show "y \<le> of_nat k" if "y \<in> insert 0 ((\<lambda>i. of_nat (Suc i) :: CipUint) ` {0..<k})" for y
      using that assms(2) by (auto simp: word_le_nat_alt simp del: of_nat_Suc)
    show "of_nat k \<in> insert 0 ((\<lambda>i. of_nat (Suc i) :: CipUint) ` {0..<k})"
      by (cases k) (auto simp del: of_nat_Suc)
  qed simp
  with assms(1) show ?thesis
    by (simp add: GetMaxInstanceNumber_eq blank_instances_def image_image del: of_nat_Suc)
qed

lemma CreateCipClass_fresh:
  assumes "GetCipClass code st = None" and "na < 65536" and "ns < 65536" and "k \<le> 65535"
  shows "\<exists>ob. CreateCipClass code 0 7 2 (int na) (of_nat na) (int ns) (of_nat k) r None st =
      Some (st\<lparr>g_first_object := g_first_object st @ [ob]\<rparr>) \<and>
    cip_class ob = fresh_class code na ns k r \<and> instances ob = blank_instances na k"
proof -
  let ?c = "zero_class\<lparr>class_code := code, revision := r, number_of_attributes := of_nat na,
       highest_attribute_number := of_nat na, number_of_services := of_nat ns,
       services := replicate ns zero_service\<rparr>"
  let ?mc = "zero_class\<lparr>class_code := 0xFFFFFFFF, number_of_instances := 1, number_of_attributes := 7,
       highest_attribute_number := 7, number_of_services := 2, services := replicate 2 zero_service\<rparr>"
  let ?ob = "\<lparr>cip_class = ?c, meta_class = ?mc, class_attributes = replicate 7 zero_attribute, instances = []\<rparr>"
  let ?ob1 = "?ob\<lparr>instances := blank_instances na k, cip_class := ?c\<lparr>number_of_instances := of_nat k, max_instance := of_nat k\<rparr>\<rparr>"
  have add: "\<exists>f. AddCipInstances (of_nat k) ?ob = Some (f, ?ob1)" and pos: "(0 :: CipUint) < of_nat k" if "k \<noteq> 0"
  proof -
    obtain f where "add_instances k (of_nat (Suc 0)) None ?ob = Some (f, ?ob\<lparr>instances := blank_instances na k,
        cip_class := ?c\<lparr>number_of_instances := of_nat k\<rparr>\<rparr>)"
      using add_instances_blank [of ?ob 0 k None] assms(2,4) by (auto simp: blank_instances_def zero_class_def)
    then show "\<exists>f. AddCipInstances (of_nat k) ?ob = Some (f, ?ob1)"
      using assms(4) max_blank_instances [of "?ob\<lparr>instances := blank_instances na k,
        cip_class := ?c\<lparr>number_of_instances := of_nat k\<rparr>\<rparr>" na k]
      by (simp add: AddCipInstances_def set_max_instance_def)
    show "(0 :: CipUint) < of_nat k"
      using that assms(4) by (simp add: word_less_nat_alt)
  qed
  obtain mc as where d: "default_class_attributes 2 (?ob1\<lparr>meta_class := AllocateAttributeMasks (meta_class ?ob1),
       cip_class := AllocateAttributeMasks (cip_class ?ob1)\<rparr>) = Some (?ob1\<lparr>meta_class := mc, class_attributes := as,
       cip_class := AllocateAttributeMasks (cip_class ?ob1)\<rparr>)"
    using default_class_attributes_defined [of "?ob1\<lparr>meta_class := AllocateAttributeMasks (meta_class ?ob1),
       cip_class := AllocateAttributeMasks (cip_class ?ob1)\<rparr>"] by auto
  have fc: "AllocateAttributeMasks (cip_class ?ob1) = fresh_class code na ns k r"
    by (simp add: fresh_class_def zero_class_def)
  let ?res = "\<lparr>cip_class = fresh_class code na ns k r, meta_class = mc, class_attributes = as, instances = blank_instances na k\<rparr>"
  show ?thesis
  proof (cases "k = 0")
    case True
    with assms(1-3) d fc show ?thesis
      by (intro exI [of _ ?res]) (simp add: CreateCipClass_def RegisterCipClass_def ucast_of_nat_small Let_def zero_class_def blank_instances_def)
  next
    case False
    obtain f where "AddCipInstances (of_nat k) ?ob = Some (f, ?ob1)" using add [OF False] by blast
    with pos [OF False] assms(1-3) d fc show ?thesis
      by (intro exI [of _ ?res]) (simp add: CreateCipClass_def RegisterCipClass_def ucast_of_nat_small Let_def zero_class_def)
  qed
qed

subsection \<open>Filling every instance\<close>

abbreviation row_instance :: "(nat \<Rightarrow> CipAttributeStruct list) \<Rightarrow> nat \<Rightarrow> CipInstance" where
  "row_instance rows i \<equiv> \<lparr>inst_number = of_nat (Suc i), attributes = rows i\<rparr>"

fun fill_from :: "(nat \<Rightarrow> CipAttributeStruct list) \<Rightarrow> nat \<Rightarrow> nat \<Rightarrow> CipClassObject \<Rightarrow> CipClassObject run" where
  "fill_from rows i 0 ob = Some ob"
| "fill_from rows i (Suc k) ob = do { ob \<leftarrow> insert_all (of_nat (Suc i)) (rows i) ob; fill_from rows (Suc i) k ob }"

text \<open>Attribute rows that fit a class with \<open>na\<close> attributes.\<close>

definition rows_fit :: "nat \<Rightarrow> nat \<Rightarrow> (nat \<Rightarrow> CipAttributeStruct list) \<Rightarrow> bool" where
  "rows_fit na k rows \<longleftrightarrow> 0 < na \<and> na < 65536 \<and> (\<forall>i < k. length (rows i) = na \<and>
     (\<forall>a \<in> set (rows i). attr_data a \<noteq> None \<and> unat (attr_number a) \<le> na))"

lemma distinct_numbers: "i < 65535 \<Longrightarrow> j < 65535 \<Longrightarrow> (of_nat (Suc i) :: CipUint) = of_nat (Suc j) \<longleftrightarrow> i = j"
  by (auto simp: word_unat_eq_iff simp del: of_nat_Suc)

lemma nonzero_number: "i < 65535 \<Longrightarrow> (of_nat (Suc i) :: CipUint) \<noteq> 0"
  by (auto simp: word_unat_eq_iff simp del: of_nat_Suc)

lemma find_skip: "\<forall>x \<in> set xs. \<not> P x \<Longrightarrow> find P (xs @ ys) = find P ys"
  by (induction xs) auto

lemma update_first_skip: "\<forall>x \<in> set xs. \<not> P x \<Longrightarrow> update_first P f (xs @ ys) = xs @ update_first P f ys"
  by (induction xs) auto

lemma fill_from_fills:
  assumes "instances ob = map (row_instance rows) [0..<i] @ map (row_instance (\<lambda>_. replicate na zero_attribute)) [i..<i + k]"
    and "i + k \<le> 65535" and "rows_fit na (i + k) rows" and "number_of_attributes (cip_class ob) = of_nat na"
    and "highest_attribute_number (cip_class ob) = of_nat na" and "masks_wf (cip_class ob)"
  shows "fill_from rows i k ob = Some (ob\<lparr>instances := map (row_instance rows) [0..<i + k],
    cip_class := add_all_masks (concat (map rows [i..<i + k])) (cip_class ob)\<rparr>)"
  using assms
proof (induction k arbitrary: i ob)
  case 0
  then show ?case by simp
next
  case (Suc k)
  let ?n = "of_nat (Suc i) :: CipUint" and ?blank = "replicate na zero_attribute"
  let ?pre = "map (row_instance rows) [0..<i]" and ?post = "map (row_instance (\<lambda>_. ?blank)) [Suc i..<Suc i + k]"
  have chain: "instances ob = ?pre @ row_instance (\<lambda>_. ?blank) i # ?post"
    using Suc.prems(1) upt_conv_Cons [of i "i + Suc k"] by (simp del: upt_Suc of_nat_Suc)
  have skip: "\<forall>x \<in> set ?pre. inst_number x \<noteq> ?n"
    using Suc.prems(2) distinct_numbers by auto
  have n0: "?n \<noteq> 0" using Suc.prems(2) by (intro nonzero_number) simp
  have c: "class_of ?n ob = cip_class ob" using n0 by (simp add: class_of_def)
  have r: "length (rows i) = na" "\<forall>a \<in> set (rows i). attr_data a \<noteq> None \<and> unat (attr_number a) \<le> na" "0 < length (rows i)" "na < 65536"
    using spec [OF conjunct2 [OF conjunct2 [OF Suc.prems(3) [unfolded rows_fit_def]]], of i] Suc.prems(3) by (auto simp: rows_fit_def)
  have at: "attributes_of ?n ob = Some ([] @ replicate (length (rows i)) zero_attribute)"
    using n0 skip r(1) by (simp add: attributes_of_def find_instance_def chain find_skip del: of_nat_Suc)
  have one: "insert_all ?n (rows i) ob = Some (set_class_of ?n (add_all_masks (rows i) (cip_class ob)) (set_attributes ?n ([] @ rows i) ob))"
    unfolding c [symmetric]
    by (rule insert_all_fills [OF at]) (use Suc.prems(4-6) r c in \<open>auto simp: word_le_nat_alt simp del: of_nat_Suc\<close>)
  let ?ob = "ob\<lparr>instances := map (row_instance rows) [0..<Suc i] @ ?post, cip_class := add_all_masks (rows i) (cip_class ob)\<rparr>"
  have upd: "update_first (\<lambda>x. inst_number x = ?n) (attributes_update (\<lambda>_. rows i)) (instances ob) =
      map (row_instance rows) [0..<Suc i] @ ?post"
    unfolding chain update_first_skip [where P = "\<lambda>x. inst_number x = ?n", OF skip] by simp
  have one': "insert_all ?n (rows i) ob = Some ?ob"
    using n0 by (simp add: one set_class_of_def set_attributes_def upd del: of_nat_Suc upt_Suc)
  have "fill_from rows (Suc i) k ?ob = Some (?ob\<lparr>instances := map (row_instance rows) [0..<Suc i + k],
    cip_class := add_all_masks (concat (map rows [Suc i..<Suc i + k])) (cip_class ?ob)\<rparr>)"
    using Suc.prems by (intro Suc.IH) (auto simp: frame_simps)
  with one' show ?case
    by (simp add: upt_conv_Cons [of i "Suc (i + k)"] del: of_nat_Suc upt_Suc)
qed


lemma mask_bit_add_mask:
  assumes "CalculateIndex n < length bits"
  shows "mask_bit (add_mask cond n bits) k = (if k = n then Some (the (mask_bit bits n) \<or> cond) else mask_bit bits k)"
  using mask_bit_or_mask [OF or_mask_add_mask [OF assms]] mask_bit_in [OF assms] by simp

text \<open>The bits of the three masks after a list of attributes was inserted.\<close>

lemma mask_bits_add_all:
  assumes "masks_wf c" and "\<forall>a \<in> set as. attr_number a \<le> highest_attribute_number c" and "n \<le> highest_attribute_number c"
  shows "mask_bit (get_single_bit_mask (add_all_masks as c)) n =
      Some (the (mask_bit (get_single_bit_mask c) n) \<or> (\<exists>a \<in> set as. attr_number a = n \<and> bit (attribute_flags a) 1))"
    and "mask_bit (set_bit_mask (add_all_masks as c)) n =
      Some (the (mask_bit (set_bit_mask c) n) \<or> (\<exists>a \<in> set as. attr_number a = n \<and> bit (attribute_flags a) 2))"
    and "mask_bit (get_all_bit_mask (add_all_masks as c)) n =
      Some (the (mask_bit (get_all_bit_mask c) n) \<or>
        (\<exists>a \<in> set as. attr_number a = n \<and> (bit (attribute_flags a) 0 \<or> bit (attribute_flags a) 3)))"
proof -
  have "mask_bit (get_single_bit_mask (add_all_masks as c)) n =
      Some (the (mask_bit (get_single_bit_mask c) n) \<or> (\<exists>a \<in> set as. attr_number a = n \<and> bit (attribute_flags a) 1)) \<and>
    mask_bit (set_bit_mask (add_all_masks as c)) n =
      Some (the (mask_bit (set_bit_mask c) n) \<or> (\<exists>a \<in> set as. attr_number a = n \<and> bit (attribute_flags a) 2)) \<and>
    mask_bit (get_all_bit_mask (add_all_masks as c)) n =
      Some (the (mask_bit (get_all_bit_mask c) n) \<or>
        (\<exists>a \<in> set as. attr_number a = n \<and> (bit (attribute_flags a) 0 \<or> bit (attribute_flags a) 3)))"
    using assms
  proof (induction as arbitrary: c)
    case Nil
    then show ?case using mask_bit_defined [of c n] by auto
  next
    case (Cons a as)
    let ?c = "add_masks (attr_number a) (attribute_flags a) c"
    have i: "CalculateIndex (attr_number a) < length (get_single_bit_mask c)"
      "CalculateIndex (attr_number a) < length (get_all_bit_mask c)" "CalculateIndex (attr_number a) < length (set_bit_mask c)"
      using Cons.prems CalculateIndex_mono [of "attr_number a" "highest_attribute_number c"]
      by (simp_all add: masks_wf_def Let_def)
    have m: "the (mask_bit (get_single_bit_mask ?c) n) = (the (mask_bit (get_single_bit_mask c) n) \<or> n = attr_number a \<and> bit (attribute_flags a) 1)"
      "the (mask_bit (set_bit_mask ?c) n) = (the (mask_bit (set_bit_mask c) n) \<or> n = attr_number a \<and> bit (attribute_flags a) 2)"
      "the (mask_bit (get_all_bit_mask ?c) n) = (the (mask_bit (get_all_bit_mask c) n) \<or>
         n = attr_number a \<and> (bit (attribute_flags a) 0 \<or> bit (attribute_flags a) 3))"
      unfolding add_masks_def flag_bits
      by (auto simp: mask_bit_add_mask [OF i(1)] mask_bit_add_mask [OF i(2)] mask_bit_add_mask [OF i(3)])
    show ?case
      using Cons.IH [of ?c] Cons.prems by (auto simp: frame_simps m)
  qed
  then show "mask_bit (get_single_bit_mask (add_all_masks as c)) n =
      Some (the (mask_bit (get_single_bit_mask c) n) \<or> (\<exists>a \<in> set as. attr_number a = n \<and> bit (attribute_flags a) 1))"
    "mask_bit (set_bit_mask (add_all_masks as c)) n =
      Some (the (mask_bit (set_bit_mask c) n) \<or> (\<exists>a \<in> set as. attr_number a = n \<and> bit (attribute_flags a) 2))"
    "mask_bit (get_all_bit_mask (add_all_masks as c)) n =
      Some (the (mask_bit (get_all_bit_mask c) n) \<or>
        (\<exists>a \<in> set as. attr_number a = n \<and> (bit (attribute_flags a) 0 \<or> bit (attribute_flags a) 3)))"
    by blast+
qed

text \<open>The arguments of an \<^verbatim>\<open>InsertAttribute\<close> call after the instance.\<close>

type_synonym attribute_args =
  "CipUint \<times> CipUsint \<times> encode_function \<times> decode_function option \<times> nat \<times> CipByte"

fun insert_attributes :: "CipInstanceNum \<Rightarrow> attribute_args list \<Rightarrow> CipClassObject \<Rightarrow> CipClassObject run" where
  "insert_attributes inst [] ob = Some ob"
| "insert_attributes inst ((n, type, enc, dec, cell, flags) # rest) ob = do {
     ob \<leftarrow> InsertAttribute inst n type (Some enc) dec (Some (DVar cell)) flags ob;
     insert_attributes inst rest ob }"

fun insert_services :: "(CipUsint \<times> service_function) list \<Rightarrow> CipClassObject \<Rightarrow> CipClassObject run" where
  "insert_services [] ob = Some ob"
| "insert_services ((n, f) # rest) ob = do { ob \<leftarrow> on_cip_class (InsertService n f) ob; insert_services rest ob }"

lemma insert_services_fill:
  assumes "services (cip_class ob) = map mk_service done @ replicate (length svcs) zero_service"
    and "distinct (map fst (done @ svcs))" and "number_of_services (cip_class ob) = of_nat (length (done @ svcs))"
    and "length (done @ svcs) < 65536"
  shows "insert_services svcs ob = Some (ob\<lparr>cip_class := (cip_class ob)\<lparr>services := map mk_service (done @ svcs)\<rparr>\<rparr>)"
  using assms
proof (induction svcs arbitrary: "done" ob)
  case Nil
  then show ?case by simp
next
  case (Cons s svcs)
  obtain n f where s: "s = (n, f)" by force
  let ?c = "(cip_class ob)\<lparr>services := map mk_service (done @ [(n, f)]) @ replicate (length svcs) zero_service\<rparr>"
  have "InsertService n f (cip_class ob) = Some ?c"
    using Cons.prems s by (intro InsertService_next) auto
  moreover have "insert_services svcs (ob\<lparr>cip_class := ?c\<rparr>) =
      Some (ob\<lparr>cip_class := ?c\<rparr>\<lparr>cip_class := (cip_class (ob\<lparr>cip_class := ?c\<rparr>))\<lparr>services := map mk_service ((done @ [(n, f)]) @ svcs)\<rparr>\<rparr>)"
    using Cons.prems s by (intro Cons.IH) auto
  ultimately show ?case by (simp add: on_cip_class_def s)
qed

lemma masks_wf_services [frame_simps]: "masks_wf (c\<lparr>services := x\<rparr>) = masks_wf c"
  by (simp add: masks_wf_def)

subsection \<open>The layout of a class\<close>

record class_spec =
  spec_code :: CipUdint
  spec_attributes :: nat
  spec_count :: nat
  spec_rows :: "nat \<Rightarrow> CipAttributeStruct list"
  spec_services :: "(CipUsint \<times> service_function) list"

text \<open>
  The class of a specification: instances 1 to \<open>spec_count\<close>, the attributes of each as its row says,
  the services in order, no callbacks, and masks whose bits are those of the attribute flags.
\<close>

definition class_layout :: "class_spec \<Rightarrow> CipClassObject \<Rightarrow> bool" where
  "class_layout s ob \<longleftrightarrow> (let c = cip_class ob; as = concat (map (spec_rows s) [0..<spec_count s]) in
     class_code c = spec_code s \<and> number_of_attributes c = of_nat (spec_attributes s) \<and>
     highest_attribute_number c = of_nat (spec_attributes s) \<and> masks_wf c \<and>
     number_of_instances c = of_nat (spec_count s) \<and> max_instance c = of_nat (spec_count s) \<and>
     instances ob = map (row_instance (spec_rows s)) [0..<spec_count s] \<and>
     services c = map mk_service (spec_services s) \<and> number_of_services c = of_nat (length (spec_services s)) \<and>
     PreGetCallback c = None \<and> PostGetCallback c = None \<and> PreSetCallback c = None \<and> PostSetCallback c = None \<and>
     (\<forall>n. unat n \<le> spec_attributes s \<longrightarrow>
        mask_bit (get_single_bit_mask c) n = Some (\<exists>a \<in> set as. attr_number a = n \<and> bit (attribute_flags a) 1) \<and>
        mask_bit (set_bit_mask c) n = Some (\<exists>a \<in> set as. attr_number a = n \<and> bit (attribute_flags a) 2) \<and>
        mask_bit (get_all_bit_mask c) n = Some (\<exists>a \<in> set as. attr_number a = n \<and>
          (bit (attribute_flags a) 0 \<or> bit (attribute_flags a) 3))))"

definition spec_fits :: "class_spec \<Rightarrow> bool" where
  "spec_fits s \<longleftrightarrow> rows_fit (spec_attributes s) (spec_count s) (spec_rows s) \<and> spec_count s \<le> 65535 \<and>
     0 < spec_count s \<and> distinct (map fst (spec_services s)) \<and> length (spec_services s) < 65536 \<and>
     (\<forall>i < spec_count s. distinct (map attr_number (spec_rows s i)))"

lemma fresh_class_simps:
  "class_code (fresh_class code na ns k r) = code" "number_of_attributes (fresh_class code na ns k r) = of_nat na"
  "highest_attribute_number (fresh_class code na ns k r) = of_nat na" "masks_wf (fresh_class code na ns k r)"
  "number_of_instances (fresh_class code na ns k r) = of_nat k" "max_instance (fresh_class code na ns k r) = of_nat k"
  "services (fresh_class code na ns k r) = replicate ns zero_service"
  "number_of_services (fresh_class code na ns k r) = of_nat ns"
  "PreGetCallback (fresh_class code na ns k r) = None" "PostGetCallback (fresh_class code na ns k r) = None"
  "PreSetCallback (fresh_class code na ns k r) = None" "PostSetCallback (fresh_class code na ns k r) = None"
  by (simp_all add: fresh_class_def AllocateAttributeMasks_def zero_class_def masks_wf_def Let_def)

lemma fresh_class_masks:
  assumes "n \<le> highest_attribute_number (fresh_class code na ns k r)"
  shows "mask_bit (get_single_bit_mask (fresh_class code na ns k r)) n = Some False"
    "mask_bit (set_bit_mask (fresh_class code na ns k r)) n = Some False"
    "mask_bit (get_all_bit_mask (fresh_class code na ns k r)) n = Some False"
  using CalculateIndex_mono [OF assms]
  by (simp_all add: fresh_class_def AllocateAttributeMasks_def Let_def mask_bit_in fresh_class_simps del: replicate.simps)

text \<open>A fresh class, filled row by row and given its services, has its layout.\<close>

lemma populate_layout:
  assumes "spec_fits s" and "cip_class ob = fresh_class (spec_code s) (spec_attributes s) (length (spec_services s)) (spec_count s) r"
    and "instances ob = blank_instances (spec_attributes s) (spec_count s)"
  shows "\<exists>ob'. do { ob \<leftarrow> fill_from (spec_rows s) 0 (spec_count s) ob; insert_services (spec_services s) ob } = Some ob' \<and>
    class_layout s ob'"
proof -
  let ?as = "concat (map (spec_rows s) [0..<spec_count s])" and ?c = "cip_class ob"
  let ?ob1 = "ob\<lparr>instances := map (row_instance (spec_rows s)) [0..<spec_count s], cip_class := add_all_masks ?as ?c\<rparr>"
  let ?ob2 = "?ob1\<lparr>cip_class := (cip_class ?ob1)\<lparr>services := map mk_service ([] @ spec_services s)\<rparr>\<rparr>"
  have small: "spec_attributes s < 65536" using assms(1) by (simp add: spec_fits_def rows_fit_def)
  have "fill_from (spec_rows s) 0 (spec_count s) ob = Some ?ob1"
    using fill_from_fills [of ob "spec_rows s" 0 "spec_attributes s" "spec_count s"] assms(1)
    by (simp add: spec_fits_def assms(2,3) fresh_class_simps blank_instances_def)
  moreover have "insert_services (spec_services s) ?ob1 = Some ?ob2"
    using assms(1) by (intro insert_services_fill) (auto simp: assms(2) frame_simps fresh_class_simps spec_fits_def)
  moreover have h: "n \<le> highest_attribute_number ?c \<longleftrightarrow> unat n \<le> spec_attributes s" for n
    using small by (simp add: assms(2) fresh_class_simps word_le_nat_alt)
  have "\<forall>a \<in> set ?as. attr_number a \<le> highest_attribute_number ?c"
    using assms(1) by (auto simp: h spec_fits_def rows_fit_def)
  then have "class_layout s ?ob2"
    using mask_bits_add_all [of ?c ?as] fresh_class_masks [of _ "spec_code s" "spec_attributes s" "length (spec_services s)" "spec_count s" r]
    by (simp add: class_layout_def Let_def frame_simps fresh_class_simps h assms(2) [symmetric])
       (simp add: assms(2) fresh_class_simps)
  ultimately show ?thesis by simp
qed


subsection \<open>Lookup in a class of known layout\<close>

lemma layout_attribute_row:
  assumes "class_layout s ob" and "spec_fits s" and "i < spec_count s"
  shows "attributes_of (of_nat (Suc i)) ob = Some (spec_rows s i)" and "class_of (of_nat (Suc i)) ob = cip_class ob"
proof -
  have lim: "spec_count s \<le> 65535" using assms(2) by (simp add: spec_fits_def)
  let ?n = "of_nat (Suc i) :: CipUint"
  have "?n \<noteq> 0" using assms(3) lim by (intro nonzero_number) simp
  moreover have "find (\<lambda>x. inst_number x = ?n) (map (row_instance (spec_rows s)) [0..<spec_count s]) = Some (row_instance (spec_rows s) i)"
  proof -
    have "[0..<spec_count s] = [0..<i] @ i # [Suc i..<spec_count s]"
      using assms(3) upt_add_eq_append [of 0 i "spec_count s - i"] upt_conv_Cons [of i "spec_count s"] by (simp del: upt_Suc)
    moreover have "\<forall>x \<in> set (map (row_instance (spec_rows s)) [0..<i]). inst_number x \<noteq> ?n"
      using assms(3) lim distinct_numbers [of _ i] by auto
    ultimately show ?thesis by (simp add: find_skip del: of_nat_Suc upt_Suc)
  qed
  ultimately show "attributes_of ?n ob = Some (spec_rows s i)" "class_of ?n ob = cip_class ob"
    using assms(1) by (simp_all add: class_layout_def Let_def attributes_of_def find_instance_def class_of_def del: of_nat_Suc)
qed

lemma first_index_distinct:
  assumes "distinct (map f xs)" and "j < length xs"
  shows "first_index (\<lambda>x. f (xs ! j) = f x) xs = Some j"
  using assms
proof (induction xs arbitrary: j)
  case (Cons x xs)
  then show ?case by (cases j) (auto, metis imageI nth_mem)
qed simp

lemma layout_resolves:
  assumes "class_layout s ob" and "spec_fits s" and "i < spec_count s" and "j < length (spec_rows s i)"
    and "GetCipClass (spec_code s) st = Some ob"
  shows "resolves (spec_code s, of_nat (Suc i)) (attr_number (spec_rows s i ! j)) st j (spec_rows s i ! j) (cip_class ob)"
proof -
  have len: "length (spec_rows s i) = spec_attributes s" "spec_attributes s < 65536"
    and d: "distinct (map attr_number (spec_rows s i))"
    using assms(2,3) by (auto simp: spec_fits_def rows_fit_def)
  have "unat (number_of_attributes (cip_class ob)) = length (spec_rows s i)"
    using assms(1) len by (simp add: class_layout_def Let_def)
  then have "scan (\<lambda>a. attr_number (spec_rows s i ! j) = attr_number a) (unat (number_of_attributes (cip_class ob))) (spec_rows s i) = Some (Some j)"
    using first_index_distinct [OF d assms(4)] by simp
  then show ?thesis
    using layout_attribute_row [OF assms(1-3)] assms(4,5)
    by (simp add: resolves_def find_attribute_def attribute_at_def class_at_def GetCipAttribute_def del: of_nat_Suc)
qed

lemma layout_masks:
  assumes "class_layout s ob" and "spec_fits s" and "i < spec_count s" and "a \<in> set (spec_rows s i)"
  shows "bit (attribute_flags a) 1 \<Longrightarrow> mask_bit (get_single_bit_mask (cip_class ob)) (attr_number a) = Some True"
    and "bit (attribute_flags a) 2 \<Longrightarrow> mask_bit (set_bit_mask (cip_class ob)) (attr_number a) = Some True"
    and "bit (attribute_flags a) 0 \<Longrightarrow> mask_bit (get_all_bit_mask (cip_class ob)) (attr_number a) = Some True"
proof -
  define as where "as = concat (map (spec_rows s) [0..<spec_count s])"
  have a: "unat (attr_number a) \<le> spec_attributes s" "a \<in> set as"
    using assms(2-4) by (auto simp: spec_fits_def rows_fit_def as_def)
  have "mask_bit (get_single_bit_mask (cip_class ob)) (attr_number a) = Some (\<exists>a' \<in> set as. attr_number a' = attr_number a \<and> bit (attribute_flags a') 1) \<and>
    mask_bit (set_bit_mask (cip_class ob)) (attr_number a) = Some (\<exists>a' \<in> set as. attr_number a' = attr_number a \<and> bit (attribute_flags a') 2) \<and>
    mask_bit (get_all_bit_mask (cip_class ob)) (attr_number a) = Some (\<exists>a' \<in> set as. attr_number a' = attr_number a \<and>
      (bit (attribute_flags a') 0 \<or> bit (attribute_flags a') 3))"
    using assms(1) a(1) by (simp only: class_layout_def Let_def as_def [symmetric])
  then show "bit (attribute_flags a) 1 \<Longrightarrow> mask_bit (get_single_bit_mask (cip_class ob)) (attr_number a) = Some True"
    "bit (attribute_flags a) 2 \<Longrightarrow> mask_bit (set_bit_mask (cip_class ob)) (attr_number a) = Some True"
    "bit (attribute_flags a) 0 \<Longrightarrow> mask_bit (get_all_bit_mask (cip_class ob)) (attr_number a) = Some True"
    using a(2) by auto
qed

subsection \<open>Registering several classes\<close>

text \<open>
  The contract of a function that creates one class: when the class is not registered yet and the
  arrays it refers to exist, it appends a class of the specified layout to the registry and changes
  nothing else.
\<close>

definition arrays_exist :: "nat list \<Rightarrow> 'e cip_state_scheme \<Rightarrow> bool" where
  "arrays_exist bases st \<longleftrightarrow> (\<forall>b \<in> set bases. data_store st b \<noteq> None)"

locale class_builder =
  fixes create :: "'e cip_state_scheme \<Rightarrow> 'e cip_state_scheme run" and spec :: class_spec and bases :: "nat list"
  assumes fits: "spec_fits spec"
    and creates: "GetCipClass (spec_code spec) st = None \<Longrightarrow> arrays_exist bases st \<Longrightarrow>
      \<exists>ob. create st = Some (st\<lparr>g_first_object := g_first_object st @ [ob]\<rparr>) \<and> class_layout spec ob"
begin

lemma registers:
  assumes "GetCipClass (spec_code spec) st = None" and "arrays_exist bases st"
  shows "\<exists>ob st'. create st = Some st' \<and> GetCipClass (spec_code spec) st' = Some ob \<and> class_layout spec ob \<and>
    data_store st' = data_store st \<and> (\<forall>code. code \<noteq> spec_code spec \<longrightarrow> GetCipClass code st' = GetCipClass code st)"
proof -
  obtain ob where ob: "create st = Some (st\<lparr>g_first_object := g_first_object st @ [ob]\<rparr>)" "class_layout spec ob"
    using creates [OF assms] by blast
  have c: "class_code (cip_class ob) = spec_code spec"
    using ob(2) by (simp add: class_layout_def Let_def)
  have "find P (xs @ [ob]) = (case find P xs of Some y \<Rightarrow> Some y | None \<Rightarrow> if P ob then Some ob else None)" for P xs
    by (induction xs) auto
  then show ?thesis
    using assms(1) ob c by (auto simp: GetCipClass_def GetRegisteredObject_def split: option.splits)
qed

end

fun create_all :: "('s \<Rightarrow> 's run) list \<Rightarrow> 's \<Rightarrow> 's run" where
  "create_all [] st = Some st"
| "create_all (f # fs) st = do { st \<leftarrow> f st; create_all fs st }"

lemma create_all_registers:
  assumes "list_all2 (\<lambda>f (s, bs). class_builder f s bs) fs specs" and "distinct (map (spec_code \<circ> fst) specs)"
    and "\<forall>(s, bs) \<in> set specs. GetCipClass (spec_code s) st = None \<and> arrays_exist bs st"
  shows "\<exists>st'. create_all fs st = Some st' \<and> data_store st' = data_store st \<and>
    (\<forall>(s, bs) \<in> set specs. \<exists>ob. GetCipClass (spec_code s) st' = Some ob \<and> class_layout s ob) \<and>
    (\<forall>code. code \<notin> spec_code ` fst ` set specs \<longrightarrow> GetCipClass code st' = GetCipClass code st)"
  using assms
proof (induction fs specs arbitrary: st rule: list_all2_induct)
  case Nil
  then show ?case by simp
next
  case (Cons f fs sp specs)
  obtain s bs where sp: "sp = (s, bs)" by force
  have b: "class_builder f s bs" using Cons.hyps(1) sp by simp
  have st: "GetCipClass (spec_code s) st = None" "arrays_exist bs st" using Cons.prems(2) sp by auto
  obtain ob st1 where st1: "f st = Some st1" "GetCipClass (spec_code s) st1 = Some ob" "class_layout s ob"
    "data_store st1 = data_store st" "\<And>code. code \<noteq> spec_code s \<Longrightarrow> GetCipClass code st1 = GetCipClass code st"
    using class_builder.registers [OF b st] by blast
  have fresh: "spec_code s \<notin> spec_code ` fst ` set specs" using Cons.prems(1) sp by (simp add: image_image)
  have later: "\<forall>(s', bs') \<in> set specs. GetCipClass (spec_code s') st1 = None \<and> arrays_exist bs' st1"
  proof
    fix p assume p: "p \<in> set specs"
    then have "spec_code (fst p) \<noteq> spec_code s" using fresh by (metis imageI)
    then show "case p of (s', bs') \<Rightarrow> GetCipClass (spec_code s') st1 = None \<and> arrays_exist bs' st1"
      using Cons.prems(2) p st1(4,5) by (auto simp: arrays_exist_def)
  qed
  obtain st' where st': "create_all fs st1 = Some st'" "data_store st' = data_store st1"
    "\<forall>(s, bs) \<in> set specs. \<exists>ob. GetCipClass (spec_code s) st' = Some ob \<and> class_layout s ob"
    "\<forall>code. code \<notin> spec_code ` fst ` set specs \<longrightarrow> GetCipClass code st' = GetCipClass code st1"
    using Cons.IH [OF _ later] Cons.prems(1) by auto
  then show ?case
    using st1 fresh sp by (intro exI [of _ st']) auto
qed

end
