(* ===== verification/Identity.thy ===== *)
theory Identity
  imports ActiveConnections ClassLayout
begin

text \<open>
  The identity object of \<^verbatim>\<open>cip/cipidentity.c\<close>. Its fields are data of attributes of instance 1,
  hence cells of the data store; the revision is one cell of two octets.
\<close>

subsection \<open>Fields\<close>

abbreviation (input) kCipIdentityClassCode :: CipUdint where "kCipIdentityClassCode \<equiv> 1"

definition s_identity :: "nat \<Rightarrow> nat" where "s_identity attribute = 60000 + attribute"
definition s_ext_status :: nat where "s_ext_status = 60009"

record CipIdentityObject =
  id_vendor_id :: CipUint
  id_device_type :: CipUint
  id_product_code :: CipUint
  id_major_revision :: CipUsint
  id_minor_revision :: CipUsint

definition cell16 :: "nat \<Rightarrow> 'e cip_state_scheme \<Rightarrow> CipUint run" where
  "cell16 n st = do { v \<leftarrow> data_store st n; get16 v }"

definition set_cell :: "nat \<Rightarrow> cip_value \<Rightarrow> 'e cip_state_scheme \<Rightarrow> 'e cip_state_scheme" where
  "set_cell n v st = st\<lparr>data_store := (data_store st)(n \<mapsto> v)\<rparr>"

fun get_revision :: "cip_value \<Rightarrow> (CipUsint \<times> CipUsint) run" where
  "get_revision (VOctets [major, minor]) = Some (major, minor)"
| "get_revision _ = None"

text \<open>The fields of \<^verbatim>\<open>g_identity\<close> an electronic key is compared with.\<close>

definition g_identity :: "'e cip_state_scheme \<Rightarrow> CipIdentityObject run" where
  "g_identity st = do {
     v \<leftarrow> cell16 (s_identity 1) st;
     t \<leftarrow> cell16 (s_identity 2) st;
     p \<leftarrow> cell16 (s_identity 3) st;
     r \<leftarrow> data_store st (s_identity 4);
     (major, minor) \<leftarrow> get_revision r;
     Some \<lparr>id_vendor_id = v, id_device_type = t, id_product_code = p, id_major_revision = major, id_minor_revision = minor\<rparr> }"

definition SetDeviceRevision :: "CipUsint \<Rightarrow> CipUsint \<Rightarrow> 'e cip_state_scheme \<Rightarrow> 'e cip_state_scheme" where
  "SetDeviceRevision major minor = set_cell (s_identity 4) (VOctets [major, minor])"

definition SetDeviceSerialNumber :: "CipUdint \<Rightarrow> 'e cip_state_scheme \<Rightarrow> 'e cip_state_scheme" where
  "SetDeviceSerialNumber n = set_cell (s_identity 6) (V32 n)"

definition SetDeviceType :: "CipUint \<Rightarrow> 'e cip_state_scheme \<Rightarrow> 'e cip_state_scheme" where
  "SetDeviceType t = set_cell (s_identity 2) (V16 t)"

definition SetDeviceProductCode :: "CipUint \<Rightarrow> 'e cip_state_scheme \<Rightarrow> 'e cip_state_scheme" where
  "SetDeviceProductCode c = set_cell (s_identity 3) (V16 c)"

definition SetDeviceVendorId :: "CipUint \<Rightarrow> 'e cip_state_scheme \<Rightarrow> 'e cip_state_scheme" where
  "SetDeviceVendorId v = set_cell (s_identity 1) (V16 v)"

definition GetDeviceVendorId :: "'e cip_state_scheme \<Rightarrow> CipUint run" where
  "GetDeviceVendorId st = cell16 (s_identity 1) st"

fun get_short_string :: "cip_value \<Rightarrow> CipShortString run" where
  "get_short_string (VShortString s) = Some s"
| "get_short_string _ = None"

text \<open>\<open>None\<close> is the null pointer.\<close>

definition SetDeviceProductName :: "CipOctet list option \<Rightarrow> 'e cip_state_scheme \<Rightarrow> 'e cip_state_scheme run" where
  "SetDeviceProductName product_name st = (case product_name of
       None \<Rightarrow> Some st
     | Some cstr \<Rightarrow> do {
         v \<leftarrow> data_store st (s_identity 7);
         s \<leftarrow> get_short_string v;
         s \<leftarrow> SetCipShortStringByCstr s cstr;
         Some (set_cell (s_identity 7) (VShortString s) st) })"

definition GetDeviceProductName :: "'e cip_state_scheme \<Rightarrow> CipShortString run" where
  "GetDeviceProductName st = do { v \<leftarrow> data_store st (s_identity 7); get_short_string v }"

definition OPENER_DEVICE_NAME :: "CipOctet list" where
  "OPENER_DEVICE_NAME = map of_char ''DX200 EtherNet/IP Module''"

subsection \<open>The status word\<close>

abbreviation (input) kExtStatusMask :: CipWord where "kExtStatusMask \<equiv> 0x00F0"
abbreviation (input) kMajorRecoverableFault :: CipWord where "kMajorRecoverableFault \<equiv> 0x0400"
abbreviation (input) kMajorUnrecoverableFault :: CipWord where "kMajorUnrecoverableFault \<equiv> 0x0800"
abbreviation (input) kMajorFault :: CipWord where "kMajorFault \<equiv> 0x0050"
abbreviation (input) kSelftestingUnknown :: CipWord where "kSelftestingUnknown \<equiv> 0x0000"
abbreviation (input) kAtLeastOneIoConnectionInRunMode :: CipWord where "kAtLeastOneIoConnectionInRunMode \<equiv> 0x0060"
abbreviation (input) kAtLeastOneIoConnectionEstablishedAllInIdleMode :: CipWord where
  "kAtLeastOneIoConnectionEstablishedAllInIdleMode \<equiv> 0x0070"

definition SetDeviceStatus :: "CipWord \<Rightarrow> 'e cip_state_scheme \<Rightarrow> 'e cip_state_scheme" where
  "SetDeviceStatus status st = set_cell s_ext_status (V16 (status AND kExtStatusMask)) (set_cell (s_identity 5) (V16 status) st)"

definition MergeStatusAndExtStatus :: "'e cip_state_scheme \<Rightarrow> 'e cip_state_scheme run" where
  "MergeStatusAndExtStatus st = do {
     status \<leftarrow> cell16 (s_identity 5) st;
     ext \<leftarrow> cell16 s_ext_status st;
     let status_flags = status AND NOT kExtStatusMask;
     let ext_status = (if status_flags AND (kMajorRecoverableFault OR kMajorUnrecoverableFault) \<noteq> 0
       then kMajorFault else ext AND kExtStatusMask);
     Some (set_cell (s_identity 5) (V16 (status_flags OR ext_status)) st) }"

definition CipIdentitySetStatusFlags :: "CipWord \<Rightarrow> 'e cip_state_scheme \<Rightarrow> 'e cip_state_scheme run" where
  "CipIdentitySetStatusFlags flags st = do {
     status \<leftarrow> cell16 (s_identity 5) st;
     MergeStatusAndExtStatus (set_cell (s_identity 5) (V16 (status OR (flags AND NOT kExtStatusMask))) st) }"

definition CipIdentityClearStatusFlags :: "CipWord \<Rightarrow> 'e cip_state_scheme \<Rightarrow> 'e cip_state_scheme run" where
  "CipIdentityClearStatusFlags flags st = do {
     status \<leftarrow> cell16 (s_identity 5) st;
     MergeStatusAndExtStatus (set_cell (s_identity 5) (V16 (status AND NOT (flags AND NOT kExtStatusMask))) st) }"

definition CipIdentitySetExtendedDeviceStatus :: "CipWord \<Rightarrow> 'e cip_state_scheme \<Rightarrow> 'e cip_state_scheme run" where
  "CipIdentitySetExtendedDeviceStatus ext st =
     MergeStatusAndExtStatus (set_cell s_ext_status (V16 (ext AND kExtStatusMask)) st)"

subsection \<open>The object\<close>

definition EncodeRevision :: "cip_value \<Rightarrow> ENIPMessage \<Rightarrow> ENIPMessage run" where
  "EncodeRevision v m = do {
     (major, minor) \<leftarrow> get_revision v;
     m \<leftarrow> AddSintToMessage major m;
     AddSintToMessage minor m }"

abbreviation (input) kReset :: CipUsint where "kReset \<equiv> 0x05"
abbreviation (input) kGetAttributeList :: CipUsint where "kGetAttributeList \<equiv> 0x03"
abbreviation (input) kSetAttributeList :: CipUsint where "kSetAttributeList \<equiv> 0x04"

abbreviation (input) EncRevision :: encode_function where "EncRevision \<equiv> EncOther 100"
abbreviation (input) IdentityObjectPreResetCallbackFn :: nat where "IdentityObjectPreResetCallbackFn \<equiv> 100"

abbreviation (input) kCipErrorInvalidParameter :: CipUsint where "kCipErrorInvalidParameter \<equiv> 0x20"

text \<open>
  \<open>reset\<close> and \<open>reset_to_defaults\<close> are \<^verbatim>\<open>ResetDevice\<close> and \<^verbatim>\<open>ResetDeviceToInitialConfiguration\<close> of the
  application.
\<close>

definition IdentityObjectPreResetCallback :: "('s \<Rightarrow> (EipStatus \<times> 's) run) \<Rightarrow> ('s \<Rightarrow> (EipStatus \<times> 's) run) \<Rightarrow>
    CipMessageRouterRequest \<Rightarrow> CipMessageRouterResponse \<Rightarrow> 's \<Rightarrow> (EipStatus \<times> CipMessageRouterResponse \<times> 's) run" where
  "IdentityObjectPreResetCallback reset reset_to_defaults req resp st = (
     if request_data_size req > 1 then Some (kEipStatusOkSend, resp\<lparr>general_status := kCipErrorTooMuchData\<rparr>, st)
     else do {
       t \<leftarrow> (if request_data_size req = 1 then array_get (req_data req) 0 else Some 0);
       if t = 0 \<or> t = 1 then do {
         (status, st) \<leftarrow> (if t = 0 then reset st else reset_to_defaults st);
         Some (kEipStatusOkSend,
           if status = kEipStatusError then resp\<lparr>general_status := kCipErrorInvalidParameter\<rparr> else resp, st) }
       else Some (kEipStatusOkSend, resp\<lparr>general_status := kCipErrorInvalidParameter\<rparr>, st) })"

definition InitializeCipIdentity :: "CipClassObject \<Rightarrow> CipClassObject run" where
  "InitializeCipIdentity ob = do {
     let cc = class_code (cip_class ob);
     ob \<leftarrow> class_attribute 1 (DRevision cc) kGetableSingleAndAll ob;
     ob \<leftarrow> class_attribute 2 (DNumberOfInstances cc) kGetableSingleAndAll ob;
     ob \<leftarrow> class_attribute 3 (DNumberOfInstances cc) kGetableSingle ob;
     ob \<leftarrow> class_attribute 4 DUintZero kNotSetOrGetable ob;
     ob \<leftarrow> class_attribute 5 DUintZero kNotSetOrGetable ob;
     ob \<leftarrow> class_attribute 6 (DMetaHighestAttribute cc) kGetableSingleAndAll ob;
     ob \<leftarrow> class_attribute 7 (DHighestAttribute cc) kGetableSingleAndAll ob;
     ob \<leftarrow> on_meta_class (InsertService kGetAttributeAll SvcGetAttributeAll) ob;
     ob \<leftarrow> on_meta_class (InsertService kGetAttributeSingle SvcGetAttributeSingle) ob;
     Some (ob\<lparr>cip_class := (cip_class ob)\<lparr>PreResetCallback := Some IdentityObjectPreResetCallbackFn\<rparr>\<rparr>) }"

fun insert_cells :: "CipInstanceNum \<Rightarrow> (CipUint \<times> CipUsint \<times> encode_function \<times> nat) list \<Rightarrow> CipClassObject \<Rightarrow> CipClassObject run" where
  "insert_cells inst [] ob = Some ob"
| "insert_cells inst ((n, type, enc, cell) # rest) ob = do {
     ob \<leftarrow> InsertAttribute inst n type (Some enc) None (Some (DVar cell)) kGetableSingleAndAll ob;
     insert_cells inst rest ob }"

definition CipIdentityInit :: "'e cip_state_scheme \<Rightarrow> (EipStatus \<times> 'e cip_state_scheme) run" where
  "CipIdentityInit st = do {
     st \<leftarrow> CreateCipClass kCipIdentityClassCode 0 7 2 8 8 5 1 1 (Some InitializeCipIdentity) st;
     name \<leftarrow> GetDeviceProductName st;
     st \<leftarrow> (if css_length name = 0 then SetDeviceProductName (Some OPENER_DEVICE_NAME) st else Some st);
     st \<leftarrow> update_class kCipIdentityClassCode (insert_cells 1
       [(1, kCipUint, EncCipUint, s_identity 1), (2, kCipUint, EncCipUint, s_identity 2),
        (3, kCipUint, EncCipUint, s_identity 3), (4, kCipUsintUsint, EncRevision, s_identity 4),
        (5, kCipWord, EncCipWord, s_identity 5), (6, kCipUdint, EncCipUdint, s_identity 6),
        (7, kCipShortString, EncCipShortString, s_identity 7), (8, kCipUsint, EncCipUsint, s_identity 8)]) st;
     st \<leftarrow> update_class kCipIdentityClassCode (insert_services
       [(kGetAttributeSingle, SvcGetAttributeSingle), (kGetAttributeAll, SvcGetAttributeAll), (kReset, SvcReset),
        (kGetAttributeList, SvcGetAttributeList), (kSetAttributeList, SvcSetAttributeList)]) st;
     Some (kEipStatusOk, st) }"

end
