(* ===== verification/Sessions.thy ===== *)
theory Sessions
  imports ActiveConnections
begin

text \<open>
  The session table of \<^verbatim>\<open>enet_encap/encap.c\<close> and what closes sessions: the functions that
  close a session and its explicit connections, and the time-out handlers of the connections in
  \<^verbatim>\<open>cip/cipclass3connection.c\<close> and \<^verbatim>\<open>cip/cipioconnection.c\<close>, which close sessions in turn.

  \<open>peer s\<close> is the address \<^verbatim>\<open>getpeername\<close> reports for socket \<open>s\<close>, \<open>None\<close> when it fails.
\<close>

subsection \<open>The session table\<close>

datatype SessionStatus = kSessionStatusInvalid | kSessionStatusValid

definition GetFreeSessionIndex :: "'e stack_state_scheme \<Rightarrow> nat option" where
  "GetFreeSessionIndex st = first_index (\<lambda>s. s = kEipInvalidSocket) (g_registered_sessions st)"

definition CheckRegisteredSessions :: "CipSessionHandle \<Rightarrow> 'e stack_state_scheme \<Rightarrow> SessionStatus run" where
  "CheckRegisteredSessions h st = (
     if 0 < h \<and> h \<le> of_nat OPENER_NUMBER_OF_SUPPORTED_SESSIONS
     then do {
       s \<leftarrow> array_get (g_registered_sessions st) (unat (h - 1));
       Some (if s \<noteq> kEipInvalidSocket then kSessionStatusValid else kSessionStatusInvalid) }
     else Some kSessionStatusInvalid)"

definition GetSessionFromSocket :: "int \<Rightarrow> 'e stack_state_scheme \<Rightarrow> CipSessionHandle" where
  "GetSessionFromSocket s st = (case first_index (\<lambda>x. s = x) (g_registered_sessions st) of
       Some i \<Rightarrow> of_nat i
     | None \<Rightarrow> of_nat OPENER_NUMBER_OF_SUPPORTED_SESSIONS)"

definition set_session :: "nat \<Rightarrow> int \<Rightarrow> 'e stack_state_scheme \<Rightarrow> 'e stack_state_scheme run" where
  "set_session i s st = do {
     ss \<leftarrow> array_set (g_registered_sessions st) i s;
     Some (st\<lparr>g_registered_sessions := ss\<rparr>) }"

text \<open>The successor of a node is read after its connection was closed.\<close>

partial_function (option) close_class3_from :: "CipSessionHandle \<Rightarrow> nat option \<Rightarrow> 'e stack_state_scheme \<Rightarrow>
    'e stack_state_scheme option" where
  "close_class3_from h node st = (case node of
       None \<Rightarrow> Some st
     | Some i \<Rightarrow> do {
         d \<leftarrow> node_object i st;
         co \<leftarrow> get_connection d st;
         st \<leftarrow> (if ConnectionObjectGetTransportClassTriggerTransportClass co =
                  kConnectionObjectTransportClassTriggerTransportClass3 \<and> associated_encapsulation_session co = h
               then call_close_function d st else Some st);
         n \<leftarrow> array_get (nodes (connection_list st)) i;
         close_class3_from h (next_node n) st })"

definition CloseClass3ConnectionBasedOnSession :: "CipSessionHandle \<Rightarrow> 'e stack_state_scheme \<Rightarrow> 'e stack_state_scheme run" where
  "CloseClass3ConnectionBasedOnSession h st = close_class3_from h (list_head st) st"

definition CloseSession :: "int \<Rightarrow> 'e stack_state_scheme \<Rightarrow> 'e stack_state_scheme run" where
  "CloseSession s st = (case first_index (\<lambda>x. x = s) (g_registered_sessions st) of
       None \<Rightarrow> Some st
     | Some i \<Rightarrow> do {
         st \<leftarrow> CloseTcpSocket s st;
         st \<leftarrow> set_session i kEipInvalidSocket st;
         CloseClass3ConnectionBasedOnSession (of_nat i + 1) st })"

definition RemoveSession :: "int \<Rightarrow> 'e stack_state_scheme \<Rightarrow> 'e stack_state_scheme run" where
  "RemoveSession s st = (case first_index (\<lambda>x. x = s) (g_registered_sessions st) of
       None \<Rightarrow> Some st
     | Some i \<Rightarrow> do {
         st \<leftarrow> set_session i kEipInvalidSocket st;
         CloseClass3ConnectionBasedOnSession (of_nat i + 1) st })"

text \<open>A handle of 0 indexes the word before the table.\<close>

definition CloseSessionBySessionHandle :: "nat \<Rightarrow> 'e stack_state_scheme \<Rightarrow> 'e stack_state_scheme run" where
  "CloseSessionBySessionHandle d st = do {
     co \<leftarrow> get_connection d st;
     let i = unat (associated_encapsulation_session co - 1);
     s \<leftarrow> array_get (g_registered_sessions st) i;
     st \<leftarrow> CloseTcpSocket s st;
     set_session i kEipInvalidSocket st }"

fun close_by_address :: "(int \<Rightarrow> CipUdint option) \<Rightarrow> nat \<Rightarrow> nat list \<Rightarrow> 'e stack_state_scheme \<Rightarrow> 'e stack_state_scheme run" where
  "close_by_address peer d [] st = Some st"
| "close_by_address peer d (i # is) st = do {
     s \<leftarrow> array_get (g_registered_sessions st) i;
     co \<leftarrow> get_connection d st;
     st \<leftarrow> (if s \<noteq> kEipInvalidSocket \<and>
              (case peer s of Some a \<Rightarrow> a | None \<Rightarrow> 0) = sin_addr (originator_address co)
           then CloseSession s st else Some st);
     close_by_address peer d is st }"

definition CloseEncapsulationSessionBySockAddr :: "(int \<Rightarrow> CipUdint option) \<Rightarrow> nat \<Rightarrow> 'e stack_state_scheme \<Rightarrow>
    'e stack_state_scheme run" where
  "CloseEncapsulationSessionBySockAddr peer d st =
     close_by_address peer d [0..<OPENER_NUMBER_OF_SUPPORTED_SESSIONS] st"

fun shut_down_sessions :: "nat list \<Rightarrow> 'e stack_state_scheme \<Rightarrow> 'e stack_state_scheme run" where
  "shut_down_sessions [] st = Some st"
| "shut_down_sessions (i # is) st = do {
     s \<leftarrow> array_get (g_registered_sessions st) i;
     st \<leftarrow> (if s \<noteq> kEipInvalidSocket then do {
             st \<leftarrow> CloseTcpSocket s st;
             set_session i kEipInvalidSocket st }
           else Some st);
     shut_down_sessions is st }"

definition EncapsulationShutDown :: "'e stack_state_scheme \<Rightarrow> 'e stack_state_scheme run" where
  "EncapsulationShutDown st = shut_down_sessions [0..<OPENER_NUMBER_OF_SUPPORTED_SESSIONS] st"

subsection \<open>Time-outs\<close>

definition CheckForTimedOutConnectionsAndCloseTCPConnections :: "nat \<Rightarrow> (nat \<Rightarrow> 'e stack_state_scheme \<Rightarrow> 'e stack_state_scheme run) \<Rightarrow>
    'e stack_state_scheme \<Rightarrow> 'e stack_state_scheme run" where
  "CheckForTimedOutConnectionsAndCloseTCPConnections d CloseSessions st = do {
     co \<leftarrow> get_connection d st;
     found \<leftarrow> find_from (\<lambda>x. ConnectionObjectEqualOriginator co (connections st ! x) \<and> d \<noteq> x \<and>
       ConnectionObjectGetState (connections st ! x) \<noteq> kConnectionObjectStateTimedOut) (list_head st) (connection_list st);
     if found = None then CloseSessions d st else Some st }"

definition Class3ConnectionTimeoutHandler :: "nat \<Rightarrow> 'e stack_state_scheme \<Rightarrow> 'e stack_state_scheme run" where
  "Class3ConnectionTimeoutHandler d st = do {
     st \<leftarrow> CheckForTimedOutConnectionsAndCloseTCPConnections d CloseSessionBySessionHandle st;
     CloseConnection d st }"

definition HandleIoConnectionTimeOut :: "(int \<Rightarrow> CipUdint option) \<Rightarrow> nat \<Rightarrow> 'e stack_state_scheme \<Rightarrow> 'e stack_state_scheme run" where
  "HandleIoConnectionTimeOut peer d st = do {
     co0 \<leftarrow> get_connection d st;
     let ty = ConnectionObjectGetInstanceType co0;
     let conn_type = ConnectionObjectGetTToOConnectionType co0;
     st \<leftarrow> update_connection d (ConnectionObjectSetState kConnectionObjectStateTimedOut) st;
     co \<leftarrow> get_connection d st;
     st \<leftarrow> (if last_package_watchdog_timer co = inactivity_watchdog_timer co
           then CheckForTimedOutConnectionsAndCloseTCPConnections d (CloseEncapsulationSessionBySockAddr peer) st
           else Some st);
     co \<leftarrow> get_connection d st;
     (handover, st) \<leftarrow> (if (ty = kConnectionObjectInstanceTypeIOExclusiveOwner \<or> ty = kConnectionObjectInstanceTypeIOInputOnly) \<and>
           conn_type = kConnectionObjectConnectionTypeMulticast \<and> socket_producing co \<noteq> kEipInvalidSocket
         then do {
           (failed, st) \<leftarrow> transfer_master_connection d st;
           if failed then do {
             st \<leftarrow> CloseAllConnectionsForInputWithSameType (ucast (cp_instance_id (produced_path co)))
               kConnectionObjectInstanceTypeIOListenOnly st;
             Some (False, st) }
           else Some (True, st) }
         else Some (False, st));
     st \<leftarrow> (if ty = kConnectionObjectInstanceTypeIOExclusiveOwner \<and> \<not> handover then do {
             co \<leftarrow> get_connection d st;
             st \<leftarrow> CloseAllConnectionsForInputWithSameType (ucast (cp_instance_id (produced_path co)))
               kConnectionObjectInstanceTypeIOInputOnly st;
             co \<leftarrow> get_connection d st;
             CloseAllConnectionsForInputWithSameType (ucast (cp_instance_id (produced_path co)))
               kConnectionObjectInstanceTypeIOListenOnly st }
           else Some st);
     st \<leftarrow> update_connection d (ConnectionObjectSetState kConnectionObjectStateTimedOut) st;
     if conn_type = kConnectionObjectConnectionTypePointToPoint \<or> \<not> handover
     then CloseCommunicationChannelsAndRemoveFromActiveConnectionsList d st
     else update_connection d (\<lambda>co. Some (co\<lparr>inactivity_watchdog_timer := 10000\<rparr>)) st }"

definition call_timeout_function :: "(int \<Rightarrow> CipUdint option) \<Rightarrow> nat \<Rightarrow> 'e stack_state_scheme \<Rightarrow> 'e stack_state_scheme run" where
  "call_timeout_function peer d st = do {
     co \<leftarrow> get_connection d st;
     f \<leftarrow> connection_timeout_function co;
     (case f of
        Class3ConnectionTimeoutHandlerFn \<Rightarrow> Class3ConnectionTimeoutHandler d st
      | HandleIoConnectionTimeOutFn \<Rightarrow> HandleIoConnectionTimeOut peer d st) }"

subsection \<open>Explicit connections of a closed session\<close>

definition of_session :: "CipSessionHandle \<Rightarrow> CipConnectionObject \<Rightarrow> bool" where
  "of_session h co \<longleftrightarrow> class3 co \<and> associated_encapsulation_session co = h"

lemma first_split_unique: "us @ d # vs = xs @ d # ys \<Longrightarrow> d \<notin> set us \<Longrightarrow> d \<notin> set xs \<Longrightarrow> us = xs \<and> vs = ys"
  by (induction us arbitrary: xs) (auto simp: Cons_eq_append_conv append_eq_Cons_conv)

lemma close_class3_skip:
  assumes "linked (nodes (connection_list st)) p (xs @ zs) None"
    and "\<forall>x \<in> set xs. node_content (connection_list st) x < length (connections st) \<and>
      \<not> of_session h (connections st ! node_content (connection_list st) x)"
  shows "close_class3_from h (head_or (xs @ zs) None) st = close_class3_from h (head_or zs None) st"
  using assms
proof (induction xs arbitrary: p)
  case Nil
  then show ?case by simp
next
  case (Cons x xs)
  let ?n = "nodes (connection_list st) ! x"
  have x: "x < length (nodes (connection_list st))" "node_data ?n = Some (node_content (connection_list st) x)"
      "next_node ?n = head_or (xs @ zs) None" "linked (nodes (connection_list st)) (Some x) (xs @ zs) None"
    using Cons.prems(1) by (auto simp: node_content_def)
  have "close_class3_from h (head_or ((x # xs) @ zs) None) st = close_class3_from h (head_or (xs @ zs) None) st"
    using x Cons.prems(2) by (subst close_class3_from.simps) (auto simp: node_object_def of_session_def class3_def)
  with Cons.IH [OF x(4)] Cons.prems(2) show ?case by simp
qed

text \<open>Only the first listed connection of the session is closed.\<close>

lemma close_class3_first:
  assumes "active_list st (us @ d # vs)" and "d \<notin> set us"
    and "\<forall>x \<in> set us. x < length (connections st) \<and> \<not> of_session h (connections st ! x)"
    and "d < length (connections st)" and "of_session h (connections st ! d)"
    and "connection_close_function (connections st ! d) = Some CloseConnectionFn"
  shows "\<exists>l. CloseClass3ConnectionBasedOnSession h st =
      Some (st\<lparr>connection_list := l, connections := (connections st)[d := empty_connection]\<rparr>) \<and>
    active_list (st\<lparr>connection_list := l, connections := (connections st)[d := empty_connection]\<rparr>) (us @ vs)"
proof -
  from assms(1) have "d \<in> set (us @ d # vs)" by simp
  then obtain xs i ys where n: "dll_wf (connection_list st) (xs @ i # ys)"
      "node_content (connection_list st) i = d" "d \<notin> set (dll_data (connection_list st) xs)"
      "us @ d # vs = dll_data (connection_list st) xs @ d # dll_data (connection_list st) ys"
    using active_list_split [OF assms(1)] by metis
  then have us: "us = dll_data (connection_list st) xs" "vs = dll_data (connection_list st) ys"
    using first_split_unique [OF n(4) assms(2) n(3)] by simp_all
  from remove_active_node [OF n(1,2,3)] obtain l where
      l: "RemoveFromActiveConnections d st = Some (st\<lparr>connection_list := l\<rparr>)" "dll_wf l (xs @ ys)"
      "dll_data l (xs @ ys) = dll_data (connection_list st) xs @ dll_data (connection_list st) ys"
      "nodes l ! i = null_node" "length (nodes l) = list_room st"
    by auto
  let ?st = "st\<lparr>connection_list := l, connections := (connections st)[d := empty_connection]\<rparr>"
  have cl: "call_close_function d st = Some ?st"
    using l(1) assms(4,5,6)
    by (simp add: call_close_function_def CloseConnection_def of_session_def class3_def update_connection_less)
  have i: "i < length (nodes (connection_list st))" "node_data (nodes (connection_list st) ! i) = Some d"
    using n(1,2) by (auto simp: dll_wf_def linked_append node_content_def)
  then have "node_object i st = Some d" by (simp add: node_object_def)
  moreover have "i < length (nodes l)" using i l(5) by (simp add: list_room_def)
  ultimately have "close_class3_from h (Some i) st = close_class3_from h None ?st"
    using assms(4,5) l(4) by (subst close_class3_from.simps) (simp add: of_session_def class3_def cl null_node_def)
  also have "\<dots> = Some ?st" by (simp add: close_class3_from.simps)
  finally have stop: "close_class3_from h (Some i) st = Some ?st" .
  have "list_head st = head_or (xs @ i # ys) None" using n(1) by (simp add: dll_wf_def list_head_def)
  moreover have "close_class3_from h (head_or (xs @ i # ys) None) st = close_class3_from h (head_or (i # ys) None) st"
    using n(1) assms(3) us(1) by (intro close_class3_skip [where p = None]) (auto simp: dll_wf_def dll_data_content)
  ultimately have "CloseClass3ConnectionBasedOnSession h st = Some ?st"
    using stop by (simp add: CloseClass3ConnectionBasedOnSession_def)
  moreover have "active_list ?st (us @ vs)"
    using l(2,3) us by (auto simp: active_list_def)
  ultimately show ?thesis by blast
qed

lemma close_class3_none:
  assumes "active_list st ds" and "\<forall>x \<in> set ds. x < length (connections st) \<and> \<not> of_session h (connections st ! x)"
  shows "CloseClass3ConnectionBasedOnSession h st = Some st"
proof -
  obtain js where l: "dll_wf (connection_list st) js" "ds = dll_data (connection_list st) js"
    using assms(1) by (auto simp: active_list_def)
  have "close_class3_from h (head_or (js @ []) None) st = close_class3_from h (head_or [] None) st"
    using l assms(2) by (intro close_class3_skip [where p = None]) (auto simp: dll_wf_def dll_data_content)
  with l(1) show ?thesis
    by (simp add: CloseClass3ConnectionBasedOnSession_def list_head_def dll_wf_def close_class3_from.simps)
qed

text \<open>The listed connections exist, and the explicit ones are closed by \<^verbatim>\<open>CloseConnection\<close>.\<close>

definition closable :: "'e stack_state_scheme \<Rightarrow> nat list \<Rightarrow> bool" where
  "closable st ds \<longleftrightarrow> active_list st ds \<and> (\<forall>x \<in> set ds. x < length (connections st) \<and>
     (class3 (connections st ! x) \<longrightarrow> connection_close_function (connections st ! x) = Some CloseConnectionFn))"

lemma closableD: "closable st ds \<Longrightarrow> active_list st ds" "closable st ds \<Longrightarrow> x \<in> set ds \<Longrightarrow> x < length (connections st)"
  "closable st ds \<Longrightarrow> x \<in> set ds \<Longrightarrow> of_session h (connections st ! x) \<Longrightarrow> connection_close_function (connections st ! x) = Some CloseConnectionFn"
  by (auto simp: closable_def of_session_def)

lemma empty_not_class3 [simp]: "\<not> class3 empty_connection"
  by (simp add: class3_def empty_connection_def zero_connection_def ConnectionObjectGetTransportClassTriggerTransportClass_def)

lemma active_list_frame: "connection_list st' = connection_list st \<Longrightarrow> active_list st' ds = active_list st ds"
  by (simp add: active_list_def)

lemma closable_frame: "connection_list st' = connection_list st \<Longrightarrow> connections st' = connections st \<Longrightarrow> closable st' ds = closable st ds"
  by (simp add: closable_def active_list_def)

lemma close_class3_returns:
  assumes "closable st ds"
  shows "\<exists>l cs ds'. CloseClass3ConnectionBasedOnSession h st = Some (st\<lparr>connection_list := l, connections := cs\<rparr>) \<and>
    closable (st\<lparr>connection_list := l, connections := cs\<rparr>) ds'"
proof (cases "\<exists>x \<in> set ds. of_session h (connections st ! x)")
  case True
  then obtain us d vs where ds: "ds = us @ d # vs" "of_session h (connections st ! d)"
      "\<forall>x \<in> set us. \<not> of_session h (connections st ! x)"
    using split_list_first_prop [of ds "\<lambda>x. of_session h (connections st ! x)"] by blast
  have "d < length (connections st)" "connection_close_function (connections st ! d) = Some CloseConnectionFn"
    using closableD(2,3) [OF assms] ds by auto
  then obtain l where l: "CloseClass3ConnectionBasedOnSession h st =
      Some (st\<lparr>connection_list := l, connections := (connections st)[d := empty_connection]\<rparr>)"
      "active_list (st\<lparr>connection_list := l, connections := (connections st)[d := empty_connection]\<rparr>) (us @ vs)"
    using close_class3_first [of st us d vs h] closableD(1,2) [OF assms] ds by auto
  moreover have "closable (st\<lparr>connection_list := l, connections := (connections st)[d := empty_connection]\<rparr>) (us @ vs)"
    using l(2) assms ds(1) by (auto simp: closable_def nth_list_update)
  ultimately show ?thesis by blast
next
  case False
  then have "CloseClass3ConnectionBasedOnSession h st = Some st"
    using closableD(2) [OF assms] by (intro close_class3_none [OF closableD(1) [OF assms]]) auto
  then show ?thesis using assms by (intro exI [of _ "connection_list st"] exI [of _ "connections st"] exI [of _ ds]) simp
qed

text \<open>
  C33: Closing the explicit connections of a session closes only the one opened last: the list node
  is cleared with its connection, and the loop reads the successor from the cleared node. Every
  other connection stays as it was, so that further connections of the session stay established.
\<close>

theorem session_close_stops_at_first:
  assumes "active_list st (us @ d # vs)" and "d \<notin> set us"
    and "\<forall>x \<in> set us. x < length (connections st) \<and> \<not> of_session h (connections st ! x)"
    and "d < length (connections st)" and "of_session h (connections st ! d)"
    and "connection_close_function (connections st ! d) = Some CloseConnectionFn"
  shows "\<exists>st'. CloseClass3ConnectionBasedOnSession h st = Some st' \<and> active_list st' (us @ vs) \<and>
    connections st' = (connections st)[d := empty_connection]"
  using close_class3_first [OF assms] by fastforce

subsection \<open>The loop that clears timers, cut off\<close>

text \<open>
  \<open>timer_rounds n s ts\<close> are the timers after \<open>n\<close> rounds of the loop of \<^verbatim>\<open>RemoveSocketTimerFromList\<close>
  (or fewer, if it ends before). The three functions after it are the ones of the program with the
  loop as an argument: with \<open>remove_timers\<close> they are the program, with \<open>cut_off n\<close> they leave the
  loop after at most \<open>n\<close> rounds and go on.
\<close>

fun timer_rounds :: "nat \<Rightarrow> int \<Rightarrow> SocketTimer list \<Rightarrow> SocketTimer list" where
  "timer_rounds 0 s ts = ts"
| "timer_rounds (Suc n) s ts = (case SocketTimerArrayGetSocketTimer ts s of
       None \<Rightarrow> ts
     | Some i \<Rightarrow> timer_rounds n s (ts[i := SocketTimerClear (ts ! i)]))"

definition cut_off :: "nat \<Rightarrow> int \<Rightarrow> SocketTimer list \<Rightarrow> SocketTimer list run" where
  "cut_off n s ts = Some (timer_rounds n s ts)"

definition CloseTcpSocket_by :: "(int \<Rightarrow> SocketTimer list \<Rightarrow> SocketTimer list run) \<Rightarrow> int \<Rightarrow> 'e stack_state_scheme \<Rightarrow>
    'e stack_state_scheme run" where
  "CloseTcpSocket_by timer_loop s st = do {
     let st = note_event (SocketShutDown s) st;
     ts \<leftarrow> timer_loop s (g_timestamps st);
     Some (CloseSocket s (st\<lparr>g_timestamps := ts\<rparr>)) }"

definition CloseSessionBySessionHandle_by :: "(int \<Rightarrow> SocketTimer list \<Rightarrow> SocketTimer list run) \<Rightarrow> nat \<Rightarrow>
    'e stack_state_scheme \<Rightarrow> 'e stack_state_scheme run" where
  "CloseSessionBySessionHandle_by timer_loop d st = do {
     co \<leftarrow> get_connection d st;
     let i = unat (associated_encapsulation_session co - 1);
     s \<leftarrow> array_get (g_registered_sessions st) i;
     st \<leftarrow> CloseTcpSocket_by timer_loop s st;
     set_session i kEipInvalidSocket st }"

definition Class3ConnectionTimeoutHandler_by :: "(int \<Rightarrow> SocketTimer list \<Rightarrow> SocketTimer list run) \<Rightarrow> nat \<Rightarrow>
    'e stack_state_scheme \<Rightarrow> 'e stack_state_scheme run" where
  "Class3ConnectionTimeoutHandler_by timer_loop d st = do {
     st \<leftarrow> CheckForTimedOutConnectionsAndCloseTCPConnections d (CloseSessionBySessionHandle_by timer_loop) st;
     CloseConnection d st }"

lemma CloseTcpSocket_by_loop: "CloseTcpSocket_by remove_timers = CloseTcpSocket"
  by (rule ext)+ (simp add: CloseTcpSocket_by_def CloseTcpSocket_def RemoveSocketTimerFromList_def note_event_def)

lemma CloseSessionBySessionHandle_by_loop: "CloseSessionBySessionHandle_by remove_timers = CloseSessionBySessionHandle"
  by (rule ext)+ (simp add: CloseSessionBySessionHandle_by_def CloseSessionBySessionHandle_def CloseTcpSocket_by_loop)

lemma timeout_by_loop: "Class3ConnectionTimeoutHandler_by remove_timers = Class3ConnectionTimeoutHandler"
  by (rule ext)+ (simp add: Class3ConnectionTimeoutHandler_by_def Class3ConnectionTimeoutHandler_def
      CloseSessionBySessionHandle_by_loop)

text \<open>Where the loop ends after some rounds, the rounds are what it computes.\<close>

lemma timer_rounds_end:
  "SocketTimerArrayGetSocketTimer (timer_rounds n s ts) s = None \<Longrightarrow> remove_timers s ts = Some (timer_rounds n s ts)"
  by (induction n s ts rule: timer_rounds.induct)
    (subst remove_timers.simps; simp split: option.splits)+

lemma timer_rounds_free:
  assumes "\<exists>t \<in> set ts. timer_socket t = kEipInvalidSocket"
  shows "SocketTimerArrayGetSocketTimer (timer_rounds n kEipInvalidSocket ts) kEipInvalidSocket \<noteq> None"
proof
  assume "SocketTimerArrayGetSocketTimer (timer_rounds n kEipInvalidSocket ts) kEipInvalidSocket = None"
  from timer_rounds_end [OF this] show False
    using remove_timers_invalid assms by blast
qed

text \<open>The last connection of its originator takes the session along.\<close>

lemma last_of_originator:
  assumes "active_list st ds" and "d < length (connections st)"
    and "\<forall>x \<in> set ds. x \<noteq> d \<longrightarrow> \<not> ConnectionObjectEqualOriginator (connections st ! d) (connections st ! x) \<or>
      ConnectionObjectGetState (connections st ! x) = kConnectionObjectStateTimedOut"
  shows "CheckForTimedOutConnectionsAndCloseTCPConnections d CloseSessions st = CloseSessions d st"
proof -
  obtain "is" where wf: "dll_wf (connection_list st) is" and ds: "ds = map (node_content (connection_list st)) is"
    using assms(1) by (auto simp: active_list_def dll_data_content)
  let ?P = "\<lambda>x. ConnectionObjectEqualOriginator (connections st ! d) (connections st ! x) \<and> d \<noteq> x \<and>
       ConnectionObjectGetState (connections st ! x) \<noteq> kConnectionObjectStateTimedOut"
  have "find (\<lambda>i. ?P (node_content (connection_list st) i)) is = None"
    using assms(3) by (auto simp: find_None_iff ds)
  then have "find_from ?P (list_head st) (connection_list st) = Some None"
    using dll_wf_find [OF wf, of ?P] by (simp add: list_head_def node_content_def)
  then show ?thesis
    using assms(2) by (simp add: CheckForTimedOutConnectionsAndCloseTCPConnections_def)
qed

text \<open>
  C36: An explicit connection that outlives its session stops the device when it times out: if the
  slot of its session in the session table is free again (the session was closed), no other
  connection of the same originator is alive (that is, listed and not timed out) and one socket timer
  is free, the time-out handler shuts down the invalid socket and enters the loop that clears the
  timers of this socket. After every number of rounds a timer still carries it, so the loop goes on
  for ever and the handler does not return. It is the loop alone that keeps the handler from
  returning: left after any number of rounds, the handler would go on to its end and close the
  connection.
\<close>

theorem timeout_after_session_end_hangs:
  assumes "active_list st ds" and "d < length (connections st)" and "class3 (connections st ! d)"
    and "associated_encapsulation_session (connections st ! d) = of_nat h" and "1 \<le> h" and "h \<le> 32"
    and "length (g_registered_sessions st) = 32" and "g_registered_sessions st ! (h - 1) = kEipInvalidSocket"
    and "\<exists>t \<in> set (g_timestamps st). timer_socket t = kEipInvalidSocket"
    and "\<forall>x \<in> set ds. x \<noteq> d \<longrightarrow> \<not> ConnectionObjectEqualOriginator (connections st ! d) (connections st ! x) \<or>
      ConnectionObjectGetState (connections st ! x) = kConnectionObjectStateTimedOut"
  shows "Class3ConnectionTimeoutHandler d st = Class3ConnectionTimeoutHandler_by remove_timers d st \<and>
    Class3ConnectionTimeoutHandler_by remove_timers d st = None \<and>
    (\<forall>n. SocketTimerArrayGetSocketTimer (timer_rounds n kEipInvalidSocket (g_timestamps st)) kEipInvalidSocket \<noteq> None \<and>
      (\<exists>st'. Class3ConnectionTimeoutHandler_by (cut_off n) d st = Some st' \<and>
        net_events st' = net_events st @ [SocketShutDown kEipInvalidSocket] \<and>
        g_timestamps st' = timer_rounds n kEipInvalidSocket (g_timestamps st) \<and>
        connections st' = (connections st)[d := empty_connection] \<and> active_list st' (remove1 d ds)))"
proof -
  have i: "unat (of_nat h - 1 :: CipSessionHandle) = h - 1"
  proof -
    have "(of_nat h - 1 :: CipSessionHandle) = of_nat (h - 1)" using assms(5) by (simp add: of_nat_diff)
    then show ?thesis using assms(6) by (simp add: unat_of_nat take_bit_nat_eq_self)
  qed
  note close = last_of_originator [OF assms(1,2,10)]
  have "CloseSessionBySessionHandle d st = None"
    using assms(2,4-9) i CloseTcpSocket_hangs [OF assms(9)] by (simp add: CloseSessionBySessionHandle_def)
  then have "Class3ConnectionTimeoutHandler d st = None"
    by (simp add: Class3ConnectionTimeoutHandler_def close)
  moreover have "\<exists>st'. Class3ConnectionTimeoutHandler_by (cut_off n) d st = Some st' \<and>
      net_events st' = net_events st @ [SocketShutDown kEipInvalidSocket] \<and>
      g_timestamps st' = timer_rounds n kEipInvalidSocket (g_timestamps st) \<and>
      connections st' = (connections st)[d := empty_connection] \<and> active_list st' (remove1 d ds)" for n
  proof -
    define st1 where "st1 = st\<lparr>net_events := net_events st @ [SocketShutDown kEipInvalidSocket],
      g_timestamps := timer_rounds n kEipInvalidSocket (g_timestamps st),
      g_registered_sessions := (g_registered_sessions st)[h - 1 := kEipInvalidSocket]\<rparr>"
    have "CloseSessionBySessionHandle_by (cut_off n) d st = Some st1"
      using assms(2,4-8) i
      by (simp add: st1_def CloseSessionBySessionHandle_by_def CloseTcpSocket_by_def cut_off_def note_event_def CloseSocket_def
          set_session_def)
    moreover have "active_list st1 ds" using assms(1) by (simp add: st1_def active_list_def)
    from CloseConnection_class3 [OF this, of d] assms(2,3) obtain l where
      "CloseConnection d st1 = Some (st1\<lparr>connection_list := l, connections := (connections st1)[d := empty_connection]\<rparr>)"
      "\<forall>st'. connection_list (st' :: 'a stack_state_scheme) = l \<longrightarrow> active_list st' (remove1 d ds)"
      by (auto simp: st1_def)
    ultimately show ?thesis
      by (simp add: Class3ConnectionTimeoutHandler_by_def close) (simp add: st1_def)
  qed
  ultimately show ?thesis
    using timer_rounds_free [OF assms(9)] by (simp add: timeout_by_loop)
qed

subsection \<open>Two connections over one session\<close>

definition initial_timer :: SocketTimer where
  "initial_timer = \<lparr>timer_socket = kEipInvalidSocket, last_update = 0\<rparr>"

text \<open>The state of the stack before any connection, with its tables in their initial state.\<close>

definition initial_stack :: stack_state where
  "initial_stack = cip_state.extend example_state (stack_state.fields (replicate 13 zero_connection) (empty_list 9)
     zero_connection 0 18 (replicate 3 \<lparr>handled_class_id = 0, open_connection_function = None\<rparr>)
     \<lparr>output_assembly = 0, input_assembly = 0, config_assembly = 0\<rparr> \<lparr>output_assembly = 0, input_assembly = 0, config_assembly = 0\<rparr>
     \<lparr>output_assembly = 0, input_assembly = 0, config_assembly = 0\<rparr> zero_packet None 0 0 0 (replicate 32 kEipInvalidSocket)
     (replicate 32 initial_timer) 0 zero_sockaddr (- 1) (- 1) 0 False False 0 {} 0 NetworkResetInterfaceCounters 0 [])"

definition explicit_example :: "CipUint \<Rightarrow> CipConnectionObject" where
  "explicit_example n = zero_connection\<lparr>conn_state := 3, transport_class_trigger := 0xA3, connection_serial_number := n,
     associated_encapsulation_session := 1, connection_close_function := Some CloseConnectionFn,
     connection_timeout_function := Some Class3ConnectionTimeoutHandlerFn\<rparr>"

text \<open>Connections 0 and 1 are open over session 1, the latter first in the list.\<close>

definition two_connections :: stack_state where
  "two_connections = initial_stack\<lparr>connections := [explicit_example 1, explicit_example 2] @ replicate 11 zero_connection,
     connection_list := \<lparr>nodes = [\<lparr>previous_node = Some 1, next_node = None, node_data = Some 0\<rparr>,
         \<lparr>previous_node = None, next_node = Some 0, node_data = Some 1\<rparr>] @ replicate 7 null_node,
       first_node = Some 1, last_node = Some 0, allocator = True, deallocator = True\<rparr>,
     g_registered_sessions := replicate 32 kEipInvalidSocket\<rparr>"

lemma two_connections_active: "active_list two_connections [1, 0]"
proof -
  have "i < 9 \<Longrightarrow> i \<noteq> 1 \<Longrightarrow> i \<noteq> 0 \<Longrightarrow> nodes (connection_list two_connections) ! i = null_node" for i
    by (auto simp: two_connections_def nth_append nth_Cons')
  then have "dll_wf (connection_list two_connections) [1, 0]"
    by (simp add: dll_wf_def two_connections_def)
  then show ?thesis
    unfolding active_list_def by (intro exI [of _ "[1, 0]"]) (simp add: dll_data_def two_connections_def)
qed

theorem session_close_stops_at_first_witness:
  "\<exists>st'. CloseClass3ConnectionBasedOnSession 1 two_connections = Some st' \<and> active_list st' [0] \<and>
    connections st' = [explicit_example 1, empty_connection] @ replicate 11 zero_connection"
  using session_close_stops_at_first [of two_connections "[]" 1 "[0]" 1] two_connections_active
  by (simp add: two_connections_def explicit_example_def of_session_def class3_def zero_connection_def
      ConnectionObjectGetTransportClassTriggerTransportClass_def)

definition outliving_connection :: stack_state where
  "outliving_connection = two_connections\<lparr>connections := [explicit_example 1, empty_connection] @ replicate 11 zero_connection,
     connection_list := \<lparr>nodes = [\<lparr>previous_node = None, next_node = None, node_data = Some 0\<rparr>] @ replicate 8 null_node,
       first_node = Some 0, last_node = Some 0, allocator = True, deallocator = True\<rparr>\<rparr>"

lemma outliving_connection_active: "active_list outliving_connection [0]"
proof -
  have "i < 9 \<Longrightarrow> i \<noteq> 0 \<Longrightarrow> nodes (connection_list outliving_connection) ! i = null_node" for i
    by (simp add: outliving_connection_def nth_Cons')
  then have "dll_wf (connection_list outliving_connection) [0]" by (simp add: dll_wf_def outliving_connection_def)
  then show ?thesis
    unfolding active_list_def by (intro exI [of _ "[0]"]) (simp add: dll_data_def outliving_connection_def)
qed

theorem timeout_after_session_end_hangs_witness:
  "Class3ConnectionTimeoutHandler 0 outliving_connection = None \<and>
   Class3ConnectionTimeoutHandler_by (cut_off 100) 0 outliving_connection \<noteq> None \<and>
   SocketTimerArrayGetSocketTimer (timer_rounds 100 kEipInvalidSocket (g_timestamps outliving_connection)) kEipInvalidSocket \<noteq> None"
proof -
  have "\<exists>t \<in> set (g_timestamps outliving_connection). timer_socket t = kEipInvalidSocket"
    by (simp add: outliving_connection_def two_connections_def initial_stack_def stack_state.defs cip_state.defs initial_timer_def)
  moreover have "class3 (connections outliving_connection ! 0)" "length (connections outliving_connection) = 13"
      "associated_encapsulation_session (connections outliving_connection ! 0) = of_nat 1"
      "g_registered_sessions outliving_connection = replicate 32 kEipInvalidSocket"
    by (simp_all add: outliving_connection_def two_connections_def explicit_example_def class3_def zero_connection_def
        ConnectionObjectGetTransportClassTriggerTransportClass_def)
  ultimately show ?thesis
    using timeout_after_session_end_hangs [of outliving_connection "[0]" 0 1] outliving_connection_active by auto
qed

end
