(* ===== verification/ConnectionPath.thy ===== *)
theory ConnectionPath
  imports Identity
begin

text \<open>
  The connection path of a Forward Open request: the electronic key of
  \<^verbatim>\<open>cip/cipelectronickey.c\<close>, \<^verbatim>\<open>CheckElectronicKeyData\<close> and \<^verbatim>\<open>ParseConnectionPath\<close> of
  \<^verbatim>\<open>cip/cipconnectionmanager.c\<close>.

  The octets given to the parser are the receive buffer from the connection path size on; the
  parser may read past the end of the path, but not past the end of the buffer.
\<close>

subsection \<open>Extended status codes\<close>

abbreviation (input) kConnectionManagerExtendedStatusCodeSuccess :: CipUint where "kConnectionManagerExtendedStatusCodeSuccess \<equiv> 0"
abbreviation (input) kConnectionManagerExtendedStatusCodeErrorVendorIdOrProductcodeError :: CipUint where
  "kConnectionManagerExtendedStatusCodeErrorVendorIdOrProductcodeError \<equiv> 0x0114"
abbreviation (input) kConnectionManagerExtendedStatusCodeErrorDeviceTypeError :: CipUint where
  "kConnectionManagerExtendedStatusCodeErrorDeviceTypeError \<equiv> 0x0115"
abbreviation (input) kConnectionManagerExtendedStatusCodeErrorRevisionMismatch :: CipUint where
  "kConnectionManagerExtendedStatusCodeErrorRevisionMismatch \<equiv> 0x0116"
abbreviation (input) kConnectionManagerExtendedStatusCodeInconsistentApplicationPathCombo :: CipUint where
  "kConnectionManagerExtendedStatusCodeInconsistentApplicationPathCombo \<equiv> 0x012F"
abbreviation (input) kConnectionManagerExtendedStatusCodeErrorInvalidSegmentTypeInPath :: CipUint where
  "kConnectionManagerExtendedStatusCodeErrorInvalidSegmentTypeInPath \<equiv> 0x0315"

subsection \<open>The electronic key\<close>

definition ElectronicKeySetKeyFormat :: "CipUsint \<Rightarrow> CipElectronicKey \<Rightarrow> CipElectronicKey" where
  "ElectronicKeySetKeyFormat x k = k\<lparr>key_format := x\<rparr>"

definition ElectronicKeyGetKeyFormat :: "CipElectronicKey \<Rightarrow> CipUint" where
  "ElectronicKeyGetKeyFormat k = ucast (key_format k)"

definition ElectronicKeySetKeyData :: "ElectronicKeyFormat4 option \<Rightarrow> CipElectronicKey \<Rightarrow> CipElectronicKey" where
  "ElectronicKeySetKeyData x k = k\<lparr>key_data := x\<rparr>"

definition ElectronicKeyGetKeyData :: "CipElectronicKey \<Rightarrow> ElectronicKeyFormat4 option" where
  "ElectronicKeyGetKeyData k = key_data k"

definition ElectronicKeyFormat4GetVendorId :: "ElectronicKeyFormat4 \<Rightarrow> CipUint" where
  "ElectronicKeyFormat4GetVendorId k = key_vendor_id k"

definition ElectronicKeyFormat4GetDeviceType :: "ElectronicKeyFormat4 \<Rightarrow> CipUint" where
  "ElectronicKeyFormat4GetDeviceType k = key_device_type k"

definition ElectronicKeyFormat4GetProductCode :: "ElectronicKeyFormat4 \<Rightarrow> CipUint" where
  "ElectronicKeyFormat4GetProductCode k = key_product_code k"

definition ElectronicKeyFormat4GetMinorRevision :: "ElectronicKeyFormat4 \<Rightarrow> CipUsint" where
  "ElectronicKeyFormat4GetMinorRevision k = key_minor_revision k"

definition CheckElectronicKeyData :: "CipIdentityObject \<Rightarrow> CipUsint \<Rightarrow> ElectronicKeyFormat4 \<Rightarrow> EipStatus \<times> CipUint" where
  "CheckElectronicKeyData ident format key = (
     if format \<noteq> 4 then (kEipStatusError, kConnectionManagerExtendedStatusCodeErrorInvalidSegmentTypeInPath)
     else if (ElectronicKeyFormat4GetVendorId key \<noteq> id_vendor_id ident \<and> ElectronicKeyFormat4GetVendorId key \<noteq> 0) \<or>
        (ElectronicKeyFormat4GetProductCode key \<noteq> id_product_code ident \<and> ElectronicKeyFormat4GetProductCode key \<noteq> 0)
     then (kEipStatusError, kConnectionManagerExtendedStatusCodeErrorVendorIdOrProductcodeError)
     else if ElectronicKeyFormat4GetDeviceType key \<noteq> id_device_type ident \<and> ElectronicKeyFormat4GetDeviceType key \<noteq> 0
     then (kEipStatusError, kConnectionManagerExtendedStatusCodeErrorDeviceTypeError)
     else if \<not> ElectronicKeyFormat4GetMajorRevisionCompatibility key
     then (if ElectronicKeyFormat4GetMajorRevision key = 0 then (kEipStatusOk, kConnectionManagerExtendedStatusCodeSuccess)
       else if ElectronicKeyFormat4GetMajorRevision key \<noteq> id_major_revision ident \<or>
         (ElectronicKeyFormat4GetMinorRevision key \<noteq> id_minor_revision ident \<and> ElectronicKeyFormat4GetMinorRevision key \<noteq> 0)
       then (kEipStatusError, kConnectionManagerExtendedStatusCodeErrorRevisionMismatch)
       else (kEipStatusOk, kConnectionManagerExtendedStatusCodeSuccess))
     else (if ElectronicKeyFormat4GetMajorRevision key = id_major_revision ident \<and>
         ElectronicKeyFormat4GetMinorRevision key > 0 \<and> ElectronicKeyFormat4GetMinorRevision key \<le> id_minor_revision ident
       then (kEipStatusOk, kConnectionManagerExtendedStatusCodeSuccess)
       else (kEipStatusError, kConnectionManagerExtendedStatusCodeErrorRevisionMismatch)))"

subsection \<open>Stages of the parser\<close>

text \<open>
  A stage either rejects the path with a general and an extended status or passes on its result;
  what it changed in the state stays in both cases.
\<close>

datatype 'a parsed = Reject CipUsint CipUint | Parsed 'a

definition then_parse :: "('a parsed \<times> 's) run \<Rightarrow> ('a \<Rightarrow> 's \<Rightarrow> ('b parsed \<times> 's) run) \<Rightarrow> ('b parsed \<times> 's) run" where
  "then_parse m f = do {
     (r, s) \<leftarrow> m;
     (case r of Reject g e \<Rightarrow> Some (Reject g e, s) | Parsed a \<Rightarrow> f a s) }"

definition on_dummy :: "(CipConnectionObject \<Rightarrow> CipConnectionObject) \<Rightarrow> 'e stack_state_scheme \<Rightarrow> 'e stack_state_scheme" where
  "on_dummy f st = st\<lparr>g_dummy_connection_object := f (g_dummy_connection_object st)\<rparr>"

definition is_logical :: "LogicalSegmentLogicalType list \<Rightarrow> CipOctet list \<Rightarrow> bool run" where
  "is_logical types msg = do {
     s \<leftarrow> GetPathSegmentType msg;
     if s = kSegmentTypeLogicalSegment
     then do { t \<leftarrow> GetPathLogicalSegmentLogicalType msg; Some (t \<in> set types) }
     else Some False }"

definition parse_key :: "CipOctet list \<times> size_t \<Rightarrow> 'e stack_state_scheme \<Rightarrow>
    ((CipOctet list \<times> size_t) parsed \<times> 'e stack_state_scheme) run" where
  "parse_key p st = (case p of (msg, remaining) \<Rightarrow> do {
     special \<leftarrow> is_logical [kLogicalSegmentLogicalTypeSpecial] msg;
     key \<leftarrow> (if special then do {
              t \<leftarrow> GetPathLogicalSegmentSpecialTypeLogicalType msg;
              if t = kLogicalSegmentSpecialTypeLogicalFormatElectronicKey
              then do { f \<leftarrow> GetPathLogicalSegmentElectronicKeyFormat msg; Some (f = kElectronicKeySegmentFormatKeyFormat4) }
              else Some False }
            else Some False);
     if \<not> key then Some (Parsed (msg, remaining), st)
     else if remaining < 5 then Some (Reject kCipErrorNotEnoughData 0, st)
     else do {
       (k, msg) \<leftarrow> GetElectronicKeyFormat4FromMessage msg ElectronicKeyFormat4New;
       let st = on_dummy (\<lambda>co. co\<lparr>electronic_key := \<lparr>key_format = 4, key_data = Some k\<rparr>\<rparr>) st;
       ident \<leftarrow> g_identity st;
       (case CheckElectronicKeyData ident 4 k of (status, ext) \<Rightarrow>
          if status \<noteq> kEipStatusOk then Some (Reject kCipErrorConnectionFailure ext, st)
          else Some (Parsed (msg, remaining - 5), st)) } })"

definition cyclic :: "CipConnectionObject \<Rightarrow> bool" where
  "cyclic co \<longleftrightarrow> ConnectionObjectGetTransportClassTriggerProductionTrigger co =
     kConnectionObjectTransportClassTriggerProductionTriggerCyclic"

definition parse_inhibit_time :: "CipOctet list \<times> size_t \<Rightarrow> 'e stack_state_scheme \<Rightarrow>
    ((CipOctet list \<times> size_t) parsed \<times> 'e stack_state_scheme) run" where
  "parse_inhibit_time p st = (case p of (msg, remaining) \<Rightarrow>
     if cyclic (g_dummy_connection_object st) then Some (Parsed (msg, remaining), st)
     else do {
       s \<leftarrow> GetPathSegmentType msg;
       pit \<leftarrow> (if s = kSegmentTypeNetworkSegment
              then do { t \<leftarrow> GetPathNetworkSegmentSubtype msg;
                        Some (t = kNetworkSegmentSubtypeProductionInhibitTimeInMilliseconds) }
              else Some False);
       if \<not> pit then Some (Parsed (msg, remaining), st)
       else do {
         v \<leftarrow> octet1 msg;
         Some (Parsed (drop 2 msg, remaining - 1), on_dummy (\<lambda>co. co\<lparr>production_inhibit_time := ucast v\<rparr>) st) } })"

definition parse_class :: "CipOctet list \<times> size_t \<Rightarrow> 'e stack_state_scheme \<Rightarrow>
    ((CipDword \<times> CipClassObject \<times> CipOctet list \<times> size_t) parsed \<times> 'e stack_state_scheme) run" where
  "parse_class p st = (case p of (msg, remaining) \<Rightarrow> do {
     c \<leftarrow> is_logical [kLogicalSegmentLogicalTypeClassId] msg;
     if \<not> c then Some (Reject kCipErrorConnectionFailure kConnectionManagerExtendedStatusCodeErrorInvalidSegmentTypeInPath, st)
     else do {
       (cid, msg) \<leftarrow> CipEpathGetLogicalValue msg;
       (case GetCipClass cid st of
          None \<Rightarrow> Some (Reject kCipErrorConnectionFailure
            (if cid \<ge> 0xC8 then kConnectionManagerExtendedStatusCodeErrorInvalidSegmentTypeInPath
             else kConnectionManagerExtendedStatusCodeInconsistentApplicationPathCombo), st)
        | Some ob \<Rightarrow> Some (Parsed (cid, ob, msg, remaining - 1), st)) } })"

abbreviation (input) kCipInstanceNumMax :: CipDword where "kCipInstanceNumMax \<equiv> 0xFFFF"

definition instance_words :: "CipInstanceNum \<Rightarrow> size_t" where
  "instance_words n = (if n > 0xFF then 2 else 1)"

definition parse_instance :: "CipClassObject \<Rightarrow> CipOctet list \<times> size_t \<Rightarrow> 'e stack_state_scheme \<Rightarrow>
    ((CipInstanceNum \<times> CipOctet list \<times> size_t) parsed \<times> 'e stack_state_scheme) run" where
  "parse_instance ob p st = (case p of (msg, remaining) \<Rightarrow> do {
     i \<leftarrow> is_logical [kLogicalSegmentLogicalTypeInstanceId] msg;
     if \<not> i then Some (Parsed (0, msg, remaining), st)
     else do {
       (temp_id, msg) \<leftarrow> CipEpathGetLogicalValue msg;
       if temp_id > kCipInstanceNumMax \<or> GetCipInstance ob (ucast temp_id) = None
       then Some (Reject kCipErrorConnectionFailure kConnectionManagerExtendedStatusCodeErrorInvalidSegmentTypeInPath, st)
       else Some (Parsed (ucast temp_id, msg, remaining - instance_words (ucast temp_id)), st) } })"

definition epath_of :: "CipDword \<Rightarrow> CipInstanceNum \<Rightarrow> CipConnectionPathEpath" where
  "epath_of cid n = \<lparr>cp_class_id = cid, cp_instance_id = n, cp_attribute_id_or_connection_point = 0\<rparr>"

definition parse_class3 :: "CipDword \<Rightarrow> CipInstanceNum \<Rightarrow> CipOctet list \<times> size_t \<Rightarrow> 'e stack_state_scheme \<Rightarrow>
    (CipOctet list parsed \<times> 'e stack_state_scheme) run" where
  "parse_class3 cid n p st = (case p of (msg, remaining) \<Rightarrow>
     if remaining > 0
     then Some (Reject kCipErrorConnectionFailure kConnectionManagerExtendedStatusCodeErrorInvalidSegmentTypeInPath, st)
     else if cid \<noteq> kCipMessageRouterClassCode \<or> n \<noteq> 1
     then Some (Reject kCipErrorConnectionFailure kConnectionManagerExtendedStatusCodeInconsistentApplicationPathCombo, st)
     else Some (Parsed msg, on_dummy (\<lambda>co. co\<lparr>configuration_path := epath_of cid n, produced_path := epath_of cid n\<rparr>) st))"

text \<open>The paths a request encodes, in order: \<open>True\<close> is the consumed, \<open>False\<close> the produced path.\<close>

definition paths_to_encode :: "CipConnectionObject \<Rightarrow> bool list" where
  "paths_to_encode co =
     (if ConnectionObjectGetOToTConnectionType co = kConnectionObjectConnectionTypeNull
      then if ConnectionObjectGetTToOConnectionType co = kConnectionObjectConnectionTypeNull then [] else [False]
      else if ConnectionObjectGetTToOConnectionType co = kConnectionObjectConnectionTypeNull then [True] else [True, False])"

definition set_path :: "bool \<Rightarrow> CipConnectionPathEpath \<Rightarrow> CipConnectionObject \<Rightarrow> CipConnectionObject" where
  "set_path consumed path co = (if consumed then co\<lparr>consumed_path := path\<rparr> else co\<lparr>produced_path := path\<rparr>)"

fun parse_points :: "CipDword \<Rightarrow> CipClassObject \<Rightarrow> bool list \<Rightarrow> CipOctet list \<times> size_t \<Rightarrow> 'e stack_state_scheme \<Rightarrow>
    ((CipOctet list \<times> size_t) parsed \<times> 'e stack_state_scheme) run" where
  "parse_points cid ob [] p st = Some (Parsed p, st)"
| "parse_points cid ob (consumed # ps) (msg, remaining) st = do {
     i \<leftarrow> is_logical [kLogicalSegmentLogicalTypeInstanceId, kLogicalSegmentLogicalTypeConnectionPoint] msg;
     if \<not> i then Some (Reject kCipErrorConnectionFailure kConnectionManagerExtendedStatusCodeErrorInvalidSegmentTypeInPath, st)
     else do {
       (temp_id, msg) \<leftarrow> CipEpathGetLogicalValue msg;
       if temp_id > kCipInstanceNumMax
       then Some (Reject kCipErrorConnectionFailure kConnectionManagerExtendedStatusCodeErrorInvalidSegmentTypeInPath, st)
       else do {
         let n = (ucast temp_id :: CipInstanceNum);
         let st = on_dummy (set_path consumed (epath_of cid n)) st;
         if GetCipInstance ob n = None
         then Some (Reject kCipErrorConnectionFailure kConnectionManagerExtendedStatusCodeInconsistentApplicationPathCombo, st)
         else parse_points cid ob ps (msg, remaining - instance_words n) st } } }"

text \<open>
  The loop over what is left of the path. The production inhibit time segment has one word, but
  two are subtracted.
\<close>

partial_function (option) parse_configuration :: "size_t \<Rightarrow> CipOctet list \<Rightarrow> size_t \<Rightarrow> 'e stack_state_scheme \<Rightarrow>
    (CipOctet list parsed \<times> 'e stack_state_scheme) option" where
  "parse_configuration words msg remaining st = (
     if remaining = 0 then Some (Parsed msg, st)
     else do {
       s \<leftarrow> GetPathSegmentType msg;
       if s = kSegmentTypeDataSegment
       then do {
         t \<leftarrow> GetPathDataSegmentSubtype msg;
         if t = kDataSegmentSubtypeSimpleData
         then do {
           w \<leftarrow> octet1 msg;
           let len = (2 * ucast w :: CipUdint);
           let st = st\<lparr>g_config_data_length := len, g_config_data_buffer := Some (drop 2 msg)\<rparr>;
           (_, msg) \<leftarrow> read_bytes (unat len + 2) msg;
           parse_configuration words msg (remaining - (len + 2) div 2) st }
         else Some (Reject kCipErrorPathSegmentError 0, st) }
       else if s = kSegmentTypeNetworkSegment
       then do {
         t \<leftarrow> GetPathNetworkSegmentSubtype msg;
         if t = kNetworkSegmentSubtypeProductionInhibitTimeInMilliseconds
         then if \<not> cyclic (g_dummy_connection_object st)
           then do {
             v \<leftarrow> octet1 msg;
             parse_configuration words (drop 2 msg) (remaining - 2)
               (on_dummy (\<lambda>co. co\<lparr>production_inhibit_time := ucast v\<rparr>) st) }
           else Some (Reject kCipErrorPathSegmentError (ucast (words - remaining)), st)
         else Some (Reject kCipErrorPathSegmentError 0, st) }
       else Some (Reject kCipErrorPathSegmentError (ucast (words - remaining)), st) })"

definition parse_io :: "CipDword \<Rightarrow> CipClassObject \<Rightarrow> CipInstanceNum \<Rightarrow> size_t \<Rightarrow> CipOctet list \<times> size_t \<Rightarrow>
    'e stack_state_scheme \<Rightarrow> (CipOctet list parsed \<times> 'e stack_state_scheme) run" where
  "parse_io cid ob n words p st = (
     let st = on_dummy (\<lambda>co. co\<lparr>configuration_path := epath_of cid n, consumed_connection_path_length := 0,
         consumed_connection_path := []\<rparr>) st
     in then_parse (parse_points cid ob (paths_to_encode (g_dummy_connection_object st)) p st)
       (\<lambda>(msg, remaining) st. parse_configuration words msg remaining
          (st\<lparr>g_config_data_length := 0, g_config_data_buffer := None\<rparr>)))"

definition parse_path :: "size_t \<Rightarrow> CipOctet list \<Rightarrow> 'e stack_state_scheme \<Rightarrow> (CipOctet list parsed \<times> 'e stack_state_scheme) run" where
  "parse_path words msg st =
     then_parse (parse_key (msg, words) st) (\<lambda>p st.
     then_parse (parse_inhibit_time p st) (\<lambda>p st.
     then_parse (parse_class p st) (\<lambda>(cid, ob, p) st.
     then_parse (parse_instance ob p st) (\<lambda>(n, p) st.
       if class3 (g_dummy_connection_object st) then parse_class3 cid n p st
       else parse_io cid ob n words p st))))"

abbreviation (input) g_kForwardOpenHeaderLength :: size_t where "g_kForwardOpenHeaderLength \<equiv> 36"
abbreviation (input) g_kLargeForwardOpenHeaderLength :: size_t where "g_kLargeForwardOpenHeaderLength \<equiv> 40"

text \<open>
  The result is the general and the extended status. A path of size 0 gives \<^verbatim>\<open>kEipStatusError\<close>,
  which is 255 as an 8-bit number.
\<close>

definition ParseConnectionPath :: "CipMessageRouterRequest \<Rightarrow> 'e stack_state_scheme \<Rightarrow>
    (CipUsint \<times> CipUint \<times> CipMessageRouterRequest \<times> 'e stack_state_scheme) run" where
  "ParseConnectionPath req st = do {
     (size, msg) \<leftarrow> GetUsintFromMessage (req_data req);
     if size = 0 then Some (255, 0, req, st)
     else do {
       let words = (ucast size :: size_t);
       let st = on_dummy (ConnectionObjectSetProductionInhibitTime 256) st;
       let header_length = (if is_large_forward_open (g_dummy_connection_object st)
         then g_kLargeForwardOpenHeaderLength else g_kForwardOpenHeaderLength);
       if header_length + words * 2 < request_data_size req then Some (kCipErrorTooMuchData, 0, req, st)
       else if header_length + words * 2 > request_data_size req then Some (kCipErrorNotEnoughData, 0, req, st)
       else do {
         (r, st) \<leftarrow> parse_path words msg st;
         (case r of
            Reject g e \<Rightarrow> Some (g, e, req, st)
          | Parsed msg \<Rightarrow> Some (kCipErrorSuccess, 0, req\<lparr>req_data := msg\<rparr>, st)) } } }"

end
