(* ===== verification/IoConnection.thy ===== *)
theory IoConnection
  imports Identity Sessions ConnectionPath
begin

text \<open>
  I/O connections: the application connection types of \<^verbatim>\<open>cip/appcontype.c\<close>, the functions of
  \<^verbatim>\<open>cip/cipioconnection.c\<close> that open a connection, send and receive its data, and the assembly
  access of \<^verbatim>\<open>cip/cipassembly.c\<close> they use. The application's notification functions
  (\<^verbatim>\<open>CheckIoConnectionEvent\<close>, \<^verbatim>\<open>AfterAssemblyDataReceived\<close>, \<^verbatim>\<open>BeforeAssemblyDataSend\<close>,
  \<^verbatim>\<open>RunIdleChanged\<close>) do nothing in the simulator.
\<close>

subsection \<open>The operating system\<close>

text \<open>
  Results of operating system calls: the address of a peer, the n-th random number, the n-th UDP
  socket, whether the n-th quality of service setting succeeds and the n-th result of \<^verbatim>\<open>sendto\<close>.
  A socket that could not be bound is closed, but its number stays in use.
\<close>

datatype udp_socket = NoSocket | Unusable int | Bound int

record os_env =
  os_getpeername :: "int \<Rightarrow> CipUdint option"
  os_random :: "nat \<Rightarrow> CipUdint"
  os_socket :: "nat \<Rightarrow> udp_socket"
  os_set_qos :: "nat \<Rightarrow> bool"
  os_sendto :: "nat \<Rightarrow> int"

text \<open>A random number cut to 16 bits.\<close>

definition os_rand :: "os_env \<Rightarrow> nat \<Rightarrow> CipUint" where
  "os_rand os k = ucast (os_random os k)"

definition next_call :: "'e stack_state_scheme \<Rightarrow> 'e stack_state_scheme" where
  "next_call st = st\<lparr>os_calls := Suc (os_calls st)\<rparr>"

definition CreateUdpSocket :: "os_env \<Rightarrow> 'e stack_state_scheme \<Rightarrow> 'e stack_state_scheme" where
  "CreateUdpSocket os st = (case os_socket os (os_calls st) of
       NoSocket \<Rightarrow> next_call (st\<lparr>udp_io_messaging := kEipInvalidSocket\<rparr>)
     | Unusable s \<Rightarrow> next_call (CloseUdpSocket s (st\<lparr>udp_io_messaging := s\<rparr>))
     | Bound s \<Rightarrow> next_call (st\<lparr>udp_io_messaging := s, master_socket := insert s (master_socket st),
         highest_socket_handle := max s (highest_socket_handle st)\<rparr>))"

definition SetQos :: "os_env \<Rightarrow> 'e stack_state_scheme \<Rightarrow> bool \<times> 'e stack_state_scheme" where
  "SetQos os st = (os_set_qos os (os_calls st), next_call st)"

definition GetPeerAddress :: "os_env \<Rightarrow> 'e stack_state_scheme \<Rightarrow> CipUdint" where
  "GetPeerAddress os st = (case os_getpeername os (active_tcp_socket st) of Some a \<Rightarrow> a | None \<Rightarrow> 0)"

definition SendUdpData :: "os_env \<Rightarrow> sockaddr_in \<Rightarrow> ENIPMessage \<Rightarrow> 'e stack_state_scheme \<Rightarrow> EipStatus \<times> 'e stack_state_scheme" where
  "SendUdpData os address m st = (
     let sent_length = os_sendto os (os_calls st); st = next_call (note_event (DatagramSent address (sent_octets m)) st)
     in if sent_length < 0 then (kEipStatusError, NetworkCountersRecordTxError st)
        else if sent_length \<noteq> uint (used_message_length m) then (kEipStatusError, NetworkCountersRecordTxDiscard st)
        else (kEipStatusOk, NetworkCountersRecordTx (word_of_int sent_length) False st))"

subsection \<open>Extended status codes\<close>

abbreviation (input) kConnectionManagerExtendedStatusCodeErrorOwnershipConflict :: CipUint where
  "kConnectionManagerExtendedStatusCodeErrorOwnershipConflict \<equiv> 0x0106"
abbreviation (input) kConnectionManagerExtendedStatusCodeErrorRpiValuesNotAcceptable :: CipUint where
  "kConnectionManagerExtendedStatusCodeErrorRpiValuesNotAcceptable \<equiv> 0x0112"
abbreviation (input) kConnectionManagerExtendedStatusCodeNonListenOnlyConnectionNotOpened :: CipUint where
  "kConnectionManagerExtendedStatusCodeNonListenOnlyConnectionNotOpened \<equiv> 0x0119"
abbreviation (input) kConnectionManagerExtendedStatusCodeTargetObjectOutOfConnections :: CipUint where
  "kConnectionManagerExtendedStatusCodeTargetObjectOutOfConnections \<equiv> 0x011A"
abbreviation (input) kConnectionManagerExtendedStatusCodeProductionInhibitTimerGreaterThanRpi :: CipUint where
  "kConnectionManagerExtendedStatusCodeProductionInhibitTimerGreaterThanRpi \<equiv> 0x011B"
abbreviation (input) kConnectionManagerExtendedStatusCodeErrorInvalidOToTConnectionSize :: CipUint where
  "kConnectionManagerExtendedStatusCodeErrorInvalidOToTConnectionSize \<equiv> 0x0127"
abbreviation (input) kConnectionManagerExtendedStatusCodeErrorInvalidTToOConnectionSize :: CipUint where
  "kConnectionManagerExtendedStatusCodeErrorInvalidTToOConnectionSize \<equiv> 0x0128"
abbreviation (input) kConnectionManagerExtendedStatusCodeInvalidConfigurationApplicationPath :: CipUint where
  "kConnectionManagerExtendedStatusCodeInvalidConfigurationApplicationPath \<equiv> 0x0129"
abbreviation (input) kConnectionManagerExtendedStatusCodeInvalidConsumingApplicationPath :: CipUint where
  "kConnectionManagerExtendedStatusCodeInvalidConsumingApplicationPath \<equiv> 0x012A"
abbreviation (input) kConnectionManagerExtendedStatusCodeInvalidProducingApplicationPath :: CipUint where
  "kConnectionManagerExtendedStatusCodeInvalidProducingApplicationPath \<equiv> 0x012B"
abbreviation (input) kConnectionManagerExtendedStatusCodeMismatchedTToONetworkConnectionFixVar :: CipUint where
  "kConnectionManagerExtendedStatusCodeMismatchedTToONetworkConnectionFixVar \<equiv> 0x0135"
abbreviation (input) kConnectionManagerExtendedStatusCodeMismatchedTToONetworkConnectionPriority :: CipUint where
  "kConnectionManagerExtendedStatusCodeMismatchedTToONetworkConnectionPriority \<equiv> 0x0136"
abbreviation (input) kConnectionManagerExtendedStatusCodeMismatchedTransportClass :: CipUint where
  "kConnectionManagerExtendedStatusCodeMismatchedTransportClass \<equiv> 0x0137"
abbreviation (input) kConnectionManagerExtendedStatusCodeMismatchedTToOProductionTrigger :: CipUint where
  "kConnectionManagerExtendedStatusCodeMismatchedTToOProductionTrigger \<equiv> 0x0138"
abbreviation (input) kConnectionManagerExtendedStatusCodeMismatchedTToOProductionInhibitTimeSegment :: CipUint where
  "kConnectionManagerExtendedStatusCodeMismatchedTToOProductionInhibitTimeSegment \<equiv> 0x0139"

subsection \<open>Assemblies (cipassembly.c)\<close>

abbreviation (input) kCipAssemblyClassCode :: CipUdint where "kCipAssemblyClassCode \<equiv> 4"

fun get_byte_array :: "cip_value \<Rightarrow> CipByteArray run" where
  "get_byte_array (VByteArray a) = Some a"
| "get_byte_array _ = None"

definition byte_array_of :: "CipAttributeStruct \<Rightarrow> 'e cip_state_scheme \<Rightarrow> (data_ref \<times> CipByteArray) run" where
  "byte_array_of a st = do {
     ref \<leftarrow> attr_data a;
     v \<leftarrow> read_ref ref st;
     arr \<leftarrow> get_byte_array v;
     Some (ref, arr) }"

text \<open>The data of attribute 3 and the data of the first attribute slot of an assembly instance.\<close>

definition data_attribute :: "CipInstanceNum \<Rightarrow> 'e cip_state_scheme \<Rightarrow> CipByteArray run" where
  "data_attribute n st = do {
     ob \<leftarrow> GetCipClass kCipAssemblyClassCode st;
     as \<leftarrow> attributes_of n ob;
     index \<leftarrow> GetCipAttribute n 3 ob;
     i \<leftarrow> index;
     a \<leftarrow> array_get as i;
     (_, arr) \<leftarrow> byte_array_of a st;
     Some arr }"

definition first_attribute :: "CipInstanceNum \<Rightarrow> 'e cip_state_scheme \<Rightarrow> (data_ref \<times> CipByteArray) run" where
  "first_attribute n st = do {
     ob \<leftarrow> GetCipClass kCipAssemblyClassCode st;
     as \<leftarrow> attributes_of n ob;
     a \<leftarrow> array_get as 0;
     byte_array_of a st }"

definition NotifyAssemblyConnectedDataReceived :: "CipInstanceNum \<Rightarrow> CipOctet list \<Rightarrow> size_t \<Rightarrow> 'e cip_state_scheme \<Rightarrow>
    (EipStatus \<times> 'e cip_state_scheme) run" where
  "NotifyAssemblyConnectedDataReceived n data data_length st = do {
     (ref, arr) \<leftarrow> first_attribute n st;
     if ucast (ba_length arr) \<noteq> data_length then Some (kEipStatusError, st)
     else do {
       (bs, _) \<leftarrow> read_bytes (unat data_length) data;
       st \<leftarrow> write_ref ref (VByteArray (arr\<lparr>ba_data := bs\<rparr>)) st;
       Some (kEipStatusOk, st) } }"

subsection \<open>Application connection types (appcontype.c)\<close>

abbreviation (input) exclusive_owner_slot :: nat where "exclusive_owner_slot \<equiv> 6"
abbreviation (input) input_only_slots :: "nat list" where "input_only_slots \<equiv> [7, 8, 9]"
abbreviation (input) listen_only_slots :: "nat list" where "listen_only_slots \<equiv> [10, 11, 12]"

definition ConfigureExclusiveOwnerConnectionPoint :: "nat \<Rightarrow> connection_point \<Rightarrow> 'e stack_state_scheme \<Rightarrow> 'e stack_state_scheme" where
  "ConfigureExclusiveOwnerConnectionPoint n p st = (if n < 1 then st\<lparr>g_exlusive_owner_connections := p\<rparr> else st)"

definition ConfigureInputOnlyConnectionPoint :: "nat \<Rightarrow> connection_point \<Rightarrow> 'e stack_state_scheme \<Rightarrow> 'e stack_state_scheme" where
  "ConfigureInputOnlyConnectionPoint n p st = (if n < 1 then st\<lparr>g_input_only_connections := p\<rparr> else st)"

definition ConfigureListenOnlyConnectionPoint :: "nat \<Rightarrow> connection_point \<Rightarrow> 'e stack_state_scheme \<Rightarrow> 'e stack_state_scheme" where
  "ConfigureListenOnlyConnectionPoint n p st = (if n < 1 then st\<lparr>g_listen_only_connections := p\<rparr> else st)"

definition same_instance :: "CipUdint \<Rightarrow> CipConnectionPathEpath \<Rightarrow> bool" where
  "same_instance asm path \<longleftrightarrow> asm = ucast (cp_instance_id path)"

text \<open>A result is a slot or none, with the extended status.\<close>

definition GetExclusiveOwnerConnection :: "CipConnectionObject \<Rightarrow> 'e stack_state_scheme \<Rightarrow>
    (nat option \<times> CipUint \<times> 'e stack_state_scheme) run" where
  "GetExclusiveOwnerConnection co st = (
     let p = g_exlusive_owner_connections st in
     if same_instance (output_assembly p) (consumed_path co) \<and> same_instance (input_assembly p) (produced_path co) \<and>
        (same_instance (config_assembly p) (configuration_path co) \<or> cp_instance_id (configuration_path co) = 0)
     then do {
       owner \<leftarrow> GetConnectedOutputAssembly (ucast (cp_instance_id (produced_path co))) st;
       (case owner of
          None \<Rightarrow> Some (Some exclusive_owner_slot, 0, st)
        | Some d \<Rightarrow> do {
            own \<leftarrow> get_connection d st;
            if ConnectionObjectGetState own = kConnectionObjectStateTimedOut
            then do {
              st \<leftarrow> call_close_function exclusive_owner_slot st;
              Some (Some exclusive_owner_slot, 0, st) }
            else Some (None, kConnectionManagerExtendedStatusCodeErrorOwnershipConflict, st) }) }
     else Some (None, 0, st))"

text \<open>The slots of an input only or listen only point: one of the same originator that has timed out, or a free one.\<close>

definition take_slot :: "nat list \<Rightarrow> CipConnectionObject \<Rightarrow> 'e stack_state_scheme \<Rightarrow>
    (nat option \<times> CipUint \<times> 'e stack_state_scheme) run" where
  "take_slot slots co st = (
     case find (\<lambda>j. ConnectionObjectGetState (connections st ! j) = kConnectionObjectStateTimedOut \<and>
        ConnectionObjectEqualOriginator co (connections st ! j)) slots of
       Some j \<Rightarrow> do { st \<leftarrow> call_close_function j st; Some (Some j, 0, st) }
     | None \<Rightarrow> (case find (\<lambda>j. ConnectionObjectGetState (connections st ! j) = kConnectionObjectStateNonExistent) slots of
         Some j \<Rightarrow> Some (Some j, 0, st)
       | None \<Rightarrow> Some (None, kConnectionManagerExtendedStatusCodeTargetObjectOutOfConnections, st)))"

definition GetInputOnlyConnection :: "CipConnectionObject \<Rightarrow> 'e stack_state_scheme \<Rightarrow>
    (nat option \<times> CipUint \<times> 'e stack_state_scheme) run" where
  "GetInputOnlyConnection co st = (
     let p = g_input_only_connections st in
     if \<not> same_instance (output_assembly p) (consumed_path co) then Some (None, 0, st)
     else if \<not> same_instance (input_assembly p) (produced_path co)
     then Some (None, kConnectionManagerExtendedStatusCodeInvalidProducingApplicationPath, st)
     else if \<not> same_instance (config_assembly p) (configuration_path co) \<and> cp_instance_id (configuration_path co) \<noteq> 0
     then Some (None, kConnectionManagerExtendedStatusCodeInconsistentApplicationPathCombo, st)
     else take_slot input_only_slots co st)"

definition GetListenOnlyConnection :: "CipConnectionObject \<Rightarrow> 'e stack_state_scheme \<Rightarrow>
    (nat option \<times> CipUint \<times> 'e stack_state_scheme) run" where
  "GetListenOnlyConnection co st = (
     let p = g_listen_only_connections st in
     if \<not> same_instance (output_assembly p) (consumed_path co) then Some (None, 0, st)
     else if \<not> same_instance (input_assembly p) (produced_path co)
     then Some (None, kConnectionManagerExtendedStatusCodeInvalidProducingApplicationPath, st)
     else if \<not> same_instance (config_assembly p) (configuration_path co) \<and> cp_instance_id (configuration_path co) \<noteq> 0
     then Some (None, kConnectionManagerExtendedStatusCodeInconsistentApplicationPathCombo, st)
     else do {
       producer \<leftarrow> GetExistingProducerIoConnection False (ucast (cp_instance_id (produced_path co))) st;
       if producer = None then Some (None, kConnectionManagerExtendedStatusCodeNonListenOnlyConnectionNotOpened, st)
       else take_slot listen_only_slots co st })"

text \<open>
  The connection data is the dummy object. A listen only search that fails with a status still
  sets the instance type of the dummy object.
\<close>

definition set_dummy_type :: "ConnectionObjectInstanceType \<Rightarrow> 'e stack_state_scheme \<Rightarrow> 'e stack_state_scheme" where
  "set_dummy_type ty = on_dummy (ConnectionObjectSetInstanceType ty)"

definition copy_to_slot :: "nat option \<Rightarrow> 'e stack_state_scheme \<Rightarrow> 'e stack_state_scheme run" where
  "copy_to_slot slot st = (case slot of
       None \<Rightarrow> Some st
     | Some d \<Rightarrow> update_connection d (\<lambda>co. Some (ConnectionObjectDeepCopy co (g_dummy_connection_object st))) st)"

definition GetIoConnectionForConnectionData :: "'e stack_state_scheme \<Rightarrow> (nat option \<times> CipUint \<times> 'e stack_state_scheme) run" where
  "GetIoConnectionForConnectionData st = do {
     (slot, ext, st) \<leftarrow> GetExclusiveOwnerConnection (g_dummy_connection_object st) st;
     (slot, ext, st) \<leftarrow> (
       if slot \<noteq> None then Some (slot, ext, set_dummy_type kConnectionObjectInstanceTypeIOExclusiveOwner st)
       else if ext \<noteq> 0 then Some (None, ext, st)
       else do {
         (slot, ext, st) \<leftarrow> GetInputOnlyConnection (g_dummy_connection_object st) st;
         if slot \<noteq> None then Some (slot, ext, set_dummy_type kConnectionObjectInstanceTypeIOInputOnly st)
         else if ext \<noteq> 0 then Some (None, ext, st)
         else do {
           (slot, ext, st) \<leftarrow> GetListenOnlyConnection (g_dummy_connection_object st) st;
           if slot = None \<and> ext = 0
           then Some (None, kConnectionManagerExtendedStatusCodeInconsistentApplicationPathCombo, st)
           else Some (slot, ext, set_dummy_type kConnectionObjectInstanceTypeIOListenOnly st) } });
     st \<leftarrow> copy_to_slot slot st;
     Some (slot, ext, st) }"

subsection \<open>Opening a connection (cipioconnection.c)\<close>

definition ProcessProductionInhibitTime :: "nat \<Rightarrow> 'e stack_state_scheme \<Rightarrow> (CipUint \<times> 'e stack_state_scheme) run" where
  "ProcessProductionInhibitTime d st = do {
     co \<leftarrow> get_connection d st;
     if cyclic co then
       if ConnectionObjectGetProductionInhibitTime co = 256
       then do {
         st \<leftarrow> update_connection d (\<lambda>co. Some (ConnectionObjectSetProductionInhibitTime
           (ucast (ConnectionObjectGetTToORequestedPacketInterval co div 4000)) co)) st;
         Some (0, st) }
       else if ucast (ConnectionObjectGetProductionInhibitTime co) > ConnectionObjectGetTToORequestedPacketInterval co div 1000
       then Some (kConnectionManagerExtendedStatusCodeProductionInhibitTimerGreaterThanRpi, st)
       else Some (0, st)
     else Some (0, st) }"

definition SetIoConnectionCallbacks :: "CipConnectionObject \<Rightarrow> CipConnectionObject" where
  "SetIoConnectionCallbacks co = co\<lparr>connection_close_function := Some CloseIoConnectionFn,
     connection_timeout_function := Some HandleIoConnectionTimeOutFn,
     connection_send_data_function := Some SendConnectedDataFn,
     connection_receive_data_function := Some HandleReceivedIoConnectionDataFn\<rparr>"

definition transport_class1 :: "CipConnectionObject \<Rightarrow> bool" where
  "transport_class1 co \<longleftrightarrow> ConnectionObjectGetTransportClassTriggerTransportClass co =
     kConnectionObjectTransportClassTriggerTransportClass1"

text \<open>Requested and surplus size after the sequence count of a class 1 connection was taken off.\<close>

definition without_sequence_count :: "CipConnectionObject \<Rightarrow> size_t \<Rightarrow> int \<times> int" where
  "without_sequence_count co n = (if transport_class1 co then (uint n - 2, 2) else (uint n, 0))"

definition SetupIoConnectionOriginatorToTargetConnectionPoint :: "nat \<Rightarrow> 'e stack_state_scheme \<Rightarrow>
    (CipUint \<times> 'e stack_state_scheme) run" where
  "SetupIoConnectionOriginatorToTargetConnectionPoint d st = do {
     co \<leftarrow> get_connection d st;
     ob \<leftarrow> GetCipClass kCipAssemblyClassCode st;
     (case GetCipInstance ob (cp_instance_id (consumed_path co)) of
        None \<Rightarrow> Some (kConnectionManagerExtendedStatusCodeInvalidConsumingApplicationPath, st)
      | Some n \<Rightarrow> do {
          st \<leftarrow> update_connection d (\<lambda>co. Some (co\<lparr>consuming_instance := Some n, consumed_connection_path_length := 6,
            consumed_path := (consumed_path co)\<lparr>cp_attribute_id_or_connection_point := 3\<rparr>\<rparr>)) st;
          arr \<leftarrow> data_attribute n st;
          let len = uint (ba_length arr);
          let (data_size, diff_size) = without_sequence_count co (ConnectionObjectGetOToTConnectionSize co);
          let (data_size, diff_size) = (if (of_int (data_size - len) :: CipUint) = 4 \<and> \<not> s_consume_run_idle st
            then (data_size - 4, diff_size + 4) else (data_size, diff_size));
          let (data_size, diff_size) = (if s_consume_run_idle st \<and> data_size > 0 \<and> ba_length arr \<noteq> 0
            then (data_size - 4, diff_size + 4) else (data_size, diff_size));
          if len \<noteq> data_size
          then Some (kConnectionManagerExtendedStatusCodeErrorInvalidOToTConnectionSize,
            on_dummy (\<lambda>c. c\<lparr>correct_originator_to_target_size := of_int (len + diff_size)\<rparr>) st)
          else Some (0, st) }) }"

text \<open>The first parameter of a multicast connection that differs from a listed one of the same assembly.\<close>

definition multicast_mismatch :: "CipConnectionObject \<Rightarrow> CipConnectionObject \<Rightarrow> CipUint" where
  "multicast_mismatch co other = (
     if ConnectionObjectGetTToORequestedPacketInterval co \<noteq> ConnectionObjectGetTToORequestedPacketInterval other
     then kConnectionManagerExtendedStatusCodeErrorRpiValuesNotAcceptable
     else if ConnectionObjectGetTToOConnectionSizeType co \<noteq> ConnectionObjectGetTToOConnectionSizeType other
     then kConnectionManagerExtendedStatusCodeMismatchedTToONetworkConnectionFixVar
     else if ConnectionObjectGetTToOPriority co \<noteq> ConnectionObjectGetTToOPriority other
     then kConnectionManagerExtendedStatusCodeMismatchedTToONetworkConnectionPriority
     else if ConnectionObjectGetTransportClassTriggerTransportClass co \<noteq> ConnectionObjectGetTransportClassTriggerTransportClass other
     then kConnectionManagerExtendedStatusCodeMismatchedTransportClass
     else if ConnectionObjectGetTransportClassTriggerProductionTrigger co \<noteq>
       ConnectionObjectGetTransportClassTriggerProductionTrigger other
     then kConnectionManagerExtendedStatusCodeMismatchedTToOProductionTrigger
     else if ConnectionObjectGetProductionInhibitTime co \<noteq> ConnectionObjectGetProductionInhibitTime other
     then kConnectionManagerExtendedStatusCodeMismatchedTToOProductionInhibitTimeSegment
     else 0)"

definition SetupIoConnectionTargetToOriginatorConnectionPoint :: "nat \<Rightarrow> 'e stack_state_scheme \<Rightarrow>
    (CipUint \<times> 'e stack_state_scheme) run" where
  "SetupIoConnectionTargetToOriginatorConnectionPoint d st = do {
     co \<leftarrow> get_connection d st;
     clash \<leftarrow> (if ConnectionObjectGetTToOConnectionType co = kConnectionObjectConnectionTypeMulticast
       then find_connection (\<lambda>other. cp_instance_id (produced_path co) = cp_instance_id (produced_path other) \<and>
         multicast_mismatch co other \<noteq> 0) st
       else Some None);
     (case clash of
        Some x \<Rightarrow> do { other \<leftarrow> get_connection x st; Some (multicast_mismatch co other, st) }
      | None \<Rightarrow> do {
          ob \<leftarrow> GetCipClass kCipAssemblyClassCode st;
          (case GetCipInstance ob (cp_instance_id (produced_path co)) of
             None \<Rightarrow> Some (kConnectionManagerExtendedStatusCodeInvalidProducingApplicationPath, st)
           | Some n \<Rightarrow> do {
               st \<leftarrow> update_connection d (\<lambda>co. Some (co\<lparr>producing_instance := Some n,
                 produced_path := (produced_path co)\<lparr>cp_attribute_id_or_connection_point := 3\<rparr>\<rparr>)) st;
               arr \<leftarrow> data_attribute n st;
               let len = uint (ba_length arr);
               let (data_size, diff_size) = without_sequence_count co (ConnectionObjectGetTToOConnectionSize co);
               let (data_size, diff_size) = (if s_produce_run_idle st \<and> data_size > 0 \<and> ba_length arr \<noteq> 0
                 then (data_size - 4, diff_size + 4) else (data_size, diff_size));
               if len \<noteq> data_size
               then Some (kConnectionManagerExtendedStatusCodeErrorInvalidTToOConnectionSize,
                 on_dummy (\<lambda>c. c\<lparr>correct_target_to_originator_size := of_int (len + diff_size)\<rparr>) st)
               else Some (0, st) }) }) }"

definition HandleConfigData :: "nat \<Rightarrow> 'e stack_state_scheme \<Rightarrow> (CipUint \<times> 'e stack_state_scheme) run" where
  "HandleConfigData d st = do {
     co \<leftarrow> get_connection d st;
     ob \<leftarrow> GetCipClass kCipAssemblyClassCode st;
     let config_instance = GetCipInstance ob (cp_instance_id (configuration_path co));
     if g_config_data_length st = 0 then Some (0, st)
     else do {
       n \<leftarrow> config_instance;
       buffer \<leftarrow> g_config_data_buffer st;
       shared \<leftarrow> ConnectionWithSameConfigPointExists (ucast (cp_instance_id (configuration_path co))) st;
       if shared then do {
         arr \<leftarrow> data_attribute n st;
         if ucast (ba_length arr) \<noteq> g_config_data_length st
         then Some (kConnectionManagerExtendedStatusCodeErrorOwnershipConflict, st)
         else do {
           (bs, _) \<leftarrow> read_bytes (unat (g_config_data_length st)) buffer;
           Some (if take (length bs) (ba_data arr) \<noteq> bs then kConnectionManagerExtendedStatusCodeErrorOwnershipConflict else 0, st) } }
       else do {
         (status, st) \<leftarrow> NotifyAssemblyConnectedDataReceived n buffer (g_config_data_length st) st;
         Some (if status \<noteq> kEipStatusOk then kConnectionManagerExtendedStatusCodeInvalidConfigurationApplicationPath else 0, st) } } }"

subsubsection \<open>Communication channels\<close>

abbreviation (input) AF_INET :: CipUint where "AF_INET \<equiv> 2"
abbreviation (input) kOpenerEipIoUdpPort :: CipUint where "kOpenerEipIoUdpPort \<equiv> 0x08AE"

text \<open>\<^verbatim>\<open>htons\<close> on the little-endian target.\<close>

definition net16 :: "CipUint \<Rightarrow> CipUint" where "net16 x = htons kOpENerEndianessLittle x"

definition AllocateSocketAddressInfoItem :: "CipUint \<Rightarrow> CipCommonPacketFormatData \<Rightarrow> nat option" where
  "AllocateSocketAddressInfoItem t p = first_index (\<lambda>i. info_type_id i = 0 \<or> info_type_id i = t) (take 2 (address_info_item p))"

definition on_packet :: "(CipCommonPacketFormatData \<Rightarrow> CipCommonPacketFormatData) \<Rightarrow> 'e stack_state_scheme \<Rightarrow> 'e stack_state_scheme" where
  "on_packet f st = st\<lparr>g_common_packet_format_data_item := f (g_common_packet_format_data_item st)\<rparr>"

definition on_info :: "nat \<Rightarrow> (SocketAddressInfoItem \<Rightarrow> SocketAddressInfoItem) \<Rightarrow> 'e stack_state_scheme \<Rightarrow> 'e stack_state_scheme" where
  "on_info j f = on_packet (\<lambda>p. p\<lparr>address_info_item := (address_info_item p)[j := f (address_info_item p ! j)]\<rparr>)"

definition info_item :: "nat \<Rightarrow> 'e stack_state_scheme \<Rightarrow> SocketAddressInfoItem run" where
  "info_item j st = array_get (address_info_item (g_common_packet_format_data_item st)) j"

definition OpenConsumingPointToPointConnection :: "os_env \<Rightarrow> nat \<Rightarrow> 'e stack_state_scheme \<Rightarrow> (EipStatus \<times> 'e stack_state_scheme) run" where
  "OpenConsumingPointToPointConnection os d st = (
     case AllocateSocketAddressInfoItem kCipItemIdSocketAddressInfoOriginatorToTarget (g_common_packet_format_data_item st) of
       None \<Rightarrow> Some (kEipStatusError, st)
     | Some j \<Rightarrow> do {
         co \<leftarrow> get_connection d st;
         _ \<leftarrow> ConnectionObjectGetTToOPriority co;
         let (qos, st) = SetQos os st;
         if \<not> qos then Some (kEipStatusError, st)
         else do {
           st \<leftarrow> update_connection d (\<lambda>co. Some (co\<lparr>originator_address := \<lparr>sin_port = net16 kOpenerEipIoUdpPort,
               sin_addr = GetPeerAddress os st\<rparr>, socket_consuming := udp_io_messaging st\<rparr>)) st;
           Some (kEipStatusOk, on_info j (\<lambda>i. i\<lparr>info_type_id := kCipItemIdSocketAddressInfoOriginatorToTarget, info_length := 16,
             info_sin_family := net16 AF_INET, info_sin_port := net16 kOpenerEipIoUdpPort, info_sin_addr := 0,
             info_nasin_zero := replicate 8 0\<rparr>) st) } })"

definition OpenProducingPointToPointConnection :: "os_env \<Rightarrow> nat \<Rightarrow> 'e stack_state_scheme \<Rightarrow> (EipStatus \<times> 'e stack_state_scheme) run" where
  "OpenProducingPointToPointConnection os d st = do {
     i0 \<leftarrow> info_item 0 st;
     i1 \<leftarrow> info_item 1 st;
     let port = (if info_type_id i0 = kCipItemIdSocketAddressInfoTargetToOriginator then info_sin_port i0
       else if info_type_id i1 = kCipItemIdSocketAddressInfoTargetToOriginator then info_sin_port i1
       else net16 kOpenerEipIoUdpPort);
     st \<leftarrow> update_connection d (\<lambda>co. Some (co\<lparr>remote_address := \<lparr>sin_port = port, sin_addr = GetPeerAddress os st\<rparr>\<rparr>)) st;
     co \<leftarrow> get_connection d st;
     _ \<leftarrow> ConnectionObjectGetTToOPriority co;
     let (qos, st) = SetQos os st;
     if \<not> qos then Some (kEipStatusError, st)
     else do {
       st \<leftarrow> update_connection d (\<lambda>co. Some (co\<lparr>socket_producing := udp_io_messaging st\<rparr>)) st;
       Some (kEipStatusOk, st) } }"

definition OpenMulticastConnection :: "os_env \<Rightarrow> bool \<Rightarrow> nat \<Rightarrow> 'e stack_state_scheme \<Rightarrow> (EipStatus \<times> 'e stack_state_scheme) run" where
  "OpenMulticastConnection os consuming d st = (
     let t = (if consuming then kCipItemIdSocketAddressInfoOriginatorToTarget else kCipItemIdSocketAddressInfoTargetToOriginator) in
     case first_index (\<lambda>i. info_type_id i = t) (take 2 (address_info_item (g_common_packet_format_data_item st))) of
       None \<Rightarrow> Some (kEipStatusError, st)
     | Some j \<Rightarrow> do {
         let st = (if consuming then st else on_info j (\<lambda>i. i\<lparr>info_sin_family := net16 AF_INET, info_sin_port := net16 kOpenerEipIoUdpPort,
           info_sin_addr := starting_multicast_address st, info_nasin_zero := replicate 8 0, info_length := 16\<rparr>) st);
         i \<leftarrow> info_item j st;
         if info_sin_family i \<noteq> net16 AF_INET then Some (kEipStatusError, st)
         else do {
           co \<leftarrow> get_connection d st;
           _ \<leftarrow> ConnectionObjectGetTToOPriority co;
           let (qos, st) = SetQos os st;
           if \<not> qos then Some (kEipStatusError, st)
           else do {
             st \<leftarrow> update_connection d (\<lambda>co. Some (if consuming
               then co\<lparr>socket_consuming := udp_io_messaging st,
                 originator_address := \<lparr>sin_port = info_sin_port i, sin_addr = GetPeerAddress os st\<rparr>\<rparr>
               else co\<lparr>socket_producing := udp_io_messaging st,
                 remote_address := \<lparr>sin_port = info_sin_port i, sin_addr = info_sin_addr i\<rparr>\<rparr>)) st;
             Some (kEipStatusOk, st) } } })"

text \<open>The port is read before the item gets its type: a free item supplies the port it happens to hold.\<close>

definition OpenProducingMulticastConnection :: "os_env \<Rightarrow> nat \<Rightarrow> 'e stack_state_scheme \<Rightarrow> (EipStatus \<times> 'e stack_state_scheme) run" where
  "OpenProducingMulticastConnection os d st = do {
     co \<leftarrow> get_connection d st;
     existing \<leftarrow> GetExistingProducerIoConnection True (ucast (cp_instance_id (produced_path co))) st;
     (case AllocateSocketAddressInfoItem kCipItemIdSocketAddressInfoTargetToOriginator (g_common_packet_format_data_item st) of
        None \<Rightarrow> Some (kEipStatusError, st)
      | Some j \<Rightarrow> do {
          i \<leftarrow> info_item j st;
          let port = (if info_type_id i \<noteq> kCipItemIdSocketAddressInfoTargetToOriginator then info_sin_port i
            else net16 kOpenerEipIoUdpPort);
          let st = on_info j (\<lambda>i. i\<lparr>info_type_id := kCipItemIdSocketAddressInfoTargetToOriginator\<rparr>) st;
          (case existing of
             None \<Rightarrow> OpenMulticastConnection os False d st
           | Some e \<Rightarrow> do {
               other \<leftarrow> get_connection e st;
               st \<leftarrow> update_connection d (\<lambda>co. Some (co\<lparr>cip_produced_connection_id := cip_produced_connection_id other\<rparr>)) st;
               st \<leftarrow> (if instance_type co = kConnectionObjectInstanceTypeIOExclusiveOwner
                 then do {
                   st \<leftarrow> update_connection d (\<lambda>co. Some (co\<lparr>socket_producing := socket_producing other\<rparr>)) st;
                   update_connection e (\<lambda>co. Some (co\<lparr>socket_producing := kEipInvalidSocket\<rparr>)) st }
                 else update_connection d (\<lambda>co. Some (co\<lparr>socket_producing := kEipInvalidSocket\<rparr>)) st);
               st \<leftarrow> update_connection d (\<lambda>co. Some (co\<lparr>remote_address := \<lparr>sin_port = port,
                 sin_addr = starting_multicast_address st\<rparr>\<rparr>)) st;
               Some (kEipStatusOk, on_info j (\<lambda>i. i\<lparr>info_length := 16, info_sin_port := port,
                 info_sin_addr := starting_multicast_address st, info_nasin_zero := replicate 8 0,
                 info_sin_family := net16 AF_INET\<rparr>) st) }) }) }"

definition OpenCommunicationChannels :: "os_env \<Rightarrow> nat \<Rightarrow> 'e stack_state_scheme \<Rightarrow> (CipUsint \<times> 'e stack_state_scheme) run" where
  "OpenCommunicationChannels os d st = do {
     let st = CreateUdpSocket os st;
     co \<leftarrow> get_connection d st;
     let o_to_t = ConnectionObjectGetOToTConnectionType co;
     let t_to_o = ConnectionObjectGetTToOConnectionType co;
     (status, st) \<leftarrow> (if o_to_t = kConnectionObjectConnectionTypeMulticast then OpenMulticastConnection os True d st
       else if o_to_t = kConnectionObjectConnectionTypePointToPoint then OpenConsumingPointToPointConnection os d st
       else Some (kEipStatusOk, st));
     if status \<noteq> kEipStatusOk then Some (kCipErrorConnectionFailure, st)
     else do {
       (status, st) \<leftarrow> (if t_to_o = kConnectionObjectConnectionTypeMulticast then OpenProducingMulticastConnection os d st
         else if t_to_o = kConnectionObjectConnectionTypePointToPoint then OpenProducingPointToPointConnection os d st
         else Some (kEipStatusOk, st));
       Some (if status \<noteq> kEipStatusOk then kCipErrorConnectionFailure else kCipErrorSuccess, st) } }"

subsubsection \<open>Establishing\<close>

text \<open>The counter of \<^verbatim>\<open>GetConnectionId\<close> is incremented before it is used.\<close>

definition GetConnectionId :: "'e stack_state_scheme \<Rightarrow> CipUdint \<times> 'e stack_state_scheme" where
  "GetConnectionId st = (let c = connection_id st + 1 in (g_incarnation_id st OR ucast c, st\<lparr>connection_id := c\<rparr>))"

text \<open>The identifiers the next calls of \<^verbatim>\<open>GetConnectionId\<close> give, and the configuration of a listed object with them.\<close>

definition next_ids :: "'e stack_state_scheme \<Rightarrow> nat \<Rightarrow> CipUdint" where
  "next_ids st k = g_incarnation_id st OR ucast (connection_id st + 1 + of_nat k)"

definition general_configuration :: "nat \<Rightarrow> 'e stack_state_scheme \<Rightarrow> 'e stack_state_scheme run" where
  "general_configuration d st = do {
     co \<leftarrow> get_connection d st;
     let (co', k) = ConnectionObjectGeneralConfiguration (next_ids st) co;
     update_connection d (\<lambda>_. Some co') (st\<lparr>connection_id := connection_id st + of_nat k\<rparr>) }"

definition failed_setup :: "CipUint \<Rightarrow> 'e stack_state_scheme \<Rightarrow> (CipUsint \<times> CipUint \<times> 'e stack_state_scheme) run" where
  "failed_setup ext st = Some (kCipErrorConnectionFailure, ext, st)"

definition EstablishIoConnection :: "os_env \<Rightarrow> 'e stack_state_scheme \<Rightarrow> (CipUsint \<times> CipUint \<times> 'e stack_state_scheme) run" where
  "EstablishIoConnection os st = do {
     (slot, ext, st) \<leftarrow> GetIoConnectionForConnectionData st;
     (case slot of
        None \<Rightarrow> failed_setup ext st
      | Some d \<Rightarrow> do {
          (ext, st) \<leftarrow> ProcessProductionInhibitTime d st;
          if ext \<noteq> 0 then failed_setup ext st
          else do {
            st \<leftarrow> update_connection d (\<lambda>co. Some (SetIoConnectionCallbacks co)) st;
            st \<leftarrow> general_configuration d st;
            co \<leftarrow> get_connection d st;
            let o_to_t = ConnectionObjectGetOToTConnectionType co;
            let t_to_o = ConnectionObjectGetTToOConnectionType co;
            c_assert (\<not> (o_to_t = kConnectionObjectConnectionTypeNull \<and> t_to_o = kConnectionObjectConnectionTypeNull));
            st \<leftarrow> update_connection d (\<lambda>co. Some (co\<lparr>consuming_instance := None, consumed_connection_path_length := 0,
              producing_instance := None, produced_connection_path_length := 0\<rparr>)) st;
            (ext, st) \<leftarrow> (if o_to_t \<noteq> kConnectionObjectConnectionTypeNull
              then SetupIoConnectionOriginatorToTargetConnectionPoint d st else Some (0, st));
            if ext \<noteq> 0 then failed_setup ext st
            else do {
              (ext, st) \<leftarrow> (if t_to_o \<noteq> kConnectionObjectConnectionTypeNull
                then SetupIoConnectionTargetToOriginatorConnectionPoint d st else Some (0, st));
              if ext \<noteq> 0 then failed_setup ext st
              else do {
                (ext, st) \<leftarrow> (if g_config_data_buffer st \<noteq> None then HandleConfigData d st else Some (0, st));
                if ext \<noteq> 0 then failed_setup ext st
                else do {
                  (cip_error, st) \<leftarrow> OpenCommunicationChannels os d st;
                  if cip_error \<noteq> kCipErrorSuccess then Some (cip_error, 0, st)
                  else do {
                    st \<leftarrow> AddNewActiveConnection d st;
                    Some (kCipErrorSuccess, 0, st) } } } } } }) }"

subsection \<open>Sending and receiving data\<close>

definition SendConnectedData :: "os_env \<Rightarrow> nat \<Rightarrow> 'e stack_state_scheme \<Rightarrow> (EipStatus \<times> 'e stack_state_scheme) run" where
  "SendConnectedData os d st = do {
     st \<leftarrow> update_connection d (\<lambda>co. Some (co\<lparr>eip_level_sequence_count_producing := eip_level_sequence_count_producing co + 1\<rparr>)) st;
     co \<leftarrow> get_connection d st;
     let sequenced = (ConnectionObjectGetTransportClassTriggerTransportClass co \<noteq>
       kConnectionObjectTransportClassTriggerTransportClass0);
     let st = on_packet (\<lambda>p. p\<lparr>item_count := 2, address_item := (address_item p)\<lparr>
         address_type_id := (if sequenced then kCipItemIdSequencedAddressItem else kCipItemIdConnectionAddress),
         address_length := (if sequenced then 8 else 4),
         address_data := \<lparr>connection_identifier = cip_produced_connection_id co,
           sequence_number = (if sequenced then eip_level_sequence_count_producing co
             else sequence_number (address_data (address_item p)))\<rparr>\<rparr>,
       data_item := (data_item p)\<lparr>data_type_id := kCipItemIdConnectedDataItem\<rparr>\<rparr>) st;
     n \<leftarrow> producing_instance co;
     (_, arr) \<leftarrow> first_attribute n st;
     let st = on_packet (\<lambda>p. p\<lparr>data_item := (data_item p)\<lparr>data_item_length := 0\<rparr>\<rparr>) st;
     st \<leftarrow> update_connection d (\<lambda>co. Some (co\<lparr>sequence_count_producing := sequence_count_producing co + 1\<rparr>)) st;
     co \<leftarrow> get_connection d st;
     let st = on_packet (set_info_type 1 0 \<circ> set_info_type 0 0) st;
     m \<leftarrow> AssembleIOMessage (g_common_packet_format_data_item st) (InitializeENIPMessage zero_message);
     m \<leftarrow> MoveMessageNOctets (- 2) m;
     let len = (if transport_class1 co then ba_length arr + 2 else ba_length arr);
     let st = on_packet (\<lambda>p. p\<lparr>data_item := (data_item p)\<lparr>data_item_length := len\<rparr>\<rparr>) st;
     m \<leftarrow> AddIntToMessage len m;
     m \<leftarrow> (if transport_class1 co then AddIntToMessage (sequence_count_producing co) m else Some m);
     (bs, _) \<leftarrow> read_bytes (unat (ba_length arr)) (ba_data arr);
     m \<leftarrow> emit bs m;
     Some (SendUdpData os (remote_address co) m st) }"

definition SEQ_LEQ16 :: "CipUint \<Rightarrow> CipUint \<Rightarrow> bool" where "SEQ_LEQ16 a b \<longleftrightarrow> sint (a - b) \<le> 0"
definition SEQ_GT32 :: "CipUdint \<Rightarrow> CipUdint \<Rightarrow> bool" where "SEQ_GT32 a b \<longleftrightarrow> sint (a - b) > 0"

definition HandleReceivedIoConnectionData :: "nat \<Rightarrow> CipOctet list \<Rightarrow> CipUint \<Rightarrow> 'e stack_state_scheme \<Rightarrow>
    (EipStatus \<times> 'e stack_state_scheme) run" where
  "HandleReceivedIoConnectionData d data data_length st = do {
     co \<leftarrow> get_connection d st;
     (no_new_data, data, data_length, st) \<leftarrow> (if transport_class1 co then do {
         (seq, data) \<leftarrow> GetUintFromMessage data;
         st \<leftarrow> update_connection d (\<lambda>co. Some (co\<lparr>sequence_count_consuming := seq\<rparr>)) st;
         Some (SEQ_LEQ16 seq (sequence_count_consuming co), data, data_length - 2, st) }
       else Some (False, data, data_length, st));
     if data_length > 0 then do {
       (data, data_length, st) \<leftarrow> (if s_consume_run_idle st then do {
           (run_idle, data) \<leftarrow> GetUdintFromMessage data;
           st \<leftarrow> CipIdentitySetExtendedDeviceStatus (if run_idle AND 1 = 1 then kAtLeastOneIoConnectionInRunMode
             else kAtLeastOneIoConnectionEstablishedAllInIdleMode) st;
           Some (data, data_length - 4, st\<lparr>g_run_idle_state := run_idle\<rparr>) }
         else Some (data, data_length, st));
       if no_new_data then Some (kEipStatusOk, st)
       else do {
         n \<leftarrow> consuming_instance co;
         (_, arr) \<leftarrow> first_attribute n st;
         (data, data_length) \<leftarrow> (if \<not> s_consume_run_idle st \<and> uint data_length = uint (ba_length arr) + 4
           then do { (_, data) \<leftarrow> read_bytes 4 data; Some (data, data_length - 4) }
           else Some (data, data_length));
         (status, st) \<leftarrow> NotifyAssemblyConnectedDataReceived n data (ucast data_length) st;
         Some (if status \<noteq> kEipStatusOk then kEipStatusError else kEipStatusOk, st) } }
     else Some (kEipStatusOk, st) }"

end
