(* ===== verification/ConnectionManager.thy ===== *)
theory ConnectionManager
  imports IoConnection
begin

text \<open>
  The connection manager of \<^verbatim>\<open>cip/cipconnectionmanager.c\<close>: Forward Open and Forward Close, the
  services that report connection data, the periodic \<^verbatim>\<open>ManageConnections\<close> and the handling of
  received I/O data, with the explicit connections of \<^verbatim>\<open>cip/cipclass3connection.c\<close>.

  The statistics are data of attributes of the connection manager object, hence cells of the data
  store. The address of the originator is a field of the state.
\<close>

subsection \<open>Statistics\<close>

definition s_statistic :: "nat \<Rightarrow> nat" where "s_statistic attribute = 61000 + attribute"

definition count_up :: "nat \<Rightarrow> 'e cip_state_scheme \<Rightarrow> 'e cip_state_scheme run" where
  "count_up attribute st = do {
     n \<leftarrow> cell16 (s_statistic attribute) st;
     Some (set_cell (s_statistic attribute) (V16 (n + 1)) st) }"

abbreviation (input) open_requests :: nat where "open_requests \<equiv> 1"
abbreviation (input) open_format_rejects :: nat where "open_format_rejects \<equiv> 2"
abbreviation (input) open_resource_rejects :: nat where "open_resource_rejects \<equiv> 3"
abbreviation (input) open_other_rejects :: nat where "open_other_rejects \<equiv> 4"
abbreviation (input) close_requests :: nat where "close_requests \<equiv> 5"
abbreviation (input) close_format_requests :: nat where "close_format_requests \<equiv> 6"
abbreviation (input) close_other_requests :: nat where "close_other_requests \<equiv> 7"
abbreviation (input) connection_timeouts :: nat where "connection_timeouts \<equiv> 8"

subsection \<open>Explicit connections (cipclass3connection.c)\<close>

abbreviation (input) kConnectionManagerExtendedStatusCodeErrorNoMoreConnectionsAvailable :: CipUint where
  "kConnectionManagerExtendedStatusCodeErrorNoMoreConnectionsAvailable \<equiv> 0x0113"

definition GetFreeExplicitConnection :: "'e stack_state_scheme \<Rightarrow> nat option" where
  "GetFreeExplicitConnection st = first_index (\<lambda>co. ConnectionObjectGetState co = kConnectionObjectStateNonExistent)
     (take OPENER_CIP_NUM_EXPLICIT_CONNS (connections st))"

definition EstablishClass3Connection :: "'e stack_state_scheme \<Rightarrow> (CipUsint \<times> CipUint \<times> 'e stack_state_scheme) run" where
  "EstablishClass3Connection st = (case GetFreeExplicitConnection st of
       None \<Rightarrow> Some (kCipErrorConnectionFailure, kConnectionManagerExtendedStatusCodeErrorNoMoreConnectionsAvailable, st)
     | Some d \<Rightarrow> do {
         st \<leftarrow> update_connection d (\<lambda>co. Some (ConnectionObjectDeepCopy co (g_dummy_connection_object st))) st;
         st \<leftarrow> general_configuration d st;
         st \<leftarrow> update_connection d (\<lambda>co. Some ((ConnectionObjectSetInstanceType kConnectionObjectInstanceTypeExplicitMessaging co)
           \<lparr>connection_close_function := Some CloseConnectionFn,
            connection_timeout_function := Some Class3ConnectionTimeoutHandlerFn\<rparr>)) st;
         st \<leftarrow> AddNewActiveConnection d st;
         Some (kCipErrorSuccess, 0, st) })"

definition InitializeClass3ConnectionData :: "'e stack_state_scheme \<Rightarrow> 'e stack_state_scheme" where
  "InitializeClass3ConnectionData st = st\<lparr>connections :=
     replicate OPENER_CIP_NUM_EXPLICIT_CONNS zero_connection @ drop OPENER_CIP_NUM_EXPLICIT_CONNS (connections st)\<rparr>"

definition InitializeIoConnectionData :: "'e stack_state_scheme \<Rightarrow> 'e stack_state_scheme" where
  "InitializeIoConnectionData st = (let p = \<lparr>output_assembly = 0, input_assembly = 0, config_assembly = 0\<rparr> in
     st\<lparr>connections := take OPENER_CIP_NUM_EXPLICIT_CONNS (connections st) @ replicate 7 zero_connection,
       g_exlusive_owner_connections := p, g_input_only_connections := p, g_listen_only_connections := p\<rparr>)"

definition CipClass3ConnectionObjectStateEstablishedHandler :: "ConnectionObjectState \<Rightarrow> CipConnectionObject \<Rightarrow>
    (EipStatus \<times> CipConnectionObject) run" where
  "CipClass3ConnectionObjectStateEstablishedHandler new_state co = (
     if new_state = kConnectionObjectStateNonExistent then do {
       co \<leftarrow> ConnectionObjectInitializeEmpty co;
       co \<leftarrow> ConnectionObjectSetState new_state co;
       Some (kEipStatusOk, co) }
     else Some (kEipStatusError, co))"

definition CipClass3ConnectionObjectStateNonExistentHandler :: "ConnectionObjectState \<Rightarrow> CipConnectionObject \<Rightarrow>
    (EipStatus \<times> CipConnectionObject) run" where
  "CipClass3ConnectionObjectStateNonExistentHandler new_state co = (
     if new_state = kConnectionObjectStateEstablished then do {
       co \<leftarrow> ConnectionObjectSetState new_state co;
       Some (kEipStatusOk, co) }
     else Some (kEipStatusError, co))"

subsection \<open>Connectable objects\<close>

definition AddConnectableObject :: "CipUdint \<Rightarrow> OpenConnectionFunction \<Rightarrow> 'e stack_state_scheme \<Rightarrow>
    EipStatus \<times> 'e stack_state_scheme" where
  "AddConnectableObject cc f st = (case first_index (\<lambda>e. handled_class_id e = 0 \<or> cc = handled_class_id e)
       (g_connection_management_list st) of
       None \<Rightarrow> (kEipStatusError, st)
     | Some i \<Rightarrow> (kEipStatusOk, st\<lparr>g_connection_management_list := (g_connection_management_list st)
         [i := \<lparr>handled_class_id = cc, open_connection_function = Some f\<rparr>]\<rparr>))"

definition GetConnectionManagementEntry :: "CipUdint \<Rightarrow> 'e stack_state_scheme \<Rightarrow> ConnectionManagementHandling option" where
  "GetConnectionManagementEntry cid st = find (\<lambda>e. cid = handled_class_id e) (g_connection_management_list st)"

definition InitializeConnectionManagerData :: "'e stack_state_scheme \<Rightarrow> 'e stack_state_scheme" where
  "InitializeConnectionManagerData st = (
     let st = st\<lparr>g_connection_management_list := replicate 3 \<lparr>handled_class_id = 0, open_connection_function = None\<rparr>\<rparr>;
         st = InitializeIoConnectionData (InitializeClass3ConnectionData st);
         st = set_cell (s_statistic 12) (V16 4096) st;
         st = set_cell (s_statistic 13) (V16 4096) st
     in set_cell (s_statistic 11) (V16 0) st)"

subsection \<open>Responses\<close>

abbreviation (input) kForwardOpen :: CipUsint where "kForwardOpen \<equiv> 0x54"
abbreviation (input) kLargeForwardOpen :: CipUsint where "kLargeForwardOpen \<equiv> 0x5B"
abbreviation (input) kForwardClose :: CipUsint where "kForwardClose \<equiv> 0x4E"
abbreviation (input) kGetConnectionOwner :: CipUsint where "kGetConnectionOwner \<equiv> 0x5A"
abbreviation (input) kGetConnectionData :: CipUsint where "kGetConnectionData \<equiv> 0x56"
abbreviation (input) kSearchConnectionData :: CipUsint where "kSearchConnectionData \<equiv> 0x57"

definition AddNullAddressItem :: "CipCommonPacketFormatData \<Rightarrow> CipCommonPacketFormatData run" where
  "AddNullAddressItem p = do {
     c_assert (data_type_id (data_item p) = kCipItemIdUnconnectedDataItem);
     Some (p\<lparr>address_item := (address_item p)\<lparr>address_type_id := kCipItemIdNullAddress, address_length := 0\<rparr>\<rparr>) }"

definition unconnected_reply :: "'e stack_state_scheme \<Rightarrow> 'e stack_state_scheme run" where
  "unconnected_reply st = do {
     p \<leftarrow> AddNullAddressItem ((g_common_packet_format_data_item st)\<lparr>item_count := 2,
       data_item := (data_item (g_common_packet_format_data_item st))\<lparr>data_type_id := kCipItemIdUnconnectedDataItem\<rparr>\<rparr>);
     Some (st\<lparr>g_common_packet_format_data_item := p\<rparr>) }"

definition add_status :: "CipUint list \<Rightarrow> CipMessageRouterResponse \<Rightarrow> CipMessageRouterResponse run" where
  "add_status ss resp = do {
     c_assert (length ss \<le> length (additional_status resp));
     Some (resp\<lparr>size_of_additional_status := of_nat (length ss),
       additional_status := ss @ drop (length ss) (additional_status resp)\<rparr>) }"

definition open_error_status :: "CipConnectionObject \<Rightarrow> CipUsint \<Rightarrow> CipUint \<Rightarrow> CipUint list" where
  "open_error_status co general ext = (
     if general = kCipErrorNotEnoughData \<or> general = kCipErrorTooMuchData then []
     else if ext = kConnectionManagerExtendedStatusCodeErrorInvalidOToTConnectionSize
     then [ext, correct_originator_to_target_size co]
     else if ext = kConnectionManagerExtendedStatusCodeErrorInvalidTToOConnectionSize
     then [ext, correct_target_to_originator_size co]
     else [ext])"

text \<open>
  The object is a slot, or the dummy object (\<open>None\<close>). On an error its state is set to
  non-existent.
\<close>

definition reply_object :: "nat option \<Rightarrow> 'e stack_state_scheme \<Rightarrow> CipConnectionObject run" where
  "reply_object slot st = (case slot of Some d \<Rightarrow> get_connection d st | None \<Rightarrow> Some (g_dummy_connection_object st))"

definition reset_reply_object :: "nat option \<Rightarrow> 'e stack_state_scheme \<Rightarrow> 'e stack_state_scheme run" where
  "reset_reply_object slot st = (case slot of
       Some d \<Rightarrow> update_connection d (ConnectionObjectSetState kConnectionObjectStateNonExistent) st
     | None \<Rightarrow> do {
         co \<leftarrow> ConnectionObjectSetState kConnectionObjectStateNonExistent (g_dummy_connection_object st);
         Some (st\<lparr>g_dummy_connection_object := co\<rparr>) })"

definition count_info_items :: "'e stack_state_scheme \<Rightarrow> 'e stack_state_scheme run" where
  "count_info_items st = do {
     i0 \<leftarrow> info_item 0 st;
     i1 \<leftarrow> info_item 1 st;
     Some (if info_type_id i0 = 0 then st
       else on_packet (\<lambda>p. p\<lparr>item_count := (if info_type_id i1 \<noteq> 0 then 4 else 3)\<rparr>) st) }"

definition AssembleForwardOpenResponse :: "nat option \<Rightarrow> CipUsint \<Rightarrow> CipUint \<Rightarrow> CipMessageRouterResponse \<Rightarrow>
    'e stack_state_scheme \<Rightarrow> (EipStatus \<times> CipMessageRouterResponse \<times> 'e stack_state_scheme) run" where
  "AssembleForwardOpenResponse slot general ext resp st = do {
     st \<leftarrow> unconnected_reply st;
     co \<leftarrow> reply_object slot st;
     let resp = resp\<lparr>reply_service := reply_code (if is_large_forward_open co then kLargeForwardOpen else kForwardOpen),
       general_status := general\<rparr>;
     (resp, st) \<leftarrow> (if general = kCipErrorSuccess then do {
         st \<leftarrow> count_info_items st;
         resp \<leftarrow> on_message (AddDintToMessage (cip_consumed_connection_id co)) (resp\<lparr>size_of_additional_status := 0\<rparr>);
         resp \<leftarrow> on_message (AddDintToMessage (cip_produced_connection_id co)) resp;
         Some (resp, st) }
       else do {
         st \<leftarrow> reset_reply_object slot st;
         resp \<leftarrow> add_status (open_error_status co general ext) resp;
         Some (resp, st) });
     resp \<leftarrow> on_message (AddIntToMessage (connection_serial_number co)) resp;
     resp \<leftarrow> on_message (AddIntToMessage (originator_vendor_id co)) resp;
     resp \<leftarrow> on_message (AddDintToMessage (originator_serial_number co)) resp;
     resp \<leftarrow> (if general = kCipErrorSuccess then do {
         resp \<leftarrow> on_message (AddDintToMessage (o_to_t_requested_packet_interval co)) resp;
         on_message (AddDintToMessage (t_to_o_requested_packet_interval co)) resp }
       else Some resp);
     resp \<leftarrow> on_message (AddSintToMessage 0) resp;
     resp \<leftarrow> on_message (AddSintToMessage 0) resp;
     Some (kEipStatusOkSend, resp, st) }"

abbreviation (input) kConnectionManagerExtendedStatusWrongCloser :: CipUint where
  "kConnectionManagerExtendedStatusWrongCloser \<equiv> 0xFFFF"
abbreviation (input) kCipErrorPrivilegeViolation :: CipUsint where "kCipErrorPrivilegeViolation \<equiv> 0x0F"

definition AssembleForwardCloseResponse :: "CipUint \<Rightarrow> CipUint \<Rightarrow> CipUdint \<Rightarrow> CipMessageRouterRequest \<Rightarrow> CipUint \<Rightarrow>
    CipMessageRouterResponse \<Rightarrow> 'e stack_state_scheme \<Rightarrow> (EipStatus \<times> CipMessageRouterResponse \<times> 'e stack_state_scheme) run" where
  "AssembleForwardCloseResponse serial vendor orig req ext resp st = do {
     st \<leftarrow> unconnected_reply st;
     resp \<leftarrow> on_message (AddIntToMessage serial) resp;
     resp \<leftarrow> on_message (AddIntToMessage vendor) resp;
     resp \<leftarrow> on_message (AddDintToMessage orig) resp;
     let resp = resp\<lparr>reply_service := reply_code (req_service req)\<rparr>;
     resp \<leftarrow> (if ext = kConnectionManagerExtendedStatusCodeSuccess then do {
         resp \<leftarrow> on_message (AddSintToMessage 0) resp;
         Some (resp\<lparr>general_status := kCipErrorSuccess, size_of_additional_status := 0\<rparr>) }
       else do {
         b \<leftarrow> octet0 (req_data req);
         resp \<leftarrow> on_message (AddSintToMessage b) resp;
         if ext = kConnectionManagerExtendedStatusWrongCloser
         then Some (resp\<lparr>general_status := kCipErrorPrivilegeViolation\<rparr>)
         else add_status [ext] (resp\<lparr>general_status := kCipErrorConnectionFailure\<rparr>) });
     resp \<leftarrow> on_message (AddSintToMessage 0) resp;
     Some (kEipStatusOkSend, resp, st) }"

definition AssembleConnectionDataResponseMessage :: "CipConnectionObject \<Rightarrow> CipMessageRouterResponse \<Rightarrow> CipMessageRouterResponse run" where
  "AssembleConnectionDataResponseMessage co = on_message (\<lambda>m. do {
     m \<leftarrow> AddIntToMessage (connection_number co) m;
     m \<leftarrow> AddIntToMessage (ucast (conn_state co)) m;
     m \<leftarrow> AddIntToMessage (sin_port (originator_address co)) m;
     m \<leftarrow> AddIntToMessage (sin_port (remote_address co)) m;
     m \<leftarrow> AddIntToMessage (connection_serial_number co) m;
     m \<leftarrow> AddIntToMessage (originator_vendor_id co) m;
     m \<leftarrow> AddDintToMessage (originator_serial_number co) m;
     m \<leftarrow> AddDintToMessage (cip_consumed_connection_id co) m;
     m \<leftarrow> AddDintToMessage (cip_consumed_connection_id co) m;
     m \<leftarrow> AddSintToMessage (connection_timeout_multiplier co) m;
     m \<leftarrow> AddSintToMessage 0 m; m \<leftarrow> AddSintToMessage 0 m; m \<leftarrow> AddSintToMessage 0 m;
     m \<leftarrow> AddDintToMessage (o_to_t_requested_packet_interval co) m;
     m \<leftarrow> AddDintToMessage (ucast (transmission_trigger_timer co)) m;
     m \<leftarrow> AddDintToMessage (cip_produced_connection_id co) m;
     m \<leftarrow> AddDintToMessage (cip_produced_connection_id co) m;
     m \<leftarrow> AddSintToMessage (connection_timeout_multiplier co) m;
     m \<leftarrow> AddSintToMessage 0 m; m \<leftarrow> AddSintToMessage 0 m; m \<leftarrow> AddSintToMessage 0 m;
     m \<leftarrow> AddDintToMessage (t_to_o_requested_packet_interval co) m;
     AddDintToMessage (ucast (transmission_trigger_timer co)) m })"


subsection \<open>Forward Open\<close>

abbreviation (input) kConnectionManagerExtendedStatusCodeErrorConnectionInUseOrDuplicateForwardOpen :: CipUint where
  "kConnectionManagerExtendedStatusCodeErrorConnectionInUseOrDuplicateForwardOpen \<equiv> 0x0100"
abbreviation (input) kConnectionManagerExtendedStatusCodeErrorTransportClassAndTriggerCombinationNotSupported :: CipUint where
  "kConnectionManagerExtendedStatusCodeErrorTransportClassAndTriggerCombinationNotSupported \<equiv> 0x0103"
abbreviation (input) kConnectionManagerExtendedStatusCodeErrorConnectionTargetConnectionNotFound :: CipUint where
  "kConnectionManagerExtendedStatusCodeErrorConnectionTargetConnectionNotFound \<equiv> 0x0107"
abbreviation (input) kConnectionManagerExtendedStatusCodeErrorInvalidOToTConnectionType :: CipUint where
  "kConnectionManagerExtendedStatusCodeErrorInvalidOToTConnectionType \<equiv> 0x0123"
abbreviation (input) kConnectionManagerExtendedStatusCodeErrorInvalidTToOConnectionType :: CipUint where
  "kConnectionManagerExtendedStatusCodeErrorInvalidTToOConnectionType \<equiv> 0x0124"
abbreviation (input) kConnectionManagerExtendedStatusCodeNullForwardOpenNotSupported :: CipUint where
  "kConnectionManagerExtendedStatusCodeNullForwardOpenNotSupported \<equiv> 0x0132"
abbreviation (input) kConnectionManagerExtendedStatusCodeNotConfiguredForOffSubnetMulticast :: CipUint where
  "kConnectionManagerExtendedStatusCodeNotConfiguredForOffSubnetMulticast \<equiv> 0x0813"
abbreviation (input) kConnectionManagerExtendedStatusCodeMiscellaneous :: CipUint where
  "kConnectionManagerExtendedStatusCodeMiscellaneous \<equiv> 0x031C"

definition GetPaddedLogicalPath :: "CipOctet list \<Rightarrow> (CipUdint \<times> CipOctet list) run" where
  "GetPaddedLogicalPath msg = do {
     (b, msg) \<leftarrow> GetUsintFromMessage msg;
     if b AND 3 = 0 then do { (x, msg) \<leftarrow> GetUsintFromMessage msg; Some (ucast x, msg) }
     else if b AND 3 = 1 then do {
       (_, msg) \<leftarrow> GetUsintFromMessage msg;
       (x, msg) \<leftarrow> GetUsintFromMessage msg;
       (y, msg) \<leftarrow> GetUsintFromMessage msg;
       Some (ucast x OR push_bit 8 (ucast y), msg) }
     else Some (ucast b, msg) }"

definition HandleNullNonMatchingForwardOpenRequest :: "CipMessageRouterResponse \<Rightarrow> 'e stack_state_scheme \<Rightarrow>
    (EipStatus \<times> CipMessageRouterResponse \<times> 'e stack_state_scheme) run" where
  "HandleNullNonMatchingForwardOpenRequest resp st = AssembleForwardOpenResponse None kCipErrorConnectionFailure
     kConnectionManagerExtendedStatusCodeNullForwardOpenNotSupported resp st"

definition HandleNullMatchingForwardOpenRequest :: "CipMessageRouterResponse \<Rightarrow> 'e stack_state_scheme \<Rightarrow>
    (EipStatus \<times> CipMessageRouterResponse \<times> 'e stack_state_scheme) run" where
  "HandleNullMatchingForwardOpenRequest resp st = AssembleForwardOpenResponse None kCipErrorConnectionFailure
     kConnectionManagerExtendedStatusCodeNullForwardOpenNotSupported resp st"

definition HandleNonNullMatchingForwardOpenRequest :: "CipMessageRouterResponse \<Rightarrow> 'e stack_state_scheme \<Rightarrow>
    (EipStatus \<times> CipMessageRouterResponse \<times> 'e stack_state_scheme) run" where
  "HandleNonNullMatchingForwardOpenRequest resp st = AssembleForwardOpenResponse None kCipErrorConnectionFailure
     kConnectionManagerExtendedStatusCodeErrorConnectionInUseOrDuplicateForwardOpen resp st"

text \<open>
  The open function of the target class. A class without an entry gives the status
  \<^verbatim>\<open>kEipStatusError\<close>, cut to an octet; an entry without a function leaves the status of the parser.
\<close>

definition open_connection :: "os_env \<Rightarrow> 'e stack_state_scheme \<Rightarrow> (CipUsint \<times> CipUint \<times> 'e stack_state_scheme) run" where
  "open_connection os st = (case GetConnectionManagementEntry (cp_class_id (configuration_path (g_dummy_connection_object st))) st of
       None \<Rightarrow> Some (0xFF, kConnectionManagerExtendedStatusCodeInconsistentApplicationPathCombo, st)
     | Some e \<Rightarrow> (case open_connection_function e of
         None \<Rightarrow> Some (kCipErrorSuccess, kConnectionManagerExtendedStatusCodeMiscellaneous, st)
       | Some EstablishClass3ConnectionFn \<Rightarrow> EstablishClass3Connection st
       | Some EstablishIoConnectionFn \<Rightarrow> EstablishIoConnection os st))"

definition reject_counter :: "CipUint \<Rightarrow> nat" where
  "reject_counter ext = (
     if ext = kConnectionManagerExtendedStatusCodeErrorInvalidSegmentTypeInPath then open_format_rejects
     else if ext = kConnectionManagerExtendedStatusCodeErrorConnectionInUseOrDuplicateForwardOpen \<or>
       ext = kConnectionManagerExtendedStatusCodeErrorOwnershipConflict \<or>
       ext = kConnectionManagerExtendedStatusCodeTargetObjectOutOfConnections then open_resource_rejects
     else open_other_rejects)"

definition HandleNonNullNonMatchingForwardOpenRequest :: "os_env \<Rightarrow> CipMessageRouterRequest \<Rightarrow> CipMessageRouterResponse \<Rightarrow>
    'e stack_state_scheme \<Rightarrow> (EipStatus \<times> CipMessageRouterRequest \<times> CipMessageRouterResponse \<times> 'e stack_state_scheme) run" where
  "HandleNonNullNonMatchingForwardOpenRequest os req resp st = (
     if ConnectionObjectGetTransportClassTriggerProductionTrigger (g_dummy_connection_object st) =
        kConnectionObjectTransportClassTriggerProductionTriggerInvalid
     then do {
       (status, resp, st) \<leftarrow> AssembleForwardOpenResponse None kCipErrorConnectionFailure
         kConnectionManagerExtendedStatusCodeErrorTransportClassAndTriggerCombinationNotSupported resp st;
       Some (status, req, resp, st) }
     else do {
       (temp, ext, req, st) \<leftarrow> ParseConnectionPath req st;
       if temp \<noteq> 0 then do {
         (status, resp, st) \<leftarrow> AssembleForwardOpenResponse None temp ext resp st;
         Some (status, req, resp, st) }
       else do {
         (temp, ext, st) \<leftarrow> open_connection os st;
         if temp \<noteq> 0 then do {
           st \<leftarrow> count_up (reject_counter ext) st;
           (status, resp, st) \<leftarrow> AssembleForwardOpenResponse None temp ext resp st;
           Some (status, req, resp, st) }
         else do {
           st \<leftarrow> count_up open_requests st;
           i \<leftarrow> list_head st;
           d \<leftarrow> node_object i st;
           (status, resp, st) \<leftarrow> AssembleForwardOpenResponse (Some d) kCipErrorSuccess 0 resp st;
           Some (status, req, resp, st) } } })"

text \<open>The status the routine refuses a request with before it looks for an existing connection.\<close>

definition routine_refusal :: "'e stack_state_scheme \<Rightarrow> CipUint option" where
  "routine_refusal st = (let co = g_dummy_connection_object st in
     if ConnectionObjectGetOToTConnectionType co = kConnectionObjectConnectionTypeInvalid
     then Some kConnectionManagerExtendedStatusCodeErrorInvalidOToTConnectionType
     else if ConnectionObjectGetTToOConnectionType co = kConnectionObjectConnectionTypeInvalid
     then Some kConnectionManagerExtendedStatusCodeErrorInvalidTToOConnectionType
     else if ConnectionObjectGetTToOConnectionType co = kConnectionObjectConnectionTypeMulticast \<and>
       sin_addr (originator_sockaddr st) AND network_mask st \<noteq> network_ip_address st AND network_mask st
     then Some kConnectionManagerExtendedStatusCodeNotConfiguredForOffSubnetMulticast
     else None)"

definition ForwardOpenRoutine :: "os_env \<Rightarrow> CipSessionHandle \<Rightarrow> CipMessageRouterRequest \<Rightarrow> CipMessageRouterResponse \<Rightarrow>
    'e stack_state_scheme \<Rightarrow> (EipStatus \<times> CipMessageRouterRequest \<times> CipMessageRouterResponse \<times> 'e stack_state_scheme) run" where
  "ForwardOpenRoutine os session req resp st = do {
     (number, k) \<leftarrow> GenerateRandomConnectionNumber (os_rand os) (connections st) (connection_list st) (os_calls st);
     (co, msg) \<leftarrow> ConnectionObjectInitializeFromMessage number (req_data req) (g_dummy_connection_object st);
     let req = req\<lparr>req_data := msg\<rparr>;
     let st = st\<lparr>os_calls := k, g_dummy_connection_object := co\<lparr>associated_encapsulation_session := session,
       originator_address := originator_sockaddr st\<rparr>\<rparr>;
     (case routine_refusal st of
        Some ext \<Rightarrow> do {
          (status, resp, st) \<leftarrow> AssembleForwardOpenResponse None kCipErrorConnectionFailure ext resp st;
          Some (status, req, resp, st) }
      | None \<Rightarrow> do {
          let is_null = (ConnectionObjectGetOToTConnectionType (g_dummy_connection_object st) = kConnectionObjectConnectionTypeNull \<and>
            ConnectionObjectGetTToOConnectionType (g_dummy_connection_object st) = kConnectionObjectConnectionTypeNull);
          existing \<leftarrow> CheckForExistingConnection (g_dummy_connection_object st) st;
          if \<not> is_null \<and> existing = None then HandleNonNullNonMatchingForwardOpenRequest os req resp st
          else do {
            (status, resp, st) \<leftarrow> (if \<not> is_null then HandleNonNullMatchingForwardOpenRequest resp st
              else if existing = None then HandleNullNonMatchingForwardOpenRequest resp st
              else HandleNullMatchingForwardOpenRequest resp st);
            Some (status, req, resp, st) } }) }"

definition LargeForwardOpen :: "os_env \<Rightarrow> CipSessionHandle \<Rightarrow> CipMessageRouterRequest \<Rightarrow> CipMessageRouterResponse \<Rightarrow>
    'e stack_state_scheme \<Rightarrow> (EipStatus \<times> CipMessageRouterRequest \<times> CipMessageRouterResponse \<times> 'e stack_state_scheme) run" where
  "LargeForwardOpen os session req resp st =
     ForwardOpenRoutine os session req resp (on_dummy (\<lambda>co. co\<lparr>is_large_forward_open := True\<rparr>) st)"

definition ForwardOpen :: "os_env \<Rightarrow> CipSessionHandle \<Rightarrow> CipMessageRouterRequest \<Rightarrow> CipMessageRouterResponse \<Rightarrow>
    'e stack_state_scheme \<Rightarrow> (EipStatus \<times> CipMessageRouterRequest \<times> CipMessageRouterResponse \<times> 'e stack_state_scheme) run" where
  "ForwardOpen os session req resp st =
     ForwardOpenRoutine os session req resp (on_dummy (\<lambda>co. co\<lparr>is_large_forward_open := False\<rparr>) st)"

subsection \<open>Forward Close\<close>

definition matches_triad :: "CipUint \<Rightarrow> CipUint \<Rightarrow> CipUdint \<Rightarrow> CipConnectionObject \<Rightarrow> bool" where
  "matches_triad serial vendor orig co \<longleftrightarrow> connection_serial_number co = serial \<and> originator_vendor_id co = vendor \<and>
     originator_serial_number co = orig"

definition open_or_timed_out :: "CipConnectionObject \<Rightarrow> bool" where
  "open_or_timed_out co \<longleftrightarrow> ConnectionObjectGetState co = kConnectionObjectStateEstablished \<or>
     ConnectionObjectGetState co = kConnectionObjectStateTimedOut"

definition ForwardClose :: "CipMessageRouterRequest \<Rightarrow> CipMessageRouterResponse \<Rightarrow> 'e stack_state_scheme \<Rightarrow>
    (EipStatus \<times> CipMessageRouterRequest \<times> CipMessageRouterResponse \<times> 'e stack_state_scheme) run" where
  "ForwardClose req resp st = do {
     let st = on_packet (set_info_type 1 0 \<circ> set_info_type 0 0) st;
     (_, msg) \<leftarrow> read_bytes 2 (req_data req);
     (serial, msg) \<leftarrow> GetUintFromMessage msg;
     (vendor, msg) \<leftarrow> GetUintFromMessage msg;
     (orig, msg) \<leftarrow> GetUdintFromMessage msg;
     let req = req\<lparr>req_data := msg\<rparr>;
     found \<leftarrow> find_connection (\<lambda>co. open_or_timed_out co \<and> matches_triad serial vendor orig co) st;
     (ext, st) \<leftarrow> (case found of
         None \<Rightarrow> do {
           st \<leftarrow> count_up close_other_requests st;
           Some (kConnectionManagerExtendedStatusCodeErrorConnectionTargetConnectionNotFound, st) }
       | Some d \<Rightarrow> do {
           co \<leftarrow> get_connection d st;
           c_assert (connection_close_function co \<noteq> None);
           if sin_addr (originator_sockaddr st) = sin_addr (originator_address co) then do {
             st \<leftarrow> call_close_function d st;
             st \<leftarrow> count_up close_requests st;
             Some (kConnectionManagerExtendedStatusCodeSuccess, st) }
           else do {
             st \<leftarrow> count_up close_format_requests st;
             Some (kConnectionManagerExtendedStatusWrongCloser, st) } });
     (status, resp, st) \<leftarrow> AssembleForwardCloseResponse serial vendor orig req ext resp st;
     Some (status, req, resp, st) }"


subsection \<open>Connection data services\<close>

definition GetConnectionOwner :: "CipMessageRouterRequest \<Rightarrow> CipMessageRouterResponse \<Rightarrow> 'e stack_state_scheme \<Rightarrow>
    (EipStatus \<times> CipMessageRouterRequest \<times> CipMessageRouterResponse \<times> 'e stack_state_scheme) run" where
  "GetConnectionOwner req resp st = Some (kEipStatusOk, req, resp, st)"

definition connection_data_reply :: "nat option \<Rightarrow> CipMessageRouterResponse \<Rightarrow> 'e stack_state_scheme \<Rightarrow> CipMessageRouterResponse run" where
  "connection_data_reply found resp st = (case found of
       None \<Rightarrow> Some (resp\<lparr>general_status := kCipErrorPathDestinationUnknown\<rparr>)
     | Some d \<Rightarrow> do {
         co \<leftarrow> get_connection d st;
         resp \<leftarrow> AssembleConnectionDataResponseMessage co resp;
         Some (resp\<lparr>general_status := kCipErrorSuccess\<rparr>) })"

definition GetConnectionData :: "CipMessageRouterRequest \<Rightarrow> CipMessageRouterResponse \<Rightarrow> 'e stack_state_scheme \<Rightarrow>
    (EipStatus \<times> CipMessageRouterRequest \<times> CipMessageRouterResponse \<times> 'e stack_state_scheme) run" where
  "GetConnectionData req resp st = do {
     let resp = resp\<lparr>reply_service := reply_code kGetConnectionData\<rparr>;
     (number, msg) \<leftarrow> GetUintFromMessage (req_data req);
     found \<leftarrow> find_connection (\<lambda>co. connection_number co = number) st;
     resp \<leftarrow> connection_data_reply found resp st;
     Some (kEipStatusOk, req\<lparr>req_data := msg\<rparr>, resp, st) }"

definition SearchConnectionData :: "CipMessageRouterRequest \<Rightarrow> CipMessageRouterResponse \<Rightarrow> 'e stack_state_scheme \<Rightarrow>
    (EipStatus \<times> CipMessageRouterRequest \<times> CipMessageRouterResponse \<times> 'e stack_state_scheme) run" where
  "SearchConnectionData req resp st = do {
     let resp = resp\<lparr>reply_service := reply_code kSearchConnectionData\<rparr>;
     (serial, msg) \<leftarrow> GetUintFromMessage (req_data req);
     (vendor, msg) \<leftarrow> GetUintFromMessage msg;
     (orig, msg) \<leftarrow> GetUdintFromMessage msg;
     found \<leftarrow> find_connection (matches_triad serial vendor orig) st;
     resp \<leftarrow> connection_data_reply found resp st;
     Some (kEipStatusOk, req\<lparr>req_data := msg\<rparr>, resp, st) }"

subsubsection \<open>The connection entry list\<close>

text \<open>How many of the connections from a node on are established.\<close>

partial_function (option) count_established :: "nat option \<Rightarrow> CipUint \<Rightarrow> 'e stack_state_scheme \<Rightarrow> CipUint option" where
  "count_established node k st = (case node of
       None \<Rightarrow> Some k
     | Some i \<Rightarrow> do {
         n \<leftarrow> array_get (nodes (connection_list st)) i;
         k \<leftarrow> (case node_data n of
             None \<Rightarrow> Some k
           | Some d \<Rightarrow> do {
               co \<leftarrow> get_connection d st;
               Some (if ConnectionObjectGetState co = kConnectionObjectStateEstablished then k + 1 else k) });
         count_established (next_node n) k st })"

definition set_bit_in :: "CipOctet list \<Rightarrow> nat \<Rightarrow> CipOctet list run" where
  "set_bit_in bits i = do {
     b \<leftarrow> array_get bits (i div 8);
     array_set bits (i div 8) (b OR push_bit (i mod 8) 1) }"

fun set_bits :: "nat list \<Rightarrow> CipOctet list \<Rightarrow> CipOctet list run" where
  "set_bits [] bits = Some bits"
| "set_bits (i # is) bits = do { bits \<leftarrow> set_bit_in bits i; set_bits is bits }"

definition EncodeConnectionEntryList :: "'e stack_state_scheme \<Rightarrow> ENIPMessage \<Rightarrow> ENIPMessage run" where
  "EncodeConnectionEntryList st m = do {
     num_entries \<leftarrow> count_established (list_head st) 0 st;
     m \<leftarrow> AddIntToMessage num_entries m;
     if num_entries > 0 then do {
       let bits_bytes = (unat num_entries + 7) div 8;
       bits \<leftarrow> set_bits [0..<unat num_entries] (replicate bits_bytes 0);
       emit bits m }
     else Some m }"

subsection \<open>Received I/O data\<close>

definition call_receive_function :: "nat \<Rightarrow> CipOctet list \<Rightarrow> CipUint \<Rightarrow> 'e stack_state_scheme \<Rightarrow> (EipStatus \<times> 'e stack_state_scheme) run" where
  "call_receive_function d data data_length st = do {
     co \<leftarrow> get_connection d st;
     (case connection_receive_data_function co of
        None \<Rightarrow> Some (kEipStatusOk, st)
      | Some HandleReceivedIoConnectionDataFn \<Rightarrow> HandleReceivedIoConnectionData d data data_length st) }"

definition HandleReceivedConnectedData :: "CipOctet list \<Rightarrow> size_t \<Rightarrow> sockaddr_in \<Rightarrow> 'e stack_state_scheme \<Rightarrow>
    (EipStatus \<times> 'e stack_state_scheme) run" where
  "HandleReceivedConnectedData data data_length from_address st = do {
     (status, p) \<leftarrow> CreateCommonPacketFormatStructure data data_length (g_common_packet_format_data_item st);
     let st = st\<lparr>g_common_packet_format_data_item := p\<rparr>;
     if status = kEipStatusError then Some (kEipStatusError, st)
     else if (address_type_id (address_item p) = kCipItemIdConnectionAddress \<or>
         address_type_id (address_item p) = kCipItemIdSequencedAddressItem) \<and>
       data_type_id (data_item p) = kCipItemIdConnectedDataItem
     then do {
       found \<leftarrow> GetConnectedObject (connection_identifier (address_data (address_item p))) st;
       (case found of
          None \<Rightarrow> Some (kEipStatusError, st)
        | Some d \<Rightarrow> do {
            co \<leftarrow> get_connection d st;
            if sin_addr (originator_address co) \<noteq> sin_addr from_address then Some (kEipStatusOk, st)
            else do {
              st \<leftarrow> update_connection d ConnectionObjectResetLastPackageInactivityTimerValue st;
              if SEQ_GT32 (sequence_number (address_data (address_item p))) (eip_level_sequence_count_consuming co) \<or>
                \<not> eip_first_level_sequence_count_received co
              then do {
                st \<leftarrow> update_connection d ConnectionObjectResetInactivityWatchdogTimerValue st;
                st \<leftarrow> update_connection d (\<lambda>co. Some (co\<lparr>
                  eip_level_sequence_count_consuming := sequence_number (address_data (address_item p)),
                  eip_first_level_sequence_count_received := True\<rparr>)) st;
                call_receive_function d (data_item_data (data_item p)) (data_item_length (data_item p)) st }
              else Some (kEipStatusOk, st) } }) }
     else Some (kEipStatusOk, st) }"

subsection \<open>The periodic work on the connections\<close>

definition call_send_function :: "os_env \<Rightarrow> nat \<Rightarrow> 'e stack_state_scheme \<Rightarrow> (EipStatus \<times> 'e stack_state_scheme) run" where
  "call_send_function os d st = do {
     co \<leftarrow> get_connection d st;
     f \<leftarrow> connection_send_data_function co;
     (case f of SendConnectedDataFn \<Rightarrow> SendConnectedData os d st) }"

definition grace_period :: "MilliSeconds \<Rightarrow> nat \<Rightarrow> 'e stack_state_scheme \<Rightarrow> 'e stack_state_scheme run" where
  "grace_period elapsed d st = do {
     co \<leftarrow> get_connection d st;
     if inactivity_watchdog_timer co > 0 then
       if ucast elapsed \<ge> inactivity_watchdog_timer co then
         (if connection_close_function co \<noteq> None then call_close_function d st else Some st)
       else update_connection d (\<lambda>co. Some (co\<lparr>inactivity_watchdog_timer := inactivity_watchdog_timer co - ucast elapsed\<rparr>)) st
     else Some st }"

definition check_watchdog :: "os_env \<Rightarrow> MilliSeconds \<Rightarrow> nat \<Rightarrow> 'e stack_state_scheme \<Rightarrow> 'e stack_state_scheme run" where
  "check_watchdog os elapsed d st = do {
     co \<leftarrow> get_connection d st;
     if consuming_instance co \<noteq> None \<or>
       ConnectionObjectGetTransportClassTriggerDirection co = kConnectionObjectTransportClassTriggerDirectionServer
     then
       if ucast elapsed \<ge> inactivity_watchdog_timer co then do {
         st \<leftarrow> count_up connection_timeouts st;
         c_assert (connection_timeout_function co \<noteq> None);
         call_timeout_function (os_getpeername os) d st }
       else update_connection d (\<lambda>co. Some (co\<lparr>inactivity_watchdog_timer := inactivity_watchdog_timer co - ucast elapsed,
         last_package_watchdog_timer := last_package_watchdog_timer co - ucast elapsed\<rparr>)) st
     else Some st }"

text \<open>The timer after a transmission.\<close>

definition reload_trigger_timer :: "MilliSeconds \<Rightarrow> CipConnectionObject \<Rightarrow> CipConnectionObject" where
  "reload_trigger_timer elapsed co = (
     let t = transmission_trigger_timer co + ucast (ConnectionObjectGetRequestedPacketInterval co);
         co = co\<lparr>transmission_trigger_timer := (if t > ucast elapsed then t - ucast elapsed else 0)\<rparr>
     in if ConnectionObjectGetTransportClassTriggerProductionTrigger co \<noteq>
          kConnectionObjectTransportClassTriggerProductionTriggerCyclic
        then ConnectionObjectResetProductionInhibitTimer co else co)"

definition produce :: "os_env \<Rightarrow> MilliSeconds \<Rightarrow> nat \<Rightarrow> 'e stack_state_scheme \<Rightarrow> 'e stack_state_scheme run" where
  "produce os elapsed d st = do {
     co \<leftarrow> get_connection d st;
     if ConnectionObjectGetState co = kConnectionObjectStateEstablished \<and> ConnectionObjectGetExpectedPacketRate co \<noteq> 0 \<and>
       socket_producing co \<noteq> kEipInvalidSocket
     then do {
       st \<leftarrow> update_connection d (\<lambda>co. Some (
         if ConnectionObjectGetTransportClassTriggerProductionTrigger co \<noteq>
              kConnectionObjectTransportClassTriggerProductionTriggerCyclic \<and>
            \<not> ucast elapsed \<le> production_inhibit_timer co
         then co\<lparr>production_inhibit_timer := production_inhibit_timer co - ucast elapsed\<rparr> else co)) st;
       if transmission_trigger_timer co \<le> ucast elapsed then do {
         (_, st) \<leftarrow> call_send_function os d st;
         update_connection d (\<lambda>co. Some (reload_trigger_timer elapsed co)) st }
       else update_connection d (\<lambda>co. Some (co\<lparr>transmission_trigger_timer := transmission_trigger_timer co - ucast elapsed\<rparr>)) st }
     else Some st }"

text \<open>
  One pass over the list. The successor of a node whose connection has timed out was read before
  the close function runs, the successor of any other node is read afterwards.
\<close>

definition manage_node :: "os_env \<Rightarrow> MilliSeconds \<Rightarrow> nat \<Rightarrow> 'e stack_state_scheme \<Rightarrow> (nat option \<times> 'e stack_state_scheme) run" where
  "manage_node os elapsed i st = do {
     n \<leftarrow> array_get (nodes (connection_list st)) i;
     d \<leftarrow> node_data n;
     co \<leftarrow> get_connection d st;
     if ConnectionObjectGetState co = kConnectionObjectStateTimedOut then do {
       st \<leftarrow> grace_period elapsed d st;
       Some (next_node n, st) }
     else do {
       st \<leftarrow> (if ConnectionObjectGetState co = kConnectionObjectStateEstablished then do {
           st \<leftarrow> check_watchdog os elapsed d st;
           produce os elapsed d st }
         else Some st);
       n \<leftarrow> array_get (nodes (connection_list st)) i;
       Some (next_node n, st) } }"

partial_function (option) manage_from :: "os_env \<Rightarrow> MilliSeconds \<Rightarrow> nat option \<Rightarrow> 'e stack_state_scheme \<Rightarrow> 'e stack_state_scheme option" where
  "manage_from os elapsed node st = (case node of
       None \<Rightarrow> Some st
     | Some i \<Rightarrow> do {
         (node, st) \<leftarrow> manage_node os elapsed i st;
         manage_from os elapsed node st })"

subsection \<open>The class\<close>

abbreviation (input) kCipConnectionManagerClassCode :: CipUdint where "kCipConnectionManagerClassCode \<equiv> 6"
abbreviation (input) kCipMessageRouterClassCode :: CipUdint where "kCipMessageRouterClassCode \<equiv> 2"
abbreviation (input) EncConnectionEntryList :: encode_function where "EncConnectionEntryList \<equiv> EncOther 101"

abbreviation (input) SvcForwardOpen :: service_function where "SvcForwardOpen \<equiv> SvcOther 100"
abbreviation (input) SvcLargeForwardOpen :: service_function where "SvcLargeForwardOpen \<equiv> SvcOther 101"
abbreviation (input) SvcForwardClose :: service_function where "SvcForwardClose \<equiv> SvcOther 102"
abbreviation (input) SvcGetConnectionOwner :: service_function where "SvcGetConnectionOwner \<equiv> SvcOther 103"
abbreviation (input) SvcGetConnectionData :: service_function where "SvcGetConnectionData \<equiv> SvcOther 104"
abbreviation (input) SvcSearchConnectionData :: service_function where "SvcSearchConnectionData \<equiv> SvcOther 105"

definition InitializeConnectionManager :: "CipClassObject \<Rightarrow> CipClassObject run" where
  "InitializeConnectionManager ob = do {
     let cc = class_code (cip_class ob);
     ob \<leftarrow> class_attribute 1 (DRevision cc) kGetableSingleAndAll ob;
     ob \<leftarrow> class_attribute 2 (DNumberOfInstances cc) kGetableSingleAndAll ob;
     ob \<leftarrow> class_attribute 3 (DNumberOfInstances cc) kGetableSingle ob;
     ob \<leftarrow> class_attribute 4 DUintZero kNotSetOrGetable ob;
     ob \<leftarrow> class_attribute 5 DUintZero kNotSetOrGetable ob;
     ob \<leftarrow> class_attribute 6 (DMetaHighestAttribute cc) kGetableSingleAndAll ob;
     ob \<leftarrow> class_attribute 7 (DHighestAttribute cc) kGetableSingleAndAll ob;
     c_assert (find_instance 1 (instances ob) \<noteq> None);
     ob \<leftarrow> insert_cells 1
       [(1, kCipUint, EncCipUint, s_statistic 1), (2, kCipUint, EncCipUint, s_statistic 2),
        (3, kCipUint, EncCipUint, s_statistic 3), (4, kCipUint, EncCipUint, s_statistic 4),
        (5, kCipUint, EncCipUint, s_statistic 5), (6, kCipUint, EncCipUint, s_statistic 6),
        (7, kCipUint, EncCipUint, s_statistic 7), (8, kCipUint, EncCipUint, s_statistic 8),
        (9, kCipAny, EncConnectionEntryList, s_statistic 9), (11, kCipUint, EncCipUint, s_statistic 11),
        (12, kCipUint, EncCipUint, s_statistic 12), (13, kCipUint, EncCipUint, s_statistic 13)] ob;
     ob \<leftarrow> on_meta_class (InsertService kGetAttributeAll SvcGetAttributeAll) ob;
     on_meta_class (InsertService kGetAttributeSingle SvcGetAttributeSingle) ob }"

definition ConnectionManagerInit :: "CipUint \<Rightarrow> 'e stack_state_scheme \<Rightarrow> (EipStatus \<times> 'e stack_state_scheme) run" where
  "ConnectionManagerInit unique_connection_id st = do {
     let st = InitializeConnectionManagerData st;
     st \<leftarrow> CreateCipClass kCipConnectionManagerClassCode 0 7 2 13 14 8 1 1 (Some InitializeConnectionManager) st;
     st \<leftarrow> update_class kCipConnectionManagerClassCode (insert_services
       [(kGetAttributeSingle, SvcGetAttributeSingle), (kGetAttributeAll, SvcGetAttributeAll),
        (kForwardOpen, SvcForwardOpen), (kLargeForwardOpen, SvcLargeForwardOpen), (kForwardClose, SvcForwardClose),
        (kGetConnectionOwner, SvcGetConnectionOwner), (kGetConnectionData, SvcGetConnectionData),
        (kSearchConnectionData, SvcSearchConnectionData)]) st;
     let st = st\<lparr>g_incarnation_id := push_bit 16 (ucast unique_connection_id)\<rparr>;
     let (_, st) = AddConnectableObject kCipMessageRouterClassCode EstablishClass3ConnectionFn st;
     let (_, st) = AddConnectableObject kCipAssemblyClassCode EstablishIoConnectionFn st;
     Some (kEipStatusOk, st) }"

end
