(* ===== verification/ForwardOpen.thy ===== *)
theory ForwardOpen
  imports ConnectionManager
begin

text \<open>
  Correctness of Forward Open and Forward Close for explicit connections: the invariant of the
  connection manager, the path to the message router, the replies, and the theorems that opening
  establishes a connection, closing removes it, and the two cancel out.
\<close>


subsection \<open>The path to the message router\<close>

definition router_path :: "CipOctet list" where
  "router_path = [2, 0x20, 2, 0x24, 1]"

definition router_ready :: "'e cip_state_scheme \<Rightarrow> bool" where
  "router_ready st \<longleftrightarrow> (\<exists>ob. GetCipClass kCipMessageRouterClassCode st = Some ob \<and> GetCipInstance ob 1 \<noteq> None)"

lemma router_ready_cong: "g_first_object st' = g_first_object st \<Longrightarrow> router_ready st' = router_ready st"
  by (simp add: router_ready_def GetCipClass_def GetRegisteredObject_def)

definition routed :: "CipConnectionObject \<Rightarrow> CipConnectionObject" where
  "routed co = co\<lparr>production_inhibit_time := 256, configuration_path := epath_of 2 1, produced_path := epath_of 2 1\<rparr>"

lemma router_segments:
  "is_logical [kLogicalSegmentLogicalTypeSpecial] (0x20 # r) = Some False"
  "is_logical [kLogicalSegmentLogicalTypeClassId] (0x20 # r) = Some True"
  "is_logical [kLogicalSegmentLogicalTypeInstanceId] (0x24 # r) = Some True"
  "GetPathSegmentType (0x20 # r) = Some kSegmentTypeLogicalSegment"
  "CipEpathGetLogicalValue (0x20 # 2 # r) = Some (2, r)"
  "CipEpathGetLogicalValue (0x24 # 1 # r) = Some (1, r)"
  by (simp_all add: is_logical_def GetPathSegmentType_def GetPathLogicalSegmentLogicalType_def CipEpathGetLogicalValue_def
      octet0_def assert_segment_def c_assert_def
      GetPathLogicalSegmentLogicalFormat_def readers_agree usint_read)

lemma parse_router_path:
  assumes "router_ready st" and "class3 (g_dummy_connection_object st)"
  shows "parse_path 2 (0x20 # 2 # 0x24 # 1 # r) st =
    Some (Parsed r, on_dummy (\<lambda>co. co\<lparr>configuration_path := epath_of 2 1, produced_path := epath_of 2 1\<rparr>) st)"
proof -
  obtain ob where ob: "GetCipClass kCipMessageRouterClassCode st = Some ob" "GetCipInstance ob 1 \<noteq> None"
    using assms(1) by (auto simp: router_ready_def)
  have key: "parse_key (0x20 # 2 # 0x24 # 1 # r, 2) st = Some (Parsed (0x20 # 2 # 0x24 # 1 # r, 2), st)"
    by (simp add: parse_key_def router_segments)
  have pit: "parse_inhibit_time (0x20 # 2 # 0x24 # 1 # r, 2) st = Some (Parsed (0x20 # 2 # 0x24 # 1 # r, 2), st)"
    by (simp add: parse_inhibit_time_def router_segments)
  have cls: "parse_class (0x20 # 2 # 0x24 # 1 # r, 2) st = Some (Parsed (2, ob, 0x24 # 1 # r, 1), st)"
    using ob(1) by (simp add: parse_class_def router_segments)
  have inst: "parse_instance ob (0x24 # 1 # r, 1) st = Some (Parsed (1, r, 0), st)"
    using ob(2) by (simp add: parse_instance_def router_segments instance_words_def)
  show ?thesis
    using assms(2) by (simp add: parse_path_def then_parse_def key pit cls inst parse_class3_def)
qed

lemma ParseConnectionPath_router:
  assumes "router_ready st" and "class3 (g_dummy_connection_object st)" and "req_data req = router_path @ r"
    and "request_data_size req = (if is_large_forward_open (g_dummy_connection_object st) then 44 else 40)"
  shows "ParseConnectionPath req st = Some (kCipErrorSuccess, 0, req\<lparr>req_data := r\<rparr>, on_dummy routed st)"
proof -
  let ?st = "on_dummy (ConnectionObjectSetProductionInhibitTime 256) st"
  have c3: "class3 (g_dummy_connection_object ?st)"
    using assms(2) by (simp add: class3_def on_dummy_def ConnectionObjectSetProductionInhibitTime_def
        ConnectionObjectGetTransportClassTriggerTransportClass_def)
  have "router_ready ?st" using assms(1) router_ready_cong [of ?st st] by (simp add: on_dummy_def)
  from parse_router_path [OF this c3, of r] show ?thesis
    using assms(3,4) by (simp add: ParseConnectionPath_def router_path_def usint_read on_dummy_def
        ConnectionObjectSetProductionInhibitTime_def routed_def)
qed


subsection \<open>The invariant of the connection manager\<close>

text \<open>
  The sequence of active connections has no repetitions and refers to connection objects; an explicit
  connection object is listed exactly when it is in use, and then it is of class 3 and carries the
  functions of an explicit connection.
\<close>

definition explicit_object :: "CipConnectionObject \<Rightarrow> bool" where
  "explicit_object co \<longleftrightarrow> class3 co \<and> connection_close_function co = Some CloseConnectionFn \<and>
     connection_timeout_function co = Some Class3ConnectionTimeoutHandlerFn"

definition in_use :: "CipConnectionObject \<Rightarrow> bool" where
  "in_use co \<longleftrightarrow> ConnectionObjectGetState co \<noteq> kConnectionObjectStateNonExistent"

definition manager_ok :: "'e stack_state_scheme \<Rightarrow> nat list \<Rightarrow> bool" where
  "manager_ok st ds \<longleftrightarrow> active_list st ds \<and> distinct ds \<and> (\<forall>d \<in> set ds. d < length (connections st)) \<and>
     length (connections st) = 13 \<and>
     (\<forall>d < 6. d \<in> set ds \<longleftrightarrow> in_use (connections st ! d)) \<and>
     (\<forall>d < 6. d \<in> set ds \<longrightarrow> explicit_object (connections st ! d))"

lemma active_list_cong: "connection_list st' = connection_list st \<Longrightarrow> active_list st' ds = active_list st ds"
  by (simp add: active_list_def)

lemma manager_ok_cong:
  "connection_list st' = connection_list st \<Longrightarrow> connections st' = connections st \<Longrightarrow> manager_ok st' ds = manager_ok st ds"
  by (simp add: manager_ok_def active_list_cong [of st' st])

lemma manager_ok_insert:
  assumes "manager_ok st ds" and "d < 6" and "\<not> in_use (connections st ! d)"
    and "active_list st' (d # ds)" and "connections st' = (connections st)[d := co]" and "in_use co" and "explicit_object co"
  shows "manager_ok st' (d # ds)"
  using assms by (auto simp: manager_ok_def nth_list_update)

lemma manager_ok_remove:
  assumes "manager_ok st ds" and "active_list st' (remove1 d ds)" and "connections st' = (connections st)[d := co]"
    and "\<not> in_use co"
  shows "manager_ok st' (remove1 d ds)"
  using assms by (cases "d < 13") (auto simp: manager_ok_def nth_list_update)

lemma free_slot:
  assumes "GetFreeExplicitConnection st = Some d" and "length (connections st) = 13"
  shows "d < 6 \<and> \<not> in_use (connections st ! d)"
  using first_index_SomeD [OF assms(1) [unfolded GetFreeExplicitConnection_def]] assms(2) by (auto simp: in_use_def)

subsection \<open>Connection numbers\<close>

definition used_numbers :: "nat list \<Rightarrow> 'e stack_state_scheme \<Rightarrow> CipUint set" where
  "used_numbers ds st = (\<lambda>d. connection_number (connections st ! d)) ` set ds"

lemma random_number_obtained:
  assumes "active_list st ds" and "\<forall>d \<in> set ds. d < length (connections st)"
    and "\<exists>m \<ge> k. rnd m \<notin> used_numbers ds st"
  obtains m where "GenerateRandomConnectionNumber rnd (connections st) (connection_list st) k = Some (rnd m, Suc m)"
    "k \<le> m" "rnd m \<notin> used_numbers ds st"
proof -
  obtain "is" where wf: "dll_wf (connection_list st) is" and ds: "ds = map (node_content (connection_list st)) is"
    using assms(1) by (auto simp: active_list_def dll_data_content)
  have nums: "numbers_of (connections st) (connection_list st) is = used_numbers ds st"
    by (simp add: numbers_of_def used_numbers_def ds image_image)
  have refer: "nodes_refer (connections st) (connection_list st) is"
    using assms(2) by (simp add: nodes_refer_def ds)
  define m where "m = (LEAST m. m \<ge> k \<and> rnd m \<notin> used_numbers ds st)"
  have m: "m \<ge> k \<and> rnd m \<notin> used_numbers ds st" unfolding m_def by (rule LeastI_ex) (use assms(3) in blast)
  have "\<forall>j. k \<le> j \<and> j < m \<longrightarrow> rnd j \<in> numbers_of (connections st) (connection_list st) is"
    unfolding nums m_def using not_less_Least by blast
  with m that random_first_fresh [OF wf refer, of k m rnd] show ?thesis by (auto simp: nums)
qed

subsection \<open>Establishing an explicit connection\<close>

definition point_to_point :: "CipConnectionObject \<Rightarrow> bool" where
  "point_to_point co \<longleftrightarrow> ConnectionObjectGetOToTConnectionType co = kConnectionObjectConnectionTypePointToPoint \<and>
     ConnectionObjectGetTToOConnectionType co = kConnectionObjectConnectionTypePointToPoint"

lemma routed_point_to_point: "point_to_point co \<Longrightarrow> point_to_point (routed co)"
  by (simp add: point_to_point_def routed_def ConnectionObjectGetOToTConnectionType_def ConnectionObjectGetTToOConnectionType_def)

text \<open>The object of the new connection, from the dummy object and its identifier.\<close>

definition established :: "CipUdint \<Rightarrow> CipConnectionObject \<Rightarrow> CipConnectionObject" where
  "established cid co = (ConnectionObjectSetInstanceType kConnectionObjectInstanceTypeExplicitMessaging
     (fst (ConnectionObjectGeneralConfiguration (\<lambda>_. cid) co)))
     \<lparr>connection_close_function := Some CloseConnectionFn, connection_timeout_function := Some Class3ConnectionTimeoutHandlerFn,
      conn_state := 3\<rparr>"

lemma established_simps [simp]:
  assumes "point_to_point co"
  shows "cip_consumed_connection_id (established cid co) = cid"
    "cip_produced_connection_id (established cid co) = cip_produced_connection_id co"
    "connection_serial_number (established cid co) = connection_serial_number co"
    "originator_vendor_id (established cid co) = originator_vendor_id co"
    "originator_serial_number (established cid co) = originator_serial_number co"
    "o_to_t_requested_packet_interval (established cid co) = o_to_t_requested_packet_interval co"
    "t_to_o_requested_packet_interval (established cid co) = t_to_o_requested_packet_interval co"
    "is_large_forward_open (established cid co) = is_large_forward_open co"
    "transport_class_trigger (established cid co) = transport_class_trigger co"
    "originator_address (established cid co) = originator_address co"
    "connection_number (established cid co) = connection_number co"
    "associated_encapsulation_session (established cid co) = associated_encapsulation_session co"
    "inactivity_watchdog_timer (established cid co) = inactivity_watchdog_timer co"
    "ConnectionObjectGetState (established cid co) = kConnectionObjectStateEstablished"
  using assms
  by (simp_all add: established_def ConnectionObjectGeneralConfiguration_def Let_def point_to_point_def
      ConnectionObjectSetInstanceType_def ConnectionObjectSetCipConsumedConnectionID_def ConnectionObjectResetSequenceCounts_def
      ConnectionObjectSetWatchdogTimeoutAction_def ConnectionObjectResetProductionInhibitTimer_def
      ConnectionObjectGetOToTConnectionType_def ConnectionObjectGetTToOConnectionType_def ConnectionObjectGetState_def)


lemma established_functions [simp]:
  "connection_close_function (established cid co) = Some CloseConnectionFn"
  "connection_timeout_function (established cid co) = Some Class3ConnectionTimeoutHandlerFn"
  by (simp_all add: established_def)

lemma class3_cong: "transport_class_trigger co' = transport_class_trigger co \<Longrightarrow> class3 co' = class3 co"
  by (simp add: class3_def ConnectionObjectGetTransportClassTriggerTransportClass_def)

lemma configured_once:
  "point_to_point co \<Longrightarrow> ConnectionObjectGeneralConfiguration ids co = (fst (ConnectionObjectGeneralConfiguration (\<lambda>_. ids 0) co), 1)"
  by (simp add: point_to_point_def ConnectionObjectGeneralConfiguration_def Let_def ConnectionObjectGetOToTConnectionType_def
      ConnectionObjectGetTToOConnectionType_def ConnectionObjectSetCipConsumedConnectionID_def)

lemma EstablishClass3_free:
  fixes st :: "'e stack_state_scheme"
  assumes "active_list st ds" and "length ds < list_room st" and "length (connections st) = 13"
    and "GetFreeExplicitConnection st = Some d" and "point_to_point (g_dummy_connection_object st)"
  shows "\<exists>l. EstablishClass3Connection st = Some (kCipErrorSuccess, 0, st\<lparr>connection_id := connection_id st + 1, connection_list := l,
      connections := (connections st)[d := established (next_ids st 0) (g_dummy_connection_object st)]\<rparr>) \<and>
    length (nodes l) = list_room st \<and>
    (\<forall>st' :: 'f stack_state_scheme. connection_list st' = l \<longrightarrow> active_list st' (d # ds))"
proof -
  have d: "d < length (connections st)" using free_slot [OF assms(4,3)] assms(3) by simp
  obtain l where l: "DoublyLinkedListInsertAtHead d (connection_list st) = Some l" "length (nodes l) = list_room st"
      "\<forall>st' :: 'f stack_state_scheme. connection_list st' = l \<longrightarrow> active_list st' (d # ds)"
    using insert_active [OF assms(1,2), of d] by blast
  let ?co = "g_dummy_connection_object st"
  have gc: "ConnectionObjectGeneralConfiguration (next_ids (st\<lparr>connections := c\<rparr>)) ?co =
      (fst (ConnectionObjectGeneralConfiguration (\<lambda>_. next_ids st 0) ?co), 1)" for c
    by (subst configured_once [OF assms(5)]) (simp add: next_ids_def)
  show ?thesis
    using d l assms(4) gc
    by (intro exI [of _ l])
      (simp add: EstablishClass3Connection_def update_connection_def general_configuration_def ConnectionObjectDeepCopy_def
        AddNewActiveConnection_def established_def)
qed


lemma active_list_head:
  assumes "active_list st (d # ds)"
  shows "\<exists>i. list_head st = Some i \<and> node_object i st = Some d"
proof -
  obtain i "is" where "dll_wf (connection_list st) (i # is)" "node_content (connection_list st) i = d"
    using assms by (auto simp: active_list_def dll_data_content)
  then show ?thesis by (auto simp: dll_wf_def list_head_def node_object_def node_content_def)
qed

subsection \<open>Replies\<close>

lemma on_message_fuse:
  "(on_message (emit xs) r \<bind> on_message (emit ys)) = on_message (emit (xs @ ys)) r"
  "(on_message (emit xs) r \<bind> (\<lambda>r. on_message (emit ys) r \<bind> f)) = on_message (emit (xs @ ys)) r \<bind> f"
  by (auto simp: on_message_def emit_append split: bind_splits)

definition open_reply :: "CipConnectionObject \<Rightarrow> CipOctet list" where
  "open_reply co = dint_bytes (cip_consumed_connection_id co) @ dint_bytes (cip_produced_connection_id co) @
     int_bytes (connection_serial_number co) @ int_bytes (originator_vendor_id co) @ dint_bytes (originator_serial_number co) @
     dint_bytes (o_to_t_requested_packet_interval co) @ dint_bytes (t_to_o_requested_packet_interval co) @ [0, 0]"


definition info_items_ready :: "'e stack_state_scheme \<Rightarrow> bool" where
  "info_items_ready st \<longleftrightarrow> length (address_info_item (g_common_packet_format_data_item st)) = 2"

lemma unconnected_reply_defined:
  "\<exists>p. unconnected_reply st = Some (st\<lparr>g_common_packet_format_data_item := p\<rparr>) \<and>
     address_info_item p = address_info_item (g_common_packet_format_data_item st)"
  by (simp add: unconnected_reply_def AddNullAddressItem_def c_assert_def) (rule exI, rule conjI, rule refl, simp)

lemma count_info_items_defined:
  "info_items_ready st \<Longrightarrow> \<exists>p. count_info_items st = Some (st\<lparr>g_common_packet_format_data_item := p\<rparr>)"
  by (auto simp: count_info_items_def info_items_ready_def info_item_def on_packet_def intro: exI [of _ "g_common_packet_format_data_item st"])

lemma AssembleForwardOpenResponse_success:
  assumes "d < length (connections st)" and "holds_octets (message resp) []" and "info_items_ready st"
  shows "\<exists>p m. AssembleForwardOpenResponse (Some d) kCipErrorSuccess 0 resp st =
      Some (kEipStatusOkSend, resp\<lparr>reply_service := reply_code (if is_large_forward_open (connections st ! d) then kLargeForwardOpen else kForwardOpen),
        general_status := kCipErrorSuccess, size_of_additional_status := 0, message := m\<rparr>,
        st\<lparr>g_common_packet_format_data_item := p\<rparr>) \<and>
    sent_octets m = open_reply (connections st ! d)"
proof -
  let ?co = "connections st ! d"
  let ?r = "resp\<lparr>reply_service := reply_code (if is_large_forward_open ?co then kLargeForwardOpen else kForwardOpen),
    general_status := kCipErrorSuccess, size_of_additional_status := 0\<rparr>"
  obtain p where p: "unconnected_reply st = Some (st\<lparr>g_common_packet_format_data_item := p\<rparr>)"
      "address_info_item p = address_info_item (g_common_packet_format_data_item st)"
    using unconnected_reply_defined [of st] by blast
  have "info_items_ready (st\<lparr>g_common_packet_format_data_item := p\<rparr>)" using assms(3) p(2) by (simp add: info_items_ready_def)
  from count_info_items_defined [OF this] obtain q where
    q: "count_info_items (st\<lparr>g_common_packet_format_data_item := p\<rparr>) = Some (st\<lparr>g_common_packet_format_data_item := q\<rparr>)"
    by auto
  have "length (open_reply ?co) = 26" by (simp add: open_reply_def)
  then obtain m where m: "on_message (emit (open_reply ?co)) ?r = Some (?r\<lparr>message := m\<rparr>)" "holds_octets m (open_reply ?co)"
    using on_message_holds [of ?r "[]" "open_reply ?co"] assms(2) by auto
  then have "AssembleForwardOpenResponse (Some d) kCipErrorSuccess 0 resp st =
      Some (kEipStatusOkSend, ?r\<lparr>message := m\<rparr>, st\<lparr>g_common_packet_format_data_item := q\<rparr>)"
    using assms(1) by (simp add: AssembleForwardOpenResponse_def p(1) q reply_object_def wire_simps on_message_fuse
        open_reply_def sint_bytes_def)
  with sent_octets_holds [OF m(2)] show ?thesis by auto
qed


subsection \<open>Opening an explicit connection\<close>

text \<open>A request for an explicit connection: class 3, a valid trigger, point to point in both directions.\<close>

definition explicit_request :: "bool \<Rightarrow> forward_open \<Rightarrow> bool" where
  "explicit_request is_lfo fo \<longleftrightarrow> fo_wf is_lfo fo \<and>
     ConnectionObjectGetConnectionType (fo_o_to_t_params fo) is_lfo = kConnectionObjectConnectionTypePointToPoint \<and>
     ConnectionObjectGetConnectionType (fo_t_to_o_params fo) is_lfo = kConnectionObjectConnectionTypePointToPoint \<and>
     class3 (zero_connection\<lparr>transport_class_trigger := fo_transport fo\<rparr>) \<and>
     ConnectionObjectGetTransportClassTriggerProductionTrigger (zero_connection\<lparr>transport_class_trigger := fo_transport fo\<rparr>) \<noteq>
       kConnectionObjectTransportClassTriggerProductionTriggerInvalid"

definition router_open :: "'e stack_state_scheme \<Rightarrow> bool" where
  "router_open st \<longleftrightarrow> (\<exists>e. GetConnectionManagementEntry kCipMessageRouterClassCode st = Some e \<and>
     open_connection_function e = Some EstablishClass3ConnectionFn)"

definition counter :: "nat \<Rightarrow> CipUint \<Rightarrow> 'e cip_state_scheme \<Rightarrow> bool" where
  "counter n c st \<longleftrightarrow> data_store st (s_statistic n) = Some (V16 c)"

lemma count_up_counter:
  "counter n c st \<Longrightarrow> count_up n st = Some (st\<lparr>data_store := (data_store st)(s_statistic n \<mapsto> V16 (c + 1))\<rparr>)"
  by (simp add: counter_def count_up_def cell16_def set_cell_def)

lemma HandleNonNullNonMatching_class3:
  fixes st :: "'e stack_state_scheme"
  assumes st: "manager_ok st ds" "length ds < list_room st" "router_ready st" "router_open st" "counter 1 c st" "info_items_ready st"
      "GetFreeExplicitConnection st = Some d"
    and co: "co = g_dummy_connection_object st" "class3 co" "point_to_point co"
      "ConnectionObjectGetTransportClassTriggerProductionTrigger co \<noteq> kConnectionObjectTransportClassTriggerProductionTriggerInvalid"
    and req: "req_data req = router_path" "request_data_size req = (if is_large_forward_open co then 44 else 40)"
    and resp: "holds_octets (message resp) []"
  shows "\<exists>l p m. HandleNonNullNonMatchingForwardOpenRequest os req resp st = Some (kEipStatusOkSend, req\<lparr>req_data := []\<rparr>,
      resp\<lparr>reply_service := reply_code (if is_large_forward_open co then kLargeForwardOpen else kForwardOpen),
        general_status := kCipErrorSuccess, size_of_additional_status := 0, message := m\<rparr>,
      st\<lparr>g_dummy_connection_object := routed co, connection_id := connection_id st + 1, connection_list := l,
        connections := (connections st)[d := established (next_ids st 0) (routed co)],
        data_store := (data_store st)(s_statistic 1 \<mapsto> V16 (c + 1)), g_common_packet_format_data_item := p\<rparr>) \<and>
    sent_octets m = open_reply (established (next_ids st 0) (routed co)) \<and> length (nodes l) = list_room st \<and>
    (\<forall>st' :: 'e stack_state_scheme. connection_list st' = l \<longrightarrow> active_list st' (d # ds))"
proof -
  let ?st = "on_dummy routed st"
  let ?new = "established (next_ids st 0) (routed co)"
  have len: "length (connections st) = 13" using st(1) by (simp add: manager_ok_def)
  have d: "d < length (connections st)" using free_slot [OF st(7) len] len by simp
  have path: "ParseConnectionPath req st = Some (kCipErrorSuccess, 0, req\<lparr>req_data := []\<rparr>, ?st)"
    using ParseConnectionPath_router [of st req "[]"] st(3) co(1,2) req by simp
  have p2p: "point_to_point (routed co)" by (rule routed_point_to_point [OF co(3)])
  have "GetFreeExplicitConnection ?st = Some d" "active_list ?st ds" "list_room ?st = list_room st" "length (connections ?st) = 13"
      "g_dummy_connection_object ?st = routed co" "next_ids ?st 0 = next_ids st 0"
    using st(1,7) co(1) by (simp_all add: GetFreeExplicitConnection_def on_dummy_def manager_ok_def active_list_def list_room_def next_ids_def)
  with EstablishClass3_free [of ?st ds d] st(2) p2p obtain l where
    l: "EstablishClass3Connection ?st = Some (kCipErrorSuccess, 0, ?st\<lparr>connection_id := connection_id st + 1, connection_list := l,
        connections := (connections st)[d := ?new]\<rparr>)" "length (nodes l) = list_room st"
      "\<forall>st' :: 'e stack_state_scheme. connection_list st' = l \<longrightarrow> active_list st' (d # ds)"
    by (auto simp: on_dummy_def)
  let ?st2 = "?st\<lparr>connection_id := connection_id st + 1, connection_list := l, connections := (connections st)[d := ?new]\<rparr>"
  let ?st3 = "?st2\<lparr>data_store := (data_store st)(s_statistic 1 \<mapsto> V16 (c + 1))\<rparr>"
  have opened: "open_connection os ?st = Some (kCipErrorSuccess, 0, ?st2)"
    using st(4) l(1) by (auto simp: open_connection_def router_open_def GetConnectionManagementEntry_def on_dummy_def routed_def epath_of_def)
  have count: "count_up 1 ?st2 = Some ?st3"
    using st(5) by (subst count_up_counter [of 1 c]) (simp_all add: counter_def on_dummy_def)
  obtain i where i: "list_head ?st3 = Some i" "node_object i ?st3 = Some d"
    using l(3) active_list_head [of ?st3 d ds] by auto
  obtain p m where "AssembleForwardOpenResponse (Some d) kCipErrorSuccess 0 resp ?st3 = Some (kEipStatusOkSend,
      resp\<lparr>reply_service := reply_code (if is_large_forward_open co then kLargeForwardOpen else kForwardOpen),
        general_status := kCipErrorSuccess, size_of_additional_status := 0, message := m\<rparr>,
      ?st3\<lparr>g_common_packet_format_data_item := p\<rparr>)" "sent_octets m = open_reply ?new"
    using AssembleForwardOpenResponse_success [of d ?st3 resp] resp st(6) d p2p by (auto simp: info_items_ready_def on_dummy_def routed_def)
  then show ?thesis
    using co path opened count i l(2,3)
    by (intro exI [of _ l] exI [of _ p] exI [of _ m])
      (simp add: HandleNonNullNonMatchingForwardOpenRequest_def on_dummy_def)
qed


lemma forward_open_length: "fo_wf is_lfo fo \<Longrightarrow> length (forward_open_bytes is_lfo fo) = (if is_lfo then 39 else 35)"
  by (simp add: forward_open_bytes_def params_bytes_def fo_wf_def)

text \<open>The dummy object after the fixed part of the request was read.\<close>

definition requested :: "bool \<Rightarrow> CipUint \<Rightarrow> forward_open \<Rightarrow> CipUlint \<Rightarrow> CipSessionHandle \<Rightarrow> 'e stack_state_scheme \<Rightarrow> CipConnectionObject" where
  "requested is_lfo n fo w session st = (announced n fo w ((g_dummy_connection_object st)\<lparr>is_large_forward_open := is_lfo\<rparr>))
     \<lparr>associated_encapsulation_session := session, originator_address := originator_sockaddr st\<rparr>"

lemma requested_explicit:
  assumes "explicit_request is_lfo fo" and "co = requested is_lfo n fo w session st"
  shows "class3 co" "point_to_point co" "is_large_forward_open co = is_lfo"
    "ConnectionObjectGetTransportClassTriggerProductionTrigger co \<noteq> kConnectionObjectTransportClassTriggerProductionTriggerInvalid"
  using assms by (simp_all add: explicit_request_def requested_def class3_def point_to_point_def
      ConnectionObjectGetTransportClassTriggerTransportClass_def ConnectionObjectGetTransportClassTriggerProductionTrigger_def
      ConnectionObjectGetOToTConnectionType_def ConnectionObjectGetTToOConnectionType_def)

abbreviation (input) open_service :: "bool \<Rightarrow> os_env \<Rightarrow> CipSessionHandle \<Rightarrow> CipMessageRouterRequest \<Rightarrow> CipMessageRouterResponse \<Rightarrow>
    'e stack_state_scheme \<Rightarrow> (EipStatus \<times> CipMessageRouterRequest \<times> CipMessageRouterResponse \<times> 'e stack_state_scheme) run" where
  "open_service is_lfo \<equiv> (if is_lfo then LargeForwardOpen else ForwardOpen)"

lemma ForwardOpenRoutine_explicit:
  fixes st :: "'e stack_state_scheme"
  assumes st: "active_list st ds" "\<forall>x \<in> set ds. x < length (connections st)"
    and fo: "explicit_request is_lfo fo" and fresh: "\<exists>m \<ge> os_calls st. os_rand os m \<notin> used_numbers ds st"
    and triad: "\<forall>x \<in> set ds. ConnectionObjectGetState (connections st ! x) = kConnectionObjectStateEstablished \<longrightarrow>
      \<not> matches_triad (fo_serial fo) (fo_vendor fo) (fo_originator_serial fo) (connections st ! x)"
    and data: "req_data req = forward_open_bytes is_lfo fo @ r"
  shows "\<exists>m w. os_calls st \<le> m \<and> os_rand os m \<notin> used_numbers ds st \<and> open_service is_lfo os session req resp st =
    HandleNonNullNonMatchingForwardOpenRequest os (req\<lparr>req_data := r\<rparr>) resp
      (st\<lparr>os_calls := Suc m, g_dummy_connection_object := requested is_lfo (os_rand os m) fo w session st\<rparr>)"
proof -
  obtain m where m: "GenerateRandomConnectionNumber (os_rand os) (connections st) (connection_list st) (os_calls st) = Some (os_rand os m, Suc m)"
      "os_calls st \<le> m" "os_rand os m \<notin> used_numbers ds st"
    by (rule random_number_obtained [OF st fresh])
  let ?dummy = "(g_dummy_connection_object st)\<lparr>is_large_forward_open := is_lfo\<rparr>"
  obtain w where w: "ConnectionObjectInitializeFromMessage (os_rand os m) (forward_open_bytes is_lfo fo @ r) ?dummy =
      Some (announced (os_rand os m) fo w ?dummy, r)"
    using forward_open_announced [of ?dummy fo "os_rand os m" r] fo by (auto simp: explicit_request_def)
  let ?co = "requested is_lfo (os_rand os m) fo w session st"
  let ?st = "st\<lparr>os_calls := Suc m, g_dummy_connection_object := ?co\<rparr>"
  have p2p: "point_to_point ?co" using requested_explicit [OF fo refl] by blast
  have "find (\<lambda>x. ConnectionObjectGetState (connections st ! x) = kConnectionObjectStateEstablished \<and>
      EqualConnectionTriad ?co (connections st ! x)) ds = None"
    using triad by (auto simp: find_None_iff EqualConnectionTriad_def matches_triad_def requested_def)
  then have none: "CheckForExistingConnection ?co ?st = Some None"
    using st(1) by (subst CheckForExistingConnection_def, subst find_connection_active [of _ ds]) (simp_all add: active_list_def)
  have "ForwardOpenRoutine os session req resp (on_dummy (\<lambda>co. co\<lparr>is_large_forward_open := is_lfo\<rparr>) st) =
      HandleNonNullNonMatchingForwardOpenRequest os (req\<lparr>req_data := r\<rparr>) resp ?st"
    using p2p none w
    by (simp add: ForwardOpenRoutine_def on_dummy_def m(1) data requested_def routine_refusal_def point_to_point_def)
  then show ?thesis
    using m by (cases is_lfo; intro exI [of _ m] exI [of _ w]) (simp_all add: ForwardOpen_def LargeForwardOpen_def)
qed

text \<open>What a successful request makes of the state: \<open>co\<close> is the object read from it, \<open>l\<close> the new list, \<open>p\<close> the packet of the reply.\<close>

definition opened :: "CipConnectionObject \<Rightarrow> nat \<Rightarrow> nat \<Rightarrow> CipUint \<Rightarrow> DoublyLinkedList \<Rightarrow> CipCommonPacketFormatData \<Rightarrow>
    'e stack_state_scheme \<Rightarrow> 'e stack_state_scheme" where
  "opened co k d c l p st = st\<lparr>os_calls := k, g_dummy_connection_object := routed co, connection_id := connection_id st + 1,
     connection_list := l, connections := (connections st)[d := established (next_ids st 0) (routed co)],
     data_store := (data_store st)(s_statistic 1 \<mapsto> V16 (c + 1)), g_common_packet_format_data_item := p\<rparr>"

lemma explicit_open:
  fixes st :: "'e stack_state_scheme"
  assumes "manager_ok st ds" and "length ds < list_room st" and "router_ready st" and "router_open st"
    and "counter 1 c st" and "info_items_ready st" and "GetFreeExplicitConnection st = Some d"
    and "explicit_request is_lfo fo" and "\<exists>m \<ge> os_calls st. os_rand os m \<notin> used_numbers ds st"
    and "\<forall>x \<in> set ds. ConnectionObjectGetState (connections st ! x) = kConnectionObjectStateEstablished \<longrightarrow>
      \<not> matches_triad (fo_serial fo) (fo_vendor fo) (fo_originator_serial fo) (connections st ! x)"
    and "req_data req = forward_open_bytes is_lfo fo @ router_path"
    and "request_data_size req = of_nat (length (req_data req))" and "holds_octets (message resp) []"
  shows "\<exists>m w l p msg. os_rand os m \<notin> used_numbers ds st \<and>
    open_service is_lfo os session req resp st = Some (kEipStatusOkSend, req\<lparr>req_data := []\<rparr>,
      resp\<lparr>reply_service := reply_code (if is_lfo then kLargeForwardOpen else kForwardOpen),
        general_status := kCipErrorSuccess, size_of_additional_status := 0, message := msg\<rparr>,
      opened (requested is_lfo (os_rand os m) fo w session st) (Suc m) d c l p st) \<and>
    sent_octets msg = open_reply (established (next_ids st 0) (routed (requested is_lfo (os_rand os m) fo w session st))) \<and>
    length (nodes l) = list_room st \<and>
    manager_ok (opened (requested is_lfo (os_rand os m) fo w session st) (Suc m) d c l p st) (d # ds)"
proof -
  from assms(1) have ok: "active_list st ds" "\<forall>x \<in> set ds. x < length (connections st)" unfolding manager_ok_def by blast+
  obtain m w where m: "os_rand os m \<notin> used_numbers ds st" "open_service is_lfo os session req resp st =
    HandleNonNullNonMatchingForwardOpenRequest os (req\<lparr>req_data := router_path\<rparr>) resp
      (st\<lparr>os_calls := Suc m, g_dummy_connection_object := requested is_lfo (os_rand os m) fo w session st\<rparr>)"
    using ForwardOpenRoutine_explicit [OF ok assms(8,9,10,11)] by blast
  let ?co = "requested is_lfo (os_rand os m) fo w session st"
  let ?st = "st\<lparr>os_calls := Suc m, g_dummy_connection_object := ?co\<rparr>"
  let ?new = "established (next_ids st 0) (routed ?co)"
  note co = requested_explicit [OF assms(8) refl]
  have st: "manager_ok ?st ds" "length ds < list_room ?st" "router_ready ?st" "router_open ?st" "counter 1 c ?st" "info_items_ready ?st"
      "GetFreeExplicitConnection ?st = Some d"
    using assms(1-7) manager_ok_cong [of ?st st] router_ready_cong [of ?st st]
    by (simp_all add: list_room_def router_open_def GetConnectionManagementEntry_def counter_def info_items_ready_def
        GetFreeExplicitConnection_def)
  have sz: "request_data_size (req\<lparr>req_data := router_path\<rparr>) = (if is_large_forward_open ?co then 44 else 40)"
    using assms(8,11,12) by (simp add: forward_open_length explicit_request_def router_path_def co(3))
  have data: "?co = g_dummy_connection_object ?st" "req_data (req\<lparr>req_data := router_path\<rparr>) = router_path" by simp_all
  have ids: "next_ids ?st 0 = next_ids st 0" "list_room ?st = list_room st" by (simp_all add: next_ids_def list_room_def)
  obtain l p m' where h: "open_service is_lfo os session req resp st = Some (kEipStatusOkSend, req\<lparr>req_data := []\<rparr>,
      resp\<lparr>reply_service := reply_code (if is_lfo then kLargeForwardOpen else kForwardOpen),
        general_status := kCipErrorSuccess, size_of_additional_status := 0, message := m'\<rparr>,
      ?st\<lparr>g_dummy_connection_object := routed ?co, connection_id := connection_id st + 1, connection_list := l,
        connections := (connections st)[d := ?new],
        data_store := (data_store st)(s_statistic 1 \<mapsto> V16 (c + 1)), g_common_packet_format_data_item := p\<rparr>)"
    "sent_octets m' = open_reply ?new" "length (nodes l) = list_room st"
    "\<forall>st' :: 'e stack_state_scheme. connection_list st' = l \<longrightarrow> active_list st' (d # ds)"
    using HandleNonNullNonMatching_class3 [OF st data(1) co(1,2,4) data(2) sz assms(13), of os] m(2)
    unfolding ids co(3) by auto
  let ?st' = "opened ?co (Suc m) d c l p st"
  have p2p: "point_to_point (routed ?co)" by (rule routed_point_to_point [OF co(2)])
  have new: "in_use ?new" "explicit_object ?new"
    using co(1) p2p class3_cong [of ?new ?co] by (simp_all add: in_use_def explicit_object_def routed_def)
  have "manager_ok ?st' (d # ds)"
    using assms(1,7) h(4) new free_slot [of st d]
    by (intro manager_ok_insert [OF assms(1), where co = ?new]) (auto simp: manager_ok_def opened_def)
  with m(1) h(1-3) show ?thesis
    by (intro exI [of _ m] exI [of _ w] exI [of _ l] exI [of _ p] exI [of _ m']) (simp add: opened_def)
qed





text \<open>A device that has just started: the message router is registered, no connection is open.\<close>

definition started_device :: stack_state where
  "started_device = initial_stack\<lparr>
     g_first_object := [\<lparr>cip_class = zero_class\<lparr>class_code := 2\<rparr>, meta_class = zero_class, class_attributes = [],
       instances = [\<lparr>inst_number = 1, attributes = []\<rparr>]\<rparr>],
     data_store := [s_statistic 1 \<mapsto> V16 0, s_statistic 4 \<mapsto> V16 0, s_statistic 5 \<mapsto> V16 0, s_statistic 6 \<mapsto> V16 0, s_statistic 7 \<mapsto> V16 0],
     g_connection_management_list := [\<lparr>handled_class_id = 2, open_connection_function = Some EstablishClass3ConnectionFn\<rparr>]\<rparr>"

lemma started_device_ok:
  "manager_ok started_device []" "router_ready started_device" "router_open started_device" "counter 1 0 started_device"
  "info_items_ready started_device" "GetFreeExplicitConnection started_device = Some 0" "list_room started_device = 9"
proof -
  have l: "connection_list started_device = empty_list 9" "connections started_device = replicate 13 zero_connection"
    by (simp_all add: started_device_def initial_stack_def stack_state.defs cip_state.defs)
  have "active_list started_device []"
    unfolding active_list_def l(1) by (intro exI [of _ "[]"]) (simp add: empty_list_wf dll_data_def)
  moreover have free: "\<not> in_use zero_connection"
    by (simp add: in_use_def zero_connection_def ConnectionObjectGetState_def)
  ultimately show "manager_ok started_device []" by (simp add: manager_ok_def l(2))
  show "GetFreeExplicitConnection started_device = Some 0"
    using free by (simp add: GetFreeExplicitConnection_def l(2) in_use_def eval_nat_numeral)
  show "router_ready started_device" "router_open started_device" "counter 1 0 started_device"
    "info_items_ready started_device"
    by (simp_all add: started_device_def initial_stack_def stack_state.defs cip_state.defs router_ready_def GetCipClass_def
        GetRegisteredObject_def GetCipInstance_def router_open_def GetConnectionManagementEntry_def counter_def info_items_ready_def
        zero_packet_def s_statistic_def find_instance_def)
  show "list_room started_device = 9" by (simp add: list_room_def l(1) empty_list_def)
qed


definition example_os :: os_env where
  "example_os = \<lparr>os_getpeername = (\<lambda>_. None), os_random = of_nat, os_socket = (\<lambda>_. NoSocket), os_set_qos = (\<lambda>_. True), os_sendto = (\<lambda>_. 0)\<rparr>"

lemma example_explicit: "explicit_request False example_forward_open"
  using example_forward_open_wf
  by (simp add: explicit_request_def example_forward_open_def ConnectionObjectGetConnectionType_def class3_def
      ConnectionObjectGetTransportClassTriggerTransportClass_def ConnectionObjectGetTransportClassTriggerProductionTrigger_def)

definition open_request :: "CipMessageRouterRequest" where
  "open_request = \<lparr>req_service = kForwardOpen, request_path = CipEpath.make 2 6 1 0, request_data_size = 40,
     req_data = forward_open_bytes False example_forward_open @ router_path\<rparr>"

definition empty_response :: CipMessageRouterResponse where
  "empty_response = \<lparr>reply_service = 0, reserved = 0, general_status = 0, size_of_additional_status = 0,
     additional_status = [0, 0], message = InitializeENIPMessage zero_message\<rparr>"



subsection \<open>Closing a connection\<close>

definition close_bytes :: "CipOctet list \<Rightarrow> CipUint \<Rightarrow> CipUint \<Rightarrow> CipUdint \<Rightarrow> CipOctet list" where
  "close_bytes ticks serial vendor orig = ticks @ int_bytes serial @ int_bytes vendor @ dint_bytes orig"

definition close_reply :: "CipUsint \<Rightarrow> CipUint \<Rightarrow> CipUint \<Rightarrow> CipUdint \<Rightarrow> CipOctet list" where
  "close_reply b serial vendor orig = int_bytes serial @ int_bytes vendor @ dint_bytes orig @ [b, 0]"

text \<open>The reply to a request that ends with an extended status, as its general status and the octet behind the triad.\<close>

definition close_status :: "CipUint \<Rightarrow> CipUsint" where
  "close_status ext = (if ext = kConnectionManagerExtendedStatusCodeSuccess then kCipErrorSuccess
     else if ext = kConnectionManagerExtendedStatusWrongCloser then kCipErrorPrivilegeViolation
     else kCipErrorConnectionFailure)"

lemma AssembleForwardCloseResponse_defined:
  assumes "holds_octets (message resp) []" and "req_data req = b # r" and "length (additional_status resp) = 2"
  shows "\<exists>p resp'. AssembleForwardCloseResponse serial vendor orig req ext resp st =
      Some (kEipStatusOkSend, resp', st\<lparr>g_common_packet_format_data_item := p\<rparr>) \<and>
    general_status resp' = close_status ext \<and> reply_service resp' = reply_code (req_service req) \<and>
    (close_status ext = kCipErrorConnectionFailure \<longrightarrow> size_of_additional_status resp' = 1 \<and> additional_status resp' ! 0 = ext) \<and>
    sent_octets (message resp') = close_reply (if ext = kConnectionManagerExtendedStatusCodeSuccess then 0 else b) serial vendor orig"
proof -
  obtain p where p: "unconnected_reply st = Some (st\<lparr>g_common_packet_format_data_item := p\<rparr>)"
    using unconnected_reply_defined [of st] by blast
  define t where "t = int_bytes serial @ int_bytes vendor @ dint_bytes orig"
  define c where "c = (if ext = kConnectionManagerExtendedStatusCodeSuccess then 0 else b)"
  have t: "length t = 8" by (simp add: t_def)
  obtain m where m: "emit t (message resp) = Some m" "holds_octets m t"
    using holds_octets_emit_fits [OF assms(1), of t] t by auto
  obtain m1 where m1: "emit [c] m = Some m1" "holds_octets m1 (t @ [c])"
    using holds_octets_emit_fits [OF m(2), of "[c]"] t by auto
  obtain m2 where m2: "emit [0] m1 = Some m2" "holds_octets m2 (t @ [c, 0])"
    using holds_octets_emit_fits [OF m1(2), of "[0]"] t by auto
  have steps: "on_message (emit t) resp = Some (resp\<lparr>message := m\<rparr>)"
      "message q = m \<Longrightarrow> on_message (emit [c]) q = Some (q\<lparr>message := m1\<rparr>)"
      "message q = m1 \<Longrightarrow> on_message (emit [0]) q = Some (q\<lparr>message := m2\<rparr>)" for q
    using m(1) m1(1) m2(1) by (simp_all add: on_message_def)
  have sent: "sent_octets m2 = close_reply c serial vendor orig"
    using sent_octets_holds [OF m2(2)] by (simp add: close_reply_def t_def)
  have triad: "AssembleForwardCloseResponse serial vendor orig req ext resp st = do {
      resp \<leftarrow> (if ext = kConnectionManagerExtendedStatusCodeSuccess then do {
         resp \<leftarrow> on_message (emit [0]) (resp\<lparr>message := m, reply_service := reply_code (req_service req)\<rparr>);
         Some (resp\<lparr>general_status := kCipErrorSuccess, size_of_additional_status := 0\<rparr>) }
       else do {
         resp \<leftarrow> on_message (emit [b]) (resp\<lparr>message := m, reply_service := reply_code (req_service req)\<rparr>);
         if ext = kConnectionManagerExtendedStatusWrongCloser
         then Some (resp\<lparr>general_status := kCipErrorPrivilegeViolation\<rparr>)
         else add_status [ext] (resp\<lparr>general_status := kCipErrorConnectionFailure\<rparr>) });
      resp \<leftarrow> on_message (emit [0]) resp;
      Some (kEipStatusOkSend, resp, st\<lparr>g_common_packet_format_data_item := p\<rparr>) }"
    using assms(2) steps(1)
    by (simp add: AssembleForwardCloseResponse_def p wire_simps on_message_fuse octet0_def sint_bytes_def t_def cong: if_cong)
  consider "ext = 0" | "ext = kConnectionManagerExtendedStatusWrongCloser" | "ext \<noteq> 0" "ext \<noteq> kConnectionManagerExtendedStatusWrongCloser" by blast
  then show ?thesis
  proof cases
    case 1
    with steps(2,3) sent show ?thesis unfolding triad c_def by (intro exI [of _ p]) (simp add: close_status_def)
  next
    case 2
    with steps(2,3) sent show ?thesis unfolding triad c_def by (intro exI [of _ p]) (simp add: close_status_def)
  next
    case 3
    with assms(3) steps(2,3) sent show ?thesis unfolding triad c_def by (intro exI [of _ p]) (simp add: close_status_def add_status_def)
  qed
qed


lemma close_explicit:
  assumes "manager_ok st ds" and "d \<in> set ds" and "d < 6"
  shows "\<exists>l. call_close_function d st = Some (st\<lparr>connection_list := l, connections := (connections st)[d := empty_connection]\<rparr>) \<and>
    manager_ok (st\<lparr>connection_list := l, connections := (connections st)[d := empty_connection]\<rparr>) (remove1 d ds) \<and>
    length (nodes l) = list_room st"
proof -
  have d: "active_list st ds" "d < length (connections st)" "explicit_object (connections st ! d)"
    using assms by (auto simp: manager_ok_def)
  then obtain l where l: "CloseConnection d st = Some (st\<lparr>connection_list := l, connections := (connections st)[d := empty_connection]\<rparr>)"
      "length (nodes l) = list_room st" "\<forall>st' :: 'a stack_state_scheme. connection_list st' = l \<longrightarrow> active_list st' (remove1 d ds)"
    using CloseConnection_class3 [of st ds d] by (auto simp: explicit_object_def)
  have "\<not> in_use empty_connection"
    by (simp add: in_use_def empty_connection_def zero_connection_def ConnectionObjectGetState_def)
  then have "manager_ok (st\<lparr>connection_list := l, connections := (connections st)[d := empty_connection]\<rparr>) (remove1 d ds)"
    using l(3) by (intro manager_ok_remove [OF assms(1), where co = empty_connection]) simp_all
  with l d show ?thesis by (auto simp: call_close_function_def explicit_object_def)
qed

definition to_close :: "CipUint \<Rightarrow> CipUint \<Rightarrow> CipUdint \<Rightarrow> 'e stack_state_scheme \<Rightarrow> nat \<Rightarrow> bool" where
  "to_close serial vendor orig st d \<longleftrightarrow>
     open_or_timed_out (connections st ! d) \<and> matches_triad serial vendor orig (connections st ! d)"

lemma on_packet_simps [simp]:
  "connections (on_packet f st) = connections st" "connection_list (on_packet f st) = connection_list st"
  "data_store (on_packet f st) = data_store st" "originator_sockaddr (on_packet f st) = originator_sockaddr st"
  "list_room (on_packet f st) = list_room st"
  "(on_packet f st)\<lparr>g_common_packet_format_data_item := p\<rparr> = st\<lparr>g_common_packet_format_data_item := p\<rparr>"
  by (simp_all add: on_packet_def list_room_def)

text \<open>The decision of \<^verbatim>\<open>ForwardClose\<close>: the extended status and the state before the reply is assembled.\<close>

definition close_decision :: "nat option \<Rightarrow> 'e stack_state_scheme \<Rightarrow> (CipUint \<times> 'e stack_state_scheme) run" where
  "close_decision found st = (case found of
       None \<Rightarrow> do { st \<leftarrow> count_up 7 st; Some (0x0107, st) }
     | Some d \<Rightarrow> do {
         co \<leftarrow> get_connection d st;
         c_assert (connection_close_function co \<noteq> None);
         if sin_addr (originator_sockaddr st) = sin_addr (originator_address co) then do {
           st \<leftarrow> call_close_function d st;
           st \<leftarrow> count_up 5 st;
           Some (0, st) }
         else do { st \<leftarrow> count_up 6 st; Some (0xFFFF, st) } })"

lemma ForwardClose_read:
  assumes "active_list st ds" and "req_data req = close_bytes ticks serial vendor orig @ r" and "length ticks = 2"
  shows "\<exists>p. ForwardClose req resp st = do {
     (ext, s) \<leftarrow> close_decision (find (to_close serial vendor orig st) ds) (st\<lparr>g_common_packet_format_data_item := p\<rparr>);
     (status, resp, s) \<leftarrow> AssembleForwardCloseResponse serial vendor orig (req\<lparr>req_data := r\<rparr>) ext resp s;
     Some (status, req\<lparr>req_data := r\<rparr>, resp, s) }"
proof -
  define s where "s = on_packet (set_info_type 1 0 \<circ> set_info_type 0 0) st"
  have "active_list s ds" using assms(1) active_list_cong [of s st] by (simp add: s_def)
  then have found: "find_connection (\<lambda>co. open_or_timed_out co \<and> matches_triad serial vendor orig co) s =
      Some (find (to_close serial vendor orig st) ds)"
    using find_connection_active [of s ds] by (simp add: to_close_def [abs_def] s_def)
  have "ForwardClose req resp st = do {
     (ext, s) \<leftarrow> close_decision (find (to_close serial vendor orig st) ds) s;
     (status, resp, s) \<leftarrow> AssembleForwardCloseResponse serial vendor orig (req\<lparr>req_data := r\<rparr>) ext resp s;
     Some (status, req\<lparr>req_data := r\<rparr>, resp, s) }"
    using read_bytes_append [of ticks] assms(2,3)
    by (simp add: ForwardClose_def close_bytes_def uint.dec_enc udint.dec_enc found s_def [symmetric, simplified] close_decision_def Let_def
        cong: option.case_cong)
  then show ?thesis unfolding s_def on_packet_def by blast
qed

lemma close_decision_cases:
  assumes "manager_ok st ds" "counter 5 c5 st" "counter 6 c6 st" "counter 7 c7 st"
  shows "close_decision None st = Some (0x0107, st\<lparr>data_store := (data_store st)(s_statistic 7 \<mapsto> V16 (c7 + 1))\<rparr>)"
    and "d \<in> set ds \<Longrightarrow> d < 6 \<Longrightarrow> sin_addr (originator_address (connections st ! d)) \<noteq> sin_addr (originator_sockaddr st) \<Longrightarrow>
      close_decision (Some d) st = Some (0xFFFF, st\<lparr>data_store := (data_store st)(s_statistic 6 \<mapsto> V16 (c6 + 1))\<rparr>)"
    and "d \<in> set ds \<Longrightarrow> d < 6 \<Longrightarrow> sin_addr (originator_address (connections st ! d)) = sin_addr (originator_sockaddr st) \<Longrightarrow>
      \<exists>l. close_decision (Some d) st = Some (0, st\<lparr>connection_list := l, connections := (connections st)[d := empty_connection],
          data_store := (data_store st)(s_statistic 5 \<mapsto> V16 (c5 + 1))\<rparr>) \<and>
        manager_ok (st\<lparr>connection_list := l, connections := (connections st)[d := empty_connection]\<rparr>) (remove1 d ds)"
proof -
  have obj: "d < length (connections st)" "connection_close_function (connections st ! d) = Some CloseConnectionFn"
    if "d \<in> set ds" "d < 6"
    using that assms(1) by (simp_all add: manager_ok_def explicit_object_def)
  show "close_decision None st = Some (0x0107, st\<lparr>data_store := (data_store st)(s_statistic 7 \<mapsto> V16 (c7 + 1))\<rparr>)"
    using count_up_counter [OF assms(4)] by (simp add: close_decision_def)
  show "d \<in> set ds \<Longrightarrow> d < 6 \<Longrightarrow> sin_addr (originator_address (connections st ! d)) \<noteq> sin_addr (originator_sockaddr st) \<Longrightarrow>
      close_decision (Some d) st = Some (0xFFFF, st\<lparr>data_store := (data_store st)(s_statistic 6 \<mapsto> V16 (c6 + 1))\<rparr>)"
    using count_up_counter [OF assms(3)] obj by (simp add: close_decision_def c_assert_def)
  assume d: "d \<in> set ds" "d < 6" "sin_addr (originator_address (connections st ! d)) = sin_addr (originator_sockaddr st)"
  from close_explicit [OF assms(1) d(1,2)] obtain l where
    l: "call_close_function d st = Some (st\<lparr>connection_list := l, connections := (connections st)[d := empty_connection]\<rparr>)"
      "manager_ok (st\<lparr>connection_list := l, connections := (connections st)[d := empty_connection]\<rparr>) (remove1 d ds)"
    by blast
  have "counter 5 c5 (st\<lparr>connection_list := l, connections := (connections st)[d := empty_connection]\<rparr>)"
    using assms(2) by (simp add: counter_def)
  from count_up_counter [OF this] l d(3) obj [OF d(1,2)]
  show "\<exists>l. close_decision (Some d) st = Some (0, st\<lparr>connection_list := l, connections := (connections st)[d := empty_connection],
          data_store := (data_store st)(s_statistic 5 \<mapsto> V16 (c5 + 1))\<rparr>) \<and>
        manager_ok (st\<lparr>connection_list := l, connections := (connections st)[d := empty_connection]\<rparr>) (remove1 d ds)"
    by (intro exI [of _ l] conjI) (simp_all add: close_decision_def c_assert_def)
qed


text \<open>The outcome of a Forward Close for the connection that was found.\<close>

definition close_outcome :: "nat option \<Rightarrow> 'e stack_state_scheme \<Rightarrow> CipUint" where
  "close_outcome found st = (case found of
       None \<Rightarrow> kConnectionManagerExtendedStatusCodeErrorConnectionTargetConnectionNotFound
     | Some d \<Rightarrow> if sin_addr (originator_address (connections st ! d)) = sin_addr (originator_sockaddr st)
         then kConnectionManagerExtendedStatusCodeSuccess else kConnectionManagerExtendedStatusWrongCloser)"

lemma close_decision_outcome:
  assumes "manager_ok st ds" "counter 5 c5 st" "counter 6 c6 st" "counter 7 c7 st" and "\<forall>d. found = Some d \<longrightarrow> d \<in> set ds \<and> d < 6"
  shows "\<exists>st'. close_decision found st = Some (close_outcome found st, st') \<and>
    (if close_outcome found st = kConnectionManagerExtendedStatusCodeSuccess
     then manager_ok st' (remove1 (the found) ds) \<and> connections st' = (connections st)[the found := empty_connection]
     else connection_list st' = connection_list st \<and> connections st' = connections st)"
proof (cases found)
  case None
  then show ?thesis using close_decision_cases(1) [OF assms(1-4)] by (simp add: close_outcome_def)
next
  case (Some d)
  then have d: "d \<in> set ds" "d < 6" using assms(5) by simp_all
  show ?thesis
  proof (cases "sin_addr (originator_address (connections st ! d)) = sin_addr (originator_sockaddr st)")
    case True
    obtain l where l: "close_decision (Some d) st = Some (0, st\<lparr>connection_list := l, connections := (connections st)[d := empty_connection],
          data_store := (data_store st)(s_statistic 5 \<mapsto> V16 (c5 + 1))\<rparr>)"
        "manager_ok (st\<lparr>connection_list := l, connections := (connections st)[d := empty_connection]\<rparr>) (remove1 d ds)"
      using close_decision_cases(3) [OF assms(1-4) d True] by blast
    let ?s = "st\<lparr>connection_list := l, connections := (connections st)[d := empty_connection]\<rparr>"
    have "manager_ok (?s\<lparr>data_store := x\<rparr>) (remove1 d ds)" for x
      using l(2) manager_ok_cong [of "?s\<lparr>data_store := x\<rparr>" ?s] by simp
    with l(1) True Some show ?thesis by (simp add: close_outcome_def)
  next
    case False
    then show ?thesis using close_decision_cases(2) [OF assms(1-4) d] Some by (simp add: close_outcome_def)
  qed
qed

lemma explicit_close:
  fixes st :: "'e stack_state_scheme"
  assumes "manager_ok st ds" "counter 5 c5 st" "counter 6 c6 st" "counter 7 c7 st"
    and "req_data req = close_bytes ticks serial vendor orig @ b # r" "length ticks = 2"
    and "holds_octets (message resp) []" "length (additional_status resp) = 2"
    and "\<forall>d. find (to_close serial vendor orig st) ds = Some d \<longrightarrow> d < 6"
    and "found = find (to_close serial vendor orig st) ds"
  shows "\<exists>resp' st'. ForwardClose req resp st = Some (kEipStatusOkSend, req\<lparr>req_data := b # r\<rparr>, resp', st') \<and>
    (if close_outcome found st = kConnectionManagerExtendedStatusCodeSuccess
     then manager_ok st' (remove1 (the found) ds) \<and> connections st' = (connections st)[the found := empty_connection]
     else manager_ok st' ds \<and> connections st' = connections st) \<and>
    general_status resp' = close_status (close_outcome found st) \<and> reply_service resp' = reply_code (req_service req) \<and>
    (found = None \<longrightarrow> size_of_additional_status resp' = 1 \<and> additional_status resp' ! 0 = 0x0107) \<and>
    sent_octets (message resp') =
      close_reply (if close_outcome found st = kConnectionManagerExtendedStatusCodeSuccess then 0 else b) serial vendor orig"
proof -
  from assms(1) have "active_list st ds" by (simp add: manager_ok_def)
  then obtain p where read: "ForwardClose req resp st = do {
     (ext, s) \<leftarrow> close_decision found (st\<lparr>g_common_packet_format_data_item := p\<rparr>);
     (status, resp, s) \<leftarrow> AssembleForwardCloseResponse serial vendor orig (req\<lparr>req_data := b # r\<rparr>) ext resp s;
     Some (status, req\<lparr>req_data := b # r\<rparr>, resp, s) }"
    using ForwardClose_read [OF _ assms(5,6)] assms(10) by blast
  let ?st = "st\<lparr>g_common_packet_format_data_item := p\<rparr>"
  have "manager_ok ?st ds" "counter 5 c5 ?st" "counter 6 c6 ?st" "counter 7 c7 ?st"
    using assms(1-4) manager_ok_cong [of ?st st] by (simp_all add: counter_def)
  moreover have "\<forall>d. found = Some d \<longrightarrow> d \<in> set ds \<and> d < 6" using assms(9,10) by (auto simp: find_Some_iff)
  ultimately obtain s where s: "close_decision found ?st = Some (close_outcome found st, s)"
      "if close_outcome found st = kConnectionManagerExtendedStatusCodeSuccess
       then manager_ok s (remove1 (the found) ds) \<and> connections s = (connections st)[the found := empty_connection]
       else connection_list s = connection_list st \<and> connections s = connections st"
    using close_decision_outcome [of ?st ds c5 c6 c7 found] by (auto simp: close_outcome_def cong: option.case_cong if_cong)
  obtain q resp' where q: "AssembleForwardCloseResponse serial vendor orig (req\<lparr>req_data := b # r\<rparr>) (close_outcome found st) resp s =
      Some (kEipStatusOkSend, resp', s\<lparr>g_common_packet_format_data_item := q\<rparr>)"
    "general_status resp' = close_status (close_outcome found st)" "reply_service resp' = reply_code (req_service req)"
    "close_status (close_outcome found st) = kCipErrorConnectionFailure \<longrightarrow> size_of_additional_status resp' = 1 \<and>
      additional_status resp' ! 0 = close_outcome found st"
    "sent_octets (message resp') =
      close_reply (if close_outcome found st = kConnectionManagerExtendedStatusCodeSuccess then 0 else b) serial vendor orig"
    using AssembleForwardCloseResponse_defined [OF assms(7), of "req\<lparr>req_data := b # r\<rparr>" b r serial vendor orig "close_outcome found st" s]
      assms(8) by auto
  let ?s = "s\<lparr>g_common_packet_format_data_item := q\<rparr>"
  have "manager_ok ?s es = manager_ok s es" "connections s = connections st \<Longrightarrow> connection_list s = connection_list st \<Longrightarrow> manager_ok s es = manager_ok st es" for es
    using manager_ok_cong [of ?s s] manager_ok_cong [of s st] by simp_all
  then have inv: "if close_outcome found st = kConnectionManagerExtendedStatusCodeSuccess
      then manager_ok ?s (remove1 (the found) ds) \<and> connections ?s = (connections st)[the found := empty_connection]
      else manager_ok ?s ds \<and> connections ?s = connections st"
    using s(2) assms(1) by (simp split: if_splits)
  have "found = None \<longrightarrow> size_of_additional_status resp' = 1 \<and> additional_status resp' ! 0 = 0x0107"
    using q(4) by (simp add: close_status_def close_outcome_def)
  with inv q show ?thesis by (intro exI [of _ resp'] exI [of _ ?s] conjI) (simp_all add: read s(1))
qed

text \<open>
  C10: Closing a connection. A Forward Close request looks for the first active connection, established or
  timed out, with the triad of the request. Without one the reply is a connection failure with the
  extended status 0x0107 and no connection changes. If there is one and it is an explicit connection (one
  of the first six objects; closing an I/O connection also closes those that depend on it, which this
  property leaves out), a request that does not come from the address that opened it is answered with a
  privilege violation and changes no connection; one from that address removes the connection from the
  sequence of active connections and frees its object, and all others stay as they are.
\<close>

theorem forward_close_explicit:
  assumes "manager_ok st ds" "counter 5 c5 st" "counter 6 c6 st" "counter 7 c7 st"
    and "req_data req = close_bytes ticks serial vendor orig @ b # r" "length ticks = 2"
    and "holds_octets (message resp) []" "length (additional_status resp) = 2"
    and "\<forall>d. find (to_close serial vendor orig st) ds = Some d \<longrightarrow> d < 6"
  shows "\<exists>resp' st'. ForwardClose req resp st = Some (kEipStatusOkSend, req\<lparr>req_data := b # r\<rparr>, resp', st') \<and>
    (case find (to_close serial vendor orig st) ds of
       None \<Rightarrow> manager_ok st' ds \<and> connections st' = connections st \<and> general_status resp' = kCipErrorConnectionFailure \<and>
         size_of_additional_status resp' = 1 \<and> additional_status resp' ! 0 = 0x0107 \<and>
         sent_octets (message resp') = int_bytes serial @ int_bytes vendor @ dint_bytes orig @ [b, 0]
     | Some d \<Rightarrow>
         if sin_addr (originator_address (connections st ! d)) = sin_addr (originator_sockaddr st)
         then manager_ok st' (remove1 d ds) \<and> connections st' = (connections st)[d := empty_connection] \<and>
           general_status resp' = kCipErrorSuccess \<and>
           sent_octets (message resp') = int_bytes serial @ int_bytes vendor @ dint_bytes orig @ [0, 0]
         else manager_ok st' ds \<and> connections st' = connections st \<and> general_status resp' = kCipErrorPrivilegeViolation)"
  using explicit_close [OF assms refl]
  by (auto simp: close_outcome_def close_status_def close_reply_def split: option.splits if_splits)


definition close_request :: CipMessageRouterRequest where
  "close_request = \<lparr>req_service = kForwardClose, request_path = CipEpath.make 2 6 1 0, request_data_size = 16,
     req_data = close_bytes [10, 14] 7 0x004D 0x12345678 @ [2, 0, 0x20, 2, 0x24, 1]\<rparr>"

lemma started_device_counters: "counter 5 0 started_device" "counter 6 0 started_device" "counter 7 0 started_device"
  by (simp_all add: counter_def started_device_def s_statistic_def)

theorem forward_close_explicit_witness:
  "\<exists>resp' st'. ForwardClose close_request empty_response started_device =
     Some (kEipStatusOkSend, close_request\<lparr>req_data := [2, 0, 0x20, 2, 0x24, 1]\<rparr>, resp', st') \<and>
   manager_ok st' [] \<and> general_status resp' = kCipErrorConnectionFailure \<and> additional_status resp' ! 0 = 0x0107"
  using forward_close_explicit [OF started_device_ok(1) started_device_counters, of close_request "[10, 14]" 7 "0x004D" "0x12345678" 2
      "[0, 0x20, 2, 0x24, 1]" empty_response]
  by (auto simp: close_request_def empty_response_def)

text \<open>
  C8: Opening and closing an explicit connection cancel out. If an explicit connection object is free
  and no active connection has the triad of the request, the connection is opened; if it is then closed
  with the same triad from the address that opened it, this succeeds as well, the active connections
  are those from before and the connection object is empty again. I/O connections are not covered.
\<close>

theorem open_then_close:
  fixes st :: "'e stack_state_scheme"
  assumes "manager_ok st ds" and "length ds < list_room st" and "router_ready st" and "router_open st"
    and "counter 1 c st" and "info_items_ready st" and "GetFreeExplicitConnection st = Some d"
    and "explicit_request is_lfo fo" and "\<exists>m \<ge> os_calls st. os_rand os m \<notin> used_numbers ds st"
    and triad: "\<forall>x \<in> set ds. \<not> matches_triad (fo_serial fo) (fo_vendor fo) (fo_originator_serial fo) (connections st ! x)"
    and "req_data req = forward_open_bytes is_lfo fo @ router_path"
    and "request_data_size req = of_nat (length (req_data req))" and "holds_octets (message resp) []"
    and counters: "counter 5 c5 st" "counter 6 c6 st" "counter 7 c7 st"
    and close: "req_data creq = close_bytes ticks (fo_serial fo) (fo_vendor fo) (fo_originator_serial fo) @ b # r" "length ticks = 2"
    and "holds_octets (message cresp) []" "length (additional_status cresp) = 2"
  shows "\<exists>resp1 st1 resp2 st2. (if is_lfo then LargeForwardOpen else ForwardOpen) os session req resp st =
      Some (kEipStatusOkSend, req\<lparr>req_data := []\<rparr>, resp1, st1) \<and> general_status resp1 = kCipErrorSuccess \<and>
    ForwardClose creq cresp st1 = Some (kEipStatusOkSend, creq\<lparr>req_data := b # r\<rparr>, resp2, st2) \<and>
    general_status resp2 = kCipErrorSuccess \<and> manager_ok st2 ds \<and> connections st2 = (connections st)[d := empty_connection]"
proof -
  have new: "\<forall>x \<in> set ds. ConnectionObjectGetState (connections st ! x) = kConnectionObjectStateEstablished \<longrightarrow>
      \<not> matches_triad (fo_serial fo) (fo_vendor fo) (fo_originator_serial fo) (connections st ! x)"
    using triad by blast
  obtain m w l p msg where o: "open_service is_lfo os session req resp st = Some (kEipStatusOkSend, req\<lparr>req_data := []\<rparr>,
      resp\<lparr>reply_service := reply_code (if is_lfo then kLargeForwardOpen else kForwardOpen),
        general_status := kCipErrorSuccess, size_of_additional_status := 0, message := msg\<rparr>,
      opened (requested is_lfo (os_rand os m) fo w session st) (Suc m) d c l p st)"
    "manager_ok (opened (requested is_lfo (os_rand os m) fo w session st) (Suc m) d c l p st) (d # ds)"
    using explicit_open [OF assms(1-9) new assms(11-13), of session] by blast
  let ?co = "requested is_lfo (os_rand os m) fo w session st"
  let ?s = "opened ?co (Suc m) d c l p st"
  let ?close = "to_close (fo_serial fo) (fo_vendor fo) (fo_originator_serial fo) ?s"
  have d: "d < 6" "d < length (connections st)" "d \<notin> set ds"
    using free_slot [OF assms(7)] assms(1) o(2) by (auto simp: manager_ok_def)
  have at: "connections ?s ! d = established (next_ids st 0) (routed ?co)" "\<And>x. x \<noteq> d \<Longrightarrow> connections ?s ! x = connections st ! x"
    using d(2) by (simp_all add: opened_def)
  have "point_to_point (routed ?co)" by (rule routed_point_to_point [OF requested_explicit(2) [OF assms(8) refl]])
  then have found: "?close d" "sin_addr (originator_address (connections ?s ! d)) = sin_addr (originator_sockaddr ?s)"
    unfolding to_close_def at(1) by (simp_all add: open_or_timed_out_def matches_triad_def requested_def routed_def opened_def)
  have counters': "counter 5 c5 ?s" "counter 6 c6 ?s" "counter 7 c7 ?s"
    using counters by (simp_all add: counter_def opened_def s_statistic_def)
  have first: "find ?close (d # ds) = Some d" using found(1) by simp
  with d(1) have expl: "\<forall>x. find ?close (d # ds) = Some x \<longrightarrow> x < 6" by simp
  obtain resp2 st2 where "ForwardClose creq cresp ?s = Some (kEipStatusOkSend, creq\<lparr>req_data := b # r\<rparr>, resp2, st2)"
      "general_status resp2 = kCipErrorSuccess" "manager_ok st2 ds" "connections st2 = (connections ?s)[d := empty_connection]"
    using found(2) first explicit_close [OF o(2) counters' close assms(19,20) expl refl]
    by (auto simp: close_outcome_def close_status_def)
  with o(1) show ?thesis by (auto simp: opened_def)
qed

theorem open_then_close_witness:
  "\<exists>resp1 st1 resp2 st2. ForwardOpen example_os 1 open_request empty_response started_device =
      Some (kEipStatusOkSend, open_request\<lparr>req_data := []\<rparr>, resp1, st1) \<and>
    ForwardClose close_request empty_response st1 =
      Some (kEipStatusOkSend, close_request\<lparr>req_data := [2, 0, 0x20, 2, 0x24, 1]\<rparr>, resp2, st2) \<and>
    general_status resp2 = kCipErrorSuccess \<and> manager_ok st2 []"
proof -
  have "request_data_size open_request = of_nat (length (req_data open_request))"
    using forward_open_length [OF example_forward_open_wf] by (simp add: open_request_def router_path_def)
  moreover have "req_data close_request = close_bytes [10, 14] (fo_serial example_forward_open) (fo_vendor example_forward_open)
      (fo_originator_serial example_forward_open) @ 2 # [0, 0x20, 2, 0x24, 1]"
    by (simp add: close_request_def example_forward_open_def)
  ultimately show ?thesis
    using open_then_close [OF started_device_ok(1) _ started_device_ok(2-6) example_explicit, of example_os open_request empty_response
        0 0 0 close_request "[10, 14]" 2 "[0, 0x20, 2, 0x24, 1]" empty_response 1]
      started_device_ok(7) started_device_counters
    by (auto simp: open_request_def empty_response_def used_numbers_def)
qed

end
