(* ===== verification/Encap.thy ===== *)
theory Encap
  imports ForwardOpen
begin

text \<open>
  The encapsulation layer of \<^verbatim>\<open>enet_encap/encap.c\<close>: header, commands, sessions and delayed replies,
  with the functions of \<^verbatim>\<open>enet_encap/cpf.c\<close> that pass a packet on to the message router, and the
  periodic work of the device.

  The state of the stack is extended by the delayed replies, the service information and the
  interface address of the TCP/IP object. A message that was received is the list of the octets in
  the receive buffer from the read position on. The reply is a parameter that is threaded through.
\<close>

subsection \<open>State\<close>

abbreviation (input) kSupportedProtocolVersion :: CipUint where "kSupportedProtocolVersion \<equiv> 1"
abbreviation (input) kListIdentityDefaultDelayTime :: CipUint where "kListIdentityDefaultDelayTime \<equiv> 2000"
abbreviation (input) kListIdentityMinimumDelayTime :: CipUint where "kListIdentityMinimumDelayTime \<equiv> 500"
abbreviation (input) ENCAP_NUMBER_OF_SUPPORTED_DELAYED_ENCAP_MESSAGES :: nat where
  "ENCAP_NUMBER_OF_SUPPORTED_DELAYED_ENCAP_MESSAGES \<equiv> 2"
abbreviation (input) ENCAPSULATION_HEADER_LENGTH :: nat where "ENCAPSULATION_HEADER_LENGTH \<equiv> 24"
abbreviation (input) kOpenerEthernetPort :: CipUint where "kOpenerEthernetPort \<equiv> 0xAF12"

abbreviation (input) kEncapsulationCommandNoOperation :: CipUint where "kEncapsulationCommandNoOperation \<equiv> 0x0000"
abbreviation (input) kEncapsulationCommandListServices :: CipUint where "kEncapsulationCommandListServices \<equiv> 0x0004"
abbreviation (input) kEncapsulationCommandListIdentity :: CipUint where "kEncapsulationCommandListIdentity \<equiv> 0x0063"
abbreviation (input) kEncapsulationCommandListInterfaces :: CipUint where "kEncapsulationCommandListInterfaces \<equiv> 0x0064"
abbreviation (input) kEncapsulationCommandRegisterSession :: CipUint where "kEncapsulationCommandRegisterSession \<equiv> 0x0065"
abbreviation (input) kEncapsulationCommandUnregisterSession :: CipUint where "kEncapsulationCommandUnregisterSession \<equiv> 0x0066"
abbreviation (input) kEncapsulationCommandSendRequestReplyData :: CipUint where "kEncapsulationCommandSendRequestReplyData \<equiv> 0x006F"
abbreviation (input) kEncapsulationCommandSendUnitData :: CipUint where "kEncapsulationCommandSendUnitData \<equiv> 0x0070"

abbreviation (input) kEncapsulationProtocolSuccess :: CipUdint where "kEncapsulationProtocolSuccess \<equiv> 0x0000"
abbreviation (input) kEncapsulationProtocolInvalidCommand :: CipUdint where "kEncapsulationProtocolInvalidCommand \<equiv> 0x0001"
abbreviation (input) kEncapsulationProtocolInsufficientMemory :: CipUdint where "kEncapsulationProtocolInsufficientMemory \<equiv> 0x0002"
abbreviation (input) kEncapsulationProtocolIncorrectData :: CipUdint where "kEncapsulationProtocolIncorrectData \<equiv> 0x0003"
abbreviation (input) kEncapsulationProtocolInvalidSessionHandle :: CipUdint where "kEncapsulationProtocolInvalidSessionHandle \<equiv> 0x0064"
abbreviation (input) kEncapsulationProtocolUnsupportedProtocol :: CipUdint where "kEncapsulationProtocolUnsupportedProtocol \<equiv> 0x0069"

record EncapsulationData =
  command_code :: CipUint
  encap_data_length :: CipUint
  encap_session_handle :: CipSessionHandle
  encap_status :: CipUdint
  sender_context :: "CipOctet list"
  encap_options :: CipUdint
  communication_buffer_start :: "CipOctet list"
  current_communication_buffer_position :: "CipOctet list"

record EncapsulationServiceInformation =
  service_type_code :: CipUint
  service_length :: CipUint
  encapsulation_protocol_version :: CipUint
  capability_flags :: CipUint
  name_of_service :: "CipOctet list"

text \<open>The time-out is a signed number of 32 bits.\<close>

record DelayedEncapsulationMessage =
  delayed_time_out :: CipUdint
  delayed_socket :: int
  delayed_receiver :: sockaddr_in
  delayed_message :: ENIPMessage

record encap_state = stack_state +
  g_delayed_encapsulation_messages :: "DelayedEncapsulationMessage list"
  g_service_information :: EncapsulationServiceInformation
  interface_ip_address :: CipUdint

text \<open>The octets of \<^verbatim>\<open>"Communications"\<close>, in an array of 16.\<close>

definition communications :: "CipOctet list" where
  "communications = map (of_char :: char \<Rightarrow> CipOctet) ''Communications'' @ [0, 0]"

definition EncapsulationInit :: "'e encap_state_scheme \<Rightarrow> 'e encap_state_scheme" where
  "EncapsulationInit st = st\<lparr>
     g_registered_sessions := replicate OPENER_NUMBER_OF_SUPPORTED_SESSIONS kEipInvalidSocket,
     g_delayed_encapsulation_messages := map (\<lambda>d. d\<lparr>delayed_socket := kEipInvalidSocket\<rparr>) (g_delayed_encapsulation_messages st),
     g_service_information := \<lparr>service_type_code = 0x0100, service_length = 24, encapsulation_protocol_version = 1,
       capability_flags = 0x0120, name_of_service = communications\<rparr>\<rparr>"

subsection \<open>Header\<close>

definition SkipEncapsulationHeader :: "ENIPMessage \<Rightarrow> ENIPMessage run" where
  "SkipEncapsulationHeader m = move_position (int ENCAPSULATION_HEADER_LENGTH) m"

definition GenerateEncapsulationHeader :: "EncapsulationData \<Rightarrow> size_t \<Rightarrow> CipSessionHandle \<Rightarrow> CipUdint \<Rightarrow> ENIPMessage \<Rightarrow> ENIPMessage run" where
  "GenerateEncapsulationHeader d len session status m = do {
     m \<leftarrow> AddIntToMessage (command_code d) m;
     m \<leftarrow> AddIntToMessage (ucast len) m;
     m \<leftarrow> AddDintToMessage session m;
     m \<leftarrow> AddDintToMessage status m;
     (bs, _) \<leftarrow> read_bytes 8 (sender_context d);
     m \<leftarrow> emit bs m;
     AddDintToMessage 0 m }"

text \<open>The number of octets behind the packet, negative for a fragment.\<close>

definition CreateEncapsulationStructure :: "CipOctet list \<Rightarrow> size_t \<Rightarrow> (int \<times> EncapsulationData) run" where
  "CreateEncapsulationStructure buffer len = do {
     (command, pos) \<leftarrow> GetUintFromMessage buffer;
     (n, pos) \<leftarrow> GetUintFromMessage pos;
     (session, pos) \<leftarrow> GetUdintFromMessage pos;
     (status, pos) \<leftarrow> GetUdintFromMessage pos;
     (context, pos) \<leftarrow> read_bytes 8 pos;
     (opts, pos) \<leftarrow> GetUdintFromMessage pos;
     c_assert (unat len \<le> 2147483647);
     Some (uint len - int ENCAPSULATION_HEADER_LENGTH - uint n,
       \<lparr>command_code = command, encap_data_length = n, encap_session_handle = session, encap_status = status,
        sender_context = context, encap_options = opts, communication_buffer_start = buffer,
        current_communication_buffer_position = pos\<rparr>) }"

subsection \<open>List commands\<close>

definition HandleReceivedListServicesCommand :: "EncapsulationData \<Rightarrow> ENIPMessage \<Rightarrow> 'e encap_state_scheme \<Rightarrow> ENIPMessage run" where
  "HandleReceivedListServicesCommand d m st = do {
     let s = g_service_information st;
     m \<leftarrow> GenerateEncapsulationHeader d 26 0 kEncapsulationProtocolSuccess m;
     m \<leftarrow> AddIntToMessage 1 m;
     m \<leftarrow> AddIntToMessage (service_type_code s) m;
     m \<leftarrow> AddIntToMessage (service_length s - 4) m;
     m \<leftarrow> AddIntToMessage (encapsulation_protocol_version s) m;
     m \<leftarrow> AddIntToMessage (capability_flags s) m;
     (bs, _) \<leftarrow> read_bytes 16 (name_of_service s);
     emit bs m }"

definition HandleReceivedListInterfacesCommand :: "EncapsulationData \<Rightarrow> ENIPMessage \<Rightarrow> ENIPMessage run" where
  "HandleReceivedListInterfacesCommand d m = do {
     m \<leftarrow> GenerateEncapsulationHeader d 2 0 kEncapsulationProtocolSuccess m;
     AddIntToMessage 0 m }"

definition product_name :: "'e cip_state_scheme \<Rightarrow> CipShortString run" where
  "product_name st = do { v \<leftarrow> data_store st (s_identity 7); get_short_string v }"

definition ListIdentityGetCipIdentityItemLength :: "'e cip_state_scheme \<Rightarrow> CipUint run" where
  "ListIdentityGetCipIdentityItemLength st = do {
     name \<leftarrow> product_name st;
     Some (34 + ucast (css_length name)) }"

definition EncodeListIdentityCipIdentityItem :: "ENIPMessage \<Rightarrow> 'e encap_state_scheme \<Rightarrow> ENIPMessage run" where
  "EncodeListIdentityCipIdentityItem m st = do {
     m \<leftarrow> AddIntToMessage 0x0C m;
     len \<leftarrow> ListIdentityGetCipIdentityItemLength st;
     m \<leftarrow> AddIntToMessage len m;
     m \<leftarrow> AddIntToMessage kSupportedProtocolVersion m;
     m \<leftarrow> EncapsulateIpAddress kOpENerEndianessLittle (net16 kOpenerEthernetPort) (interface_ip_address st) m;
     m \<leftarrow> FillNextNMessageOctetsWithValueAndMoveToNextPosition 0 8 m;
     ident \<leftarrow> g_identity st;
     m \<leftarrow> AddIntToMessage (id_vendor_id ident) m;
     m \<leftarrow> AddIntToMessage (id_device_type ident) m;
     m \<leftarrow> AddIntToMessage (id_product_code ident) m;
     m \<leftarrow> AddSintToMessage (id_major_revision ident) m;
     m \<leftarrow> AddSintToMessage (id_minor_revision ident) m;
     status \<leftarrow> cell16 (s_identity 5) st;
     m \<leftarrow> AddIntToMessage status m;
     v \<leftarrow> data_store st (s_identity 6);
     serial \<leftarrow> get32 v;
     m \<leftarrow> AddDintToMessage serial m;
     name \<leftarrow> product_name st;
     m \<leftarrow> AddSintToMessage (css_length name) m;
     octets \<leftarrow> css_string name;
     (bs, _) \<leftarrow> read_bytes (unat (css_length name)) octets;
     m \<leftarrow> emit bs m;
     v \<leftarrow> data_store st (s_identity 8);
     state \<leftarrow> get8 v;
     AddSintToMessage state m }"

definition EncapsulateListIdentityResponseMessage :: "EncapsulationData \<Rightarrow> ENIPMessage \<Rightarrow> 'e encap_state_scheme \<Rightarrow> ENIPMessage run" where
  "EncapsulateListIdentityResponseMessage d m st = do {
     len \<leftarrow> ListIdentityGetCipIdentityItemLength st;
     m \<leftarrow> GenerateEncapsulationHeader d (ucast (len + 6)) 0 kEncapsulationProtocolSuccess m;
     m \<leftarrow> AddIntToMessage 1 m;
     EncodeListIdentityCipIdentityItem m st }"

definition HandleReceivedListIdentityCommandTcp :: "EncapsulationData \<Rightarrow> ENIPMessage \<Rightarrow> 'e encap_state_scheme \<Rightarrow> ENIPMessage run" where
  "HandleReceivedListIdentityCommandTcp d m st = EncapsulateListIdentityResponseMessage d m st"

text \<open>The delay is read from the sender context, 12 octets behind the start of the message.\<close>

definition DetermineDelayTime :: "os_env \<Rightarrow> CipOctet list \<Rightarrow> DelayedEncapsulationMessage \<Rightarrow> 'e encap_state_scheme \<Rightarrow>
    (DelayedEncapsulationMessage \<times> 'e encap_state_scheme) run" where
  "DetermineDelayTime os buffer_start delayed st = do {
     (_, pos) \<leftarrow> read_bytes 12 buffer_start;
     (t, _) \<leftarrow> GetUintFromMessage pos;
     let maximum_delay_time = (if t = 0 then kListIdentityDefaultDelayTime
       else if kListIdentityMinimumDelayTime > t then kListIdentityMinimumDelayTime else t);
     Some (delayed\<lparr>delayed_time_out := os_random os (os_calls st) mod ucast maximum_delay_time\<rparr>, next_call st) }"

definition HandleReceivedListIdentityCommandUdp :: "os_env \<Rightarrow> int \<Rightarrow> sockaddr_in \<Rightarrow> EncapsulationData \<Rightarrow> 'e encap_state_scheme \<Rightarrow>
    'e encap_state_scheme run" where
  "HandleReceivedListIdentityCommandUdp os sock from_address d st = (
     case first_index (\<lambda>x. delayed_socket x = kEipInvalidSocket) (g_delayed_encapsulation_messages st) of
       None \<Rightarrow> Some st
     | Some i \<Rightarrow> do {
         let delayed = (g_delayed_encapsulation_messages st ! i)\<lparr>delayed_socket := sock, delayed_receiver := from_address\<rparr>;
         (delayed, st) \<leftarrow> DetermineDelayTime os (communication_buffer_start d) delayed st;
         m \<leftarrow> EncapsulateListIdentityResponseMessage d (InitializeENIPMessage (delayed_message delayed)) st;
         Some (st\<lparr>g_delayed_encapsulation_messages := (g_delayed_encapsulation_messages st)[i := delayed\<lparr>delayed_message := m\<rparr>]\<rparr>) })"

text \<open>One delayed reply; the difference is taken modulo 2^32 and read as a signed number.\<close>

definition manage_delayed :: "MilliSeconds \<Rightarrow> nat \<Rightarrow> 'e encap_state_scheme \<Rightarrow> 'e encap_state_scheme run" where
  "manage_delayed elapsed i st = do {
     d \<leftarrow> array_get (g_delayed_encapsulation_messages st) i;
     if delayed_socket d = kEipInvalidSocket then Some st
     else do {
       let d = d\<lparr>delayed_time_out := delayed_time_out d - elapsed\<rparr>;
       let send = (sint (delayed_time_out d) \<le> 0);
       let st = (if send then note_event (DatagramSent (delayed_receiver d) (sent_octets (delayed_message d))) st else st);
       let d = (if send then d\<lparr>delayed_socket := kEipInvalidSocket\<rparr> else d);
       ds \<leftarrow> array_set (g_delayed_encapsulation_messages st) i d;
       Some (st\<lparr>g_delayed_encapsulation_messages := ds\<rparr>) } }"

fun manage_all_delayed :: "MilliSeconds \<Rightarrow> nat list \<Rightarrow> 'e encap_state_scheme \<Rightarrow> 'e encap_state_scheme run" where
  "manage_all_delayed elapsed [] st = Some st"
| "manage_all_delayed elapsed (i # is) st = do { st \<leftarrow> manage_delayed elapsed i st; manage_all_delayed elapsed is st }"

definition ManageEncapsulationMessages :: "MilliSeconds \<Rightarrow> 'e encap_state_scheme \<Rightarrow> 'e encap_state_scheme run" where
  "ManageEncapsulationMessages elapsed st =
     manage_all_delayed elapsed [0..<ENCAP_NUMBER_OF_SUPPORTED_DELAYED_ENCAP_MESSAGES] st"

text \<open>\<^verbatim>\<open>HandleApplication\<close> of the simulator does nothing.\<close>

definition ManageConnections :: "os_env \<Rightarrow> MilliSeconds \<Rightarrow> 'e encap_state_scheme \<Rightarrow> (EipStatus \<times> 'e encap_state_scheme) run" where
  "ManageConnections os elapsed st = do {
     st \<leftarrow> ManageEncapsulationMessages elapsed st;
     st \<leftarrow> manage_from os elapsed (list_head st) st;
     Some (kEipStatusOk, st) }"

subsection \<open>Sessions\<close>

definition EncapsulateRegisterSessionCommandResponseMessage :: "EncapsulationData \<Rightarrow> CipSessionHandle \<Rightarrow> CipUdint \<Rightarrow> ENIPMessage \<Rightarrow>
    ENIPMessage run" where
  "EncapsulateRegisterSessionCommandResponseMessage d session status m = do {
     m \<leftarrow> GenerateEncapsulationHeader d 4 session status m;
     m \<leftarrow> AddIntToMessage 1 m;
     AddIntToMessage 0 m }"

text \<open>The session handle and the status of a registration. A missing free timer is a null pointer.\<close>

definition register_session :: "int \<Rightarrow> CipUint \<Rightarrow> CipUint \<Rightarrow> 'e stack_state_scheme \<Rightarrow>
    (CipSessionHandle \<times> CipUdint \<times> 'e stack_state_scheme) run" where
  "register_session sock protocol_version option_flag st = (
     if 0 < protocol_version \<and> protocol_version \<le> kSupportedProtocolVersion \<and> option_flag = 0
     then (case first_index (\<lambda>s. s = sock) (g_registered_sessions st) of
         Some i \<Rightarrow> Some (of_nat i + 1, kEncapsulationProtocolInvalidCommand, st)
       | None \<Rightarrow> (case GetFreeSessionIndex st of
           None \<Rightarrow> Some (0, kEncapsulationProtocolInsufficientMemory, st)
         | Some i \<Rightarrow> do {
             t \<leftarrow> SocketTimerArrayGetEmptySocketTimer (g_timestamps st);
             let ts = (g_timestamps st)[t := SocketTimerSetLastUpdate (g_actual_time st) (SocketTimerSetSocket sock (g_timestamps st ! t))];
             st \<leftarrow> set_session i sock (st\<lparr>g_timestamps := ts\<rparr>);
             Some (of_nat i + 1, kEncapsulationProtocolSuccess, st) }))
     else Some (0, kEncapsulationProtocolUnsupportedProtocol, st))"

definition HandleReceivedRegisterSessionCommand :: "int \<Rightarrow> EncapsulationData \<Rightarrow> ENIPMessage \<Rightarrow> 'e stack_state_scheme \<Rightarrow>
    (ENIPMessage \<times> 'e stack_state_scheme) run" where
  "HandleReceivedRegisterSessionCommand sock d m st = do {
     (protocol_version, pos) \<leftarrow> GetUintFromMessage (current_communication_buffer_position d);
     (option_flag, pos) \<leftarrow> GetUintFromMessage pos;
     (session, status, st) \<leftarrow> register_session sock protocol_version option_flag st;
     m \<leftarrow> EncapsulateRegisterSessionCommandResponseMessage (d\<lparr>current_communication_buffer_position := pos\<rparr>) session status m;
     Some (m, st) }"

definition HandleReceivedUnregisterSessionCommand :: "EncapsulationData \<Rightarrow> ENIPMessage \<Rightarrow> 'e stack_state_scheme \<Rightarrow>
    (EipStatus \<times> ENIPMessage \<times> 'e stack_state_scheme) run" where
  "HandleReceivedUnregisterSessionCommand d m st = do {
     valid \<leftarrow> CheckRegisteredSessions (encap_session_handle d) st;
     if valid = kSessionStatusValid then do {
       let i = unat (encap_session_handle d - 1);
       sock \<leftarrow> array_get (g_registered_sessions st) i;
       st \<leftarrow> CloseTcpSocket sock st;
       st \<leftarrow> set_session i kEipInvalidSocket st;
       st \<leftarrow> CloseClass3ConnectionBasedOnSession (encap_session_handle d) st;
       Some (kEipStatusOk, m, st) }
     else do {
       m \<leftarrow> GenerateEncapsulationHeader d 0 (encap_session_handle d) kEncapsulationProtocolInvalidSessionHandle m;
       Some (kEipStatusOkSend, m, st) } }"

definition HandleReceivedInvalidCommand :: "EncapsulationData \<Rightarrow> ENIPMessage \<Rightarrow> (EipStatus \<times> ENIPMessage) run" where
  "HandleReceivedInvalidCommand d m = do {
     m \<leftarrow> GenerateEncapsulationHeader d 0 (encap_session_handle d) kEncapsulationProtocolInvalidCommand m;
     Some (kEipStatusOkSend, m) }"

subsection \<open>Explicit messages (cpf.c)\<close>

definition InitializeMessageRouterResponse :: CipMessageRouterResponse where
  "InitializeMessageRouterResponse = \<lparr>reply_service = 0, reserved = 0, general_status = 0, size_of_additional_status = 0,
     additional_status = [0, 0], message = InitializeENIPMessage zero_message\<rparr>"

text \<open>A reply behind the place of its header, and the header in front of it; the position ends behind the reply.\<close>

definition write_reply :: "EncapsulationData \<Rightarrow> CipMessageRouterResponse \<Rightarrow> CipCommonPacketFormatData \<Rightarrow> ENIPMessage \<Rightarrow> ENIPMessage run" where
  "write_reply d resp p m = do {
     m \<leftarrow> SkipEncapsulationHeader m;
     (_, m) \<leftarrow> AssembleLinearMessage (Some resp) p m;
     let pos = current_message_position m;
     m \<leftarrow> GenerateEncapsulationHeader d (used_message_length m) (encap_session_handle d) kEncapsulationProtocolSuccess
       (m\<lparr>current_message_position := InMessage 0\<rparr>);
     Some (m\<lparr>current_message_position := pos\<rparr>) }"

definition NotifyCommonPacketFormat :: "'e stack_state_scheme cip_env \<Rightarrow> EncapsulationData \<Rightarrow> ENIPMessage \<Rightarrow> 'e stack_state_scheme \<Rightarrow>
    (EipStatus \<times> ENIPMessage \<times> 'e stack_state_scheme) run" where
  "NotifyCommonPacketFormat env d m st = do {
     (status, p) \<leftarrow> CreateCommonPacketFormatStructure (current_communication_buffer_position d) (ucast (encap_data_length d))
       (g_common_packet_format_data_item st);
     let st = st\<lparr>g_common_packet_format_data_item := p\<rparr>;
     if status = kEipStatusError then Some (kEipStatusError, m, st)
     else if address_type_id (address_item p) = kCipItemIdNullAddress \<and> data_type_id (data_item p) = kCipItemIdUnconnectedDataItem
     then do {
       (status, resp, st) \<leftarrow> NotifyMessageRouter env (data_item_data (data_item p)) (uint (data_item_length (data_item p)))
         InitializeMessageRouterResponse (encap_session_handle d) st;
       if status \<noteq> kEipStatusError then do {
         m \<leftarrow> write_reply d resp (g_common_packet_format_data_item st) m;
         Some (kEipStatusOkSend, m, st) }
       else Some (kEipStatusError, m, st) }
     else do {
       m \<leftarrow> GenerateEncapsulationHeader d 0 (encap_session_handle d) kEncapsulationProtocolIncorrectData m;
       Some (kEipStatusOkSend, m, st) } }"

text \<open>
  A request that repeats the sequence number of the last one gets the stored reply with a new header;
  its position is then the one of the request's buffer.
\<close>

definition repeat_reply :: "EncapsulationData \<Rightarrow> CipConnectionObject \<Rightarrow> ENIPMessage run" where
  "repeat_reply d co = do {
     let m = (last_reply_sent co)\<lparr>current_message_position := InMessage 0,
       used_message_length := used_message_length (last_reply_sent co) - of_nat ENCAPSULATION_HEADER_LENGTH\<rparr>;
     m \<leftarrow> GenerateEncapsulationHeader d (used_message_length m) (encap_session_handle d) kEncapsulationProtocolSuccess m;
     Some (m\<lparr>current_message_position := OutsideMessage\<rparr>) }"

definition sent_status :: "ENIPMessage \<Rightarrow> EipStatus" where
  "sent_status m = (if used_message_length m \<noteq> 0 then kEipStatusOkSend else kEipStatusOk)"

definition handle_connected :: "'e stack_state_scheme cip_env \<Rightarrow> EncapsulationData \<Rightarrow> nat \<Rightarrow> ENIPMessage \<Rightarrow> 'e stack_state_scheme \<Rightarrow>
    (EipStatus \<times> ENIPMessage \<times> 'e stack_state_scheme) run" where
  "handle_connected env d c m st = do {
     let p = g_common_packet_format_data_item st;
     (seq, buffer) \<leftarrow> GetUintFromMessage (data_item_data (data_item p));
     let st = on_packet (\<lambda>p. p\<lparr>address_item := (address_item p)\<lparr>address_data :=
       (address_data (address_item p))\<lparr>sequence_number := ucast seq\<rparr>\<rparr>\<rparr>) st;
     co \<leftarrow> get_connection c st;
     if sequence_count_consuming co = seq then do {
       m \<leftarrow> repeat_reply d co;
       Some (kEipStatusOkSend, m, st) }
     else do {
       st \<leftarrow> update_connection c (\<lambda>co. Some (co\<lparr>sequence_count_consuming := seq\<rparr>)) st;
       st \<leftarrow> update_connection c ConnectionObjectResetInactivityWatchdogTimerValue st;
       (status, resp, st) \<leftarrow> NotifyMessageRouter env buffer (uint (data_item_length (data_item p)) - 2)
         InitializeMessageRouterResponse (encap_session_handle d) st;
       if status \<noteq> kEipStatusError then do {
         co \<leftarrow> get_connection c st;
         let st = on_packet (\<lambda>p. p\<lparr>address_item := (address_item p)\<lparr>address_data :=
           (address_data (address_item p))\<lparr>connection_identifier := cip_produced_connection_id co\<rparr>\<rparr>\<rparr>) st;
         m \<leftarrow> write_reply d resp (g_common_packet_format_data_item st) m;
         st \<leftarrow> update_connection c (\<lambda>co. Some (co\<lparr>last_reply_sent := m\<rparr>)) st;
         Some (sent_status m, m, st) }
       else Some (sent_status m, m, st) } }"

definition NotifyConnectedCommonPacketFormat :: "'e stack_state_scheme cip_env \<Rightarrow> EncapsulationData \<Rightarrow> ENIPMessage \<Rightarrow> 'e stack_state_scheme \<Rightarrow>
    (EipStatus \<times> ENIPMessage \<times> 'e stack_state_scheme) run" where
  "NotifyConnectedCommonPacketFormat env d m st = do {
     (status, p) \<leftarrow> CreateCommonPacketFormatStructure (current_communication_buffer_position d) (ucast (encap_data_length d))
       (g_common_packet_format_data_item st);
     let st = st\<lparr>g_common_packet_format_data_item := p\<rparr>;
     if status = kEipStatusError \<or> address_type_id (address_item p) \<noteq> kCipItemIdConnectionAddress then Some (sent_status m, m, st)
     else do {
       found \<leftarrow> GetConnectedObject (connection_identifier (address_data (address_item p))) st;
       (case found of
          None \<Rightarrow> Some (sent_status m, m, st)
        | Some c \<Rightarrow> do {
            st \<leftarrow> update_connection c ConnectionObjectResetInactivityWatchdogTimerValue st;
            if data_type_id (data_item p) = kCipItemIdConnectedDataItem then handle_connected env d c m st
            else Some (sent_status m, m, st) }) } }"

subsection \<open>Requests and unit data\<close>

text \<open>The interface handle and the time-out in front of the packet are skipped.\<close>

definition skip_interface :: "EncapsulationData \<Rightarrow> EncapsulationData run" where
  "skip_interface d = do {
     (_, pos) \<leftarrow> GetUdintFromMessage (current_communication_buffer_position d);
     (_, pos) \<leftarrow> GetUintFromMessage pos;
     Some (d\<lparr>current_communication_buffer_position := pos, encap_data_length := encap_data_length d - 6\<rparr>) }"

definition over_session :: "(EncapsulationData \<Rightarrow> ENIPMessage \<Rightarrow> 'e stack_state_scheme \<Rightarrow> (EipStatus \<times> ENIPMessage \<times> 'e stack_state_scheme) run) \<Rightarrow>
    EncapsulationData \<Rightarrow> ENIPMessage \<Rightarrow> 'e stack_state_scheme \<Rightarrow> (EipStatus \<times> ENIPMessage \<times> 'e stack_state_scheme) run" where
  "over_session notify d m st = (
     if encap_data_length d \<ge> 6 then do {
       d \<leftarrow> skip_interface d;
       valid \<leftarrow> CheckRegisteredSessions (encap_session_handle d) st;
       if valid = kSessionStatusValid then notify d m st
       else do {
         m \<leftarrow> GenerateEncapsulationHeader d 0 (encap_session_handle d) kEncapsulationProtocolInvalidSessionHandle (InitializeENIPMessage m);
         Some (kEipStatusOkSend, m, st) } }
     else Some (kEipStatusOk, m, st))"

definition HandleReceivedSendUnitDataCommand :: "'e stack_state_scheme cip_env \<Rightarrow> EncapsulationData \<Rightarrow> ENIPMessage \<Rightarrow> 'e stack_state_scheme \<Rightarrow>
    (EipStatus \<times> ENIPMessage \<times> 'e stack_state_scheme) run" where
  "HandleReceivedSendUnitDataCommand env d m st = over_session (NotifyConnectedCommonPacketFormat env) d m st"

definition HandleReceivedSendRequestResponseDataCommand :: "'e stack_state_scheme cip_env \<Rightarrow> EncapsulationData \<Rightarrow> ENIPMessage \<Rightarrow>
    'e stack_state_scheme \<Rightarrow> (EipStatus \<times> ENIPMessage \<times> 'e stack_state_scheme) run" where
  "HandleReceivedSendRequestResponseDataCommand env d m st = over_session (NotifyCommonPacketFormat env) d m st"

subsection \<open>Received messages\<close>

definition tcp_command :: "'e encap_state_scheme cip_env \<Rightarrow> int \<Rightarrow> EncapsulationData \<Rightarrow> ENIPMessage \<Rightarrow> 'e encap_state_scheme \<Rightarrow>
    (EipStatus \<times> ENIPMessage \<times> 'e encap_state_scheme) run" where
  "tcp_command env sock d m st = (
     let c = command_code d in
     if c = kEncapsulationCommandNoOperation then Some (kEipStatusOk, m, st)
     else if c = kEncapsulationCommandListServices then do {
       m \<leftarrow> HandleReceivedListServicesCommand d m st; Some (kEipStatusOkSend, m, st) }
     else if c = kEncapsulationCommandListIdentity then do {
       m \<leftarrow> HandleReceivedListIdentityCommandTcp d m st; Some (kEipStatusOkSend, m, st) }
     else if c = kEncapsulationCommandListInterfaces then do {
       m \<leftarrow> HandleReceivedListInterfacesCommand d m; Some (kEipStatusOkSend, m, st) }
     else if c = kEncapsulationCommandRegisterSession then do {
       (m, st) \<leftarrow> HandleReceivedRegisterSessionCommand sock d m st; Some (kEipStatusOkSend, m, st) }
     else if c = kEncapsulationCommandUnregisterSession then HandleReceivedUnregisterSessionCommand d m st
     else if c = kEncapsulationCommandSendRequestReplyData then HandleReceivedSendRequestResponseDataCommand env d m st
     else if c = kEncapsulationCommandSendUnitData then HandleReceivedSendUnitDataCommand env d m st
     else do { (status, m) \<leftarrow> HandleReceivedInvalidCommand d m; Some (status, m, st) })"

text \<open>The result is the status, the number of remaining octets, the reply and the state.\<close>

definition HandleReceivedExplictTcpData :: "'e encap_state_scheme cip_env \<Rightarrow> int \<Rightarrow> CipOctet list \<Rightarrow> size_t \<Rightarrow> sockaddr_in \<Rightarrow>
    ENIPMessage \<Rightarrow> 'e encap_state_scheme \<Rightarrow> (EipStatus \<times> int \<times> ENIPMessage \<times> 'e encap_state_scheme) run" where
  "HandleReceivedExplictTcpData env sock buffer len originator m st = do {
     (remaining, d) \<leftarrow> CreateEncapsulationStructure buffer len;
     if remaining < 0 then Some (kEipStatusError, 0, m, st)
     else if encap_options d \<noteq> 0 then Some (kEipStatusOk, remaining, m, st)
     else do {
       (status, m, st) \<leftarrow> tcp_command env sock (d\<lparr>encap_status := kEncapsulationProtocolSuccess\<rparr>) m (st\<lparr>originator_sockaddr := originator\<rparr>);
       Some (status, remaining, m, st) } }"

definition HandleReceivedExplictUdpData :: "os_env \<Rightarrow> int \<Rightarrow> sockaddr_in \<Rightarrow> CipOctet list \<Rightarrow> size_t \<Rightarrow> bool \<Rightarrow>
    ENIPMessage \<Rightarrow> 'e encap_state_scheme \<Rightarrow> (EipStatus \<times> int \<times> ENIPMessage \<times> 'e encap_state_scheme) run" where
  "HandleReceivedExplictUdpData os sock from_address buffer len unicast m st = do {
     (remaining, d) \<leftarrow> CreateEncapsulationStructure buffer len;
     if remaining < 0 then Some (kEipStatusError, 0, m, st)
     else if encap_options d \<noteq> 0 then Some (kEipStatusOk, remaining, m, st)
     else do {
       let d = d\<lparr>encap_status := kEncapsulationProtocolSuccess\<rparr>;
       let c = command_code d;
       if c = kEncapsulationCommandListServices then do {
         m \<leftarrow> HandleReceivedListServicesCommand d m st; Some (kEipStatusOkSend, remaining, m, st) }
       else if c = kEncapsulationCommandListIdentity then
         if unicast then do {
           m \<leftarrow> HandleReceivedListIdentityCommandTcp d m st; Some (kEipStatusOkSend, remaining, m, st) }
         else do {
           st \<leftarrow> HandleReceivedListIdentityCommandUdp os sock from_address d st;
           Some (kEipStatusOk, remaining, m, st) }
       else if c = kEncapsulationCommandListInterfaces then do {
         m \<leftarrow> HandleReceivedListInterfacesCommand d m; Some (kEipStatusOkSend, remaining, m, st) }
       else Some (kEipStatusOkSend, remaining, m, st) } }"

subsection \<open>Frames\<close>

definition header_bytes :: "EncapsulationData \<Rightarrow> size_t \<Rightarrow> CipSessionHandle \<Rightarrow> CipUdint \<Rightarrow> CipOctet list" where
  "header_bytes d len session status = int_bytes (command_code d) @ int_bytes (ucast len) @ dint_bytes session @
     dint_bytes status @ take 8 (sender_context d) @ dint_bytes 0"

lemma GenerateEncapsulationHeader_wire:
  "8 \<le> length (sender_context d) \<Longrightarrow> GenerateEncapsulationHeader d len session status = emit (header_bytes d len session status)"
  by (intro ext) (simp add: GenerateEncapsulationHeader_def header_bytes_def wire_simps emit_emit emit_emit_bind read_bytes_def)

lemma header_bytes_length: "8 \<le> length (sender_context d) \<Longrightarrow> length (header_bytes d len session status) = 24"
  by (simp add: header_bytes_def)

text \<open>A frame as it is received: header and data, behind which the receive buffer may hold more octets.\<close>

definition frame_bytes :: "CipUint \<Rightarrow> CipSessionHandle \<Rightarrow> CipUdint \<Rightarrow> CipOctet list \<Rightarrow> CipUdint \<Rightarrow> CipOctet list \<Rightarrow> CipOctet list" where
  "frame_bytes command session status ctxt opts data = int_bytes command @ int_bytes (of_nat (length data)) @ dint_bytes session @
     dint_bytes status @ ctxt @ dint_bytes opts @ data"

abbreviation frame_data :: "CipUint \<Rightarrow> CipSessionHandle \<Rightarrow> CipUdint \<Rightarrow> CipOctet list \<Rightarrow> CipUdint \<Rightarrow> CipOctet list \<Rightarrow> CipOctet list \<Rightarrow>
    EncapsulationData" where
  "frame_data command session status ctxt opts data rest \<equiv> \<lparr>command_code = command, encap_data_length = of_nat (length data),
     encap_session_handle = session, encap_status = status, sender_context = ctxt, encap_options = opts,
     communication_buffer_start = frame_bytes command session status ctxt opts data @ rest,
     current_communication_buffer_position = data @ rest\<rparr>"

lemma read_frame:
  assumes "length ctxt = 8" and "length data < 65536" and "unat len \<le> 2147483647"
  shows "CreateEncapsulationStructure (frame_bytes command session status ctxt opts data @ rest) len =
    Some (uint len - 24 - int (length data), frame_data command session status ctxt opts data rest)"
proof -
  have n: "uint (of_nat (length data) :: CipUint) = int (length data)"
    using assms(2) by (simp add: unsigned_of_nat take_bit_nat_eq_self of_nat_take_bit [symmetric])
  have c: "read_bytes 8 (ctxt @ r) = Some (ctxt, r)" for r
    using assms(1) read_bytes_append [of ctxt r] by simp
  show ?thesis
    using assms(3) by (simp add: CreateEncapsulationStructure_def frame_bytes_def uint.dec_enc udint.dec_enc c n)
qed

lemma header_is_frame:
  assumes "length (sender_context d) = 8" and "length data < 65536"
  shows "header_bytes d (of_nat (length data)) session status @ data = frame_bytes (command_code d) session status (sender_context d) 0 data"
proof -
  have "(ucast (of_nat (length data) :: size_t) :: CipUint) = of_nat (length data)"
    using assms(2) by (simp add: ucast_of_unat unat_of_nat take_bit_nat_eq_self)
  with assms(1) show ?thesis by (simp add: header_bytes_def frame_bytes_def)
qed

text \<open>Octets written behind the place of a header, and the header in front of them.\<close>

lemma emit_behind_header:
  assumes "holds_octets m []" and "length header = 24" and "24 + length xs \<le> 512"
  obtains m1 m2 where "SkipEncapsulationHeader m = Some m1" "ready m1" "emit xs m1 = Some m2"
    "used_message_length m2 = of_nat (length xs)"
    "\<exists>m3. emit header (m2\<lparr>current_message_position := InMessage 0\<rparr>) = Some m3 \<and>
       holds_octets (m3\<lparr>current_message_position := current_message_position m2\<rparr>) (header @ xs)"
proof -
  let ?m1 = "m\<lparr>current_message_position := InMessage 24\<rparr>"
  have len: "length (message_buffer m) = 512" using assms(1) by (simp add: holds_octets_def)
  have skip: "SkipEncapsulationHeader m = Some ?m1"
    using assms(1) by (simp add: SkipEncapsulationHeader_def move_position_def holds_octets_def)
  let ?m2 = "?m1\<lparr>message_buffer := take 24 (message_buffer m) @ xs @ drop (24 + length xs) (message_buffer m),
      current_message_position := InMessage (24 + length xs), used_message_length := of_nat (length xs)\<rparr>"
  have "emit xs ?m1 = Some ?m2"
    using assms(1,3) len by (simp add: emit_InMessage holds_octets_def)
  moreover have "ready ?m1" using len by (simp add: ready_def)
  moreover let ?m3 = "?m2\<lparr>message_buffer := header @ xs @ drop (24 + length xs) (message_buffer m),
      current_message_position := InMessage 24, used_message_length := of_nat (24 + length xs)\<rparr>"
  have "emit header (?m2\<lparr>current_message_position := InMessage 0\<rparr>) = Some ?m3"
    using assms(2,3) len by (simp add: emit_InMessage add.commute)
  moreover have "holds_octets (?m3\<lparr>current_message_position := current_message_position ?m2\<rparr>) (header @ xs)"
    using assms(2,3) len by (simp add: holds_octets_def)
  ultimately show thesis using skip that [of ?m1 ?m2] by simp
qed

lemma write_reply_frame:
  assumes "holds_octets m []" and "length (sender_context d) = 8" and "known_address p" and "response_ok resp"
    and "24 + length (reply_packet_bytes p resp) \<le> 512"
  shows "\<exists>m'. write_reply d resp p m = Some m' \<and> holds_octets m' (frame_bytes (command_code d) (encap_session_handle d)
    kEncapsulationProtocolSuccess (sender_context d) 0 (reply_packet_bytes p resp))"
proof -
  let ?xs = "reply_packet_bytes p resp"
  let ?h = "header_bytes d (of_nat (length ?xs)) (encap_session_handle d) kEncapsulationProtocolSuccess"
  obtain m1 m2 where m: "SkipEncapsulationHeader m = Some m1" "ready m1" "emit ?xs m1 = Some m2"
      "used_message_length m2 = of_nat (length ?xs)"
      "\<exists>m3. emit ?h (m2\<lparr>current_message_position := InMessage 0\<rparr>) = Some m3 \<and>
        holds_octets (m3\<lparr>current_message_position := current_message_position m2\<rparr>) (?h @ ?xs)"
    using emit_behind_header [OF assms(1), of ?h ?xs] assms(2,5) header_bytes_length [of d] by auto
  then show ?thesis
    using AssembleLinearMessage_reply [OF assms(3,4) m(2)] assms(2,5) header_is_frame [OF assms(2), of ?xs]
    by (auto simp: write_reply_def GenerateEncapsulationHeader_wire Let_def)
qed

end
