(* ===== verification/ListIdentity.thy ===== *)
theory ListIdentity
  imports Encap
begin

text \<open>
  The List Identity command: the reply as octets, and the reply to a broadcast, which is kept with a
  random delay and sent by a later pass of \<^verbatim>\<open>ManageEncapsulationMessages\<close>.
\<close>

subsection \<open>The List Identity reply\<close>

text \<open>The values of the identity object that the reply shows.\<close>

record identity_values =
  iv_identity :: CipIdentityObject
  iv_status :: CipUint
  iv_serial :: CipUdint
  iv_name :: "CipOctet list"
  iv_state :: CipUsint

definition identity_shows :: "identity_values \<Rightarrow> 'e cip_state_scheme \<Rightarrow> bool" where
  "identity_shows v st \<longleftrightarrow> g_identity st = Some (iv_identity v) \<and> cell16 (s_identity 5) st = Some (iv_status v) \<and>
     data_store st (s_identity 6) = Some (V32 (iv_serial v)) \<and> length (iv_name v) < 256 \<and>
     product_name st = Some \<lparr>css_length = of_nat (length (iv_name v)), css_string = Some (iv_name v)\<rparr> \<and>
     data_store st (s_identity 8) = Some (V8 (iv_state v))"

definition identity_bytes :: "identity_values \<Rightarrow> CipUdint \<Rightarrow> CipOctet list" where
  "identity_bytes v ip = int_bytes 1 @ sockaddr_bytes kOpENerEndianessLittle (net16 kOpenerEthernetPort) ip @ replicate 8 0 @
     int_bytes (id_vendor_id (iv_identity v)) @ int_bytes (id_device_type (iv_identity v)) @ int_bytes (id_product_code (iv_identity v)) @
     [id_major_revision (iv_identity v), id_minor_revision (iv_identity v)] @ int_bytes (iv_status v) @ dint_bytes (iv_serial v) @
     [of_nat (length (iv_name v))] @ iv_name v @ [iv_state v]"

text \<open>One item of type 0x0C with its length.\<close>

definition identity_reply :: "identity_values \<Rightarrow> CipUdint \<Rightarrow> CipOctet list" where
  "identity_reply v ip = int_bytes 1 @ int_bytes 0x0C @ int_bytes (of_nat (length (identity_bytes v ip))) @ identity_bytes v ip"

lemma identity_bytes_length: "length (identity_bytes v ip) = 34 + length (iv_name v)"
  by (simp add: identity_bytes_def sockaddr_bytes_def)

lemma item_length:
  assumes "n < 256"
  shows "(34 + ucast (of_nat n :: CipUsint) :: CipUint) = of_nat (34 + n)"
    and "(ucast (of_nat (34 + n) + 6 :: CipUint) :: size_t) = of_nat (40 + n)"
proof -
  have "(ucast (of_nat n :: CipUsint) :: CipUint) = of_nat n" using assms by (simp add: word_unat_eq_iff)
  then show "(34 + ucast (of_nat n :: CipUsint) :: CipUint) = of_nat (34 + n)" by simp
  have "(of_nat (34 + n) + 6 :: CipUint) = of_nat (40 + n)" by simp
  moreover have "(ucast (of_nat (40 + n) :: CipUint) :: size_t) = of_nat (40 + n)"
    using assms unat_of_nat_small(2) [of "40 + n"] unat_of_nat_small(3) [of "40 + n"] by (simp add: word_unat_eq_iff del: of_nat_add)
  ultimately show "(ucast (of_nat (34 + n) + 6 :: CipUint) :: size_t) = of_nat (40 + n)" by (simp only:)
qed

lemma list_identity_frame:
  assumes "identity_shows v st" and "length (sender_context d) = 8"
  shows "EncapsulateListIdentityResponseMessage d m st =
    emit (frame_bytes (command_code d) 0 0 (sender_context d) 0 (identity_reply v (interface_ip_address st))) m"
proof -
  let ?n = "length (iv_name v)"
  note v = assms(1) [unfolded identity_shows_def]
  have len: "ListIdentityGetCipIdentityItemLength st = Some (of_nat (34 + ?n))"
    using v item_length(1) [of ?n] by (simp add: ListIdentityGetCipIdentityItemLength_def)
  have name: "read_bytes ?n (iv_name v) = Some (iv_name v, [])" by (simp add: read_bytes_def)
  have item: "EncodeListIdentityCipIdentityItem m st = emit (int_bytes 0x0C @ int_bytes (of_nat (34 + ?n)) @
      identity_bytes v (interface_ip_address st)) m" for m
    using v by (simp add: EncodeListIdentityCipIdentityItem_def len name wire_simps emit_emit emit_emit_bind identity_bytes_def sint_bytes_def
        del: of_nat_add)
  have "length (identity_reply v (interface_ip_address st)) = 40 + ?n"
    by (simp add: identity_reply_def identity_bytes_length)
  then have "header_bytes d (of_nat (40 + ?n)) 0 0 @ identity_reply v (interface_ip_address st) =
      frame_bytes (command_code d) 0 0 (sender_context d) 0 (identity_reply v (interface_ip_address st))"
    using header_is_frame [OF assms(2), of "identity_reply v (interface_ip_address st)" 0 0] v by simp
  moreover have "(ucast (of_nat (34 + ?n) + 6 :: CipUint) :: size_t) = of_nat (40 + ?n)"
    using v item_length(2) [of ?n] by blast
  ultimately show ?thesis
    using assms(2)
    by (simp add: EncapsulateListIdentityResponseMessage_def len item GenerateEncapsulationHeader_wire wire_simps emit_emit emit_emit_bind
        identity_reply_def identity_bytes_length del: of_nat_add)
qed

subsection \<open>Delayed replies\<close>

definition pending :: "DelayedEncapsulationMessage \<Rightarrow> bool" where
  "pending d \<longleftrightarrow> delayed_socket d \<noteq> kEipInvalidSocket"

definition reply_of :: "DelayedEncapsulationMessage \<Rightarrow> net_event" where
  "reply_of d = DatagramSent (delayed_receiver d) (sent_octets (delayed_message d))"

text \<open>A delayed reply after a pass, and what the pass sends.\<close>

definition age :: "MilliSeconds \<Rightarrow> DelayedEncapsulationMessage \<Rightarrow> DelayedEncapsulationMessage" where
  "age elapsed d = (if \<not> pending d then d else if sint (delayed_time_out d - elapsed) \<le> 0
     then d\<lparr>delayed_time_out := delayed_time_out d - elapsed, delayed_socket := kEipInvalidSocket\<rparr>
     else d\<lparr>delayed_time_out := delayed_time_out d - elapsed\<rparr>)"

definition due :: "MilliSeconds \<Rightarrow> DelayedEncapsulationMessage \<Rightarrow> net_event list" where
  "due elapsed d = (if pending d \<and> sint (delayed_time_out d - elapsed) \<le> 0 then [reply_of d] else [])"

lemma manage_delayed_slot:
  assumes "i < length (g_delayed_encapsulation_messages st)"
  shows "manage_delayed elapsed i st = Some (st\<lparr>
     g_delayed_encapsulation_messages := (g_delayed_encapsulation_messages st)[i := age elapsed (g_delayed_encapsulation_messages st ! i)],
     net_events := net_events st @ due elapsed (g_delayed_encapsulation_messages st ! i)\<rparr>)"
  using assms by (simp add: manage_delayed_def age_def due_def pending_def reply_of_def note_event_def Let_def)

lemma ManageEncapsulationMessages_slots:
  assumes "g_delayed_encapsulation_messages st = [d0, d1]"
  shows "ManageEncapsulationMessages elapsed st = Some (st\<lparr>g_delayed_encapsulation_messages := [age elapsed d0, age elapsed d1],
     net_events := net_events st @ due elapsed d0 @ due elapsed d1\<rparr>)"
  using assms by (simp add: ManageEncapsulationMessages_def upt_rec manage_delayed_slot)

fun passes :: "MilliSeconds list \<Rightarrow> 'e encap_state_scheme \<Rightarrow> 'e encap_state_scheme run" where
  "passes [] st = Some st"
| "passes (e # es) st = do { st \<leftarrow> ManageEncapsulationMessages e st; passes es st }"

lemma age_idle [simp]: "\<not> pending d \<Longrightarrow> age e d = d" "\<not> pending d \<Longrightarrow> due e d = []"
  by (simp_all add: age_def due_def)

lemma uint_less: "unat (w :: CipUdint) < 2147483648 \<Longrightarrow> uint w < 2147483648"
  by (metis of_nat_less_iff of_nat_numeral uint_nat)

lemma sint_sub_small:
  fixes t e :: CipUdint
  assumes "unat t < 2147483648" and "unat e < 2147483648"
  shows "sint (t - e) = uint t - uint e"
proof -
  have range: "0 \<le> uint t" "0 \<le> uint e" "uint t < 2147483648" "uint e < 2147483648"
    using uint_less assms by simp_all
  have small: "- 2147483648 \<le> k \<Longrightarrow> k < 2147483648 \<Longrightarrow> signed_take_bit 31 k = k" for k :: int
    using signed_take_bit_int_eq_self [of 31 k] by simp
  have "sint t = uint t" "sint e = uint e"
    using small [of "uint t"] small [of "uint e"] range by (simp_all add: sint_uint)
  moreover have "sint (t - e) = signed_take_bit 31 (sint t - sint e)" by (simp add: sint_word_ariths)
  moreover have "signed_take_bit 31 (uint t - uint e) = uint t - uint e" by (intro small) (use range in linarith)+
  ultimately show ?thesis by simp
qed

lemma aged:
  assumes "pending d" and "unat (delayed_time_out d) < 2147483648" and "unat e < 2147483648"
  shows "unat (delayed_time_out d) \<le> unat e \<Longrightarrow> \<not> pending (age e d) \<and> due e d = [reply_of d]"
    and "unat e < unat (delayed_time_out d) \<Longrightarrow> pending (age e d) \<and> due e d = [] \<and> reply_of (age e d) = reply_of d \<and>
      unat (delayed_time_out (age e d)) = unat (delayed_time_out d) - unat e"
proof -
  have s: "sint (delayed_time_out d - e) \<le> 0 \<longleftrightarrow> unat (delayed_time_out d) \<le> unat e"
    unfolding sint_sub_small [OF assms(2,3)] word_le_nat_alt [symmetric] word_le_def by simp
  show "unat (delayed_time_out d) \<le> unat e \<Longrightarrow> \<not> pending (age e d) \<and> due e d = [reply_of d]"
    using assms(1) by (simp add: age_def due_def s pending_def)
  assume less: "unat e < unat (delayed_time_out d)"
  then have "unat (delayed_time_out d - e) = unat (delayed_time_out d) - unat e"
    by (simp add: unat_sub word_le_nat_alt)
  with less show "pending (age e d) \<and> due e d = [] \<and> reply_of (age e d) = reply_of d \<and>
      unat (delayed_time_out (age e d)) = unat (delayed_time_out d) - unat e"
    using assms(1) by (simp add: age_def due_def s pending_def reply_of_def)
qed

text \<open>What passes with the elapsed times \<open>es\<close> send of one slot: its reply, once, if the times reach the delay.\<close>

definition sent_within :: "MilliSeconds list \<Rightarrow> DelayedEncapsulationMessage \<Rightarrow> net_event list" where
  "sent_within es d = (if es \<noteq> [] \<and> pending d \<and> unat (delayed_time_out d) \<le> sum_list (map unat es) then [reply_of d] else [])"

definition short_delay :: "DelayedEncapsulationMessage \<Rightarrow> bool" where
  "short_delay d \<longleftrightarrow> (pending d \<longrightarrow> unat (delayed_time_out d) < 2147483648)"

lemma sent_within_step:
  assumes "short_delay d" and "unat e < 2147483648"
  shows "sent_within (e # es) d = due e d @ sent_within es (age e d)" and "due e d = [] \<or> sent_within es (age e d) = []"
    and "short_delay (age e d)"
proof -
  have "sent_within (e # es) d = due e d @ sent_within es (age e d) \<and> (due e d = [] \<or> sent_within es (age e d) = []) \<and> short_delay (age e d)"
  proof (cases "pending d")
    case True
    then have d: "unat (delayed_time_out d) < 2147483648" using assms(1) by (simp add: short_delay_def)
    show ?thesis
    proof (cases "unat (delayed_time_out d) \<le> unat e")
      case le: True
      then show ?thesis using aged(1) [OF True d assms(2)] True by (simp add: sent_within_def short_delay_def)
    next
      case False
      then have "pending (age e d)" "due e d = []" "reply_of (age e d) = reply_of d"
          "unat (delayed_time_out (age e d)) = unat (delayed_time_out d) - unat e"
        using aged(2) [OF True d assms(2)] by auto
      then show ?thesis using True False d by (cases es) (auto simp: sent_within_def short_delay_def)
    qed
  qed (simp add: sent_within_def short_delay_def)
  then show "sent_within (e # es) d = due e d @ sent_within es (age e d)" "due e d = [] \<or> sent_within es (age e d) = []"
    "short_delay (age e d)" by blast+
qed

lemma interleave:
  assumes "evs = a @ b \<or> evs = b @ a" and "da = [] \<or> a = []" and "db = [] \<or> b = []"
  shows "da @ db @ evs = (da @ a) @ db @ b \<or> da @ db @ evs = (db @ b) @ da @ a"
  using assms by auto

lemma passes_send_once:
  assumes "g_delayed_encapsulation_messages st = [x, y]" and "short_delay x" and "short_delay y" and "\<forall>e \<in> set es. unat e < 2147483648"
  shows "\<exists>st' evs. passes es st = Some st' \<and> net_events st' = net_events st @ evs \<and>
    (evs = sent_within es x @ sent_within es y \<or> evs = sent_within es y @ sent_within es x)"
  using assms
proof (induction es arbitrary: x y st)
  case Nil
  then show ?case by (simp add: sent_within_def)
next
  case (Cons e es)
  have e: "unat e < 2147483648" and es: "\<forall>e \<in> set es. unat e < 2147483648" using Cons.prems(4) by simp_all
  let ?st = "st\<lparr>g_delayed_encapsulation_messages := [age e x, age e y], net_events := net_events st @ due e x @ due e y\<rparr>"
  note x = sent_within_step [OF Cons.prems(2) e] and y = sent_within_step [OF Cons.prems(3) e]
  obtain st' evs where st': "passes es ?st = Some st'" "net_events st' = net_events ?st @ evs"
      "evs = sent_within es (age e x) @ sent_within es (age e y) \<or> evs = sent_within es (age e y) @ sent_within es (age e x)"
    using Cons.IH [of ?st "age e x" "age e y"] x(3) y(3) es by auto
  have "passes (e # es) st = Some st'"
    using st'(1) ManageEncapsulationMessages_slots [OF Cons.prems(1), of e] by simp
  moreover have "net_events st' = net_events st @ (due e x @ due e y @ evs)" using st'(2) by simp
  ultimately show ?case using interleave [OF st'(3) x(2) y(2)] x(1) y(1) by metis
qed

subsection \<open>Broadcast List Identity\<close>

text \<open>The longest delay a request asks for: the first word of its sender context, at least 500, or 2000 for 0.\<close>

definition longest_delay :: "CipOctet list \<Rightarrow> nat" where
  "longest_delay ctxt = (case GetUintFromMessage ctxt of None \<Rightarrow> 0 | Some (t, _) \<Rightarrow>
     if t = 0 then 2000 else max 500 (unat t))"

lemma GetUint_append: "GetUintFromMessage bs = Some (t, r) \<Longrightarrow> GetUintFromMessage (bs @ xs) = Some (t, r @ xs)"
  by (induction bs rule: GetUintFromMessage.induct) auto

lemma DetermineDelayTime_frame:
  assumes "length ctxt = 8"
  shows "\<exists>t. DetermineDelayTime os (frame_bytes c session status ctxt opts data @ rest) d st = Some (d\<lparr>delayed_time_out := t\<rparr>, next_call st) \<and>
    unat t < longest_delay ctxt"
proof -
  obtain t r where t: "GetUintFromMessage ctxt = Some (t, r)"
    using uint.dec_long [of ctxt] assms by auto
  have skip: "read_bytes 12 (frame_bytes c session status ctxt opts data @ rest) =
      Some (int_bytes c @ int_bytes (of_nat (length data)) @ dint_bytes session @ dint_bytes status, ctxt @ dint_bytes opts @ data @ rest)"
    by (simp add: read_bytes_def frame_bytes_def)
  let ?max = "if t = 0 then kListIdentityDefaultDelayTime else if kListIdentityMinimumDelayTime > t then kListIdentityMinimumDelayTime else t"
  have max: "unat (ucast ?max :: CipUdint) = longest_delay ctxt" "0 < longest_delay ctxt"
    by (auto simp: longest_delay_def t word_less_nat_alt)
  have "unat (x mod ucast ?max) < longest_delay ctxt" for x :: CipUdint
    using max by (simp only: unat_mod mod_less_divisor)
  moreover have "DetermineDelayTime os (frame_bytes c session status ctxt opts data @ rest) d st =
      Some (d\<lparr>delayed_time_out := os_random os (os_calls st) mod ucast ?max\<rparr>, next_call st)"
    using GetUint_append [OF t] by (simp add: DetermineDelayTime_def skip Let_def)
  ultimately show ?thesis by (intro exI conjI)
qed

lemma list_identity_taken:
  assumes "length ctxt = 8" and "length data < 65536" and "unat len = 24 + length data"
  shows "HandleReceivedExplictUdpData os sock sender (frame_bytes kEncapsulationCommandListIdentity session status ctxt 0 data) len False m st =
    do { st1 \<leftarrow> HandleReceivedListIdentityCommandUdp os sock sender
           ((frame_data kEncapsulationCommandListIdentity session status ctxt 0 data [])\<lparr>encap_status := kEncapsulationProtocolSuccess\<rparr>) st;
         Some (kEipStatusOk, 0, m, st1) }"
proof -
  have "uint len = int (24 + length data)" using assms(3) by (metis uint_nat)
  then have "CreateEncapsulationStructure (frame_bytes kEncapsulationCommandListIdentity session status ctxt 0 data) len =
      Some (0, frame_data kEncapsulationCommandListIdentity session status ctxt 0 data [])"
    using read_frame [OF assms(1,2), of len kEncapsulationCommandListIdentity session status 0 "[]"] assms(2,3) by simp
  then show ?thesis by (simp add: HandleReceivedExplictUdpData_def Let_def)
qed

text \<open>The first free buffer takes the answer.\<close>

lemma list_identity_delayed:
  assumes "length ctxt = 8" and "identity_shows v st" and "g_delayed_encapsulation_messages st = [x, y]"
    and free: "\<not> (pending x \<and> pending y)" and "sock \<noteq> kEipInvalidSocket"
  shows "\<exists>st1 new. HandleReceivedListIdentityCommandUdp os sock sender
      ((frame_data kEncapsulationCommandListIdentity session status ctxt 0 data [])\<lparr>encap_status := kEncapsulationProtocolSuccess\<rparr>) st = Some st1 \<and>
    net_events st1 = net_events st \<and> g_delayed_encapsulation_messages st1 = (if pending x then [x, new] else [new, y]) \<and>
    unat (delayed_time_out new) < longest_delay ctxt \<and> pending new \<and> reply_of new = DatagramSent sender
      (frame_bytes kEncapsulationCommandListIdentity 0 0 ctxt 0 (identity_reply v (interface_ip_address st)))"
proof -
  let ?frame = "frame_bytes kEncapsulationCommandListIdentity session status ctxt 0 data"
  let ?reply = "frame_bytes kEncapsulationCommandListIdentity 0 0 ctxt 0 (identity_reply v (interface_ip_address st))"
  define d where "d = (frame_data kEncapsulationCommandListIdentity session status ctxt 0 data [])\<lparr>encap_status := kEncapsulationProtocolSuccess\<rparr>"
  define slot where "slot = (if pending x then y else x)"
  let ?slot = "slot\<lparr>delayed_socket := sock, delayed_receiver := sender\<rparr>"
  obtain t where t: "DetermineDelayTime os ?frame ?slot st = Some (?slot\<lparr>delayed_time_out := t\<rparr>, next_call st)" "unat t < longest_delay ctxt"
    using DetermineDelayTime_frame [OF assms(1), of os kEncapsulationCommandListIdentity session status 0 data "[]" ?slot st] by auto
  have "identity_shows v (next_call st)" "interface_ip_address (next_call st) = interface_ip_address st"
    using assms(2) by (simp_all add: identity_shows_def next_call_def g_identity_def cell16_def product_name_def)
  moreover have ctxt: "length (sender_context d) = 8" "command_code d = kEncapsulationCommandListIdentity" "sender_context d = ctxt"
    using assms(1) by (simp_all add: d_def)
  moreover have "length ?reply \<le> 512"
    using assms(1,2) by (simp add: frame_bytes_def identity_reply_def identity_bytes_length identity_shows_def)
  then obtain m' where m': "emit ?reply (InitializeENIPMessage (delayed_message slot)) = Some m'" "holds_octets m' ?reply"
    using holds_octets_emit_fits [OF holds_octets_init [of "delayed_message slot"], of ?reply] by auto
  ultimately have enc: "EncapsulateListIdentityResponseMessage d (InitializeENIPMessage (delayed_message slot)) (next_call st) = Some m'"
    using list_identity_frame [of v "next_call st" d "InitializeENIPMessage (delayed_message slot)"] by simp
  define new where "new = ?slot\<lparr>delayed_time_out := t, delayed_message := m'\<rparr>"
  define st1 where "st1 = (next_call st)\<lparr>g_delayed_encapsulation_messages := (if pending x then [x, new] else [new, y])\<rparr>"
  have "HandleReceivedListIdentityCommandUdp os sock sender d st = Some st1"
    using assms(3) free t(1) enc
    by (cases "pending x") (simp_all add: HandleReceivedListIdentityCommandUdp_def pending_def d_def next_call_def Let_def st1_def new_def slot_def)
  moreover have "pending new" "reply_of new = DatagramSent sender ?reply" "unat (delayed_time_out new) < longest_delay ctxt"
    using assms(5) sent_octets_holds [OF m'(2)] t(2) by (simp_all add: pending_def reply_of_def new_def)
  ultimately show ?thesis unfolding d_def by (intro exI [of _ st1] exI [of _ new]) (simp add: st1_def next_call_def)
qed

text \<open>Both buffers are served, whichever of them took the answer.\<close>

lemma delayed_sent_once:
  assumes "g_delayed_encapsulation_messages st1 = (if pending x then [x, new] else [new, y])"
    and "short_delay x" and "short_delay y" and "short_delay new" and es: "\<forall>e \<in> set es. unat e < 2147483648"
  shows "\<exists>st2. passes es st1 = Some st2 \<and>
    (net_events st2 = net_events st1 @ sent_within es new @ sent_within es (if pending x then x else y) \<or>
     net_events st2 = net_events st1 @ sent_within es (if pending x then x else y) @ sent_within es new)"
proof (cases "pending x")
  case True
  then show ?thesis using passes_send_once [OF _ assms(2,4) es, of st1] assms(1) by auto
next
  case False
  then show ?thesis using passes_send_once [OF _ assms(4,3) es, of st1] assms(1) by auto
qed

text \<open>
  C7: A List Identity request that arrives by broadcast. If both delay buffers are in use it is dropped. Otherwise it is
  not answered at once; the answer is put into the first free buffer, with a delay below the limit the request names, and
  the other buffer is left alone. In the passes of the device that follow, the answer is sent to the sender when the
  elapsed time has reached the delay, exactly once, and it is a well-formed frame with the identity of the device; the
  answer that waits in the other buffer, if there is one, is sent once in the same way, and nothing else is sent.
  (Delays and elapsed times are below 2^31 milliseconds.)
\<close>

theorem broadcast_list_identity:
  assumes "length ctxt = 8" and "length data < 65536" and "unat len = 24 + length data"
    and "identity_shows v st" and "g_delayed_encapsulation_messages st = [x, y]" and "short_delay x" and "short_delay y"
    and "sock \<noteq> kEipInvalidSocket"
  shows "if pending x \<and> pending y
    then HandleReceivedExplictUdpData os sock sender (frame_bytes kEncapsulationCommandListIdentity session status ctxt 0 data)
      len False m st = Some (kEipStatusOk, 0, m, st)
    else \<exists>st1 new. HandleReceivedExplictUdpData os sock sender (frame_bytes kEncapsulationCommandListIdentity session status ctxt 0 data)
      len False m st = Some (kEipStatusOk, 0, m, st1) \<and> net_events st1 = net_events st \<and>
      g_delayed_encapsulation_messages st1 = (if pending x then [x, new] else [new, y]) \<and>
      unat (delayed_time_out new) < longest_delay ctxt \<and>
      (\<forall>es. (\<forall>e \<in> set es. unat e < 2147483648) \<longrightarrow> (\<exists>st2 mine other. passes es st1 = Some st2 \<and>
        (net_events st2 = net_events st @ mine @ other \<or> net_events st2 = net_events st @ other @ mine) \<and>
        mine = (if es \<noteq> [] \<and> unat (delayed_time_out new) \<le> sum_list (map unat es) then [DatagramSent sender
          (frame_bytes kEncapsulationCommandListIdentity 0 0 ctxt 0 (identity_reply v (interface_ip_address st)))] else []) \<and>
        other = sent_within es (if pending x then x else y)))"
proof -
  let ?frame = "frame_bytes kEncapsulationCommandListIdentity session status ctxt 0 data"
  define reply where "reply = frame_bytes kEncapsulationCommandListIdentity 0 0 ctxt 0 (identity_reply v (interface_ip_address st))"
  define d where "d = (frame_data kEncapsulationCommandListIdentity session status ctxt 0 data [])\<lparr>encap_status := kEncapsulationProtocolSuccess\<rparr>"
  have handled: "HandleReceivedExplictUdpData os sock sender ?frame len False m st =
      do { st1 \<leftarrow> HandleReceivedListIdentityCommandUdp os sock sender d st; Some (kEipStatusOk, 0, m, st1) }"
    unfolding d_def by (rule list_identity_taken [OF assms(1-3)])
  show ?thesis
  proof (cases "pending x \<and> pending y")
    case True
    then show ?thesis using handled assms(5) by (simp add: HandleReceivedListIdentityCommandUdp_def pending_def)
  next
    case False
    obtain st1 new where new: "HandleReceivedListIdentityCommandUdp os sock sender d st = Some st1" "net_events st1 = net_events st"
        "g_delayed_encapsulation_messages st1 = (if pending x then [x, new] else [new, y])"
        "unat (delayed_time_out new) < longest_delay ctxt" "pending new" "reply_of new = DatagramSent sender reply"
      using list_identity_delayed [OF assms(1,4,5) False assms(8), where os = os and sender = sender and session = session
        and status = status and data = data] unfolding d_def reply_def by blast
    have "longest_delay ctxt < 65536"
      using unat_bound(2) by (auto simp: longest_delay_def max_def split: option.splits)
    then have short: "short_delay new" using new(4) by (simp add: short_delay_def)
    have mine: "sent_within es new = (if es \<noteq> [] \<and> unat (delayed_time_out new) \<le> sum_list (map unat es)
        then [DatagramSent sender reply] else [])" for es
      using new(5,6) by (simp add: sent_within_def)
    note sent = delayed_sent_once [OF new(3) assms(6,7) short, unfolded mine new(2)]
    have "\<exists>st2 mine other. passes es st1 = Some st2 \<and>
        (net_events st2 = net_events st @ mine @ other \<or> net_events st2 = net_events st @ other @ mine) \<and>
        mine = (if es \<noteq> [] \<and> unat (delayed_time_out new) \<le> sum_list (map unat es) then [DatagramSent sender reply] else []) \<and>
        other = sent_within es (if pending x then x else y)" if "\<forall>e \<in> set es. unat e < 2147483648" for es
      using sent [OF that] by blast
    then have "HandleReceivedExplictUdpData os sock sender ?frame len False m st = Some (kEipStatusOk, 0, m, st1) \<and>
        net_events st1 = net_events st \<and> g_delayed_encapsulation_messages st1 = (if pending x then [x, new] else [new, y]) \<and>
        unat (delayed_time_out new) < longest_delay ctxt \<and>
        (\<forall>es. (\<forall>e \<in> set es. unat e < 2147483648) \<longrightarrow> (\<exists>st2 mine other. passes es st1 = Some st2 \<and>
          (net_events st2 = net_events st @ mine @ other \<or> net_events st2 = net_events st @ other @ mine) \<and>
          mine = (if es \<noteq> [] \<and> unat (delayed_time_out new) \<le> sum_list (map unat es) then [DatagramSent sender reply] else []) \<and>
          other = sent_within es (if pending x then x else y)))"
      using handled new(1-4) by simp
    then show ?thesis unfolding reply_def [symmetric] if_not_P [OF False] by (intro exI)
  qed
qed

subsection \<open>A device after its start\<close>

definition free_delayed :: DelayedEncapsulationMessage where
  "free_delayed = \<lparr>delayed_time_out = 0, delayed_socket = 0, delayed_receiver = zero_sockaddr, delayed_message = zero_message\<rparr>"

text \<open>The tables of the stack in their initial state, with the given classes and data.\<close>

definition plain_device :: "(nat \<rightharpoonup> cip_value) \<Rightarrow> CipClassObject list \<Rightarrow> encap_state" where
  "plain_device store objects = EncapsulationInit (stack_state.extend (initial_stack\<lparr>data_store := store, g_first_object := objects\<rparr>)
     (encap_state.fields (replicate 2 free_delayed) \<lparr>service_type_code = 0, service_length = 0, encapsulation_protocol_version = 0,
       capability_flags = 0, name_of_service = replicate 16 0\<rparr> 0xC0A80001))"

definition identity_store :: "nat \<rightharpoonup> cip_value" where
  "identity_store = [s_identity 1 \<mapsto> V16 44, s_identity 2 \<mapsto> V16 0x2B, s_identity 3 \<mapsto> V16 1, s_identity 4 \<mapsto> VOctets [1, 2],
     s_identity 5 \<mapsto> V16 0x30, s_identity 6 \<mapsto> V32 123456789, s_identity 7 \<mapsto> VShortString \<lparr>css_length = 3, css_string = Some [0x44, 0x58, 0x32]\<rparr>,
     s_identity 8 \<mapsto> V8 3]"

definition identity_example :: identity_values where
  "identity_example = \<lparr>iv_identity = \<lparr>id_vendor_id = 44, id_device_type = 0x2B, id_product_code = 1, id_major_revision = 1, id_minor_revision = 2\<rparr>,
     iv_status = 0x30, iv_serial = 123456789, iv_name = [0x44, 0x58, 0x32], iv_state = 3\<rparr>"

lemma plain_device_simps:
  "data_store (plain_device store objects) = store" "g_first_object (plain_device store objects) = objects"
  "g_registered_sessions (plain_device store objects) = replicate 32 kEipInvalidSocket"
  "g_timestamps (plain_device store objects) = replicate 32 initial_timer"
  "g_delayed_encapsulation_messages (plain_device store objects) = [free_delayed\<lparr>delayed_socket := kEipInvalidSocket\<rparr>, free_delayed\<lparr>delayed_socket := kEipInvalidSocket\<rparr>]"
  "info_items_ready (plain_device store objects)" "net_events (plain_device store objects) = []"
  "interface_ip_address (plain_device store objects) = 0xC0A80001"
  by (simp_all add: plain_device_def EncapsulationInit_def initial_stack_def stack_state.defs cip_state.defs encap_state.defs
      info_items_ready_def zero_packet_def numeral_2_eq_2)

text \<open>A device with an answer that waits in the first buffer.\<close>

definition waiting_reply :: DelayedEncapsulationMessage where
  "waiting_reply = free_delayed\<lparr>delayed_socket := 9, delayed_time_out := 500\<rparr>"

theorem broadcast_list_identity_witness:
  "\<exists>st1 new. HandleReceivedExplictUdpData example_os 7 zero_sockaddr (frame_bytes kEncapsulationCommandListIdentity 0 0 [0xE8, 3, 0, 0, 0, 0, 0, 0] 0 [])
      24 False zero_message ((plain_device identity_store [])\<lparr>g_delayed_encapsulation_messages :=
        [waiting_reply, free_delayed\<lparr>delayed_socket := kEipInvalidSocket\<rparr>]\<rparr>) = Some (kEipStatusOk, 0, zero_message, st1) \<and>
    g_delayed_encapsulation_messages st1 = [waiting_reply, new] \<and> unat (delayed_time_out new) < 1000 \<and>
    (\<exists>st2. passes [900, 100] st1 = Some st2 \<and> length (net_events st2) = 2 \<and> DatagramSent zero_sockaddr
      (frame_bytes kEncapsulationCommandListIdentity 0 0 [0xE8, 3, 0, 0, 0, 0, 0, 0] 0 (identity_reply identity_example 0xC0A80001))
      \<in> set (net_events st2))"
proof -
  let ?idle = "free_delayed\<lparr>delayed_socket := kEipInvalidSocket\<rparr>"
  let ?st = "(plain_device identity_store [])\<lparr>g_delayed_encapsulation_messages := [waiting_reply, ?idle]\<rparr>"
  have shown: "identity_shows identity_example ?st"
    by (simp add: identity_shows_def identity_example_def plain_device_simps identity_store_def g_identity_def cell16_def product_name_def s_identity_def)
  have slots: "pending waiting_reply" "\<not> pending ?idle" "short_delay waiting_reply" "short_delay ?idle"
    "sent_within [900, 100] waiting_reply = [reply_of waiting_reply]"
    by (simp_all add: pending_def short_delay_def waiting_reply_def sent_within_def)
  have delay: "longest_delay [0xE8, 3, 0, 0, 0, 0, 0, 0] = 1000" by (simp add: longest_delay_def)
  let ?ctxt = "[0xE8, 3, 0, 0, 0, 0, 0, 0] :: CipOctet list"
  have buffers: "g_delayed_encapsulation_messages ?st = [waiting_reply, ?idle]" by simp
  have frame: "length ?ctxt = 8" "length ([] :: CipOctet list) < 65536" "unat (24 :: size_t) = 24 + length ([] :: CipOctet list)"
    "(7 :: int) \<noteq> kEipInvalidSocket" by simp_all
  note sent = broadcast_list_identity [OF frame(1-3) shown buffers slots(3,4) frame(4), of example_os zero_sockaddr 0 0 zero_message]
  have "\<not> (pending waiting_reply \<and> pending ?idle)" using slots(2) by blast
  from sent [unfolded if_not_P [OF this] if_P [OF slots(1)]]
  obtain st1 new where st1: "HandleReceivedExplictUdpData example_os 7 zero_sockaddr
      (frame_bytes kEncapsulationCommandListIdentity 0 0 [0xE8, 3, 0, 0, 0, 0, 0, 0] 0 []) 24 False zero_message ?st = Some (kEipStatusOk, 0, zero_message, st1)"
    "g_delayed_encapsulation_messages st1 = [waiting_reply, new]" "unat (delayed_time_out new) < longest_delay [0xE8, 3, 0, 0, 0, 0, 0, 0]"
    "\<forall>es. (\<forall>e \<in> set es. unat e < 2147483648) \<longrightarrow> (\<exists>st2 mine other. passes es st1 = Some st2 \<and>
        (net_events st2 = net_events ?st @ mine @ other \<or> net_events st2 = net_events ?st @ other @ mine) \<and>
        mine = (if es \<noteq> [] \<and> unat (delayed_time_out new) \<le> sum_list (map unat es) then [DatagramSent zero_sockaddr
          (frame_bytes kEncapsulationCommandListIdentity 0 0 [0xE8, 3, 0, 0, 0, 0, 0, 0] 0 (identity_reply identity_example (interface_ip_address ?st)))] else []) \<and>
        other = sent_within es waiting_reply)"
    by (elim exE conjE) (rule that)
  have "\<forall>e \<in> set [900, 100 :: MilliSeconds]. unat e < 2147483648" by simp
  from mp [OF spec [OF st1(4), of "[900, 100]"] this] obtain st2 mine other where st2: "passes [900, 100] st1 = Some st2" "net_events st2 = net_events ?st @ mine @ other \<or> net_events st2 = net_events ?st @ other @ mine"
    "mine = (if [900, 100 :: MilliSeconds] \<noteq> [] \<and> unat (delayed_time_out new) \<le> sum_list (map unat [900, 100 :: MilliSeconds]) then [DatagramSent zero_sockaddr
          (frame_bytes kEncapsulationCommandListIdentity 0 0 [0xE8, 3, 0, 0, 0, 0, 0, 0] 0 (identity_reply identity_example (interface_ip_address ?st)))] else [])"
    "other = sent_within [900, 100] waiting_reply" by (elim exE conjE) (rule that)
  from st1(3) have "mine = [DatagramSent zero_sockaddr (frame_bytes kEncapsulationCommandListIdentity 0 0 [0xE8, 3, 0, 0, 0, 0, 0, 0] 0
      (identity_reply identity_example 0xC0A80001))]" unfolding st2(3) by (simp add: plain_device_simps delay)
  then have "length (net_events st2) = 2" "DatagramSent zero_sockaddr (frame_bytes kEncapsulationCommandListIdentity 0 0
      [0xE8, 3, 0, 0, 0, 0, 0, 0] 0 (identity_reply identity_example 0xC0A80001)) \<in> set (net_events st2)"
    using st2(2) unfolding st2(4) slots(5) by (elim disjE; simp add: plain_device_simps)+
  note both = this
  show ?thesis
    by (intro exI conjI) (rule st1(1), rule st1(2), rule st1(3) [unfolded delay], rule st2(1), rule both(1), rule both(2))
qed

end
