(* ===== verification/Motoman.thy ===== *)
theory Motoman
  imports ClassLayout
begin

text \<open>
  The application of the device, \<^verbatim>\<open>ports/ESP32/motoman_dx200_simulator/motoman_dx200_simulator.c\<close>:
  the robot data, the vendor specific classes 0x70 to 0x8C that publish them, and the two services
  and codecs the application adds.

  The static variables and the arrays of the application are cells of the data store; a cell's
  number is its address. An array pointer is null exactly when its first cell does not exist.
  \<open>heap_caps_malloc\<close> and \<open>calloc\<close> of ESP-IDF are a parameter that says for each allocation
  whether it succeeds and which octets uninitialised memory holds. The RS022 setting that
  \<^verbatim>\<open>system_motoman_rs022_load\<close> reads is only logged by the source and has no cell.
\<close>

subsection \<open>Constants\<close>

abbreviation (input) MOTOMAN_CLASS_ALARM :: CipUdint where "MOTOMAN_CLASS_ALARM \<equiv> 0x70"
abbreviation (input) MOTOMAN_CLASS_ALARM_HISTORY :: CipUdint where "MOTOMAN_CLASS_ALARM_HISTORY \<equiv> 0x71"
abbreviation (input) MOTOMAN_CLASS_STATUS :: CipUdint where "MOTOMAN_CLASS_STATUS \<equiv> 0x72"
abbreviation (input) MOTOMAN_CLASS_JOB_INFO :: CipUdint where "MOTOMAN_CLASS_JOB_INFO \<equiv> 0x73"
abbreviation (input) MOTOMAN_CLASS_AXIS_CONFIG :: CipUdint where "MOTOMAN_CLASS_AXIS_CONFIG \<equiv> 0x74"
abbreviation (input) MOTOMAN_CLASS_POSITION :: CipUdint where "MOTOMAN_CLASS_POSITION \<equiv> 0x75"
abbreviation (input) MOTOMAN_CLASS_POSITION_DEVIATION :: CipUdint where "MOTOMAN_CLASS_POSITION_DEVIATION \<equiv> 0x76"
abbreviation (input) MOTOMAN_CLASS_TORQUE :: CipUdint where "MOTOMAN_CLASS_TORQUE \<equiv> 0x77"
abbreviation (input) MOTOMAN_CLASS_IO :: CipUdint where "MOTOMAN_CLASS_IO \<equiv> 0x78"
abbreviation (input) MOTOMAN_CLASS_REGISTER :: CipUdint where "MOTOMAN_CLASS_REGISTER \<equiv> 0x79"
abbreviation (input) MOTOMAN_CLASS_VARIABLE_B :: CipUdint where "MOTOMAN_CLASS_VARIABLE_B \<equiv> 0x7A"
abbreviation (input) MOTOMAN_CLASS_VARIABLE_I :: CipUdint where "MOTOMAN_CLASS_VARIABLE_I \<equiv> 0x7B"
abbreviation (input) MOTOMAN_CLASS_VARIABLE_D :: CipUdint where "MOTOMAN_CLASS_VARIABLE_D \<equiv> 0x7C"
abbreviation (input) MOTOMAN_CLASS_VARIABLE_R :: CipUdint where "MOTOMAN_CLASS_VARIABLE_R \<equiv> 0x7D"
abbreviation (input) MOTOMAN_CLASS_VARIABLE_S :: CipUdint where "MOTOMAN_CLASS_VARIABLE_S \<equiv> 0x8C"
abbreviation (input) MOTOMAN_CLASS_VARIABLE_P :: CipUdint where "MOTOMAN_CLASS_VARIABLE_P \<equiv> 0x7F"
abbreviation (input) MOTOMAN_CLASS_VARIABLE_BP :: CipUdint where "MOTOMAN_CLASS_VARIABLE_BP \<equiv> 0x80"
abbreviation (input) MOTOMAN_CLASS_VARIABLE_EX :: CipUdint where "MOTOMAN_CLASS_VARIABLE_EX \<equiv> 0x81"

abbreviation (input) MOTOMAN_MAX_IO_SIGNALS :: nat where "MOTOMAN_MAX_IO_SIGNALS \<equiv> 8220"
abbreviation (input) MOTOMAN_MAX_REGISTERS :: nat where "MOTOMAN_MAX_REGISTERS \<equiv> 1000"
abbreviation (input) MOTOMAN_MAX_VARIABLES :: nat where "MOTOMAN_MAX_VARIABLES \<equiv> 1000"
abbreviation (input) MOTOMAN_MAX_VARIABLE_P :: nat where "MOTOMAN_MAX_VARIABLE_P \<equiv> 128"
abbreviation (input) MOTOMAN_MAX_STRING_LENGTH :: nat where "MOTOMAN_MAX_STRING_LENGTH \<equiv> 32"
abbreviation (input) MOTOMAN_MAX_AXES :: nat where "MOTOMAN_MAX_AXES \<equiv> 8"
abbreviation (input) MOTOMAN_MAX_POSITION_INSTANCES :: nat where "MOTOMAN_MAX_POSITION_INSTANCES \<equiv> 108"
abbreviation (input) MOTOMAN_POSITION_ATTRIBUTES :: nat where "MOTOMAN_POSITION_ATTRIBUTES \<equiv> 13"
abbreviation (input) MOTOMAN_VARIABLE_P_ATTRIBUTES :: nat where "MOTOMAN_VARIABLE_P_ATTRIBUTES \<equiv> 13"
abbreviation (input) MOTOMAN_VARIABLE_BP_ATTRIBUTES :: nat where "MOTOMAN_VARIABLE_BP_ATTRIBUTES \<equiv> 9"
abbreviation (input) MOTOMAN_VARIABLE_EX_ATTRIBUTES :: nat where "MOTOMAN_VARIABLE_EX_ATTRIBUTES \<equiv> 9"
abbreviation (input) MOTOMAN_MAX_ACTIVE_ALARMS :: nat where "MOTOMAN_MAX_ACTIVE_ALARMS \<equiv> 4"
abbreviation (input) MOTOMAN_ALARM_HISTORY_SIZE :: nat where "MOTOMAN_ALARM_HISTORY_SIZE \<equiv> 100"

subsection \<open>Addresses of the robot data\<close>

text \<open>The fields of a \<^verbatim>\<open>MotomanAlarm\<close>: code 0, data 1, data type 2, date and time 3, string 4.\<close>

definition s_active_alarms :: "nat \<Rightarrow> nat \<Rightarrow> nat" where "s_active_alarms i field = 5 * i + field"
definition s_alarm_history :: "nat \<Rightarrow> nat \<Rightarrow> nat" where "s_alarm_history i field = 100 + 5 * i + field"
definition s_status_data1 :: nat where "s_status_data1 = 600"
definition s_status_data2 :: nat where "s_status_data2 = 601"
definition s_job_line :: nat where "s_job_line = 602"
definition s_step_number :: nat where "s_step_number = 603"
definition s_speed_override :: nat where "s_speed_override = 604"
definition s_job_name :: nat where "s_job_name = 605"
definition s_axis_count :: nat where "s_axis_count = 606"
definition s_axis_type :: "nat \<Rightarrow> nat" where "s_axis_type i = 610 + i"
definition s_position :: "nat \<Rightarrow> nat" where "s_position i = 620 + i"
definition s_position_deviation :: "nat \<Rightarrow> nat" where "s_position_deviation i = 630 + i"
definition s_torque :: "nat \<Rightarrow> nat" where "s_torque i = 640 + i"
definition s_io_data :: "nat \<Rightarrow> nat" where "s_io_data i = 1000 + i"
definition s_registers :: "nat \<Rightarrow> nat" where "s_registers i = 10000 + i"
definition s_variable_b :: "nat \<Rightarrow> nat" where "s_variable_b i = 11000 + i"
definition s_variable_i :: "nat \<Rightarrow> nat" where "s_variable_i i = 12000 + i"
definition s_variable_d :: "nat \<Rightarrow> nat" where "s_variable_d i = 13000 + i"
definition s_variable_r :: "nat \<Rightarrow> nat" where "s_variable_r i = 14000 + i"
definition s_variable_s :: "nat \<Rightarrow> nat" where "s_variable_s i = 15000 + i"
definition s_variable_p :: "nat \<Rightarrow> nat \<Rightarrow> nat" where "s_variable_p i a = 20000 + 13 * i + a"
definition s_position_data :: "nat \<Rightarrow> nat \<Rightarrow> nat" where "s_position_data i a = 25000 + 13 * i + a"
definition s_variable_bp :: "nat \<Rightarrow> nat \<Rightarrow> nat" where "s_variable_bp i a = 30000 + 9 * i + a"
definition s_variable_ex :: "nat \<Rightarrow> nat \<Rightarrow> nat" where "s_variable_ex i a = 40000 + 9 * i + a"

lemmas robot_addresses = s_active_alarms_def s_alarm_history_def s_status_data1_def s_status_data2_def
  s_job_line_def s_step_number_def s_speed_override_def s_job_name_def s_axis_count_def s_axis_type_def
  s_position_def s_position_deviation_def s_torque_def s_io_data_def s_registers_def s_variable_b_def
  s_variable_i_def s_variable_d_def s_variable_r_def s_variable_s_def s_variable_p_def
  s_position_data_def s_variable_bp_def s_variable_ex_def

subsection \<open>Allocation\<close>

text \<open>
  The outcome of one allocation: memory from PSRAM with whatever octets it holds, zeroed internal
  RAM after PSRAM failed, or none at all.
\<close>

datatype heap_block = PsramBlock "nat \<Rightarrow> CipOctet" | InternalBlock | NoMemory

text \<open>The value of a cell of the size of the given octets.\<close>

definition cell_of :: "CipOctet list \<Rightarrow> cip_value" where
  "cell_of bs = (case bs of
       [b] \<Rightarrow> V8 b
     | [b0, b1] \<Rightarrow> V16 (ucast b0 OR push_bit 8 (ucast b1))
     | [b0, b1, b2, b3] \<Rightarrow>
         V32 (ucast b0 OR push_bit 8 (ucast b1) OR push_bit 16 (ucast b2) OR push_bit 24 (ucast b3))
     | _ \<Rightarrow> VOctets bs)"

text \<open>
  Allocation of \<open>count\<close> cells of \<open>size\<close> octets from address \<open>base\<close> on; \<open>cleared\<close> says that the
  code follows a PSRAM allocation by \<^verbatim>\<open>memset\<close>. The result says whether the pointer is not null.
\<close>

definition allocate_array :: "heap_block \<Rightarrow> bool \<Rightarrow> nat \<Rightarrow> nat \<Rightarrow> nat \<Rightarrow> 'e cip_state_scheme \<Rightarrow>
    bool \<times> 'e cip_state_scheme" where
  "allocate_array block cleared base count cell st = (
     let fill = (\<lambda>content. st\<lparr>data_store := (\<lambda>x. if base \<le> x \<and> x < base + count
           then Some (cell_of (map (\<lambda>j. content ((x - base) * cell + j)) [0..<cell]))
           else data_store st x)\<rparr>)
     in case block of
          PsramBlock content \<Rightarrow> (True, fill (if cleared then (\<lambda>_. 0) else content))
        | InternalBlock \<Rightarrow> (True, fill (\<lambda>_. 0))
        | NoMemory \<Rightarrow> (False, st))"

text \<open>The arrays in the order of their allocation: cleared, base, cells, octets per cell.\<close>

definition robot_arrays :: "(bool \<times> nat \<times> nat \<times> nat) list" where
  "robot_arrays = [
     (False, s_io_data 0, MOTOMAN_MAX_IO_SIGNALS, 1),
     (False, s_registers 0, MOTOMAN_MAX_REGISTERS, 2),
     (False, s_variable_b 0, MOTOMAN_MAX_VARIABLES, 1),
     (False, s_variable_i 0, MOTOMAN_MAX_VARIABLES, 2),
     (False, s_variable_d 0, MOTOMAN_MAX_VARIABLES, 4),
     (False, s_variable_r 0, MOTOMAN_MAX_VARIABLES, 4),
     (False, s_variable_s 0, MOTOMAN_MAX_VARIABLES, MOTOMAN_MAX_STRING_LENGTH),
     (True, s_variable_p 0 0, MOTOMAN_MAX_VARIABLE_P * MOTOMAN_VARIABLE_P_ATTRIBUTES, 4),
     (False, s_variable_bp 0 0, MOTOMAN_MAX_VARIABLES * MOTOMAN_VARIABLE_BP_ATTRIBUTES, 4),
     (False, s_variable_ex 0 0, MOTOMAN_MAX_VARIABLES * MOTOMAN_VARIABLE_EX_ATTRIBUTES, 4),
     (True, s_position_data 0 0, MOTOMAN_MAX_POSITION_INSTANCES * MOTOMAN_POSITION_ATTRIBUTES, 4)]"

text \<open>The allocations run in turn; the first that fails ends the function with \<^verbatim>\<open>false\<close>.\<close>

fun allocate_arrays :: "(nat \<Rightarrow> heap_block) \<Rightarrow> nat \<Rightarrow> (bool \<times> nat \<times> nat \<times> nat) list \<Rightarrow>
    'e cip_state_scheme \<Rightarrow> bool \<times> 'e cip_state_scheme" where
  "allocate_arrays heap k [] st = (True, st)"
| "allocate_arrays heap k ((cleared, base, count, cell) # rest) st = (
     let (ok, st) = allocate_array (heap k) cleared base count cell st
     in if ok then allocate_arrays heap (Suc k) rest st else (False, st))"

definition AllocateRobotDataArrays :: "(nat \<Rightarrow> heap_block) \<Rightarrow> 'e cip_state_scheme \<Rightarrow> bool \<times> 'e cip_state_scheme" where
  "AllocateRobotDataArrays heap st = allocate_arrays heap 0 robot_arrays st"

definition not_null :: "nat \<Rightarrow> 'e cip_state_scheme \<Rightarrow> bool" where
  "not_null base st \<longleftrightarrow> data_store st base \<noteq> None"


subsection \<open>Initial values\<close>

text \<open>Successive assignments to cells.\<close>

definition poke_cells :: "(nat \<times> cip_value) list \<Rightarrow> 'e cip_state_scheme \<Rightarrow> 'e cip_state_scheme" where
  "poke_cells xs st = st\<lparr>data_store := fold (\<lambda>(a, v) m. m(a \<mapsto> v)) xs (data_store st)\<rparr>"

text \<open>A row of 32-bit cells from an address on.\<close>

definition row_cells :: "nat \<Rightarrow> int list \<Rightarrow> (nat \<times> cip_value) list" where
  "row_cells base vs = zip [base..<base + length vs] (map (\<lambda>v. V32 (word_of_int v)) vs)"

text \<open>\<^verbatim>\<open>memset\<close> of \<open>n\<close> octets followed by a copy of a shorter text.\<close>

definition padded :: "nat \<Rightarrow> string \<Rightarrow> CipOctet list" where
  "padded n s = map of_char s @ replicate (n - length s) 0"

definition alarm_cells :: "(nat \<Rightarrow> nat) \<Rightarrow> int \<Rightarrow> int \<Rightarrow> string \<Rightarrow> string \<Rightarrow> (nat \<times> cip_value) list" where
  "alarm_cells alarm code data date_time text = [(alarm 0, V32 (word_of_int code)),
     (alarm 1, V32 (word_of_int data)), (alarm 2, V32 0), (alarm 3, VOctets (padded 16 date_time)),
     (alarm 4, VOctets (padded 32 text))]"

definition status_cells :: "(nat \<times> cip_value) list" where
  "status_cells = [(s_status_data1, V32 0x44), (s_status_data2, V32 0x40), (s_job_line, V32 15),
     (s_step_number, V32 42), (s_speed_override, V32 8550),
     (s_job_name, VOctets (padded 31 ''WELD001.JBI'' @ [0])), (s_axis_count, V8 6)] @
     zip (map s_axis_type [0..<8]) (map V8 [1, 1, 1, 1, 1, 1, 0, 0])"

definition position_cells :: "(nat \<times> cip_value) list" where
  "position_cells = row_cells (s_position 0) [1250, - 15230, 28340, - 450, 8920, - 120, 0, 0] @
     [(s_position_data i a, V32 0). i \<leftarrow> [0..<MOTOMAN_MAX_POSITION_INSTANCES], a \<leftarrow> [0..<MOTOMAN_POSITION_ATTRIBUTES]] @
     row_cells (s_position_data 0 0) [0, 1250, - 15230, 28340, - 450, 8920, - 120, 0, 0, 0, 0, 0, 0] @
     row_cells (s_position_data 101 0) [16, 1234567, 2345678, 3456789, 0, 1234567, 0, 0, 0] @
     row_cells (s_position_deviation 0) [2, - 3, 1, 0, - 1, 1, 0, 0] @
     row_cells (s_torque 0) [18500, 22300, 31200, 4500, 12800, 2100, 0, 0]"

definition io_cells :: "(nat \<times> cip_value) list" where
  "io_cells = [(s_io_data 0, V8 1), (s_io_data 1, V8 0), (s_io_data 2, V8 1), (s_io_data 3, V8 1),
     (s_io_data 10, V8 1), (s_io_data 50, V8 0), (s_io_data 100, V8 1), (s_io_data 101, V8 0),
     (s_io_data 102, V8 1), (s_io_data 200, V8 1), (s_io_data 201, V8 0)]"

definition register_cells :: "(nat \<times> cip_value) list" where
  "register_cells = [(s_registers 0, V16 100), (s_registers 1, V16 250), (s_registers 2, V16 500),
     (s_registers 10, V16 1234), (s_registers 20, V16 5678), (s_registers 100, V16 9999),
     (s_registers 559, V16 0), (s_registers 560, V16 32767), (s_registers 599, V16 0),
     (s_registers 600, V16 16384), (s_registers 639, V16 0), (s_registers 640, V16 0),
     (s_registers 999, V16 0)]"

text \<open>The float literals 123.456, -45.678, 789.012 and 3.14159 by their IEEE 754 patterns.\<close>

definition variable_cells :: "(nat \<times> cip_value) list" where
  "variable_cells = [(s_variable_b 0, V8 10), (s_variable_b 1, V8 20), (s_variable_b 2, V8 30),
     (s_variable_b 10, V8 100),
     (s_variable_i 0, V16 1234), (s_variable_i 1, V16 (- 567)), (s_variable_i 2, V16 8901), (s_variable_i 10, V16 42),
     (s_variable_d 0, V32 123456), (s_variable_d 1, V32 (- 789012)), (s_variable_d 2, V32 345678),
     (s_variable_d 10, V32 999999),
     (s_variable_r 0, V32 0x42F6E979), (s_variable_r 1, V32 0xC236B646), (s_variable_r 2, V32 0x444540C5),
     (s_variable_r 10, V32 0x40490FD0),
     (s_variable_s 0, VOctets (padded 32 ''HELLO'')), (s_variable_s 1, VOctets (padded 32 ''WORLD'')),
     (s_variable_s 2, VOctets (padded 32 ''ROBOT''))]"

definition variable_p_cells :: "(nat \<times> cip_value) list" where
  "variable_p_cells = row_cells (s_variable_p 0 0) [0, 1, 0, 0, 0, 0, 5, 0, 0, 0, 0, 0, 0] @
     row_cells (s_variable_p 1 0) [16, 500000, 300000, 1200000, 900000, 180000, 450000, 0, 0, 0, 1, 0, 0]"

definition variable_bp_cells :: "(nat \<times> cip_value) list" where
  "variable_bp_cells = row_cells (s_variable_bp 0 0) [0, 0, 0, 0, 0, 0, 0, 0, 0] @
     row_cells (s_variable_bp 1 0) [16, 500000, 600000, 700000, 0, 0, 0, 0, 0]"

definition variable_ex_cells :: "(nat \<times> cip_value) list" where
  "variable_ex_cells = row_cells (s_variable_ex 0 0) [0, 0, 0, 0, 0, 0, 0, 0, 0] @
     row_cells (s_variable_ex 1 0) [0, 10000, 20000, 0, 0, 0, 0, 0, 0]"

definition history_cells :: "(nat \<times> cip_value) list" where
  "history_cells = alarm_cells (s_alarm_history 0) 2100 1 ''2024/01/15 10:30'' ''ALARM 2100'' @
     alarm_cells (s_alarm_history 1) 2101 0 ''2024/01/15 11:00'' ''ALARM 2101'' @
     alarm_cells (s_alarm_history 2) 2200 2 ''2024/01/15 12:00'' ''ALARM 2200''"

text \<open>The arrays I, D, R and S are written without a test of their pointers.\<close>

definition InitializeRobotData :: "'e cip_state_scheme \<Rightarrow> 'e cip_state_scheme run" where
  "InitializeRobotData st = (
     if \<not> not_null (s_io_data 0) st \<or> \<not> not_null (s_registers 0) st \<or> \<not> not_null (s_variable_b 0) st \<or>
       \<not> not_null (s_position_data 0 0) st then Some st
     else do {
       let st = poke_cells (status_cells @ position_cells @ io_cells @ register_cells) st;
       c_assert (not_null (s_variable_i 0) st \<and> not_null (s_variable_d 0) st \<and>
         not_null (s_variable_r 0) st \<and> not_null (s_variable_s 0) st);
       let st = poke_cells variable_cells st;
       let st = (if not_null (s_variable_p 0 0) st then poke_cells variable_p_cells st else st);
       let st = (if not_null (s_variable_bp 0 0) st then poke_cells variable_bp_cells st else st);
       let st = (if not_null (s_variable_ex 0 0) st then poke_cells variable_ex_cells st else st);
       Some (poke_cells history_cells st) })"

text \<open>The values the static variables have when the program starts.\<close>

definition robot_statics :: "(nat \<times> cip_value) list" where
  "robot_statics = concat (map (\<lambda>i. alarm_cells (s_active_alarms i) 0 0 [] []) [0..<MOTOMAN_MAX_ACTIVE_ALARMS]) @
     concat (map (\<lambda>i. alarm_cells (s_alarm_history i) 0 0 [] []) [0..<MOTOMAN_ALARM_HISTORY_SIZE]) @
     [(s_status_data1, V32 0x44), (s_status_data2, V32 0x40), (s_job_line, V32 1), (s_step_number, V32 0),
      (s_speed_override, V32 10000), (s_job_name, VOctets (padded 32 ''MAIN.JBI'')), (s_axis_count, V8 6)] @
     zip (map s_axis_type [0..<8]) (map V8 [1, 1, 1, 1, 1, 1, 0, 0]) @
     row_cells (s_position 0) (replicate 8 0) @ row_cells (s_position_deviation 0) (replicate 8 0) @
     row_cells (s_torque 0) (replicate 8 0)"

subsection \<open>Codecs and services of the application\<close>

text \<open>\<^verbatim>\<open>memcpy\<close> of the first \<open>n\<close> octets of a character array into the message.\<close>

definition copy_array :: "nat \<Rightarrow> cip_value \<Rightarrow> ENIPMessage \<Rightarrow> ENIPMessage run" where
  "copy_array n v m = (case v of
       VOctets bs \<Rightarrow> do { (xs, _) \<leftarrow> read_bytes n bs; emit xs m }
     | _ \<Rightarrow> None)"

definition EncodeMotomanString32 :: "cip_value \<Rightarrow> ENIPMessage \<Rightarrow> ENIPMessage run" where
  "EncodeMotomanString32 data m = copy_array MOTOMAN_MAX_STRING_LENGTH data m"

definition EncodeMotomanAlarmDateTime16 :: "cip_value \<Rightarrow> ENIPMessage \<Rightarrow> ENIPMessage run" where
  "EncodeMotomanAlarmDateTime16 data m = copy_array 16 data m"

definition EncodeMotomanAlarmString32 :: "cip_value \<Rightarrow> ENIPMessage \<Rightarrow> ENIPMessage run" where
  "EncodeMotomanAlarmString32 data m = copy_array 32 data m"

definition EncodeMotomanJobName32 :: "cip_value \<Rightarrow> ENIPMessage \<Rightarrow> ENIPMessage run" where
  "EncodeMotomanJobName32 data m = copy_array 32 data m"

definition DecodeMotomanString32 :: "cip_value \<Rightarrow> CipMessageRouterRequest \<Rightarrow> CipMessageRouterResponse \<Rightarrow> decode_result" where
  "DecodeMotomanString32 data req resp = do {
     (xs, r) \<leftarrow> read_bytes MOTOMAN_MAX_STRING_LENGTH (req_data req);
     Some (VOctets xs, req\<lparr>req_data := r\<rparr>, resp\<lparr>general_status := kCipErrorSuccess\<rparr>,
       int MOTOMAN_MAX_STRING_LENGTH) }"

abbreviation (input) EncMotomanString32 :: encode_function where "EncMotomanString32 \<equiv> EncOther 0"
abbreviation (input) EncMotomanAlarmDateTime16 :: encode_function where "EncMotomanAlarmDateTime16 \<equiv> EncOther 1"
abbreviation (input) EncMotomanAlarmString32 :: encode_function where "EncMotomanAlarmString32 \<equiv> EncOther 2"
abbreviation (input) EncMotomanJobName32 :: encode_function where "EncMotomanJobName32 \<equiv> EncOther 3"
abbreviation (input) DecMotomanString32 :: decode_function where "DecMotomanString32 \<equiv> DecOther 0"
abbreviation (input) SvcGetAttributeAllPositionOrder :: service_function where
  "SvcGetAttributeAllPositionOrder \<equiv> SvcOther 0"
abbreviation (input) SvcSetAttributeAll :: service_function where "SvcSetAttributeAll \<equiv> SvcOther 1"

definition attr_order :: "CipUint list" where
  "attr_order = [1, 10, 11, 12, 13, 2, 3, 4, 5, 6, 7, 8, 9]"

fun get_in_order :: "'e cip_state_scheme cip_env \<Rightarrow> instance_ref \<Rightarrow> 'e cip_state_scheme \<Rightarrow> CipUint list \<Rightarrow>
    CipMessageRouterRequest \<Rightarrow> ENIPMessage \<Rightarrow> (CipMessageRouterRequest \<times> ENIPMessage) run" where
  "get_in_order env inst st [] req m = Some (req, m)"
| "get_in_order env inst st (attr_num # rest) req m = do {
     c \<leftarrow> class_at inst st;
     flagged \<leftarrow> mask_bit (get_all_bit_mask c) attr_num;
     (req, m) \<leftarrow> (if flagged then do {
         slot \<leftarrow> find_attribute inst attr_num st;
         (case slot of
            None \<Rightarrow> Some (req, m)
          | Some i \<Rightarrow> do {
              a \<leftarrow> attribute_at inst i st;
              if attr_data a = None then Some (req, m)
              else do {
                m \<leftarrow> encode_attribute env a st m;
                Some (req\<lparr>request_path := (request_path req)\<lparr>attribute_number := attr_num\<rparr>\<rparr>, m) } }) }
       else Some (req, m));
     get_in_order env inst st rest req m }"

definition GetAttributeAllPositionOrder :: "'e cip_state_scheme cip_env \<Rightarrow> instance_ref \<Rightarrow> CipMessageRouterRequest \<Rightarrow>
    CipMessageRouterResponse \<Rightarrow> 'e cip_state_scheme \<Rightarrow> 'e cip_state_scheme service_result" where
  "GetAttributeAllPositionOrder env inst req resp st = do {
     let resp = resp\<lparr>message := InitializeENIPMessage (message resp)\<rparr>;
     let resp = (GenerateGetAttributeSingleHeader req resp)\<lparr>general_status := kCipErrorSuccess\<rparr>;
     c \<leftarrow> class_at inst st;
     if number_of_attributes c = 0 then
       Some (kEipStatusOkSend, req, resp\<lparr>general_status := kCipErrorServiceNotSupported,
         size_of_additional_status := 0\<rparr>, st)
     else do {
       (req, m) \<leftarrow> get_in_order env inst st attr_order req (message resp);
       Some (kEipStatusOkSend, req, resp\<lparr>message := m\<rparr>, st) } }"

text \<open>The loop of \<^verbatim>\<open>SetAttributeAll\<close>; it ends early on the first decoder that reports an error.\<close>

partial_function (option) set_all_from :: "'e cip_state_scheme cip_env \<Rightarrow> instance_ref \<Rightarrow> CipUint \<Rightarrow>
    CipMessageRouterRequest \<Rightarrow> CipMessageRouterResponse \<Rightarrow> 'e cip_state_scheme \<Rightarrow>
    (CipMessageRouterRequest \<times> CipMessageRouterResponse \<times> 'e cip_state_scheme) option" where
  "set_all_from env inst attr_num req resp st = do {
     c \<leftarrow> class_at inst st;
     if attr_num \<le> highest_attribute_number c then do {
       setable \<leftarrow> mask_bit (set_bit_mask c) attr_num;
       slot \<leftarrow> (if setable then find_attribute inst attr_num st else Some None);
       (case slot of
          None \<Rightarrow> set_all_from env inst (attr_num + 1) req resp st
        | Some i \<Rightarrow> do {
            a \<leftarrow> attribute_at inst i st;
            if attr_data a = None \<or> attr_decode a = None \<or> attribute_flags a = kGetableAllDummy \<or>
              attribute_flags a = kNotSetOrGetable \<or> attribute_flags a = kGetableAll
            then set_all_from env inst (attr_num + 1) req resp st
            else do {
              st \<leftarrow> call_get_set env (attribute_flags a AND kPreSetFunc \<noteq> 0) (PreSetCallback c)
                inst attr_num (req_service req) st;
              let req = req\<lparr>request_path := (request_path req)\<lparr>attribute_number := attr_num\<rparr>\<rparr>;
              a \<leftarrow> attribute_at inst i st;
              (req, resp, st) \<leftarrow> decode_attribute env a req resp st;
              a \<leftarrow> attribute_at inst i st;
              c \<leftarrow> class_at inst st;
              st \<leftarrow> call_get_set env (attribute_flags a AND (kPostSetFunc OR kNvDataFunc) \<noteq> 0)
                (PostSetCallback c) inst attr_num (req_service req) st;
              if general_status resp \<noteq> kCipErrorSuccess then Some (req, resp, st)
              else set_all_from env inst (attr_num + 1) req resp st } }) }
     else Some (req, resp, st) }"

definition SetAttributeAll :: "'e cip_state_scheme cip_env \<Rightarrow> instance_ref \<Rightarrow> CipMessageRouterRequest \<Rightarrow>
    CipMessageRouterResponse \<Rightarrow> 'e cip_state_scheme \<Rightarrow> 'e cip_state_scheme service_result" where
  "SetAttributeAll env inst req resp st = do {
     let resp = (GenerateSetAttributeSingleHeader req resp)\<lparr>general_status := kCipErrorSuccess\<rparr>;
     c \<leftarrow> class_at inst st;
     if number_of_attributes c = 0 then
       Some (kEipStatusOkSend, req, resp\<lparr>general_status := kCipErrorServiceNotSupported,
         size_of_additional_status := 0\<rparr>, st)
     else do {
       (req, resp, st) \<leftarrow> set_all_from env inst 1 req resp st;
       Some (kEipStatusOkSend, req, resp, st) } }"

text \<open>
  The functions the application installs. The callbacks of the other objects are left to the
  environment \<open>base\<close> it extends.
\<close>

definition motoman_codecs :: "'s cip_env \<Rightarrow> 's cip_env" where
  "motoman_codecs base = base\<lparr>
     env_encode := (\<lambda>i. if i = 0 then EncodeMotomanString32 else if i = 1 then EncodeMotomanAlarmDateTime16
       else if i = 2 then EncodeMotomanAlarmString32 else if i = 3 then EncodeMotomanJobName32
       else env_encode base i),
     env_decode := (\<lambda>i. if i = 0 then DecodeMotomanString32 else env_decode base i)\<rparr>"

definition motoman_env :: "'e cip_state_scheme cip_env \<Rightarrow> 'e cip_state_scheme cip_env" where
  "motoman_env base = (motoman_codecs base)\<lparr>
     env_service := (\<lambda>i inst req resp session st.
       if i = 0 then GetAttributeAllPositionOrder (motoman_codecs base) inst req resp st
       else if i = 1 then SetAttributeAll (motoman_codecs base) inst req resp st
       else env_service base i inst req resp session st)\<rparr>"


subsection \<open>The classes\<close>

text \<open>
  The two loops over the chain of instances: with a counter and its bound, and with an array index
  computed from the instance number. The chain itself does not change in the loop.
\<close>

fun each_counted :: "nat \<Rightarrow> (nat \<Rightarrow> attribute_args list) \<Rightarrow> nat \<Rightarrow> CipInstanceNum list \<Rightarrow> CipClassObject \<Rightarrow> CipClassObject run" where
  "each_counted limit row i [] ob = Some ob"
| "each_counted limit row i (n # chain) ob =
     (if i < limit then do { ob \<leftarrow> insert_attributes n (row i) ob; each_counted limit row (Suc i) chain ob }
      else Some ob)"

definition GetArrayIndexFromInstance :: "CipInstanceNum \<Rightarrow> int" where
  "GetArrayIndexFromInstance n = (let idx = int (unat n) - 1 in
     if idx < 0 \<or> idx \<ge> int MOTOMAN_MAX_VARIABLES then - 1 else idx)"

fun each_indexed :: "nat \<Rightarrow> (nat \<Rightarrow> attribute_args list) \<Rightarrow> CipInstanceNum list \<Rightarrow> CipClassObject \<Rightarrow> CipClassObject run" where
  "each_indexed limit row [] ob = Some ob"
| "each_indexed limit row (n # chain) ob = do {
     let array_idx = GetArrayIndexFromInstance n;
     ob \<leftarrow> (if array_idx \<ge> 0 \<and> array_idx < int limit then insert_attributes n (row (nat array_idx)) ob
           else Some ob);
     each_indexed limit row chain ob }"

definition chain_of :: "CipClassObject \<Rightarrow> CipInstanceNum list" where
  "chain_of ob = map inst_number (instances ob)"

text \<open>\<^verbatim>\<open>for (attr = 1; attr <= count; attr++)\<close> over 32-bit cells of a row.\<close>

definition dint_row :: "nat \<Rightarrow> decode_function option \<Rightarrow> (nat \<Rightarrow> nat) \<Rightarrow> CipByte \<Rightarrow> attribute_args list" where
  "dint_row count dec cell flags =
     map (\<lambda>attr. (of_nat attr, kCipDint, EncCipDint, dec, cell (attr - 1), flags)) [1..<Suc count]"

abbreviation (input) kSetAttributeAll :: CipUsint where "kSetAttributeAll \<equiv> 0x02"

definition get_services :: "(CipUsint \<times> service_function) list" where
  "get_services = [(kGetAttributeSingle, SvcGetAttributeSingle), (kGetAttributeAll, SvcGetAttributeAll)]"

definition get_set_services :: "(CipUsint \<times> service_function) list" where
  "get_set_services = [(kGetAttributeSingle, SvcGetAttributeSingle), (kSetAttributeSingle, SvcSetAttributeSingle)]"

definition alarm_row :: "(nat \<Rightarrow> nat) \<Rightarrow> attribute_args list" where
  "alarm_row alarm = [(1, kCipUdint, EncCipUdint, None, alarm 0, kGetableSingleAndAll),
     (2, kCipUdint, EncCipUdint, None, alarm 1, kGetableSingleAndAll),
     (3, kCipUdint, EncCipUdint, None, alarm 2, kGetableSingleAndAll),
     (4, 0xFF, EncMotomanAlarmDateTime16, None, alarm 3, kGetableSingleAndAll),
     (5, 0xFF, EncMotomanAlarmString32, None, alarm 4, kGetableSingleAndAll)]"

definition CreateMotomanAlarmClass :: "'e cip_state_scheme \<Rightarrow> 'e cip_state_scheme run" where
  "CreateMotomanAlarmClass st = do {
     st \<leftarrow> CreateCipClass MOTOMAN_CLASS_ALARM 0 7 2 5 5 2 (of_nat MOTOMAN_MAX_ACTIVE_ALARMS) 1 None st;
     update_class MOTOMAN_CLASS_ALARM (\<lambda>ob.
       if instances ob = [] then Some ob
       else do {
         ob \<leftarrow> each_counted MOTOMAN_MAX_ACTIVE_ALARMS (\<lambda>i. alarm_row (s_active_alarms i)) 0 (chain_of ob) ob;
         insert_services get_services ob }) st }"

definition CreateMotomanAlarmHistoryClass :: "'e cip_state_scheme \<Rightarrow> 'e cip_state_scheme run" where
  "CreateMotomanAlarmHistoryClass st = do {
     st \<leftarrow> CreateCipClass MOTOMAN_CLASS_ALARM_HISTORY 0 7 2 5 5 2 (of_nat MOTOMAN_ALARM_HISTORY_SIZE) 1 None st;
     update_class MOTOMAN_CLASS_ALARM_HISTORY (\<lambda>ob.
       if instances ob = [] then Some ob
       else do {
         ob \<leftarrow> each_counted MOTOMAN_ALARM_HISTORY_SIZE (\<lambda>i. alarm_row (s_alarm_history i)) 0 (chain_of ob) ob;
         insert_services get_services ob }) st }"

definition status_row :: "attribute_args list" where
  "status_row = [(1, kCipUdint, EncCipUdint, None, s_status_data1, kGetableSingleAndAll),
     (2, kCipUdint, EncCipUdint, None, s_status_data2, kGetableSingleAndAll)]"

definition CreateMotomanStatusClass :: "'e cip_state_scheme \<Rightarrow> 'e cip_state_scheme run" where
  "CreateMotomanStatusClass st = do {
     st \<leftarrow> CreateCipClass MOTOMAN_CLASS_STATUS 0 7 2 2 2 2 1 1 None st;
     update_class MOTOMAN_CLASS_STATUS (\<lambda>ob. case chain_of ob of
         [] \<Rightarrow> Some ob
       | n # _ \<Rightarrow> do { ob \<leftarrow> insert_attributes n status_row ob; insert_services get_services ob }) st }"

definition job_info_row :: "attribute_args list" where
  "job_info_row = [(1, 0xFF, EncMotomanJobName32, None, s_job_name, kGetableSingleAndAll),
     (2, kCipUdint, EncCipUdint, None, s_job_line, kGetableSingleAndAll),
     (3, kCipUdint, EncCipUdint, None, s_step_number, kGetableSingleAndAll),
     (4, kCipUdint, EncCipUdint, None, s_speed_override, kGetableSingleAndAll)]"

definition CreateMotomanJobInfoClass :: "'e cip_state_scheme \<Rightarrow> 'e cip_state_scheme run" where
  "CreateMotomanJobInfoClass st = do {
     st \<leftarrow> CreateCipClass MOTOMAN_CLASS_JOB_INFO 0 7 2 4 4 2 1 1 None st;
     update_class MOTOMAN_CLASS_JOB_INFO (\<lambda>ob. case chain_of ob of
         [] \<Rightarrow> Some ob
       | n # _ \<Rightarrow> do { ob \<leftarrow> insert_attributes n job_info_row ob; insert_services get_services ob }) st }"

definition axis_config_row :: "attribute_args list" where
  "axis_config_row = [(1, kCipUsint, EncCipUsint, None, s_axis_count, kGetableSingle),
     (2, kCipByte, EncCipByte, None, s_axis_type 0, kGetableSingle)]"

definition CreateMotomanAxisConfigClass :: "'e cip_state_scheme \<Rightarrow> 'e cip_state_scheme run" where
  "CreateMotomanAxisConfigClass st = do {
     st \<leftarrow> CreateCipClass MOTOMAN_CLASS_AXIS_CONFIG 0 7 2 2 2 1 1 1 None st;
     update_class MOTOMAN_CLASS_AXIS_CONFIG (\<lambda>ob. case chain_of ob of
         [] \<Rightarrow> Some ob
       | n # _ \<Rightarrow> do { ob \<leftarrow> insert_attributes n axis_config_row ob;
           insert_services [(kGetAttributeSingle, SvcGetAttributeSingle)] ob }) st }"

definition CreateMotomanPositionClass :: "'e cip_state_scheme \<Rightarrow> 'e cip_state_scheme run" where
  "CreateMotomanPositionClass st = do {
     st \<leftarrow> CreateCipClass MOTOMAN_CLASS_POSITION 0 7 2 (int MOTOMAN_POSITION_ATTRIBUTES)
       (of_nat MOTOMAN_POSITION_ATTRIBUTES) 2 (of_nat MOTOMAN_MAX_POSITION_INSTANCES) 1 None st;
     update_class MOTOMAN_CLASS_POSITION (\<lambda>ob.
       if instances ob = [] \<or> \<not> not_null (s_position_data 0 0) st then Some ob
       else do {
         ob \<leftarrow> each_counted MOTOMAN_MAX_POSITION_INSTANCES
           (\<lambda>i. dint_row MOTOMAN_POSITION_ATTRIBUTES None (s_position_data i) kGetableSingleAndAll) 0 (chain_of ob) ob;
         insert_services [(kGetAttributeSingle, SvcGetAttributeSingle),
           (kGetAttributeAll, SvcGetAttributeAllPositionOrder)] ob }) st }"

definition CreateMotomanPositionDeviationClass :: "'e cip_state_scheme \<Rightarrow> 'e cip_state_scheme run" where
  "CreateMotomanPositionDeviationClass st = do {
     st \<leftarrow> CreateCipClass MOTOMAN_CLASS_POSITION_DEVIATION 0 7 2 (int MOTOMAN_MAX_AXES) (of_nat MOTOMAN_MAX_AXES)
       2 (of_nat MOTOMAN_MAX_AXES) 1 None st;
     update_class MOTOMAN_CLASS_POSITION_DEVIATION (\<lambda>ob.
       if instances ob = [] then Some ob
       else do {
         ob \<leftarrow> each_counted MOTOMAN_MAX_AXES
           (\<lambda>i. dint_row MOTOMAN_MAX_AXES None s_position_deviation kGetableSingleAndAll) 0 (chain_of ob) ob;
         insert_services get_services ob }) st }"

definition CreateMotomanTorqueClass :: "'e cip_state_scheme \<Rightarrow> 'e cip_state_scheme run" where
  "CreateMotomanTorqueClass st = do {
     st \<leftarrow> CreateCipClass MOTOMAN_CLASS_TORQUE 0 7 2 (int MOTOMAN_MAX_AXES) (of_nat MOTOMAN_MAX_AXES)
       2 (of_nat MOTOMAN_MAX_AXES) 1 None st;
     update_class MOTOMAN_CLASS_TORQUE (\<lambda>ob.
       if instances ob = [] then Some ob
       else do {
         ob \<leftarrow> each_counted MOTOMAN_MAX_AXES
           (\<lambda>i. dint_row MOTOMAN_MAX_AXES None s_torque kGetableSingleAndAll) 0 (chain_of ob) ob;
         insert_services get_services ob }) st }"

definition CreateMotomanIOClass :: "'e cip_state_scheme \<Rightarrow> 'e cip_state_scheme run" where
  "CreateMotomanIOClass st = do {
     st \<leftarrow> CreateCipClass MOTOMAN_CLASS_IO 0 7 2 1 1 2 (of_nat MOTOMAN_MAX_IO_SIGNALS) 1 None st;
     update_class MOTOMAN_CLASS_IO (\<lambda>ob.
       if instances ob = [] then Some ob
       else do {
         ob \<leftarrow> each_counted MOTOMAN_MAX_IO_SIGNALS
           (\<lambda>i. [(1, kCipUsint, EncCipUsint, Some DecCipUsint, s_io_data i, kSetAndGetAble)]) 0 (chain_of ob) ob;
         insert_services get_set_services ob }) st }"

text \<open>The classes whose rows are chosen by the instance number share one shape.\<close>

definition indexed_class :: "CipUdint \<Rightarrow> nat \<Rightarrow> nat \<Rightarrow> nat \<Rightarrow> (nat \<Rightarrow> attribute_args list) \<Rightarrow>
    (CipUsint \<times> service_function) list \<Rightarrow> 'e cip_state_scheme \<Rightarrow> 'e cip_state_scheme run" where
  "indexed_class code attrs count base row svcs st = do {
     st \<leftarrow> CreateCipClass code 0 7 2 (int attrs) (of_nat attrs) (int (length svcs)) (of_nat count) 1 None st;
     if not_null base st then
       update_class code (\<lambda>ob. do {
         ob \<leftarrow> each_indexed count row (chain_of ob) ob;
         insert_services svcs ob }) st
     else Some st }"

definition CreateMotomanRegisterClass :: "'e cip_state_scheme \<Rightarrow> 'e cip_state_scheme run" where
  "CreateMotomanRegisterClass = indexed_class MOTOMAN_CLASS_REGISTER 1 MOTOMAN_MAX_REGISTERS (s_registers 0)
     (\<lambda>i. [(1, kCipUint, EncCipUint, Some DecCipUint, s_registers i, kSetAndGetAble)]) get_set_services"

definition CreateMotomanVariableBClass :: "'e cip_state_scheme \<Rightarrow> 'e cip_state_scheme run" where
  "CreateMotomanVariableBClass = indexed_class MOTOMAN_CLASS_VARIABLE_B 1 MOTOMAN_MAX_VARIABLES (s_variable_b 0)
     (\<lambda>i. [(1, kCipUsint, EncCipUsint, Some DecCipUsint, s_variable_b i, kSetAndGetAble)]) get_set_services"

definition CreateMotomanVariableIClass :: "'e cip_state_scheme \<Rightarrow> 'e cip_state_scheme run" where
  "CreateMotomanVariableIClass = indexed_class MOTOMAN_CLASS_VARIABLE_I 1 MOTOMAN_MAX_VARIABLES (s_variable_i 0)
     (\<lambda>i. [(1, kCipInt, EncCipInt, Some DecCipInt, s_variable_i i, kSetAndGetAble)]) get_set_services"

definition CreateMotomanVariableDClass :: "'e cip_state_scheme \<Rightarrow> 'e cip_state_scheme run" where
  "CreateMotomanVariableDClass = indexed_class MOTOMAN_CLASS_VARIABLE_D 1 MOTOMAN_MAX_VARIABLES (s_variable_d 0)
     (\<lambda>i. [(1, kCipDint, EncCipDint, Some DecCipDint, s_variable_d i, kSetAndGetAble)]) get_set_services"

definition CreateMotomanVariableRClass :: "'e cip_state_scheme \<Rightarrow> 'e cip_state_scheme run" where
  "CreateMotomanVariableRClass = indexed_class MOTOMAN_CLASS_VARIABLE_R 1 MOTOMAN_MAX_VARIABLES (s_variable_r 0)
     (\<lambda>i. [(1, kCipReal, EncCipReal, Some DecCipReal, s_variable_r i, kSetAndGetAble)]) get_set_services"

definition CreateMotomanVariableSClass :: "'e cip_state_scheme \<Rightarrow> 'e cip_state_scheme run" where
  "CreateMotomanVariableSClass = indexed_class MOTOMAN_CLASS_VARIABLE_S 1 MOTOMAN_MAX_VARIABLES (s_variable_s 0)
     (\<lambda>i. [(1, 0xFF, EncMotomanString32, Some DecMotomanString32, s_variable_s i, kSetAndGetAble)]) get_set_services"

definition variable_p_services :: "(CipUsint \<times> service_function) list" where
  "variable_p_services = [(kGetAttributeSingle, SvcGetAttributeSingle),
     (kGetAttributeAll, SvcGetAttributeAllPositionOrder), (kSetAttributeSingle, SvcSetAttributeSingle),
     (kSetAttributeAll, SvcSetAttributeAll)]"

definition CreateMotomanVariablePClass :: "'e cip_state_scheme \<Rightarrow> 'e cip_state_scheme run" where
  "CreateMotomanVariablePClass = indexed_class MOTOMAN_CLASS_VARIABLE_P MOTOMAN_VARIABLE_P_ATTRIBUTES
     MOTOMAN_MAX_VARIABLE_P (s_variable_p 0 0)
     (\<lambda>i. dint_row MOTOMAN_VARIABLE_P_ATTRIBUTES (Some DecCipDint) (s_variable_p i) (kSetAndGetAble OR kGetableAll))
     variable_p_services"

definition CreateMotomanVariableBPClass :: "'e cip_state_scheme \<Rightarrow> 'e cip_state_scheme run" where
  "CreateMotomanVariableBPClass = indexed_class MOTOMAN_CLASS_VARIABLE_BP MOTOMAN_VARIABLE_BP_ATTRIBUTES
     MOTOMAN_MAX_VARIABLES (s_variable_bp 0 0)
     (\<lambda>i. dint_row MOTOMAN_VARIABLE_BP_ATTRIBUTES (Some DecCipDint) (s_variable_bp i) kSetAndGetAble) get_set_services"

definition CreateMotomanVariableEXClass :: "'e cip_state_scheme \<Rightarrow> 'e cip_state_scheme run" where
  "CreateMotomanVariableEXClass = indexed_class MOTOMAN_CLASS_VARIABLE_EX MOTOMAN_VARIABLE_EX_ATTRIBUTES
     MOTOMAN_MAX_VARIABLES (s_variable_ex 0 0)
     (\<lambda>i. dint_row MOTOMAN_VARIABLE_EX_ATTRIBUTES (Some DecCipDint) (s_variable_ex i) kSetAndGetAble) get_set_services"

definition ApplicationInitialization :: "(nat \<Rightarrow> heap_block) \<Rightarrow> 'e cip_state_scheme \<Rightarrow>
    (EipStatus \<times> 'e cip_state_scheme) run" where
  "ApplicationInitialization heap st = (
     let (ok, st) = AllocateRobotDataArrays heap st
     in if \<not> ok then Some (kEipStatusError, st)
        else do {
          st \<leftarrow> InitializeRobotData st;
          st \<leftarrow> CreateMotomanAlarmClass st;
          st \<leftarrow> CreateMotomanAlarmHistoryClass st;
          st \<leftarrow> CreateMotomanStatusClass st;
          st \<leftarrow> CreateMotomanJobInfoClass st;
          st \<leftarrow> CreateMotomanAxisConfigClass st;
          st \<leftarrow> CreateMotomanPositionClass st;
          st \<leftarrow> CreateMotomanPositionDeviationClass st;
          st \<leftarrow> CreateMotomanTorqueClass st;
          st \<leftarrow> CreateMotomanIOClass st;
          st \<leftarrow> CreateMotomanRegisterClass st;
          st \<leftarrow> CreateMotomanVariableBClass st;
          st \<leftarrow> CreateMotomanVariableIClass st;
          st \<leftarrow> CreateMotomanVariableDClass st;
          st \<leftarrow> CreateMotomanVariableRClass st;
          st \<leftarrow> CreateMotomanVariableSClass st;
          st \<leftarrow> CreateMotomanVariablePClass st;
          st \<leftarrow> CreateMotomanVariableBPClass st;
          st \<leftarrow> CreateMotomanVariableEXClass st;
          Some (kEipStatusOk, st) })"

end
