(* ===== verification/MotomanLayout.thy ===== *)
theory MotomanLayout
  imports Motoman
begin

text \<open>
  The class layouts the application promises, one specification per class, and the proof that each
  \<^verbatim>\<open>CreateMotoman...Class\<close> function builds its layout: eighteen interpretations of \<open>class_builder\<close>.
\<close>

subsection \<open>The layout of the robot classes\<close>

definition mk_attribute :: "attribute_args \<Rightarrow> CipAttributeStruct" where
  "mk_attribute args = (case args of (n, type, enc, dec, cell, flags) \<Rightarrow>
     \<lparr>attr_number = n, attr_type = type, attr_encode = Some enc, attr_decode = dec, attribute_flags = flags,
       attr_data = Some (DVar cell)\<rparr>)"

definition robot_spec :: "CipUdint \<Rightarrow> nat \<Rightarrow> nat \<Rightarrow> (nat \<Rightarrow> attribute_args list) \<Rightarrow>
    (CipUsint \<times> service_function) list \<Rightarrow> class_spec" where
  "robot_spec code attrs count row svcs = \<lparr>spec_code = code, spec_attributes = attrs, spec_count = count,
     spec_rows = (\<lambda>i. map mk_attribute (row i)), spec_services = svcs\<rparr>"

lemma mk_attribute_simps [simp]:
  "mk_attribute (n, type, enc, dec, cell, flags) = \<lparr>attr_number = n, attr_type = type, attr_encode = Some enc,
     attr_decode = dec, attribute_flags = flags, attr_data = Some (DVar cell)\<rparr>"
  by (simp add: mk_attribute_def)

lemma insert_attributes_all: "insert_attributes inst args ob = insert_all inst (map mk_attribute args) ob"
proof (induction args arbitrary: ob)
  case (Cons a args)
  obtain n type enc dec cell flags where "a = (n, type, enc, dec, cell, flags)"
    by (cases a) auto
  moreover have "insert_attributes inst args = insert_all inst (map mk_attribute args)"
    using Cons by (rule ext)
  ultimately show ?case by (simp add: mk_attribute_simps)
qed simp

abbreviation number_chain :: "nat \<Rightarrow> nat \<Rightarrow> CipInstanceNum list" where
  "number_chain i k \<equiv> map (\<lambda>j. of_nat (Suc j)) [i..<i + k]"

lemma number_chain_Suc: "number_chain i (Suc k) = of_nat (Suc i) # number_chain (Suc i) k"
  using upt_conv_Cons [of i "i + Suc k"] by (simp del: upt_Suc)

lemma each_counted_fill:
  "i + k \<le> limit \<Longrightarrow> each_counted limit row i (number_chain i k) ob = fill_from (\<lambda>i. map mk_attribute (row i)) i k ob"
proof (induction k arbitrary: i ob)
  case (Suc k)
  have "each_counted limit row (Suc i) (number_chain (Suc i) k) = fill_from (\<lambda>i. map mk_attribute (row i)) (Suc i) k"
    by (intro ext Suc.IH) (use Suc.prems in simp_all)
  then show ?case
    unfolding number_chain_Suc using Suc.prems by (simp add: insert_attributes_all del: of_nat_Suc)
qed simp

lemma array_index: "j < 1000 \<Longrightarrow> GetArrayIndexFromInstance (of_nat (Suc j)) = int j"
  by (simp add: GetArrayIndexFromInstance_def Let_def del: of_nat_Suc)

lemma each_indexed_fill:
  "i + k \<le> limit \<Longrightarrow> limit \<le> 1000 \<Longrightarrow>
   each_indexed limit row (number_chain i k) ob = fill_from (\<lambda>i. map mk_attribute (row i)) i k ob"
proof (induction k arbitrary: i ob)
  case (Suc k)
  have "each_indexed limit row (number_chain (Suc i) k) = fill_from (\<lambda>i. map mk_attribute (row i)) (Suc i) k"
    by (intro ext Suc.IH) (use Suc.prems in simp_all)
  then show ?case
    unfolding number_chain_Suc using Suc.prems by (simp add: insert_attributes_all array_index del: of_nat_Suc)
qed simp

lemma chain_of_blank: "instances ob = blank_instances na k \<Longrightarrow> chain_of ob = number_chain 0 k"
  by (simp add: chain_of_def blank_instances_def)

lemma update_first_last:
  "find P xs = None \<Longrightarrow> P y \<Longrightarrow> update_first P f (xs @ [y]) = xs @ [f y]"
  by (induction xs) (auto split: if_splits)

lemma update_created_class:
  assumes "GetCipClass code st = None" and "class_code (cip_class ob) = code" and "f ob = Some ob'"
  shows "update_class code f (st\<lparr>g_first_object := g_first_object st @ [ob]\<rparr>) =
    Some (st\<lparr>g_first_object := g_first_object st @ [ob']\<rparr>)"
proof -
  have n: "find (\<lambda>ob. class_code (cip_class ob) = code) (g_first_object st) = None"
    using assms(1) by (simp add: GetCipClass_def GetRegisteredObject_def split: option.splits)
  then have "find (\<lambda>ob. class_code (cip_class ob) = code) (g_first_object st @ [ob]) = Some ob"
    using assms(2) by (simp add: find_skip find_None_iff)
  with n assms(2,3) show ?thesis
    by (simp add: update_class_def GetCipClass_def GetRegisteredObject_def update_first_last)
qed

text \<open>Creation of a class followed by a loop that fills its instances and the insertion of its services.\<close>

lemma create_and_fill:
  assumes "GetCipClass (spec_code s) st = None" and "spec_fits s"
    and fill: "\<And>ob. instances ob = blank_instances (spec_attributes s) (spec_count s) \<Longrightarrow>
      f ob = do { ob \<leftarrow> fill_from (spec_rows s) 0 (spec_count s) ob; insert_services (spec_services s) ob }"
  shows "\<exists>ob. CreateCipClass (spec_code s) 0 7 2 (int (spec_attributes s)) (of_nat (spec_attributes s))
        (int (length (spec_services s))) (of_nat (spec_count s)) r None st = Some (st\<lparr>g_first_object := g_first_object st @ [ob]\<rparr>) \<and>
    (\<exists>ob'. update_class (spec_code s) f (st\<lparr>g_first_object := g_first_object st @ [ob]\<rparr>) =
      Some (st\<lparr>g_first_object := g_first_object st @ [ob']\<rparr>) \<and> class_layout s ob')"
proof -
  obtain ob where ob: "CreateCipClass (spec_code s) 0 7 2 (int (spec_attributes s)) (of_nat (spec_attributes s))
        (int (length (spec_services s))) (of_nat (spec_count s)) r None st = Some (st\<lparr>g_first_object := g_first_object st @ [ob]\<rparr>)"
    "cip_class ob = fresh_class (spec_code s) (spec_attributes s) (length (spec_services s)) (spec_count s) r"
    "instances ob = blank_instances (spec_attributes s) (spec_count s)"
    using CreateCipClass_fresh [OF assms(1), of "spec_attributes s" "length (spec_services s)" "spec_count s" r] assms(2)
    unfolding spec_fits_def rows_fit_def by blast
  obtain ob' where "f ob = Some ob'" "class_layout s ob'"
    using populate_layout [OF assms(2) ob(2,3)] fill [OF ob(3)] by auto
  then show ?thesis
    using ob update_created_class [OF assms(1), of ob f ob'] by (auto simp: fresh_class_simps)
qed

lemma instances_of_blank: "0 < k \<Longrightarrow> instances ob = blank_instances na k \<Longrightarrow> instances ob \<noteq> []"
  by (simp add: blank_instances_def)

lemma counted_builder:
  assumes "s = robot_spec code na k row svcs" and "spec_fits s" and "k \<le> limit"
    and "\<And>st. create st = do {
      st \<leftarrow> CreateCipClass code 0 7 2 (int na) (of_nat na) (int (length svcs)) (of_nat k) 1 None st;
      update_class code (\<lambda>ob. if instances ob = [] \<or> \<not> arrays_exist bases st then Some ob
        else do { ob \<leftarrow> each_counted limit row 0 (chain_of ob) ob; insert_services svcs ob }) st }"
  shows "class_builder create s bases"
proof
  show "spec_fits s" by (rule assms(2))
  fix st :: "'a cip_state_scheme"
  assume none: "GetCipClass (spec_code s) st = None" and arrays: "arrays_exist bases st"
  have fields: "spec_code s = code" "spec_attributes s = na" "spec_count s = k" "spec_services s = svcs"
    "spec_rows s = (\<lambda>i. map mk_attribute (row i))"
    by (simp_all add: assms(1) robot_spec_def)
  have "0 < k" using assms(2) fields by (simp add: spec_fits_def)
  let ?f = "\<lambda>st :: 'a cip_state_scheme. \<lambda>ob. if instances ob = [] \<or> \<not> arrays_exist bases st then Some ob
        else do { ob \<leftarrow> each_counted limit row 0 (chain_of ob) ob; insert_services svcs ob }"
  have "?f st ob = do { ob \<leftarrow> fill_from (spec_rows s) 0 (spec_count s) ob; insert_services (spec_services s) ob }"
    if "instances ob = blank_instances (spec_attributes s) (spec_count s)" for ob
    using arrays \<open>0 < k\<close> instances_of_blank [OF _ that] chain_of_blank [OF that] each_counted_fill [of 0 k limit row ob] assms(3)
    by (simp add: fields)
  from create_and_fill [OF none assms(2) this, where r = 1]
  show "\<exists>ob. create st = Some (st\<lparr>g_first_object := g_first_object st @ [ob]\<rparr>) \<and> class_layout s ob"
    using assms(4) by (auto simp: fields arrays_exist_def)
qed

lemma indexed_builder:
  assumes "s = robot_spec code na k row svcs" and "spec_fits s" and "k \<le> 1000"
  shows "class_builder (indexed_class code na k base row svcs) s [base]"
proof
  show "spec_fits s" by (rule assms(2))
  fix st :: "'a cip_state_scheme"
  assume none: "GetCipClass (spec_code s) st = None" and arrays: "arrays_exist [base] st"
  have fields: "spec_code s = code" "spec_attributes s = na" "spec_count s = k" "spec_services s = svcs"
    "spec_rows s = (\<lambda>i. map mk_attribute (row i))"
    by (simp_all add: assms(1) robot_spec_def)
  have "do { ob \<leftarrow> each_indexed k row (chain_of ob) ob; insert_services svcs ob } =
      do { ob \<leftarrow> fill_from (spec_rows s) 0 (spec_count s) ob; insert_services (spec_services s) ob }"
    if "instances ob = blank_instances (spec_attributes s) (spec_count s)" for ob
    using chain_of_blank [OF that] each_indexed_fill [of 0 k k row ob] assms(3) by (simp add: fields)
  from create_and_fill [OF none assms(2) this, where r = 1]
  show "\<exists>ob. indexed_class code na k base row svcs st = Some (st\<lparr>g_first_object := g_first_object st @ [ob]\<rparr>) \<and> class_layout s ob"
    using arrays by (auto simp: fields indexed_class_def not_null_def arrays_exist_def)
qed

text \<open>
  The published classes, written out: code, number of attributes, number of instances, the attributes of instance
  \<open>i + 1\<close> (number, data type, encoder, decoder, cell, flags) and the services (number, function). The flags are 2 for an
  attribute that is read by itself, 3 for one that is also read with all others, 7 for one that is written as well. The
  table is independent of the rows and lists the functions of the application insert; that they agree is proved below.
\<close>

definition alarm_spec :: class_spec where
  "alarm_spec = robot_spec 0x70 5 4
     (\<lambda>i. [(1, kCipUdint, EncCipUdint, None, s_active_alarms i 0, 3),
        (2, kCipUdint, EncCipUdint, None, s_active_alarms i 1, 3),
        (3, kCipUdint, EncCipUdint, None, s_active_alarms i 2, 3),
        (4, 0xFF, EncMotomanAlarmDateTime16, None, s_active_alarms i 3, 3),
        (5, 0xFF, EncMotomanAlarmString32, None, s_active_alarms i 4, 3)])
     [(0x0E, SvcGetAttributeSingle), (0x01, SvcGetAttributeAll)]"

definition alarm_history_spec :: class_spec where
  "alarm_history_spec = robot_spec 0x71 5 100
     (\<lambda>i. [(1, kCipUdint, EncCipUdint, None, s_alarm_history i 0, 3),
        (2, kCipUdint, EncCipUdint, None, s_alarm_history i 1, 3),
        (3, kCipUdint, EncCipUdint, None, s_alarm_history i 2, 3),
        (4, 0xFF, EncMotomanAlarmDateTime16, None, s_alarm_history i 3, 3),
        (5, 0xFF, EncMotomanAlarmString32, None, s_alarm_history i 4, 3)])
     [(0x0E, SvcGetAttributeSingle), (0x01, SvcGetAttributeAll)]"

definition status_spec :: class_spec where
  "status_spec = robot_spec 0x72 2 1
     (\<lambda>i. [(1, kCipUdint, EncCipUdint, None, s_status_data1, 3),
        (2, kCipUdint, EncCipUdint, None, s_status_data2, 3)])
     [(0x0E, SvcGetAttributeSingle), (0x01, SvcGetAttributeAll)]"

definition job_info_spec :: class_spec where
  "job_info_spec = robot_spec 0x73 4 1
     (\<lambda>i. [(1, 0xFF, EncMotomanJobName32, None, s_job_name, 3),
        (2, kCipUdint, EncCipUdint, None, s_job_line, 3),
        (3, kCipUdint, EncCipUdint, None, s_step_number, 3),
        (4, kCipUdint, EncCipUdint, None, s_speed_override, 3)])
     [(0x0E, SvcGetAttributeSingle), (0x01, SvcGetAttributeAll)]"

definition axis_config_spec :: class_spec where
  "axis_config_spec = robot_spec 0x74 2 1
     (\<lambda>i. [(1, kCipUsint, EncCipUsint, None, s_axis_count, 2),
        (2, kCipByte, EncCipByte, None, s_axis_type 0, 2)])
     [(0x0E, SvcGetAttributeSingle)]"

definition position_spec :: class_spec where
  "position_spec = robot_spec 0x75 13 108
     (\<lambda>i. [(1, kCipDint, EncCipDint, None, s_position_data i 0, 3),
        (2, kCipDint, EncCipDint, None, s_position_data i 1, 3),
        (3, kCipDint, EncCipDint, None, s_position_data i 2, 3),
        (4, kCipDint, EncCipDint, None, s_position_data i 3, 3),
        (5, kCipDint, EncCipDint, None, s_position_data i 4, 3),
        (6, kCipDint, EncCipDint, None, s_position_data i 5, 3),
        (7, kCipDint, EncCipDint, None, s_position_data i 6, 3),
        (8, kCipDint, EncCipDint, None, s_position_data i 7, 3),
        (9, kCipDint, EncCipDint, None, s_position_data i 8, 3),
        (10, kCipDint, EncCipDint, None, s_position_data i 9, 3),
        (11, kCipDint, EncCipDint, None, s_position_data i 10, 3),
        (12, kCipDint, EncCipDint, None, s_position_data i 11, 3),
        (13, kCipDint, EncCipDint, None, s_position_data i 12, 3)])
     [(0x0E, SvcGetAttributeSingle), (0x01, SvcGetAttributeAllPositionOrder)]"

definition position_deviation_spec :: class_spec where
  "position_deviation_spec = robot_spec 0x76 8 8
     (\<lambda>i. [(1, kCipDint, EncCipDint, None, s_position_deviation 0, 3),
        (2, kCipDint, EncCipDint, None, s_position_deviation 1, 3),
        (3, kCipDint, EncCipDint, None, s_position_deviation 2, 3),
        (4, kCipDint, EncCipDint, None, s_position_deviation 3, 3),
        (5, kCipDint, EncCipDint, None, s_position_deviation 4, 3),
        (6, kCipDint, EncCipDint, None, s_position_deviation 5, 3),
        (7, kCipDint, EncCipDint, None, s_position_deviation 6, 3),
        (8, kCipDint, EncCipDint, None, s_position_deviation 7, 3)])
     [(0x0E, SvcGetAttributeSingle), (0x01, SvcGetAttributeAll)]"

definition torque_spec :: class_spec where
  "torque_spec = robot_spec 0x77 8 8
     (\<lambda>i. [(1, kCipDint, EncCipDint, None, s_torque 0, 3),
        (2, kCipDint, EncCipDint, None, s_torque 1, 3),
        (3, kCipDint, EncCipDint, None, s_torque 2, 3),
        (4, kCipDint, EncCipDint, None, s_torque 3, 3),
        (5, kCipDint, EncCipDint, None, s_torque 4, 3),
        (6, kCipDint, EncCipDint, None, s_torque 5, 3),
        (7, kCipDint, EncCipDint, None, s_torque 6, 3),
        (8, kCipDint, EncCipDint, None, s_torque 7, 3)])
     [(0x0E, SvcGetAttributeSingle), (0x01, SvcGetAttributeAll)]"

definition io_spec :: class_spec where
  "io_spec = robot_spec 0x78 1 8220
     (\<lambda>i. [(1, kCipUsint, EncCipUsint, Some DecCipUsint, s_io_data i, 7)])
     [(0x0E, SvcGetAttributeSingle), (0x10, SvcSetAttributeSingle)]"

definition register_spec :: class_spec where
  "register_spec = robot_spec 0x79 1 1000
     (\<lambda>i. [(1, kCipUint, EncCipUint, Some DecCipUint, s_registers i, 7)])
     [(0x0E, SvcGetAttributeSingle), (0x10, SvcSetAttributeSingle)]"

definition variable_b_spec :: class_spec where
  "variable_b_spec = robot_spec 0x7A 1 1000
     (\<lambda>i. [(1, kCipUsint, EncCipUsint, Some DecCipUsint, s_variable_b i, 7)])
     [(0x0E, SvcGetAttributeSingle), (0x10, SvcSetAttributeSingle)]"

definition variable_i_spec :: class_spec where
  "variable_i_spec = robot_spec 0x7B 1 1000
     (\<lambda>i. [(1, kCipInt, EncCipInt, Some DecCipInt, s_variable_i i, 7)])
     [(0x0E, SvcGetAttributeSingle), (0x10, SvcSetAttributeSingle)]"

definition variable_d_spec :: class_spec where
  "variable_d_spec = robot_spec 0x7C 1 1000
     (\<lambda>i. [(1, kCipDint, EncCipDint, Some DecCipDint, s_variable_d i, 7)])
     [(0x0E, SvcGetAttributeSingle), (0x10, SvcSetAttributeSingle)]"

definition variable_r_spec :: class_spec where
  "variable_r_spec = robot_spec 0x7D 1 1000
     (\<lambda>i. [(1, kCipReal, EncCipReal, Some DecCipReal, s_variable_r i, 7)])
     [(0x0E, SvcGetAttributeSingle), (0x10, SvcSetAttributeSingle)]"

definition variable_s_spec :: class_spec where
  "variable_s_spec = robot_spec 0x8C 1 1000
     (\<lambda>i. [(1, 0xFF, EncMotomanString32, Some DecMotomanString32, s_variable_s i, 7)])
     [(0x0E, SvcGetAttributeSingle), (0x10, SvcSetAttributeSingle)]"

definition variable_p_spec :: class_spec where
  "variable_p_spec = robot_spec 0x7F 13 128
     (\<lambda>i. [(1, kCipDint, EncCipDint, Some DecCipDint, s_variable_p i 0, 7),
        (2, kCipDint, EncCipDint, Some DecCipDint, s_variable_p i 1, 7),
        (3, kCipDint, EncCipDint, Some DecCipDint, s_variable_p i 2, 7),
        (4, kCipDint, EncCipDint, Some DecCipDint, s_variable_p i 3, 7),
        (5, kCipDint, EncCipDint, Some DecCipDint, s_variable_p i 4, 7),
        (6, kCipDint, EncCipDint, Some DecCipDint, s_variable_p i 5, 7),
        (7, kCipDint, EncCipDint, Some DecCipDint, s_variable_p i 6, 7),
        (8, kCipDint, EncCipDint, Some DecCipDint, s_variable_p i 7, 7),
        (9, kCipDint, EncCipDint, Some DecCipDint, s_variable_p i 8, 7),
        (10, kCipDint, EncCipDint, Some DecCipDint, s_variable_p i 9, 7),
        (11, kCipDint, EncCipDint, Some DecCipDint, s_variable_p i 10, 7),
        (12, kCipDint, EncCipDint, Some DecCipDint, s_variable_p i 11, 7),
        (13, kCipDint, EncCipDint, Some DecCipDint, s_variable_p i 12, 7)])
     [(0x0E, SvcGetAttributeSingle), (0x01, SvcGetAttributeAllPositionOrder), (0x10, SvcSetAttributeSingle),
      (0x02, SvcSetAttributeAll)]"

definition variable_bp_spec :: class_spec where
  "variable_bp_spec = robot_spec 0x80 9 1000
     (\<lambda>i. [(1, kCipDint, EncCipDint, Some DecCipDint, s_variable_bp i 0, 7),
        (2, kCipDint, EncCipDint, Some DecCipDint, s_variable_bp i 1, 7),
        (3, kCipDint, EncCipDint, Some DecCipDint, s_variable_bp i 2, 7),
        (4, kCipDint, EncCipDint, Some DecCipDint, s_variable_bp i 3, 7),
        (5, kCipDint, EncCipDint, Some DecCipDint, s_variable_bp i 4, 7),
        (6, kCipDint, EncCipDint, Some DecCipDint, s_variable_bp i 5, 7),
        (7, kCipDint, EncCipDint, Some DecCipDint, s_variable_bp i 6, 7),
        (8, kCipDint, EncCipDint, Some DecCipDint, s_variable_bp i 7, 7),
        (9, kCipDint, EncCipDint, Some DecCipDint, s_variable_bp i 8, 7)])
     [(0x0E, SvcGetAttributeSingle), (0x10, SvcSetAttributeSingle)]"

definition variable_ex_spec :: class_spec where
  "variable_ex_spec = robot_spec 0x81 9 1000
     (\<lambda>i. [(1, kCipDint, EncCipDint, Some DecCipDint, s_variable_ex i 0, 7),
        (2, kCipDint, EncCipDint, Some DecCipDint, s_variable_ex i 1, 7),
        (3, kCipDint, EncCipDint, Some DecCipDint, s_variable_ex i 2, 7),
        (4, kCipDint, EncCipDint, Some DecCipDint, s_variable_ex i 3, 7),
        (5, kCipDint, EncCipDint, Some DecCipDint, s_variable_ex i 4, 7),
        (6, kCipDint, EncCipDint, Some DecCipDint, s_variable_ex i 5, 7),
        (7, kCipDint, EncCipDint, Some DecCipDint, s_variable_ex i 6, 7),
        (8, kCipDint, EncCipDint, Some DecCipDint, s_variable_ex i 7, 7),
        (9, kCipDint, EncCipDint, Some DecCipDint, s_variable_ex i 8, 7)])
     [(0x0E, SvcGetAttributeSingle), (0x10, SvcSetAttributeSingle)]"

text \<open>The same tables in the form the application builds them.\<close>

lemmas service_lists = get_services_def get_set_services_def variable_p_services_def

lemmas row_lists = alarm_row_def status_row_def job_info_row_def axis_config_row_def

lemma row_numbers:
  "[Suc 0..<9] = [Suc 0, 2, 3, 4, 5, 6, 7, 8::nat]"
  "[Suc 0..<10] = [Suc 0, 2, 3, 4, 5, 6, 7, 8, 9::nat]"
  "[Suc 0..<14] = [Suc 0, 2, 3, 4, 5, 6, 7, 8, 9, 10, 11, 12, 13::nat]"
  by (simp_all add: upt_rec)

lemma dint_rows:
  "dint_row 8 dec cell flags = map (\<lambda>j. (of_nat (Suc j), kCipDint, EncCipDint, dec, cell j, flags)) [0, 1, 2, 3, 4, 5, 6, 7]"
  "dint_row 9 dec cell flags = map (\<lambda>j. (of_nat (Suc j), kCipDint, EncCipDint, dec, cell j, flags)) [0, 1, 2, 3, 4, 5, 6, 7, 8]"
  "dint_row 13 dec cell flags = map (\<lambda>j. (of_nat (Suc j), kCipDint, EncCipDint, dec, cell j, flags)) [0, 1, 2, 3, 4, 5, 6, 7, 8, 9, 10, 11, 12]"
  by (simp_all add: dint_row_def row_numbers del: upt_Suc)

lemma alarm_spec_eq: "alarm_spec = robot_spec MOTOMAN_CLASS_ALARM 5 MOTOMAN_MAX_ACTIVE_ALARMS
     (\<lambda>i. alarm_row (s_active_alarms i)) get_services"
  by (simp add: alarm_spec_def service_lists row_lists dint_rows)

lemma alarm_history_spec_eq: "alarm_history_spec = robot_spec MOTOMAN_CLASS_ALARM_HISTORY 5 MOTOMAN_ALARM_HISTORY_SIZE
     (\<lambda>i. alarm_row (s_alarm_history i)) get_services"
  by (simp add: alarm_history_spec_def service_lists row_lists dint_rows)

lemma status_spec_eq: "status_spec = robot_spec MOTOMAN_CLASS_STATUS 2 1
     (\<lambda>i. status_row) get_services"
  by (simp add: status_spec_def service_lists row_lists dint_rows)

lemma job_info_spec_eq: "job_info_spec = robot_spec MOTOMAN_CLASS_JOB_INFO 4 1
     (\<lambda>i. job_info_row) get_services"
  by (simp add: job_info_spec_def service_lists row_lists dint_rows)

lemma axis_config_spec_eq: "axis_config_spec = robot_spec MOTOMAN_CLASS_AXIS_CONFIG 2 1
     (\<lambda>i. axis_config_row) [(kGetAttributeSingle, SvcGetAttributeSingle)]"
  by (simp add: axis_config_spec_def service_lists row_lists dint_rows)

lemma position_spec_eq: "position_spec = robot_spec MOTOMAN_CLASS_POSITION MOTOMAN_POSITION_ATTRIBUTES MOTOMAN_MAX_POSITION_INSTANCES
     (\<lambda>i. dint_row MOTOMAN_POSITION_ATTRIBUTES None (s_position_data i) kGetableSingleAndAll) [(kGetAttributeSingle, SvcGetAttributeSingle), (kGetAttributeAll, SvcGetAttributeAllPositionOrder)]"
  by (simp add: position_spec_def service_lists row_lists dint_rows)

lemma position_deviation_spec_eq: "position_deviation_spec = robot_spec MOTOMAN_CLASS_POSITION_DEVIATION MOTOMAN_MAX_AXES MOTOMAN_MAX_AXES
     (\<lambda>i. dint_row MOTOMAN_MAX_AXES None s_position_deviation kGetableSingleAndAll) get_services"
  by (simp add: position_deviation_spec_def service_lists row_lists dint_rows)

lemma torque_spec_eq: "torque_spec = robot_spec MOTOMAN_CLASS_TORQUE MOTOMAN_MAX_AXES MOTOMAN_MAX_AXES
     (\<lambda>i. dint_row MOTOMAN_MAX_AXES None s_torque kGetableSingleAndAll) get_services"
  by (simp add: torque_spec_def service_lists row_lists dint_rows)

lemma io_spec_eq: "io_spec = robot_spec MOTOMAN_CLASS_IO 1 MOTOMAN_MAX_IO_SIGNALS
     (\<lambda>i. [(1, kCipUsint, EncCipUsint, Some DecCipUsint, s_io_data i, kSetAndGetAble)]) get_set_services"
  by (simp add: io_spec_def service_lists row_lists dint_rows)

lemma register_spec_eq: "register_spec = robot_spec MOTOMAN_CLASS_REGISTER 1 MOTOMAN_MAX_REGISTERS
     (\<lambda>i. [(1, kCipUint, EncCipUint, Some DecCipUint, s_registers i, kSetAndGetAble)]) get_set_services"
  by (simp add: register_spec_def service_lists row_lists dint_rows)

lemma variable_b_spec_eq: "variable_b_spec = robot_spec MOTOMAN_CLASS_VARIABLE_B 1 MOTOMAN_MAX_VARIABLES
     (\<lambda>i. [(1, kCipUsint, EncCipUsint, Some DecCipUsint, s_variable_b i, kSetAndGetAble)]) get_set_services"
  by (simp add: variable_b_spec_def service_lists row_lists dint_rows)

lemma variable_i_spec_eq: "variable_i_spec = robot_spec MOTOMAN_CLASS_VARIABLE_I 1 MOTOMAN_MAX_VARIABLES
     (\<lambda>i. [(1, kCipInt, EncCipInt, Some DecCipInt, s_variable_i i, kSetAndGetAble)]) get_set_services"
  by (simp add: variable_i_spec_def service_lists row_lists dint_rows)

lemma variable_d_spec_eq: "variable_d_spec = robot_spec MOTOMAN_CLASS_VARIABLE_D 1 MOTOMAN_MAX_VARIABLES
     (\<lambda>i. [(1, kCipDint, EncCipDint, Some DecCipDint, s_variable_d i, kSetAndGetAble)]) get_set_services"
  by (simp add: variable_d_spec_def service_lists row_lists dint_rows)

lemma variable_r_spec_eq: "variable_r_spec = robot_spec MOTOMAN_CLASS_VARIABLE_R 1 MOTOMAN_MAX_VARIABLES
     (\<lambda>i. [(1, kCipReal, EncCipReal, Some DecCipReal, s_variable_r i, kSetAndGetAble)]) get_set_services"
  by (simp add: variable_r_spec_def service_lists row_lists dint_rows)

lemma variable_s_spec_eq: "variable_s_spec = robot_spec MOTOMAN_CLASS_VARIABLE_S 1 MOTOMAN_MAX_VARIABLES
     (\<lambda>i. [(1, 0xFF, EncMotomanString32, Some DecMotomanString32, s_variable_s i, kSetAndGetAble)]) get_set_services"
  by (simp add: variable_s_spec_def service_lists row_lists dint_rows)

lemma variable_p_spec_eq: "variable_p_spec = robot_spec MOTOMAN_CLASS_VARIABLE_P MOTOMAN_VARIABLE_P_ATTRIBUTES MOTOMAN_MAX_VARIABLE_P
     (\<lambda>i. dint_row MOTOMAN_VARIABLE_P_ATTRIBUTES (Some DecCipDint) (s_variable_p i) (kSetAndGetAble OR kGetableAll)) variable_p_services"
  by (simp add: variable_p_spec_def service_lists row_lists dint_rows)

lemma variable_bp_spec_eq: "variable_bp_spec = robot_spec MOTOMAN_CLASS_VARIABLE_BP MOTOMAN_VARIABLE_BP_ATTRIBUTES MOTOMAN_MAX_VARIABLES
     (\<lambda>i. dint_row MOTOMAN_VARIABLE_BP_ATTRIBUTES (Some DecCipDint) (s_variable_bp i) kSetAndGetAble) get_set_services"
  by (simp add: variable_bp_spec_def service_lists row_lists dint_rows)

lemma variable_ex_spec_eq: "variable_ex_spec = robot_spec MOTOMAN_CLASS_VARIABLE_EX MOTOMAN_VARIABLE_EX_ATTRIBUTES MOTOMAN_MAX_VARIABLES
     (\<lambda>i. dint_row MOTOMAN_VARIABLE_EX_ATTRIBUTES (Some DecCipDint) (s_variable_ex i) kSetAndGetAble) get_set_services"
  by (simp add: variable_ex_spec_def service_lists row_lists dint_rows)

lemmas robot_spec_defs = alarm_spec_def alarm_history_spec_def status_spec_def job_info_spec_def axis_config_spec_def position_spec_def position_deviation_spec_def torque_spec_def io_spec_def register_spec_def variable_b_spec_def variable_i_spec_def variable_d_spec_def variable_r_spec_def variable_s_spec_def variable_p_spec_def variable_bp_spec_def variable_ex_spec_def

lemmas robot_spec_eqs = alarm_spec_eq alarm_history_spec_eq status_spec_eq job_info_spec_eq axis_config_spec_eq position_spec_eq position_deviation_spec_eq torque_spec_eq io_spec_eq register_spec_eq variable_b_spec_eq variable_i_spec_eq variable_d_spec_eq variable_r_spec_eq variable_s_spec_eq variable_p_spec_eq variable_bp_spec_eq variable_ex_spec_eq

lemma dint_row_fits:
  "length (dint_row count dec cell flags) = count" "distinct (map fst (dint_row count dec cell flags)) \<longleftrightarrow> distinct (map (of_nat :: nat \<Rightarrow> CipUint) [1..<Suc count])"
  by (simp_all add: dint_row_def comp_def del: upt_Suc)

lemma dint_row_mk:
  "map mk_attribute (dint_row count dec cell flags) = map (\<lambda>j. \<lparr>attr_number = of_nat (Suc j), attr_type = kCipDint,
     attr_encode = Some EncCipDint, attr_decode = dec, attribute_flags = flags, attr_data = Some (DVar (cell j))\<rparr>) [0..<count]"
  by (auto simp: dint_row_def intro!: nth_equalityI simp del: upt_Suc)

lemma robot_spec_fits:
  assumes "0 < na" "na < 65536" "0 < k" "k \<le> 65535" "distinct (map fst svcs)" "length svcs < 65536"
    and "\<And>i. i < k \<Longrightarrow> length (row i) = na \<and> distinct (map fst (row i)) \<and> (\<forall>a \<in> set (row i). unat (fst a) \<le> na)"
  shows "spec_fits (robot_spec code na k row svcs)"
proof -
  have n: "attr_number (mk_attribute a) = fst a" "attr_data (mk_attribute a) \<noteq> None" for a
    by (simp_all add: mk_attribute_def split: prod.splits)
  then have "attr_number \<circ> mk_attribute = fst"
    by (simp add: fun_eq_iff)
  with assms n show ?thesis
    by (auto simp: spec_fits_def rows_fit_def robot_spec_def)
qed

lemma dint_spec_fits:
  assumes "0 < na" "na < 65535" "0 < k" "k \<le> 65535" "distinct (map fst svcs)" "length svcs < 65536"
  shows "spec_fits (robot_spec code na k (\<lambda>i. dint_row na dec (cell i) flags) svcs)"
proof (rule robot_spec_fits)
  have "distinct (map (of_nat :: nat \<Rightarrow> CipUint) [1..<Suc na])"
    using assms(2) by (auto simp: distinct_map inj_on_def word_unat_eq_iff simp del: upt_Suc)
  moreover have "\<forall>a \<in> set (dint_row na dec (cell i) flags). unat (fst a) \<le> na" for i
    using assms(2) by (auto simp: dint_row_def simp del: upt_Suc)
  ultimately show "length (dint_row na dec (cell i) flags) = na \<and> distinct (map fst (dint_row na dec (cell i) flags)) \<and>
      (\<forall>a \<in> set (dint_row na dec (cell i) flags). unat (fst a) \<le> na)" for i
    by (simp add: dint_row_fits)
qed (use assms in auto)

lemma alarm_fits: "spec_fits alarm_spec"
  unfolding alarm_spec_eq by (rule robot_spec_fits) (auto simp: service_lists row_lists)

lemma alarm_history_fits: "spec_fits alarm_history_spec"
  unfolding alarm_history_spec_eq by (rule robot_spec_fits) (auto simp: service_lists row_lists)

lemma status_fits: "spec_fits status_spec"
  unfolding status_spec_eq by (rule robot_spec_fits) (auto simp: service_lists row_lists)

lemma job_info_fits: "spec_fits job_info_spec"
  unfolding job_info_spec_eq by (rule robot_spec_fits) (auto simp: service_lists row_lists)

lemma axis_config_fits: "spec_fits axis_config_spec"
  unfolding axis_config_spec_eq by (rule robot_spec_fits) (auto simp: service_lists row_lists)

lemma position_fits: "spec_fits position_spec"
  unfolding position_spec_eq by (rule dint_spec_fits) (simp_all add: service_lists)

lemma position_deviation_fits: "spec_fits position_deviation_spec"
  unfolding position_deviation_spec_eq by (rule dint_spec_fits) (simp_all add: service_lists)

lemma torque_fits: "spec_fits torque_spec"
  unfolding torque_spec_eq by (rule dint_spec_fits) (simp_all add: service_lists)

lemma io_fits: "spec_fits io_spec"
  unfolding io_spec_eq by (rule robot_spec_fits) (auto simp: service_lists row_lists)

lemma register_fits: "spec_fits register_spec"
  unfolding register_spec_eq by (rule robot_spec_fits) (auto simp: service_lists row_lists)

lemma variable_b_fits: "spec_fits variable_b_spec"
  unfolding variable_b_spec_eq by (rule robot_spec_fits) (auto simp: service_lists row_lists)

lemma variable_i_fits: "spec_fits variable_i_spec"
  unfolding variable_i_spec_eq by (rule robot_spec_fits) (auto simp: service_lists row_lists)

lemma variable_d_fits: "spec_fits variable_d_spec"
  unfolding variable_d_spec_eq by (rule robot_spec_fits) (auto simp: service_lists row_lists)

lemma variable_r_fits: "spec_fits variable_r_spec"
  unfolding variable_r_spec_eq by (rule robot_spec_fits) (auto simp: service_lists row_lists)

lemma variable_s_fits: "spec_fits variable_s_spec"
  unfolding variable_s_spec_eq by (rule robot_spec_fits) (auto simp: service_lists row_lists)

lemma variable_p_fits: "spec_fits variable_p_spec"
  unfolding variable_p_spec_eq by (rule dint_spec_fits) (simp_all add: service_lists)

lemma variable_bp_fits: "spec_fits variable_bp_spec"
  unfolding variable_bp_spec_eq by (rule dint_spec_fits) (simp_all add: service_lists)

lemma variable_ex_fits: "spec_fits variable_ex_spec"
  unfolding variable_ex_spec_eq by (rule dint_spec_fits) (simp_all add: service_lists)

lemma single_builder:
  assumes "s = robot_spec code na 1 (\<lambda>i. row) svcs" and "spec_fits s"
    and "\<And>st. create st = do {
      st \<leftarrow> CreateCipClass code 0 7 2 (int na) (of_nat na) (int (length svcs)) 1 1 None st;
      update_class code (\<lambda>ob. case chain_of ob of
           [] \<Rightarrow> Some ob
         | n # _ \<Rightarrow> do { ob \<leftarrow> insert_attributes n row ob; insert_services svcs ob }) st }"
  shows "class_builder create s []"
proof
  show "spec_fits s" by (rule assms(2))
  fix st :: "'a cip_state_scheme"
  assume none: "GetCipClass (spec_code s) st = None"
  have fields: "spec_code s = code" "spec_attributes s = na" "spec_count s = 1" "spec_services s = svcs"
    "spec_rows s = (\<lambda>i. map mk_attribute row)"
    by (simp_all add: assms(1) robot_spec_def)
  have "(case chain_of ob of [] \<Rightarrow> Some ob | n # _ \<Rightarrow> do { ob \<leftarrow> insert_attributes n row ob; insert_services svcs ob }) =
      do { ob \<leftarrow> fill_from (spec_rows s) 0 (spec_count s) ob; insert_services (spec_services s) ob }"
    if "instances ob = blank_instances (spec_attributes s) (spec_count s)" for ob
    using chain_of_blank [OF that] by (simp add: fields insert_attributes_all)
  from create_and_fill [OF none assms(2) this, where r = 1]
  show "\<exists>ob. create st = Some (st\<lparr>g_first_object := g_first_object st @ [ob]\<rparr>) \<and> class_layout s ob"
    using assms(3) by (auto simp: fields)
qed

interpretation alarm_class: class_builder CreateMotomanAlarmClass alarm_spec "[]"
  by (rule counted_builder [OF alarm_spec_eq alarm_fits, where limit = "MOTOMAN_MAX_ACTIVE_ALARMS"])
    (simp_all add: CreateMotomanAlarmClass_def service_lists arrays_exist_def not_null_def)

interpretation alarm_history_class: class_builder CreateMotomanAlarmHistoryClass alarm_history_spec "[]"
  by (rule counted_builder [OF alarm_history_spec_eq alarm_history_fits, where limit = "MOTOMAN_ALARM_HISTORY_SIZE"])
    (simp_all add: CreateMotomanAlarmHistoryClass_def service_lists arrays_exist_def not_null_def)

interpretation status_class: class_builder CreateMotomanStatusClass status_spec "[]"
  by (rule single_builder [OF status_spec_eq status_fits])
    (simp_all add: CreateMotomanStatusClass_def service_lists)

interpretation job_info_class: class_builder CreateMotomanJobInfoClass job_info_spec "[]"
  by (rule single_builder [OF job_info_spec_eq job_info_fits])
    (simp_all add: CreateMotomanJobInfoClass_def service_lists)

interpretation axis_config_class: class_builder CreateMotomanAxisConfigClass axis_config_spec "[]"
  by (rule single_builder [OF axis_config_spec_eq axis_config_fits])
    (simp_all add: CreateMotomanAxisConfigClass_def service_lists)

interpretation position_class: class_builder CreateMotomanPositionClass position_spec "[s_position_data 0 0]"
  by (rule counted_builder [OF position_spec_eq position_fits, where limit = "MOTOMAN_MAX_POSITION_INSTANCES"])
    (simp_all add: CreateMotomanPositionClass_def service_lists arrays_exist_def not_null_def)

interpretation position_deviation_class: class_builder CreateMotomanPositionDeviationClass position_deviation_spec "[]"
  by (rule counted_builder [OF position_deviation_spec_eq position_deviation_fits, where limit = "MOTOMAN_MAX_AXES"])
    (simp_all add: CreateMotomanPositionDeviationClass_def service_lists arrays_exist_def not_null_def)

interpretation torque_class: class_builder CreateMotomanTorqueClass torque_spec "[]"
  by (rule counted_builder [OF torque_spec_eq torque_fits, where limit = "MOTOMAN_MAX_AXES"])
    (simp_all add: CreateMotomanTorqueClass_def service_lists arrays_exist_def not_null_def)

interpretation io_class: class_builder CreateMotomanIOClass io_spec "[]"
  by (rule counted_builder [OF io_spec_eq io_fits, where limit = "MOTOMAN_MAX_IO_SIGNALS"])
    (simp_all add: CreateMotomanIOClass_def service_lists arrays_exist_def not_null_def)

interpretation register_class: class_builder CreateMotomanRegisterClass register_spec "[s_registers 0]"
  unfolding CreateMotomanRegisterClass_def by (rule indexed_builder [OF register_spec_eq register_fits]) simp

interpretation variable_b_class: class_builder CreateMotomanVariableBClass variable_b_spec "[s_variable_b 0]"
  unfolding CreateMotomanVariableBClass_def by (rule indexed_builder [OF variable_b_spec_eq variable_b_fits]) simp

interpretation variable_i_class: class_builder CreateMotomanVariableIClass variable_i_spec "[s_variable_i 0]"
  unfolding CreateMotomanVariableIClass_def by (rule indexed_builder [OF variable_i_spec_eq variable_i_fits]) simp

interpretation variable_d_class: class_builder CreateMotomanVariableDClass variable_d_spec "[s_variable_d 0]"
  unfolding CreateMotomanVariableDClass_def by (rule indexed_builder [OF variable_d_spec_eq variable_d_fits]) simp

interpretation variable_r_class: class_builder CreateMotomanVariableRClass variable_r_spec "[s_variable_r 0]"
  unfolding CreateMotomanVariableRClass_def by (rule indexed_builder [OF variable_r_spec_eq variable_r_fits]) simp

interpretation variable_s_class: class_builder CreateMotomanVariableSClass variable_s_spec "[s_variable_s 0]"
  unfolding CreateMotomanVariableSClass_def by (rule indexed_builder [OF variable_s_spec_eq variable_s_fits]) simp

interpretation variable_p_class: class_builder CreateMotomanVariablePClass variable_p_spec "[s_variable_p 0 0]"
  unfolding CreateMotomanVariablePClass_def by (rule indexed_builder [OF variable_p_spec_eq variable_p_fits]) simp

interpretation variable_bp_class: class_builder CreateMotomanVariableBPClass variable_bp_spec "[s_variable_bp 0 0]"
  unfolding CreateMotomanVariableBPClass_def by (rule indexed_builder [OF variable_bp_spec_eq variable_bp_fits]) simp

interpretation variable_ex_class: class_builder CreateMotomanVariableEXClass variable_ex_spec "[s_variable_ex 0 0]"
  unfolding CreateMotomanVariableEXClass_def by (rule indexed_builder [OF variable_ex_spec_eq variable_ex_fits]) simp

text \<open>The classes in the order of their creation, each with the arrays it needs.\<close>

definition robot_specs :: "(class_spec \<times> nat list) list" where
  "robot_specs = [(alarm_spec, []),
     (alarm_history_spec, []),
     (status_spec, []),
     (job_info_spec, []),
     (axis_config_spec, []),
     (position_spec, [s_position_data 0 0]),
     (position_deviation_spec, []),
     (torque_spec, []),
     (io_spec, []),
     (register_spec, [s_registers 0]),
     (variable_b_spec, [s_variable_b 0]),
     (variable_i_spec, [s_variable_i 0]),
     (variable_d_spec, [s_variable_d 0]),
     (variable_r_spec, [s_variable_r 0]),
     (variable_s_spec, [s_variable_s 0]),
     (variable_p_spec, [s_variable_p 0 0]),
     (variable_bp_spec, [s_variable_bp 0 0]),
     (variable_ex_spec, [s_variable_ex 0 0])]"

definition robot_creators :: "('e cip_state_scheme \<Rightarrow> 'e cip_state_scheme run) list" where
  "robot_creators = [CreateMotomanAlarmClass, CreateMotomanAlarmHistoryClass, CreateMotomanStatusClass, CreateMotomanJobInfoClass, CreateMotomanAxisConfigClass, CreateMotomanPositionClass, CreateMotomanPositionDeviationClass, CreateMotomanTorqueClass, CreateMotomanIOClass, CreateMotomanRegisterClass, CreateMotomanVariableBClass, CreateMotomanVariableIClass, CreateMotomanVariableDClass, CreateMotomanVariableRClass, CreateMotomanVariableSClass, CreateMotomanVariablePClass, CreateMotomanVariableBPClass, CreateMotomanVariableEXClass]"

lemma robot_creators_build: "list_all2 (\<lambda>f (s, bs). class_builder f s bs) robot_creators robot_specs"
  by (simp add: robot_creators_def robot_specs_def alarm_class.class_builder_axioms alarm_history_class.class_builder_axioms status_class.class_builder_axioms job_info_class.class_builder_axioms axis_config_class.class_builder_axioms position_class.class_builder_axioms position_deviation_class.class_builder_axioms torque_class.class_builder_axioms io_class.class_builder_axioms register_class.class_builder_axioms variable_b_class.class_builder_axioms variable_i_class.class_builder_axioms variable_d_class.class_builder_axioms variable_r_class.class_builder_axioms variable_s_class.class_builder_axioms variable_p_class.class_builder_axioms variable_bp_class.class_builder_axioms variable_ex_class.class_builder_axioms)

lemma robot_codes_distinct: "distinct (map (spec_code \<circ> fst) robot_specs)"
  by (simp add: robot_specs_def robot_spec_defs robot_spec_def)

end
