(* ===== verification/MotomanData.thy ===== *)
theory MotomanData
  imports MotomanLayout
begin

text \<open>
  What the start of the robot application establishes: which cells the arrays and static variables
  have, the type of the value in each, and the registration of the eighteen robot classes.
\<close>

subsection \<open>Allocation\<close>

lemma mapped_cell: "\<exists>bs. length bs = n \<and> cell_of (map f [0..<n]) = cell_of bs"
  by (rule exI [of _ "map f [0..<n]"]) simp

lemma allocate_array_store:
  assumes "allocate_array block cleared base count cell st = (True, st')"
  shows "base \<le> x \<Longrightarrow> x < base + count \<Longrightarrow> \<exists>bs. length bs = cell \<and> data_store st' x = Some (cell_of bs)"
    and "\<not> (base \<le> x \<and> x < base + count) \<Longrightarrow> data_store st' x = data_store st x"
  using assms by (auto simp: allocate_array_def Let_def mapped_cell split: heap_block.splits)

lemma allocate_array_frame:
  "allocate_array block cleared base count cell st = (ok, st') \<Longrightarrow> g_first_object st' = g_first_object st \<and> (ok \<longleftrightarrow> block \<noteq> NoMemory)"
  by (auto simp: allocate_array_def Let_def split: heap_block.splits)

lemma allocate_arrays_frame:
  "allocate_arrays heap k arrays st = (ok, st') \<Longrightarrow> g_first_object st' = g_first_object st \<and>
     (ok \<longleftrightarrow> (\<forall>j < length arrays. heap (k + j) \<noteq> NoMemory))"
proof (induction arrays arbitrary: k st)
  case (Cons a rest)
  obtain cleared base count cell where a: "a = (cleared, base, count, cell)" by (cases a) auto
  obtain ok1 st1 where one: "allocate_array (heap k) cleared base count cell st = (ok1, st1)" by force
  have split: "(\<forall>j < length (a # rest). heap (k + j) \<noteq> NoMemory) \<longleftrightarrow>
      heap k \<noteq> NoMemory \<and> (\<forall>j < length rest. heap (Suc k + j) \<noteq> NoMemory)"
    by (simp add: All_less_Suc2)
  show ?case
  proof (cases ok1)
    case True
    with Cons.prems one a have "allocate_arrays heap (Suc k) rest st1 = (ok, st')" by simp
    from Cons.IH [OF this] show ?thesis
      using True allocate_array_frame [OF one] unfolding split by simp
  next
    case False
    with Cons.prems one a have "ok = False" "st' = st1" by simp_all
    then show ?thesis
      using False allocate_array_frame [OF one] unfolding split by simp
  qed
qed simp

definition covers :: "nat \<Rightarrow> bool \<times> nat \<times> nat \<times> nat \<Rightarrow> bool" where
  "covers x array = (case array of (cleared, base, count, cell) \<Rightarrow> base \<le> x \<and> x < base + count)"

lemma allocate_arrays_store:
  assumes "allocate_arrays heap k arrays st = (True, st')"
  shows "(\<forall>array \<in> set arrays. \<not> covers x array) \<and> data_store st' x = data_store st x \<or>
    (\<exists>array \<in> set arrays. covers x array \<and> (\<exists>bs. length bs = snd (snd (snd array)) \<and> data_store st' x = Some (cell_of bs)))"
  using assms
proof (induction arrays arbitrary: k st)
  case (Cons a rest)
  obtain cleared base count n where a: "a = (cleared, base, count, n)" by (cases a) auto
  obtain st1 where one: "allocate_array (heap k) cleared base count n st = (True, st1)"
    and more: "allocate_arrays heap (Suc k) rest st1 = (True, st')"
    using Cons.prems a by (auto simp: Let_def split: prod.splits if_splits)
  from Cons.IH [OF more] show ?case
  proof (elim disjE)
    assume "(\<forall>array \<in> set rest. \<not> covers x array) \<and> data_store st' x = data_store st1 x"
    then show ?thesis
      using allocate_array_store [OF one, of x] by (cases "covers x a") (auto simp: a covers_def)
  next
    assume "\<exists>array \<in> set rest. covers x array \<and> (\<exists>bs. length bs = snd (snd (snd array)) \<and> data_store st' x = Some (cell_of bs))"
    then show ?thesis by auto
  qed
qed simp

subsection \<open>Types of the cells\<close>

datatype cell_kind = K8 | K16 | K32 | KOctets nat

fun has_kind :: "cell_kind \<Rightarrow> cip_value \<Rightarrow> bool" where
  "has_kind K8 (V8 x) = True"
| "has_kind K16 (V16 x) = True"
| "has_kind K32 (V32 x) = True"
| "has_kind (KOctets n) (VOctets bs) = (length bs = n)"
| "has_kind _ _ = False"

definition cell_kind_at :: "nat \<Rightarrow> cell_kind option" where
  "cell_kind_at x = (
     if x < 20 \<or> 100 \<le> x \<and> x < 600 then
       Some (if x mod 5 = 3 then KOctets 16 else if x mod 5 = 4 then KOctets 32 else K32)
     else if 600 \<le> x \<and> x < 605 then Some K32
     else if x = 605 then Some (KOctets 32)
     else if x = 606 \<or> 610 \<le> x \<and> x < 618 then Some K8
     else if 620 \<le> x \<and> x < 628 \<or> 630 \<le> x \<and> x < 638 \<or> 640 \<le> x \<and> x < 648 then Some K32
     else if 1000 \<le> x \<and> x < 9220 \<or> 11000 \<le> x \<and> x < 12000 then Some K8
     else if 10000 \<le> x \<and> x < 11000 \<or> 12000 \<le> x \<and> x < 13000 then Some K16
     else if 13000 \<le> x \<and> x < 15000 then Some K32
     else if 15000 \<le> x \<and> x < 16000 then Some (KOctets 32)
     else if 20000 \<le> x \<and> x < 21664 \<or> 25000 \<le> x \<and> x < 26404 \<or> 30000 \<le> x \<and> x < 39000 \<or> 40000 \<le> x \<and> x < 49000
       then Some K32
     else None)"

text \<open>Every cell of the robot exists and holds a value of its type.\<close>

definition store_typed :: "'e cip_state_scheme \<Rightarrow> bool" where
  "store_typed st \<longleftrightarrow> (\<forall>x k. cell_kind_at x = Some k \<longrightarrow> (\<exists>v. data_store st x = Some v \<and> has_kind k v))"

definition cells_typed :: "(nat \<times> cip_value) list \<Rightarrow> bool" where
  "cells_typed xs \<longleftrightarrow> (\<forall>(x, v) \<in> set xs. \<forall>k. cell_kind_at x = Some k \<longrightarrow> has_kind k v)"

lemma store_typed_write:
  "store_typed st \<Longrightarrow> \<forall>k. cell_kind_at x = Some k \<longrightarrow> has_kind k v \<Longrightarrow> store_typed (st\<lparr>data_store := (data_store st)(x \<mapsto> v)\<rparr>)"
  by (simp add: store_typed_def)

lemma fold_cells:
  "fold (\<lambda>(a, v) m. m(a \<mapsto> v)) xs m x = (case map_of (rev xs) x of Some v \<Rightarrow> Some v | None \<Rightarrow> m x)"
proof (induction xs arbitrary: m)
  case (Cons a xs)
  then show ?case by (cases a) (auto simp: map_add_def split: option.splits)
qed simp

lemma store_typed_poke:
  assumes "store_typed st" and "cells_typed xs"
  shows "store_typed (poke_cells xs st)"
  unfolding store_typed_def
proof (intro allI impI)
  fix x k
  assume k: "cell_kind_at x = Some k"
  show "\<exists>v. data_store (poke_cells xs st) x = Some v \<and> has_kind k v"
  proof (cases "map_of (rev xs) x")
    case None
    with assms(1) k show ?thesis by (simp add: poke_cells_def fold_cells store_typed_def)
  next
    case (Some v)
    then have "(x, v) \<in> set xs" by (auto dest: map_of_SomeD)
    with assms(2) k Some show ?thesis by (auto simp: poke_cells_def fold_cells cells_typed_def)
  qed
qed

lemma cells_typed_append [simp]: "cells_typed (xs @ ys) \<longleftrightarrow> cells_typed xs \<and> cells_typed ys"
  by (auto simp: cells_typed_def)

lemma cells_typed_Cons [simp]:
  "cells_typed ((x, v) # xs) \<longleftrightarrow> (\<forall>k. cell_kind_at x = Some k \<longrightarrow> has_kind k v) \<and> cells_typed xs"
  "cells_typed []"
  by (simp_all add: cells_typed_def)

lemma row_cells_typed:
  assumes "\<And>x. base \<le> x \<Longrightarrow> x < base + length vs \<Longrightarrow> cell_kind_at x = Some K32"
  shows "cells_typed (row_cells base vs)"
  using assms by (auto simp: cells_typed_def row_cells_def set_zip)

lemma padded_length [simp]: "length s \<le> n \<Longrightarrow> length (padded n s) = n"
  by (simp add: padded_def)

lemma alarm_cells_typed:
  assumes "\<And>f. cell_kind_at (alarm f) = Some (if f = 3 then KOctets 16 else if f = 4 then KOctets 32 else K32)"
    and "length d \<le> 16" "length t \<le> 32"
  shows "cells_typed (alarm_cells alarm code data d t)"
  using assms by (simp add: alarm_cells_def)

lemma alarm_kinds:
  "i < 4 \<Longrightarrow> f < 5 \<Longrightarrow> cell_kind_at (s_active_alarms i f) = Some (if f = 3 then KOctets 16 else if f = 4 then KOctets 32 else K32)"
  "i < 100 \<Longrightarrow> f < 5 \<Longrightarrow> cell_kind_at (s_alarm_history i f) = Some (if f = 3 then KOctets 16 else if f = 4 then KOctets 32 else K32)"
proof -
  have "(100 + 5 * i + f) mod 5 = f" if "f < 5"
    using that by presburger
  then show "i < 4 \<Longrightarrow> f < 5 \<Longrightarrow> cell_kind_at (s_active_alarms i f) = Some (if f = 3 then KOctets 16 else if f = 4 then KOctets 32 else K32)"
    "i < 100 \<Longrightarrow> f < 5 \<Longrightarrow> cell_kind_at (s_alarm_history i f) = Some (if f = 3 then KOctets 16 else if f = 4 then KOctets 32 else K32)"
    by (auto simp: cell_kind_at_def robot_addresses)
qed

lemma initial_cells_typed:
  "cells_typed status_cells" "cells_typed io_cells" "cells_typed register_cells" "cells_typed variable_cells"
  by (simp_all add: status_cells_def io_cells_def register_cells_def variable_cells_def robot_addresses cell_kind_at_def
      upt_rec)

lemma position_cells_typed: "cells_typed position_cells"
proof -
  have "cells_typed [(s_position_data i a, V32 0). i \<leftarrow> [0..<108], a \<leftarrow> [0..<13]]"
    by (auto simp: cells_typed_def cell_kind_at_def robot_addresses)
  then show ?thesis
    unfolding position_cells_def cells_typed_append
    by (intro conjI row_cells_typed; simp add: cell_kind_at_def robot_addresses del: upt_Suc)
qed

lemma row_lists_typed: "cells_typed variable_p_cells" "cells_typed variable_bp_cells" "cells_typed variable_ex_cells"
  unfolding variable_p_cells_def variable_bp_cells_def variable_ex_cells_def cells_typed_append
  by (intro conjI row_cells_typed; simp add: cell_kind_at_def robot_addresses)+

lemma history_cells_typed: "cells_typed history_cells"
  using alarm_kinds(2) by (simp add: history_cells_def alarm_cells_def)

lemma statics_typed: "cells_typed robot_statics"
proof -
  have "cells_typed (concat (map (\<lambda>i. alarm_cells (s_active_alarms i) 0 0 [] []) [0..<4]))"
    "cells_typed (concat (map (\<lambda>i. alarm_cells (s_alarm_history i) 0 0 [] []) [0..<100]))"
    using alarm_kinds by (auto simp: cells_typed_def alarm_cells_def padded_def)
  moreover have "cells_typed (row_cells (s_position 0) (replicate 8 0))" "cells_typed (row_cells (s_position_deviation 0) (replicate 8 0))"
    "cells_typed (row_cells (s_torque 0) (replicate 8 0))"
    by (rule row_cells_typed, simp add: cell_kind_at_def robot_addresses)+
  moreover have "cells_typed [(s_status_data1, V32 0x44), (s_status_data2, V32 0x40), (s_job_line, V32 1), (s_step_number, V32 0),
      (s_speed_override, V32 10000), (s_job_name, VOctets (padded 32 ''MAIN.JBI'')), (s_axis_count, V8 6)]"
    "cells_typed (zip (map s_axis_type [0..<8]) (map V8 [1, 1, 1, 1, 1, 1, 0, 0]))"
    by (simp_all add: robot_addresses cell_kind_at_def upt_rec)
  ultimately show ?thesis
    unfolding robot_statics_def by simp
qed

lemma map_fst_row_cells: "map fst (row_cells base vs) = [base..<base + length vs]"
  by (simp add: row_cells_def)

lemma map_fst_alarms:
  "map fst (concat (map (\<lambda>i. alarm_cells (f i) 0 0 [] []) xs)) = concat (map (\<lambda>i. map (f i) [0, 1, 2, 3, 4]) xs)"
  by (simp add: map_concat comp_def alarm_cells_def)

lemma statics_parts:
  "set (map fst robot_statics) = set (map fst (concat (map (\<lambda>i. alarm_cells (s_active_alarms i) 0 0 [] []) [0..<4]))) \<union>
     (set (map fst (concat (map (\<lambda>i. alarm_cells (s_alarm_history i) 0 0 [] []) [0..<100]))) \<union>
     (set [600, 601, 602, 603, 604, 605, 606] \<union> (set (map s_axis_type [0..<8]) \<union>
     (set [620..<628] \<union> (set [630..<638] \<union> set [640..<648])))))"
proof -
  have axis: "map fst (zip (map s_axis_type [0..<8]) (map V8 [1, 1, 1, 1, 1, 1, 0, 0])) = map s_axis_type [0..<8]"
    by (rule map_fst_zip) simp
  have scalars: "map fst [(s_status_data1, V32 0x44), (s_status_data2, V32 0x40), (s_job_line, V32 1), (s_step_number, V32 0),
      (s_speed_override, V32 10000), (s_job_name, VOctets (padded 32 ''MAIN.JBI'')), (s_axis_count, V8 6)] =
      [600, 601, 602, 603, 604, 605, 606]"
    by (simp add: robot_addresses)
  have rows: "map fst (row_cells (s_position 0) (replicate 8 0)) = [620..<628]"
    "map fst (row_cells (s_position_deviation 0) (replicate 8 0)) = [630..<638]"
    "map fst (row_cells (s_torque 0) (replicate 8 0)) = [640..<648]"
    unfolding map_fst_row_cells by (simp_all add: robot_addresses)
  show ?thesis
    unfolding robot_statics_def map_append axis scalars rows set_append by (simp only: Un_assoc)
qed

lemma statics_cover:
  assumes "cell_kind_at x = Some k" and "x < 1000"
  shows "x \<in> set (map fst robot_statics)"
proof -
  have j: "j \<in> set [0, 1, 2, 3, 4]" if "j < 5" for j :: nat
    using that by auto
  consider "x < 20" | "100 \<le> x \<and> x < 600" | "600 \<le> x \<and> x \<le> 606" | "610 \<le> x \<and> x < 618"
    | "620 \<le> x \<and> x < 628 \<or> 630 \<le> x \<and> x < 638 \<or> 640 \<le> x \<and> x < 648"
    using assms by (auto simp: cell_kind_at_def split: if_splits)
  then show ?thesis
  proof cases
    case 1
    then have "x = s_active_alarms (x div 5) (x mod 5)" "x div 5 \<in> set [0..<4]"
      by (simp_all add: s_active_alarms_def less_mult_imp_div_less)
    with j [of "x mod 5"] have "x \<in> set (concat (map (\<lambda>i. map (s_active_alarms i) [0, 1, 2, 3, 4]) [0..<4]))"
      by (auto simp del: upt_Suc)
    then show ?thesis unfolding statics_parts map_fst_alarms by blast
  next
    case 2
    then have "x = s_alarm_history ((x - 100) div 5) ((x - 100) mod 5)" "x - 100 < 100 * 5"
      by (simp_all add: s_alarm_history_def, arith)
    then have "x = s_alarm_history ((x - 100) div 5) ((x - 100) mod 5)" "(x - 100) div 5 \<in> set [0..<100]"
      using less_mult_imp_div_less [of "x - 100" 100 5] by simp_all
    with j [of "(x - 100) mod 5"] have "x \<in> set (concat (map (\<lambda>i. map (s_alarm_history i) [0, 1, 2, 3, 4]) [0..<100]))"
      by (auto simp del: upt_Suc)
    then show ?thesis unfolding statics_parts map_fst_alarms by blast
  next
    case 3
    then have "x = 600 \<or> x = 601 \<or> x = 602 \<or> x = 603 \<or> x = 604 \<or> x = 605 \<or> x = 606" by arith
    then have "x \<in> set [600, 601, 602, 603, 604, 605, 606]" by simp
    then show ?thesis unfolding statics_parts by blast
  next
    case 4
    then have "x = s_axis_type (x - 610)" "x - 610 \<in> set [0..<8]"
      by (simp_all add: s_axis_type_def, arith)
    then have "x \<in> set (map s_axis_type [0..<8])" by (metis image_eqI set_map)
    then show ?thesis unfolding statics_parts by blast
  next
    case 5
    then have "x \<in> set [620..<628] \<or> x \<in> set [630..<638] \<or> x \<in> set [640..<648]" by auto
    then show ?thesis unfolding statics_parts by blast
  qed
qed

lemma ApplicationInitialization_steps:
  "ApplicationInitialization heap st = (let (ok, st) = AllocateRobotDataArrays heap st
     in if \<not> ok then Some (kEipStatusError, st)
        else do { st \<leftarrow> InitializeRobotData st; st \<leftarrow> create_all robot_creators st; Some (kEipStatusOk, st) })"
  by (simp add: ApplicationInitialization_def robot_creators_def Let_def split: prod.splits)


subsection \<open>Start of the application\<close>

lemma cell_of_kind:
  "length bs = 1 \<Longrightarrow> has_kind K8 (cell_of bs)" "length bs = 2 \<Longrightarrow> has_kind K16 (cell_of bs)"
  "length bs = 4 \<Longrightarrow> has_kind K32 (cell_of bs)"
  by (auto simp: cell_of_def numeral_eq_Suc length_Suc_conv)

lemma cell_of_octets: "length bs = 32 \<Longrightarrow> has_kind (KOctets 32) (cell_of bs)"
  by (simp add: cell_of_def split: list.split) auto

definition kind_size :: "cell_kind \<Rightarrow> nat" where
  "kind_size k = (case k of K8 \<Rightarrow> 1 | K16 \<Rightarrow> 2 | K32 \<Rightarrow> 4 | KOctets n \<Rightarrow> n)"

lemma kind_ranges:
  "1000 \<le> x \<Longrightarrow> x < 9220 \<Longrightarrow> cell_kind_at x = Some K8" "10000 \<le> x \<Longrightarrow> x < 11000 \<Longrightarrow> cell_kind_at x = Some K16"
  "11000 \<le> x \<Longrightarrow> x < 12000 \<Longrightarrow> cell_kind_at x = Some K8" "12000 \<le> x \<Longrightarrow> x < 13000 \<Longrightarrow> cell_kind_at x = Some K16"
  "13000 \<le> x \<Longrightarrow> x < 15000 \<Longrightarrow> cell_kind_at x = Some K32" "15000 \<le> x \<Longrightarrow> x < 16000 \<Longrightarrow> cell_kind_at x = Some (KOctets 32)"
  "20000 \<le> x \<Longrightarrow> x < 21664 \<Longrightarrow> cell_kind_at x = Some K32" "25000 \<le> x \<Longrightarrow> x < 26404 \<Longrightarrow> cell_kind_at x = Some K32"
  "30000 \<le> x \<Longrightarrow> x < 39000 \<Longrightarrow> cell_kind_at x = Some K32" "40000 \<le> x \<Longrightarrow> x < 49000 \<Longrightarrow> cell_kind_at x = Some K32"
  by (simp_all add: cell_kind_at_def)

lemma array_kind:
  assumes "array \<in> set robot_arrays" and "covers x array"
  shows "\<exists>k. cell_kind_at x = Some k \<and> snd (snd (snd array)) = kind_size k \<and> k \<in> {K8, K16, K32, KOctets 32}"
  using assms unfolding robot_arrays_def set_simps insert_iff
  by (elim disjE; simp add: robot_addresses covers_def kind_ranges kind_size_def)

lemma arrays_cover:
  "cell_kind_at x = Some k \<Longrightarrow> 1000 \<le> x \<Longrightarrow> \<exists>array \<in> set robot_arrays. covers x array"
  by (auto simp: robot_arrays_def robot_addresses covers_def cell_kind_at_def split: if_splits)

lemma arrays_disjoint: "array \<in> set robot_arrays \<Longrightarrow> covers x array \<Longrightarrow> 1000 \<le> x"
  by (auto simp: robot_arrays_def robot_addresses covers_def)

text \<open>The static data of the application as the program finds them when it starts.\<close>

definition statics_loaded :: "'e cip_state_scheme \<Rightarrow> bool" where
  "statics_loaded st \<longleftrightarrow> (\<forall>x < 1000. data_store st x = map_of robot_statics x)"

lemma AllocateRobotDataArrays_typed:
  assumes "AllocateRobotDataArrays heap st = (True, st')" and "statics_loaded st"
  shows "store_typed st'"
  unfolding store_typed_def
proof (intro allI impI)
  fix x k
  assume k: "cell_kind_at x = Some k"
  note step = allocate_arrays_store [OF assms(1) [unfolded AllocateRobotDataArrays_def], of x]
  show "\<exists>v. data_store st' x = Some v \<and> has_kind k v"
  proof (cases "x < 1000")
    case True
    with step arrays_disjoint have "data_store st' x = map_of robot_statics x"
      using assms(2) by (fastforce simp: statics_loaded_def)
    moreover obtain v where v: "map_of robot_statics x = Some v"
      using statics_cover [OF k True] by (metis list.set_map map_of_eq_None_iff not_None_eq)
    moreover have "has_kind k v"
      using statics_typed map_of_SomeD [OF v] k by (auto simp: cells_typed_def)
    ultimately show ?thesis by simp
  next
    case False
    with step arrays_cover [OF k] obtain array bs where
      "array \<in> set robot_arrays" "covers x array" "length bs = snd (snd (snd array))" "data_store st' x = Some (cell_of bs)"
      by fastforce
    with array_kind [of array x] k cell_of_kind [of bs] cell_of_octets [of bs] show ?thesis
      by (auto simp: kind_size_def)
  qed
qed

lemma typed_not_null: "store_typed st \<Longrightarrow> cell_kind_at x \<noteq> None \<Longrightarrow> not_null x st"
  by (auto simp: store_typed_def not_null_def)

lemma InitializeRobotData_typed:
  assumes "store_typed st"
  shows "\<exists>st'. InitializeRobotData st = Some st' \<and> store_typed st' \<and> g_first_object st' = g_first_object st"
proof -
  note poke = store_typed_poke initial_cells_typed position_cells_typed row_lists_typed history_cells_typed
  define st1 where "st1 = poke_cells (status_cells @ position_cells @ io_cells @ register_cells) st"
  have kinds: "cell_kind_at (s_io_data 0) \<noteq> None" "cell_kind_at (s_registers 0) \<noteq> None" "cell_kind_at (s_variable_b 0) \<noteq> None"
    "cell_kind_at (s_position_data 0 0) \<noteq> None" "cell_kind_at (s_variable_i 0) \<noteq> None" "cell_kind_at (s_variable_d 0) \<noteq> None"
    "cell_kind_at (s_variable_r 0) \<noteq> None" "cell_kind_at (s_variable_s 0) \<noteq> None" "cell_kind_at (s_variable_p 0 0) \<noteq> None"
    "cell_kind_at (s_variable_bp 0 0) \<noteq> None" "cell_kind_at (s_variable_ex 0 0) \<noteq> None"
    by (simp_all add: cell_kind_at_def robot_addresses)
  have st1: "store_typed st1" unfolding st1_def by (rule store_typed_poke [OF assms]) (simp add: poke)
  have "InitializeRobotData st = Some (poke_cells history_cells (poke_cells variable_ex_cells (poke_cells variable_bp_cells
      (poke_cells variable_p_cells (poke_cells variable_cells st1)))))"
    using typed_not_null [OF assms] typed_not_null [OF st1] st1 kinds
    by (simp add: InitializeRobotData_def Let_def st1_def [symmetric] typed_not_null poke)
  then show ?thesis
    using st1 by (simp add: poke) (simp add: st1_def poke_cells_def)
qed

lemma robot_arrays_exist: "store_typed st \<Longrightarrow> (s, bs) \<in> set robot_specs \<Longrightarrow> arrays_exist bs st"
proof -
  assume t: "store_typed st" and "(s, bs) \<in> set robot_specs"
  then have "set bs \<subseteq> {s_position_data 0 0, s_registers 0, s_variable_b 0, s_variable_i 0, s_variable_d 0, s_variable_r 0,
      s_variable_s 0, s_variable_p 0 0, s_variable_bp 0 0, s_variable_ex 0 0}"
    by (auto simp: robot_specs_def)
  moreover have "data_store st x \<noteq> None" if "cell_kind_at x \<noteq> None" for x
    using t that by (auto simp: store_typed_def)
  ultimately show ?thesis
    unfolding arrays_exist_def by (auto simp: robot_addresses kind_ranges)
qed

lemma AllocateRobotDataArrays_frame:
  assumes "AllocateRobotDataArrays heap st = (ok, st')"
  shows "g_first_object st' = g_first_object st \<and> (ok \<longleftrightarrow> (\<forall>k < 11. heap k \<noteq> NoMemory))"
proof -
  have "length robot_arrays = 11" by (simp add: robot_arrays_def)
  with allocate_arrays_frame [OF assms [unfolded AllocateRobotDataArrays_def]] show ?thesis by simp
qed

lemma same_registry: "g_first_object st' = g_first_object st \<Longrightarrow> GetCipClass code st' = GetCipClass code st"
  by (simp add: GetCipClass_def GetRegisteredObject_def)

text \<open>The robot is serving when its classes have their layout and its cells their types.\<close>

definition robot_serving :: "'e cip_state_scheme \<Rightarrow> bool" where
  "robot_serving st \<longleftrightarrow> store_typed st \<and>
     (\<forall>(s, bs) \<in> set robot_specs. \<exists>ob. GetCipClass (spec_code s) st = Some ob \<and> class_layout s ob)"

lemma ApplicationInitialization_serves:
  assumes "\<forall>k < 11. heap k \<noteq> NoMemory" and "statics_loaded st"
    and "\<forall>(s, bs) \<in> set robot_specs. GetCipClass (spec_code s) st = None"
  shows "\<exists>st'. ApplicationInitialization heap st = Some (kEipStatusOk, st') \<and> robot_serving st' \<and>
    (\<forall>code. code \<notin> spec_code ` fst ` set robot_specs \<longrightarrow> GetCipClass code st' = GetCipClass code st)"
proof -
  obtain ok st1 where alloc: "AllocateRobotDataArrays heap st = (ok, st1)" by force
  with assms(1) AllocateRobotDataArrays_frame [OF alloc] have ok: "ok = True" "g_first_object st1 = g_first_object st" by auto
  have st1: "store_typed st1" using AllocateRobotDataArrays_typed alloc ok(1) assms(2) by blast
  obtain st2 where st2: "InitializeRobotData st1 = Some st2" "store_typed st2" "g_first_object st2 = g_first_object st1"
    using InitializeRobotData_typed [OF st1] by blast
  have reg: "GetCipClass code st2 = GetCipClass code st" for code
    using ok(2) st2(3) by (intro same_registry) simp
  have "\<forall>(s, bs) \<in> set robot_specs. GetCipClass (spec_code s) st2 = None \<and> arrays_exist bs st2"
    using assms(3) robot_arrays_exist [OF st2(2)] unfolding reg by blast
  from create_all_registers [OF robot_creators_build robot_codes_distinct this]
  obtain st3 where st3: "create_all robot_creators st2 = Some st3" "data_store st3 = data_store st2"
    "\<forall>(s, bs) \<in> set robot_specs. \<exists>ob. GetCipClass (spec_code s) st3 = Some ob \<and> class_layout s ob"
    "\<forall>code. code \<notin> spec_code ` fst ` set robot_specs \<longrightarrow> GetCipClass code st3 = GetCipClass code st2"
    by blast
  have "ApplicationInitialization heap st = Some (kEipStatusOk, st3)"
    by (simp add: ApplicationInitialization_steps alloc ok(1) st2(1) st3(1))
  moreover have "store_typed st3" using st2(2) st3(2) by (simp add: store_typed_def)
  ultimately show ?thesis using st3(3,4) unfolding reg robot_serving_def by blast
qed

text \<open>
  C13: The start of the application. When every allocation succeeds, no robot class exists yet and the
  static data have their initial values, the application returns \<^verbatim>\<open>kEipStatusOk\<close>; all eighteen robot
  classes are then registered with the instances, attributes, services and masks of the tables
  \<open>robot_specs\<close>, every other class is as before, and every cell of the robot holds a value of the
  type its attribute publishes.

  The tables of \<^verbatim>\<open>MotomanLayout\<close> list every attribute of every class on its own, with number, type,
  codec, cell and flags; they do not use the rows the model of the application builds. They say what
  the code publishes. \<^verbatim>\<open>docs/CIP_CLASSES_REFERENCE.md\<close> differs from it in the classes 0x70, 0x71,
  0x73 to 0x78 and 0x7F to 0x81: it lists two instead of five attributes for an alarm; another order
  and a REAL for the job information; eight octets for the axis types; eight instances of one
  position, deviation and torque each instead of 108 of thirteen positions and eight of eight
  deviations and torques; 512 instead of 8220 signals; 1000 instead of 128 position variables; one
  array instead of thirteen or nine integers for the position variables; and no GetAttributeAll
  except for the status. All 1000 registers are settable in the tables, as in the code.
\<close>

theorem ApplicationInitialization_publishes:
  assumes "\<forall>k < 11. heap k \<noteq> NoMemory" and "statics_loaded st"
    and "\<forall>(s, bs) \<in> set robot_specs. GetCipClass (spec_code s) st = None"
  shows "\<exists>st'. ApplicationInitialization heap st = Some (kEipStatusOk, st') \<and>
    (\<forall>(s, bs) \<in> set robot_specs. \<exists>ob. GetCipClass (spec_code s) st' = Some ob \<and> class_layout s ob) \<and>
    (\<forall>code. code \<notin> spec_code ` fst ` set robot_specs \<longrightarrow> GetCipClass code st' = GetCipClass code st) \<and>
    store_typed st'"
  using ApplicationInitialization_serves [OF assms] unfolding robot_serving_def by blast

text \<open>C16: When one of the eleven allocations fails, the application reports an error and registers no class.\<close>

theorem ApplicationInitialization_out_of_memory:
  assumes "k < 11" and "heap k = NoMemory"
  shows "\<exists>st'. ApplicationInitialization heap st = Some (kEipStatusError, st') \<and> g_first_object st' = g_first_object st"
proof -
  obtain ok st1 where alloc: "AllocateRobotDataArrays heap st = (ok, st1)" by force
  with assms AllocateRobotDataArrays_frame [OF alloc] show ?thesis
    by (auto simp: ApplicationInitialization_steps)
qed

text \<open>The state of the program before the application starts.\<close>

definition robot_start :: cip_state where
  "robot_start = example_state\<lparr>g_first_object := [], data_store := map_of robot_statics\<rparr>"

theorem ApplicationInitialization_out_of_memory_witness:
  "\<exists>st'. ApplicationInitialization (\<lambda>k. if k = 4 then NoMemory else InternalBlock) robot_start =
     Some (kEipStatusError, st') \<and> g_first_object st' = g_first_object robot_start"
  by (rule ApplicationInitialization_out_of_memory [of 4]) simp_all

theorem ApplicationInitialization_publishes_witness:
  "\<exists>st'. ApplicationInitialization (\<lambda>k. PsramBlock (\<lambda>j. 0xA5)) robot_start = Some (kEipStatusOk, st') \<and>
    (\<forall>(s, bs) \<in> set robot_specs. \<exists>ob. GetCipClass (spec_code s) st' = Some ob \<and> class_layout s ob) \<and>
    (\<forall>code. code \<notin> spec_code ` fst ` set robot_specs \<longrightarrow> GetCipClass code st' = GetCipClass code robot_start) \<and>
    store_typed st'"
  by (rule ApplicationInitialization_publishes)
    (auto simp: robot_start_def statics_loaded_def GetCipClass_def GetRegisteredObject_def)

text \<open>The robot after a start in which every allocation came from internal memory.\<close>

definition robot_running :: cip_state where
  "robot_running = snd (the (ApplicationInitialization (\<lambda>k. InternalBlock) robot_start))"

lemma robot_running_serving: "robot_serving robot_running"
proof -
  have "\<exists>st'. ApplicationInitialization (\<lambda>k. InternalBlock) robot_start = Some (kEipStatusOk, st') \<and> robot_serving st' \<and>
      (\<forall>code. code \<notin> spec_code ` fst ` set robot_specs \<longrightarrow> GetCipClass code st' = GetCipClass code robot_start)"
    by (rule ApplicationInitialization_serves)
      (auto simp: robot_start_def statics_loaded_def GetCipClass_def GetRegisteredObject_def)
  then show ?thesis by (auto simp: robot_running_def)
qed

end
