(* ===== verification/MotomanAccess.thy ===== *)
theory MotomanAccess
  imports MotomanData
begin

text \<open>
  Requests on the robot classes of a running device: writes keep every cell at its type, registers
  are independent of each other, and the two services that move a whole position variable.
\<close>

subsection \<open>Writes keep the types\<close>

fun decoded_kind :: "decode_function \<Rightarrow> cell_kind" where
  "decoded_kind DecCipUsint = K8"
| "decoded_kind DecCipUint = K16"
| "decoded_kind DecCipInt = K16"
| "decoded_kind DecCipDint = K32"
| "decoded_kind DecCipReal = K32"
| "decoded_kind _ = KOctets 32"

definition robot_decoders :: "decode_function set" where
  "robot_decoders = {DecCipUsint, DecCipUint, DecCipInt, DecCipDint, DecCipReal, DecMotomanString32}"

lemma decoded_value:
  assumes "d \<in> robot_decoders" and "call_decode (env_decode (motoman_env base)) d old req resp = Some (v, req', resp', n)"
  shows "has_kind (decoded_kind d) v" and "general_status resp' = kCipErrorSuccess"
  using assms
  by (auto simp: robot_decoders_def decode_scalar_def DecodeCipUsint_def DecodeCipUint_def DecodeCipInt_def DecodeCipDint_def
      DecodeCipReal_def DecodeMotomanString32_def motoman_env_def motoman_codecs_def read_bytes_def
      split: option.splits bind_splits if_splits)

lemma robot_attribute_cells:
  assumes "(s, bs) \<in> set robot_specs" and "i < spec_count s" and "a \<in> set (spec_rows s i)" and "attr_decode a = Some d"
  shows "\<exists>x. attr_data a = Some (DVar x) \<and> d \<in> robot_decoders \<and> cell_kind_at x = Some (decoded_kind d)"
  using assms
  unfolding robot_specs_def set_simps insert_iff prod.inject
  by (elim disjE) (auto simp: robot_spec_eqs robot_spec_def alarm_row_def status_row_def job_info_row_def axis_config_row_def
      dint_row_def robot_decoders_def robot_addresses kind_ranges)

lemma robot_specs_fit: "(s, bs) \<in> set robot_specs \<Longrightarrow> spec_fits s"
proof -
  assume "(s, bs) \<in> set robot_specs"
  then obtain k where "k < length robot_specs" "robot_specs ! k = (s, bs)" by (auto simp: in_set_conv_nth)
  then have "class_builder (robot_creators ! k :: cip_state \<Rightarrow> cip_state run) s bs"
    using robot_creators_build [where 'a = unit] by (fastforce simp: list_all2_conv_all_nth)
  then show ?thesis by (rule class_builder.fits)
qed

lemma robot_serving_write:
  assumes "robot_serving st" and "\<forall>k. cell_kind_at x = Some k \<longrightarrow> has_kind k v"
  shows "robot_serving (st\<lparr>data_store := (data_store st)(x \<mapsto> v)\<rparr>)"
  using assms by (simp add: robot_serving_def store_typed_write frame_simps)

lemma robot_attribute_at:
  assumes "robot_serving st" and "(s, bs) \<in> set robot_specs" and "i < spec_count s"
    and "attribute_at (spec_code s, of_nat (Suc i)) j st = Some a"
  shows "a \<in> set (spec_rows s i)"
proof -
  obtain ob where "GetCipClass (spec_code s) st = Some ob" "class_layout s ob"
    using assms(1,2) by (auto simp: robot_serving_def)
  then show ?thesis
    using assms(4) layout_attribute_row(1) [OF _ robot_specs_fit [OF assms(2)] assms(3)]
    by (auto simp: attribute_at_def array_get_def simp del: of_nat_Suc split: if_splits)
qed

lemma robot_decode_attribute:
  assumes "robot_serving st" and "(s, bs) \<in> set robot_specs" and "i < spec_count s"
    and "attribute_at (spec_code s, of_nat (Suc i)) j st = Some a"
    and "decode_attribute (motoman_env base) a req resp st = Some (req', resp', st')"
  shows "robot_serving st'"
proof -
  from assms(5) obtain d ref old v n where
    d: "attr_decode a = Some d" "attr_data a = Some ref" "write_ref ref v st = Some st'"
      "call_decode (env_decode (motoman_env base)) d old req resp = Some (v, req', resp', n)"
    by (auto simp: decode_attribute_def split: bind_splits)
  obtain x where x: "ref = DVar x" "d \<in> robot_decoders" "cell_kind_at x = Some (decoded_kind d)"
    using robot_attribute_cells [OF assms(2,3) robot_attribute_at [OF assms(1-4)] d(1)] d(2) by auto
  show ?thesis
    using d(3) x decoded_value(1) [OF x(2) d(4)] robot_serving_write [OF assms(1)] by (auto simp: write_ref_def)
qed

text \<open>
  C14: A SetAttributeSingle request on any attribute number of any instance of any robot class, when it
  returns, keeps the robot serving: the classes keep their layout and every cell still holds a value
  of the type its attribute publishes.
\<close>

theorem SetAttributeSingle_keeps_types:
  assumes "robot_serving st" and "(s, bs) \<in> set robot_specs" and "i < spec_count s" and "quiet_callbacks (motoman_env base)"
    and "SetAttributeSingle (motoman_env base) (spec_code s, of_nat (Suc i)) req resp st = Some (status, req', resp', st')"
  shows "robot_serving st'"
  using assms(5) robot_decode_attribute [OF assms(1-3)] assms(1,4)
  by (auto simp: SetAttributeSingle_def call_get_set_quiet Let_def simp del: of_nat_Suc
      split: bind_splits option.splits if_splits prod.splits)


subsection \<open>Registers\<close>

abbreviation register_instance :: "nat \<Rightarrow> instance_ref" where
  "register_instance i \<equiv> (MOTOMAN_CLASS_REGISTER, of_nat (Suc i))"

abbreviation register_attribute :: "nat \<Rightarrow> CipAttributeStruct" where
  "register_attribute i \<equiv> mk_attribute (1, kCipUint, EncCipUint, Some DecCipUint, s_registers i, kSetAndGetAble)"

lemma register_access:
  assumes "robot_serving st" and "i < MOTOMAN_MAX_REGISTERS"
  obtains c v where "resolves (register_instance i) 1 st 0
      (register_attribute i) c"
    "mask_bit (set_bit_mask c) 1 = Some True" "mask_bit (get_single_bit_mask c) 1 = Some True"
    "data_store st (s_registers i) = Some (V16 v)"
proof -
  have spec: "(register_spec, [s_registers 0]) \<in> set robot_specs" "i < spec_count register_spec"
      "spec_code register_spec = MOTOMAN_CLASS_REGISTER"
      "spec_rows register_spec i = [mk_attribute (1, kCipUint, EncCipUint, Some DecCipUint, s_registers i, kSetAndGetAble)]"
    using assms(2) by (simp_all add: robot_specs_def register_spec_eq robot_spec_def)
  then obtain ob where ob: "GetCipClass MOTOMAN_CLASS_REGISTER st = Some ob" "class_layout register_spec ob"
    using assms(1) by (fastforce simp: robot_serving_def)
  note fit = robot_specs_fit [OF spec(1)]
  have "cell_kind_at (s_registers i) = Some K16" using assms(2) by (simp add: s_registers_def kind_ranges)
  then obtain v where "data_store st (s_registers i) = Some v" "has_kind K16 v"
    using assms(1) unfolding robot_serving_def store_typed_def by blast
  then show thesis
    using that layout_resolves [OF ob(2) fit spec(2), of 0 st] layout_masks(1,2) [OF ob(2) fit spec(2)] ob(1) spec(3,4)
    by (cases v) (auto simp: flag_bits simp del: of_nat_Suc)
qed


definition register_value :: "nat \<Rightarrow> 'e cip_state_scheme \<Rightarrow> CipUint" where
  "register_value i st = (case data_store st (s_registers i) of Some (V16 v) \<Rightarrow> v | _ \<Rightarrow> 0)"

lemma register_read_reply:
  assumes "robot_serving st" and "j < MOTOMAN_MAX_REGISTERS" and "quiet_callbacks env"
    and "attribute_number (request_path req) = 1"
  shows "\<exists>m. GetAttributeSingle env (register_instance j) req resp st = Some (kEipStatusOkSend, req,
      (GenerateGetAttributeSingleHeader req resp)\<lparr>message := m, general_status := kCipErrorSuccess\<rparr>, st) \<and>
    holds_octets m (int_bytes (register_value j st))"
proof -
  obtain c v where c: "resolves (register_instance j) 1 st 0
      (register_attribute j) c"
    "mask_bit (get_single_bit_mask c) 1 = Some True" "data_store st (s_registers j) = Some (V16 v)"
    using register_access [OF assms(1,2)] by blast
  obtain m where m: "emit (int_bytes v) (InitializeENIPMessage (message resp)) = Some m" "holds_octets m (int_bytes v)"
    using holds_octets_emit_fits [OF holds_octets_init, of "int_bytes v"] by auto
  have "encode_attribute env (register_attribute j) st
      (InitializeENIPMessage (message resp)) = Some m"
    using c(3) m(1) by (simp add: encode_attribute_def read_ref_def EncodeCipUint_def wire_simps)
  then show ?thesis
    using GetAttributeSingle_resolved [of "register_instance j" req st 0 _ c env "DVar (s_registers j)" resp] c assms(3,4) m(2)
    by (intro exI [of _ m]) (simp add: register_value_def del: of_nat_Suc)
qed

lemma register_write:
  assumes "robot_serving st" and "i < MOTOMAN_MAX_REGISTERS" and "quiet_callbacks (motoman_env base)"
    and "attribute_number (request_path req) = 1" and "req_data req = int_bytes v"
  shows "SetAttributeSingle (motoman_env base) (register_instance i) req resp st = Some (kEipStatusOkSend, req\<lparr>req_data := []\<rparr>,
      (GenerateSetAttributeSingleHeader req resp)\<lparr>general_status := kCipErrorSuccess\<rparr>,
      st\<lparr>data_store := (data_store st)(s_registers i \<mapsto> V16 v)\<rparr>)"
proof -
  obtain c old where c: "resolves (register_instance i) 1 st 0 (register_attribute i) c"
    "mask_bit (set_bit_mask c) 1 = Some True" "data_store st (s_registers i) = Some (V16 old)"
    using register_access [OF assms(1,2)] by blast
  have d: "call_decode (env_decode (motoman_env base)) DecCipUint (V16 old) req (GenerateSetAttributeSingleHeader req resp) =
      Some (V16 v, req\<lparr>req_data := []\<rparr>, (GenerateSetAttributeSingleHeader req resp)\<lparr>general_status := kCipErrorSuccess\<rparr>, 2)"
    using decode_scalar_wire(2) [of req v "[]"] assms(5) by (simp add: DecodeCipUint_def)
  show ?thesis
    by (rule SetAttributeSingle_resolved [OF _ assms(3) _ _ c(3) _ _ d, where i = 0 and c = c and a = "register_attribute i"])
      (use c assms(4) in \<open>simp_all del: of_nat_Suc\<close>)
qed

text \<open>
  Registers of a serving robot: writing two octets to register \<open>i\<close> by SetAttributeSingle succeeds
  and keeps the robot serving; afterwards GetAttributeSingle returns those octets for register \<open>i\<close>
  and, for every other register, the value it had before.
\<close>

theorem register_write_then_read:
  assumes "robot_serving st" and "i < MOTOMAN_MAX_REGISTERS" and "j < MOTOMAN_MAX_REGISTERS"
    and "quiet_callbacks (motoman_env base)"
    and "attribute_number (request_path req) = 1" and "req_data req = int_bytes v"
    and "attribute_number (request_path req2) = 1"
  shows "\<exists>req' resp' st' resp2'.
    SetAttributeSingle (motoman_env base) (register_instance i) req resp st = Some (kEipStatusOkSend, req', resp', st') \<and>
    general_status resp' = kCipErrorSuccess \<and> robot_serving st' \<and>
    GetAttributeSingle (motoman_env base) (register_instance j) req2 resp2 st' = Some (kEipStatusOkSend, req2, resp2', st') \<and>
    general_status resp2' = kCipErrorSuccess \<and>
    sent_octets (message resp2') = int_bytes (if j = i then v else register_value j st)"
proof -
  let ?st = "st\<lparr>data_store := (data_store st)(s_registers i \<mapsto> V16 v)\<rparr>"
  have serving: "robot_serving ?st"
    using assms(1,2) by (intro robot_serving_write) (simp_all add: s_registers_def kind_ranges)
  have "register_value j ?st = (if j = i then v else register_value j st)"
    by (simp add: register_value_def s_registers_def)
  moreover obtain m where "GetAttributeSingle (motoman_env base) (register_instance j) req2 resp2 ?st = Some (kEipStatusOkSend, req2,
      (GenerateGetAttributeSingleHeader req2 resp2)\<lparr>message := m, general_status := kCipErrorSuccess\<rparr>, ?st)"
      "holds_octets m (int_bytes (register_value j ?st))"
    using register_read_reply [OF serving assms(3,4,7)] by blast
  ultimately show ?thesis
    using register_write [OF assms(1,2,4-6)] serving sent_octets_holds by fastforce
qed


lemma motoman_example_quiet: "quiet_callbacks (motoman_env example_env)"
  by (simp add: quiet_callbacks_def example_env_def motoman_env_def motoman_codecs_def)

definition register_request :: "CipUsint \<Rightarrow> CipUint \<Rightarrow> CipOctet list \<Rightarrow> CipMessageRouterRequest" where
  "register_request service i bs = \<lparr>req_service = service, request_path = CipEpath.make 3 0x79 i 1,
     request_data_size = of_nat (length bs), req_data = bs\<rparr>"

theorem register_write_then_read_witness:
  "\<exists>req' resp' st' resp2'.
    SetAttributeSingle (motoman_env example_env) (register_instance 4) (register_request 0x10 5 [0x34, 0x12]) example_response
      robot_running = Some (kEipStatusOkSend, req', resp', st') \<and>
    general_status resp' = kCipErrorSuccess \<and> robot_serving st' \<and>
    GetAttributeSingle (motoman_env example_env) (register_instance 4) (register_request 0x0E 5 []) example_response st' =
      Some (kEipStatusOkSend, register_request 0x0E 5 [], resp2', st') \<and>
    general_status resp2' = kCipErrorSuccess \<and>
    sent_octets (message resp2') = int_bytes (if (4::nat) = 4 then 0x1234 else register_value 4 robot_running)"
  by (rule register_write_then_read [OF robot_running_serving _ _ motoman_example_quiet])
    (simp_all add: register_request_def CipEpath.make_def int_bytes_def)

theorem SetAttributeSingle_keeps_types_witness:
  "\<exists>st'. robot_serving st' \<and> map_option (\<lambda>(status, req, resp, st). (status, general_status resp, st))
     (SetAttributeSingle (motoman_env example_env) (spec_code register_spec, of_nat (Suc 4)) (register_request 0x10 5 [0x34, 0x12])
       example_response robot_running) = Some (kEipStatusOkSend, kCipErrorSuccess, st')"
proof -
  have spec: "(register_spec, [s_registers 0]) \<in> set robot_specs" "spec_code register_spec = MOTOMAN_CLASS_REGISTER" "4 < spec_count register_spec"
    by (simp_all add: robot_specs_def register_spec_eq robot_spec_def)
  have req: "attribute_number (request_path (register_request 0x10 5 [0x34, 0x12])) = 1"
    "req_data (register_request 0x10 5 [0x34, 0x12]) = int_bytes 0x1234"
    by (simp_all add: register_request_def CipEpath.make_def int_bytes_def)
  have i: "4 < MOTOMAN_MAX_REGISTERS" by simp
  note set = register_write [OF robot_running_serving i motoman_example_quiet req, folded spec(2)]
  show ?thesis
    using SetAttributeSingle_keeps_types [OF robot_running_serving spec(1,3) motoman_example_quiet set] unfolding set by simp
qed

subsection \<open>Robot positions (P variables)\<close>

abbreviation p_instance :: "nat \<Rightarrow> instance_ref" where
  "p_instance i \<equiv> (MOTOMAN_CLASS_VARIABLE_P, of_nat (Suc i))"

abbreviation p_attribute :: "nat \<Rightarrow> nat \<Rightarrow> CipAttributeStruct" where
  "p_attribute i k \<equiv> mk_attribute (of_nat (Suc k), kCipDint, EncCipDint, Some DecCipDint, s_variable_p i k,
     kSetAndGetAble OR kGetableAll)"

definition p_value :: "nat \<Rightarrow> nat \<Rightarrow> 'e cip_state_scheme \<Rightarrow> CipUdint" where
  "p_value i k st = (case data_store st (s_variable_p i k) of Some (V32 v) \<Rightarrow> v | _ \<Rightarrow> 0)"

lemma p_access:
  assumes "robot_serving st" and "i < MOTOMAN_MAX_VARIABLE_P"
  obtains c where "class_at (p_instance i) st = Some c" "number_of_attributes c = 13" "highest_attribute_number c = 13"
    "\<And>k. k < 13 \<Longrightarrow> find_attribute (p_instance i) (of_nat (Suc k)) st = Some (Some k)"
    "\<And>k. k < 13 \<Longrightarrow> attribute_at (p_instance i) k st = Some (p_attribute i k)"
    "\<And>k. k < 13 \<Longrightarrow> mask_bit (set_bit_mask c) (of_nat (Suc k)) = Some True"
    "\<And>k. k < 13 \<Longrightarrow> mask_bit (get_all_bit_mask c) (of_nat (Suc k)) = Some True"
    "\<And>k. k < 13 \<Longrightarrow> data_store st (s_variable_p i k) = Some (V32 (p_value i k st))"
proof -
  have spec: "(variable_p_spec, [s_variable_p 0 0]) \<in> set robot_specs" "i < spec_count variable_p_spec"
      "spec_code variable_p_spec = MOTOMAN_CLASS_VARIABLE_P" "spec_attributes variable_p_spec = 13"
    using assms(2) by (simp_all add: robot_specs_def variable_p_spec_eq robot_spec_def)
  have len: "length (spec_rows variable_p_spec i) = 13"
    by (simp add: variable_p_spec_eq robot_spec_def dint_row_def)
  have row: "spec_rows variable_p_spec i ! k = p_attribute i k" if "k < 13" for k
    using that by (simp add: variable_p_spec_eq robot_spec_def dint_row_def nth_append del: upt_Suc of_nat_Suc)
  obtain ob where ob: "GetCipClass MOTOMAN_CLASS_VARIABLE_P st = Some ob" "class_layout variable_p_spec ob"
    using assms(1) spec(1,3) by (fastforce simp: robot_serving_def)
  note fit = robot_specs_fit [OF spec(1)]
  have res: "resolves (p_instance i) (of_nat (Suc k)) st k (p_attribute i k) (cip_class ob)" if "k < 13" for k
    using layout_resolves [OF ob(2) fit spec(2), of k st] that len row [OF that] ob(1) spec(3) by (simp del: of_nat_Suc)
  have mem: "p_attribute i k \<in> set (spec_rows variable_p_spec i)" if "k < 13" for k
    using row [OF that] len that by (metis nth_mem)
  show thesis
  proof (rule that [of "cip_class ob"])
    show "class_at (p_instance i) st = Some (cip_class ob)" using res [of 0] by (simp add: resolves_def)
    show "number_of_attributes (cip_class ob) = 13" "highest_attribute_number (cip_class ob) = 13"
      using ob(2) spec(4) by (simp_all add: class_layout_def Let_def)
    fix k :: nat assume k: "k < 13"
    show "find_attribute (p_instance i) (of_nat (Suc k)) st = Some (Some k)" "attribute_at (p_instance i) k st = Some (p_attribute i k)"
      using res [OF k] by (simp_all add: resolves_def del: of_nat_Suc)
    show "mask_bit (set_bit_mask (cip_class ob)) (of_nat (Suc k)) = Some True"
      "mask_bit (get_all_bit_mask (cip_class ob)) (of_nat (Suc k)) = Some True"
      using layout_masks(2,3) [OF ob(2) fit spec(2) mem [OF k]] by (simp_all add: flag_bits bit_simps del: of_nat_Suc)
    have "cell_kind_at (s_variable_p i k) = Some K32" using assms(2) k by (simp add: s_variable_p_def kind_ranges)
    then obtain v where "data_store st (s_variable_p i k) = Some v" "has_kind K32 v"
      using assms(1) unfolding robot_serving_def store_typed_def by blast
    then show "data_store st (s_variable_p i k) = Some (V32 (p_value i k st))"
      by (cases v) (simp_all add: p_value_def)
  qed
qed

lemma get_in_order_p:
  assumes "robot_serving st" and "i < MOTOMAN_MAX_VARIABLE_P"
  shows "\<forall>k \<in> set ks. k < 13 \<Longrightarrow> holds_octets m bs \<Longrightarrow> length bs + 4 * length ks \<le> PC_OPENER_ETHERNET_BUFFER_SIZE \<Longrightarrow>
    \<exists>req' m'. get_in_order env (p_instance i) st (map (\<lambda>k. of_nat (Suc k)) ks) req m = Some (req', m') \<and>
      holds_octets m' (bs @ concat (map (\<lambda>k. dint_bytes (p_value i k st)) ks))"
proof (induction ks arbitrary: m bs req)
  case (Cons k ks)
  obtain c where c: "class_at (p_instance i) st = Some c" 
    "find_attribute (p_instance i) (of_nat (Suc k)) st = Some (Some k)" "attribute_at (p_instance i) k st = Some (p_attribute i k)"
    "mask_bit (get_all_bit_mask c) (of_nat (Suc k)) = Some True"
    "data_store st (s_variable_p i k) = Some (V32 (p_value i k st))"
    using p_access [OF assms] Cons.prems(1) by (metis list.set_intros(1))
  let ?bs = "dint_bytes (p_value i k st)"
  obtain m1 where m1: "emit ?bs m = Some m1" "holds_octets m1 (bs @ ?bs)"
    using holds_octets_emit_fits [OF Cons.prems(2), of ?bs] Cons.prems(3) by auto
  have "encode_attribute env (p_attribute i k) st m = Some m1"
    using c(5) m1(1) by (simp add: encode_attribute_def read_ref_def EncodeCipDint_def wire_simps del: of_nat_Suc)
  then show ?case
    using c Cons.IH [OF _ m1(2)] Cons.prems(1,3) by (simp del: of_nat_Suc)
qed simp

lemma p_value_write [simp]:
  "k' < 13 \<Longrightarrow> p_value i k (st\<lparr>data_store := (data_store st)(s_variable_p i k' \<mapsto> V32 v)\<rparr>) = (if k = k' then v else p_value i k st)"
  by (simp add: p_value_def s_variable_p_def)

lemma set_all_from_p:
  assumes "robot_serving st" and "i < MOTOMAN_MAX_VARIABLE_P" and "quiet_callbacks (motoman_codecs base)"
    and "k + length vs = 13" and "req_data req = concat (map dint_bytes vs)" and "general_status resp = kCipErrorSuccess"
  shows "\<exists>req' st'. set_all_from (motoman_codecs base) (p_instance i) (of_nat (Suc k)) req resp st = Some (req', resp, st') \<and>
    robot_serving st' \<and> (\<forall>n < 13. p_value i n st' = (if k \<le> n then vs ! (n - k) else p_value i n st)) \<and>
    (\<forall>x. x \<notin> s_variable_p i ` {..<13} \<longrightarrow> data_store st' x = data_store st x)"
  using assms(1,4-6)
proof (induction vs arbitrary: k req st)
  case Nil
  obtain c where "class_at (p_instance i) st = Some c" "highest_attribute_number c = 13"
    using p_access [OF Nil.prems(1) assms(2)] by metis
  moreover have "k = 13" using Nil.prems(2) by simp
  ultimately have "set_all_from (motoman_codecs base) (p_instance i) (of_nat (Suc k)) req resp st = Some (req, resp, st)"
    by (subst set_all_from.simps) simp
  with Nil.prems show ?case by auto
next
  case (Cons v vs)
  have k: "k < 13" using Cons.prems(2) by simp
  obtain c where c: "class_at (p_instance i) st = Some c" "highest_attribute_number c = 13"
    "find_attribute (p_instance i) (of_nat (Suc k)) st = Some (Some k)" "attribute_at (p_instance i) k st = Some (p_attribute i k)"
    "mask_bit (set_bit_mask c) (of_nat (Suc k)) = Some True"
    "data_store st (s_variable_p i k) = Some (V32 (p_value i k st))"
    using p_access [OF Cons.prems(1) assms(2)] k by metis
  let ?st = "st\<lparr>data_store := (data_store st)(s_variable_p i k \<mapsto> V32 v)\<rparr>"
  let ?req = "req\<lparr>request_path := (request_path req)\<lparr>attribute_number := of_nat (Suc k)\<rparr>\<rparr>"
  have st: "robot_serving ?st"
    using assms(2) k by (intro robot_serving_write [OF Cons.prems(1)]) (simp add: s_variable_p_def kind_ranges)
  have resp: "resp\<lparr>general_status := kCipErrorSuccess\<rparr> = resp" using Cons.prems(4) by simp
  have "decode_scalar GetUdintFromMessage V32 4 ?req resp = Some (V32 v, ?req\<lparr>req_data := concat (map dint_bytes vs)\<rparr>, resp, 4)"
    using decode_scalar_wire(3) [of ?req v "concat (map dint_bytes vs)" 4 resp] Cons.prems(3) resp by simp
  then have d: "decode_attribute (motoman_codecs base) (p_attribute i k) ?req resp st = Some (?req\<lparr>req_data := concat (map dint_bytes vs)\<rparr>, resp, ?st)"
    using c(6) by (simp add: decode_attribute_def read_ref_def write_ref_def DecodeCipDint_def readers_agree del: of_nat_Suc)
  have frame: "attribute_at (p_instance i) k ?st = attribute_at (p_instance i) k st" "class_at (p_instance i) ?st = class_at (p_instance i) st"
    by (simp_all add: attribute_at_def class_at_def frame_simps del: of_nat_Suc)
  have le: "(of_nat (Suc k) :: CipUint) \<le> 13" using k by (simp add: word_le_nat_alt del: of_nat_Suc)
  have flags: "(7 :: CipByte) \<noteq> 8" "(7 :: CipByte) \<noteq> 0" "(7 :: CipByte) \<noteq> 1" by simp_all
  have step: "(of_nat (Suc (Suc k)) :: CipUint) = of_nat (Suc k) + 1" by simp
  have "set_all_from (motoman_codecs base) (p_instance i) (of_nat (Suc k)) req resp st =
      set_all_from (motoman_codecs base) (p_instance i) (of_nat (Suc (Suc k))) (?req\<lparr>req_data := concat (map dint_bytes vs)\<rparr>) resp ?st"
    using c d frame le Cons.prems(4)
    by (subst set_all_from.simps) (simp add: call_get_set_quiet [OF assms(3)] flags step del: of_nat_Suc)
  moreover obtain req' st' where "set_all_from (motoman_codecs base) (p_instance i) (of_nat (Suc (Suc k)))
      (?req\<lparr>req_data := concat (map dint_bytes vs)\<rparr>) resp ?st = Some (req', resp, st')" "robot_serving st'"
    "\<forall>n < 13. p_value i n st' = (if Suc k \<le> n then vs ! (n - Suc k) else p_value i n ?st)"
    "\<forall>x. x \<notin> s_variable_p i ` {..<13} \<longrightarrow> data_store st' x = data_store ?st x"
    using Cons.IH [OF st, of "Suc k" "?req\<lparr>req_data := concat (map dint_bytes vs)\<rparr>"] Cons.prems(2,4) by auto
  ultimately show ?case
    using k by (intro exI [of _ req'] exI [of _ st']) (auto simp: nth_Cons' simp del: of_nat_Suc)
qed


text \<open>
  C15: The position variables of a serving robot. A SetAttributeAll request carries the thirteen values
  in the order of the attribute numbers: value \<open>n\<close> of the request is stored in field \<open>n\<close> of the variable,
  which attribute \<open>n + 1\<close> publishes, and no other cell changes;
  GetAttributeAllPositionOrder, installed as GetAttributeAll, then sends attribute 1, attributes 10
  to 13 and attributes 2 to 9, so the reply is the request only up to that rotation.
\<close>

theorem position_variable_order:
  assumes "robot_serving st" and "i < MOTOMAN_MAX_VARIABLE_P" and "quiet_callbacks (motoman_codecs base)"
    and "length vs = 13" and "req_data req = concat (map dint_bytes vs)"
  shows "\<exists>req' resp' st' req2' resp2'.
    SetAttributeAll (motoman_codecs base) (p_instance i) req resp st = Some (kEipStatusOkSend, req', resp', st') \<and>
    general_status resp' = kCipErrorSuccess \<and> robot_serving st' \<and>
    (\<forall>n < 13. data_store st' (s_variable_p i n) = Some (V32 (vs ! n))) \<and>
    (\<forall>x. x \<notin> s_variable_p i ` {..<13} \<longrightarrow> data_store st' x = data_store st x) \<and>
    GetAttributeAllPositionOrder (motoman_codecs base) (p_instance i) req2 resp2 st' =
      Some (kEipStatusOkSend, req2', resp2', st') \<and>
    general_status resp2' = kCipErrorSuccess \<and>
    sent_octets (message resp2') = concat (map (\<lambda>k. dint_bytes (vs ! k)) ([0] @ [9..<13] @ [1..<9]))"
proof -
  let ?resp = "(GenerateSetAttributeSingleHeader req resp)\<lparr>general_status := kCipErrorSuccess\<rparr>"
  obtain req' st' where s: "set_all_from (motoman_codecs base) (p_instance i) 1 req ?resp st = Some (req', ?resp, st')"
    "robot_serving st'" "\<forall>n < 13. p_value i n st' = vs ! n"
    "\<forall>x. x \<notin> s_variable_p i ` {..<13} \<longrightarrow> data_store st' x = data_store st x"
    using set_all_from_p [OF assms(1-3), of 0 vs req ?resp] assms(4,5) by auto
  have cells: "\<forall>n < 13. data_store st' (s_variable_p i n) = Some (V32 (vs ! n))"
    using s(3) p_access [OF s(2) assms(2)] by metis
  obtain c where c: "class_at (p_instance i) st = Some c" "number_of_attributes c = 13"
    using p_access [OF assms(1,2)] by metis
  obtain c' where c': "class_at (p_instance i) st' = Some c'" "number_of_attributes c' = 13"
    using p_access [OF s(2) assms(2)] by metis
  let ?m0 = "InitializeENIPMessage (InitializeENIPMessage (message resp2))"
  let ?ks = "[0] @ [9..<13] @ [1..<9]"
  have order: "attr_order = map (\<lambda>k. of_nat (Suc k)) ?ks"
    by (simp add: attr_order_def upt_rec)
  obtain req2' m where g: "get_in_order (motoman_codecs base) (p_instance i) st' attr_order req2 ?m0 = Some (req2', m)" "holds_octets m (concat (map (\<lambda>k. dint_bytes (p_value i k st')) ?ks))"
    unfolding order
    using get_in_order_p [OF s(2) assms(2), of ?ks ?m0 "[]" "motoman_codecs base" req2] by auto
  have vals: "map (\<lambda>k. dint_bytes (p_value i k st')) ?ks = map (\<lambda>k. dint_bytes (vs ! k)) ?ks"
    using s(3) by (auto intro!: map_cong)
  have "SetAttributeAll (motoman_codecs base) (p_instance i) req resp st = Some (kEipStatusOkSend, req', ?resp, st')"
    using c s(1) by (simp add: SetAttributeAll_def)
  moreover have "GetAttributeAllPositionOrder (motoman_codecs base) (p_instance i) req2 resp2 st' = Some (kEipStatusOkSend, req2',
      (GenerateGetAttributeSingleHeader req2 (resp2\<lparr>message := InitializeENIPMessage (message resp2)\<rparr>))\<lparr>general_status := kCipErrorSuccess, message := m\<rparr>, st')"
    using c' g(1) by (simp add: GetAttributeAllPositionOrder_def GenerateGetAttributeSingleHeader_def)
  ultimately show ?thesis
    using s(2,4) cells sent_octets_holds [OF g(2), unfolded vals] by auto
qed


theorem position_variable_order_witness:
  "\<exists>req' resp' st' req2' resp2'.
    SetAttributeAll (motoman_codecs example_env) (p_instance 2) (register_request 2 3 (concat (map dint_bytes (map of_nat [1..<14]))))
      example_response robot_running = Some (kEipStatusOkSend, req', resp', st') \<and>
    general_status resp' = kCipErrorSuccess \<and> robot_serving st' \<and>
    (\<forall>n < 13. data_store st' (s_variable_p 2 n) = Some (V32 (map of_nat [1..<14] ! n))) \<and>
    (\<forall>x. x \<notin> s_variable_p 2 ` {..<13} \<longrightarrow> data_store st' x = data_store robot_running x) \<and>
    GetAttributeAllPositionOrder (motoman_codecs example_env) (p_instance 2) (register_request 1 3 []) example_response st' =
      Some (kEipStatusOkSend, req2', resp2', st') \<and>
    general_status resp2' = kCipErrorSuccess \<and>
    sent_octets (message resp2') =
      concat (map (\<lambda>k. dint_bytes (map of_nat [1..<14] ! k)) ([0] @ [9..<13] @ [1..<9]))"
  by (rule position_variable_order [OF robot_running_serving])
    (simp_all add: register_request_def quiet_callbacks_def motoman_codecs_def example_env_def)

end
