(* ===== verification/TcpRequests.thy ===== *)
theory TcpRequests
  imports ListIdentity MotomanAccess
begin

text \<open>
  Requests on their way through the device: the octets of an encapsulation frame, the session check, the
  packet, the message router, the service of a class and the reply frame.
\<close>

subsection \<open>Requests for the message router\<close>

text \<open>The octets of a request: service, size of the path, path and data.\<close>

definition request_bytes :: "CipUsint \<Rightarrow> CipEpath \<Rightarrow> CipOctet list \<Rightarrow> CipOctet list" where
  "request_bytes service e data = service # of_nat (epath_words e) # epath_bytes e @ data"

text \<open>The request the router hands to a service.\<close>

definition parsed_request :: "CipUsint \<Rightarrow> CipEpath \<Rightarrow> CipOctet list \<Rightarrow> CipMessageRouterRequest \<Rightarrow> CipMessageRouterRequest" where
  "parsed_request service e data req = req\<lparr>req_service := service,
     request_path := (request_path req)\<lparr>path_size := of_nat (epath_words e), class_id := class_id e,
       instance_number := instance_number e, attribute_number := attribute_number e\<rparr>,
     req_data := data, request_data_size := of_nat (length data)\<rparr>"

lemma parse_request_bytes:
  assumes "length data \<le> 512"
  shows "CreateMessageRouterRequestStructure (request_bytes service e data) (of_nat (length (request_bytes service e data))) req =
    Some (kCipErrorSuccess, parsed_request service e data req)"
proof -
  define n where "n = 2 * epath_words e + 1 + length data"
  have len: "length (request_bytes service e data) = Suc n" by (simp add: request_bytes_def epath_bytes_length n_def)
  have n: "n \<le> 525" using epath_bytes_length(2) [of e] assms by (simp add: n_def)
  have sc: "(scast (of_nat n :: CipUint) :: size_t) = of_nat n"
    using n by (simp add: scast_nonneg) (simp add: word_unat_eq_iff)
  have le: "\<not> (of_nat n :: size_t) < of_nat (2 * epath_words e + 1)"
    using n unat_of_nat_small(3) [of n] unat_of_nat_small(3) [of "2 * epath_words e + 1"]
    by (simp add: word_less_nat_alt n_def del: of_nat_add of_nat_mult of_nat_Suc)
  have d: "(of_nat n - of_nat (2 * epath_words e + 1) :: size_t) = of_nat (length data)" by (simp add: n_def)
  have w: "(of_nat (Suc n) - 1 :: CipUint) = of_nat n" by simp
  show ?thesis
    unfolding CreateMessageRouterRequestStructure_def len w
    using sc le d by (simp add: request_bytes_def decode_epath_bytes parsed_request_def Let_def del: of_nat_add of_nat_mult)
qed

lemma layout_service:
  assumes "class_layout s ob" and "spec_fits s" and "i < spec_count s" and "(req_service req, f) \<in> set (spec_services s)"
    and "instance_number (request_path req) = of_nat (Suc i)"
  shows "NotifyClass env ob req resp session st = call_service env f (spec_code s, of_nat (Suc i)) req resp session st"
proof -
  let ?c = "cip_class ob"
  let ?n = "of_nat (Suc i) :: CipInstanceNum"
  let ?svcs = "map mk_service (spec_services s)"
  have small: "Suc i < 65536" using assms(2,3) by (simp add: spec_fits_def)
  have n0: "?n \<noteq> 0"
    using small by (metis unat_of_nat_small(2) nat.distinct(1) unsigned_0)
  have svcs: "services ?c = ?svcs" "number_of_services ?c = of_nat (length (spec_services s))" "class_code ?c = spec_code s"
    using assms(1) by (simp_all add: class_layout_def Let_def)
  have cls: "class_of ?n ob = ?c" using n0 by (simp add: class_of_def)
  have inst: "GetCipInstance ob ?n = Some ?n"
    using layout_attribute_row(1) [OF assms(1-3)] n0
    by (auto simp: GetCipInstance_def attributes_of_def dest: find_instance_SomeD simp del: of_nat_Suc)
  obtain k where k: "k < length (spec_services s)" "spec_services s ! k = (req_service req, f)"
    using assms(4) by (auto simp: in_set_conv_nth)
  have "first_index (\<lambda>x. req_service req = service_number x) ?svcs = Some k"
    using first_index_distinct [of service_number ?svcs k] k assms(2) by (simp add: spec_fits_def comp_def)
  moreover have "unat (number_of_services ?c) = length ?svcs"
    using assms(2) svcs(2) by (simp add: spec_fits_def unat_of_nat take_bit_nat_eq_self)
  ultimately have "scan (\<lambda>x. req_service req = service_number x) (unat (number_of_services ?c)) (services ?c) = Some (Some k)"
    using svcs(1) scan_whole [of _ ?svcs] by simp
  then show ?thesis
    using k svcs by (simp add: NotifyClass_def assms(5) inst cls Let_def del: of_nat_Suc)
qed

subsection \<open>Frames of a session\<close>

definition session_open :: "CipSessionHandle \<Rightarrow> 'e stack_state_scheme \<Rightarrow> bool" where
  "session_open h st \<longleftrightarrow> CheckRegisteredSessions h st = Some kSessionStatusValid"

lemma session_open_cong: "g_registered_sessions st' = g_registered_sessions st \<Longrightarrow> session_open h st' = session_open h st"
  by (simp add: session_open_def CheckRegisteredSessions_def)

lemma uint_of_small:
  "n < 65536 \<Longrightarrow> uint (of_nat n :: CipUint) = int n" "n < 4294967296 \<Longrightarrow> uint (of_nat n :: size_t) = int n"
  by (simp_all add: unsigned_of_nat take_bit_nat_eq_self)

text \<open>What the commands for requests and unit data see of a frame, behind interface handle and time-out.\<close>

abbreviation session_data :: "CipUint \<Rightarrow> CipSessionHandle \<Rightarrow> CipOctet list \<Rightarrow> CipOctet list \<Rightarrow> CipOctet list \<Rightarrow> EncapsulationData" where
  "session_data command session ctxt frame packet \<equiv> \<lparr>command_code = command, encap_data_length = of_nat (length packet),
     encap_session_handle = session, encap_status = kEncapsulationProtocolSuccess, sender_context = ctxt, encap_options = 0,
     communication_buffer_start = frame, current_communication_buffer_position = packet\<rparr>"

lemma session_frame:
  assumes "session_open h st" and "length ctxt = 8" and "length packet \<le> 65000"
    and "frame = frame_bytes c h status ctxt 0 (dint_bytes interface @ int_bytes timeout @ packet)"
  shows "c = kEncapsulationCommandSendRequestReplyData \<Longrightarrow> HandleReceivedExplictTcpData env sock frame (of_nat (length frame)) a m st = do {
      (status, m, st) \<leftarrow> NotifyCommonPacketFormat env (session_data c h ctxt frame packet) m (st\<lparr>originator_sockaddr := a\<rparr>);
      Some (status, 0, m, st) }"
    and "c = kEncapsulationCommandSendUnitData \<Longrightarrow> HandleReceivedExplictTcpData env sock frame (of_nat (length frame)) a m st = do {
      (status, m, st) \<leftarrow> NotifyConnectedCommonPacketFormat env (session_data c h ctxt frame packet) m (st\<lparr>originator_sockaddr := a\<rparr>);
      Some (status, 0, m, st) }"
proof -
  let ?data = "dint_bytes interface @ int_bytes timeout @ packet"
  let ?st = "st\<lparr>originator_sockaddr := a\<rparr>"
  define d where "d = (frame_data c h status ctxt 0 ?data [])\<lparr>encap_status := kEncapsulationProtocolSuccess\<rparr>"
  have flen: "length frame = 30 + length packet" using assms(2,4) by (simp add: frame_bytes_def)
  have "uint (of_nat (length frame) :: size_t) = int (30 + length packet)" "unat (of_nat (length frame) :: size_t) = 30 + length packet"
    using uint_of_small(2) [of "length frame"] assms(3) unfolding flen by (simp_all del: of_nat_add)
  then have read: "CreateEncapsulationStructure frame (of_nat (length frame)) = Some (0, frame_data c h status ctxt 0 ?data [])"
    using read_frame [OF assms(2), of ?data "of_nat (length frame)" c h status 0 "[]"] assms(3,4) by simp
  have skip: "skip_interface d = Some (session_data c h ctxt frame packet)"
    using assms(4) by (simp add: skip_interface_def d_def uint.dec_enc udint.dec_enc)
  have six: "6 \<le> encap_data_length d"
    using assms(3) unat_of_nat_small(2) [of "6 + length packet"] by (simp add: d_def word_le_nat_alt del: of_nat_add)
  have "CheckRegisteredSessions h ?st = Some kSessionStatusValid"
    using assms(1) session_open_cong [of ?st st h] by (simp add: session_open_def)
  then have over: "over_session notify d m ?st = notify (session_data c h ctxt frame packet) m ?st" for notify
    using skip six by (simp add: over_session_def)
  have cmd: "c = kEncapsulationCommandSendRequestReplyData \<Longrightarrow> tcp_command env sock d m ?st = over_session (NotifyCommonPacketFormat env) d m ?st"
      "c = kEncapsulationCommandSendUnitData \<Longrightarrow> tcp_command env sock d m ?st = over_session (NotifyConnectedCommonPacketFormat env) d m ?st"
    by (simp_all add: tcp_command_def HandleReceivedSendRequestResponseDataCommand_def HandleReceivedSendUnitDataCommand_def d_def)
  have "HandleReceivedExplictTcpData env sock frame (of_nat (length frame)) a m st = do {
      (status, m, st) \<leftarrow> tcp_command env sock d m ?st; Some (status, 0, m, st) }"
    using read by (simp add: HandleReceivedExplictTcpData_def d_def)
  with cmd over show "c = kEncapsulationCommandSendRequestReplyData \<Longrightarrow> HandleReceivedExplictTcpData env sock frame (of_nat (length frame)) a m st = do {
      (status, m, st) \<leftarrow> NotifyCommonPacketFormat env (session_data c h ctxt frame packet) m ?st; Some (status, 0, m, st) }"
    and "c = kEncapsulationCommandSendUnitData \<Longrightarrow> HandleReceivedExplictTcpData env sock frame (of_nat (length frame)) a m st = do {
      (status, m, st) \<leftarrow> NotifyConnectedCommonPacketFormat env (session_data c h ctxt frame packet) m ?st; Some (status, 0, m, st) }"
    by simp_all
qed

subsection \<open>Unconnected messages over a session\<close>

text \<open>The data of a SendRRData frame: interface handle, time-out and a packet of two items.\<close>

definition rr_data :: "CipUdint \<Rightarrow> CipUint \<Rightarrow> CipOctet list \<Rightarrow> CipOctet list" where
  "rr_data interface timeout body = dint_bytes interface @ int_bytes timeout @ int_bytes 2 @ int_bytes 0 @ int_bytes 0 @
     int_bytes kCipItemIdUnconnectedDataItem @ int_bytes (of_nat (length body)) @ body"

lemma rr_data_length: "length (rr_data interface timeout body) = 16 + length body"
  by (simp add: rr_data_def)

abbreviation rr_frame :: "CipSessionHandle \<Rightarrow> CipUdint \<Rightarrow> CipOctet list \<Rightarrow> CipUdint \<Rightarrow> CipUint \<Rightarrow> CipOctet list \<Rightarrow> CipOctet list" where
  "rr_frame session status ctxt interface timeout body \<equiv>
     frame_bytes kEncapsulationCommandSendRequestReplyData session status ctxt 0 (rr_data interface timeout body)"

text \<open>The packet structure after such a frame was parsed.\<close>

definition rr_packet :: "CipOctet list \<Rightarrow> CipCommonPacketFormatData \<Rightarrow> CipCommonPacketFormatData" where
  "rr_packet body q = set_info_type 0 0 (set_info_type 1 0 (set_info_type 1 0 (set_info_type 0 0 q)
      \<lparr>item_count := 2, address_item := (address_item q)\<lparr>address_type_id := 0, address_length := 0\<rparr>,
       data_item := \<lparr>data_type_id = kCipItemIdUnconnectedDataItem, data_item_length = of_nat (length body), data_item_data = body\<rparr>\<rparr>))"

lemma parse_rr_packet:
  assumes "length body \<le> 65000" and "packet = int_bytes 2 @ int_bytes 0 @ int_bytes 0 @
      int_bytes kCipItemIdUnconnectedDataItem @ int_bytes (of_nat (length body)) @ body"
  shows "CreateCommonPacketFormatStructure packet (of_nat (length packet)) q = Some (kEipStatusOk, rr_packet body q)"
proof -
  have a: "address_bytes (zero_packet) = int_bytes 0 @ int_bytes 0" "known_address zero_packet"
    "address_type_id (address_item zero_packet) = 0"
    by (simp_all add: address_bytes_def zero_packet_def known_address_def)
  show ?thesis
    using parse_two_items [OF a(2), of body kCipItemIdUnconnectedDataItem q] assms
    by (simp add: a received_address_def rr_packet_def)
qed

lemma rr_packet_simps [simp]:
  "item_count (rr_packet body q) = 2" "address_item (rr_packet body q) = (address_item q)\<lparr>address_type_id := 0, address_length := 0\<rparr>"
  "data_item (rr_packet body q) = \<lparr>data_type_id = kCipItemIdUnconnectedDataItem, data_item_length = of_nat (length body), data_item_data = body\<rparr>"
  "length (address_info_item (rr_packet body q)) = length (address_info_item q)"
  by (simp_all add: rr_packet_def set_info_type_def)

lemma rr_packet_no_info:
  assumes "length (address_info_item q) = 2"
  shows "no_info (rr_packet body q)"
proof -
  obtain a b where "address_info_item q = [a, b]" using assms by (auto simp: length_Suc_conv numeral_2_eq_2)
  then show ?thesis by (simp add: rr_packet_def set_info_type_def no_info_def)
qed

lemma rr_packet_known: "known_address (rr_packet body q)"
  by (simp add: known_address_def)

lemma rr_reply_bytes:
  assumes "length (address_info_item q) = 2"
  shows "reply_packet_bytes (rr_packet body q) resp = rr_data 0 0 (response_data resp)"
  by (simp add: reply_packet_bytes_def address_bytes_def reply_item_bytes_def no_info_bytes [OF rr_packet_no_info [OF assms]] rr_data_def)

text \<open>What the router sees of a frame received from \<open>originator\<close>.\<close>

definition received_state :: "sockaddr_in \<Rightarrow> CipOctet list \<Rightarrow> 'e encap_state_scheme \<Rightarrow> 'e encap_state_scheme" where
  "received_state originator body st = st\<lparr>originator_sockaddr := originator,
     g_common_packet_format_data_item := rr_packet body (g_common_packet_format_data_item st)\<rparr>"

lemma unconnected_request:
  assumes "session_open h st" and "info_items_ready st" and "length ctxt = 8" and "length body \<le> 472"
    and "NotifyMessageRouter env body (int (length body)) InitializeMessageRouterResponse h (received_state originator body st) =
      Some (kEipStatusOkSend, resp, st')"
    and "g_common_packet_format_data_item st' = rr_packet body (g_common_packet_format_data_item st)"
    and "response_ok resp" and "length (response_data resp) \<le> 472"
  shows "\<exists>m'. HandleReceivedExplictTcpData env sock (rr_frame h status ctxt interface timeout body)
      (of_nat (length (rr_frame h status ctxt interface timeout body))) originator (InitializeENIPMessage m) st =
    Some (kEipStatusOkSend, 0, m', st') \<and> sent_octets m' = rr_frame h kEncapsulationProtocolSuccess ctxt 0 0 (response_data resp)"
proof -
  let ?frame = "rr_frame h status ctxt interface timeout body"
  define packet where "packet = int_bytes 2 @ int_bytes 0 @ int_bytes 0 @
      int_bytes kCipItemIdUnconnectedDataItem @ int_bytes (of_nat (length body)) @ body"
  let ?d = "session_data kEncapsulationCommandSendRequestReplyData h ctxt ?frame packet"
  let ?st = "st\<lparr>originator_sockaddr := originator\<rparr>"
  have len: "length packet < 65536" using assms(4) by (simp add: packet_def)
  then have "of_nat (length packet) = (ucast (encap_data_length ?d) :: size_t)" by (simp add: word_unat_eq_iff)
  then have parse: "CreateCommonPacketFormatStructure packet (ucast (encap_data_length ?d)) (g_common_packet_format_data_item ?st) =
      Some (kEipStatusOk, rr_packet body (g_common_packet_format_data_item st))"
    using parse_rr_packet [of body packet "g_common_packet_format_data_item st"] assms(4) packet_def by simp
  obtain m' where m': "write_reply ?d resp (g_common_packet_format_data_item st') (InitializeENIPMessage m) = Some m'"
      "holds_octets m' (rr_frame h kEncapsulationProtocolSuccess ctxt 0 0 (response_data resp))"
    using write_reply_frame [OF holds_octets_init [of m], of ?d "rr_packet body (g_common_packet_format_data_item st)" resp]
      assms(2,3,6,7,8) rr_packet_known
    by (auto simp: rr_reply_bytes info_items_ready_def rr_data_length)
  have "NotifyCommonPacketFormat env ?d (InitializeENIPMessage m) ?st = Some (kEipStatusOkSend, m', st')"
    using parse m'(1) assms(4,5)
    by (simp add: NotifyCommonPacketFormat_def received_state_def Let_def uint_of_small)
  moreover have "?frame = frame_bytes kEncapsulationCommandSendRequestReplyData h status ctxt 0 (dint_bytes interface @ int_bytes timeout @ packet)"
    by (simp add: rr_data_def packet_def)
  ultimately show ?thesis
    using session_frame(1) [OF assms(1,3), of packet ?frame kEncapsulationCommandSendRequestReplyData status interface timeout env sock originator
        "InitializeENIPMessage m"] m'(2) assms(4) by (simp add: packet_def sent_octets_holds)
qed

subsection \<open>Registers over a session\<close>

definition register_path :: "nat \<Rightarrow> CipEpath" where
  "register_path i = CipEpath.make 0 0x79 (of_nat (Suc i)) 1"

lemma register_path_simps [simp]:
  "class_id (register_path i) = 0x79" "instance_number (register_path i) = of_nat (Suc i)" "attribute_number (register_path i) = 1"
  by (simp_all add: register_path_def CipEpath.make_def del: of_nat_Suc)

lemma robot_serving_cong:
  "data_store st' = data_store st \<Longrightarrow> g_first_object st' = g_first_object st \<Longrightarrow> robot_serving st' \<longleftrightarrow> robot_serving st"
  by (simp add: robot_serving_def store_typed_def GetCipClass_def GetRegisteredObject_def)

lemma register_value_cong: "data_store st' = data_store st \<Longrightarrow> register_value i st' = register_value i st"
  by (simp add: register_value_def)

text \<open>A request for a register reaches its service.\<close>

lemma register_delivered:
  assumes "robot_serving st" and "i < MOTOMAN_MAX_REGISTERS" and "length data \<le> 512" and "(svc, f) \<in> set get_set_services"
  defines "req \<equiv> parsed_request svc (register_path i) data (g_message_router_request st)"
  shows "NotifyMessageRouter env (request_bytes svc (register_path i) data) (int (length (request_bytes svc (register_path i) data)))
      resp h st = do {
        (status, req', resp', st') \<leftarrow> call_service env f (register_instance i) req (resp\<lparr>reserved := 0\<rparr>) h (st\<lparr>g_message_router_request := req\<rparr>);
        Some (status, resp', st'\<lparr>g_message_router_request := req'\<rparr>) }"
proof -
  have spec: "(register_spec, [s_registers 0]) \<in> set robot_specs" "i < spec_count register_spec"
      "spec_code register_spec = MOTOMAN_CLASS_REGISTER" "spec_services register_spec = get_set_services"
    using assms(2) by (simp_all add: robot_specs_def register_spec_eq robot_spec_def)
  then obtain ob where ob: "GetCipClass MOTOMAN_CLASS_REGISTER st = Some ob" "class_layout register_spec ob"
    using assms(1) by (fastforce simp: robot_serving_def)
  have reg: "GetRegisteredObject 0x79 (st\<lparr>g_message_router_request := req\<rparr>) = Some ob"
    using ob(1) by (simp add: GetCipClass_def GetRegisteredObject_def split: option.splits)
  have "NotifyClass env ob req r h s = call_service env f (register_instance i) req r h s" for r s
    using layout_service [OF ob(2) robot_specs_fit [OF spec(1)] spec(2), of req f env r h s] assms(4) spec(3,4)
    by (simp add: req_def parsed_request_def del: of_nat_Suc)
  moreover have cls: "class_id (request_path req) = 0x79" by (simp add: req_def parsed_request_def)
  ultimately show ?thesis
    using parse_request_bytes [OF assms(3), of svc "register_path i" "g_message_router_request st"] reg
    by (simp add: NotifyMessageRouter_def req_def [symmetric] cls Let_def)
qed

lemma fresh_response:
  "reserved InitializeMessageRouterResponse = 0" "additional_status InitializeMessageRouterResponse = [0, 0]"
  "size_of_additional_status InitializeMessageRouterResponse = 0"
  by (simp_all add: InitializeMessageRouterResponse_def)

text \<open>A successful reply with the given data.\<close>

lemma plain_response:
  assumes "holds_octets (message resp) bs" and "size_of_additional_status resp = 0" and "additional_status resp = [0, 0]"
    and "reserved resp = 0" and "general_status resp = 0"
  shows "response_ok resp" and "response_data resp = [reply_service resp, 0, 0, 0] @ bs"
  using assms sent_octets_holds [OF assms(1)] by (auto simp: response_ok_def response_data_def)

lemma short_request: "length data \<le> 2 \<Longrightarrow> length (request_bytes svc e data) \<le> 472"
  using epath_bytes_length [of e] by (simp add: request_bytes_def)

lemma received_state_simps [simp]:
  "data_store (received_state a body st) = data_store st" "g_first_object (received_state a body st) = g_first_object st"
  "g_message_router_request (received_state a body st) = g_message_router_request st"
  "g_registered_sessions (received_state a body st) = g_registered_sessions st"
  "g_common_packet_format_data_item (received_state a body st) = rr_packet body (g_common_packet_format_data_item st)"
  by (simp_all add: received_state_def)

abbreviation register_body :: "CipUsint \<Rightarrow> nat \<Rightarrow> CipOctet list \<Rightarrow> CipOctet list" where
  "register_body svc i data \<equiv> request_bytes svc (register_path i) data"

lemma fresh_again: "InitializeMessageRouterResponse\<lparr>reserved := 0\<rparr> = InitializeMessageRouterResponse"
  by (simp add: InitializeMessageRouterResponse_def)

lemma router_reads_register:
  assumes "robot_serving st" and "i < MOTOMAN_MAX_REGISTERS" and "quiet_callbacks env"
  shows "\<exists>resp req. NotifyMessageRouter env (register_body kGetAttributeSingle i []) (int (length (register_body kGetAttributeSingle i [])))
      InitializeMessageRouterResponse h st = Some (kEipStatusOkSend, resp, st\<lparr>g_message_router_request := req\<rparr>) \<and> response_ok resp \<and>
    response_data resp = [0x8E, 0, 0, 0] @ int_bytes (register_value i st)"
proof -
  let ?req = "parsed_request kGetAttributeSingle (register_path i) [] (g_message_router_request st)"
  let ?st = "st\<lparr>g_message_router_request := ?req\<rparr>"
  have serving: "robot_serving ?st" using assms(1) robot_serving_cong [of ?st st] by simp
  obtain mr where mr: "GetAttributeSingle env (register_instance i) ?req InitializeMessageRouterResponse ?st = Some (kEipStatusOkSend, ?req,
      (GenerateGetAttributeSingleHeader ?req InitializeMessageRouterResponse)\<lparr>message := mr, general_status := kCipErrorSuccess\<rparr>, ?st)"
      "holds_octets mr (int_bytes (register_value i ?st))"
    using register_read_reply [OF serving assms(2,3), of ?req InitializeMessageRouterResponse] by (auto simp: parsed_request_def)
  let ?resp = "(GenerateGetAttributeSingleHeader ?req InitializeMessageRouterResponse)\<lparr>message := mr, general_status := kCipErrorSuccess\<rparr>"
  have "response_ok ?resp" "response_data ?resp = [0x8E, 0, 0, 0] @ int_bytes (register_value i st)"
    using plain_response [of ?resp "int_bytes (register_value i st)"] mr(2) register_value_cong [of ?st st i]
    by (simp_all add: GenerateGetAttributeSingleHeader_def fresh_response reply_code_def parsed_request_def)
  moreover have "NotifyMessageRouter env (register_body kGetAttributeSingle i []) (int (length (register_body kGetAttributeSingle i [])))
      InitializeMessageRouterResponse h st = Some (kEipStatusOkSend, ?resp, ?st)"
    using register_delivered [OF assms(1,2), of "[]" kGetAttributeSingle SvcGetAttributeSingle env InitializeMessageRouterResponse h] mr(1)
    by (simp add: fresh_again get_set_services_def)
  ultimately show ?thesis by blast
qed

lemma router_writes_register:
  assumes "robot_serving st" and "i < MOTOMAN_MAX_REGISTERS" and "quiet_callbacks (motoman_env base)"
  shows "\<exists>resp req. NotifyMessageRouter (motoman_env base) (register_body kSetAttributeSingle i (int_bytes v))
      (int (length (register_body kSetAttributeSingle i (int_bytes v)))) InitializeMessageRouterResponse h st =
      Some (kEipStatusOkSend, resp, st\<lparr>data_store := (data_store st)(s_registers i \<mapsto> V16 v), g_message_router_request := req\<rparr>) \<and>
    response_ok resp \<and> response_data resp = [0x90, 0, 0, 0]"
proof -
  let ?req = "parsed_request kSetAttributeSingle (register_path i) (int_bytes v) (g_message_router_request st)"
  let ?st = "st\<lparr>g_message_router_request := ?req\<rparr>"
  let ?resp = "(GenerateSetAttributeSingleHeader ?req InitializeMessageRouterResponse)\<lparr>general_status := kCipErrorSuccess\<rparr>"
  have serving: "robot_serving ?st" using assms(1) robot_serving_cong [of ?st st] by simp
  have "SetAttributeSingle (motoman_env base) (register_instance i) ?req InitializeMessageRouterResponse ?st =
      Some (kEipStatusOkSend, ?req\<lparr>req_data := []\<rparr>, ?resp, ?st\<lparr>data_store := (data_store st)(s_registers i \<mapsto> V16 v)\<rparr>)"
    using register_write [OF serving assms(2,3), of ?req v] by (simp add: parsed_request_def)
  moreover have "response_ok ?resp" "response_data ?resp = [0x90, 0, 0, 0]"
    using plain_response [of ?resp "[]"]
    by (simp_all add: GenerateSetAttributeSingleHeader_def fresh_response reply_code_def parsed_request_def)
  ultimately show ?thesis
    using register_delivered [OF assms(1,2), of "int_bytes v" kSetAttributeSingle SvcSetAttributeSingle "motoman_env base"
        InitializeMessageRouterResponse h]
    by (intro exI [of _ ?resp] exI [of _ "?req\<lparr>req_data := []\<rparr>"]) (simp add: fresh_again get_set_services_def)
qed

text \<open>
  The contract between the message router and the layers that carry requests to it: a request body that is
  executed in every state that \<open>serves\<close> it, with a new data store and an answer that depend on the objects and
  their data only.
\<close>

locale routed_request =
  fixes env :: "'e encap_state_scheme cip_env" and body :: "CipOctet list" and serves :: "'e encap_state_scheme \<Rightarrow> bool"
    and effect :: "'e encap_state_scheme \<Rightarrow> nat \<rightharpoonup> cip_value" and answer :: "'e encap_state_scheme \<Rightarrow> CipOctet list"
  assumes short: "length body \<le> 472"
    and objects_only: "data_store st' = data_store st \<Longrightarrow> g_first_object st' = g_first_object st \<Longrightarrow>
      serves st' = serves st \<and> effect st' = effect st \<and> answer st' = answer st"
    and routed: "serves st \<Longrightarrow> \<exists>resp req. NotifyMessageRouter env body (int (length body)) InitializeMessageRouterResponse h st =
        Some (kEipStatusOkSend, resp, st\<lparr>data_store := effect st, g_message_router_request := req\<rparr>) \<and>
      response_ok resp \<and> response_data resp = answer st \<and> length (answer st) \<le> 460"
begin

lemma over_session:
  assumes "serves st" and "session_open h st" and "info_items_ready st" and "length ctxt = 8"
    and "frame = rr_frame h status ctxt interface timeout body"
  shows "\<exists>m' st'. HandleReceivedExplictTcpData env sock frame (of_nat (length frame)) a (InitializeENIPMessage m) st =
      Some (kEipStatusOkSend, 0, m', st') \<and>
    sent_octets m' = rr_frame h kEncapsulationProtocolSuccess ctxt 0 0 (answer st) \<and>
    data_store st' = effect st \<and> g_first_object st' = g_first_object st \<and> session_open h st' \<and> info_items_ready st'"
proof -
  let ?r = "received_state a body st"
  have same: "serves ?r" "effect ?r = effect st" "answer ?r = answer st" using objects_only [of ?r st] assms(1) by simp_all
  obtain resp req where w: "NotifyMessageRouter env body (int (length body)) InitializeMessageRouterResponse h ?r =
      Some (kEipStatusOkSend, resp, ?r\<lparr>data_store := effect st, g_message_router_request := req\<rparr>)" "response_ok resp"
      "response_data resp = answer st" "length (answer st) \<le> 460"
    using routed [OF same(1), of h] same(2,3) by auto
  let ?st' = "?r\<lparr>data_store := effect st, g_message_router_request := req\<rparr>"
  have "\<exists>m'. HandleReceivedExplictTcpData env sock frame (of_nat (length frame)) a (InitializeENIPMessage m) st =
      Some (kEipStatusOkSend, 0, m', ?st') \<and> sent_octets m' = rr_frame h kEncapsulationProtocolSuccess ctxt 0 0 (response_data resp)"
    using unconnected_request [OF assms(2-4) short w(1) _ w(2)] assms(5) w(4) by (simp add: w(3))
  moreover have "session_open h ?st'" using assms(2) session_open_cong [of ?st' st h] by simp
  moreover have "info_items_ready ?st'" using assms(3) by (simp add: info_items_ready_def)
  moreover have "data_store ?st' = effect st" "g_first_object ?st' = g_first_object st" by simp_all
  ultimately show ?thesis unfolding w(3) by blast
qed

end

lemma register_serves_cong:
  "data_store st' = data_store st \<Longrightarrow> g_first_object st' = g_first_object st \<Longrightarrow>
     robot_serving st' = robot_serving st \<and> register_value i st' = register_value i st"
  using robot_serving_cong [of st' st] register_value_cong [of st' st i] by blast

interpretation register_read: routed_request env "register_body kGetAttributeSingle i []"
    "\<lambda>st. robot_serving st \<and> i < MOTOMAN_MAX_REGISTERS \<and> quiet_callbacks env" data_store
    "\<lambda>st. [0x8E, 0, 0, 0] @ int_bytes (register_value i st)" for env i
proof
  show "length (register_body kGetAttributeSingle i []) \<le> 472" by (rule short_request) simp
next
  fix st :: "'a encap_state_scheme" and h :: CipSessionHandle
  assume "robot_serving st \<and> i < MOTOMAN_MAX_REGISTERS \<and> quiet_callbacks env"
  then show "\<exists>resp req. NotifyMessageRouter env (register_body kGetAttributeSingle i []) (int (length (register_body kGetAttributeSingle i [])))
      InitializeMessageRouterResponse h st = Some (kEipStatusOkSend, resp, st\<lparr>data_store := data_store st, g_message_router_request := req\<rparr>) \<and>
      response_ok resp \<and> response_data resp = [0x8E, 0, 0, 0] @ int_bytes (register_value i st) \<and>
      length ([0x8E, 0, 0, 0] @ int_bytes (register_value i st)) \<le> 460"
    using router_reads_register [of st i env h] by simp
next
  fix st st' :: "'a encap_state_scheme"
  assume "data_store st' = data_store st" "g_first_object st' = g_first_object st"
  then show "(robot_serving st' \<and> i < MOTOMAN_MAX_REGISTERS \<and> quiet_callbacks env) = (robot_serving st \<and> i < MOTOMAN_MAX_REGISTERS \<and> quiet_callbacks env) \<and>
      data_store st' = data_store st \<and>
      [0x8E, 0, 0, 0] @ int_bytes (register_value i st') = [0x8E, 0, 0, 0] @ int_bytes (register_value i st)"
    using register_serves_cong [of st' st i] by simp
qed

interpretation register_write: routed_request "motoman_env base" "register_body kSetAttributeSingle i (int_bytes v)"
    "\<lambda>st. robot_serving st \<and> i < MOTOMAN_MAX_REGISTERS \<and> quiet_callbacks (motoman_env base)"
    "\<lambda>st. (data_store st)(s_registers i \<mapsto> V16 v)" "\<lambda>st. [0x90, 0, 0, 0]" for base i v
proof
  show "length (register_body kSetAttributeSingle i (int_bytes v)) \<le> 472" by (rule short_request) simp
next
  fix st :: "'a encap_state_scheme" and h :: CipSessionHandle
  assume "robot_serving st \<and> i < MOTOMAN_MAX_REGISTERS \<and> quiet_callbacks (motoman_env base)"
  then show "\<exists>resp req. NotifyMessageRouter (motoman_env base) (register_body kSetAttributeSingle i (int_bytes v))
      (int (length (register_body kSetAttributeSingle i (int_bytes v)))) InitializeMessageRouterResponse h st =
      Some (kEipStatusOkSend, resp, st\<lparr>data_store := (data_store st)(s_registers i \<mapsto> V16 v), g_message_router_request := req\<rparr>) \<and>
      response_ok resp \<and> response_data resp = [0x90, 0, 0, 0] \<and> length [0x90, 0, 0, 0 :: CipOctet] \<le> 460"
    using router_writes_register [of st i base v h] by simp
next
  fix st st' :: "'a encap_state_scheme"
  assume "data_store st' = data_store st" "g_first_object st' = g_first_object st"
  then show "(robot_serving st' \<and> i < MOTOMAN_MAX_REGISTERS \<and> quiet_callbacks (motoman_env base)) =
        (robot_serving st \<and> i < MOTOMAN_MAX_REGISTERS \<and> quiet_callbacks (motoman_env base)) \<and>
      (data_store st')(s_registers i \<mapsto> V16 v) = (data_store st)(s_registers i \<mapsto> V16 v) \<and> [0x90, 0, 0, 0 :: CipOctet] = [0x90, 0, 0, 0]"
    using register_serves_cong [of st' st i] by simp
qed

lemma register_written:
  assumes "robot_serving st" and "i < MOTOMAN_MAX_REGISTERS" and "data_store st' = (data_store st)(s_registers i \<mapsto> V16 v)"
    and "g_first_object st' = g_first_object st"
  shows "robot_serving st'" and "register_value j st' = (if j = i then v else register_value j st)"
proof -
  have "robot_serving (st\<lparr>data_store := (data_store st)(s_registers i \<mapsto> V16 v)\<rparr>)"
    using robot_serving_write [OF assms(1), of "s_registers i" "V16 v"] assms(2) by (simp add: s_registers_def kind_ranges)
  then show "robot_serving st'"
    using robot_serving_cong [of st' "st\<lparr>data_store := (data_store st)(s_registers i \<mapsto> V16 v)\<rparr>"] assms(3,4) by simp
  show "register_value j st' = (if j = i then v else register_value j st)"
    by (simp add: register_value_def assms(3) s_registers_def)
qed

text \<open>
  C1: A robot that is serving and a session that is registered. The octets of a SendRRData frame that
  asks for SetAttributeSingle on register \<open>i\<close>, with any sender context, are answered with a frame that
  repeats command, session and context and holds the reply with status success; the octets of a
  second frame that asks for GetAttributeSingle on register \<open>j\<close>, over the same session, are then
  answered with the value written for \<open>j = i\<close> and with the value register \<open>j\<close> had before otherwise. Both
  frames are consumed whole, no octet behind them is read, and the device is ready for the next frame.

  This holds for every register, \<open>i\<close> and \<open>j\<close> from 0 to 999: the device also carries out the write of
  the registers M600 to M999, the analog inputs and the system registers, which a comment of
  \<^verbatim>\<open>InitializeRobotData\<close> and \<^verbatim>\<open>docs/PREINITIALIZED_DATA_REFERENCE.md\<close> call read-only and
  \<^verbatim>\<open>docs/CIP_CLASSES_REFERENCE.md\<close> calls read/write.
\<close>

theorem register_over_tcp:
  assumes "robot_serving st" and "session_open h st" and "info_items_ready st" and "quiet_callbacks (motoman_env base)"
    and "i < MOTOMAN_MAX_REGISTERS" and "j < MOTOMAN_MAX_REGISTERS" and "length ctxt = 8" and "length ctxt2 = 8"
    and "frame = rr_frame h status ctxt interface timeout (register_body kSetAttributeSingle i (int_bytes v))"
    and "frame2 = rr_frame h status2 ctxt2 interface2 timeout2 (register_body kGetAttributeSingle j [])"
  shows "\<exists>m' st' m2' st2'.
    HandleReceivedExplictTcpData (motoman_env base) sock frame (of_nat (length frame)) a (InitializeENIPMessage m) st =
      Some (kEipStatusOkSend, 0, m', st') \<and>
    sent_octets m' = rr_frame h kEncapsulationProtocolSuccess ctxt 0 0 [0x90, 0, 0, 0] \<and>
    HandleReceivedExplictTcpData (motoman_env base) sock frame2 (of_nat (length frame2)) a2 (InitializeENIPMessage m2) st' =
      Some (kEipStatusOkSend, 0, m2', st2') \<and>
    sent_octets m2' = rr_frame h kEncapsulationProtocolSuccess ctxt2 0 0
      ([0x8E, 0, 0, 0] @ int_bytes (if j = i then v else register_value j st)) \<and>
    robot_serving st2' \<and> session_open h st2' \<and> info_items_ready st2'"
proof -
  obtain m' st' where w: "HandleReceivedExplictTcpData (motoman_env base) sock frame (of_nat (length frame)) a (InitializeENIPMessage m) st =
      Some (kEipStatusOkSend, 0, m', st')" "sent_octets m' = rr_frame h kEncapsulationProtocolSuccess ctxt 0 0 [0x90, 0, 0, 0]"
      "data_store st' = (data_store st)(s_registers i \<mapsto> V16 v)" "g_first_object st' = g_first_object st" "session_open h st'" "info_items_ready st'"
    using register_write.over_session [OF _ assms(2,3,7,9)] assms(1,4,5) by blast
  note st' = register_written [OF assms(1,5) w(3,4)]
  obtain m2' st2' where "HandleReceivedExplictTcpData (motoman_env base) sock frame2 (of_nat (length frame2)) a2 (InitializeENIPMessage m2) st' =
      Some (kEipStatusOkSend, 0, m2', st2')" "sent_octets m2' = rr_frame h kEncapsulationProtocolSuccess ctxt2 0 0
      ([0x8E, 0, 0, 0] @ int_bytes (register_value j st'))" "data_store st2' = data_store st'" "g_first_object st2' = g_first_object st'"
      "session_open h st2'" "info_items_ready st2'"
    using register_read.over_session [OF _ w(5,6) assms(8,10)] st'(1) assms(4,6) by blast
  then show ?thesis
    using w(1,2) st'(1) robot_serving_cong [of st2' st'] unfolding st'(2)
    by (intro exI [of _ m'] exI [of _ st'] exI [of _ m2'] exI [of _ st2'] conjI) simp_all
qed

subsection \<open>A robot with one session\<close>

text \<open>The functions the connection manager and the identity object install, over an environment that installs nothing.\<close>

definition stack_env :: "os_env \<Rightarrow> 'e stack_state_scheme cip_env \<Rightarrow> 'e stack_state_scheme cip_env" where
  "stack_env os base = base\<lparr>
     env_encode := (\<lambda>i. if i = 100 then EncodeRevision else env_encode base i),
     env_service := (\<lambda>i inst req resp session st.
       if i = 100 then ForwardOpen os session req resp st
       else if i = 101 then LargeForwardOpen os session req resp st
       else if i = 102 then ForwardClose req resp st
       else if i = 103 then GetConnectionOwner req resp st
       else if i = 104 then GetConnectionData req resp st
       else if i = 105 then SearchConnectionData req resp st
       else env_service base i inst req resp session st)\<rparr>"

definition empty_env :: "'s cip_env" where
  "empty_env = \<lparr>env_encode = (\<lambda>_ _ _. None), env_decode = (\<lambda>_ _ _ _. None), env_get_set = (\<lambda>_ _ _ _ st. Some st),
     env_callback = (\<lambda>_ _ _ resp st. Some (kEipStatusOk, resp, st)), env_service = (\<lambda>_ _ _ _ _ _. None)\<rparr>"

abbreviation device_env :: "'e stack_state_scheme cip_env" where
  "device_env \<equiv> motoman_env (stack_env example_os empty_env)"

lemma device_quiet: "quiet_callbacks device_env"
  by (simp add: quiet_callbacks_def empty_env_def stack_env_def motoman_env_def motoman_codecs_def)

definition robot_device :: encap_state where
  "robot_device = plain_device (data_store robot_running) (g_first_object robot_running)"

text \<open>The running robot with session 1 on socket 5.\<close>

definition robot_session :: encap_state where
  "robot_session = snd (snd (the (register_session 5 1 0 robot_device)))"

lemma robot_session_simps:
  "data_store robot_session = data_store robot_running" "g_first_object robot_session = g_first_object robot_running"
  "g_registered_sessions robot_session = 5 # replicate 31 kEipInvalidSocket" "info_items_ready robot_session"
proof -
  have 32: "(replicate 32 x)[0 := y] = y # replicate 31 x" for x y :: 'a by (simp add: numeral_eq_Suc)
  have "first_index (\<lambda>s. s = (5::int)) (replicate 32 kEipInvalidSocket) = None" by (simp add: first_index_None)
  moreover have "first_index (\<lambda>s. s = kEipInvalidSocket) (replicate 32 kEipInvalidSocket) = Some 0" by (simp add: numeral_eq_Suc)
  moreover have "SocketTimerArrayGetEmptySocketTimer (replicate 32 initial_timer) = Some 0"
    by (simp add: SocketTimerArrayGetEmptySocketTimer_def SocketTimerArrayGetSocketTimer_def initial_timer_def numeral_eq_Suc)
  ultimately show "data_store robot_session = data_store robot_running" "g_first_object robot_session = g_first_object robot_running"
  "g_registered_sessions robot_session = 5 # replicate 31 kEipInvalidSocket" "info_items_ready robot_session"
    by (simp_all add: robot_device_def plain_device_simps robot_session_def register_session_def GetFreeSessionIndex_def set_session_def Let_def 32)
      (use plain_device_simps(6) in \<open>simp add: info_items_ready_def\<close>)
qed

theorem register_over_tcp_witness:
  "\<exists>m' st' m2' st2'.
    HandleReceivedExplictTcpData (device_env) 5 (rr_frame 1 0 [1, 2, 3, 4, 5, 6, 7, 8] 0 10
        (register_body kSetAttributeSingle 4 (int_bytes 0x1234)))
      (of_nat (length (rr_frame 1 0 [1, 2, 3, 4, 5, 6, 7, 8] 0 10 (register_body kSetAttributeSingle 4 (int_bytes 0x1234)))))
      zero_sockaddr (InitializeENIPMessage zero_message) robot_session = Some (kEipStatusOkSend, 0, m', st') \<and>
    sent_octets m' = rr_frame 1 0 [1, 2, 3, 4, 5, 6, 7, 8] 0 0 [0x90, 0, 0, 0] \<and>
    HandleReceivedExplictTcpData (device_env) 5 (rr_frame 1 0 [8, 7, 6, 5, 4, 3, 2, 1] 0 10 (register_body kGetAttributeSingle 4 []))
      (of_nat (length (rr_frame 1 0 [8, 7, 6, 5, 4, 3, 2, 1] 0 10 (register_body kGetAttributeSingle 4 []))))
      zero_sockaddr (InitializeENIPMessage zero_message) st' = Some (kEipStatusOkSend, 0, m2', st2') \<and>
    sent_octets m2' = rr_frame 1 0 [8, 7, 6, 5, 4, 3, 2, 1] 0 0 ([0x8E, 0, 0, 0] @ int_bytes (if (4::nat) = 4 then 0x1234 else register_value 4 robot_session)) \<and>
    robot_serving st2' \<and> session_open 1 st2' \<and> info_items_ready st2'"
proof -
  have serving: "robot_serving robot_session"
    using robot_running_serving robot_session_simps(1,2) robot_serving_cong [of robot_session robot_running] by simp
  have "session_open 1 robot_session"
    by (simp add: session_open_def CheckRegisteredSessions_def robot_session_simps)
  then show ?thesis by (rule register_over_tcp [OF serving _ robot_session_simps(4) device_quiet]) simp_all
qed

end
