(* ===== verification/ConnectedRequests.thy ===== *)
theory ConnectedRequests
  imports TcpRequests
begin

text \<open>
  Requests over an explicit connection (\<^verbatim>\<open>NotifyConnectedCommonPacketFormat\<close>): a new sequence number is
  executed and its reply stored, a repeated one gets the stored reply.
\<close>

subsection \<open>Connected messages\<close>

text \<open>The packet of a SendUnitData frame: connection, sequence number and request.\<close>

definition unit_packet :: "CipUdint \<Rightarrow> CipUint \<Rightarrow> CipOctet list \<Rightarrow> CipOctet list" where
  "unit_packet cid seq body = int_bytes 2 @ int_bytes kCipItemIdConnectionAddress @ int_bytes 4 @ dint_bytes cid @
     int_bytes kCipItemIdConnectedDataItem @ int_bytes (of_nat (2 + length body)) @ int_bytes seq @ body"

abbreviation unit_frame :: "CipSessionHandle \<Rightarrow> CipUdint \<Rightarrow> CipOctet list \<Rightarrow> CipUdint \<Rightarrow> CipUint \<Rightarrow> CipOctet list \<Rightarrow> CipOctet list" where
  "unit_frame session status ctxt interface timeout packet \<equiv> frame_bytes kEncapsulationCommandSendUnitData session status ctxt 0
     (dint_bytes interface @ int_bytes timeout @ packet)"

text \<open>The packet structure after the packet was parsed, and with the sequence number of the data item.\<close>

definition ud_packet :: "CipUdint \<Rightarrow> CipUint \<Rightarrow> CipOctet list \<Rightarrow> CipCommonPacketFormatData \<Rightarrow> CipCommonPacketFormatData" where
  "ud_packet cid seq body q = set_info_type 0 0 (set_info_type 1 0 (set_info_type 1 0 (set_info_type 0 0 q)
      \<lparr>item_count := 2, address_item := (address_item q)\<lparr>address_type_id := kCipItemIdConnectionAddress, address_length := 4,
         address_data := (address_data (address_item q))\<lparr>connection_identifier := cid\<rparr>\<rparr>,
       data_item := \<lparr>data_type_id = kCipItemIdConnectedDataItem, data_item_length = of_nat (2 + length body),
         data_item_data = int_bytes seq @ body\<rparr>\<rparr>))"

lemma parse_unit_packet:
  assumes "length body \<le> 65000"
  shows "CreateCommonPacketFormatStructure (unit_packet cid seq body) (of_nat (length (unit_packet cid seq body))) q =
    Some (kEipStatusOk, ud_packet cid seq body q)"
proof -
  let ?p = "zero_packet\<lparr>address_item := \<lparr>address_type_id = kCipItemIdConnectionAddress, address_length = 4,
     address_data = \<lparr>connection_identifier = cid, sequence_number = 0\<rparr>\<rparr>\<rparr>"
  have a: "known_address ?p" "address_bytes ?p = int_bytes kCipItemIdConnectionAddress @ int_bytes 4 @ dint_bytes cid"
    by (simp_all add: known_address_def address_bytes_def)
  show ?thesis
    using parse_two_items [OF a(1), of "int_bytes seq @ body" kCipItemIdConnectedDataItem q] assms
    by (simp add: a(2) unit_packet_def ud_packet_def received_address_def)
qed

lemma ud_packet_simps [simp]:
  "item_count (ud_packet cid seq body q) = 2"
  "address_type_id (address_item (ud_packet cid seq body q)) = kCipItemIdConnectionAddress"
  "connection_identifier (address_data (address_item (ud_packet cid seq body q))) = cid"
  "data_item (ud_packet cid seq body q) = \<lparr>data_type_id = kCipItemIdConnectedDataItem, data_item_length = of_nat (2 + length body),
     data_item_data = int_bytes seq @ body\<rparr>"
  "address_info_item (ud_packet cid seq body q) = address_info_item (rr_packet body q)"
  by (simp_all add: ud_packet_def rr_packet_def set_info_type_def)

text \<open>The packet from which a reply on the connection is assembled.\<close>

definition ud_reply_packet :: "CipUdint \<Rightarrow> CipUint \<Rightarrow> CipCommonPacketFormatData \<Rightarrow> CipCommonPacketFormatData" where
  "ud_reply_packet pid seq p = p\<lparr>address_item := (address_item p)\<lparr>address_data := \<lparr>connection_identifier = pid, sequence_number = ucast seq\<rparr>\<rparr>\<rparr>"


lemma GetConnectedObject_cong:
  assumes "connection_list st' = connection_list st"
    and "\<And>x. conn_state (connections st' ! x) = conn_state (connections st ! x) \<and>
      cip_consumed_connection_id (connections st' ! x) = cip_consumed_connection_id (connections st ! x)"
  shows "GetConnectedObject cid st' = GetConnectedObject cid st"
proof -
  have "(\<lambda>d. ConnectionObjectGetState (connections st' ! d) = kConnectionObjectStateEstablished \<and>
       cid = ConnectionObjectGetCipConsumedConnectionID (connections st' ! d)) =
     (\<lambda>d. ConnectionObjectGetState (connections st ! d) = kConnectionObjectStateEstablished \<and>
       cid = ConnectionObjectGetCipConsumedConnectionID (connections st ! d))"
    using assms(2) by (intro ext) (simp add: ConnectionObjectGetState_def ConnectionObjectGetCipConsumedConnectionID_def)
  moreover have "node_object i st' = node_object i st" for i using assms(1) by (simp add: node_object_def)
  ultimately show ?thesis
    unfolding GetConnectedObject_def find_connection_def list_head_def assms(1) by (simp only:)
qed

text \<open>The watchdog value an explicit connection gets with each message.\<close>

definition watchdog :: "CipConnectionObject \<Rightarrow> CipUlint" where
  "watchdog co = (case ConnectionObjectCalculateRegularInactivityWatchdogTimerValue co of Some t \<Rightarrow> t | None \<Rightarrow> 0)"

lemma reset_watchdog:
  "unat (connection_timeout_multiplier co) < 62 \<Longrightarrow>
     ConnectionObjectResetInactivityWatchdogTimerValue co = Some (co\<lparr>inactivity_watchdog_timer := watchdog co\<rparr>)"
  by (simp add: ConnectionObjectResetInactivityWatchdogTimerValue_def ConnectionObjectCalculateRegularInactivityWatchdogTimerValue_def watchdog_def Let_def)

lemma watchdog_same [simp]:
  "watchdog (co\<lparr>inactivity_watchdog_timer := t\<rparr>) = watchdog co" "watchdog (co\<lparr>sequence_count_consuming := s\<rparr>) = watchdog co"
  by (simp_all add: watchdog_def ConnectionObjectCalculateRegularInactivityWatchdogTimerValue_def)

text \<open>The state after the frame was parsed and the watchdog of its connection set.\<close>

definition unit_state :: "sockaddr_in \<Rightarrow> nat \<Rightarrow> CipUdint \<Rightarrow> CipUint \<Rightarrow> CipOctet list \<Rightarrow> 'e encap_state_scheme \<Rightarrow> 'e encap_state_scheme" where
  "unit_state a c cid seq body st = st\<lparr>originator_sockaddr := a,
     connections := (connections st)[c := (connections st ! c)\<lparr>inactivity_watchdog_timer := watchdog (connections st ! c)\<rparr>],
     g_common_packet_format_data_item := ud_packet cid seq body (g_common_packet_format_data_item st)\<rparr>"

lemma unit_frame_handled:
  assumes "session_open h st" and "length ctxt = 8" and "length body \<le> 60000" and "GetConnectedObject cid st = Some (Some c)"
    and "c < length (connections st)" and "unat (connection_timeout_multiplier (connections st ! c)) < 62"
    and "frame = unit_frame h status ctxt interface timeout (unit_packet cid seq body)"
  shows "HandleReceivedExplictTcpData env sock frame (of_nat (length frame)) a m st = do {
    (status, m, st) \<leftarrow> handle_connected env (session_data kEncapsulationCommandSendUnitData h ctxt frame (unit_packet cid seq body)) c m
      (unit_state a c cid seq body st);
    Some (status, 0, m, st) }"
proof -
  let ?d = "session_data kEncapsulationCommandSendUnitData h ctxt frame (unit_packet cid seq body)"
  let ?q = "g_common_packet_format_data_item st"
  let ?st = "st\<lparr>originator_sockaddr := a, g_common_packet_format_data_item := ud_packet cid seq body ?q\<rparr>"
  have len: "length (unit_packet cid seq body) < 65536" "length (unit_packet cid seq body) \<le> 65000"
    using assms(3) by (simp_all add: unit_packet_def)
  then have "(ucast (encap_data_length ?d) :: size_t) = of_nat (length (unit_packet cid seq body))" by (simp add: word_unat_eq_iff)
  then have parse: "CreateCommonPacketFormatStructure (unit_packet cid seq body) (ucast (encap_data_length ?d)) ?q = Some (kEipStatusOk, ud_packet cid seq body ?q)"
    using parse_unit_packet [of body cid seq ?q] assms(3) by simp
  have found: "GetConnectedObject cid ?st = Some (Some c)" using GetConnectedObject_cong [of ?st st cid] assms(4) by simp
  have "update_connection c ConnectionObjectResetInactivityWatchdogTimerValue ?st = Some (unit_state a c cid seq body st)"
    using update_connection_less [of c ?st] assms(5) reset_watchdog [OF assms(6)] by (simp add: unit_state_def)
  then have "NotifyConnectedCommonPacketFormat env ?d m (st\<lparr>originator_sockaddr := a\<rparr>) = handle_connected env ?d c m (unit_state a c cid seq body st)"
    using parse found by (simp add: NotifyConnectedCommonPacketFormat_def Let_def)
  then show ?thesis
    using session_frame(2) [OF assms(1,2) len(2) assms(7)] by simp
qed


lemma sequence_in_packet:
  "on_packet (\<lambda>p. p\<lparr>address_item := (address_item p)\<lparr>address_data := (address_data (address_item p))\<lparr>sequence_number := ucast seq\<rparr>\<rparr>\<rparr>)
     (unit_state a c cid seq body st) =
   (unit_state a c cid seq body st)\<lparr>g_common_packet_format_data_item := ud_reply_packet cid seq (ud_packet cid seq body (g_common_packet_format_data_item st))\<rparr>"
proof -
  have "(address_data (address_item (ud_packet cid seq body q)))\<lparr>sequence_number := ucast seq\<rparr> =
      \<lparr>connection_identifier = cid, sequence_number = ucast seq\<rparr>" for q
    using ud_packet_simps(3) [of cid seq body q] by (cases "address_data (address_item (ud_packet cid seq body q))") simp
  then show ?thesis by (simp add: on_packet_def unit_state_def ud_reply_packet_def)
qed





text \<open>
  C40: On a connection that has not received a request yet, a request with sequence number 0 is taken
  for a repeated one: it is not executed by any service, data and objects stay as they are, of the
  connections only the watchdog of this one changes, and the message handed to the socket has the
  length 0, so that no octet is sent.
\<close>

theorem first_sequence_zero_ignored:
  assumes "session_open h st" and "length ctxt = 8" and "length body \<le> 60000"
    and "GetConnectedObject cid st = Some (Some c)" and "c < length (connections st)"
    and "unat (connection_timeout_multiplier (connections st ! c)) < 62"
    and "sequence_count_consuming (connections st ! c) = 0" and "last_reply_sent (connections st ! c) = zero_message"
    and "frame = unit_frame h status ctxt interface timeout (unit_packet cid 0 body)"
  shows "\<exists>m' st'. HandleReceivedExplictTcpData env sock frame (of_nat (length frame)) a m st = Some (kEipStatusOkSend, 0, m', st') \<and>
    used_message_length m' = 0 \<and> sent_octets m' = [] \<and> data_store st' = data_store st \<and> g_first_object st' = g_first_object st \<and>
    connections st' = (connections st)[c := (connections st ! c)\<lparr>inactivity_watchdog_timer := watchdog (connections st ! c)\<rparr>]"
proof -
  let ?co = "connections st ! c" and ?u = "unit_state a c cid 0 body st"
  let ?d = "session_data kEncapsulationCommandSendUnitData h ctxt frame (unit_packet cid 0 body)"
  have conn: "connections ?u ! c = ?co\<lparr>inactivity_watchdog_timer := watchdog ?co\<rparr>" "c < length (connections ?u)"
    "g_common_packet_format_data_item ?u = ud_packet cid 0 body (g_common_packet_format_data_item st)"
    using assms(5) by (simp_all add: unit_state_def)
  let ?h = "header_bytes ?d (- 24) h 0"
  have hl: "length ?h = 24" using header_bytes_length [of ?d] assms(2) by simp
  define m' where "m' = zero_message\<lparr>message_buffer := ?h @ replicate 488 0, current_message_position := OutsideMessage\<rparr>"
  have "repeat_reply ?d (?co\<lparr>inactivity_watchdog_timer := watchdog ?co\<rparr>) = Some m'"
    using assms(2,8) hl by (simp add: repeat_reply_def GenerateEncapsulationHeader_wire Let_def emit_InMessage zero_message_def m'_def)
  then have "handle_connected env ?d c m ?u = Some (kEipStatusOkSend, m',
      ?u\<lparr>g_common_packet_format_data_item := ud_reply_packet cid 0 (ud_packet cid 0 body (g_common_packet_format_data_item st))\<rparr>)"
    using conn assms(7) sequence_in_packet [of 0 a c cid body st] by (simp add: handle_connected_def uint.dec_enc Let_def)
  then have "HandleReceivedExplictTcpData env sock frame (of_nat (length frame)) a m st = Some (kEipStatusOkSend, 0, m',
      ?u\<lparr>g_common_packet_format_data_item := ud_reply_packet cid 0 (ud_packet cid 0 body (g_common_packet_format_data_item st))\<rparr>)"
    using unit_frame_handled [OF assms(1-6,9), of env sock a m] by simp
  then show ?thesis
    by (intro exI conjI) (assumption | simp add: m'_def zero_message_def sent_octets_def unit_state_def)+
qed

subsection \<open>A connection of the robot\<close>

definition robot_connection :: CipConnectionObject where
  "robot_connection = zero_connection\<lparr>conn_state := 3, transport_class_trigger := 0xA3, cip_consumed_connection_id := 0x120001,
     cip_produced_connection_id := 0x340002, associated_encapsulation_session := 1\<rparr>"

definition robot_connected :: encap_state where
  "robot_connected = robot_session\<lparr>connections := robot_connection # replicate 12 zero_connection,
     connection_list := \<lparr>nodes = [\<lparr>previous_node = None, next_node = None, node_data = Some 0\<rparr>] @ replicate 8 null_node,
       first_node = Some 0, last_node = Some 0, allocator = True, deallocator = True\<rparr>\<rparr>"

lemma robot_connected_active: "active_list robot_connected [0]"
proof -
  have "i < 9 \<Longrightarrow> i \<noteq> 0 \<Longrightarrow> nodes (connection_list robot_connected) ! i = null_node" for i
    by (simp add: robot_connected_def nth_Cons')
  then have "dll_wf (connection_list robot_connected) [0]" by (simp add: dll_wf_def robot_connected_def)
  then show ?thesis
    unfolding active_list_def by (intro exI [of _ "[0]"]) (simp add: dll_data_def robot_connected_def)
qed

lemma robot_connected_ok:
  "GetConnectedObject 0x120001 robot_connected = Some (Some 0)" "session_open 1 robot_connected" "info_items_ready robot_connected"
  "robot_serving robot_connected" "connections robot_connected ! 0 = robot_connection" "0 < length (connections robot_connected)"
proof -
  show c: "connections robot_connected ! 0 = robot_connection" "0 < length (connections robot_connected)" by (simp_all add: robot_connected_def)
  show "GetConnectedObject 0x120001 robot_connected = Some (Some 0)"
    unfolding GetConnectedObject_def find_connection_active [OF robot_connected_active]
    by (simp add: c robot_connection_def zero_connection_def ConnectionObjectGetState_def ConnectionObjectGetCipConsumedConnectionID_def)
  show "session_open 1 robot_connected"
    by (simp add: session_open_def CheckRegisteredSessions_def robot_connected_def robot_session_simps)
  show "info_items_ready robot_connected" using robot_session_simps(4) by (simp add: info_items_ready_def robot_connected_def)
  show "robot_serving robot_connected"
    using robot_running_serving robot_session_simps(1,2) robot_serving_cong [of robot_connected robot_running] by (simp add: robot_connected_def)
qed

theorem first_sequence_zero_ignored_witness:
  "\<exists>m' st'. HandleReceivedExplictTcpData device_env 5 (unit_frame 1 0 [1, 2, 3, 4, 5, 6, 7, 8] 0 0 (unit_packet 0x120001 0
        (register_body kGetAttributeSingle 4 [])))
      (of_nat (length (unit_frame 1 0 [1, 2, 3, 4, 5, 6, 7, 8] 0 0 (unit_packet 0x120001 0 (register_body kGetAttributeSingle 4 [])))))
      zero_sockaddr zero_message robot_connected = Some (kEipStatusOkSend, 0, m', st') \<and> used_message_length m' = 0 \<and> sent_octets m' = []"
proof -
  have "length (register_body kGetAttributeSingle 4 []) \<le> 60000" using short_request [of "[]" kGetAttributeSingle "register_path 4"] by simp
  from first_sequence_zero_ignored [OF robot_connected_ok(2) _ this robot_connected_ok(1,6) _ _ _ refl, of "[1, 2, 3, 4, 5, 6, 7, 8]" device_env 5 0 0 0 zero_sockaddr zero_message]
  show ?thesis by (auto simp: robot_connected_ok(5) robot_connection_def zero_connection_def)
qed


end
