(* ===== verification/SessionTable.thy ===== *)
theory SessionTable
  imports Encap "HOL-Library.Multiset"
begin

text \<open>
  The session table of \<^verbatim>\<open>enet_encap/encap.c\<close> over time: which operations leave it and the socket timers
  alone, what registration does, and the states that are reachable from the start of the device.
\<close>

subsection \<open>What leaves the tables alone\<close>

text \<open>The session table and the socket timers.\<close>

definition tables :: "'e stack_state_scheme \<Rightarrow> int list \<times> SocketTimer list" where
  "tables st = (g_registered_sessions st, g_timestamps st)"

named_theorems keeps_tables \<open>operations that leave the session table and the socket timers alone\<close>

lemma update_connection_tables [keeps_tables]: "update_connection d f st = Some st' \<Longrightarrow> tables st' = tables st"
  by (auto simp: update_connection_def tables_def split: bind_splits)

lemma note_event_tables [simp]: "tables (note_event e st) = tables st"
  by (simp add: note_event_def tables_def)

lemma CloseUdpSocket_tables [simp]: "tables (CloseUdpSocket s st) = tables st"
  by (simp add: CloseUdpSocket_def CloseSocket_def tables_def note_event_def)

lemma RemoveFromActiveConnections_tables [keeps_tables]: "RemoveFromActiveConnections d st = Some st' \<Longrightarrow> tables st' = tables st"
  by (auto simp: RemoveFromActiveConnections_def tables_def split: bind_splits option.splits)

lemma CloseConnection_tables [keeps_tables]: "CloseConnection d st = Some st' \<Longrightarrow> tables st' = tables st"
  by (auto simp: CloseConnection_def split: bind_splits if_splits dest!: keeps_tables)

lemma CloseChannels_tables [keeps_tables]:
  "CloseCommunicationChannelsAndRemoveFromActiveConnectionsList d st = Some st' \<Longrightarrow> tables st' = tables st"
  by (auto simp: CloseCommunicationChannelsAndRemoveFromActiveConnectionsList_def Let_def split: bind_splits if_splits dest!: keeps_tables)

lemma transfer_master_tables [keeps_tables]: "transfer_master_connection d st = Some (b, st') \<Longrightarrow> tables st' = tables st"
  by (auto simp: transfer_master_connection_def split: bind_splits option.splits dest!: keeps_tables)

lemma close_io_body_tables:
  "(\<And>ip s s'. close ip s = Some s' \<Longrightarrow> tables s' = tables s) \<Longrightarrow> close_io_body close d st = Some st' \<Longrightarrow> tables st' = tables st"
  by (fastforce simp: close_io_body_def split: bind_splits if_splits dest!: keeps_tables)

lemma close_all_from_tables [keeps_tables]:
  assumes "close_all_from ip ty node st = Some st'"
  shows "tables st' = tables st"
proof (rule close_all_from.raw_induct [OF _ assms, where P = "\<lambda>ip ty node st st'. tables st' = tables st"])
  fix close ip ty node st st'
  assume IH: "\<And>ip ty node st st'. close ip ty node st = Some st' \<Longrightarrow> tables st' = tables st"
    and step: "(case node of None \<Rightarrow> Some st | Some i \<Rightarrow> do {
         n \<leftarrow> array_get (nodes (connection_list st)) i;
         d \<leftarrow> node_data n;
         co \<leftarrow> get_connection d st;
         if ConnectionObjectGetInstanceType co = ty \<and> ip = ucast (cp_instance_id (produced_path co))
         then do {
           f \<leftarrow> connection_close_function co;
           st \<leftarrow> (case f of
               CloseConnectionFn \<Rightarrow> CloseConnection d st
             | CloseIoConnectionFn \<Rightarrow> close_io_body
                 (\<lambda>ip s. close ip kConnectionObjectInstanceTypeIOListenOnly (list_head s) s) d st);
           close ip ty (next_node n) st }
         else close ip ty (next_node n) st }) = Some st'"
  have body: "close_io_body (\<lambda>ip s. close ip kConnectionObjectInstanceTypeIOListenOnly (list_head s) s) d s = Some s' \<Longrightarrow>
      tables s' = tables s" for d s s'
    by (erule close_io_body_tables [rotated]) (erule IH)
  show "tables st' = tables st"
    using step by (auto split: option.splits bind_splits if_splits close_function.splits dest!: IH keeps_tables body)
qed

lemma call_close_tables [keeps_tables]: "call_close_function d st = Some st' \<Longrightarrow> tables st' = tables st"
proof -
  have "CloseIoConnection d st = Some st' \<Longrightarrow> tables st' = tables st" for st'
    unfolding CloseIoConnection_def CloseAllConnectionsForInputWithSameType_def
    by (erule close_io_body_tables [rotated]) (erule keeps_tables)
  then show "call_close_function d st = Some st' \<Longrightarrow> tables st' = tables st"
    by (auto simp: call_close_function_def split: bind_splits close_function.splits dest!: keeps_tables)
qed

lemma close_class3_from_tables:
  assumes "close_class3_from h node st = Some st'"
  shows "tables st' = tables st"
  by (rule close_class3_from.raw_induct [OF _ assms, where P = "\<lambda>h node st st'. tables st' = tables st"])
    (auto split: option.splits bind_splits if_splits dest!: keeps_tables)

lemma CloseClass3_tables [keeps_tables]: "CloseClass3ConnectionBasedOnSession h st = Some st' \<Longrightarrow> tables st' = tables st"
  unfolding CloseClass3ConnectionBasedOnSession_def by (rule close_class3_from_tables)

subsection \<open>The table of sessions and its timers\<close>

definition valid_sockets :: "int list \<Rightarrow> int list" where
  "valid_sockets xs = filter (\<lambda>s. s \<noteq> kEipInvalidSocket) xs"

text \<open>No socket has two sessions, and the sockets with a timer are those with a session.\<close>

definition sessions_ok :: "'e stack_state_scheme \<Rightarrow> bool" where
  "sessions_ok st \<longleftrightarrow> length (g_registered_sessions st) = 32 \<and> length (g_timestamps st) = 32 \<and>
     distinct (valid_sockets (g_registered_sessions st)) \<and>
     mset (valid_sockets (map timer_socket (g_timestamps st))) = mset (valid_sockets (g_registered_sessions st))"

lemma sessions_ok_cong: "tables st' = tables st \<Longrightarrow> sessions_ok st' = sessions_ok st"
  by (simp add: sessions_ok_def tables_def)

lemma mset_valid_set:
  assumes "i < length xs" and "xs ! i = kEipInvalidSocket" and "s \<noteq> kEipInvalidSocket"
  shows "mset (valid_sockets (xs[i := s])) = add_mset s (mset (valid_sockets xs))"
proof -
  have "mset (xs[i := s]) + {#kEipInvalidSocket#} = mset xs + {#s#}"
    using assms(1,2) nth_mem_mset [OF assms(1)] by (simp add: mset_update)
  then have "filter_mset (\<lambda>s. s \<noteq> kEipInvalidSocket) (mset (xs[i := s]) + {#kEipInvalidSocket#}) =
      filter_mset (\<lambda>s. s \<noteq> kEipInvalidSocket) (mset xs + {#s#})" by (simp only:)
  with assms(3) show ?thesis by (simp add: valid_sockets_def)
qed

lemma mset_valid_clear:
  assumes "i < length xs" and "xs ! i = s" and "s \<noteq> kEipInvalidSocket"
  shows "mset (valid_sockets (xs[i := kEipInvalidSocket])) = mset (valid_sockets xs) - {#s#}"
proof -
  have "mset (xs[i := kEipInvalidSocket]) = mset xs - {#s#} + {#kEipInvalidSocket#}"
    using assms(1,2) by (simp add: mset_update)
  with assms(3) show ?thesis by (simp add: valid_sockets_def)
qed

lemma mset_clear_timers:
  "s \<noteq> kEipInvalidSocket \<Longrightarrow> mset (valid_sockets (map timer_socket (clear_timers s ts))) =
     filter_mset (\<lambda>x. x \<noteq> s) (mset (valid_sockets (map timer_socket ts)))"
  by (induction ts) (auto simp: valid_sockets_def clear_timers_def SocketTimerClear_def)

lemma CloseTcpSocket_tables:
  "s \<noteq> kEipInvalidSocket \<Longrightarrow> \<exists>st'. CloseTcpSocket s st = Some st' \<and> tables st' = (g_registered_sessions st, clear_timers s (g_timestamps st))"
  by (auto simp: CloseTcpSocket_def RemoveSocketTimerFromList_def remove_timers_valid tables_def note_event_def CloseSocket_def)

lemma RemoveSocketTimer_tables:
  "s \<noteq> kEipInvalidSocket \<Longrightarrow> \<exists>st'. RemoveSocketTimerFromList s st = Some st' \<and> tables st' = (g_registered_sessions st, clear_timers s (g_timestamps st))"
  by (auto simp: RemoveSocketTimerFromList_def remove_timers_valid tables_def)

lemma clear_timers_twice: "s \<noteq> kEipInvalidSocket \<Longrightarrow> clear_timers s (clear_timers s ts) = clear_timers s ts"
  by (induction ts) (auto simp: clear_timers_def SocketTimerClear_def)

text \<open>The timer of a socket with a session, and its place in the table.\<close>

lemma session_timer:
  assumes "sessions_ok st" and "s \<in> set (g_registered_sessions st)" and "s \<noteq> kEipInvalidSocket"
  shows "\<exists>k < 32. SocketTimerArrayGetSocketTimer (g_timestamps st) s = Some k"
proof -
  have "set (valid_sockets (map timer_socket (g_timestamps st))) = set (valid_sockets (g_registered_sessions st))"
    using assms(1) by (metis sessions_ok_def set_mset_mset)
  then obtain t where "t \<in> set (g_timestamps st)" "s = timer_socket t"
    using assms(2,3) by (auto simp: valid_sockets_def)
  then obtain k where k: "first_index (\<lambda>t. s = timer_socket t) (g_timestamps st) = Some k"
    using first_index_exists [of t "g_timestamps st" "\<lambda>t. s = timer_socket t"] by blast
  show ?thesis
    using k first_index_SomeD [OF k] assms(1) by (auto simp: SocketTimerArrayGetSocketTimer_def sessions_ok_def)
qed

lemma valid_sockets_index:
  assumes "distinct (valid_sockets xs)" and "j < i" and "i < length xs" and "xs ! i \<noteq> kEipInvalidSocket"
  shows "xs ! j \<noteq> xs ! i"
proof
  assume eq: "xs ! j = xs ! i"
  have "valid_sockets (take i xs @ xs ! i # drop (Suc i) xs) = valid_sockets (take i xs) @ xs ! i # valid_sockets (drop (Suc i) xs)"
    using assms(4) by (simp add: valid_sockets_def)
  with assms(1) have "xs ! i \<notin> set (valid_sockets (take i xs))"
    unfolding id_take_nth_drop [OF assms(3), symmetric] by auto
  moreover have "xs ! j \<in> set (take i xs)" using assms(2,3) by (auto simp: in_set_conv_nth intro!: exI [of _ j])
  ultimately show False using eq assms(4) by (auto simp: valid_sockets_def)
qed

lemma session_index:
  assumes "sessions_ok st" and "i < 32" and "g_registered_sessions st ! i = s" and "s \<noteq> kEipInvalidSocket"
  shows "first_index (\<lambda>x. x = s) (g_registered_sessions st) = Some i"
proof -
  have len: "i < length (g_registered_sessions st)" and d: "distinct (valid_sockets (g_registered_sessions st))"
    using assms(1,2) by (simp_all add: sessions_ok_def)
  then have "s \<in> set (g_registered_sessions st)" using assms(3) by auto
  then obtain k where k: "first_index (\<lambda>x. x = s) (g_registered_sessions st) = Some k"
    using first_index_exists [of s "g_registered_sessions st" "\<lambda>x. x = s"] by blast
  note kD = first_index_SomeD [OF k]
  have "\<not> i < k" using kD assms(3) by blast
  moreover have "\<not> k < i" using valid_sockets_index [OF d _ len] kD assms(3,4) by auto
  ultimately show ?thesis using k by simp
qed

lemma no_timer:
  assumes "sessions_ok st" and "s \<noteq> kEipInvalidSocket" and "s \<notin> set (g_registered_sessions st)"
  shows "SocketTimerArrayGetSocketTimer (g_timestamps st) s = None"
proof -
  have "set (valid_sockets (map timer_socket (g_timestamps st))) = set (valid_sockets (g_registered_sessions st))"
    using assms(1) by (metis sessions_ok_def set_mset_mset)
  then show ?thesis using assms(2,3) by (auto simp: SocketTimerArrayGetSocketTimer_def first_index_None valid_sockets_def)
qed

text \<open>Closing the socket of a session and freeing its entry.\<close>

lemma close_entry:
  assumes "sessions_ok st" and "i < 32" and "s = g_registered_sessions st ! i" and "s \<noteq> kEipInvalidSocket"
    and "tables st1 = (g_registered_sessions st, clear_timers s (g_timestamps st))" and "set_session i kEipInvalidSocket st1 = Some st2"
  shows "sessions_ok st2" and "g_registered_sessions st2 = (g_registered_sessions st)[i := kEipInvalidSocket]"
proof -
  have t: "g_registered_sessions st1 = g_registered_sessions st" "g_timestamps st1 = clear_timers s (g_timestamps st)"
    using assms(5) by (simp_all add: tables_def)
  have len: "i < length (g_registered_sessions st)" using assms(1,2) by (simp add: sessions_ok_def)
  have st2: "st2 = st1\<lparr>g_registered_sessions := (g_registered_sessions st)[i := kEipInvalidSocket]\<rparr>"
    using assms(6) len t(1) by (simp add: set_session_def)
  show "g_registered_sessions st2 = (g_registered_sessions st)[i := kEipInvalidSocket]" by (simp add: st2)
  let ?M = "mset (valid_sockets (g_registered_sessions st))"
  have new: "mset (valid_sockets ((g_registered_sessions st)[i := kEipInvalidSocket])) = ?M - {#s#}"
    using mset_valid_clear [OF len] assms(3,4) by simp
  have d: "distinct (valid_sockets (g_registered_sessions st))" using assms(1) by (simp add: sessions_ok_def)
  then have "remove1 s (valid_sockets (g_registered_sessions st)) = filter (\<lambda>x. x \<noteq> s) (valid_sockets (g_registered_sessions st))"
    by (simp add: distinct_remove1_removeAll removeAll_filter_not_eq eq_commute)
  then have "?M - {#s#} = filter_mset (\<lambda>x. x \<noteq> s) ?M"
    by (metis mset_filter mset_remove1)
  moreover have "distinct (valid_sockets ((g_registered_sessions st)[i := kEipInvalidSocket]))"
    using d new by (metis distinct_remove1 mset_remove1 mset_eq_imp_distinct_iff)
  ultimately show "sessions_ok st2"
    using assms(1) new mset_clear_timers [OF assms(4), of "g_timestamps st"] by (simp add: sessions_ok_def st2 t(2) clear_timers_def)
qed

subsection \<open>Registration\<close>

lemma free_timer:
  assumes "sessions_ok st" and "i < 32" and "g_registered_sessions st ! i = kEipInvalidSocket"
  shows "\<exists>t. SocketTimerArrayGetEmptySocketTimer (g_timestamps st) = Some t"
proof -
  have len: "length (valid_sockets (map timer_socket (g_timestamps st))) = length (valid_sockets (g_registered_sessions st))"
    using assms(1) by (metis sessions_ok_def size_mset)
  have "kEipInvalidSocket \<in> set (g_registered_sessions st)" using assms nth_mem [of i "g_registered_sessions st"] by (simp add: sessions_ok_def)
  then have "length (valid_sockets (g_registered_sessions st)) < 32"
    using assms(1) length_filter_less [of kEipInvalidSocket "g_registered_sessions st" "\<lambda>s. s \<noteq> kEipInvalidSocket"]
    by (simp add: valid_sockets_def sessions_ok_def)
  then have "length (valid_sockets (map timer_socket (g_timestamps st))) < length (map timer_socket (g_timestamps st))"
    using assms(1) len by (simp add: sessions_ok_def)
  then have "\<not> (\<forall>t \<in> set (g_timestamps st). timer_socket t \<noteq> kEipInvalidSocket)"
    by (intro notI) (simp add: valid_sockets_def filter_map comp_def)
  then obtain t where "t \<in> set (g_timestamps st)" "timer_socket t = kEipInvalidSocket" by auto
  then show ?thesis
    using first_index_exists [of t "g_timestamps st" "\<lambda>t. kEipInvalidSocket = timer_socket t"]
    by (auto simp: SocketTimerArrayGetEmptySocketTimer_def SocketTimerArrayGetSocketTimer_def)
qed

text \<open>A new session: the first free entry and the first free timer.\<close>

lemma register_new:
  assumes "sessions_ok st" and "sock \<noteq> kEipInvalidSocket" and "sock \<notin> set (g_registered_sessions st)"
    and "GetFreeSessionIndex st = Some i"
  obtains st' where "register_session sock 1 0 st = Some (of_nat i + 1, kEncapsulationProtocolSuccess, st')"
    "g_registered_sessions st' = (g_registered_sessions st)[i := sock]" "sessions_ok st'"
proof -
  have i: "i < length (g_registered_sessions st)" "g_registered_sessions st ! i = kEipInvalidSocket" "i < 32"
    using first_index_SomeD assms(1,4) by (fastforce simp: GetFreeSessionIndex_def sessions_ok_def)+
  obtain t where t: "SocketTimerArrayGetEmptySocketTimer (g_timestamps st) = Some t"
    using free_timer [OF assms(1) i(3,2)] by auto
  then have t': "t < length (g_timestamps st)" "timer_socket (g_timestamps st ! t) = kEipInvalidSocket"
    using first_index_SomeD by (fastforce simp: SocketTimerArrayGetEmptySocketTimer_def SocketTimerArrayGetSocketTimer_def)+
  let ?ts = "(g_timestamps st)[t := SocketTimerSetLastUpdate (g_actual_time st) (SocketTimerSetSocket sock (g_timestamps st ! t))]"
  let ?st = "st\<lparr>g_timestamps := ?ts, g_registered_sessions := (g_registered_sessions st)[i := sock]\<rparr>"
  have "first_index (\<lambda>s. s = sock) (g_registered_sessions st) = None"
    using assms(3) by (auto simp: first_index_None)
  then have "register_session sock 1 0 st = Some (of_nat i + 1, kEncapsulationProtocolSuccess, ?st)"
    using assms(4) t i(1) by (simp add: register_session_def set_session_def Let_def)
  moreover have "map timer_socket ?ts = (map timer_socket (g_timestamps st))[t := sock]"
    by (simp add: map_update SocketTimerSetLastUpdate_def SocketTimerSetSocket_def)
  then have "mset (valid_sockets (map timer_socket ?ts)) = add_mset sock (mset (valid_sockets (map timer_socket (g_timestamps st))))"
    using mset_valid_set [of t "map timer_socket (g_timestamps st)" sock] t' assms(2) by simp
  moreover have new: "mset (valid_sockets ((g_registered_sessions st)[i := sock])) = mset (sock # valid_sockets (g_registered_sessions st))"
    using mset_valid_set [OF i(1,2) assms(2)] by simp
  have "distinct (valid_sockets ((g_registered_sessions st)[i := sock]))"
    using assms(1,3) mset_eq_imp_distinct_iff [OF new] by (auto simp: sessions_ok_def valid_sockets_def)
  ultimately show thesis
    using that [of ?st] assms(1) new by (simp add: sessions_ok_def)
qed

lemma register_other:
  "sock \<in> set (g_registered_sessions st) \<Longrightarrow> \<exists>i < length (g_registered_sessions st). g_registered_sessions st ! i = sock \<and>
     register_session sock 1 0 st = Some (of_nat i + 1, kEncapsulationProtocolInvalidCommand, st)"
  "sock \<notin> set (g_registered_sessions st) \<Longrightarrow> GetFreeSessionIndex st = None \<Longrightarrow>
     register_session sock 1 0 st = Some (0, kEncapsulationProtocolInsufficientMemory, st)"
  "\<not> (v = 1 \<and> flags = 0) \<Longrightarrow> register_session sock v flags st = Some (0, kEncapsulationProtocolUnsupportedProtocol, st)"
proof -
  assume "sock \<in> set (g_registered_sessions st)"
  then obtain i where i: "first_index (\<lambda>s. s = sock) (g_registered_sessions st) = Some i"
    using first_index_exists [of sock _ "\<lambda>s. s = sock"] by auto
  then show "\<exists>i < length (g_registered_sessions st). g_registered_sessions st ! i = sock \<and>
      register_session sock 1 0 st = Some (of_nat i + 1, kEncapsulationProtocolInvalidCommand, st)"
    using first_index_SomeD [OF i] by (intro exI [of _ i]) (simp add: register_session_def)
next
  assume "sock \<notin> set (g_registered_sessions st)" "GetFreeSessionIndex st = None"
  then show "register_session sock 1 0 st = Some (0, kEncapsulationProtocolInsufficientMemory, st)"
    by (auto simp: register_session_def first_index_None split: option.splits dest: first_index_SomeD)
next
  assume "\<not> (v = 1 \<and> flags = 0)"
  moreover have "0 < v \<Longrightarrow> v \<le> 1 \<Longrightarrow> v = 1" by (simp add: word_less_nat_alt word_le_nat_alt word_unat_eq_iff)
  ultimately show "register_session sock v flags st = Some (0, kEncapsulationProtocolUnsupportedProtocol, st)"
    by (auto simp: register_session_def)
qed

lemma register_session_ok:
  assumes "sessions_ok st" and "sock \<noteq> kEipInvalidSocket"
  shows "\<exists>h status st'. register_session sock v flags st = Some (h, status, st') \<and> sessions_ok st'"
proof (cases "v = 1 \<and> flags = 0")
  case True
  show ?thesis
  proof (cases "sock \<in> set (g_registered_sessions st)")
    case known: True
    then show ?thesis using register_other(1) assms(1) True by blast
  next
    case new: False
    then show ?thesis
      using register_other(2) [OF new] register_new [OF assms new] assms(1) True by (cases "GetFreeSessionIndex st") metis+
  qed
next
  case False
  then show ?thesis using register_other(3) assms(1) by blast
qed

subsection \<open>Reachable session tables\<close>

text \<open>An update through the pointer to a socket timer, which may be null.\<close>

definition touch_timer :: "nat option \<Rightarrow> 'e stack_state_scheme \<Rightarrow> 'e stack_state_scheme run" where
  "touch_timer timer st = (case timer of
       None \<Rightarrow> Some st
     | Some i \<Rightarrow> do {
         t \<leftarrow> array_get (g_timestamps st) i;
         ts \<leftarrow> array_set (g_timestamps st) i (SocketTimerSetLastUpdate (g_actual_time st) t);
         Some (st\<lparr>g_timestamps := ts\<rparr>) })"

text \<open>
  What happens to the session table and the timers: registration; the command that ends a session; a socket that is
  closed after an error or after a time of inactivity; a socket whose peer closed it, while a packet is awaited, received
  or dropped (its timer is cleared before); the closing of a session; the time-out of an explicit connection; the
  shut-down, which closes the socket of an entry, and the closing of a socket without session, as the listening one; and
  the time of the last packet, written through a pointer to any timer, also to one that was freed while the packet was
  handled. These are all places where the program writes one of the two arrays after the start; every other step of the
  device leaves both alone.
\<close>

inductive session_step :: "'e stack_state_scheme \<Rightarrow> 'e stack_state_scheme \<Rightarrow> bool" where
  registered: "sock \<noteq> kEipInvalidSocket \<Longrightarrow> register_session sock v flags st = Some (h, status, st') \<Longrightarrow> session_step st st'"
| unregistered: "HandleReceivedUnregisterSessionCommand d m st = Some (status, m', st') \<Longrightarrow> session_step st st'"
| dropped: "sock \<noteq> kEipInvalidSocket \<Longrightarrow> CloseTcpSocket sock st = Some st1 \<Longrightarrow> RemoveSession sock st1 = Some st' \<Longrightarrow> session_step st st'"
| hung_up: "sock \<noteq> kEipInvalidSocket \<Longrightarrow> RemoveSocketTimerFromList sock st = Some st1 \<Longrightarrow> RemoveSession sock st1 = Some st' \<Longrightarrow>
    session_step st st'"
| cut_off: "sock \<noteq> kEipInvalidSocket \<Longrightarrow> RemoveSocketTimerFromList sock st = Some st1 \<Longrightarrow> CloseTcpSocket sock st1 = Some st2 \<Longrightarrow>
    RemoveSession sock st2 = Some st' \<Longrightarrow> session_step st st'"
| closed: "sock \<noteq> kEipInvalidSocket \<Longrightarrow> CloseSession sock st = Some st' \<Longrightarrow> session_step st st'"
| timed_out: "CloseSessionBySessionHandle c st = Some st' \<Longrightarrow> session_step st st'"
| shut_down: "i < 32 \<Longrightarrow> g_registered_sessions st ! i \<noteq> kEipInvalidSocket \<Longrightarrow>
    CloseTcpSocket (g_registered_sessions st ! i) st = Some st1 \<Longrightarrow> set_session i kEipInvalidSocket st1 = Some st' \<Longrightarrow> session_step st st'"
| without_session: "sock \<noteq> kEipInvalidSocket \<Longrightarrow> sock \<notin> set (g_registered_sessions st) \<Longrightarrow> CloseTcpSocket sock st = Some st' \<Longrightarrow>
    session_step st st'"
| touched: "touch_timer timer st = Some st' \<Longrightarrow> session_step st st'"
| elsewhere: "tables st' = tables st \<Longrightarrow> session_step st st'"

inductive session_reachable :: "'e stack_state_scheme \<Rightarrow> bool" where
  started: "g_registered_sessions st = replicate 32 kEipInvalidSocket \<Longrightarrow> length ts = 32 \<Longrightarrow>
    g_timestamps st = SocketTimerArrayInitialize ts \<Longrightarrow> session_reachable st"
| stepped: "session_reachable st \<Longrightarrow> session_step st st' \<Longrightarrow> session_reachable st'"

lemma sessions_ok_length: "sessions_ok st \<Longrightarrow> length (g_registered_sessions st) = 32"
  by (simp add: sessions_ok_def)

text \<open>The closing of the socket of entry \<open>i\<close>, freeing the entry and closing a connection of the session.\<close>

lemma close_entry_step:
  assumes "sessions_ok st" and "i < 32" and "g_registered_sessions st ! i = s" and "s \<noteq> kEipInvalidSocket"
    and "CloseTcpSocket s st = Some st1" and "set_session i kEipInvalidSocket st1 = Some st2" and "tables st' = tables st2"
  shows "sessions_ok st'"
proof -
  have "tables st1 = (g_registered_sessions st, clear_timers s (g_timestamps st))"
    using CloseTcpSocket_tables [OF assms(4), of st] assms(5) by auto
  then show ?thesis
    using close_entry(1) [OF assms(1,2) _ assms(4) _ assms(6)] assms(3,7) sessions_ok_cong by blast
qed

lemma unused_timer: "sessions_ok st \<Longrightarrow> s \<noteq> kEipInvalidSocket \<Longrightarrow> s \<notin> set (g_registered_sessions st) \<Longrightarrow> clear_timers s (g_timestamps st) = g_timestamps st"
proof -
  assume ok: "sessions_ok st" and s: "s \<noteq> kEipInvalidSocket" "s \<notin> set (g_registered_sessions st)"
  have "set (valid_sockets (map timer_socket (g_timestamps st))) = set (valid_sockets (g_registered_sessions st))"
    using ok by (metis sessions_ok_def set_mset_mset)
  then have "\<forall>t \<in> set (g_timestamps st). timer_socket t \<noteq> s" using s by (auto simp: valid_sockets_def)
  then show "clear_timers s (g_timestamps st) = g_timestamps st" by (simp add: clear_timers_def map_idI)
qed

text \<open>A socket without timers any more loses its session.\<close>

lemma session_removed:
  assumes "sessions_ok st" and "s \<noteq> kEipInvalidSocket"
    and "tables st1 = (g_registered_sessions st, clear_timers s (g_timestamps st))" and "RemoveSession s st1 = Some st'"
  shows "sessions_ok st'"
proof -
  have t: "g_registered_sessions st1 = g_registered_sessions st" "g_timestamps st1 = clear_timers s (g_timestamps st)"
    using assms(3) by (simp_all add: tables_def)
  show ?thesis
  proof (cases "first_index (\<lambda>x. x = s) (g_registered_sessions st)")
    case None
    then have "s \<notin> set (g_registered_sessions st)" by (auto simp: first_index_None)
    with None show ?thesis
      using assms(1,4) t unused_timer [OF assms(1,2)] sessions_ok_cong [of st1 st] by (simp add: RemoveSession_def tables_def)
  next
    case (Some i)
    then have i: "i < 32" "g_registered_sessions st ! i = s"
      using first_index_SomeD [OF Some] sessions_ok_length [OF assms(1)] by auto
    obtain st2 where "set_session i kEipInvalidSocket st1 = Some st2" "CloseClass3ConnectionBasedOnSession (of_nat i + 1) st2 = Some st'"
      using assms(4) Some t(1) by (auto simp: RemoveSession_def split: bind_splits)
    then show ?thesis
      using close_entry(1) [OF assms(1) i(1) i(2) [symmetric] assms(2,3)] CloseClass3_tables sessions_ok_cong by metis
  qed
qed

lemma touch_timer_ok: "sessions_ok st \<Longrightarrow> touch_timer timer st = Some st' \<Longrightarrow> sessions_ok st'"
proof (cases timer)
  case (Some i)
  assume "sessions_ok st" and "touch_timer timer st = Some st'"
  moreover have "map timer_socket ((g_timestamps st)[i := SocketTimerSetLastUpdate a (g_timestamps st ! i)]) = map timer_socket (g_timestamps st)" for a
    by (cases "i < length (g_timestamps st)") (simp_all add: map_update SocketTimerSetLastUpdate_def list_update_same_conv list_update_beyond)
  ultimately show ?thesis
    using Some by (auto simp: touch_timer_def sessions_ok_def array_get_def array_set_def split: if_splits bind_splits)
qed (simp add: touch_timer_def)

lemma session_step_ok:
  assumes "sessions_ok st" and "session_step st st'"
  shows "sessions_ok st'"
  using assms(2)
proof cases
  case (registered sock v flags h status)
  then show ?thesis using register_session_ok [OF assms(1), of sock v flags] by auto
next
  case (unregistered d m status m')
  show ?thesis
  proof (cases "CheckRegisteredSessions (encap_session_handle d) st = Some kSessionStatusValid")
    case True
    let ?i = "unat (encap_session_handle d - 1)"
    have i: "?i < 32" "g_registered_sessions st ! ?i \<noteq> kEipInvalidSocket"
      using True sessions_ok_length [OF assms(1)] by (auto simp: CheckRegisteredSessions_def array_get_def split: if_splits)
    obtain st1 st2 where "CloseTcpSocket (g_registered_sessions st ! ?i) st = Some st1" "set_session ?i kEipInvalidSocket st1 = Some st2"
        "CloseClass3ConnectionBasedOnSession (encap_session_handle d) st2 = Some st'"
      using unregistered True i sessions_ok_length [OF assms(1)]
      by (auto simp: HandleReceivedUnregisterSessionCommand_def Let_def split: bind_splits)
    then show ?thesis using close_entry_step [OF assms(1) i(1) refl i(2)] CloseClass3_tables by blast
  next
    case False
    then show ?thesis
      using unregistered assms(1)
      by (auto simp: HandleReceivedUnregisterSessionCommand_def split: bind_splits if_splits)
  qed
next
  case (dropped sock st1)
  then show ?thesis using session_removed [OF assms(1) dropped(1)] CloseTcpSocket_tables [OF dropped(1), of st] by auto
next
  case (hung_up sock st1)
  then show ?thesis using session_removed [OF assms(1) hung_up(1)] RemoveSocketTimer_tables [OF hung_up(1), of st] by auto
next
  case (cut_off sock st1 st2)
  have "tables st2 = (g_registered_sessions st, clear_timers sock (g_timestamps st))"
    using CloseTcpSocket_tables [OF cut_off(1), of st1] RemoveSocketTimer_tables [OF cut_off(1), of st] cut_off(2,3)
    by (auto simp: tables_def clear_timers_twice [OF cut_off(1)])
  then show ?thesis using session_removed [OF assms(1) cut_off(1) _ cut_off(4)] by blast
next
  case (closed sock)
  show ?thesis
  proof (cases "first_index (\<lambda>x. x = sock) (g_registered_sessions st)")
    case None
    then show ?thesis using closed assms(1) by (simp add: CloseSession_def)
  next
    case (Some i)
    then have i: "i < 32" "g_registered_sessions st ! i = sock"
      using first_index_SomeD [OF Some] sessions_ok_length [OF assms(1)] by auto
    obtain st1 st2 where "CloseTcpSocket sock st = Some st1" "set_session i kEipInvalidSocket st1 = Some st2"
        "CloseClass3ConnectionBasedOnSession (of_nat i + 1) st2 = Some st'"
      using closed(2) Some by (auto simp: CloseSession_def split: bind_splits)
    then show ?thesis using close_entry_step [OF assms(1) i closed(1)] CloseClass3_tables by blast
  qed
next
  case (timed_out c)
  then obtain co i st1 where i: "i < 32" "CloseTcpSocket (g_registered_sessions st ! i) st = Some st1"
      "set_session i kEipInvalidSocket st1 = Some st'"
    using sessions_ok_length [OF assms(1)]
    by (auto simp: CloseSessionBySessionHandle_def Let_def array_get_def split: bind_splits if_splits)
  show ?thesis
  proof (cases "g_registered_sessions st ! i = kEipInvalidSocket")
    case True
    then have "\<not> (\<exists>t \<in> set (g_timestamps st). timer_socket t = kEipInvalidSocket)"
      using i(2) CloseTcpSocket_hangs [of st] by auto
    moreover obtain t where "SocketTimerArrayGetEmptySocketTimer (g_timestamps st) = Some t"
      using free_timer [OF assms(1) i(1) True] by auto
    then have "\<exists>t \<in> set (g_timestamps st). timer_socket t = kEipInvalidSocket"
      using first_index_SomeD by (fastforce simp: SocketTimerArrayGetEmptySocketTimer_def SocketTimerArrayGetSocketTimer_def)
    ultimately show ?thesis by blast
  next
    case False
    then show ?thesis using close_entry_step [OF assms(1) i(1) refl False i(2,3)] by blast
  qed
next
  case (shut_down i st1)
  then show ?thesis using close_entry_step [OF assms(1) shut_down(1) refl shut_down(2-4) refl] by blast
next
  case (without_session sock)
  then have "tables st' = tables st"
    using CloseTcpSocket_tables [OF without_session(1), of st] unused_timer [OF assms(1) without_session(1,2)]
    by (auto simp: tables_def)
  then show ?thesis using assms(1) sessions_ok_cong by blast
next
  case (touched timer)
  then show ?thesis using touch_timer_ok [OF assms(1)] by blast
next
  case elsewhere
  then show ?thesis using assms(1) sessions_ok_cong by blast
qed

lemma reachable_ok: "session_reachable st \<Longrightarrow> sessions_ok st"
proof (induction rule: session_reachable.induct)
  case (started st ts)
  have "valid_sockets (map timer_socket (SocketTimerArrayInitialize ts)) = []"
    by (auto simp: valid_sockets_def SocketTimerArrayInitialize_def SocketTimerClear_def filter_empty_conv)
  with started show ?case
    by (simp add: sessions_ok_def valid_sockets_def SocketTimerArrayInitialize_def)
next
  case (stepped st st')
  then show ?case using session_step_ok by blast
qed

text \<open>
  C5: In every state that is reached from empty tables by the steps above, in any order and number, the table has 32
  entries, no two sessions share a socket, the sockets with a timer are exactly the sockets with a session, each with
  one timer, and a registration request on any socket returns: while there is a free session there is a free timer, so
  the pointer to it is not null. The late write of a timer that was freed meanwhile changes none of this.
\<close>

theorem session_table_invariant:
  assumes "session_reachable st"
  shows "length (g_registered_sessions st) = 32 \<and> distinct (valid_sockets (g_registered_sessions st)) \<and>
    mset (valid_sockets (map timer_socket (g_timestamps st))) = mset (valid_sockets (g_registered_sessions st)) \<and>
    (sock \<noteq> kEipInvalidSocket \<longrightarrow> (\<exists>h status st'. register_session sock v flags st = Some (h, status, st')))"
  using reachable_ok [OF assms] register_session_ok [OF reachable_ok [OF assms], of sock v flags]
  by (auto simp: sessions_ok_def)

lemma handle_index: "i < 32 \<Longrightarrow> unat (of_nat i + 1 :: CipSessionHandle) = Suc i"
proof -
  assume "i < 32"
  then have "unat (of_nat (Suc i) :: CipSessionHandle) = Suc i" by (intro unat_of_nat_small) simp
  then show ?thesis by (simp add: add.commute)
qed

lemma handle_valid: "i < 32 \<Longrightarrow> length (g_registered_sessions st) = 32 \<Longrightarrow> CheckRegisteredSessions (of_nat i + 1) st =
    Some (if g_registered_sessions st ! i \<noteq> kEipInvalidSocket then kSessionStatusValid else kSessionStatusInvalid)"
  using handle_index [of i] by (simp add: CheckRegisteredSessions_def word_less_nat_alt word_le_nat_alt)

text \<open>
  C11: What a RegisterSession request gets in every state the device reaches. A protocol version other
  than 1 or a set option flag: status 0x69 and handle 0. A socket that has a session: status 1 and
  the handle of that session. No free entry: status 2 and handle 0. Otherwise success and the
  handle of the first free entry, which was invalid before and is valid afterwards; the other
  entries keep their sessions. In the first three cases nothing changes.
\<close>

theorem register_session_outcome:
  assumes "session_reachable st" and "sock \<noteq> kEipInvalidSocket"
  shows "if \<not> (v = 1 \<and> flags = 0) then register_session sock v flags st = Some (0, kEncapsulationProtocolUnsupportedProtocol, st)
    else if sock \<in> set (g_registered_sessions st) then
      \<exists>i < 32. g_registered_sessions st ! i = sock \<and> register_session sock v flags st = Some (of_nat i + 1, kEncapsulationProtocolInvalidCommand, st)
    else if kEipInvalidSocket \<notin> set (g_registered_sessions st) then
      register_session sock v flags st = Some (0, kEncapsulationProtocolInsufficientMemory, st)
    else \<exists>i st'. i < 32 \<and> (\<forall>j < i. g_registered_sessions st ! j \<noteq> kEipInvalidSocket) \<and>
      register_session sock v flags st = Some (of_nat i + 1, kEncapsulationProtocolSuccess, st') \<and>
      g_registered_sessions st' = (g_registered_sessions st)[i := sock] \<and>
      CheckRegisteredSessions (of_nat i + 1) st = Some kSessionStatusInvalid \<and>
      CheckRegisteredSessions (of_nat i + 1) st' = Some kSessionStatusValid"
proof -
  note ok = reachable_ok [OF assms(1)]
  note len = sessions_ok_length [OF ok]
  have free: "\<exists>i st'. i < 32 \<and> (\<forall>j < i. g_registered_sessions st ! j \<noteq> kEipInvalidSocket) \<and>
      register_session sock 1 0 st = Some (of_nat i + 1, kEncapsulationProtocolSuccess, st') \<and>
      g_registered_sessions st' = (g_registered_sessions st)[i := sock] \<and>
      CheckRegisteredSessions (of_nat i + 1) st = Some kSessionStatusInvalid \<and>
      CheckRegisteredSessions (of_nat i + 1) st' = Some kSessionStatusValid"
    if new: "sock \<notin> set (g_registered_sessions st)" and inv: "kEipInvalidSocket \<in> set (g_registered_sessions st)"
  proof -
    obtain i where i: "GetFreeSessionIndex st = Some i"
      using first_index_exists [OF inv, of "\<lambda>s. s = kEipInvalidSocket"] by (auto simp: GetFreeSessionIndex_def)
    then have first: "i < 32" "g_registered_sessions st ! i = kEipInvalidSocket" "\<forall>j < i. g_registered_sessions st ! j \<noteq> kEipInvalidSocket"
      using first_index_SomeD [of "\<lambda>s. s = kEipInvalidSocket" "g_registered_sessions st" i] len by (auto simp: GetFreeSessionIndex_def)
    obtain st' where "register_session sock 1 0 st = Some (of_nat i + 1, kEncapsulationProtocolSuccess, st')"
        "g_registered_sessions st' = (g_registered_sessions st)[i := sock]"
      using register_new [OF ok assms(2) new i] by blast
    then show ?thesis
      using first len assms(2) handle_valid [of i st] handle_valid [of i st'] by (intro exI [of _ i] exI [of _ st']) simp
  qed
  moreover have "GetFreeSessionIndex st = None" if "kEipInvalidSocket \<notin> set (g_registered_sessions st)"
    using that by (auto simp: GetFreeSessionIndex_def first_index_None)
  ultimately show ?thesis
    using register_other(1,2) [of sock st] register_other(3) [of v flags sock st] len by auto
qed

lemma initial_reachable: "session_reachable initial_stack"
proof -
  have "SocketTimerArrayInitialize (replicate 32 initial_timer) = replicate 32 initial_timer"
    by (simp add: SocketTimerArrayInitialize_def SocketTimerClear_def initial_timer_def)
  then show ?thesis
    by (intro started [of _ "replicate 32 initial_timer"]) (simp_all add: initial_stack_def stack_state.defs cip_state.defs)
qed

theorem session_table_invariant_witness:
  "distinct (valid_sockets (g_registered_sessions initial_stack)) \<and>
    (\<exists>h status st'. register_session 5 1 0 initial_stack = Some (h, status, st'))"
  using session_table_invariant [OF initial_reachable, of 5 1 0] by simp

theorem register_session_outcome_witness:
  "\<exists>i st'. i < 32 \<and> (\<forall>j < i. g_registered_sessions initial_stack ! j \<noteq> kEipInvalidSocket) \<and>
      register_session 5 1 0 initial_stack = Some (of_nat i + 1, kEncapsulationProtocolSuccess, st') \<and>
      g_registered_sessions st' = (g_registered_sessions initial_stack)[i := 5] \<and>
      CheckRegisteredSessions (of_nat i + 1) initial_stack = Some kSessionStatusInvalid \<and>
      CheckRegisteredSessions (of_nat i + 1) st' = Some kSessionStatusValid"
  using register_session_outcome [OF initial_reachable, of 5 1 0]
  by (simp add: initial_stack_def stack_state.defs cip_state.defs)

end
