(* ===== verification/CipStrings.thy ===== *)
theory CipStrings
  imports CipData
begin

text \<open>
  The string types with wide symbols and the international strings: the rest of \<^verbatim>\<open>cipstring.c\<close> and
  \<^verbatim>\<open>cipstringi.c\<close>. Symbols are kept as the octets the C code copies. What \<^verbatim>\<open>calloc\<close> returns for no octets is
  up to the platform, so it is the argument \<open>no_octets\<close>: a null pointer or an empty block.
\<close>

unbundle bit_operations_syntax

subsection \<open>Wide symbols (cipstring.c)\<close>

definition ClearCipStringN :: "CipStringN \<Rightarrow> CipStringN" where
  "ClearCipStringN s = s\<lparr>sn_string := None, sn_length := 0, sn_size := 0\<rparr>"

definition SetCipStringNByData :: "CipStringN \<Rightarrow> CipUint \<Rightarrow> CipUint \<Rightarrow> CipOctet list \<Rightarrow> CipOctet list option \<Rightarrow> CipStringN run" where
  "SetCipStringNByData s str_len symbol_size data no_octets = (
     let s = ClearCipStringN s in
     if str_len \<noteq> 0 then do {
       let s = s\<lparr>sn_length := str_len, sn_size := symbol_size\<rparr>;
       let n = unat str_len * unat symbol_size;
       if n = 0 then (case no_octets of
           None \<Rightarrow> Some (s\<lparr>sn_length := 0, sn_size := 0\<rparr>)
         | Some bs \<Rightarrow> Some (s\<lparr>sn_string := Some bs\<rparr>))
       else do {
         c_assert (n < 2 ^ 31);
         (bs, _) \<leftarrow> read_bytes n data;
         Some (s\<lparr>sn_string := Some bs\<rparr>) } }
     else Some s)"

text \<open>A symbol size of zero divides by zero.\<close>

definition SetCipStringNByCstr :: "CipStringN \<Rightarrow> CipOctet list \<Rightarrow> CipUint \<Rightarrow> CipStringN run" where
  "SetCipStringNByCstr s cstr symbol_size = do {
     c_assert (symbol_size \<noteq> 0);
     if length cstr mod unat symbol_size \<noteq> 0 then Some s
     else SetCipStringNByData s (of_nat (unat (of_nat (length cstr) :: CipUint) div unat symbol_size)) symbol_size (cstr @ [0]) None }"

definition ClearCipString2 :: "CipString2 \<Rightarrow> CipString2" where
  "ClearCipString2 s = (case s2_string s of None \<Rightarrow> s | Some _ \<Rightarrow> s\<lparr>s2_string := None, s2_length := 0\<rparr>)"

definition SetCipString2ByData :: "CipString2 \<Rightarrow> CipUint \<Rightarrow> CipOctet list \<Rightarrow> CipString2 run" where
  "SetCipString2ByData s str_len data = (
     let s = ClearCipString2 s in
     if str_len \<noteq> 0 then do {
       (bs, _) \<leftarrow> read_bytes (2 * unat str_len) data;
       Some (s\<lparr>s2_length := str_len, s2_string := Some bs\<rparr>) }
     else Some s)"

definition SetCipString2ByCstr :: "CipString2 \<Rightarrow> CipOctet list \<Rightarrow> CipString2 run" where
  "SetCipString2ByCstr s cstr = SetCipString2ByData s (of_nat (length cstr) div 2) (cstr @ [0])"

text \<open>
  The buffer after the call and the value returned. The difference of the two lengths is computed as an unsigned
  number of the width of \<^verbatim>\<open>size_t\<close> and then read as a signed one.
\<close>

definition GetCstrFromCipShortString :: "CipShortString \<Rightarrow> CipOctet list \<Rightarrow> size_t \<Rightarrow> (int \<times> CipOctet list) run" where
  "GetCstrFromCipShortString s buf len = (
     if len < 1 then Some (- 1, buf)
     else do {
       let num = ucast (css_length s);
       let rc = (if len \<le> num then sint (num - len - 1) else 0);
       let num = (if len \<le> num then len - 1 else num);
       bs \<leftarrow> (case css_string s of None \<Rightarrow> if num = 0 then Some [] else None
              | Some bs \<Rightarrow> do { (xs, _) \<leftarrow> read_bytes (unat num) bs; Some xs });
       buf \<leftarrow> write_at buf 0 bs;
       buf \<leftarrow> write_at buf (unat num) [0];
       Some (rc, buf) })"

subsection \<open>International strings (cipstringi.c)\<close>

definition string_types :: "CipUint set" where
  "string_types = {ucast kCipShortString, ucast kCipString, ucast kCipString2, ucast kCipStringN}"

text \<open>
  The clearing functions are called with the address of the pointer to the string instead of the pointer, so they
  access the entry beyond its last member: nothing is defined once an entry has a string type.
\<close>

definition CipStringIDelete :: "CipStringI \<Rightarrow> CipStringI run" where
  "CipStringIDelete si = do {
     (es, _) \<leftarrow> read_bytes (unat (number_of_strings si)) (array_of_string_i_structs si);
     c_assert (\<forall>e\<in>set es. char_string_struct e \<notin> string_types);
     Some \<lparr>number_of_strings = 0, array_of_string_i_structs = []\<rparr> }"

fun string_length :: "CipUint \<Rightarrow> stringi_payload \<Rightarrow> nat run" where
  "string_length t p = (
     if t = ucast kCipShortString then (case p of PayloadShortString s \<Rightarrow> Some (unat (css_length s)) | _ \<Rightarrow> None)
     else if t = ucast kCipString then (case p of PayloadString s \<Rightarrow> Some (unat (cs_length s)) | _ \<Rightarrow> None)
     else if t = ucast kCipString2 then (case p of PayloadString2 s \<Rightarrow> Some (unat (s2_length s)) | _ \<Rightarrow> None)
     else if t = ucast kCipStringN then (case p of PayloadStringN s \<Rightarrow> Some (unat (sn_length s)) | _ \<Rightarrow> None)
     else Some 0)"

fun any_empty :: "CipStringIStruct list \<Rightarrow> bool run" where
  "any_empty [] = Some False"
| "any_empty (e # es) = do {
     n \<leftarrow> string_length (char_string_struct e) (si_string e);
     if n = 0 then Some True else any_empty es }"

definition CipStringIsAnyStringEmpty :: "CipStringI \<Rightarrow> bool run" where
  "CipStringIsAnyStringEmpty si = do {
     (es, _) \<leftarrow> read_bytes (unat (number_of_strings si)) (array_of_string_i_structs si);
     any_empty es }"

definition CipStringICreateStringStructure :: "CipStringIStruct \<Rightarrow> CipStringIStruct" where
  "CipStringICreateStringStructure e = (
     if char_string_struct e = ucast kCipShortString then e\<lparr>si_string := PayloadShortString \<lparr>css_length = 0, css_string = None\<rparr>\<rparr>
     else if char_string_struct e = ucast kCipString then e\<lparr>si_string := PayloadString \<lparr>cs_length = 0, cs_string = None\<rparr>\<rparr>
     else if char_string_struct e = ucast kCipString2 then e\<lparr>si_string := PayloadString2 \<lparr>s2_length = 0, s2_string = None\<rparr>\<rparr>
     else if char_string_struct e = ucast kCipStringN
       then e\<lparr>si_string := PayloadStringN \<lparr>sn_size = 0, sn_length = 0, sn_string = None\<rparr>\<rparr>
     else e)"

text \<open>The block of \<open>n\<close> octets allocated for a copy and filled from the source.\<close>

definition copy_block :: "nat \<Rightarrow> CipOctet list option \<Rightarrow> CipOctet list option \<Rightarrow> CipOctet list option run" where
  "copy_block n no_octets src = (if n = 0 then Some no_octets
     else do { bs \<leftarrow> src; (xs, _) \<leftarrow> read_bytes n bs; Some (Some xs) })"

definition CipStringIDeepCopyInternalString :: "CipOctet list option \<Rightarrow> CipStringIStruct \<Rightarrow> CipStringIStruct \<Rightarrow> CipStringIStruct run" where
  "CipStringIDeepCopyInternalString no_octets to from = (
     if char_string_struct to \<notin> string_types then Some to
     else case (si_string to, si_string from) of
       (PayloadShortString t, PayloadShortString s) \<Rightarrow> do {
         bs \<leftarrow> copy_block (unat (css_length s)) no_octets (css_string s);
         Some (to\<lparr>si_string := PayloadShortString (t\<lparr>css_length := css_length s, css_string := bs\<rparr>)\<rparr>) }
     | (PayloadString t, PayloadString s) \<Rightarrow> do {
         bs \<leftarrow> copy_block (unat (cs_length s)) no_octets (cs_string s);
         Some (to\<lparr>si_string := PayloadString (t\<lparr>cs_length := cs_length s, cs_string := bs\<rparr>)\<rparr>) }
     | (PayloadString2 t, PayloadString2 s) \<Rightarrow> do {
         bs \<leftarrow> copy_block (2 * unat (s2_length s)) no_octets (s2_string s);
         Some (to\<lparr>si_string := PayloadString2 (t\<lparr>s2_length := s2_length s, s2_string := bs\<rparr>)\<rparr>) }
     | (PayloadStringN t, PayloadStringN s) \<Rightarrow> do {
         bs \<leftarrow> copy_block (unat (sn_size s) * unat (sn_length s)) no_octets (sn_string s);
         Some (to\<lparr>si_string := PayloadStringN (t\<lparr>sn_length := sn_length s, sn_size := sn_size s, sn_string := bs\<rparr>)\<rparr>) }
     | _ \<Rightarrow> None)"

fun copy_entries :: "CipOctet list option \<Rightarrow> CipStringIStruct list \<Rightarrow> CipStringIStruct list run" where
  "copy_entries no_octets [] = Some []"
| "copy_entries no_octets (e # es) = do {
     let to = CipStringICreateStringStructure (e\<lparr>si_string := NullPayload\<rparr>);
     to \<leftarrow> CipStringIDeepCopyInternalString no_octets to e;
     ts \<leftarrow> copy_entries no_octets es;
     Some (to # ts) }"

definition CipStringICopy :: "CipOctet list option \<Rightarrow> CipStringI \<Rightarrow> CipStringI run" where
  "CipStringICopy no_octets from = do {
     (es, _) \<leftarrow> read_bytes (unat (number_of_strings from)) (array_of_string_i_structs from);
     ts \<leftarrow> copy_entries no_octets es;
     Some \<lparr>number_of_strings = number_of_strings from, array_of_string_i_structs = ts\<rparr> }"

text \<open>
  The strings are taken from the request without a look at its size; the counter of the symbols that are skipped
  is an \<^verbatim>\<open>int\<close>.
\<close>

definition decode_payload :: "CipOctet list option \<Rightarrow> CipUint \<Rightarrow> CipOctet list \<Rightarrow> (stringi_payload \<times> CipOctet list) run" where
  "decode_payload no_octets t r = (
     if t = ucast kCipShortString then do {
       (n, r) \<leftarrow> GetUsintFromMessage r;
       s \<leftarrow> SetCipShortStringByData \<lparr>css_length = 0, css_string = None\<rparr> n r;
       Some (PayloadShortString s, drop (unat n) r) }
     else if t = ucast kCipString then do {
       (n, r) \<leftarrow> GetUintFromMessage r;
       s \<leftarrow> SetCipStringByData \<lparr>cs_length = 0, cs_string = None\<rparr> n r;
       Some (PayloadString s, drop (unat n) r) }
     else if t = ucast kCipString2 then do {
       (n, r) \<leftarrow> GetUintFromMessage r;
       s \<leftarrow> SetCipString2ByData \<lparr>s2_length = 0, s2_string = None\<rparr> n r;
       Some (PayloadString2 s, drop (2 * unat n) r) }
     else if t = ucast kCipStringN then do {
       (symbol_size, r) \<leftarrow> GetUintFromMessage r;
       (n, r) \<leftarrow> GetUintFromMessage r;
       s \<leftarrow> SetCipStringNByData \<lparr>sn_size = 0, sn_length = 0, sn_string = None\<rparr> n symbol_size r no_octets;
       Some (PayloadStringN s, drop (unat n * unat symbol_size) r) }
     else Some (NullPayload, r))"

fun decode_entries :: "CipOctet list option \<Rightarrow> nat \<Rightarrow> CipOctet list \<Rightarrow> (CipStringIStruct list \<times> CipOctet list) run" where
  "decode_entries no_octets 0 r = Some ([], r)"
| "decode_entries no_octets (Suc n) r = do {
     (l1, r) \<leftarrow> GetUsintFromMessage r;
     (l2, r) \<leftarrow> GetUsintFromMessage r;
     (l3, r) \<leftarrow> GetUsintFromMessage r;
     (t, r) \<leftarrow> GetUsintFromMessage r;
     (c, r) \<leftarrow> GetUintFromMessage r;
     (p, r) \<leftarrow> decode_payload no_octets (ucast t) r;
     (es, r) \<leftarrow> decode_entries no_octets n r;
     Some (\<lparr>language_char_1 = l1, language_char_2 = l2, language_char_3 = l3, char_string_struct = ucast t,
        character_set = c, si_string = p\<rparr> # es, r) }"

definition CipStringIDecodeFromMessage :: "CipOctet list option \<Rightarrow> CipMessageRouterRequest \<Rightarrow>
    (CipStringI \<times> CipMessageRouterRequest) run" where
  "CipStringIDecodeFromMessage no_octets req = do {
     (n, r) \<leftarrow> GetUsintFromMessage (req_data req);
     (es, r) \<leftarrow> decode_entries no_octets (unat n) r;
     Some (\<lparr>number_of_strings = n, array_of_string_i_structs = es\<rparr>, req\<lparr>req_data := r\<rparr>) }"

text \<open>The length in octets, cut to 16 bits, and the pointer that one entry contributes to a comparison.\<close>

definition entry_data :: "CipStringIStruct \<Rightarrow> (CipUint \<times> CipOctet list option) run" where
  "entry_data e = (let t = char_string_struct e in
     if t = ucast kCipShortString then (case si_string e of PayloadShortString s \<Rightarrow> Some (ucast (css_length s), css_string s) | _ \<Rightarrow> None)
     else if t = ucast kCipString then (case si_string e of PayloadString s \<Rightarrow> Some (cs_length s, cs_string s) | _ \<Rightarrow> None)
     else if t = ucast kCipString2 then (case si_string e of PayloadString2 s \<Rightarrow> Some (s2_length s * 2, s2_string s) | _ \<Rightarrow> None)
     else if t = ucast kCipStringN then
       (case si_string e of PayloadStringN s \<Rightarrow> Some (sn_length s * sn_size s, sn_string s) | _ \<Rightarrow> None)
     else Some (0, None))"

fun same_data :: "CipUint \<times> CipOctet list option \<Rightarrow> CipUint \<times> CipOctet list option \<Rightarrow> bool run" where
  "same_data (n1, Some b1) (n2, Some b2) = (if n1 = n2 then do {
       (x, _) \<leftarrow> read_bytes (unat n1) b1;
       (y, _) \<leftarrow> read_bytes (unat n1) b2;
       Some (x = y) }
     else Some False)"
| "same_data _ _ = Some False"

fun compare_with :: "CipUint \<times> CipOctet list option \<Rightarrow> CipStringIStruct list \<Rightarrow> bool run" where
  "compare_with d [] = Some False"
| "compare_with d (e # es) = do {
     d2 \<leftarrow> entry_data e;
     same \<leftarrow> same_data d d2;
     if same then Some True else compare_with d es }"

fun compare_entries :: "CipStringIStruct list \<Rightarrow> CipStringIStruct list \<Rightarrow> bool run" where
  "compare_entries [] es2 = Some False"
| "compare_entries (e # es) es2 = do {
     d \<leftarrow> entry_data e;
     found \<leftarrow> compare_with d es2;
     if found then Some True else compare_entries es es2 }"

definition CipStringICompare :: "CipStringI \<Rightarrow> CipStringI \<Rightarrow> bool run" where
  "CipStringICompare s1 s2 = do {
     (es1, _) \<leftarrow> read_bytes (unat (number_of_strings s1)) (array_of_string_i_structs s1);
     (es2, _) \<leftarrow> read_bytes (unat (number_of_strings s2)) (array_of_string_i_structs s2);
     compare_entries es1 es2 }"

subsection \<open>Null-terminated copies\<close>

lemma short_difference:
  assumes "unat (len :: size_t) \<le> unat (num :: size_t)" and "unat num < 256"
  shows "sint (num - len - 1) = int (unat num) - int (unat len) - 1"
proof -
  define i where "i = int (unat num) - int (unat len) - 1"
  have "int (unat len) \<le> int (unat num)" "int (unat num) < 256" "0 \<le> int (unat len)" using assms by linarith+
  then have "- (2 ^ 31) \<le> i \<and> i < 2 ^ 31" unfolding i_def by (simp del: of_nat_unat)
  then have "sint (word_of_int i :: size_t) = i" by (simp add: signed_of_int signed_take_bit_int_eq_self)
  moreover have "num - len - 1 = word_of_int i"
    by (simp add: i_def word_uint_eq_iff uint_word_ariths mod_simps unsigned_of_int take_bit_eq_mod)
  ultimately show ?thesis by (simp only: i_def)
qed

text \<open>
  The copy is the longest prefix that fits with its terminator. The value returned is 0 when the whole string fits,
  and also when the string is one octet longer than the buffer.
\<close>

lemma GetCstrFromCipShortString_result:
  assumes "css_string s = Some bs" and "length bs = unat (css_length s)" and "length buf = unat len" and "0 < len"
  shows "GetCstrFromCipShortString s buf len =
    Some (if length bs < unat len then 0 else int (length bs) - int (unat len) - 1,
      (let k = min (length bs) (unat len - 1) in take k bs @ [0] @ drop (Suc k) buf))"
proof -
  let ?num = "ucast (css_length s) :: size_t"
  have num: "unat ?num = length bs" by (simp add: assms(2))
  have small: "length bs < 256" using unsigned_less [of "css_length s"] by (simp add: assms(2))
  have pos: "0 < unat len" "\<not> len < 1" using assms(4) by (simp_all add: word_gt_0 word_less_nat_alt unat_gt_0)
  have pred: "unat (len - 1) = unat len - 1" using assms(4) by (simp add: unat_minus_one word_gt_0)
  have le: "len \<le> ?num \<longleftrightarrow> unat len \<le> length bs" by (simp add: word_le_nat_alt assms(2))
  show ?thesis
  proof (cases "unat len \<le> length bs")
    case True
    have "sint (?num - len - 1) = int (length bs) - int (unat len) - 1"
      using short_difference [of len ?num, unfolded num, OF True small] .
    moreover have "min (length bs) (unat len - 1) = unat len - 1" "unat len - 1 \<le> length bs" using True by simp_all
    ultimately show ?thesis using True le pos pred assms(3)
      by (simp add: GetCstrFromCipShortString_def assms(1) read_bytes_def write_at_def Let_def)
  next
    case False
    then have "min (length bs) (unat len - 1) = length bs" by simp
    with False le num pos assms(3) show ?thesis
      by (simp add: GetCstrFromCipShortString_def assms(1) read_bytes_def write_at_def Let_def)
  qed
qed

subsection \<open>Encoding and decoding of international strings\<close>

text \<open>The two string types the encoder knows, with the octets they own.\<close>

fun payload_ok :: "CipUint \<Rightarrow> stringi_payload \<Rightarrow> bool" where
  "payload_ok t (PayloadShortString s) \<longleftrightarrow> t = 0xDA \<and> short_string_wf (VShortString s)"
| "payload_ok t (PayloadString s) \<longleftrightarrow> t = 0xD0 \<and> (case cs_string s of None \<Rightarrow> cs_length s = 0
     | Some bs \<Rightarrow> bs \<noteq> [] \<and> length bs = unat (cs_length s))"
| "payload_ok t _ \<longleftrightarrow> False"

definition octets_of :: "CipOctet list option \<Rightarrow> CipOctet list" where
  "octets_of p = (case p of None \<Rightarrow> [] | Some bs \<Rightarrow> bs)"

fun payload_octets :: "stringi_payload \<Rightarrow> CipOctet list" where
  "payload_octets (PayloadShortString s) = sint_bytes (css_length s) @ octets_of (css_string s)"
| "payload_octets (PayloadString s) = int_bytes (cs_length s) @ octets_of (cs_string s)"
| "payload_octets _ = []"

definition entry_octets :: "CipStringIStruct \<Rightarrow> CipOctet list" where
  "entry_octets e = sint_bytes (language_char_1 e) @ sint_bytes (language_char_2 e) @ sint_bytes (language_char_3 e) @
     sint_bytes (ucast (char_string_struct e)) @ int_bytes (character_set e) @ payload_octets (si_string e)"

text \<open>The entries after \<open>u\<close> octets of the message of which the encoder pads none to an even length.\<close>

fun unpadded :: "nat \<Rightarrow> CipStringIStruct list \<Rightarrow> bool" where
  "unpadded u [] \<longleftrightarrow> True"
| "unpadded u (e # es) \<longleftrightarrow> (case si_string e of PayloadString s \<Rightarrow> cs_length s = 0 \<or> even (u + length (entry_octets e)) | _ \<Rightarrow> True) \<and>
     unpadded (u + length (entry_octets e)) es"

lemma odd_used_length: "(of_nat n :: size_t) AND 1 \<noteq> 0 \<longleftrightarrow> odd n"
proof -
  have "bit (of_nat n :: size_t) 0 \<longleftrightarrow> odd n" by (simp add: bit_simps bit_0)
  then show ?thesis by (simp add: and_one_eq bit_0 mod_2_eq_odd)
qed

lemma encode_header: "CipStringIHeaderEncoding e m = emit (sint_bytes (language_char_1 e) @ sint_bytes (language_char_2 e) @
    sint_bytes (language_char_3 e) @ sint_bytes (ucast (char_string_struct e)) @ int_bytes (character_set e)) m"
  by (simp add: CipStringIHeaderEncoding_def wire_simps emit_emit emit_emit_bind)

lemma encode_string:
  assumes "holds_octets m bs" and "length bs + 2 + unat (cs_length s) \<le> PC_OPENER_ETHERNET_BUFFER_SIZE"
    and "payload_ok 0xD0 (PayloadString s)" and "cs_length s = 0 \<or> even (length bs + unat (cs_length s))"
  shows "EncodeCipString (VString s) m = emit (payload_octets (PayloadString s)) m"
proof (cases "cs_string s")
  case None
  with assms(3) show ?thesis by (simp add: wire_simps octets_of_def)
next
  case (Some xs)
  with assms(3) have xs: "length xs = unat (cs_length s)" "cs_length s \<noteq> 0" by auto
  let ?o = "int_bytes (cs_length s) @ xs"
  have len: "length ?o = 2 + unat (cs_length s)" by (simp add: xs uint.enc_length)
  obtain m' where m': "emit ?o m = Some m'" "holds_octets m' (bs @ ?o)"
    using holds_octets_emit_fits [OF assms(1), of ?o] assms(2) len by auto
  have "even (length (bs @ ?o))" using assms(4) xs(2) by (simp add: xs(1) uint.enc_length)
  then have "used_message_length m' AND 1 = 0"
    using odd_used_length [of "length (bs @ ?o)"] m'(2) by (simp add: holds_octets_def)
  with m'(1) Some xs show ?thesis
    by (simp add: wire_simps octets_of_def copy_octets_simps emit_emit_bind)
qed

lemma encode_entry:
  assumes "holds_octets m bs" and "length bs + length (entry_octets e) \<le> PC_OPENER_ETHERNET_BUFFER_SIZE"
    and "payload_ok (char_string_struct e) (si_string e)" and "unpadded (length bs) [e]"
  shows "encode_stringi_entry e m = emit (entry_octets e) m"
proof -
  let ?h = "sint_bytes (language_char_1 e) @ sint_bytes (language_char_2 e) @
    sint_bytes (language_char_3 e) @ sint_bytes (ucast (char_string_struct e)) @ int_bytes (character_set e)"
  have h: "length ?h = 6" by (simp add: uint.enc_length usint.enc_length)
  have split: "entry_octets e = ?h @ payload_octets (si_string e)" by (simp add: entry_octets_def)
  obtain m1 where m1: "emit ?h m = Some m1" "holds_octets m1 (bs @ ?h)"
    using holds_octets_emit_fits [OF assms(1), of ?h] assms(2) split by auto
  have "encode_stringi_entry e m = emit (payload_octets (si_string e)) m1"
  proof (cases "si_string e")
    case (PayloadString s)
    have l: "length (payload_octets (PayloadString s)) = 2 + unat (cs_length s)"
      using assms(3) PayloadString by (auto simp: uint.enc_length octets_of_def split: option.splits)
    have "EncodeCipString (VString s) m1 = emit (payload_octets (PayloadString s)) m1"
    proof (rule encode_string [OF m1(2)])
      show "payload_ok 0xD0 (PayloadString s)" using assms(3) PayloadString by auto
      show "length (bs @ ?h) + 2 + unat (cs_length s) \<le> PC_OPENER_ETHERNET_BUFFER_SIZE"
        using assms(2) l h by (simp add: split PayloadString)
      show "cs_length s = 0 \<or> even (length (bs @ ?h) + unat (cs_length s))"
        using assms(4) l h by (simp add: split PayloadString)
    qed
    with PayloadString assms(3) m1(1) show ?thesis by (simp add: encode_stringi_entry_def encode_header)
  next
    case (PayloadShortString s)
    then have "EncodeCipShortString (VShortString s) m1 = emit (payload_octets (PayloadShortString s)) m1"
      using short_string.encode_wire [of "VShortString s" m1] assms(3) by (simp add: octets_of_def)
    with PayloadShortString assms(3) m1(1) show ?thesis by (simp add: encode_stringi_entry_def encode_header)
  qed (use assms(3) in auto)
  then show ?thesis using m1(1) by (simp only: split emit_append bind.bind_lunit)
qed

lemma encode_entries:
  assumes "holds_octets m bs" and "length bs + length (concat (map entry_octets es)) \<le> PC_OPENER_ETHERNET_BUFFER_SIZE"
    and "\<forall>e\<in>set es. payload_ok (char_string_struct e) (si_string e)" and "unpadded (length bs) es"
  shows "\<exists>m'. encode_stringi_entries es m = Some m' \<and> holds_octets m' (bs @ concat (map entry_octets es))"
  using assms
proof (induction es arbitrary: m bs)
  case Nil
  then show ?case by simp
next
  case (Cons e es)
  obtain m1 where m1: "emit (entry_octets e) m = Some m1" "holds_octets m1 (bs @ entry_octets e)"
    using holds_octets_emit_fits [OF Cons.prems(1), of "entry_octets e"] Cons.prems(2) by auto
  have "encode_stringi_entry e m = Some m1"
    using encode_entry [OF Cons.prems(1)] Cons.prems m1(1) by simp
  moreover have "\<exists>m'. encode_stringi_entries es m1 = Some m' \<and> holds_octets m' ((bs @ entry_octets e) @ concat (map entry_octets es))"
    using Cons.prems by (intro Cons.IH [OF m1(2)]) simp_all
  ultimately show ?case by simp
qed

lemma decode_payload_ok:
  assumes "payload_ok t p"
  shows "decode_payload no_octets t (payload_octets p @ r) = Some (p, r)"
proof (cases p)
  case (PayloadShortString s)
  have "SetCipShortStringByData \<lparr>css_length = 0, css_string = None\<rparr> (css_length s) (octets_of (css_string s) @ r) = Some s"
    using SetCipShortStringByData_wf [of "\<lparr>css_length = 0, css_string = None\<rparr>" s r] assms PayloadShortString
    by (simp add: octets_of_def)
  moreover have "length (octets_of (css_string s)) = unat (css_length s)"
    using assms PayloadShortString by (auto simp: octets_of_def split: option.splits)
  ultimately show ?thesis using assms PayloadShortString by (simp add: decode_payload_def usint.dec_enc)
next
  case (PayloadString s)
  have "SetCipStringByData \<lparr>cs_length = 0, cs_string = None\<rparr> (cs_length s) (octets_of (cs_string s) @ r) = Some s"
    using assms PayloadString
    by (cases s) (auto simp: octets_of_def SetCipStringByData_def ClearCipString_def read_bytes_def Let_def split: option.splits)
  moreover have "length (octets_of (cs_string s)) = unat (cs_length s)"
    using assms PayloadString by (auto simp: octets_of_def split: option.splits)
  ultimately show ?thesis using assms PayloadString by (simp add: decode_payload_def uint.dec_enc)
qed (use assms in auto)

lemma decode_entries_ok:
  "\<forall>e\<in>set es. payload_ok (char_string_struct e) (si_string e) \<Longrightarrow>
     decode_entries no_octets (length es) (concat (map entry_octets es) @ r) = Some (es, r)"
proof (induction es)
  case (Cons e es)
  then have "payload_ok (char_string_struct e) (si_string e)" by simp
  moreover from this have t: "ucast (ucast (char_string_struct e) :: CipUsint) = char_string_struct e"
    by (cases "si_string e") auto
  ultimately show ?case
    using Cons.IH Cons.prems
    by (simp add: entry_octets_def usint.dec_enc uint.dec_enc decode_payload_ok)
qed simp

text \<open>
  An international string of short strings and strings that the encoder does not pad is restored by the decoder
  from the octets the encoder wrote, whatever follows them in the request.
\<close>

theorem stringi_roundtrip:
  assumes "length es < 256" and "\<forall>e\<in>set es. payload_ok (char_string_struct e) (si_string e)"
    and "holds_octets m bs" and "length bs + 1 + length (concat (map entry_octets es)) \<le> PC_OPENER_ETHERNET_BUFFER_SIZE"
    and "unpadded (length bs + 1) es"
  shows "\<exists>m'. EncodeCipStringI (VStringI \<lparr>number_of_strings = of_nat (length es), array_of_string_i_structs = es\<rparr>) m = Some m' \<and>
    CipStringIDecodeFromMessage no_octets (req\<lparr>req_data := drop (length bs) (sent_octets m') @ r\<rparr>) =
      Some (\<lparr>number_of_strings = of_nat (length es), array_of_string_i_structs = es\<rparr>, req\<lparr>req_data := r\<rparr>)"
proof -
  let ?n = "of_nat (length es) :: CipUsint" and ?o = "concat (map entry_octets es)"
  have n: "unat ?n = length es" using assms(1) by (simp add: unat_of_nat take_bit_nat_eq_self)
  obtain m1 where m1: "emit (sint_bytes ?n) m = Some m1" "holds_octets m1 (bs @ sint_bytes ?n)"
    using holds_octets_emit_fits [OF assms(3), of "sint_bytes ?n"] assms(4) by (auto simp: usint.enc_length)
  obtain m' where m': "encode_stringi_entries es m1 = Some m'" "holds_octets m' ((bs @ sint_bytes ?n) @ ?o)"
    using encode_entries [OF m1(2)] assms(2,4,5) by (auto simp: usint.enc_length)
  have "EncodeCipStringI (VStringI \<lparr>number_of_strings = ?n, array_of_string_i_structs = es\<rparr>) m = Some m'"
    using m1(1) m'(1) by (simp add: wire_simps n read_bytes_def)
  moreover have "drop (length bs) (sent_octets m') = sint_bytes ?n @ ?o" using sent_octets_holds [OF m'(2)] by simp
  then have "CipStringIDecodeFromMessage no_octets (req\<lparr>req_data := drop (length bs) (sent_octets m') @ r\<rparr>) =
      Some (\<lparr>number_of_strings = ?n, array_of_string_i_structs = es\<rparr>, req\<lparr>req_data := r\<rparr>)"
    by (simp add: CipStringIDecodeFromMessage_def usint.dec_enc n decode_entries_ok [OF assms(2)])
  ultimately show ?thesis by blast
qed

definition blank_message :: ENIPMessage where
  "blank_message = \<lparr>message_buffer = [], current_message_position = InMessage 0, used_message_length = 0\<rparr>"

definition blank_request :: CipMessageRouterRequest where
  "blank_request = \<lparr>req_service = 0, request_path = CipEpath.make 0 0 0 0, request_data_size = 0, req_data = []\<rparr>"

definition greeting :: CipStringI where
  "greeting = \<lparr>number_of_strings = 2, array_of_string_i_structs =
     [\<lparr>language_char_1 = 0x65, language_char_2 = 0x6E, language_char_3 = 0x67, char_string_struct = 0xD0, character_set = 4,
        si_string = PayloadString \<lparr>cs_length = 3, cs_string = Some [0x42, 0x79, 0x65]\<rparr>\<rparr>,
      \<lparr>language_char_1 = 0x64, language_char_2 = 0x65, language_char_3 = 0x75, char_string_struct = 0xDA, character_set = 4,
        si_string = PayloadShortString \<lparr>css_length = 2, css_string = Some [0x4A, 0x61]\<rparr>\<rparr>]\<rparr>"

theorem stringi_roundtrip_witness:
  "\<exists>m'. EncodeCipStringI (VStringI greeting) (InitializeENIPMessage blank_message) = Some m' \<and>
    CipStringIDecodeFromMessage None (blank_request\<lparr>req_data := sent_octets m' @ [7]\<rparr>) = Some (greeting, blank_request\<lparr>req_data := [7]\<rparr>)"
  using stringi_roundtrip [where es = "array_of_string_i_structs greeting" and m = "InitializeENIPMessage blank_message" and bs = "[]" and
    no_octets = None and req = blank_request and r = "[7]"]
  by (simp add: greeting_def entry_octets_def octets_of_def sint_bytes_def int_bytes_def)

subsection \<open>Copying and comparing\<close>

lemma copy_block_ok: "length (octets_of p) = n \<Longrightarrow> p \<noteq> Some [] \<Longrightarrow> copy_block n None p = Some p"
  by (cases p) (auto simp: copy_block_def octets_of_def read_bytes_def)

lemma copy_entry_ok:
  assumes "payload_ok (char_string_struct e) (si_string e)"
  shows "CipStringIDeepCopyInternalString None (CipStringICreateStringStructure (e\<lparr>si_string := NullPayload\<rparr>)) e = Some e"
proof (cases "si_string e")
  case (PayloadString s)
  then have "copy_block (unat (cs_length s)) None (cs_string s) = Some (cs_string s)"
    using assms by (intro copy_block_ok) (auto simp: octets_of_def split: option.splits)
  with PayloadString assms show ?thesis
    by (simp add: CipStringIDeepCopyInternalString_def CipStringICreateStringStructure_def string_types_def)
next
  case (PayloadShortString s)
  then have "copy_block (unat (css_length s)) None (css_string s) = Some (css_string s)"
    using assms by (intro copy_block_ok) (auto simp: octets_of_def split: option.splits)
  with PayloadShortString assms show ?thesis
    by (simp add: CipStringIDeepCopyInternalString_def CipStringICreateStringStructure_def string_types_def)
qed (use assms in auto)

lemma CipStringICopy_equal:
  assumes "length es = unat n" and "\<forall>e\<in>set es. payload_ok (char_string_struct e) (si_string e)"
  shows "CipStringICopy None \<lparr>number_of_strings = n, array_of_string_i_structs = es\<rparr> =
    Some \<lparr>number_of_strings = n, array_of_string_i_structs = es\<rparr>"
proof -
  have "copy_entries None es = Some es" using assms(2) by (induction es) (simp_all add: copy_entry_ok)
  then show ?thesis by (simp add: CipStringICopy_def read_bytes_def assms(1))
qed

text \<open>
  The texts of the entries decide the comparison; languages, string types and character sets do not. An entry
  without text is equal to none.
\<close>

definition text_of :: "CipStringIStruct \<Rightarrow> CipOctet list option" where
  "text_of e = (case entry_data e of Some (_, p) \<Rightarrow> p | None \<Rightarrow> None)"

definition text_complete :: "CipStringIStruct \<Rightarrow> bool" where
  "text_complete e \<longleftrightarrow> (case entry_data e of Some (n, Some bs) \<Rightarrow> length bs = unat n | Some (n, None) \<Rightarrow> True | None \<Rightarrow> False)"

lemma same_data_complete:
  assumes "entry_data e1 = Some d1" and "entry_data e2 = Some d2" and "text_complete e1" and "text_complete e2"
  shows "same_data d1 d2 = Some (text_of e1 \<noteq> None \<and> text_of e1 = text_of e2)"
proof -
  obtain n1 p1 n2 p2 where d: "d1 = (n1, p1)" "d2 = (n2, p2)" by (cases d1; cases d2)
  show ?thesis
  proof (cases "p1 = None \<or> p2 = None")
    case True
    with d assms(1,2) show ?thesis by (cases p1; cases p2) (simp_all add: text_of_def)
  next
    case False
    then obtain b1 b2 where p: "p1 = Some b1" "p2 = Some b2" by auto
    then have "length b1 = unat n1" "length b2 = unat n2" using d assms by (simp_all add: text_complete_def)
    moreover have "text_of e1 = Some b1" "text_of e2 = Some b2" using d p assms(1,2) by (simp_all add: text_of_def)
    ultimately show ?thesis using d p by (cases "n1 = n2") (auto simp: read_bytes_def word_unat_eq_iff)
  qed
qed

lemma CipStringICompare_texts:
  assumes "length es1 = unat n1" and "length es2 = unat n2" and "\<forall>e\<in>set (es1 @ es2). text_complete e"
  shows "CipStringICompare \<lparr>number_of_strings = n1, array_of_string_i_structs = es1\<rparr>
      \<lparr>number_of_strings = n2, array_of_string_i_structs = es2\<rparr> =
    Some (\<exists>e1\<in>set es1. \<exists>e2\<in>set es2. text_of e1 \<noteq> None \<and> text_of e1 = text_of e2)"
proof -
  have data: "\<exists>d. entry_data e = Some d" if "text_complete e" for e
    using that by (auto simp: text_complete_def split: option.splits)
  have inner: "compare_with d es = Some (\<exists>e2\<in>set es. text_of e1 \<noteq> None \<and> text_of e1 = text_of e2)"
    if "entry_data e1 = Some d" "text_complete e1" "\<forall>e\<in>set es. text_complete e" for e1 d es
    using that(3)
  proof (induction es)
    case (Cons e es)
    then obtain d2 where "entry_data e = Some d2" using data [of e] by auto
    with same_data_complete [OF that(1) this that(2)] Cons show ?case by (cases "text_of e1") auto
  qed simp
  have "compare_entries es es2 = Some (\<exists>e1\<in>set es. \<exists>e2\<in>set es2. text_of e1 \<noteq> None \<and> text_of e1 = text_of e2)"
    if "\<forall>e\<in>set es. text_complete e" for es
    using that
  proof (induction es)
    case (Cons e es)
    then obtain d where "entry_data e = Some d" using data [of e] by auto
    with inner [OF this] Cons assms(3) show ?case by simp
  qed simp
  then show ?thesis using assms by (simp add: CipStringICompare_def read_bytes_def)
qed

end
