(* ===== verification/TcpIpInterface.thy ===== *)
theory TcpIpInterface
  imports ClassLayout
begin

text \<open>
  The TCP/IP interface object (\<^verbatim>\<open>cip/ciptcpipinterface.c\<close>): the checks of host names, domain names and
  network configurations, the decoders of its settable attributes, its encoders, the record of address
  conflicts and the multicast address.

  A C string is a list of octets that ends with a 0; running past the end of the list is a fault.
  Addresses are kept in network byte order, as in the code, on the little-endian target.
  \<^verbatim>\<open>IsIOConnectionActive\<close> only decides about a trace message and is left out.
\<close>

subsection \<open>Byte order of addresses\<close>

definition ntohl :: "CipUdint \<Rightarrow> CipUdint" where
  "ntohl x = push_bit 24 x OR (push_bit 8 x AND 0xFF0000) OR (drop_bit 8 x AND 0xFF00) OR drop_bit 24 x"

definition htonl :: "CipUdint \<Rightarrow> CipUdint" where
  "htonl x = ntohl x"

subsection \<open>Names\<close>

definition isalnum_c :: "CipOctet \<Rightarrow> bool" where
  "isalnum_c b \<longleftrightarrow> 0x61 \<le> b \<and> b \<le> 0x7A \<or> 0x41 \<le> b \<and> b \<le> 0x5A \<or> 0x30 \<le> b \<and> b \<le> 0x39"

abbreviation (input) hyphen :: CipOctet where "hyphen \<equiv> 0x2D"
abbreviation (input) dot :: CipOctet where "dot \<equiv> 0x2E"

text \<open>The loop of \<^verbatim>\<open>IsValidNameLabel\<close>, with the octet in front of the position.\<close>

fun label_from :: "CipOctet \<Rightarrow> CipOctet list \<Rightarrow> bool run" where
  "label_from before [] = None"
| "label_from before (b # bs) = (if b \<noteq> 0 \<and> (isalnum_c b \<or> b = hyphen) then label_from b bs
     else Some (b = 0 \<and> before \<noteq> hyphen))"

fun IsValidNameLabel :: "CipOctet list \<Rightarrow> bool run" where
  "IsValidNameLabel [] = None"
| "IsValidNameLabel (b # bs) = (if \<not> isalnum_c b then Some False else label_from b bs)"

text \<open>\<^verbatim>\<open>strchr\<close> for an octet other than 0: the position in front of the terminator.\<close>

fun strchr :: "CipOctet \<Rightarrow> CipOctet list \<Rightarrow> nat option run" where
  "strchr c [] = None"
| "strchr c (b # bs) = (if b = c then Some (Some 0) else if b = 0 then Some None else map_option (map_option Suc) (strchr c bs))"

lemma strchr_SomeD: "strchr c s = Some (Some i) \<Longrightarrow> i < length s"
  by (induction s arbitrary: i) (auto split: if_splits)

function IsValidDomain :: "CipOctet list \<Rightarrow> bool run" where
  "IsValidDomain s = (case s of [] \<Rightarrow> None | b # _ \<Rightarrow>
     if b = dot then Some False
     else (case strchr dot s of
         None \<Rightarrow> None
       | Some None \<Rightarrow> IsValidNameLabel s
       | Some (Some i) \<Rightarrow> (case IsValidNameLabel (take i s @ [0]) of
           None \<Rightarrow> None
         | Some rc \<Rightarrow> (case drop (Suc i) s of
             [] \<Rightarrow> None
           | c # _ \<Rightarrow> if c \<noteq> 0 then (case IsValidDomain (drop (Suc i) s) of None \<Rightarrow> None | Some v \<Rightarrow> Some (rc \<and> v))
               else Some False))))"
  by pat_completeness auto

termination
  by (relation "measure length") (auto dest: arg_cong [of _ _ length])

declare IsValidDomain.simps [simp del]

subsection \<open>Addresses\<close>

definition IsValidNetmask :: "CipUdint \<Rightarrow> bool" where
  "IsValidNetmask netmask = (let v = NOT (ntohl netmask) + 1 in
     (v \<noteq> 0 \<and> v AND (v - 1) = 0) \<and> 0xFFFFFFFF \<noteq> netmask)"

definition IN_CLASSA :: "CipUdint \<Rightarrow> bool" where "IN_CLASSA a \<longleftrightarrow> a AND 0x80000000 = 0"
definition IN_CLASSB :: "CipUdint \<Rightarrow> bool" where "IN_CLASSB a \<longleftrightarrow> a AND 0xC0000000 = 0x80000000"
definition IN_CLASSC :: "CipUdint \<Rightarrow> bool" where "IN_CLASSC a \<longleftrightarrow> a AND 0xE0000000 = 0xC0000000"

definition IsInClassAbc :: "CipUdint \<Rightarrow> bool" where
  "IsInClassAbc ip_addr = (let ip = ntohl ip_addr in IN_CLASSA ip \<or> IN_CLASSB ip \<or> IN_CLASSC ip)"

definition IsOnLoopbackNetwork :: "CipUdint \<Rightarrow> bool" where
  "IsOnLoopbackNetwork ip_addr \<longleftrightarrow> ntohl ip_addr AND 0xFF000000 = 0x7F000001 AND 0xFF000000"

definition IsNetworkOrBroadcastIp :: "CipUdint \<Rightarrow> CipUdint \<Rightarrow> bool" where
  "IsNetworkOrBroadcastIp ip_addr net_mask \<longleftrightarrow> ip_addr AND net_mask = ip_addr \<or> ip_addr OR NOT net_mask = ip_addr"

record CipTcpIpInterfaceConfiguration =
  if_ip_address :: CipUdint
  if_network_mask :: CipUdint
  if_gateway :: CipUdint
  if_name_server :: CipUdint
  if_name_server_2 :: CipUdint
  if_domain_name :: CipString

definition CipTcpIpIsValidNetworkConfig :: "CipTcpIpInterfaceConfiguration \<Rightarrow> bool" where
  "CipTcpIpIsValidNetworkConfig c = (
     if ntohl (if_ip_address c) = 0 then False
     else if ntohl (if_network_mask c) \<noteq> 0 \<and> \<not> IsValidNetmask (if_network_mask c) then False
     else if \<not> IsInClassAbc (if_ip_address c) \<or> \<not> IsInClassAbc (if_gateway c) \<or> \<not> IsInClassAbc (if_name_server c) \<or>
       \<not> IsInClassAbc (if_name_server_2 c) then False
     else if IsOnLoopbackNetwork (if_ip_address c) \<or> IsOnLoopbackNetwork (if_gateway c) then False
     else if IsNetworkOrBroadcastIp (if_ip_address c) (if_network_mask c) \<or>
       (ntohl (if_gateway c) \<noteq> 0 \<and> IsNetworkOrBroadcastIp (if_gateway c) (if_network_mask c)) then False
     else if ntohl (if_gateway c) \<noteq> 0 \<and> ntohl (if_network_mask c) \<noteq> 0 \<and>
       if_network_mask c AND if_ip_address c \<noteq> if_network_mask c AND if_gateway c then False
     else True)"

subsection \<open>The object\<close>

record MulticastAddressConfiguration =
  alloc_control :: CipUsint
  reserved_shall_be_zero :: CipUsint
  number_of_allocated_multicast_addresses :: CipUint
  mc_starting_multicast_address :: CipUdint

record CipTcpIpObject =
  tcpip_status :: CipDword
  config_capability :: CipDword
  config_control :: CipDword
  physical_link_object :: CipEpath
  interface_configuration :: CipTcpIpInterfaceConfiguration
  hostname :: CipString
  mcast_ttl_value :: CipUsint
  mcast_config :: MulticastAddressConfiguration
  select_acd :: bool
  encapsulation_inactivity_timeout :: CipUint

definition empty_string :: CipString where
  "empty_string = \<lparr>cs_length = 0, cs_string = None\<rparr>"

definition g_tcpip :: CipTcpIpObject where
  "g_tcpip = \<lparr>tcpip_status = 1, config_capability = 0x04 OR 0x10 OR 0x40 OR 0x80, config_control = 2,
     physical_link_object = \<lparr>path_size = 2, class_id = 0xF6, instance_number = 1, attribute_number = 0\<rparr>,
     interface_configuration = \<lparr>if_ip_address = 0, if_network_mask = 0, if_gateway = 0, if_name_server = 0, if_name_server_2 = 0,
       if_domain_name = empty_string\<rparr>,
     hostname = empty_string, mcast_ttl_value = 1,
     mcast_config = \<lparr>alloc_control = 0, reserved_shall_be_zero = 0, number_of_allocated_multicast_addresses = 1, mc_starting_multicast_address = 0\<rparr>,
     select_acd = False, encapsulation_inactivity_timeout = 120\<rparr>"

definition CipTcpIpCalculateMulticastIp :: "CipTcpIpObject \<Rightarrow> CipTcpIpObject" where
  "CipTcpIpCalculateMulticastIp t = (
     let host_id = ntohl (if_ip_address (interface_configuration t)) AND NOT (ntohl (if_network_mask (interface_configuration t)));
         host_id = (host_id - 1) AND 0x3FF
     in t\<lparr>mcast_config := (mcast_config t)\<lparr>mc_starting_multicast_address := htonl (0xEFC00100 + push_bit 5 host_id)\<rparr>\<rparr>)"

text \<open>Freed strings are null pointers; the lengths stay.\<close>

definition ShutdownTcpIpInterface :: "CipTcpIpObject \<Rightarrow> CipTcpIpObject" where
  "ShutdownTcpIpInterface t = (
     let c = interface_configuration t
     in t\<lparr>hostname := (hostname t)\<lparr>cs_string := None\<rparr>,
          interface_configuration := c\<lparr>if_domain_name := (if_domain_name c)\<lparr>cs_string := None\<rparr>\<rparr>\<rparr>)"

subsection \<open>Address conflicts\<close>

record last_conflict =
  conflict_activity :: CipUsint
  remote_mac :: "CipOctet list"
  raw_data :: "CipOctet list"

definition s_tcpip_last_conflict :: last_conflict where
  "s_tcpip_last_conflict = \<lparr>conflict_activity = 0, remote_mac = replicate 6 0, raw_data = replicate 28 0\<rparr>"

definition TcpipSetLastConflictState :: "CipUsint \<Rightarrow> last_conflict \<Rightarrow> last_conflict" where
  "TcpipSetLastConflictState activity l = l\<lparr>conflict_activity := activity\<rparr>"

definition CipTcpIpSetLastAcdActivity :: "CipUsint \<Rightarrow> last_conflict \<Rightarrow> last_conflict" where
  "CipTcpIpSetLastAcdActivity activity l = TcpipSetLastConflictState activity l"

definition CipTcpIpSetLastAcdMac :: "CipOctet list option \<Rightarrow> last_conflict \<Rightarrow> last_conflict run" where
  "CipTcpIpSetLastAcdMac mac l = (case mac of
       None \<Rightarrow> Some l
     | Some bs \<Rightarrow> do { (xs, _) \<leftarrow> read_bytes 6 bs; Some (l\<lparr>remote_mac := xs\<rparr>) })"

definition CipTcpIpSetLastAcdRawData :: "CipOctet list option \<Rightarrow> size_t \<Rightarrow> last_conflict \<Rightarrow> last_conflict run" where
  "CipTcpIpSetLastAcdRawData data len l = (case data of
       None \<Rightarrow> Some (l\<lparr>raw_data := replicate 28 0\<rparr>)
     | Some bs \<Rightarrow> do {
         let n = min (unat len) 28;
         (xs, _) \<leftarrow> read_bytes n bs;
         Some (l\<lparr>raw_data := xs @ replicate (28 - n) 0\<rparr>) })"

subsection \<open>Encoders\<close>

definition EncodeCipTcpIpInterfaceConfiguration :: "CipTcpIpInterfaceConfiguration \<Rightarrow> ENIPMessage \<Rightarrow> ENIPMessage run" where
  "EncodeCipTcpIpInterfaceConfiguration c m = do {
     m \<leftarrow> AddDintToMessage (ntohl (if_ip_address c)) m;
     m \<leftarrow> AddDintToMessage (ntohl (if_network_mask c)) m;
     m \<leftarrow> AddDintToMessage (ntohl (if_gateway c)) m;
     m \<leftarrow> AddDintToMessage (ntohl (if_name_server c)) m;
     m \<leftarrow> AddDintToMessage (ntohl (if_name_server_2 c)) m;
     EncodeCipString (VString (if_domain_name c)) m }"

definition EncodeCipTcpIpMulticastConfiguration :: "CipTcpIpObject \<Rightarrow> ENIPMessage \<Rightarrow> ENIPMessage run" where
  "EncodeCipTcpIpMulticastConfiguration t m = do {
     m \<leftarrow> AddSintToMessage (alloc_control (mcast_config t)) m;
     m \<leftarrow> AddSintToMessage (reserved_shall_be_zero (mcast_config t)) m;
     m \<leftarrow> AddIntToMessage (number_of_allocated_multicast_addresses (mcast_config t)) m;
     AddDintToMessage (ntohl (mc_starting_multicast_address (mcast_config t))) m }"

definition EncodeSafetyNetworkNumber :: "ENIPMessage \<Rightarrow> ENIPMessage run" where
  "EncodeSafetyNetworkNumber m = FillNextNMessageOctetsWithValueAndMoveToNextPosition 0 6 m"

definition EncodeCipLastConflictDetected :: "last_conflict \<Rightarrow> ENIPMessage \<Rightarrow> ENIPMessage run" where
  "EncodeCipLastConflictDetected l m = do {
     m \<leftarrow> emit [conflict_activity l] m;
     m \<leftarrow> emit (remote_mac l) m;
     emit (raw_data l) m }"

subsection \<open>Decoders\<close>

type_synonym tcpip_decoded = "(int \<times> CipTcpIpObject \<times> CipMessageRouterRequest \<times> CipMessageRouterResponse) run"

abbreviation (input) kCipErrorInvalidAttributeValue :: CipUsint where "kCipErrorInvalidAttributeValue \<equiv> 0x09"
abbreviation (input) kTcpipMaxDomainLength :: nat where "kTcpipMaxDomainLength \<equiv> 48"
abbreviation (input) kTcpipMaxHostnameLength :: nat where "kTcpipMaxHostnameLength \<equiv> 64"
abbreviation (input) kTcpipStatusIfaceCfgPend :: CipDword where "kTcpipStatusIfaceCfgPend \<equiv> 0x20"
abbreviation (input) kTcpipStatusAcdStatus :: CipDword where "kTcpipStatusAcdStatus \<equiv> 0x40"
abbreviation (input) kTcpipStatusAcdFault :: CipDword where "kTcpipStatusAcdFault \<equiv> 0x80"
abbreviation (input) kTcpipCfgCtrlStaticIp :: CipDword where "kTcpipCfgCtrlStaticIp \<equiv> 0"
abbreviation (input) kTcpipCfgCtrlMethodMask :: CipDword where "kTcpipCfgCtrlMethodMask \<equiv> 0x0F"
abbreviation (input) kTcpipCfgCtrlDnsEnable :: CipDword where "kTcpipCfgCtrlDnsEnable \<equiv> 0x10"

definition DecodeTcpIpInterfaceConfigurationControl :: "CipTcpIpObject \<Rightarrow> CipMessageRouterRequest \<Rightarrow> CipMessageRouterResponse \<Rightarrow> tcpip_decoded" where
  "DecodeTcpIpInterfaceConfigurationControl t req resp = do {
     (received, r) \<leftarrow> GetDintFromMessage (req_data req);
     let req = req\<lparr>req_data := r\<rparr>;
     if received AND kTcpipCfgCtrlMethodMask \<ge> 3 \<or> received AND NOT kTcpipCfgCtrlMethodMask \<noteq> 0
     then Some (- 1, t, req, resp\<lparr>general_status := kCipErrorInvalidAttributeValue\<rparr>)
     else Some (4, t\<lparr>config_control := received AND (kTcpipCfgCtrlMethodMask OR kTcpipCfgCtrlDnsEnable)\<rparr>, req,
       resp\<lparr>general_status := kCipErrorSuccess\<rparr>) }"

text \<open>A name of at most \<open>len\<close> octets in a zeroed buffer of one octet more.\<close>

definition name_buffer :: "nat \<Rightarrow> CipString \<Rightarrow> CipOctet list run" where
  "name_buffer len s = do {
     bs \<leftarrow> cs_string s;
     let n = min (unat (cs_length s)) len;
     (xs, _) \<leftarrow> read_bytes n bs;
     Some (xs @ replicate (len + 1 - n) 0) }"

definition name_valid :: "nat \<Rightarrow> CipString \<Rightarrow> bool run" where
  "name_valid len s = (if cs_length s > 0 then do { buf \<leftarrow> name_buffer len s; IsValidDomain buf } else Some True)"

definition DecodeCipTcpIpInterfaceConfiguration :: "CipTcpIpObject \<Rightarrow> CipMessageRouterRequest \<Rightarrow> CipMessageRouterResponse \<Rightarrow> tcpip_decoded" where
  "DecodeCipTcpIpInterfaceConfiguration t req resp = do {
     let switch_to_static = (config_control t AND kTcpipCfgCtrlMethodMask \<noteq> kTcpipCfgCtrlStaticIp);
     (ip, r) \<leftarrow> GetUdintFromMessage (req_data req);
     (mask, r) \<leftarrow> GetUdintFromMessage r;
     (gw, r) \<leftarrow> GetUdintFromMessage r;
     (ns, r) \<leftarrow> GetUdintFromMessage r;
     (ns2, r) \<leftarrow> GetUdintFromMessage r;
     (n, r) \<leftarrow> GetUintFromMessage r;
     let req = req\<lparr>req_data := r\<rparr>;
     if unat n > kTcpipMaxDomainLength then Some (- 1, t, req, resp\<lparr>general_status := kCipErrorTooMuchData\<rparr>)
     else do {
       name \<leftarrow> SetCipStringByData empty_string n r;
       let c = \<lparr>if_ip_address = htonl ip, if_network_mask = htonl mask, if_gateway = htonl gw, if_name_server = htonl ns,
         if_name_server_2 = htonl ns2, if_domain_name = name\<rparr>;
       domain_valid \<leftarrow> name_valid kTcpipMaxDomainLength name;
       if \<not> CipTcpIpIsValidNetworkConfig c \<or> \<not> domain_valid
       then Some (- 1, t, req, resp\<lparr>general_status := kCipErrorInvalidAttributeValue\<rparr>)
       else Some (20 + uint ((n + 1) AND NOT 1),
         t\<lparr>config_control := (if switch_to_static then config_control t AND NOT kTcpipCfgCtrlMethodMask OR kTcpipCfgCtrlStaticIp
             else config_control t),
           interface_configuration := c, tcpip_status := tcpip_status t OR kTcpipStatusIfaceCfgPend\<rparr>, req,
         resp\<lparr>general_status := kCipErrorSuccess\<rparr>) } }"

text \<open>The host name is stored, yet the result is - 1 on every branch.\<close>

definition DecodeCipTcpIpInterfaceHostName :: "CipTcpIpObject \<Rightarrow> CipMessageRouterRequest \<Rightarrow> CipMessageRouterResponse \<Rightarrow> tcpip_decoded" where
  "DecodeCipTcpIpInterfaceHostName t req resp = do {
     (n, r) \<leftarrow> GetUintFromMessage (req_data req);
     let req = req\<lparr>req_data := r\<rparr>;
     if unat n > kTcpipMaxHostnameLength then Some (- 1, t, req, resp\<lparr>general_status := kCipErrorTooMuchData\<rparr>)
     else do {
       name \<leftarrow> SetCipStringByData empty_string n r;
       hostname_valid \<leftarrow> name_valid kTcpipMaxHostnameLength name;
       if \<not> hostname_valid then Some (- 1, t, req, resp\<lparr>general_status := kCipErrorInvalidAttributeValue\<rparr>)
       else Some (- 1, t\<lparr>hostname := name, tcpip_status := tcpip_status t OR kTcpipStatusIfaceCfgPend\<rparr>, req,
         resp\<lparr>general_status := kCipErrorSuccess\<rparr>) } }"

text \<open>The call of \<^verbatim>\<open>NvTcpipStore\<close> at the end is output.\<close>

definition DecodeTcpIpSelectAcd :: "CipTcpIpObject \<Rightarrow> CipMessageRouterRequest \<Rightarrow> CipMessageRouterResponse \<Rightarrow> tcpip_decoded" where
  "DecodeTcpIpSelectAcd t req resp = (
     if request_data_size req < 1 then Some (- 1, t, req, resp\<lparr>general_status := kCipErrorNotEnoughData\<rparr>)
     else do {
       (selection, r) \<leftarrow> GetUsintFromMessage (req_data req);
       let req = req\<lparr>req_data := r\<rparr>;
       if selection > 1 then Some (- 1, t, req, resp\<lparr>general_status := kCipErrorInvalidAttributeValue\<rparr>)
       else Some (1, t\<lparr>select_acd := (selection \<noteq> 0), tcpip_status := tcpip_status t AND NOT (kTcpipStatusAcdStatus OR kTcpipStatusAcdFault)\<rparr>,
         req, resp\<lparr>general_status := kCipErrorSuccess\<rparr>) })"

definition DecodeCipTcpIpInterfaceEncapsulationInactivityTimeout :: "CipTcpIpObject \<Rightarrow> CipMessageRouterRequest \<Rightarrow> CipMessageRouterResponse \<Rightarrow>
    tcpip_decoded" where
  "DecodeCipTcpIpInterfaceEncapsulationInactivityTimeout t req resp = do {
     (received, r) \<leftarrow> GetUintFromMessage (req_data req);
     let req = req\<lparr>req_data := r\<rparr>;
     if received > 3600 then Some (- 1, t, req, resp\<lparr>general_status := kCipErrorInvalidAttributeValue\<rparr>)
     else Some (2, t\<lparr>encapsulation_inactivity_timeout := received\<rparr>, req, resp\<lparr>general_status := kCipErrorSuccess\<rparr>) }"


subsection \<open>The class\<close>

definition s_tcpip :: "nat \<Rightarrow> nat" where "s_tcpip attribute = 62000 + attribute"

abbreviation (input) kCipTcpIpInterfaceClassCode :: CipUdint where "kCipTcpIpInterfaceClassCode \<equiv> 0xF5"
abbreviation (input) IFACE_CFG_SET_MODE :: CipByte where "IFACE_CFG_SET_MODE \<equiv> kSetable"
abbreviation (input) EncInterfaceConfiguration :: encode_function where "EncInterfaceConfiguration \<equiv> EncOther 20"
abbreviation (input) EncMulticastConfiguration :: encode_function where "EncMulticastConfiguration \<equiv> EncOther 21"
abbreviation (input) EncSafetyNetworkNumber :: encode_function where "EncSafetyNetworkNumber \<equiv> EncOther 22"
abbreviation (input) EncLastConflictDetected :: encode_function where "EncLastConflictDetected \<equiv> EncOther 23"
abbreviation (input) DecConfigurationControl :: decode_function where "DecConfigurationControl \<equiv> DecOther 20"
abbreviation (input) DecInterfaceConfiguration :: decode_function where "DecInterfaceConfiguration \<equiv> DecOther 21"
abbreviation (input) DecInterfaceHostName :: decode_function where "DecInterfaceHostName \<equiv> DecOther 22"
abbreviation (input) DecSelectAcd :: decode_function where "DecSelectAcd \<equiv> DecOther 23"
abbreviation (input) DecInactivityTimeout :: decode_function where "DecInactivityTimeout \<equiv> DecOther 24"

definition CipTcpIpInterfaceInit :: "'e cip_state_scheme \<Rightarrow> (EipStatus \<times> 'e cip_state_scheme) run" where
  "CipTcpIpInterfaceInit st = do {
     st \<leftarrow> CreateCipClass kCipTcpIpInterfaceClassCode 0 7 2 13 13 3 1 4 None st;
     st \<leftarrow> update_class kCipTcpIpInterfaceClassCode (insert_attributes 1
       [(1, kCipDword, EncCipDword, None, s_tcpip 1, kGetableSingleAndAll),
        (2, kCipDword, EncCipDword, None, s_tcpip 2, kGetableSingleAndAll),
        (3, kCipDword, EncCipDword, Some DecConfigurationControl, s_tcpip 3, kSetAndGetAble OR kNvDataFunc OR IFACE_CFG_SET_MODE),
        (4, kCipEpathType, EncCipEPath, None, s_tcpip 4, kGetableSingleAndAll),
        (5, kCipUdintUdintUdintUdintUdintString, EncInterfaceConfiguration, Some DecInterfaceConfiguration, s_tcpip 5,
          kGetableSingleAndAll OR kNvDataFunc OR IFACE_CFG_SET_MODE),
        (6, kCipString, EncCipString, Some DecInterfaceHostName, s_tcpip 6, kGetableSingleAndAll OR kNvDataFunc OR IFACE_CFG_SET_MODE),
        (7, kCipAny, EncSafetyNetworkNumber, None, s_tcpip 0, kGetableAllDummy),
        (8, kCipUsint, EncCipUsint, None, s_tcpip 8, kGetableSingleAndAll),
        (9, kCipAny, EncMulticastConfiguration, None, s_tcpip 9, kGetableSingleAndAll),
        (10, kCipBool, EncCipBool, Some DecSelectAcd, s_tcpip 10, kGetableSingleAndAll OR kSetable OR kNvDataFunc),
        (11, kCipBool, EncLastConflictDetected, None, s_tcpip 0, kGetableSingleAndAll),
        (12, kCipBool, EncCipBool, None, s_tcpip 0, kGetableAllDummy),
        (13, kCipUint, EncCipUint, Some DecInactivityTimeout, s_tcpip 13, kSetAndGetAble OR kNvDataFunc)]) st;
     st \<leftarrow> update_class kCipTcpIpInterfaceClassCode (insert_services
       [(kGetAttributeSingle, SvcGetAttributeSingle), (kGetAttributeAll, SvcGetAttributeAll), (kSetAttributeSingle, SvcSetAttributeSingle)]) st;
     Some (kEipStatusOk, st) }"

definition GetEncapsulationInactivityTimeout :: "instance_ref \<Rightarrow> 'e cip_state_scheme \<Rightarrow> CipUint run" where
  "GetEncapsulationInactivityTimeout inst st = do {
     slot \<leftarrow> find_attribute inst 13 st;
     i \<leftarrow> slot;
     a \<leftarrow> attribute_at inst i st;
     ref \<leftarrow> attr_data a;
     v \<leftarrow> read_ref ref st;
     get16 v }"

subsection \<open>Byte order and masks\<close>

lemma bit_ntohl: "bit (ntohl x) n \<longleftrightarrow> n < 32 \<and> bit x (8 * (3 - n div 8) + n mod 8)"
proof -
  have masks: "(0xFF0000 :: 32 word) = push_bit 16 (mask 8)" "(0xFF00 :: 32 word) = push_bit 8 (mask 8)"
    by (simp_all add: mask_eq_exp_minus_1 push_bit_eq_mult)
  have b: "bit (ntohl x) n \<longleftrightarrow> (24 \<le> n \<and> n < 32 \<and> bit x (n - 24)) \<or> (16 \<le> n \<and> n < 24 \<and> bit x (n - 8)) \<or>
      (8 \<le> n \<and> n < 16 \<and> bit x (n + 8)) \<or> bit x (n + 24)"
    unfolding ntohl_def masks by (auto simp: bit_simps add.commute)
  have far: "bit x m \<Longrightarrow> m < 32" for m using bit_imp_le_length [of x m] by simp
  consider "n < 8" | "8 \<le> n" "n < 16" | "16 \<le> n" "n < 24" | "24 \<le> n" "n < 32" | "32 \<le> n" by linarith
  then show ?thesis
  proof cases
    case 1 then show ?thesis using b by (simp add: add.commute)
  next
    case 2
    then have "n div 8 = 1" "n mod 8 = n - 8" by presburger+
    moreover have "16 + (n - 8) = n + 8" using 2 by simp
    ultimately show ?thesis using b 2 far [of "n + 24"] by (auto simp: add.commute)
  next
    case 3
    then have "n div 8 = 2" "n mod 8 = n - 16" by presburger+
    moreover have "8 + (n - 16) = n - 8" using 3 by simp
    ultimately show ?thesis using b 3 far [of "n + 24"] by auto
  next
    case 4
    then have "n div 8 = 3" "n mod 8 = n - 24" by presburger+
    then show ?thesis using b 4 far [of "n + 24"] by auto
  next
    case 5 then show ?thesis using b far [of "n + 24"] by auto
  qed
qed

lemma ntohl_twice [simp]: "ntohl (ntohl x) = x"
proof (rule bit_word_eqI)
  fix n :: nat assume "n < LENGTH(32)"
  then have n: "n < 32" by simp
  define m where "m = 8 * (3 - n div 8) + n mod 8"
  have "n div 8 \<le> 3" using n by simp
  then have "m div 8 = 3 - n div 8" "m mod 8 = n mod 8" "m < 32" unfolding m_def by auto
  then have "8 * (3 - m div 8) + m mod 8 = n" using \<open>n div 8 \<le> 3\<close> by simp
  then show "bit (ntohl (ntohl x)) n = bit x n" using n \<open>m < 32\<close> by (simp add: bit_ntohl flip: m_def)
qed

lemma ntohl_eq_iff [simp]: "ntohl x = ntohl y \<longleftrightarrow> x = y"
  by (metis ntohl_twice)

lemma ntohl_bits: "ntohl (x AND y) = ntohl x AND ntohl y" "ntohl (x OR y) = ntohl x OR ntohl y" "ntohl (NOT x) = NOT (ntohl x)"
proof -
  have in_word: "n < 32 \<Longrightarrow> 8 * (3 - n div 8) + n mod 8 < 32" for n :: nat by presburger
  show "ntohl (x AND y) = ntohl x AND ntohl y" "ntohl (x OR y) = ntohl x OR ntohl y" "ntohl (NOT x) = NOT (ntohl x)"
    using in_word by (auto intro!: bit_word_eqI simp: bit_ntohl bit_simps)
qed

lemma ntohl_simps [simp]: "ntohl 0 = 0" "ntohl (- 1) = - 1" "ntohl x = 0 \<longleftrightarrow> x = 0" 
proof -
  show "ntohl 0 = 0" by (simp add: ntohl_def)
  then show "ntohl x = 0 \<longleftrightarrow> x = 0" by (metis ntohl_twice)
  show "ntohl (- 1) = - 1" by (rule bit_word_eqI) (simp add: bit_ntohl)
qed

lemma and_pred_power: "0 < a \<Longrightarrow> a AND (a - 1) = 0 \<longleftrightarrow> (\<exists>k. a = 2 ^ k)" for a :: nat
proof (induction a rule: less_induct)
  case (less a)
  show ?case
  proof (cases "even a")
    case True
    then obtain b where b: "a = 2 * b" by blast
    have div_eq: "(2 * b - Suc 0) div 2 = b - 1" by simp
    have "a AND (a - 1) = 2 * (b AND (b - 1))"
      using less.prems b by (subst and_rec) (simp add: div_eq)
    moreover have "(\<exists>k. a = 2 ^ k) \<longleftrightarrow> (\<exists>k. b = 2 ^ k)"
    proof
      assume "\<exists>k. a = 2 ^ k"
      then obtain k where k: "a = 2 ^ k" by blast
      with True obtain j where "k = Suc j" by (cases k) auto
      with k b show "\<exists>k. b = 2 ^ k" by auto
    next
      assume "\<exists>k. b = 2 ^ k"
      then obtain k where "b = 2 ^ k" by blast
      then show "\<exists>k. a = 2 ^ k" using b by (intro exI [of _ "Suc k"]) simp
    qed
    ultimately show ?thesis using less.IH [of b] less.prems b by simp
  next
    case False
    then obtain b where b: "a = 2 * b + 1" by (elim oddE)
    have "a AND (a - 1) = 2 * b" unfolding b by (subst and_rec) simp
    moreover have "(\<exists>k. a = 2 ^ k) \<longleftrightarrow> a = 1" 
    proof
      assume "\<exists>k. a = 2 ^ k"
      then obtain k where "a = 2 ^ k" by blast
      with False show "a = 1" by (cases k) auto
    qed (intro exI [of _ 0], simp)
    ultimately show ?thesis using b by simp
  qed
qed
subsection \<open>Network masks and hosts\<close>

text \<open>The number of an address in host byte order.\<close>

definition addr :: "CipUdint \<Rightarrow> nat" where "addr a = unat (ntohl a)"

lemma addr_eq_iff [simp]: "addr a = addr b \<longleftrightarrow> a = b" "addr a = 0 \<longleftrightarrow> a = 0" "0 < addr a \<longleftrightarrow> a \<noteq> 0"
  by (simp_all add: addr_def unat_eq_0 unat_gt_0 flip: word_unat_eq_iff)

lemma unat_power32: "k < 32 \<Longrightarrow> unat ((2 :: 32 word) ^ k) = 2 ^ k"
proof -
  assume "k < 32"
  then have "(2 :: nat) ^ k < 2 ^ 32" by (rule power_strict_increasing) simp
  then show ?thesis using unat_of_nat [of "2 ^ k", where 'a = 32] by simp
qed

lemma word_power_of_two: "v \<noteq> 0 \<and> v AND (v - 1) = 0 \<longleftrightarrow> (\<exists>k < 32. v = 2 ^ k)" for v :: "32 word"
proof (cases "v = 0")
  case True
  have "(2 :: 32 word) ^ k = 0 \<Longrightarrow> \<not> k < 32" for k by (simp add: exp_eq_zero_iff)
  then show ?thesis using True by metis
next
  case False
  have "v AND (v - 1) = 0 \<longleftrightarrow> unat v AND (unat v - 1) = 0"
    using False by (metis unsigned_and_eq unat_eq_0 unat_minus_one)
  also have "\<dots> \<longleftrightarrow> (\<exists>k. unat v = 2 ^ k)"
    using False and_pred_power [of "unat v"] by (simp add: unat_gt_0)
  also have "\<dots> \<longleftrightarrow> (\<exists>k < 32. v = 2 ^ k)"
  proof
    assume "\<exists>k. unat v = 2 ^ k"
    then obtain k where k: "unat v = 2 ^ k" by blast
    have "(2 :: nat) ^ k < 2 ^ 32" using unsigned_less [where 'a = nat and w = v] k by simp
    then have "k < 32" by (rule power_less_imp_less_exp [rotated]) simp
    then show "\<exists>k < 32. v = 2 ^ k" using k unat_power32 by (metis word_unat_eq_iff)
  qed (use unat_power32 in metis)
  finally show ?thesis using False by simp
qed

lemma minus_one_word_eq: "(- 1 :: 32 word) = 0xFFFFFFFF"
  by simp

lemma netmask_word:
  "IsValidNetmask m \<longleftrightarrow> (\<exists>k. 1 \<le> k \<and> k \<le> 31 \<and> ntohl m = NOT (mask k))"
proof -
  have v: "NOT (ntohl m) + 1 = 2 ^ k \<longleftrightarrow> ntohl m = NOT (mask k)" for k
    by (metis add_diff_cancel_right' bit.double_compl diff_add_cancel mask_eq_decr_exp)
  have ones: "ntohl m = NOT (mask 0) \<longleftrightarrow> m = 0xFFFFFFFF"
    using ntohl_eq_iff [of m "- 1"] by (simp del: ntohl_eq_iff) (simp only: minus_one_word_eq)
  have "IsValidNetmask m \<longleftrightarrow> (\<exists>k < 32. ntohl m = NOT (mask k)) \<and> m \<noteq> 0xFFFFFFFF"
    unfolding IsValidNetmask_def Let_def word_power_of_two v by auto
  also have "\<dots> \<longleftrightarrow> (\<exists>k. 1 \<le> k \<and> k \<le> 31 \<and> ntohl m = NOT (mask k))"
  proof
    assume l: "(\<exists>k < 32. ntohl m = NOT (mask k)) \<and> m \<noteq> 0xFFFFFFFF"
    then obtain k where k: "k < 32" "ntohl m = NOT (mask k)" by blast
    with l ones have "k \<noteq> 0" by metis
    with k show "\<exists>k. 1 \<le> k \<and> k \<le> 31 \<and> ntohl m = NOT (mask k)" by (intro exI [of _ k]) auto
  next
    assume "\<exists>k. 1 \<le> k \<and> k \<le> 31 \<and> ntohl m = NOT (mask k)"
    then obtain k where k: "1 \<le> k" "k \<le> 31" "ntohl m = NOT (mask k)" by blast
    have "m \<noteq> 0xFFFFFFFF"
    proof
      assume "m = 0xFFFFFFFF"
      then have "mask k = (0 :: 32 word)" using k(3) ones by (metis bit.double_compl mask_0)
      then have "bit (mask k :: 32 word) 0 = False" by simp
      with k(1) show False by (simp add: bit_simps)
    qed
    with k show "(\<exists>k < 32. ntohl m = NOT (mask k)) \<and> m \<noteq> 0xFFFFFFFF" by (intro conjI exI [of _ k]) auto
  qed
  finally show ?thesis .
qed

lemma addr_mask: "k \<le> 31 \<Longrightarrow> addr m = 2 ^ 32 - 2 ^ k \<longleftrightarrow> ntohl m = NOT (mask k)"
proof -
  assume k: "k \<le> 31"
  have "unat (NOT (mask k) :: 32 word) = unat (0 - 2 ^ k :: 32 word)" by (simp add: mask_eq_decr_exp not_eq_complement)
  also have "\<dots> = 2 ^ 32 - 2 ^ k"
    unfolding unat_sub_if' using k unat_power32 [of k] by simp
  finally have "unat (NOT (mask k) :: 32 word) = 2 ^ 32 - 2 ^ k" .
  then show ?thesis unfolding addr_def by (metis word_unat_eq_iff)
qed

lemma unat_low_bits: "unat (x AND mask k) = unat x mod 2 ^ k" for x :: "32 word"
  unfolding take_bit_eq_mask [symmetric] unsigned_take_bit_eq by (rule take_bit_eq_mod)

lemma network_bits: "x AND NOT (mask k) = x \<longleftrightarrow> unat x mod 2 ^ k = 0" for x :: "32 word"
proof -
  have "x AND NOT (mask k) = x \<longleftrightarrow> x AND mask k = 0" by (auto simp: bit_eq_iff bit_simps)
  also have "\<dots> \<longleftrightarrow> unat (x AND mask k) = 0" by (simp add: unat_eq_0)
  finally show ?thesis by (simp only: unat_low_bits)
qed

lemma broadcast_bits: "k \<le> 31 \<Longrightarrow> x OR mask k = x \<longleftrightarrow> unat x mod 2 ^ k = 2 ^ k - 1" for x :: "32 word"
proof -
  assume k: "k \<le> 31"
  have m: "unat (mask k :: 32 word) = 2 ^ k - 1"
    using k unat_power32 [of k] unat_minus_one [of "2 ^ k :: 32 word"] by (auto simp: mask_eq_decr_exp unat_eq_0)
  have "x OR mask k = x \<longleftrightarrow> x AND mask k = mask k" by (auto simp: bit_eq_iff bit_simps)
  also have "\<dots> \<longleftrightarrow> unat (x AND mask k) = unat (mask k :: 32 word)" by (simp flip: word_unat_eq_iff)
  finally show ?thesis by (simp only: unat_low_bits m)
qed

lemma same_network_bits: "NOT (mask k) AND x = NOT (mask k) AND y \<longleftrightarrow> unat x div 2 ^ k = unat y div 2 ^ k" for x y :: "32 word"
proof -
  have "NOT (mask k) AND x = NOT (mask k) AND y \<longleftrightarrow> drop_bit k x = drop_bit k y"
  proof
    assume l: "NOT (mask k) AND x = NOT (mask k) AND y"
    show "drop_bit k x = drop_bit k y"
    proof (rule bit_word_eqI)
      fix n :: nat assume "n < LENGTH(32)"
      from l have "bit (NOT (mask k) AND x) (k + n) = bit (NOT (mask k) AND y) (k + n)" by simp
      moreover have "\<not> k + n < 32 \<Longrightarrow> \<not> bit z (k + n)" for z :: "32 word" using bit_imp_le_length [of z "k + n"] by auto
      ultimately show "bit (drop_bit k x) n = bit (drop_bit k y) n" by (auto simp: bit_simps)
    qed
  next
    assume r: "drop_bit k x = drop_bit k y"
    show "NOT (mask k) AND x = NOT (mask k) AND y"
    proof (rule bit_word_eqI)
      fix n :: nat assume "n < LENGTH(32)"
      from r have "bit (drop_bit k x) (n - k) = bit (drop_bit k y) (n - k)" by simp
      then show "bit (NOT (mask k) AND x) n = bit (NOT (mask k) AND y) n" by (auto simp: bit_simps)
    qed
  qed
  also have "\<dots> \<longleftrightarrow> unat (drop_bit k x) = unat (drop_bit k y)" by (simp flip: word_unat_eq_iff)
  finally show ?thesis unfolding unat_drop_bit_eq unfolding drop_bit_eq_div .
qed

lemma high_bits:
  "x AND 0x80000000 = 0 \<longleftrightarrow> unat x div 2 ^ 31 = 0" "x AND 0xC0000000 = 0x80000000 \<longleftrightarrow> unat x div 2 ^ 30 = 2"
  "x AND 0xE0000000 = 0xC0000000 \<longleftrightarrow> unat x div 2 ^ 29 = 6" "x AND 0xFF000000 = 0x7F000000 \<longleftrightarrow> unat x div 2 ^ 24 = 127"
  for x :: "32 word"
proof -
  have neg: "(- 2147483648 :: 32 word) = 0x80000000" "(- 1073741824 :: 32 word) = 0xC0000000" "(- 536870912 :: 32 word) = 0xE0000000"
    "(- 16777216 :: 32 word) = 0xFF000000" by simp_all
  show "x AND 0x80000000 = 0 \<longleftrightarrow> unat x div 2 ^ 31 = 0" "x AND 0xC0000000 = 0x80000000 \<longleftrightarrow> unat x div 2 ^ 30 = 2"
    "x AND 0xE0000000 = 0xC0000000 \<longleftrightarrow> unat x div 2 ^ 29 = 6" "x AND 0xFF000000 = 0x7F000000 \<longleftrightarrow> unat x div 2 ^ 24 = 127"
  using same_network_bits [of 31 x 0] same_network_bits [of 30 x "0x80000000"] same_network_bits [of 29 x "0xC0000000"]
    same_network_bits [of 24 x "0x7F000000"]
  by (simp_all add: and.commute mask_eq_decr_exp neg)
qed

lemma IsInClassAbc_addr: "IsInClassAbc a \<longleftrightarrow> addr a < 0xE0000000"
proof -
  have "addr a < 2 ^ 32" unfolding addr_def using unsigned_less [where 'a = nat and w = "ntohl a"] by simp
  then show ?thesis
    unfolding IsInClassAbc_def IN_CLASSA_def IN_CLASSB_def IN_CLASSC_def Let_def high_bits addr_def by auto
qed

lemma IsOnLoopbackNetwork_addr: "IsOnLoopbackNetwork a \<longleftrightarrow> addr a div 2 ^ 24 = 127"
  using high_bits(4) [of "ntohl a"] by (simp add: IsOnLoopbackNetwork_def addr_def)

text \<open>A host of a network with \<open>k\<close> host bits: neither the network nor its broadcast address.\<close>

definition host_in :: "nat \<Rightarrow> nat \<Rightarrow> bool" where
  "host_in k a \<longleftrightarrow> 0 < a mod 2 ^ k \<and> a mod 2 ^ k < 2 ^ k - 1"

lemma ntohl_and_eq: "a AND b = c \<longleftrightarrow> ntohl a AND ntohl b = ntohl c" "a OR b = c \<longleftrightarrow> ntohl a OR ntohl b = ntohl c"
  by (simp_all flip: ntohl_bits)

lemma IsNetworkOrBroadcastIp_addr:
  assumes "ntohl m = NOT (mask k)" and "k \<le> 31"
  shows "IsNetworkOrBroadcastIp a m \<longleftrightarrow> \<not> host_in k (addr a)"
proof -
  have "addr a mod 2 ^ k < 2 ^ k" by simp
  moreover have "IsNetworkOrBroadcastIp a m \<longleftrightarrow> addr a mod 2 ^ k = 0 \<or> addr a mod 2 ^ k = 2 ^ k - 1"
    unfolding IsNetworkOrBroadcastIp_def ntohl_and_eq(1) [of a m a] ntohl_and_eq(2) [of a "NOT m" a] ntohl_bits(3) assms(1) addr_def
    using network_bits [of "ntohl a" k] broadcast_bits [OF assms(2), of "ntohl a"] by simp
  ultimately show ?thesis unfolding host_in_def by linarith
qed


text \<open>
  C19: A network configuration is accepted exactly when the address is a host address of class A, B or C outside
  the loopback network, gateway and name servers are of these classes or 0, the gateway is not a loopback
  address, and the mask is 0 or has between 1 and 31 zero bits at the end such that the address and a gateway
  other than 0 are hosts of one network under the mask. So a mask of 0 is accepted, with any such gateway, and so is
  a gateway of 0; a mask of 32 one bits is not, nor one whose one bits are not the leading ones.
\<close>

theorem network_config_valid:
  "CipTcpIpIsValidNetworkConfig c \<longleftrightarrow> (let ip = addr (if_ip_address c); m = addr (if_network_mask c); gw = addr (if_gateway c) in
     ip \<noteq> 0 \<and> ip < 0xE0000000 \<and> gw < 0xE0000000 \<and> addr (if_name_server c) < 0xE0000000 \<and> addr (if_name_server_2 c) < 0xE0000000 \<and>
     ip div 2 ^ 24 \<noteq> 127 \<and> gw div 2 ^ 24 \<noteq> 127 \<and>
     (m = 0 \<or> (\<exists>k. 1 \<le> k \<and> k \<le> 31 \<and> m = 2 ^ 32 - 2 ^ k \<and> host_in k ip \<and> (gw = 0 \<or> host_in k gw \<and> gw div 2 ^ k = ip div 2 ^ k))))"
proof -
  let ?m = "if_network_mask c" and ?ip = "if_ip_address c" and ?gw = "if_gateway c"
  have top: "IsInClassAbc a \<Longrightarrow> a OR NOT 0 \<noteq> a" for a
  proof
    assume "IsInClassAbc a" "a OR NOT 0 = a"
    then have "a = - 1" by simp
    then have "ntohl a = - 1" by (simp only: ntohl_simps)
    then have "addr a = unat (0xFFFFFFFF :: 32 word)" by (simp only: addr_def minus_one_word_eq)
    with \<open>IsInClassAbc a\<close> show False by (simp add: IsInClassAbc_addr)
  qed
  consider "?m = 0" | k where "1 \<le> k" "k \<le> 31" "ntohl ?m = NOT (mask k)" | "?m \<noteq> 0" "\<not> IsValidNetmask ?m"
    using netmask_word by blast
  then show ?thesis
  proof cases
    case 1
    then show ?thesis
      using top [of ?ip] top [of ?gw]
      by (auto simp: CipTcpIpIsValidNetworkConfig_def IsNetworkOrBroadcastIp_def Let_def IsInClassAbc_addr IsOnLoopbackNetwork_addr)
  next
    case (2 k)
    have m: "addr ?m = 2 ^ 32 - 2 ^ j \<longleftrightarrow> j = k" if "j \<le> 31" for j
    proof -
      have "addr ?m = 2 ^ 32 - 2 ^ k" using 2 addr_mask by blast
      moreover have "(2 :: nat) ^ i \<le> 2 ^ 32" if "i \<le> 31" for i by (rule power_increasing) (use that in simp_all)
      ultimately have "addr ?m = 2 ^ 32 - 2 ^ j \<longleftrightarrow> (2 :: nat) ^ j = 2 ^ k" using that 2(2) by (metis diff_diff_cancel)
      then show ?thesis by simp
    qed
    have "(2 :: nat) ^ k < 2 ^ 32" using 2(2) by (intro power_strict_increasing) simp_all
    then have "addr ?m \<noteq> 0" using m [OF 2(2)] by simp
    then have nz: "?m \<noteq> 0" "IsValidNetmask ?m" using 2 netmask_word [of ?m] by auto
    have net: "?m AND ?ip \<noteq> ?m AND ?gw \<longleftrightarrow> addr ?gw div 2 ^ k \<noteq> addr ?ip div 2 ^ k"
      using same_network_bits [of k "ntohl ?ip" "ntohl ?gw"] 2(3) ntohl_and_eq(1) [of ?m ?ip "?m AND ?gw"]
      by (auto simp: addr_def ntohl_bits)
    show ?thesis
      using nz m 2 by (auto simp: CipTcpIpIsValidNetworkConfig_def net IsNetworkOrBroadcastIp_addr [OF 2(3,2)] IsInClassAbc_addr
        IsOnLoopbackNetwork_addr Let_def)
  next
    case 3
    then have "\<not> (\<exists>k. 1 \<le> k \<and> k \<le> 31 \<and> addr ?m = 2 ^ 32 - 2 ^ k)" using netmask_word addr_mask by blast
    with 3 show ?thesis by (auto simp: CipTcpIpIsValidNetworkConfig_def Let_def)
  qed
qed

subsection \<open>Multicast addresses\<close>

lemma multicast_start:
  assumes "addr (if_network_mask (interface_configuration t)) = 2 ^ 32 - 2 ^ k" and "k \<le> 31"
  shows "addr (mc_starting_multicast_address (mcast_config (CipTcpIpCalculateMulticastIp t))) =
    0xEFC00100 + 32 * ((addr (if_ip_address (interface_configuration t)) mod 2 ^ k + 1023) mod 1024)"
proof -
  define host where "host = ntohl (if_ip_address (interface_configuration t)) AND mask k"
  have h: "unat host = addr (if_ip_address (interface_configuration t)) mod 2 ^ k"
    unfolding host_def unat_low_bits addr_def ..
  have m: "ntohl (if_network_mask (interface_configuration t)) = NOT (mask k)" using assms addr_mask by blast
  have "unat ((host - 1) AND 0x3FF) = unat (host - 1) mod 1024"
    using unat_low_bits [of "host - 1" 10] by (simp add: mask_eq_decr_exp)
  also have "\<dots> = (unat host + 1023) mod 1024"
  proof (cases "host = 0")
    case False
    then have "unat (host - 1) = unat host - 1" "0 < unat host" using unat_minus_one unat_gt_0 by blast+
    then have "unat host + 1023 = unat (host - 1) + 1024" by simp
    then show ?thesis by simp
  next
    case True
    then have "unat (host - 1) = unat (0xFFFFFFFF :: 32 word)" by (simp only: diff_0 minus_one_word_eq)
    with True show ?thesis by simp
  qed
  finally have id: "unat ((host - 1) AND 0x3FF) = (unat host + 1023) mod 1024" .
  define i where "i = (host - 1) AND 0x3FF"
  have i: "unat i < 1024" unfolding i_def id by simp
  have "unat (push_bit 5 i) = 32 * unat i"
    using i by (simp add: push_bit_eq_mult unat_word_ariths)
  then have "unat (0xEFC00100 + push_bit 5 i) = 0xEFC00100 + 32 * unat i"
    using i by (simp add: unat_word_ariths)
  then show ?thesis
    unfolding h [symmetric] id [symmetric] i_def
    by (simp add: CipTcpIpCalculateMulticastIp_def Let_def m addr_def htonl_def host_def)
qed

text \<open>
  C32: Two devices of one network with at most 1024 addresses get disjoint blocks of 32 multicast addresses, both
  inside the range from 239.192.1.0 to 239.192.128.255.
\<close>

theorem multicast_blocks_disjoint:
  assumes "addr (if_network_mask (interface_configuration t)) = 2 ^ 32 - 2 ^ k"
    and "addr (if_network_mask (interface_configuration t')) = 2 ^ 32 - 2 ^ k" and "k \<le> 10"
    and "addr (if_ip_address (interface_configuration t)) div 2 ^ k = addr (if_ip_address (interface_configuration t')) div 2 ^ k"
    and "if_ip_address (interface_configuration t) \<noteq> if_ip_address (interface_configuration t')"
    and "a = addr (mc_starting_multicast_address (mcast_config (CipTcpIpCalculateMulticastIp t)))"
    and "b = addr (mc_starting_multicast_address (mcast_config (CipTcpIpCalculateMulticastIp t')))"
  shows "(a + 32 \<le> b \<or> b + 32 \<le> a) \<and> 0xEFC00100 \<le> a \<and> a + 31 \<le> 0xEFC080FF"
proof -
  define x where "x = addr (if_ip_address (interface_configuration t))"
  define y where "y = addr (if_ip_address (interface_configuration t'))"
  have ab: "a = 0xEFC00100 + 32 * ((x mod 2 ^ k + 1023) mod 1024)" "b = 0xEFC00100 + 32 * ((y mod 2 ^ k + 1023) mod 1024)"
    using multicast_start [OF assms(1)] multicast_start [OF assms(2)] assms(3,6,7) by (simp_all add: x_def y_def)
  have "x \<noteq> y" "x div 2 ^ k = y div 2 ^ k" using assms(4,5) by (simp_all add: x_def y_def)
  then have "x mod 2 ^ k \<noteq> y mod 2 ^ k" by (metis div_mult_mod_eq)
  moreover have "n mod 2 ^ k < 1024" for n :: nat
    using power_increasing [OF assms(3), of "2 :: nat"] less_le_trans [OF mod_less_divisor [of "2 ^ k" n]] by simp
  then have "x mod 2 ^ k < 1024" "y mod 2 ^ k < 1024" by blast+
  moreover have "(u + 1023) mod 1024 = (if u = 0 then 1023 else u - 1)" if "u < 1024" for u :: nat
    using that by (cases u) simp_all
  ultimately have "(x mod 2 ^ k + 1023) mod 1024 \<noteq> (y mod 2 ^ k + 1023) mod 1024" by (auto split: if_splits)
  then show ?thesis unfolding ab by linarith
qed

subsection \<open>Names\<close>

text \<open>The labels between the dots of a name, and what a label looks like.\<close>

fun labels :: "CipOctet list \<Rightarrow> CipOctet list list" where
  "labels [] = [[]]"
| "labels (b # bs) = (if b = dot then [] # labels bs else (b # hd (labels bs)) # tl (labels bs))"

definition label_ok :: "CipOctet list \<Rightarrow> bool" where
  "label_ok l \<longleftrightarrow> l \<noteq> [] \<and> isalnum_c (hd l) \<and> last l \<noteq> hyphen \<and> (\<forall>b \<in> set l. isalnum_c b \<or> b = hyphen)"

lemma isalnum_c_simps [simp]: "\<not> isalnum_c 0" "\<not> isalnum_c dot" "\<not> isalnum_c hyphen"
  by (simp_all add: isalnum_c_def)

lemma label_ok_Nil [simp]: "\<not> label_ok []"
  by (simp add: label_ok_def)

lemma label_from_word:
  "0 \<notin> set l \<Longrightarrow> label_from before (l @ 0 # r) = Some ((\<forall>b \<in> set l. isalnum_c b \<or> b = hyphen) \<and> last (before # l) \<noteq> hyphen)"
  by (induction l arbitrary: before) auto

lemma IsValidNameLabel_word: "0 \<notin> set l \<Longrightarrow> IsValidNameLabel (l @ 0 # r) = Some (label_ok l)"
  by (cases l) (auto simp: label_ok_def label_from_word)

lemma labels_not_empty [simp]: "labels s \<noteq> []"
  by (cases s) auto

lemma labels_no_dot: "dot \<notin> set s \<Longrightarrow> labels s = [s]"
  by (induction s) auto

lemma labels_append: "dot \<notin> set l \<Longrightarrow> labels (l @ dot # s) = l # labels s"
  by (induction l) auto

lemma strchr_none: "0 \<notin> set s \<Longrightarrow> dot \<notin> set s \<Longrightarrow> strchr dot (s @ 0 # r) = Some None"
  by (induction s) auto

lemma strchr_some: "0 \<notin> set l \<Longrightarrow> dot \<notin> set l \<Longrightarrow> strchr dot (l @ dot # r) = Some (Some (length l))"
  by (induction l) auto

lemma domain_labels:
  "0 \<notin> set s \<Longrightarrow> IsValidDomain (s @ 0 # r) = Some (list_all label_ok (labels s))"
proof (induction s rule: length_induct)
  case (1 s)
  show ?case
  proof (cases "dot \<in> set s")
    case False
    have "\<exists>c cs. s @ 0 # r = c # cs \<and> c \<noteq> dot" using False by (cases s) auto
    then show ?thesis
      using strchr_none [OF 1(2) False, of r] IsValidNameLabel_word [OF 1(2), of r] labels_no_dot [OF False]
      by (subst IsValidDomain.simps) auto
  next
    case True
    then obtain l t where s: "s = l @ dot # t" and l: "dot \<notin> set l" by (metis split_list_first)
    have z: "0 \<notin> set l" "0 \<notin> set t" using 1(2) s by auto
    show ?thesis
    proof (cases l)
      case Nil
      then show ?thesis by (subst IsValidDomain.simps) (simp add: s label_ok_def)
    next
      case (Cons b bs)
      have str: "strchr dot (s @ 0 # r) = Some (Some (length l))" using strchr_some [OF z(1) l, of "t @ 0 # r"] by (simp add: s)
      have take: "take (length l) (s @ 0 # r) @ [0] = l @ [0]" "drop (Suc (length l)) (s @ 0 # r) = t @ 0 # r" by (simp_all add: s)
      have rc: "IsValidNameLabel (l @ [0]) = Some (label_ok l)" using IsValidNameLabel_word [OF z(1), of "[]"] by simp
      have IH: "IsValidDomain (t @ 0 # r) = Some (list_all label_ok (labels t))" using 1 z(2) s by simp
      have hd: "s @ 0 # r = b # (bs @ dot # t @ 0 # r)" "b \<noteq> dot" using Cons s l by simp_all
      have "IsValidDomain (s @ 0 # r) = (case t @ 0 # r of [] \<Rightarrow> None
          | c # _ \<Rightarrow> if c \<noteq> 0 then Some (label_ok l \<and> list_all label_ok (labels t)) else Some False)"
        by (subst IsValidDomain.simps) (simp only: str take rc IH hd(2) option.case list.case if_False split: list.split, simp add: hd)
      then show ?thesis using z(2) labels_append [OF l, of t] by (cases t) (auto simp: s)
    qed
  qed
qed

text \<open>
  C24: \<^verbatim>\<open>IsValidDomain\<close> decides the grammar of domain names: on a terminated string it runs through and accepts
  exactly the names whose labels, separated by dots, are not empty, start with a letter or digit, do not end with a
  hyphen and hold only letters, digits and hyphens.
\<close>

theorem domain_name_grammar:
  assumes "0 \<notin> set s"
  shows "IsValidDomain (s @ 0 # r) = Some (list_all label_ok (labels s))"
  using assms by (rule domain_labels)

subsection \<open>Setting the configuration\<close>

text \<open>The octets of a configuration and of a name in a request.\<close>

definition string_of :: "CipOctet list \<Rightarrow> CipString" where
  "string_of bs = \<lparr>cs_length = of_nat (length bs), cs_string = (if bs = [] then None else Some bs)\<rparr>"

definition config_bytes :: "CipTcpIpInterfaceConfiguration \<Rightarrow> CipOctet list \<Rightarrow> CipOctet list" where
  "config_bytes c name = dint_bytes (ntohl (if_ip_address c)) @ dint_bytes (ntohl (if_network_mask c)) @ dint_bytes (ntohl (if_gateway c)) @
     dint_bytes (ntohl (if_name_server c)) @ dint_bytes (ntohl (if_name_server_2 c)) @ int_bytes (of_nat (length name)) @ name"

text \<open>A name without octets is valid; of any other one the text before the first 0 is checked.\<close>

definition name_text :: "CipOctet list \<Rightarrow> CipOctet list" where
  "name_text bs = takeWhile (\<lambda>b. b \<noteq> 0) bs"

definition name_ok :: "CipOctet list \<Rightarrow> bool" where
  "name_ok bs \<longleftrightarrow> bs = [] \<or> list_all label_ok (labels (name_text bs))"

lemma name_terminated: "\<exists>r. bs @ 0 # zs = name_text bs @ 0 # r" "0 \<notin> set (name_text bs)"
proof -
  show "0 \<notin> set (name_text bs)" by (auto simp: name_text_def dest: set_takeWhileD)
  show "\<exists>r. bs @ 0 # zs = name_text bs @ 0 # r"
    by (induction bs) (auto simp: name_text_def)
qed

lemma short_name: "length bs \<le> 64 \<Longrightarrow> unat (of_nat (length bs) :: CipUint) = length bs"
  by (simp add: unat_of_nat)

lemma set_name: "length bs \<le> 64 \<Longrightarrow> SetCipStringByData empty_string (of_nat (length bs)) (bs @ r) = Some (string_of bs)"
  using short_name [of bs] by (auto simp: SetCipStringByData_def ClearCipString_def empty_string_def string_of_def Let_def read_bytes_def
    simp flip: unat_eq_0)

lemma name_valid_string:
  assumes "length bs \<le> n" and "n \<le> 64"
  shows "name_valid n (string_of bs) = Some (name_ok bs)"
proof (cases "bs = []")
  case True
  then show ?thesis by (simp add: name_valid_def string_of_def name_ok_def)
next
  case False
  have n: "unat (of_nat (length bs) :: CipUint) = length bs" using short_name [of bs] assms(1,2) by simp
  then have "name_buffer n (string_of bs) = Some (bs @ 0 # replicate (n - length bs) 0)"
    using assms(1) False by (simp add: name_buffer_def string_of_def read_bytes_def Let_def Suc_diff_le)
  moreover have "cs_length (string_of bs) > 0" using n False by (simp add: string_of_def word_gt_0 flip: unat_eq_0)
  moreover obtain r where "bs @ 0 # replicate (n - length bs) 0 = name_text bs @ 0 # r" using name_terminated(1) by blast
  ultimately show ?thesis using domain_labels [OF name_terminated(2), of bs] False by (simp add: name_valid_def name_ok_def)
qed

lemma static_control: "x AND m = 0 \<Longrightarrow> x AND NOT m = x" for x m :: CipDword
  by (auto simp: bit_eq_iff bit_simps)

text \<open>
  C20: Setting the interface configuration, for a request with the octets of a configuration and a domain name. A
  name of more than 48 octets is refused as too much data. Otherwise the request is accepted exactly when the network
  configuration is valid and so is the name, of which only the text before a first octet 0 is checked. Then the object
  holds the configuration with the whole name, its method becomes the static one and the status says that the change is
  pending; in both other cases the object stays as it was, and an invalid configuration is reported as an invalid value.
\<close>

theorem interface_configuration_set:
  assumes "length name < 65536" and "if_domain_name c = string_of name"
  shows "DecodeCipTcpIpInterfaceConfiguration t (req\<lparr>req_data := config_bytes c name @ r\<rparr>) resp =
    (if 48 < length name
     then Some (- 1, t, req\<lparr>req_data := name @ r\<rparr>, resp\<lparr>general_status := kCipErrorTooMuchData\<rparr>)
     else if CipTcpIpIsValidNetworkConfig c \<and> name_ok name
     then Some (20 + uint ((of_nat (length name) + 1 :: CipUint) AND NOT 1),
       t\<lparr>config_control := config_control t AND NOT kTcpipCfgCtrlMethodMask, interface_configuration := c,
         tcpip_status := tcpip_status t OR kTcpipStatusIfaceCfgPend\<rparr>,
       req\<lparr>req_data := name @ r\<rparr>, resp\<lparr>general_status := kCipErrorSuccess\<rparr>)
     else Some (- 1, t, req\<lparr>req_data := name @ r\<rparr>, resp\<lparr>general_status := kCipErrorInvalidAttributeValue\<rparr>))"
proof (cases "48 < length name")
  case True
  have "unat (of_nat (length name) :: CipUint) = length name" using assms(1) by (simp add: unat_of_nat take_bit_nat_eq_self)
  with True show ?thesis
    by (simp add: DecodeCipTcpIpInterfaceConfiguration_def config_bytes_def udint.dec_enc uint.dec_enc Let_def htonl_def)
next
  case False
  then have short: "length name \<le> 48" by simp
  have n: "unat (of_nat (length name) :: CipUint) = length name" using short_name [of name] short by simp
  have s: "SetCipStringByData empty_string (of_nat (length name)) (name @ r) = Some (string_of name)"
    using set_name short by simp
  have v: "name_valid kTcpipMaxDomainLength (string_of name) = Some (name_ok name)"
    using name_valid_string [of name 48] short by simp
  have c: "\<lparr>if_ip_address = if_ip_address c, if_network_mask = if_network_mask c, if_gateway = if_gateway c,
      if_name_server = if_name_server c, if_name_server_2 = if_name_server_2 c, if_domain_name = string_of name\<rparr> = c"
    using assms(2) by simp
  show ?thesis
    using short static_control [of "config_control t" kTcpipCfgCtrlMethodMask]
    by (simp add: DecodeCipTcpIpInterfaceConfiguration_def config_bytes_def udint.dec_enc uint.dec_enc Let_def n s v c htonl_def)
qed

definition example_config :: CipTcpIpInterfaceConfiguration where
  "example_config = \<lparr>if_ip_address = htonl 0xC0A80A05, if_network_mask = htonl 0xFFFFFF00, if_gateway = htonl 0xC0A80A01,
     if_name_server = 0, if_name_server_2 = 0, if_domain_name = string_of [0x63, 0x65, 0x6C, 0x6C, 0x31]\<rparr>"

lemma example_config_domain: "if_domain_name example_config = string_of [0x63, 0x65, 0x6C, 0x6C, 0x31]"
  by (simp add: example_config_def)

lemma example_config_valid: "CipTcpIpIsValidNetworkConfig example_config"
  by (simp add: example_config_def CipTcpIpIsValidNetworkConfig_def htonl_def IsValidNetmask_def IsInClassAbc_def IN_CLASSA_def IN_CLASSB_def
    IN_CLASSC_def IsOnLoopbackNetwork_def IsNetworkOrBroadcastIp_def ntohl_def)

theorem domain_name_grammar_witness: "IsValidDomain [0x61, 0x2D, 0x62, 0x2E, 0x63, 0] = Some True"
  using domain_name_grammar [of "[0x61, 0x2D, 0x62, 0x2E, 0x63]" "[]"] by (simp add: label_ok_def isalnum_c_def)

theorem interface_configuration_set_witness:
  "DecodeCipTcpIpInterfaceConfiguration g_tcpip ((example_request kSetAttributeSingle [])\<lparr>req_data := config_bytes example_config [0x63, 0x65, 0x6C, 0x6C, 0x31]\<rparr>) example_response =
    Some (26, g_tcpip\<lparr>config_control := 0, interface_configuration := example_config, tcpip_status := 0x21\<rparr>,
      (example_request kSetAttributeSingle [])\<lparr>req_data := [0x63, 0x65, 0x6C, 0x6C, 0x31]\<rparr>, example_response\<lparr>general_status := 0\<rparr>)"
  using interface_configuration_set [of "[0x63, 0x65, 0x6C, 0x6C, 0x31]" example_config g_tcpip "[]"
      "example_request kSetAttributeSingle []" example_response]
  by (simp add: example_config_valid example_config_domain name_ok_def name_text_def label_ok_def isalnum_c_def g_tcpip_def)

theorem multicast_blocks_disjoint_witness:
  "let a = addr (mc_starting_multicast_address (mcast_config (CipTcpIpCalculateMulticastIp (g_tcpip\<lparr>interface_configuration := example_config\<rparr>))))
   in 0xEFC00100 \<le> a \<and> a + 31 \<le> 0xEFC080FF"
proof -
  have "addr (if_network_mask example_config) = 2 ^ 32 - 2 ^ 8" by (simp add: addr_def example_config_def htonl_def)
  then show ?thesis
    using multicast_blocks_disjoint [of "g_tcpip\<lparr>interface_configuration := example_config\<rparr>" 8
      "g_tcpip\<lparr>interface_configuration := example_config\<lparr>if_ip_address := htonl 0xC0A80A06\<rparr>\<rparr>" _ _, OF _ _ _ _ _ refl refl]
    by (simp add: Let_def addr_def example_config_def htonl_def)
qed

end
