(* ===== verification/LinkObjects.thy ===== *)
theory LinkObjects
  imports IoConnection ClassLayout
begin

text \<open>
  The smaller objects of the device: quality of service (\<^verbatim>\<open>cip/cipqos.c\<close>), device level ring
  (\<^verbatim>\<open>cip/cipdlr.c\<close>), the Ethernet link (\<^verbatim>\<open>cip/cipethernetlink.c\<close>) and the assembly class
  (\<^verbatim>\<open>cip/cipassembly.c\<close>), and the random numbers (\<^verbatim>\<open>utils/xorshiftrandom.c\<close>). The device has one Ethernet link,
  its counters are enabled, its control attribute and its label are not.
\<close>

subsection \<open>Random numbers\<close>

text \<open>The seed is the state; \<open>now\<close> is the clock, read only when the seed is 0.\<close>

definition CalculateNextSeed :: "CipUdint \<Rightarrow> CipUdint \<Rightarrow> CipUdint" where
  "CalculateNextSeed now seed = (
     let s = (if seed = 0 then now else seed);
         s = s XOR push_bit 13 s;
         s = s XOR drop_bit 17 s
     in s XOR push_bit 5 s)"

definition NextXorShiftUint32 :: "CipUdint \<Rightarrow> CipUdint \<Rightarrow> CipUdint \<times> CipUdint" where
  "NextXorShiftUint32 now seed = (let s = CalculateNextSeed now seed in (s, s))"

text \<open>Each of the three steps is a bijection: a word is determined by its sum with a shifted copy of itself.\<close>

lemma xor_push_bit_zero: "x XOR push_bit n x = 0 \<Longrightarrow> 0 < n \<Longrightarrow> x = 0" for x :: CipUdint
proof (rule bit_word_eqI)
  fix i assume x: "x XOR push_bit n x = 0" and n: "0 < n" and i: "i < LENGTH(32)"
  have step: "bit x j = (n \<le> j \<and> bit x (j - n))" if "j < 32" for j
    using arg_cong [OF x, of "\<lambda>w. bit w j"] that by (auto simp: bit_simps)
  have "\<not> bit x j" if "j < 32" for j
    using that
  proof (induction j rule: less_induct)
    case (less j)
    then show ?case using step [of j] n less.IH [of "j - n"] by (cases "n \<le> j") auto
  qed
  then show "bit x i = bit 0 i" using i by simp
qed

lemma xor_drop_bit_zero: "x XOR drop_bit n x = 0 \<Longrightarrow> 0 < n \<Longrightarrow> x = 0" for x :: CipUdint
proof (rule bit_word_eqI)
  fix i assume x: "x XOR drop_bit n x = 0" and n: "0 < n" and i: "i < LENGTH(32)"
  have step: "bit x j = bit x (j + n)" if "j < 32" for j
    using arg_cong [OF x, of "\<lambda>w. bit w j"] that by (auto simp: bit_simps add.commute)
  have "\<not> bit x j" for j
  proof (induction "32 - j" arbitrary: j rule: less_induct)
    case (less j)
    show ?case
    proof (cases "j < 32")
      case True
      with less [of "j + n"] n step [of j] show ?thesis by simp
    next
      case False
      then show ?thesis using bit_imp_le_length [of x j] by auto
    qed
  qed
  then show "bit x i = bit 0 i" by simp
qed

lemma xor_zero_eq: "x XOR y = 0 \<Longrightarrow> x = y" for x y :: CipUdint
  by (metis xor.assoc xor.right_neutral xor_self_eq xor.left_neutral)

lemma xor_shift_inj:
  fixes x y :: CipUdint
  assumes "x XOR push_bit n x = y XOR push_bit n y" and "0 < n"
  shows "x = y"
proof -
  have "(x XOR y) XOR push_bit n (x XOR y) = (x XOR push_bit n x) XOR (y XOR push_bit n y)"
    by (rule bit_word_eqI) (auto simp: bit_simps)
  also have "\<dots> = 0" unfolding assms(1) by (rule xor_self_eq)
  finally have "x XOR y = 0" using assms(2) by (rule xor_push_bit_zero)
  then show ?thesis by (rule xor_zero_eq)
qed

lemma xor_drop_inj:
  fixes x y :: CipUdint
  assumes "x XOR drop_bit n x = y XOR drop_bit n y" and "0 < n"
  shows "x = y"
proof -
  have "(x XOR y) XOR drop_bit n (x XOR y) = (x XOR drop_bit n x) XOR (y XOR drop_bit n y)"
    by (rule bit_word_eqI) (auto simp: bit_simps)
  also have "\<dots> = 0" unfolding assms(1) by (rule xor_self_eq)
  finally have "x XOR y = 0" using assms(2) by (rule xor_drop_bit_zero)
  then show ?thesis by (rule xor_zero_eq)
qed

lemma next_seed_inj:
  assumes "x \<noteq> 0" "y \<noteq> 0" "CalculateNextSeed now x = CalculateNextSeed now' y"
  shows "x = y"
  by (rule xor_shift_inj [of _ 13], rule xor_drop_inj [of _ 17], rule xor_shift_inj [of _ 5])
    (use assms in \<open>simp_all only: CalculateNextSeed_def Let_def if_False\<close>)

lemma next_seed_zero:
  assumes "x \<noteq> 0"
  shows "CalculateNextSeed now x \<noteq> 0"
proof
  let ?s = "x XOR push_bit 13 x"
  assume "CalculateNextSeed now x = 0"
  then have "(?s XOR drop_bit 17 ?s) XOR push_bit 5 (?s XOR drop_bit 17 ?s) = 0"
    using assms by (simp only: CalculateNextSeed_def Let_def if_False)
  from xor_drop_bit_zero [OF xor_push_bit_zero [OF this]] have "?s = 0" by simp
  from xor_push_bit_zero [OF this] assms show False by simp
qed

text \<open>The seed the step starts from: the clock in place of the seed 0.\<close>

lemma next_seed_from: "CalculateNextSeed now x = CalculateNextSeed 0 (if x = 0 then now else x)"
  by (simp add: CalculateNextSeed_def)

lemma next_seed_zero_iff: "CalculateNextSeed now x = 0 \<longleftrightarrow> x = 0 \<and> now = 0"
  using next_seed_zero [of x now] next_seed_zero [of now 0] next_seed_from [of now x]
  by (cases "x = 0"; cases "now = 0") (simp_all add: CalculateNextSeed_def)

lemma next_seed_eq_iff:
  "CalculateNextSeed now x = CalculateNextSeed now' y \<longleftrightarrow> (if x = 0 then now else x) = (if y = 0 then now' else y)"
proof -
  have "CalculateNextSeed 0 a = CalculateNextSeed 0 b \<longleftrightarrow> a = b" for a b
    using next_seed_zero_iff [of 0 a] next_seed_zero_iff [of 0 b] next_seed_inj [of a b 0 0] by metis
  then show ?thesis unfolding next_seed_from [of now x] next_seed_from [of now' y] .
qed

text \<open>
  C39: The seeds of the random generator. A step from a seed other than 0 ignores the clock, a step from 0,
  the initial seed, starts from the clock instead. The next seed is 0 exactly if seed and clock are both 0;
  two steps give the same seed exactly if they start from the same value in this sense. So among the
  seeds other than 0 two different ones never meet and 0 is never reached, while at clock 0 the generator
  stays at 0, and the seed 0 meets the seed that equals the clock.
\<close>

theorem random_seeds_never_meet:
  "(CalculateNextSeed now x = 0 \<longleftrightarrow> x = 0 \<and> now = 0) \<and>
   (CalculateNextSeed now x = CalculateNextSeed now' y \<longleftrightarrow> (if x = 0 then now else x) = (if y = 0 then now' else y))"
  using next_seed_zero_iff [of now x] next_seed_eq_iff [of now x now' y] by blast

subsection \<open>Quality of service\<close>

text \<open>
  The attributes of the object and the active set of values are cells of the data store: cell \<open>n\<close> of the
  latter inherits from attribute \<open>n\<close> (2 event, 3 general, 4 urgent, 5 scheduled, 6 high, 7 low, 8 explicit).
\<close>

definition s_qos :: "nat \<Rightarrow> nat" where "s_qos attribute = 63000 + attribute"
definition s_active_dscp :: "nat \<Rightarrow> nat" where "s_active_dscp attribute = 63100 + attribute"

abbreviation (input) kCipQoSClassCode :: CipUdint where "kCipQoSClassCode \<equiv> 0x48"
abbreviation (input) DecQoSAttribute :: decode_function where "DecQoSAttribute \<equiv> DecOther 30"

fun default_dscp :: "nat \<Rightarrow> CipUsint" where
  "default_dscp n = (if n = 2 then 59 else if n = 3 then 47 else if n = 4 then 55 else if n = 5 then 47
     else if n = 6 then 43 else if n = 7 then 31 else 27)"

definition DecodeCipQoSAttribute :: "cip_value \<Rightarrow> CipMessageRouterRequest \<Rightarrow> CipMessageRouterResponse \<Rightarrow> decode_result" where
  "DecodeCipQoSAttribute data req resp = do {
     (received, r) \<leftarrow> GetUsintFromMessage (req_data req);
     let req = req\<lparr>req_data := r\<rparr>;
     if received < 64 then Some (V8 received, req, resp\<lparr>general_status := kCipErrorSuccess\<rparr>, 1)
     else Some (data, req, resp\<lparr>general_status := 0x09\<rparr>, - 1) }"

definition CipQosGetDscpPriority :: "ConnectionObjectPriority \<Rightarrow> 'e cip_state_scheme \<Rightarrow> CipUsint run" where
  "CipQosGetDscpPriority priority st = do {
     v \<leftarrow> data_store st (s_active_dscp (case priority of
       kConnectionObjectPriorityLow \<Rightarrow> 7 | kConnectionObjectPriorityHigh \<Rightarrow> 6 | kConnectionObjectPriorityScheduled \<Rightarrow> 5
       | kConnectionObjectPriorityUrgent \<Rightarrow> 4 | kConnectionObjectPriorityExplicit \<Rightarrow> 8));
     get8 v }"

definition CipQosUpdateUsedSetQosValues :: "'e cip_state_scheme \<Rightarrow> 'e cip_state_scheme" where
  "CipQosUpdateUsedSetQosValues st = st\<lparr>data_store := (\<lambda>c.
     if s_active_dscp 2 \<le> c \<and> c \<le> s_active_dscp 8 then data_store st (c - 100) else data_store st c)\<rparr>"

definition CipQosResetAttributesToDefaultValues :: "'e cip_state_scheme \<Rightarrow> 'e cip_state_scheme" where
  "CipQosResetAttributesToDefaultValues st = st\<lparr>data_store := (\<lambda>c.
     if c = s_qos 1 then Some (V8 0)
     else if s_qos 2 \<le> c \<and> c \<le> s_qos 8 then Some (V8 (default_dscp (c - s_qos 0))) else data_store st c)\<rparr>"

definition CipQoSInit :: "'e cip_state_scheme \<Rightarrow> (EipStatus \<times> 'e cip_state_scheme) run" where
  "CipQoSInit st = do {
     st \<leftarrow> CreateCipClass kCipQoSClassCode 7 7 2 8 8 2 1 1 None st;
     st \<leftarrow> update_class kCipQoSClassCode (insert_attributes 1
       ([(n, kCipUsint, EncCipUsint, None, s_qos (unat n), kNotSetOrGetable). n \<leftarrow> [1, 2, 3]] @
        [(n, kCipUsint, EncCipUsint, Some DecQoSAttribute, s_qos (unat n), kGetableSingle OR kSetable OR kNvDataFunc). n \<leftarrow> [4, 5, 6, 7, 8]])) st;
     st \<leftarrow> update_class kCipQoSClassCode (insert_services
       [(kGetAttributeSingle, SvcGetAttributeSingle), (kSetAttributeSingle, SvcSetAttributeSingle)]) st;
     Some (kEipStatusOk, st) }"

subsection \<open>Device level ring\<close>

definition s_dlr :: "nat \<Rightarrow> nat" where "s_dlr attribute = 64000 + attribute"

abbreviation (input) kCipDlrClassCode :: CipUdint where "kCipDlrClassCode \<equiv> 0x47"
abbreviation (input) EncRingSupervisorConfig :: encode_function where "EncRingSupervisorConfig \<equiv> EncOther 40"
abbreviation (input) EncNodeAddress :: encode_function where "EncNodeAddress \<equiv> EncOther 41"

definition EncodeCipRingSupervisorConfig :: "ENIPMessage \<Rightarrow> ENIPMessage run" where
  "EncodeCipRingSupervisorConfig m = FillNextNMessageOctetsWithValueAndMoveToNextPosition 0 12 m"

definition EncodeCipNodeAddress :: "CipUdint \<times> CipOctet list \<Rightarrow> ENIPMessage \<Rightarrow> ENIPMessage run" where
  "EncodeCipNodeAddress node m = do {
     m \<leftarrow> AddDintToMessage (fst node) m;
     (mac, _) \<leftarrow> read_bytes 6 (snd node);
     emit mac m }"

text \<open>The constants behind the attributes that only fill the reply to GetAttributeAll are cells of their own.\<close>

definition CipDlrInit :: "'e cip_state_scheme \<Rightarrow> (EipStatus \<times> 'e cip_state_scheme) run" where
  "CipDlrInit st = do {
     st \<leftarrow> CreateCipClass kCipDlrClassCode 0 7 2 11 12 2 1 3 None st;
     st \<leftarrow> update_class kCipDlrClassCode (insert_services
       [(kGetAttributeSingle, SvcGetAttributeSingle), (kGetAttributeAll, SvcGetAttributeAll)]) st;
     st \<leftarrow> update_class kCipDlrClassCode (insert_attributes 1
       [(1, kCipUsint, EncCipUsint, None, s_dlr 1, kGetableSingleAndAll),
        (2, kCipUsint, EncCipUsint, None, s_dlr 2, kGetableSingleAndAll),
        (3, kCipUsint, EncCipUsint, None, s_dlr 3, kGetableAll),
        (4, kCipAny, EncRingSupervisorConfig, None, s_dlr 4, kGetableAllDummy),
        (5, kCipUint, EncCipUint, None, s_dlr 5, kGetableAll),
        (6, kCipAny, EncNodeAddress, None, s_dlr 6, kGetableAll),
        (7, kCipAny, EncNodeAddress, None, s_dlr 6, kGetableAll),
        (8, kCipUint, EncCipUint, None, s_dlr 8, kGetableAll),
        (10, kCipAny, EncNodeAddress, None, s_dlr 10, kGetableSingleAndAll),
        (11, kCipUsint, EncCipUsint, None, s_dlr 11, kGetableAll),
        (12, kCipDword, EncCipDword, None, s_dlr 12, kGetableSingleAndAll)]) st;
     Some (kEipStatusOk, st\<lparr>data_store := (data_store st)(s_dlr 12 \<mapsto> V32 (0x02 OR 0x80))\<rparr>) }"

subsection \<open>Ethernet link\<close>

record CipEthernetLinkMetaInterfaceCapability =
  capability_bits :: CipDword
  speed_duplex_selector :: CipUint

record CipEthernetLinkInterfaceControl =
  control_bits :: CipWord
  forced_interface_speed :: CipUint

definition speed_duplex_table :: "(CipUint \<times> CipUsint) list" where
  "speed_duplex_table = [(10, 0), (10, 1), (100, 0), (100, 1), (1000, 0), (1000, 1)]"

fun encode_counters :: "CipUdint list \<Rightarrow> ENIPMessage \<Rightarrow> ENIPMessage run" where
  "encode_counters [] m = Some m"
| "encode_counters (c # cs) m = do { m \<leftarrow> AddDintToMessage c m; encode_counters cs m }"

definition EncodeCipEthernetLinkInterfaceCounters :: "CipUdint list \<Rightarrow> ENIPMessage \<Rightarrow> ENIPMessage run" where
  "EncodeCipEthernetLinkInterfaceCounters cntr32 m = do { (cs, _) \<leftarrow> read_bytes 11 cntr32; encode_counters cs m }"

definition EncodeCipEthernetLinkMediaCounters :: "CipUdint list \<Rightarrow> ENIPMessage \<Rightarrow> ENIPMessage run" where
  "EncodeCipEthernetLinkMediaCounters cntr32 m = do { (cs, _) \<leftarrow> read_bytes 12 cntr32; encode_counters cs m }"

definition EncodeCipEthernetLinkInterfaceControl :: "CipEthernetLinkInterfaceControl \<Rightarrow> ENIPMessage \<Rightarrow> ENIPMessage run" where
  "EncodeCipEthernetLinkInterfaceControl c m = do {
     m \<leftarrow> AddIntToMessage (control_bits c) m;
     AddIntToMessage (forced_interface_speed c) m }"

text \<open>The loop that clears the lowest bit that is set.\<close>

lemma clear_lowest_bit: "x \<noteq> 0 \<Longrightarrow> unat (x AND (x - 1)) < unat x" for x :: CipUint
proof -
  assume x: "x \<noteq> 0"
  have "unat (x AND (x - 1)) \<le> unat (x - 1)"
    by (metis and.commute unsigned_and_eq and_nat_def and_less_eq nat_int word_less_eq_iff_unsigned word_and_le2 word_le_nat_alt)
  also have "\<dots> < unat x" using x measure_unat by blast
  finally show ?thesis .
qed

function count_selected :: "CipUint \<Rightarrow> CipUsint \<Rightarrow> CipUsint" where
  "count_selected selected count = (if selected = 0 then count else count_selected (selected AND (selected - 1)) (count + 1))"
  by pat_completeness auto

termination
  by (relation "measure (\<lambda>(s, _). unat s)") (simp_all add: clear_lowest_bit)

fun encode_selected :: "CipUint \<Rightarrow> nat \<Rightarrow> (CipUint \<times> CipUsint) list \<Rightarrow> ENIPMessage \<Rightarrow> ENIPMessage run" where
  "encode_selected selector i [] m = Some m"
| "encode_selected selector i ((speed, duplex) # rest) m = do {
     m \<leftarrow> (if bit selector i then do { m \<leftarrow> AddIntToMessage speed m; AddSintToMessage duplex m } else Some m);
     encode_selected selector (Suc i) rest m }"

definition EncodeCipEthernetLinkInterfaceCaps :: "CipEthernetLinkMetaInterfaceCapability \<Rightarrow> ENIPMessage \<Rightarrow> ENIPMessage run" where
  "EncodeCipEthernetLinkInterfaceCaps caps m = do {
     m \<leftarrow> AddDintToMessage (capability_bits caps) m;
     m \<leftarrow> AddSintToMessage (count_selected (speed_duplex_selector caps) 0) m;
     encode_selected (speed_duplex_selector caps) 0 speed_duplex_table m }"


subsection \<open>The Ethernet link class\<close>

text \<open>
  The single instance keeps its attributes in the data store; attribute 8 shows the interface state, attribute 9
  a constant 0 and attribute 6 a constant pair of zeros.
\<close>

definition s_ethernet_link :: "nat \<Rightarrow> nat" where "s_ethernet_link attribute = 65000 + attribute"

abbreviation (input) kCipEthernetLinkClassCode :: CipUdint where "kCipEthernetLinkClassCode \<equiv> 0xF6"
abbreviation (input) kEthLinkGetAndClear :: CipUsint where "kEthLinkGetAndClear \<equiv> 0x4C"
abbreviation (input) SvcGetAttributeAllEthernetLink :: service_function where "SvcGetAttributeAllEthernetLink \<equiv> SvcOther 40"
abbreviation (input) SvcGetAndClearEthernetLink :: service_function where "SvcGetAndClearEthernetLink \<equiv> SvcOther 41"
abbreviation (input) EncInterfaceCounters :: encode_function where "EncInterfaceCounters \<equiv> EncOther 50"
abbreviation (input) EncMediaCounters :: encode_function where "EncMediaCounters \<equiv> EncOther 51"
abbreviation (input) EncInterfaceControl :: encode_function where "EncInterfaceControl \<equiv> EncOther 52"
abbreviation (input) EncInterfaceCaps :: encode_function where "EncInterfaceCaps \<equiv> EncOther 53"

text \<open>The loop over the slots of the attribute array, in the order of insertion.\<close>

fun ethernet_link_all :: "'e cip_state_scheme cip_env \<Rightarrow> instance_ref \<Rightarrow> nat \<Rightarrow> nat \<Rightarrow> CipMessageRouterRequest \<Rightarrow>
    ENIPMessage \<Rightarrow> 'e cip_state_scheme \<Rightarrow> (CipMessageRouterRequest \<times> ENIPMessage \<times> 'e cip_state_scheme) run" where
  "ethernet_link_all env inst j 0 req m st = Some (req, m, st)"
| "ethernet_link_all env inst j (Suc left) req m st = do {
     a \<leftarrow> attribute_at inst j st;
     c \<leftarrow> class_at inst st;
     flagged \<leftarrow> mask_bit (get_all_bit_mask c) (attr_number a);
     (req, m, st) \<leftarrow> (if flagged then do {
         let n = attr_number a;
         let req = req\<lparr>request_path := (request_path req)\<lparr>attribute_number := n\<rparr>\<rparr>;
         st \<leftarrow> call_get_set env (attribute_flags a AND kPreGetFunc \<noteq> 0) (PreGetCallback c) inst n (req_service req) st;
         m \<leftarrow> encode_attribute env a st m;
         st \<leftarrow> call_get_set env (attribute_flags a AND kPostGetFunc \<noteq> 0) (PostGetCallback c) inst n (req_service req) st;
         Some (req, m, st) }
       else Some (req, m, st));
     ethernet_link_all env inst (Suc j) left req m st }"

definition GetAttributeAllEthernetLink :: "'e cip_state_scheme cip_env \<Rightarrow> instance_ref \<Rightarrow> CipMessageRouterRequest \<Rightarrow>
    CipMessageRouterResponse \<Rightarrow> 'e cip_state_scheme \<Rightarrow> 'e cip_state_scheme service_result" where
  "GetAttributeAllEthernetLink env inst req resp st = do {
     let resp = resp\<lparr>message := InitializeENIPMessage (message resp)\<rparr>;
     c \<leftarrow> class_at inst st;
     if number_of_attributes c = 0 then
       Some (kEipStatusOkSend, req, resp\<lparr>reply_service := reply_code (req_service req),
         general_status := kCipErrorServiceNotSupported, size_of_additional_status := 0\<rparr>, st)
     else do {
       let resp = (GenerateGetAttributeSingleHeader req resp)\<lparr>general_status := kCipErrorSuccess\<rparr>;
       (req, m, st) \<leftarrow> ethernet_link_all env inst 0 (unat (number_of_attributes c)) req (message resp) st;
       Some (kEipStatusOkSend, req, resp\<lparr>message := m\<rparr>, st) } }"

definition GetAndClearEthernetLink :: "'e cip_state_scheme cip_env \<Rightarrow> instance_ref \<Rightarrow> CipMessageRouterRequest \<Rightarrow>
    CipMessageRouterResponse \<Rightarrow> 'e cip_state_scheme \<Rightarrow> 'e cip_state_scheme service_result" where
  "GetAndClearEthernetLink env inst req resp st = do {
     let n = attribute_number (request_path req);
     slot \<leftarrow> find_attribute inst n st;
     let resp = resp\<lparr>reply_service := reply_code (req_service req),
       general_status := kCipErrorAttributeNotSupported, size_of_additional_status := 0\<rparr>;
     (case slot of
        None \<Rightarrow> Some (kEipStatusOkSend, req, resp, st)
      | Some i \<Rightarrow> do {
          a \<leftarrow> attribute_at inst i st;
          c \<leftarrow> class_at inst st;
          if attr_data a = None \<or> attr_encode a = None then Some (kEipStatusOkSend, req, resp, st)
          else do {
            st \<leftarrow> call_get_set env (attribute_flags a AND kPreGetFunc \<noteq> 0) (PreGetCallback c) inst n (req_service req) st;
            m \<leftarrow> encode_attribute env a st (message resp);
            let resp = resp\<lparr>message := m, general_status := kCipErrorSuccess\<rparr>;
            st \<leftarrow> call_get_set env (attribute_flags a AND kPostGetFunc \<noteq> 0) (PostGetCallback c) inst n (req_service req) st;
            Some (kEipStatusOkSend, req, resp, st) } }) }"

definition CipEthernetLinkSetInterfaceState :: "CipInstanceNum \<Rightarrow> CipUsint \<Rightarrow> 'e cip_state_scheme \<Rightarrow> 'e cip_state_scheme" where
  "CipEthernetLinkSetInterfaceState inst state st =
     (if inst = 0 \<or> inst > 1 then st else st\<lparr>data_store := (data_store st)(s_ethernet_link 8 \<mapsto> V8 state)\<rparr>)"

text \<open>The counters keep the values they have; the label of a link without a label is the empty string.\<close>

definition CipEthernetLinkInit :: "'e cip_state_scheme \<Rightarrow> (EipStatus \<times> 'e cip_state_scheme) run" where
  "CipEthernetLinkInit st = do {
     st \<leftarrow> CreateCipClass kCipEthernetLinkClassCode 0 7 2 11 11 3 1 4 None st;
     let st = st\<lparr>data_store := (data_store st)(s_ethernet_link 1 \<mapsto> V32 100, s_ethernet_link 2 \<mapsto> V32 0xF,
       s_ethernet_link 7 \<mapsto> V8 2, s_ethernet_link 8 \<mapsto> V8 0,
       s_ethernet_link 11 \<mapsto> VOctets [0x02, 0, 0, 0, 0x08, 0])\<rparr>;
     st \<leftarrow> update_class kCipEthernetLinkClassCode (insert_services
       [(kGetAttributeSingle, SvcGetAttributeSingle), (kGetAttributeAll, SvcGetAttributeAllEthernetLink),
        (kEthLinkGetAndClear, SvcGetAndClearEthernetLink)]) st;
     st \<leftarrow> update_class kCipEthernetLinkClassCode (insert_attributes 1
       [(1, kCipUdint, EncCipUdint, None, s_ethernet_link 1, kGetableSingleAndAll),
        (2, kCipDword, EncCipDword, None, s_ethernet_link 2, kGetableSingleAndAll),
        (3, kCip6Usint, EncPhysicalAddress, None, s_ethernet_link 3, kGetableSingleAndAll),
        (4, kCipAny, EncInterfaceCounters, None, s_ethernet_link 4, kGetableSingleAndAll),
        (5, kCipAny, EncMediaCounters, None, s_ethernet_link 5, kGetableSingleAndAll),
        (6, kCipAny, EncInterfaceControl, None, s_ethernet_link 6, kGetableAll),
        (7, kCipUsint, EncCipUsint, None, s_ethernet_link 7, kGetableSingleAndAll),
        (8, kCipUsint, EncCipUsint, None, s_ethernet_link 8, kGetableAllDummy),
        (9, kCipUsint, EncCipUsint, None, s_ethernet_link 9, kGetableAllDummy),
        (10, kCipShortString, EncCipShortString, None, s_ethernet_link 10, kGetableAll),
        (11, kCipAny, EncInterfaceCaps, None, s_ethernet_link 11, kGetableSingleAndAll)]) st;
     Some (kEipStatusOk, st) }"

definition CipEthernetLinkSetMac :: "CipOctet list \<Rightarrow> 'e cip_state_scheme \<Rightarrow> 'e cip_state_scheme run" where
  "CipEthernetLinkSetMac p_physical_address st = do {
     (mac, _) \<leftarrow> read_bytes 6 p_physical_address;
     Some (st\<lparr>data_store := (data_store st)(s_ethernet_link 3 \<mapsto> VOctets mac)\<rparr>) }"

text \<open>The capability attribute is a structure of a 32-bit and a 16-bit member, stored little-endian.\<close>

definition caps_of :: "CipOctet list \<Rightarrow> CipEthernetLinkMetaInterfaceCapability run" where
  "caps_of bs = do {
     (bits, r) \<leftarrow> GetUdintFromMessage bs;
     (selector, _) \<leftarrow> GetUintFromMessage r;
     Some \<lparr>capability_bits = bits, speed_duplex_selector = selector\<rparr> }"

subsection \<open>Assemblies\<close>

text \<open>
  The byte array of assembly \<open>n\<close> is a cell of the data store. Attribute 4 points at its length, which nothing
  changes after the creation; it is a cell beside it.
\<close>

definition s_assembly :: "CipInstanceNum \<Rightarrow> nat" where "s_assembly n = 200000 + 2 * unat n"

abbreviation (input) kCipErrorInvalidAttributeValue :: CipUsint where "kCipErrorInvalidAttributeValue \<equiv> 0x09"
abbreviation (input) DecAssemblyAttribute3 :: decode_function where "DecAssemblyAttribute3 \<equiv> DecOther 60"
abbreviation (input) CbAssemblyPreGet :: nat where "CbAssemblyPreGet \<equiv> 60"
abbreviation (input) CbAssemblyPostSet :: nat where "CbAssemblyPostSet \<equiv> 61"

definition AfterAssemblyDataReceived :: "instance_ref \<Rightarrow> EipStatus" where
  "AfterAssemblyDataReceived inst = kEipStatusOk"

definition BeforeAssemblyDataSend :: "instance_ref \<Rightarrow> bool" where
  "BeforeAssemblyDataSend inst = True"

definition CreateAssemblyClass :: "'e cip_state_scheme \<Rightarrow> 'e cip_state_scheme run" where
  "CreateAssemblyClass st = do {
     st \<leftarrow> CreateCipClass kCipAssemblyClassCode 0 7 1 2 4 2 0 2 None st;
     st \<leftarrow> update_class kCipAssemblyClassCode (insert_services
       [(kGetAttributeSingle, SvcGetAttributeSingle), (kSetAttributeSingle, SvcSetAttributeSingle)]) st;
     update_class kCipAssemblyClassCode (on_cip_class (\<lambda>c. Some (InsertGetSetCallback CbAssemblyPostSet kPostSetFunc
       (InsertGetSetCallback CbAssemblyPreGet kPreGetFunc c)))) st }"

definition CipAssemblyInitialize :: "'e cip_state_scheme \<Rightarrow> (EipStatus \<times> 'e cip_state_scheme) run" where
  "CipAssemblyInitialize st = do { st \<leftarrow> CreateAssemblyClass st; Some (kEipStatusOk, st) }"

definition CreateAssemblyObject :: "CipInstanceNum \<Rightarrow> CipOctet list \<Rightarrow> CipUint \<Rightarrow> 'e cip_state_scheme \<Rightarrow>
    (CipInstanceNum \<times> 'e cip_state_scheme) run" where
  "CreateAssemblyObject instance_id data data_length st = do {
     st \<leftarrow> (if GetCipClass kCipAssemblyClassCode st = None then CreateAssemblyClass st else Some st);
     ob \<leftarrow> GetCipClass kCipAssemblyClassCode st;
     (n, ob) \<leftarrow> AddCipInstance instance_id ob;
     let st = st\<lparr>data_store := (data_store st)(s_assembly n \<mapsto> VByteArray \<lparr>ba_length = data_length, ba_data = data\<rparr>,
       s_assembly n + 1 \<mapsto> V16 data_length)\<rparr>;
     ob \<leftarrow> insert_attributes n
       [(3, kCipByteArray, EncCipByteArray, Some DecAssemblyAttribute3, s_assembly n, kSetAndGetAble OR kPreGetFunc OR kPostSetFunc),
        (4, kCipUint, EncCipUint, None, s_assembly n + 1, kGetableSingle)] ob;
     st \<leftarrow> update_class kCipAssemblyClassCode (\<lambda>_. Some ob) st;
     Some (n, st) }"

fun DecodeCipAssemblyAttribute3 ::
    "instance_ref \<Rightarrow> cip_value \<Rightarrow> CipMessageRouterRequest \<Rightarrow> CipMessageRouterResponse \<Rightarrow> decode_result" where
  "DecodeCipAssemblyAttribute3 inst (VByteArray a) req resp =
     (if request_data_size req < ucast (ba_length a)
      then Some (VByteArray a, req, resp\<lparr>general_status := kCipErrorNotEnoughData\<rparr>, - 1)
      else if request_data_size req > ucast (ba_length a)
      then Some (VByteArray a, req, resp\<lparr>general_status := kCipErrorTooMuchData\<rparr>, - 1)
      else do {
        (bs, _) \<leftarrow> read_bytes (unat (ba_length a)) (req_data req);
        buf \<leftarrow> write_at (ba_data a) 0 bs;
        Some (VByteArray (a\<lparr>ba_data := buf\<rparr>), req, resp\<lparr>general_status :=
          (if AfterAssemblyDataReceived inst \<noteq> kEipStatusOk then kCipErrorInvalidAttributeValue else kCipErrorSuccess)\<rparr>,
          int (unat (ba_length a))) })"
| "DecodeCipAssemblyAttribute3 inst _ req resp = None"

definition AssemblyPreGetCallback :: "instance_ref \<Rightarrow> bool" where
  "AssemblyPreGetCallback inst = BeforeAssemblyDataSend inst"

definition AssemblyPostSetCallback :: "instance_ref \<Rightarrow> EipStatus" where
  "AssemblyPostSetCallback inst = AfterAssemblyDataReceived inst"

end
