(* ===== verification/NetworkHandler.thy ===== *)
theory NetworkHandler
  imports ConnectedRequests SessionTable TcpIpInterface LinkObjects
begin

text \<open>
  The network handler of \<^verbatim>\<open>ports/generic_networkhandler.c\<close>: it opens the listening sockets, waits for traffic,
  takes datagrams and stream data from the sockets, hands them to the encapsulation layer and to the connection
  manager, sends the replies, ends inactive sessions and drives the timers. What the operating system answers is
  an argument: a function for each kind of call, applied to the number of calls made before.
\<close>

subsection \<open>The operating system\<close>

text \<open>
  A receive call delivers octets, none of them when the peer has closed the connection, or fails; of what is
  waiting it delivers at most as many octets as asked for. \<^verbatim>\<open>select\<close> reports the readable sockets.
\<close>

datatype received = Octets "CipOctet list" | WouldBlock | Failed
datatype selected = Interrupted | SelectFailed | Ready "int set"

record net_env = os_env +
  os_open :: "nat \<Rightarrow> int"
  os_succeeds :: "nat \<Rightarrow> bool"
  os_select :: "nat \<Rightarrow> selected"
  os_accept :: "nat \<Rightarrow> int"
  os_recv :: "nat \<Rightarrow> received"
  os_recvfrom :: "nat \<Rightarrow> received \<times> sockaddr_in"
  os_send :: "nat \<Rightarrow> int"
  os_peer_port :: "int \<Rightarrow> CipUint"
  os_time :: "nat \<Rightarrow> MilliSeconds"

fun at_most :: "nat \<Rightarrow> received \<Rightarrow> received" where
  "at_most n (Octets bs) = Octets (take n bs)"
| "at_most n r = r"

text \<open>
  The variables of the network handler. \<open>tcpip_object\<close> is \<^verbatim>\<open>g_tcpip\<close>; the timeout checkers are the numbers of
  functions the environment provides.
\<close>

record network_state = encap_state +
  read_socket :: "int set"
  tcp_listener :: int
  udp_unicast_listener :: int
  udp_global_broadcast_listener :: int
  elapsed_time :: MilliSeconds
  g_last_time :: MilliSeconds
  tcpip_object :: CipTcpIpObject
  timeout_checker_array :: "nat option list"

abbreviation (input) kOpenerTimerTickInMilliSeconds :: MilliSeconds where "kOpenerTimerTickInMilliSeconds \<equiv> 10"

definition recv :: "net_env \<Rightarrow> nat \<Rightarrow> 'e stack_state_scheme \<Rightarrow> received \<times> 'e stack_state_scheme" where
  "recv os n st = (at_most n (os_recv os (os_calls st)), next_call st)"

definition recvfrom :: "net_env \<Rightarrow> 'e stack_state_scheme \<Rightarrow> received \<times> sockaddr_in \<times> 'e stack_state_scheme" where
  "recvfrom os st = (let (r, a) = os_recvfrom os (os_calls st) in (at_most PC_OPENER_ETHERNET_BUFFER_SIZE r, a, next_call st))"

text \<open>A receive buffer: an array of zeros with the octets received at its start.\<close>

definition receive_buffer :: "CipOctet list \<Rightarrow> CipOctet list run" where
  "receive_buffer bs = write_at (replicate PC_OPENER_ETHERNET_BUFFER_SIZE 0) 0 bs"

subsection \<open>Start\<close>

definition GetMaxSocket :: "int \<Rightarrow> int \<Rightarrow> int \<Rightarrow> int \<Rightarrow> int" where
  "GetMaxSocket socket1 socket2 socket3 socket4 =
     (if socket1 > socket2 \<and> socket1 > socket3 \<and> socket1 > socket4 then socket1
      else if socket2 > socket1 \<and> socket2 > socket3 \<and> socket2 > socket4 then socket2
      else if socket3 > socket1 \<and> socket3 > socket2 \<and> socket3 > socket4 then socket3
      else socket4)"

text \<open>A call whose failure ends the initialisation, and a call whose result is only reported.\<close>

definition required :: "net_env \<Rightarrow> ('e stack_state_scheme \<Rightarrow> (EipStatus \<times> 'e stack_state_scheme) run) \<Rightarrow>
    'e stack_state_scheme \<Rightarrow> (EipStatus \<times> 'e stack_state_scheme) run" where
  "required os rest st = (if os_succeeds os (os_calls st) then rest (next_call st) else Some (kEipStatusError, next_call st))"

definition open_socket :: "net_env \<Rightarrow> 'e stack_state_scheme \<Rightarrow> int \<times> 'e stack_state_scheme" where
  "open_socket os st = (os_open os (os_calls st), next_call st)"

definition set_explicit_qos :: "net_env \<Rightarrow> 'e stack_state_scheme \<Rightarrow> 'e stack_state_scheme run" where
  "set_explicit_qos os st = do { _ \<leftarrow> CipQosGetDscpPriority kConnectionObjectPriorityExplicit st; Some (next_call st) }"

definition listen_on_sockets :: "net_env \<Rightarrow> 'e network_state_scheme \<Rightarrow> (EipStatus \<times> 'e network_state_scheme) run" where
  "listen_on_sockets os st = do {
     let st = st\<lparr>master_socket := master_socket st \<union> {tcp_listener st, udp_unicast_listener st, udp_global_broadcast_listener st},
       highest_socket_handle := GetMaxSocket (tcp_listener st) (udp_global_broadcast_listener st) 0 (udp_unicast_listener st)\<rparr>;
     let st = next_call (st\<lparr>g_last_time := os_time os (os_calls st), elapsed_time := 0\<rparr>);
     Some (kEipStatusOk, st\<lparr>g_network_interface_counters := NetworkResetInterfaceCounters\<rparr>) }"

text \<open>
  The options and addresses of the sockets, in the order of the calls: reuse and non-blocking mode of the
  broadcast and of the unicast listener, the two bindings, the broadcast option, its binding, and the TCP backlog.
\<close>

definition configure_sockets :: "net_env \<Rightarrow> 'e network_state_scheme \<Rightarrow> (EipStatus \<times> 'e network_state_scheme) run" where
  "configure_sockets os =
     required os (required os (required os (required os (required os (required os (\<lambda>st. do {
       st \<leftarrow> set_explicit_qos os st;
       required os (required os (\<lambda>st. do {
         st \<leftarrow> set_explicit_qos os st;
         st \<leftarrow> set_explicit_qos os st;
         required os (listen_on_sockets os) st })) st }))))))"

definition NetworkHandlerInitialize :: "net_env \<Rightarrow> 'e network_state_scheme \<Rightarrow> (EipStatus \<times> 'e network_state_scheme) run" where
  "NetworkHandlerInitialize os st = do {
     let st = st\<lparr>g_timestamps := SocketTimerArrayInitialize (g_timestamps st)\<rparr>;
     let st = CipQosUpdateUsedSetQosValues st;
     let t = CipTcpIpCalculateMulticastIp (tcpip_object st);
     let c = interface_configuration t;
     let st = st\<lparr>tcpip_object := t, starting_multicast_address := mc_starting_multicast_address (mcast_config t),
       network_ip_address := if_ip_address c, network_mask := if_network_mask c\<rparr>;
     let st = EncapsulationInit st;
     let st = st\<lparr>master_socket := {}, read_socket := {}\<rparr>;
     let (s, st) = open_socket os st;
     let st = st\<lparr>tcp_listener := s\<rparr>;
     if s = - 1 then Some (kEipStatusError, st)
     else required os (required os (\<lambda>st. do {
       let (s, st) = open_socket os st;
       let st = st\<lparr>udp_global_broadcast_listener := s\<rparr>;
       if s = kEipInvalidSocket then Some (kEipStatusError, st)
       else do {
         let (s, st) = open_socket os st;
         let st = st\<lparr>udp_unicast_listener := s\<rparr>;
         if s = kEipInvalidSocket then Some (kEipStatusError, st)
         else configure_sockets os st } })) st }"

definition NetworkHandlerFinish :: "'e network_state_scheme \<Rightarrow> (EipStatus \<times> 'e network_state_scheme) run" where
  "NetworkHandlerFinish st = do {
     st \<leftarrow> CloseTcpSocket (tcp_listener st) st;
     let st = CloseUdpSocket (udp_unicast_listener st) st;
     let st = CloseUdpSocket (udp_global_broadcast_listener st) st;
     Some (kEipStatusOk, st) }"

definition RegisterTimeoutChecker :: "nat \<Rightarrow> 'e network_state_scheme \<Rightarrow> 'e network_state_scheme" where
  "RegisterTimeoutChecker f st = (case first_index (\<lambda>c. c = None) (timeout_checker_array st) of
       Some i \<Rightarrow> st\<lparr>timeout_checker_array := (timeout_checker_array st)[i := Some f]\<rparr>
     | None \<Rightarrow> st)"

subsection \<open>Listening sockets\<close>

definition CheckSocketSet :: "int \<Rightarrow> 'e network_state_scheme \<Rightarrow> bool \<times> 'e network_state_scheme" where
  "CheckSocketSet s st =
     (if s \<in> read_socket st then (s \<in> master_socket st, st\<lparr>read_socket := read_socket st - {s}\<rparr>) else (False, st))"

text \<open>The option that turns off the delay of small segments is set without regard to the result.\<close>

definition CheckAndHandleTcpListenerSocket :: "net_env \<Rightarrow> 'e network_state_scheme \<Rightarrow> 'e network_state_scheme" where
  "CheckAndHandleTcpListenerSocket os st = (
     let (found, st) = CheckSocketSet (tcp_listener st) st
     in if found then
          let new_socket = os_accept os (os_calls st); st = next_call st
          in if new_socket = kEipInvalidSocket then st
             else let st = next_call st
               in if SocketTimerArrayGetEmptySocketTimer (g_timestamps st) = None
                  then note_event (SocketClosed new_socket) (note_event (SocketShutDown new_socket) st)
                  else st\<lparr>master_socket := insert new_socket (master_socket st),
                    highest_socket_handle := max new_socket (highest_socket_handle st)\<rparr>
        else st)"

definition CheckAndHandleUdpGlobalBroadcastSocket :: "net_env \<Rightarrow> 'e network_state_scheme \<Rightarrow> 'e network_state_scheme run" where
  "CheckAndHandleUdpGlobalBroadcastSocket os st = (
     let (found, st) = CheckSocketSet (udp_global_broadcast_listener st) st
     in if found then
          (case recvfrom os st of
             (Octets bs, from_address, st) \<Rightarrow>
               if bs = [] then Some st
               else do {
                 buffer \<leftarrow> receive_buffer bs;
                 (need_to_send, remaining_bytes, m, st) \<leftarrow> HandleReceivedExplictUdpData (os_env.truncate os)
                   (udp_unicast_listener st) from_address buffer (of_nat (length bs)) False (InitializeENIPMessage zero_message) st;
                 Some (if need_to_send = kEipStatusOkSend
                   then next_call (note_event (DatagramSent from_address (sent_octets m)) st) else st) }
           | (_, _, st) \<Rightarrow> Some st)
        else Some st)"

text \<open>A datagram of length 0 is handed on.\<close>

definition CheckAndHandleUdpUnicastSocket :: "net_env \<Rightarrow> 'e network_state_scheme \<Rightarrow> 'e network_state_scheme run" where
  "CheckAndHandleUdpUnicastSocket os st = (
     let (found, st) = CheckSocketSet (udp_unicast_listener st) st
     in if found then
          (case recvfrom os st of
             (Octets bs, from_address, st) \<Rightarrow> do {
               let st = (if length bs \<ge> PC_OPENER_ETHERNET_BUFFER_SIZE then NetworkCountersRecordRxDiscard st else st);
               let st = (if length bs > 0 then NetworkCountersRecordRx (of_nat (length bs)) False st else st);
               buffer \<leftarrow> receive_buffer bs;
               (need_to_send, remaining_bytes, m, st) \<leftarrow> HandleReceivedExplictUdpData (os_env.truncate os)
                 (udp_unicast_listener st) from_address buffer (of_nat (length bs)) True (InitializeENIPMessage zero_message) st;
               if need_to_send = kEipStatusOkSend then do {
                 let sent_length = os_sendto os (os_calls st);
                 let st = next_call (note_event (DatagramSent from_address (sent_octets m)) st);
                 Some (if sent_length \<noteq> uint (used_message_length m) then NetworkCountersRecordTxError st
                   else NetworkCountersRecordTx (used_message_length m) False st) }
               else Some st }
           | (_, _, st) \<Rightarrow> Some (NetworkCountersRecordRxError st))
        else Some st)"

subsection \<open>Connected datagrams\<close>

text \<open>The successor of a node is read before its connection is handled. Data are taken from the one I/O socket.\<close>

partial_function (option) consume_from :: "net_env \<Rightarrow> nat option \<Rightarrow> 'e network_state_scheme \<Rightarrow> 'e network_state_scheme option" where
  "consume_from os node st = (case node of
       None \<Rightarrow> Some st
     | Some i \<Rightarrow> do {
         n \<leftarrow> array_get (nodes (connection_list st)) i;
         d \<leftarrow> node_data n;
         co \<leftarrow> get_connection d st;
         let (found, st) = (if socket_consuming co \<noteq> kEipInvalidSocket then CheckSocketSet (socket_consuming co) st else (False, st));
         if found then
           (case recvfrom os st of
              (Octets bs, from_address, st) \<Rightarrow>
                if bs = [] then do {
                  st \<leftarrow> call_close_function d (NetworkCountersRecordRxError (NetworkCountersRecordRxDiscard st));
                  consume_from os (next_node n) st }
                else do {
                  buffer \<leftarrow> receive_buffer bs;
                  (_, st) \<leftarrow> HandleReceivedConnectedData buffer (of_nat (length bs)) from_address
                    (NetworkCountersRecordRx (of_nat (length bs)) False st);
                  consume_from os (next_node n) st }
            | (WouldBlock, _, st) \<Rightarrow> Some st
            | (Failed, _, st) \<Rightarrow> do {
                st \<leftarrow> call_close_function d (NetworkCountersRecordRxError st);
                consume_from os (next_node n) st })
         else consume_from os (next_node n) st })"

definition CheckAndHandleConsumingUdpSocket :: "net_env \<Rightarrow> 'e network_state_scheme \<Rightarrow> 'e network_state_scheme run" where
  "CheckAndHandleConsumingUdpSocket os st = consume_from os (list_head st) st"

subsection \<open>Stream data\<close>

text \<open>
  The loop that drops a packet: \<open>data_size\<close> counts down modulo 2^32, and the first call asks for a whole buffer
  even when less is outstanding.
\<close>

partial_function (option) drop_packet :: "net_env \<Rightarrow> int \<Rightarrow> nat option \<Rightarrow> size_t \<Rightarrow> nat \<Rightarrow> 'e stack_state_scheme \<Rightarrow>
    (EipStatus \<times> 'e stack_state_scheme) option" where
  "drop_packet os s timer data_size limit st = (case recv os limit st of
       (Octets bs, st) \<Rightarrow>
         if bs = [] then do { st \<leftarrow> RemoveSocketTimerFromList s st; Some (kEipStatusError, st) }
         else do {
           let data_size = data_size - of_nat (length bs);
           let limit = (if data_size < of_nat PC_OPENER_ETHERNET_BUFFER_SIZE \<and> data_size \<noteq> 0 then unat data_size else limit);
           if 0 < data_size then drop_packet os s timer data_size limit st
           else do { st \<leftarrow> touch_timer timer st; Some (kEipStatusOk, st) } }
     | (WouldBlock, st) \<Rightarrow> Some (kEipStatusOk, st)
     | (Failed, st) \<Rightarrow> Some (kEipStatusError, st))"

definition peer_of :: "net_env \<Rightarrow> int \<Rightarrow> sockaddr_in" where
  "peer_of os s = (case os_getpeername os s of Some a \<Rightarrow> \<lparr>sin_port = os_peer_port os s, sin_addr = a\<rparr> | None \<Rightarrow> zero_sockaddr)"

definition send_reply :: "net_env \<Rightarrow> int \<Rightarrow> nat option \<Rightarrow> ENIPMessage \<Rightarrow> 'e stack_state_scheme \<Rightarrow> 'e stack_state_scheme run" where
  "send_reply os s timer m st = do {
     let data_sent = os_send os (os_calls st);
     let st = next_call (note_event (StreamSent s (sent_octets m)) st);
     st \<leftarrow> touch_timer timer st;
     let st = (if data_sent \<noteq> uint (used_message_length m) then NetworkCountersRecordTxDiscard st else st);
     Some (if data_sent > 0 then NetworkCountersRecordTx (word_of_int data_sent) False st else NetworkCountersRecordTxError st) }"

text \<open>What follows a packet that was received whole.\<close>

definition handle_frame :: "net_env \<Rightarrow> 'e encap_state_scheme cip_env \<Rightarrow> int \<Rightarrow> nat option \<Rightarrow> CipOctet list \<Rightarrow> size_t \<Rightarrow>
    'e encap_state_scheme \<Rightarrow> (EipStatus \<times> 'e encap_state_scheme) run" where
  "handle_frame os env s timer buffer data_size st = do {
     let st = (NetworkCountersRecordRx data_size False st)\<lparr>active_tcp_socket := s\<rparr>;
     (need_to_send, remaining_bytes, m, st) \<leftarrow>
       HandleReceivedExplictTcpData env s buffer data_size (peer_of os s) (InitializeENIPMessage zero_message) st;
     st \<leftarrow> touch_timer timer st;
     let st = st\<lparr>active_tcp_socket := kEipInvalidSocket\<rparr>;
     st \<leftarrow> (if need_to_send = kEipStatusOkSend then send_reply os s timer m st else Some st);
     Some (kEipStatusOk, st) }"

text \<open>
  One packet: four octets that hold the announced length, then the rest in one call. A packet that comes in more
  pieces is an error.
\<close>

definition HandleDataOnTcpSocket :: "net_env \<Rightarrow> 'e encap_state_scheme cip_env \<Rightarrow> int \<Rightarrow> 'e encap_state_scheme \<Rightarrow>
    (EipStatus \<times> 'e encap_state_scheme) run" where
  "HandleDataOnTcpSocket os env s st = (
     let (r, st) = recv os 4 st;
         timer = SocketTimerArrayGetSocketTimer (g_timestamps st) s
     in case r of
          WouldBlock \<Rightarrow> Some (kEipStatusOk, st)
        | Failed \<Rightarrow> Some (kEipStatusError, st)
        | Octets first \<Rightarrow>
            if first = [] then do {
              st \<leftarrow> RemoveSocketTimerFromList s st;
              st \<leftarrow> RemoveSession s st;
              Some (kEipStatusError, st) }
            else do {
              buffer \<leftarrow> receive_buffer first;
              (reported_length, _) \<leftarrow> GetUintFromMessage (drop 2 buffer);
              if reported_length > of_nat PC_OPENER_ETHERNET_BUFFER_SIZE + 4 then Some (kEipStatusError, st)
              else do {
                let data_size = (ucast reported_length :: size_t) + of_nat ENCAPSULATION_HEADER_LENGTH - 4;
                if of_nat PC_OPENER_ETHERNET_BUFFER_SIZE - 4 < data_size
                then drop_packet os s timer data_size PC_OPENER_ETHERNET_BUFFER_SIZE st
                else (case recv os (unat data_size) st of
                    (WouldBlock, st) \<Rightarrow> Some (kEipStatusOk, st)
                  | (Failed, st) \<Rightarrow> Some (kEipStatusError, st)
                  | (Octets rest, st) \<Rightarrow>
                      if rest = [] then do {
                        st \<leftarrow> RemoveSocketTimerFromList s st;
                        st \<leftarrow> RemoveSession s st;
                        Some (kEipStatusError, st) }
                      else do {
                        buffer \<leftarrow> write_at buffer 4 rest;
                        if of_nat (length rest) = data_size then handle_frame os env s timer buffer (data_size + 4) st
                        else Some (kEipStatusError, st) }) } })"

partial_function (option) serve_from :: "net_env \<Rightarrow> 'e network_state_scheme cip_env \<Rightarrow> int \<Rightarrow> 'e network_state_scheme \<Rightarrow>
    'e network_state_scheme option" where
  "serve_from os env s st = (
     if s \<le> highest_socket_handle st then do {
       let (found, st) = CheckSocketSet s st;
       st \<leftarrow> (if found then do {
           (status, st) \<leftarrow> HandleDataOnTcpSocket os env s st;
           if status = kEipStatusError then do { st \<leftarrow> CloseTcpSocket s st; RemoveSession s st } else Some st }
         else Some st);
       serve_from os env (s + 1) st }
     else Some st)"

subsection \<open>Inactive sessions\<close>

text \<open>\<^verbatim>\<open>GetSessionFromSocket\<close> returns the index of the session, one less than its handle.\<close>

definition CheckEncapsulationInactivity :: "int \<Rightarrow> 'e network_state_scheme \<Rightarrow> 'e network_state_scheme run" where
  "CheckEncapsulationInactivity socket_handle st = (
     let timeout = encapsulation_inactivity_timeout (tcpip_object st)
     in if 0 < timeout then
          (case SocketTimerArrayGetSocketTimer (g_timestamps st) socket_handle of
             None \<Rightarrow> Some st
           | Some i \<Rightarrow> do {
               t \<leftarrow> array_get (g_timestamps st) i;
               let diff_milliseconds = g_actual_time st - SocketTimerGetLastUpdate t;
               if diff_milliseconds \<ge> 1000 * ucast timeout then do {
                 st \<leftarrow> CloseClass3ConnectionBasedOnSession (GetSessionFromSocket socket_handle st) st;
                 st \<leftarrow> CloseTcpSocket socket_handle st;
                 RemoveSession socket_handle st }
               else Some st })
        else Some st)"

partial_function (option) check_inactivity_from :: "int \<Rightarrow> 'e network_state_scheme \<Rightarrow> 'e network_state_scheme option" where
  "check_inactivity_from s st = (
     if s \<le> highest_socket_handle st then do {
       st \<leftarrow> CheckEncapsulationInactivity s st;
       check_inactivity_from (s + 1) st }
     else Some st)"

subsection \<open>One pass\<close>

fun call_checkers :: "(nat \<Rightarrow> MilliSeconds \<Rightarrow> 's \<Rightarrow> 's run) \<Rightarrow> MilliSeconds \<Rightarrow> nat option list \<Rightarrow> 's \<Rightarrow> 's run" where
  "call_checkers checkers elapsed [] st = Some st"
| "call_checkers checkers elapsed (None # fs) st = call_checkers checkers elapsed fs st"
| "call_checkers checkers elapsed (Some f # fs) st = do { st \<leftarrow> checkers f elapsed st; call_checkers checkers elapsed fs st }"

definition handle_ready :: "net_env \<Rightarrow> 'e network_state_scheme cip_env \<Rightarrow> 'e network_state_scheme \<Rightarrow> 'e network_state_scheme run" where
  "handle_ready os env st = do {
     let st = CheckAndHandleTcpListenerSocket os st;
     st \<leftarrow> CheckAndHandleUdpUnicastSocket os st;
     st \<leftarrow> CheckAndHandleUdpGlobalBroadcastSocket os st;
     st \<leftarrow> CheckAndHandleConsumingUdpSocket os st;
     serve_from os env 0 st }"

definition keep_time :: "net_env \<Rightarrow> (nat \<Rightarrow> MilliSeconds \<Rightarrow> 'e network_state_scheme \<Rightarrow> 'e network_state_scheme run) \<Rightarrow>
    'e network_state_scheme \<Rightarrow> 'e network_state_scheme run" where
  "keep_time os checkers st = do {
     let now = os_time os (os_calls st);
     let st = next_call (st\<lparr>g_actual_time := now, elapsed_time := elapsed_time st + (now - g_last_time st), g_last_time := now\<rparr>);
     if elapsed_time st \<ge> kOpenerTimerTickInMilliSeconds then do {
       (_, st) \<leftarrow> ManageConnections (os_env.truncate os) (elapsed_time st) st;
       st \<leftarrow> call_checkers checkers (elapsed_time st) (timeout_checker_array st) st;
       Some (st\<lparr>elapsed_time := 0\<rparr>) }
     else Some st }"

definition NetworkHandlerProcessCyclic :: "net_env \<Rightarrow> 'e network_state_scheme cip_env \<Rightarrow>
    (nat \<Rightarrow> MilliSeconds \<Rightarrow> 'e network_state_scheme \<Rightarrow> 'e network_state_scheme run) \<Rightarrow>
    'e network_state_scheme \<Rightarrow> (EipStatus \<times> 'e network_state_scheme) run" where
  "NetworkHandlerProcessCyclic os env checkers st = (
     let result = os_select os (os_calls st); st = next_call st
     in case result of
          Interrupted \<Rightarrow> Some (kEipStatusOk, st\<lparr>read_socket := master_socket st\<rparr>)
        | SelectFailed \<Rightarrow> Some (kEipStatusError, st\<lparr>read_socket := master_socket st\<rparr>)
        | Ready socks \<Rightarrow> do {
            let st = st\<lparr>read_socket := socks \<inter> master_socket st\<rparr>;
            st \<leftarrow> (if read_socket st \<noteq> {} then handle_ready os env st else Some st);
            st \<leftarrow> check_inactivity_from 0 st;
            st \<leftarrow> keep_time os checkers st;
            Some (kEipStatusOk, st) })"

subsection \<open>The end of an inactive session\<close>

text \<open>The time since the last packet of a socket with a session, and the limit.\<close>

definition idle_time :: "int \<Rightarrow> 'e stack_state_scheme \<Rightarrow> MilliSeconds" where
  "idle_time s st = g_actual_time st - last_update (g_timestamps st ! the (SocketTimerArrayGetSocketTimer (g_timestamps st) s))"

definition idle_limit :: "'e network_state_scheme \<Rightarrow> MilliSeconds" where
  "idle_limit st = 1000 * ucast (encapsulation_inactivity_timeout (tcpip_object st))"

lemma inactivity_steps:
  assumes "sessions_ok st" and "i < 32" and "g_registered_sessions st ! i = s" and "s \<noteq> kEipInvalidSocket"
    and "0 < encapsulation_inactivity_timeout (tcpip_object st)"
  shows "CheckEncapsulationInactivity s st = (if idle_time s st \<ge> idle_limit st then do {
      st \<leftarrow> CloseClass3ConnectionBasedOnSession (of_nat i) st;
      RemoveSession s (tcp_closed s st) } else Some st)"
proof -
  have "s \<in> set (g_registered_sessions st)"
    using assms(1-3) by (auto simp: sessions_ok_def)
  then obtain k where "k < 32" "SocketTimerArrayGetSocketTimer (g_timestamps st) s = Some k"
    using session_timer [OF assms(1) _ assms(4)] by blast
  moreover have "length (g_timestamps st) = 32" using assms(1) by (simp add: sessions_ok_def)
  ultimately show ?thesis
    using assms(4,5) session_index [OF assms(1-4)]
    by (simp add: CheckEncapsulationInactivity_def idle_time_def idle_limit_def SocketTimerGetLastUpdate_def GetSessionFromSocket_def CloseTcpSocket_valid eq_commute [of s])
qed


text \<open>The end of a session whose socket was closed.\<close>

lemma remove_closed_session:
  assumes "sessions_ok st" and "i < 32" and "g_registered_sessions st ! i = s" and "s \<noteq> kEipInvalidSocket" and "closable st ds"
  shows "\<exists>l cs. RemoveSession s (tcp_closed s st) = Some ((tcp_closed s st)\<lparr>
      g_registered_sessions := (g_registered_sessions st)[i := kEipInvalidSocket], connection_list := l, connections := cs\<rparr>) \<and>
    CloseClass3ConnectionBasedOnSession (of_nat i + 1) (tcp_closed s st\<lparr>g_registered_sessions := (g_registered_sessions st)[i := kEipInvalidSocket]\<rparr>) =
      Some ((tcp_closed s st)\<lparr>g_registered_sessions := (g_registered_sessions st)[i := kEipInvalidSocket], connection_list := l, connections := cs\<rparr>)"
proof -
  let ?st = "tcp_closed s st\<lparr>g_registered_sessions := (g_registered_sessions st)[i := kEipInvalidSocket]\<rparr>"
  have len: "i < length (g_registered_sessions st)" using assms(1,2) by (simp add: sessions_ok_def)
  have "closable ?st ds" using assms(5) closable_frame [of ?st st ds] by (simp add: tcp_closed_def)
  from close_class3_returns [OF this, of "of_nat i + 1"] obtain l cs where
    c: "CloseClass3ConnectionBasedOnSession (of_nat i + 1) ?st = Some (?st\<lparr>connection_list := l, connections := cs\<rparr>)" by blast
  have f: "first_index (\<lambda>x. x = s) (g_registered_sessions (tcp_closed s st)) = Some i"
    using session_index [OF assms(1-4)] by (simp add: tcp_closed_def)
  have "set_session i kEipInvalidSocket (tcp_closed s st) = Some ?st"
    using len by (simp add: set_session_def tcp_closed_def)
  then have "RemoveSession s (tcp_closed s st) = Some (?st\<lparr>connection_list := l, connections := cs\<rparr>)"
    using c f by (simp add: RemoveSession_def)
  then show ?thesis using c by auto
qed

text \<open>
  C12: The inactivity check of a socket with a session. As long as the last packet on the socket is less than the
  configured time ago, nothing changes. After that the socket is shut down, closed and no longer watched, its timer
  is free and its session ended; every other session stays, and the table of sessions is consistent again.
\<close>

theorem inactive_session_ends:
  assumes "sessions_ok st" and "closable st ds" and "i < 32" and "g_registered_sessions st ! i = s" and "s \<noteq> kEipInvalidSocket"
    and "0 < encapsulation_inactivity_timeout (tcpip_object st)"
  shows "if idle_time s st < idle_limit st then CheckEncapsulationInactivity s st = Some st
    else \<exists>st'. CheckEncapsulationInactivity s st = Some st' \<and> sessions_ok st' \<and> s \<notin> master_socket st' \<and>
      g_registered_sessions st' = (g_registered_sessions st)[i := kEipInvalidSocket] \<and>
      g_timestamps st' = clear_timers s (g_timestamps st) \<and> net_events st' = net_events st @ [SocketShutDown s, SocketClosed s]"
proof (cases "idle_time s st < idle_limit st")
  case True
  then show ?thesis using inactivity_steps [OF assms(1,3,4,5,6)] by (simp add: linorder_not_le [symmetric])
next
  case False
  obtain l1 cs1 ds1 where c1: "CloseClass3ConnectionBasedOnSession (of_nat i) st = Some (st\<lparr>connection_list := l1, connections := cs1\<rparr>)"
      "closable (st\<lparr>connection_list := l1, connections := cs1\<rparr>) ds1"
    using close_class3_returns [OF assms(2)] by blast
  let ?st1 = "st\<lparr>connection_list := l1, connections := cs1\<rparr>"
  have ok1: "sessions_ok ?st1" using assms(1) sessions_ok_cong [of ?st1 st] by (simp add: tables_def)
  obtain l cs where r: "RemoveSession s (tcp_closed s ?st1) = Some ((tcp_closed s ?st1)\<lparr>
      g_registered_sessions := (g_registered_sessions st)[i := kEipInvalidSocket], connection_list := l, connections := cs\<rparr>)"
    using remove_closed_session [OF ok1 assms(3) _ assms(5) c1(2)] assms(4) by auto
  let ?st' = "(tcp_closed s ?st1)\<lparr>g_registered_sessions := (g_registered_sessions st)[i := kEipInvalidSocket], connection_list := l, connections := cs\<rparr>"
  have "CheckEncapsulationInactivity s st = Some ?st'"
    using inactivity_steps [OF assms(1,3,4,5,6)] False c1(1) r by (simp add: not_less)
  moreover have "set_session i kEipInvalidSocket (tcp_closed s st) = Some (tcp_closed s st\<lparr>g_registered_sessions := (g_registered_sessions st)[i := kEipInvalidSocket]\<rparr>)"
    using assms(1,3) by (simp add: set_session_def tcp_closed_def sessions_ok_def)
  from close_entry_step [OF assms(1,3,4,5) CloseTcpSocket_valid [OF assms(5)] this, of ?st']
  have "sessions_ok ?st'" by (simp add: tables_def tcp_closed_def)
  ultimately show ?thesis using False by (auto simp: tcp_closed_def)
qed

text \<open>
  C34: The wrong connection is closed. The check passes the index of the session where its handle is expected: when
  session \<open>i + 1\<close> is inactive and has no explicit connection of its own, the first listed connection of session \<open>i\<close>,
  which has not been inactive, is closed although its session and its socket stay.
\<close>

theorem inactivity_closes_other_connection:
  assumes "sessions_ok st" and "closable st (us @ d # vs)" and "i < 32" and "g_registered_sessions st ! i = s" and "s \<noteq> kEipInvalidSocket"
    and "0 < encapsulation_inactivity_timeout (tcpip_object st)" and "idle_time s st \<ge> idle_limit st"
    and "of_session (of_nat i) (connections st ! d)" and "\<forall>x \<in> set us. \<not> of_session (of_nat i) (connections st ! x)"
    and "\<forall>x \<in> set (us @ d # vs). \<not> of_session (of_nat i + 1) (connections st ! x)"
  shows "\<exists>st'. CheckEncapsulationInactivity s st = Some st' \<and> active_list st' (us @ vs) \<and>
    connections st' = (connections st)[d := empty_connection] \<and>
    g_registered_sessions st' = (g_registered_sessions st)[i := kEipInvalidSocket]"
proof -
  have d: "d < length (connections st)" "connection_close_function (connections st ! d) = Some CloseConnectionFn" "d \<notin> set us"
    using closableD(2,3) [OF assms(2)] assms(8,9) by auto
  then obtain l where l: "CloseClass3ConnectionBasedOnSession (of_nat i) st =
      Some (st\<lparr>connection_list := l, connections := (connections st)[d := empty_connection]\<rparr>)"
      "active_list (st\<lparr>connection_list := l, connections := (connections st)[d := empty_connection]\<rparr>) (us @ vs)"
    using close_class3_first [of st us d vs "of_nat i"] closableD(1,2) [OF assms(2)] assms(8,9) by auto
  let ?st1 = "st\<lparr>connection_list := l, connections := (connections st)[d := empty_connection]\<rparr>"
  let ?st' = "(tcp_closed s ?st1)\<lparr>g_registered_sessions := (g_registered_sessions st)[i := kEipInvalidSocket]\<rparr>"
  have "active_list ?st' (us @ vs)" using l(2) active_list_frame [of ?st' ?st1] by (simp add: tcp_closed_def)
  moreover have "\<forall>x \<in> set (us @ vs). x < length (connections ?st') \<and> \<not> of_session (of_nat i + 1) (connections ?st' ! x)"
    using closableD(2) [OF assms(2)] assms(10) by (auto simp: tcp_closed_def nth_list_update of_session_def)
  ultimately have c2: "CloseClass3ConnectionBasedOnSession (of_nat i + 1) ?st' = Some ?st'" "active_list ?st' (us @ vs)"
    using close_class3_none by blast+
  have "set_session i kEipInvalidSocket (tcp_closed s ?st1) = Some ?st'"
    using assms(1,3) by (simp add: set_session_def tcp_closed_def sessions_ok_def)
  moreover have "first_index (\<lambda>x. x = s) (g_registered_sessions (tcp_closed s ?st1)) = Some i"
    using session_index [OF assms(1,3-5)] by (simp add: tcp_closed_def)
  ultimately have "RemoveSession s (tcp_closed s ?st1) = Some ?st'" using c2(1) by (simp add: RemoveSession_def)
  then have "CheckEncapsulationInactivity s st = Some ?st'"
    using inactivity_steps [OF assms(1,3-6)] assms(7) l(1) by simp
  then show ?thesis using c2(2) by (intro exI [of _ ?st']) (auto simp: tcp_closed_def)
qed

subsection \<open>Receiving a frame\<close>

lemma length_int_bytes [simp]: "length (int_bytes x) = 2"
  by (simp add: int_bytes_def)

lemma frame_length: "length ctxt = 8 \<Longrightarrow> length (frame_bytes c session status ctxt opts data) = 24 + length data"
  by (simp add: frame_bytes_def dint_bytes_def)

text \<open>
  A frame that fits the buffer, taken from a socket in two calls, whatever follows it in the stream: the first
  four octets announce the length of its data, the second call takes the rest.
\<close>

lemma frame_received:
  assumes "frame = frame_bytes c session status ctxt opts data" and "length ctxt = 8" and "length data \<le> 488"
    and "os_recv os (os_calls st) = Octets (frame @ later)" and "os_recv os (Suc (os_calls st)) = Octets (drop 4 frame @ later')"
  shows "HandleDataOnTcpSocket os env s st =
    handle_frame os env s (SocketTimerArrayGetSocketTimer (g_timestamps st) s) (frame @ replicate (488 - length data) 0)
      (of_nat (length frame)) (next_call (next_call st))"
proof -
  let ?head = "int_bytes c @ int_bytes (of_nat (length data))"
  let ?n = "of_nat (length data) :: CipUint"
  define rest where "rest = dint_bytes session @ dint_bytes status @ ctxt @ dint_bytes opts @ data"
  have frame: "frame = ?head @ rest" by (simp add: assms(1) frame_bytes_def rest_def)
  have len: "length rest = 20 + length data" using assms(2) by (simp add: rest_def dint_bytes_def)
  have n: "unat ?n = length data" using assms(3) by (simp add: unat_of_nat take_bit_nat_eq_self)
  have "(ucast ?n :: size_t) = of_nat (length data)" using assms(3) by (simp add: unsigned_of_nat take_bit_nat_eq_self)
  then have size: "(ucast ?n :: size_t) + 20 = of_nat (length rest)" by (simp add: len)
  have size': "unat (of_nat (length rest) :: size_t) = length rest"
    using assms(3) len by (intro unat_of_nat_512) simp
  have "recv os 4 st = (Octets ?head, next_call st)"
    by (simp add: recv_def assms(4) frame next_call_def)
  moreover have "recv os (length rest) (next_call st) = (Octets rest, next_call (next_call st))"
    using assms(5) by (simp add: recv_def next_call_def frame)
  moreover have "\<not> ?n > 516" "\<not> (508 :: size_t) < of_nat (length rest)"
    using n assms(3) size' len by (simp_all add: word_less_nat_alt)
  moreover have "receive_buffer ?head = Some (?head @ replicate 508 0)"
    by (simp add: receive_buffer_def write_at_def)
  moreover have "GetUintFromMessage (drop 2 (?head @ replicate 508 0)) = Some (?n, replicate 508 0)"
    by (simp add: uint.dec_enc)
  moreover have "write_at (?head @ replicate 508 0) 4 rest = Some (frame @ replicate (488 - length data) 0)"
    using assms(3) len by (simp add: write_at_def frame)
  moreover have "rest \<noteq> []" "int_bytes c \<noteq> []" using len by (auto simp: int_bytes_def)
  ultimately show ?thesis
    using size size' len by (simp add: HandleDataOnTcpSocket_def frame Let_def next_call_def [of st])
qed


text \<open>The reply to a registration: a frame with the new handle, the version and the flags.\<close>

abbreviation registration :: "CipOctet list" where
  "registration \<equiv> int_bytes 1 @ int_bytes 0"

lemma register_frame:
  assumes "register_session s 1 0 st' = Some (h, result, st2)" and "st' = st\<lparr>originator_sockaddr := a\<rparr>" and "length ctxt = 8"
  shows "\<exists>m. HandleReceivedExplictTcpData env s
      (frame_bytes kEncapsulationCommandRegisterSession session status ctxt 0 registration @ zeros) 28 a (InitializeENIPMessage m0) st =
        Some (kEipStatusOkSend, 0, m, st2) \<and>
    holds_octets m (frame_bytes kEncapsulationCommandRegisterSession h result ctxt 0 registration)"
proof -
  let ?d = "(frame_data kEncapsulationCommandRegisterSession session status ctxt 0 registration zeros)
    \<lparr>encap_status := kEncapsulationProtocolSuccess, current_communication_buffer_position := zeros\<rparr>"
  have read: "CreateEncapsulationStructure (frame_bytes kEncapsulationCommandRegisterSession session status ctxt 0 registration @ zeros) 28 =
      Some (0, frame_data kEncapsulationCommandRegisterSession session status ctxt 0 registration zeros)"
    using read_frame [of ctxt registration 28 kEncapsulationCommandRegisterSession session status 0 zeros] assms(3) by simp
  have out: "header_bytes ?d 4 h result @ registration = frame_bytes kEncapsulationCommandRegisterSession h result ctxt 0 registration"
    using header_is_frame [of ?d registration h result] assms(3) by simp
  have "\<exists>m. emit (header_bytes ?d 4 h result @ registration) (InitializeENIPMessage m0) = Some m \<and>
      holds_octets m ([] @ header_bytes ?d 4 h result @ registration)"
    using assms(3) by (intro holds_octets_emit_fits) (simp_all add: header_bytes_length)
  then obtain m where m: "emit (header_bytes ?d 4 h result @ registration) (InitializeENIPMessage m0) = Some m"
      "holds_octets m (header_bytes ?d 4 h result @ registration)" by auto
  have "EncapsulateRegisterSessionCommandResponseMessage ?d h result (InitializeENIPMessage m0) = Some m"
    using m(1) assms(3)
    by (simp add: EncapsulateRegisterSessionCommandResponseMessage_def GenerateEncapsulationHeader_wire wire_simps emit_emit emit_emit_bind)
  moreover have "HandleReceivedExplictTcpData env s
      (frame_bytes kEncapsulationCommandRegisterSession session status ctxt 0 registration @ zeros) 28 a (InitializeENIPMessage m0) st =
      do { m \<leftarrow> EncapsulateRegisterSessionCommandResponseMessage ?d h result (InitializeENIPMessage m0); Some (kEipStatusOkSend, 0, m, st2) }"
    using assms(1) unfolding assms(2)
    by (simp add: HandleReceivedExplictTcpData_def read tcp_command_def HandleReceivedRegisterSessionCommand_def uint.dec_enc)
  ultimately show ?thesis using m(2) unfolding out by simp
qed

text \<open>
  C2: A client registers. The octets of a RegisterSession frame arrive on a socket without a session, followed by
  whatever else the client has sent, and a session is free. The network handler takes exactly this frame from the
  stream; the session table gets the socket as the first free session and stays consistent, one reply is sent on
  the same socket, the frame with the handle of the session, and the handler is ready for the next socket.
\<close>

theorem registration_over_socket:
  assumes "sessions_ok st" and "s \<noteq> kEipInvalidSocket" and "s \<notin> set (g_registered_sessions st)" and "GetFreeSessionIndex st = Some i"
    and "frame = frame_bytes kEncapsulationCommandRegisterSession session status ctxt 0 registration" and "length ctxt = 8"
    and "os_recv os (os_calls st) = Octets (frame @ later)" and "os_recv os (Suc (os_calls st)) = Octets (drop 4 frame @ later')"
  shows "\<exists>st'. HandleDataOnTcpSocket os env s st = Some (kEipStatusOk, st') \<and> sessions_ok st' \<and>
    g_registered_sessions st' = (g_registered_sessions st)[i := s] \<and> active_tcp_socket st' = kEipInvalidSocket \<and>
    net_events st' = net_events st @
      [StreamSent s (frame_bytes kEncapsulationCommandRegisterSession (of_nat i + 1) kEncapsulationProtocolSuccess ctxt 0 registration)]"
proof -
  let ?st1 = "(NetworkCountersRecordRx 28 False (next_call (next_call st)))\<lparr>active_tcp_socket := s, originator_sockaddr := peer_of os s\<rparr>"
  have len: "length frame = 28" using assms(5,6) by (simp add: frame_length)
  have t1: "tables ?st1 = tables st" "net_events ?st1 = net_events st"
    by (simp_all add: tables_def next_call_def counter_defs on_counters_def)
  have "sessions_ok ?st1" using assms(1) t1(1) sessions_ok_cong by blast
  moreover have "s \<notin> set (g_registered_sessions ?st1)" "GetFreeSessionIndex ?st1 = Some i"
    using assms(3,4) t1(1) by (simp_all add: tables_def GetFreeSessionIndex_def)
  ultimately obtain st2 where st2: "register_session s 1 0 ?st1 = Some (of_nat i + 1, kEncapsulationProtocolSuccess, st2)"
      "g_registered_sessions st2 = (g_registered_sessions ?st1)[i := s]" "sessions_ok st2"
    using register_new [of ?st1 s i] assms(2) by blast
  have ev: "net_events st2 = net_events st"
    using st2(1) t1(2) by (auto simp: register_session_def set_session_def Let_def split: if_splits option.splits bind_splits)
  obtain m where m: "HandleReceivedExplictTcpData env s (frame @ replicate 484 0) 28 (peer_of os s) (InitializeENIPMessage zero_message)
        ((NetworkCountersRecordRx 28 False (next_call (next_call st)))\<lparr>active_tcp_socket := s\<rparr>) =
        Some (kEipStatusOkSend, 0, m, st2)"
      "sent_octets m = frame_bytes kEncapsulationCommandRegisterSession (of_nat i + 1) kEncapsulationProtocolSuccess ctxt 0 registration"
    using register_frame [OF st2(1) _ assms(6)] assms(5) sent_octets_holds by (metis (no_types))
  let ?st3 = "next_call (note_event (StreamSent s (sent_octets m)) (st2\<lparr>active_tcp_socket := kEipInvalidSocket\<rparr>))"
  have "HandleDataOnTcpSocket os env s st = handle_frame os env s None (frame @ replicate 484 0) 28 (next_call (next_call st))"
    using frame_received [OF assms(5,6) _ assms(7,8)] no_timer [OF assms(1-3)] len by simp
  moreover obtain st' where st': "send_reply os s None m (st2\<lparr>active_tcp_socket := kEipInvalidSocket\<rparr>) = Some st'"
      "tables st' = tables st2" "active_tcp_socket st' = kEipInvalidSocket" "net_events st' = net_events st2 @ [StreamSent s (sent_octets m)]"
    by (auto simp: send_reply_def touch_timer_def tables_def note_event_def next_call_def counter_defs on_counters_def Let_def)
  ultimately have "HandleDataOnTcpSocket os env s st = Some (kEipStatusOk, st')"
    using m(1) by (simp add: handle_frame_def touch_timer_def)
  moreover have "sessions_ok st'" using st2(3) st'(2) sessions_ok_cong by blast
  moreover have "g_registered_sessions st' = (g_registered_sessions st)[i := s]" using st'(2) st2(2) t1(1) by (simp add: tables_def)
  ultimately show ?thesis using st'(3,4) ev m(2) by simp
qed

subsection \<open>A device with two sessions\<close>

text \<open>Sockets 10 and 11 have sessions 1 and 2, both idle for 200 s; two explicit connections belong to session 1.\<close>

definition idle_device :: network_state where
  "idle_device = encap_state.extend (stack_state.extend (two_connections\<lparr>g_registered_sessions := [10, 11] @ replicate 30 kEipInvalidSocket,
       g_timestamps := [\<lparr>timer_socket = 10, last_update = 0\<rparr>, \<lparr>timer_socket = 11, last_update = 0\<rparr>] @ replicate 30 initial_timer,
       g_actual_time := 200000, master_socket := {1, 2, 3, 10, 11}\<rparr>)
     (encap_state.fields [] \<lparr>service_type_code = 0, service_length = 0, encapsulation_protocol_version = 0,
       capability_flags = 0, name_of_service = replicate 16 0\<rparr> 0))
     (network_state.fields {} 1 2 3 0 0 g_tcpip (replicate 10 None))"

lemma idle_device_simps:
  "connections idle_device = connections two_connections" "connection_list idle_device = connection_list two_connections"
  "g_registered_sessions idle_device = [10, 11] @ replicate 30 kEipInvalidSocket" "g_actual_time idle_device = 200000"
  "g_timestamps idle_device = [\<lparr>timer_socket = 10, last_update = 0\<rparr>, \<lparr>timer_socket = 11, last_update = 0\<rparr>] @ replicate 30 initial_timer"
  "tcpip_object idle_device = g_tcpip" "os_calls idle_device = 0" "net_events idle_device = []"
  by (simp_all add: idle_device_def encap_state.defs stack_state.defs network_state.defs two_connections_def initial_stack_def cip_state.defs)

lemma idle_device_ok: "sessions_ok idle_device"
  by (simp add: sessions_ok_def idle_device_simps valid_sockets_def initial_timer_def)

lemma idle_device_closable: "closable idle_device ([] @ 1 # [0])"
  using two_connections_active active_list_frame [of idle_device two_connections "[1, 0]"]
  by (simp add: closable_def idle_device_simps two_connections_def explicit_example_def)

lemma idle_device_idle: "idle_time 11 idle_device = 200000" "idle_limit idle_device = 120000"
  by (simp_all add: idle_time_def idle_limit_def idle_device_simps SocketTimerArrayGetSocketTimer_def g_tcpip_def)

theorem inactive_session_ends_witness:
  "\<exists>st'. CheckEncapsulationInactivity 11 idle_device = Some st' \<and> sessions_ok st' \<and> 11 \<notin> master_socket st' \<and>
      g_registered_sessions st' = (g_registered_sessions idle_device)[1 := kEipInvalidSocket] \<and>
      g_timestamps st' = clear_timers 11 (g_timestamps idle_device) \<and> net_events st' = [SocketShutDown 11, SocketClosed 11]"
  using inactive_session_ends [OF idle_device_ok idle_device_closable, of 1 11]
  by (simp add: idle_device_idle idle_device_simps g_tcpip_def)

theorem inactivity_closes_other_connection_witness:
  "\<exists>st'. CheckEncapsulationInactivity 11 idle_device = Some st' \<and> active_list st' [0] \<and>
    connections st' = (connections idle_device)[1 := empty_connection] \<and>
    g_registered_sessions st' = (g_registered_sessions idle_device)[1 := kEipInvalidSocket]"
  using inactivity_closes_other_connection [OF idle_device_ok idle_device_closable, of 1 11]
  by (simp add: idle_device_idle idle_device_simps g_tcpip_def of_session_def two_connections_def explicit_example_def class3_def
      zero_connection_def ConnectionObjectGetTransportClassTriggerTransportClass_def)

text \<open>A system in which every receive call delivers the octets of the list, four of them taken by the first call.\<close>

definition stream_os :: "CipOctet list \<Rightarrow> net_env" where
  "stream_os bs = os_env.extend example_os (net_env.fields (\<lambda>k. 1) (\<lambda>k. True) (\<lambda>k. Ready {}) (\<lambda>k. 12)
     (\<lambda>k. Octets (if k = 0 then bs else drop 4 bs)) (\<lambda>k. (WouldBlock, zero_sockaddr)) (\<lambda>k. 28) (\<lambda>s. 0) (\<lambda>k. 0))"

theorem registration_over_socket_witness:
  "\<exists>st'. HandleDataOnTcpSocket (stream_os (frame_bytes kEncapsulationCommandRegisterSession 0 0 [1, 2, 3, 4, 5, 6, 7, 8] 0 registration @ [0x65]))
      device_env 12 idle_device = Some (kEipStatusOk, st') \<and> sessions_ok st' \<and>
    g_registered_sessions st' = (g_registered_sessions idle_device)[2 := 12] \<and> active_tcp_socket st' = kEipInvalidSocket \<and>
    net_events st' = [] @ [StreamSent 12 (frame_bytes kEncapsulationCommandRegisterSession 3 kEncapsulationProtocolSuccess [1, 2, 3, 4, 5, 6, 7, 8] 0 registration)]"
proof -
  let ?frame = "frame_bytes kEncapsulationCommandRegisterSession 0 0 [1, 2, 3, 4, 5, 6, 7, 8] 0 registration"
  have "GetFreeSessionIndex idle_device = Some 2"
    by (simp add: GetFreeSessionIndex_def idle_device_simps numeral_eq_Suc)
  moreover have "os_recv (stream_os (?frame @ [0x65])) (os_calls idle_device) = Octets (?frame @ [0x65])"
    by (simp add: stream_os_def os_env.defs net_env.defs idle_device_simps)
  moreover have "os_recv (stream_os (?frame @ [0x65])) (Suc (os_calls idle_device)) = Octets (drop 4 ?frame @ [0x65])"
    by (simp add: stream_os_def os_env.defs net_env.defs frame_bytes_def)
  ultimately show ?thesis
    using registration_over_socket [OF idle_device_ok, of 12 2 ?frame 0 0 "[1, 2, 3, 4, 5, 6, 7, 8]"] idle_device_simps(3,8) by simp
qed

end
