(* ===== verification/NvData.thy ===== *)
theory NvData
  imports TcpIpInterface
begin

text \<open>
  Non-volatile data: the TCP/IP configuration of \<^verbatim>\<open>ports/nvdata/nvtcpip.c\<close>, the callback of \<^verbatim>\<open>ports/nvdata/nvdata.c\<close> and
  the settings of \<^verbatim>\<open>system_config/system_config.c\<close>. The flash library is a record of functions over an unknown
  flash state; what the code relies on is stated where it is used. A handle is the name of its name space.
\<close>

subsection \<open>The flash library\<close>

datatype nvs_open_mode = NVS_READONLY | NVS_READWRITE
datatype esp_err = ESP_OK | ESP_ERR_NVS_NOT_FOUND | ESP_ERR_OTHER

record 'f nvs_api =
  nvs_open :: "string \<Rightarrow> nvs_open_mode \<Rightarrow> 'f \<Rightarrow> esp_err \<times> 'f"
  nvs_get_blob :: "string \<Rightarrow> string \<Rightarrow> nat \<Rightarrow> 'f \<Rightarrow> esp_err \<times> CipOctet list"
  nvs_set_blob :: "string \<Rightarrow> string \<Rightarrow> CipOctet list \<Rightarrow> 'f \<Rightarrow> esp_err \<times> 'f"
  nvs_get_u8 :: "string \<Rightarrow> string \<Rightarrow> 'f \<Rightarrow> esp_err \<times> CipOctet"
  nvs_set_u8 :: "string \<Rightarrow> string \<Rightarrow> CipOctet \<Rightarrow> 'f \<Rightarrow> esp_err \<times> 'f"
  nvs_commit :: "string \<Rightarrow> 'f \<Rightarrow> esp_err \<times> 'f"

text \<open>What was written and committed is read back by a later reader with a large enough buffer.\<close>

definition nvs_keeps :: "'f nvs_api \<Rightarrow> bool" where
  "nvs_keeps api \<longleftrightarrow> (\<forall>ns key bs f f1 f2 f3 capacity.
     nvs_open api ns NVS_READWRITE f = (ESP_OK, f1) \<longrightarrow> nvs_set_blob api ns key bs f1 = (ESP_OK, f2) \<longrightarrow>
     nvs_commit api ns f2 = (ESP_OK, f3) \<longrightarrow> length bs \<le> capacity \<longrightarrow>
     (\<exists>f4. nvs_open api ns NVS_READONLY f3 = (ESP_OK, f4) \<and> nvs_get_blob api ns key capacity f4 = (ESP_OK, bs)))"

subsection \<open>The TCP/IP configuration (nvtcpip.c)\<close>

record TcpipNvBlob =
  nv_version :: CipUdint
  nv_config_control :: CipUdint
  nv_ip_address :: CipUdint
  nv_network_mask :: CipUdint
  nv_gateway :: CipUdint
  nv_name_server :: CipUdint
  nv_name_server2 :: CipUdint
  nv_domain_length :: CipUint
  nv_hostname_length :: CipUint
  nv_domain :: "CipOctet list"
  nv_hostname :: "CipOctet list"
  nv_select_acd :: CipUsint

abbreviation (input) TCPIP_NVS_NAMESPACE :: string where "TCPIP_NVS_NAMESPACE \<equiv> ''opener''"
abbreviation (input) TCPIP_NVS_KEY :: string where "TCPIP_NVS_KEY \<equiv> ''tcpip_cfg''"
abbreviation (input) TCPIP_NV_VERSION :: CipUdint where "TCPIP_NV_VERSION \<equiv> 2"
abbreviation (input) TCPIP_DOMAIN_MAX_LEN :: nat where "TCPIP_DOMAIN_MAX_LEN \<equiv> 48"
abbreviation (input) TCPIP_HOSTNAME_MAX_LEN :: nat where "TCPIP_HOSTNAME_MAX_LEN \<equiv> 64"
abbreviation (input) TcpipNvBlob_size :: nat where "TcpipNvBlob_size \<equiv> 145"
abbreviation (input) TcpipNvBlobV1_size :: nat where "TcpipNvBlobV1_size \<equiv> 144"
abbreviation (input) kTcpipCfgCtrlDhcp :: CipDword where "kTcpipCfgCtrlDhcp \<equiv> 2"
abbreviation (input) kTcpipStatusIfaceCfgPend :: CipDword where "kTcpipStatusIfaceCfgPend \<equiv> 0x20"
abbreviation (input) kTcpipStatusAcdStatus :: CipDword where "kTcpipStatusAcdStatus \<equiv> 0x40"
abbreviation (input) kTcpipStatusAcdFault :: CipDword where "kTcpipStatusAcdFault \<equiv> 0x80"

text \<open>The packed structure in memory; the first format ends before the last member.\<close>

definition blob_octets :: "TcpipNvBlob \<Rightarrow> CipOctet list" where
  "blob_octets b = dint_bytes (nv_version b) @ dint_bytes (nv_config_control b) @ dint_bytes (nv_ip_address b) @
     dint_bytes (nv_network_mask b) @ dint_bytes (nv_gateway b) @ dint_bytes (nv_name_server b) @ dint_bytes (nv_name_server2 b) @
     int_bytes (nv_domain_length b) @ int_bytes (nv_hostname_length b) @ nv_domain b @ nv_hostname b @ [nv_select_acd b]"

definition blob_of :: "CipOctet list \<Rightarrow> TcpipNvBlob run" where
  "blob_of bs = do {
     (version, bs) \<leftarrow> GetUdintFromMessage bs;
     (control, bs) \<leftarrow> GetUdintFromMessage bs;
     (ip, bs) \<leftarrow> GetUdintFromMessage bs;
     (netmask, bs) \<leftarrow> GetUdintFromMessage bs;
     (gw, bs) \<leftarrow> GetUdintFromMessage bs;
     (dns1, bs) \<leftarrow> GetUdintFromMessage bs;
     (dns2, bs) \<leftarrow> GetUdintFromMessage bs;
     (domain_length, bs) \<leftarrow> GetUintFromMessage bs;
     (hostname_length, bs) \<leftarrow> GetUintFromMessage bs;
     (domain, bs) \<leftarrow> read_bytes TCPIP_DOMAIN_MAX_LEN bs;
     (host, bs) \<leftarrow> read_bytes TCPIP_HOSTNAME_MAX_LEN bs;
     Some \<lparr>nv_version = version, nv_config_control = control, nv_ip_address = ip, nv_network_mask = netmask, nv_gateway = gw,
       nv_name_server = dns1, nv_name_server2 = dns2, nv_domain_length = domain_length, nv_hostname_length = hostname_length,
       nv_domain = domain, nv_hostname = host, nv_select_acd = (case bs of [] \<Rightarrow> 0 | b # _ \<Rightarrow> b)\<rparr> }"

definition TcpipNvOpen :: "'f nvs_api \<Rightarrow> nvs_open_mode \<Rightarrow> 'f \<Rightarrow> esp_err \<times> 'f" where
  "TcpipNvOpen api mode f = (
     let (err, f) = nvs_open api TCPIP_NVS_NAMESPACE mode f
     in if err = ESP_ERR_NVS_NOT_FOUND \<and> mode = NVS_READWRITE then nvs_open api TCPIP_NVS_NAMESPACE NVS_READWRITE f else (err, f))"

text \<open>The bounded length of a name and its octets in an array of zeros; a null string leaves the array.\<close>

definition stored_length :: "nat \<Rightarrow> CipString \<Rightarrow> CipUint" where
  "stored_length limit s = (if cs_length s > of_nat limit then of_nat limit else cs_length s)"

definition stored_name :: "nat \<Rightarrow> CipString \<Rightarrow> CipOctet list run" where
  "stored_name limit s = (case cs_string s of
       None \<Rightarrow> Some (replicate limit 0)
     | Some octets \<Rightarrow> if stored_length limit s > 0 then do {
           (bs, _) \<leftarrow> read_bytes (unat (stored_length limit s)) octets;
           write_at (replicate limit 0) 0 bs }
         else Some (replicate limit 0))"

definition NvTcpipStore :: "'f nvs_api \<Rightarrow> CipTcpIpObject \<Rightarrow> 'f \<Rightarrow> (EipStatus \<times> 'f) run" where
  "NvTcpipStore api t f = (
     let (err, f) = TcpipNvOpen api NVS_READWRITE f
     in if err \<noteq> ESP_OK then Some (kEipStatusError, f)
        else do {
          let c = interface_configuration t;
          domain \<leftarrow> stored_name TCPIP_DOMAIN_MAX_LEN (if_domain_name c);
          host \<leftarrow> stored_name TCPIP_HOSTNAME_MAX_LEN (hostname t);
          let (err, f) = nvs_set_blob api TCPIP_NVS_NAMESPACE TCPIP_NVS_KEY (blob_octets \<lparr>nv_version = TCPIP_NV_VERSION,
            nv_config_control = config_control t, nv_ip_address = if_ip_address c, nv_network_mask = if_network_mask c,
            nv_gateway = if_gateway c, nv_name_server = if_name_server c, nv_name_server2 = if_name_server_2 c,
            nv_domain_length = stored_length TCPIP_DOMAIN_MAX_LEN (if_domain_name c),
            nv_hostname_length = stored_length TCPIP_HOSTNAME_MAX_LEN (hostname t),
            nv_domain = domain, nv_hostname = host, nv_select_acd = (if select_acd t then 1 else 0)\<rparr>) f;
          let (err, f) = (if err = ESP_OK then nvs_commit api TCPIP_NVS_NAMESPACE f else (err, f));
          Some (if err \<noteq> ESP_OK then kEipStatusError else kEipStatusOk, f) })"

definition restore_name :: "nat \<Rightarrow> CipUint \<Rightarrow> CipOctet list \<Rightarrow> CipString \<Rightarrow> CipString run" where
  "restore_name limit len octets s = (
     let s = ClearCipString s; len = (if len > of_nat limit then of_nat limit else len)
     in if len > 0 then SetCipStringByData s len octets else Some s)"

text \<open>A static configuration that is not valid is replaced by DHCP and stored, as is the first format.\<close>

definition apply_blob :: "'f nvs_api \<Rightarrow> bool \<Rightarrow> TcpipNvBlob \<Rightarrow> CipTcpIpObject \<Rightarrow> 'f \<Rightarrow> (EipStatus \<times> CipTcpIpObject \<times> 'f) run" where
  "apply_blob api upgrade b t f = do {
     let c = (interface_configuration t)\<lparr>if_ip_address := nv_ip_address b, if_network_mask := nv_network_mask b,
       if_gateway := nv_gateway b, if_name_server := nv_name_server b, if_name_server_2 := nv_name_server2 b\<rparr>;
     let t = t\<lparr>config_control := nv_config_control b, interface_configuration := c,
       select_acd := (\<not> upgrade \<and> nv_select_acd b \<noteq> 0)\<rparr>;
     domain \<leftarrow> restore_name TCPIP_DOMAIN_MAX_LEN (nv_domain_length b) (nv_domain b) (if_domain_name c);
     let t = t\<lparr>interface_configuration := c\<lparr>if_domain_name := domain\<rparr>\<rparr>;
     host \<leftarrow> restore_name TCPIP_HOSTNAME_MAX_LEN (nv_hostname_length b) (nv_hostname b) (hostname t);
     let t = t\<lparr>hostname := host, tcpip_status := (tcpip_status t OR 1) AND NOT kTcpipStatusIfaceCfgPend\<rparr>;
     (t, f) \<leftarrow> (if config_control t AND kTcpipCfgCtrlMethodMask = kTcpipCfgCtrlStaticIp \<and>
           \<not> CipTcpIpIsValidNetworkConfig (interface_configuration t)
         then do {
           let t = t\<lparr>config_control := (config_control t AND NOT kTcpipCfgCtrlMethodMask) OR kTcpipCfgCtrlDhcp,
             interface_configuration := (interface_configuration t)\<lparr>if_ip_address := 0, if_network_mask := 0, if_gateway := 0,
               if_name_server := 0, if_name_server_2 := 0\<rparr>,
             tcpip_status := tcpip_status t AND NOT (kTcpipStatusAcdStatus OR kTcpipStatusAcdFault)\<rparr>;
           (_, f) \<leftarrow> NvTcpipStore api t f;
           Some (t, f) }
         else Some (t, f));
     (_, f) \<leftarrow> (if upgrade then NvTcpipStore api t f else Some (kEipStatusOk, f));
     Some (kEipStatusOk, t, f) }"

definition NvTcpipLoad :: "'f nvs_api \<Rightarrow> CipTcpIpObject \<Rightarrow> 'f \<Rightarrow> (EipStatus \<times> CipTcpIpObject \<times> 'f) run" where
  "NvTcpipLoad api t f = (
     let (err, f) = TcpipNvOpen api NVS_READONLY f
     in if err \<noteq> ESP_OK then Some (kEipStatusError, t, f)
        else (case nvs_get_blob api TCPIP_NVS_NAMESPACE TCPIP_NVS_KEY TcpipNvBlob_size f of (err, raw_blob) \<Rightarrow>
          if err \<noteq> ESP_OK then Some (kEipStatusError, t, f)
          else if length raw_blob = TcpipNvBlob_size then do {
            b \<leftarrow> blob_of raw_blob;
            if nv_version b \<noteq> TCPIP_NV_VERSION then Some (kEipStatusError, t, f) else apply_blob api False b t f }
          else if length raw_blob = TcpipNvBlobV1_size then do {
            b \<leftarrow> blob_of raw_blob;
            if nv_version b \<noteq> 1 then Some (kEipStatusError, t, f) else apply_blob api True b t f }
          else Some (kEipStatusError, t, f)))"

text \<open>The callback after an attribute of the TCP/IP object was set.\<close>

definition NvTcpipSetCallback :: "'f nvs_api \<Rightarrow> CipByte \<Rightarrow> CipUsint \<Rightarrow> CipTcpIpObject \<Rightarrow> 'f \<Rightarrow> (EipStatus \<times> 'f) run" where
  "NvTcpipSetCallback api flags service t f =
     (if kNvDataFunc AND flags \<noteq> 0 \<and> 0x80 AND service = 0 then NvTcpipStore api t f else Some (kEipStatusOk, f))"

subsection \<open>System settings (system_config.c)\<close>

record system_ip_config_t =
  use_dhcp :: bool
  sys_ip_address :: CipUdint
  sys_netmask :: CipUdint
  sys_gateway :: CipUdint
  sys_dns1 :: CipUdint
  sys_dns2 :: CipUdint

abbreviation (input) NVS_NAMESPACE :: string where "NVS_NAMESPACE \<equiv> ''system''"
abbreviation (input) NVS_KEY_IPCONFIG :: string where "NVS_KEY_IPCONFIG \<equiv> ''ipconfig''"
abbreviation (input) NVS_KEY_RS022 :: string where "NVS_KEY_RS022 \<equiv> ''rs022''"
abbreviation (input) system_ip_config_size :: nat where "system_ip_config_size \<equiv> 24"

text \<open>The structure in memory: a boolean, three octets of padding and five words.\<close>

definition config_octets :: "system_ip_config_t \<Rightarrow> CipOctet list" where
  "config_octets c = [if use_dhcp c then 1 else 0, 0, 0, 0] @ dint_bytes (sys_ip_address c) @ dint_bytes (sys_netmask c) @
     dint_bytes (sys_gateway c) @ dint_bytes (sys_dns1 c) @ dint_bytes (sys_dns2 c)"

definition config_of :: "CipOctet list \<Rightarrow> system_ip_config_t run" where
  "config_of bs = do {
     (flag, bs) \<leftarrow> read_bytes 4 bs;
     (ip, bs) \<leftarrow> GetUdintFromMessage bs;
     (netmask, bs) \<leftarrow> GetUdintFromMessage bs;
     (gw, bs) \<leftarrow> GetUdintFromMessage bs;
     (d1, bs) \<leftarrow> GetUdintFromMessage bs;
     (d2, bs) \<leftarrow> GetUdintFromMessage bs;
     Some \<lparr>use_dhcp = (hd flag \<noteq> 0), sys_ip_address = ip, sys_netmask = netmask, sys_gateway = gw, sys_dns1 = d1, sys_dns2 = d2\<rparr> }"

definition system_ip_config_get_defaults :: system_ip_config_t where
  "system_ip_config_get_defaults = \<lparr>use_dhcp = True, sys_ip_address = 0, sys_netmask = 0, sys_gateway = 0, sys_dns1 = 0, sys_dns2 = 0\<rparr>"

text \<open>\<open>config\<close> is the structure of the caller, which some errors leave as it is.\<close>

definition system_ip_config_load :: "'f nvs_api \<Rightarrow> system_ip_config_t \<Rightarrow> 'f \<Rightarrow> (bool \<times> system_ip_config_t \<times> 'f) run" where
  "system_ip_config_load api config f = (
     let (err, f) = nvs_open api NVS_NAMESPACE NVS_READONLY f
     in if err = ESP_ERR_NVS_NOT_FOUND then Some (False, system_ip_config_get_defaults, f)
        else if err \<noteq> ESP_OK then Some (False, config, f)
        else (case nvs_get_blob api NVS_NAMESPACE NVS_KEY_IPCONFIG system_ip_config_size f of (err, bs) \<Rightarrow>
          if err = ESP_ERR_NVS_NOT_FOUND then Some (False, system_ip_config_get_defaults, f)
          else if err \<noteq> ESP_OK then Some (False, config, f)
          else if length bs \<noteq> system_ip_config_size then Some (False, system_ip_config_get_defaults, f)
          else do { config \<leftarrow> config_of bs; Some (True, config, f) }))"

definition system_ip_config_save :: "'f nvs_api \<Rightarrow> system_ip_config_t \<Rightarrow> 'f \<Rightarrow> bool \<times> 'f" where
  "system_ip_config_save api config f = (
     let (err, f) = nvs_open api NVS_NAMESPACE NVS_READWRITE f
     in if err \<noteq> ESP_OK then (False, f)
        else let (err, f) = nvs_set_blob api NVS_NAMESPACE NVS_KEY_IPCONFIG (config_octets config) f
        in if err \<noteq> ESP_OK then (False, f)
           else let (err, f) = nvs_commit api NVS_NAMESPACE f in (err = ESP_OK, f))"

definition system_motoman_rs022_load :: "'f nvs_api \<Rightarrow> 'f \<Rightarrow> bool \<times> bool \<times> 'f" where
  "system_motoman_rs022_load api f = (
     let (err, f) = nvs_open api NVS_NAMESPACE NVS_READONLY f
     in if err \<noteq> ESP_OK then (False, True, f)
        else let (err, stored) = nvs_get_u8 api NVS_NAMESPACE NVS_KEY_RS022 f
        in if err \<noteq> ESP_OK then (False, True, f) else (True, stored \<noteq> 0, f))"

definition system_motoman_rs022_save :: "'f nvs_api \<Rightarrow> bool \<Rightarrow> 'f \<Rightarrow> bool \<times> 'f" where
  "system_motoman_rs022_save api instance_direct f = (
     let (err, f) = nvs_open api NVS_NAMESPACE NVS_READWRITE f
     in if err \<noteq> ESP_OK then (False, f)
        else let (err, f) = nvs_set_u8 api NVS_NAMESPACE NVS_KEY_RS022 (if instance_direct then 1 else 0) f
        in if err \<noteq> ESP_OK then (False, f)
           else let (err, f) = nvs_commit api NVS_NAMESPACE f in (err = ESP_OK, f))"

subsection \<open>Stored configurations are restored\<close>

lemma blob_octets_of:
  assumes "length (nv_domain b) = 48" and "length (nv_hostname b) = 64"
  shows "length (blob_octets b) = 145" and "blob_of (blob_octets b) = Some b"
proof -
  show "length (blob_octets b) = 145" using assms by (simp add: blob_octets_def udint.enc_length uint.enc_length)
  have "read_bytes 48 (nv_domain b @ r) = Some (nv_domain b, r)" "read_bytes 64 (nv_hostname b @ r) = Some (nv_hostname b, r)" for r
    using assms read_bytes_append by metis+
  then show "blob_of (blob_octets b) = Some b"
    by (simp add: blob_of_def blob_octets_def udint.dec_enc uint.dec_enc)
qed

lemma stored_string:
  assumes "length bs \<le> limit" and "limit \<le> 64"
  shows "stored_length limit (string_of bs) = of_nat (length bs)"
    and "stored_name limit (string_of bs) = Some (bs @ replicate (limit - length bs) 0)"
proof -
  have n: "unat (of_nat (length bs) :: CipUint) = length bs" "unat (of_nat limit :: CipUint) = limit"
    using assms by (simp_all add: unat_of_nat)
  then have le: "\<not> of_nat limit < (of_nat (length bs) :: CipUint)" using assms(1) by (simp add: word_less_nat_alt)
  then show len: "stored_length limit (string_of bs) = of_nat (length bs)" by (simp add: stored_length_def string_of_def)
  show "stored_name limit (string_of bs) = Some (bs @ replicate (limit - length bs) 0)"
  proof (cases "bs = []")
    case True
    then show ?thesis by (simp add: stored_name_def string_of_def)
  next
    case False
    then have "0 < (of_nat (length bs) :: CipUint)" using n(1) by (simp add: word_less_nat_alt)
    then show ?thesis
      using False assms(1) len n(1) by (simp add: stored_name_def string_of_def read_bytes_def write_at_def)
  qed
qed

text \<open>A string without octets has length 0, as every string of the device has before it is shut down.\<close>

definition string_clean :: "CipString \<Rightarrow> bool" where
  "string_clean s \<longleftrightarrow> (cs_string s = None \<longrightarrow> cs_length s = 0)"

lemma restore_string:
  assumes "length bs \<le> limit" and "limit \<le> 64" and "string_clean s"
  shows "restore_name limit (of_nat (length bs)) (bs @ zeros) s = Some (string_of bs)"
proof -
  have n: "unat (of_nat (length bs) :: CipUint) = length bs" "unat (of_nat limit :: CipUint) = limit"
    using assms by (simp_all add: unat_of_nat)
  have s: "ClearCipString s = empty_string" using assms(3) by (cases s) (auto simp: ClearCipString_def string_clean_def empty_string_def split: option.splits)
  have "\<not> of_nat limit < (of_nat (length bs) :: CipUint)" "0 < (of_nat (length bs) :: CipUint) \<longleftrightarrow> bs \<noteq> []"
    using n assms(1) by (simp_all add: word_less_nat_alt)
  then show ?thesis
    using set_name [of bs zeros] assms(1,2) s
    by (cases "bs = []") (simp_all add: restore_name_def Let_def string_of_def empty_string_def)
qed

text \<open>Storing never faults when the names are short, whatever the flash answers.\<close>

lemma NvTcpipStore_reports:
  assumes "if_domain_name (interface_configuration t) = string_of domain" and "length domain \<le> 48"
    and "hostname t = string_of host" and "length host \<le> 64"
  shows "\<exists>status f'. NvTcpipStore api t f = Some (status, f')"
  using assms stored_string [of domain 48] stored_string [of host 64]
  by (auto simp: NvTcpipStore_def TcpipNvOpen_def Let_def split: if_splits prod.splits)

text \<open>The object the stored configuration is restored into, and what is made of it when its addresses are not valid.\<close>

definition restored :: "CipTcpIpObject \<Rightarrow> CipTcpIpObject \<Rightarrow> CipTcpIpObject" where
  "restored t t0 = t0\<lparr>config_control := config_control t, interface_configuration := interface_configuration t,
     select_acd := select_acd t, hostname := hostname t, tcpip_status := (tcpip_status t0 OR 1) AND NOT kTcpipStatusIfaceCfgPend\<rparr>"

definition without_addresses :: "CipTcpIpObject \<Rightarrow> CipTcpIpObject" where
  "without_addresses t = t\<lparr>config_control := (config_control t AND NOT kTcpipCfgCtrlMethodMask) OR kTcpipCfgCtrlDhcp,
     interface_configuration := (interface_configuration t)\<lparr>if_ip_address := 0, if_network_mask := 0, if_gateway := 0,
       if_name_server := 0, if_name_server_2 := 0\<rparr>,
     tcpip_status := tcpip_status t AND NOT (kTcpipStatusAcdStatus OR kTcpipStatusAcdFault)\<rparr>"

text \<open>
  C17: A configuration survives a restart. If the configuration of the TCP/IP object, with names of at most 48 and 64
  octets, was stored without an error, then loading it into any object whose names without octets have length 0
  succeeds and restores the method, all addresses, both names and the conflict detection setting, and marks the configuration as applied; the other settings, also the
  inactivity time-out, are those of the object it is loaded into. The exception is a configuration with the static
  method whose addresses are not valid: then the method becomes DHCP, all five addresses become 0 and the two status
  bits of the conflict detection are cleared, and the rest is restored as before.
\<close>

theorem tcpip_configuration_restored:
  assumes "nvs_keeps api" and "NvTcpipStore api t f = Some (kEipStatusOk, f')"
    and "if_domain_name (interface_configuration t) = string_of domain" and "length domain \<le> 48"
    and "hostname t = string_of host" and "length host \<le> 64"
    and "string_clean (if_domain_name (interface_configuration t0))" and "string_clean (hostname t0)"
  shows "\<exists>f''. NvTcpipLoad api t0 f' = Some (kEipStatusOk,
      (if config_control t AND kTcpipCfgCtrlMethodMask = kTcpipCfgCtrlStaticIp \<and> \<not> CipTcpIpIsValidNetworkConfig (interface_configuration t)
       then without_addresses (restored t t0) else restored t t0), f'')"
proof -
  let ?c = "interface_configuration t"
  let ?b = "\<lparr>nv_version = TCPIP_NV_VERSION,
            nv_config_control = config_control t, nv_ip_address = if_ip_address ?c, nv_network_mask = if_network_mask ?c,
            nv_gateway = if_gateway ?c, nv_name_server = if_name_server ?c, nv_name_server2 = if_name_server_2 ?c,
            nv_domain_length = of_nat (length domain), nv_hostname_length = of_nat (length host),
            nv_domain = domain @ replicate (48 - length domain) 0, nv_hostname = host @ replicate (64 - length host) 0,
            nv_select_acd = (if select_acd t then 1 else 0)\<rparr>"
  note domain = stored_string [of domain 48] and host = stored_string [of host 64]
  have b: "length (blob_octets ?b) = 145" "blob_of (blob_octets ?b) = Some ?b"
    using assms(4,6) blob_octets_of [of ?b] by simp_all
  obtain f0 f1 f2 where w: "nvs_open api TCPIP_NVS_NAMESPACE NVS_READWRITE f0 = (ESP_OK, f1)"
      "nvs_set_blob api TCPIP_NVS_NAMESPACE TCPIP_NVS_KEY (blob_octets ?b) f1 = (ESP_OK, f2)"
      "nvs_commit api TCPIP_NVS_NAMESPACE f2 = (ESP_OK, f')"
    using assms(2-6) domain host
    by (auto simp: NvTcpipStore_def TcpipNvOpen_def Let_def split: if_splits prod.splits)
  then obtain f3 where r: "nvs_open api TCPIP_NVS_NAMESPACE NVS_READONLY f' = (ESP_OK, f3)"
      "nvs_get_blob api TCPIP_NVS_NAMESPACE TCPIP_NVS_KEY 145 f3 = (ESP_OK, blob_octets ?b)"
    using assms(1) b(1) unfolding nvs_keeps_def by (metis order_refl)
  have load: "NvTcpipLoad api t0 f' = apply_blob api False ?b t0 f3"
    using r b by (simp add: NvTcpipLoad_def TcpipNvOpen_def)
  have names: "restore_name 48 (of_nat (length domain)) (domain @ replicate (48 - length domain) 0) (if_domain_name (interface_configuration t0)) = Some (string_of domain)"
    "restore_name 64 (of_nat (length host)) (host @ replicate (64 - length host) 0) (hostname t0) = Some (string_of host)"
    using restore_string assms(4,6-8) by simp_all
  have c: "(interface_configuration t0)\<lparr>if_ip_address := if_ip_address ?c, if_network_mask := if_network_mask ?c,
      if_gateway := if_gateway ?c, if_name_server := if_name_server ?c, if_name_server_2 := if_name_server_2 ?c,
      if_domain_name := string_of domain\<rparr> = ?c"
    using assms(3) by (cases ?c, cases "interface_configuration t0") simp
  obtain status f4 where st: "NvTcpipStore api (without_addresses (restored t t0)) f3 = Some (status, f4)"
    using NvTcpipStore_reports [of "without_addresses (restored t t0)" domain host api f3] assms(3-6)
    by (auto simp: without_addresses_def restored_def)
  show ?thesis
    using names c st assms(5) by (cases "select_acd t") (simp_all add: load apply_blob_def Let_def without_addresses_def restored_def)
qed


lemma config_octets_of: "length (config_octets c) = 24" "config_of (config_octets c) = Some c"
proof -
  show "length (config_octets c) = 24" by (simp add: config_octets_def udint.enc_length)
  have "read_bytes 4 ([x, y, z, w] @ r) = Some ([x, y, z, w], r)" for x y z w :: CipOctet and r
    by (simp add: read_bytes_def)
  then show "config_of (config_octets c) = Some c"
    using udint.dec_enc [of "sys_dns2 c" "[]"] by (cases c) (simp add: config_of_def config_octets_def udint.dec_enc)
qed

text \<open>The settings of the web interface are restored as they were saved.\<close>

lemma system_ip_config_restored:
  assumes "nvs_keeps api" and "system_ip_config_save api c f = (True, f')"
  shows "\<exists>f''. system_ip_config_load api c0 f' = Some (True, c, f'')"
proof -
  obtain f1 f2 where "nvs_open api NVS_NAMESPACE NVS_READWRITE f = (ESP_OK, f1)"
      "nvs_set_blob api NVS_NAMESPACE NVS_KEY_IPCONFIG (config_octets c) f1 = (ESP_OK, f2)" "nvs_commit api NVS_NAMESPACE f2 = (ESP_OK, f')"
    using assms(2) by (auto simp: system_ip_config_save_def Let_def split: if_splits prod.splits)
  then obtain f3 where "nvs_open api NVS_NAMESPACE NVS_READONLY f' = (ESP_OK, f3)"
      "nvs_get_blob api NVS_NAMESPACE NVS_KEY_IPCONFIG 24 f3 = (ESP_OK, config_octets c)"
    using assms(1) config_octets_of(1) [of c] unfolding nvs_keeps_def by (metis order_refl)
  then show ?thesis using config_octets_of by (simp add: system_ip_config_load_def)
qed

text \<open>A flash that keeps its values in a map, and the configuration of a device in it.\<close>

definition map_flash :: "(string \<times> string \<rightharpoonup> CipOctet list) nvs_api" where
  "map_flash = \<lparr>nvs_open = (\<lambda>ns mode f. (ESP_OK, f)),
     nvs_get_blob = (\<lambda>ns key n f. case f (ns, key) of None \<Rightarrow> (ESP_ERR_NVS_NOT_FOUND, [])
       | Some bs \<Rightarrow> if length bs \<le> n then (ESP_OK, bs) else (ESP_ERR_OTHER, [])),
     nvs_set_blob = (\<lambda>ns key bs f. (ESP_OK, f((ns, key) \<mapsto> bs))),
     nvs_get_u8 = (\<lambda>ns key f. case f (ns, key) of Some [b] \<Rightarrow> (ESP_OK, b) | _ \<Rightarrow> (ESP_ERR_NVS_NOT_FOUND, 0)),
     nvs_set_u8 = (\<lambda>ns key b f. (ESP_OK, f((ns, key) \<mapsto> [b]))),
     nvs_commit = (\<lambda>ns f. (ESP_OK, f))\<rparr>"

lemma map_flash_keeps: "nvs_keeps map_flash"
  by (simp add: nvs_keeps_def map_flash_def)

definition named_device :: CipTcpIpObject where
  "named_device = g_tcpip\<lparr>config_control := 2, hostname := string_of [0x64, 0x78], encapsulation_inactivity_timeout := 30\<rparr>"

theorem tcpip_configuration_restored_witness:
  "\<exists>f' f''. NvTcpipStore map_flash named_device Map.empty = Some (kEipStatusOk, f') \<and>
    NvTcpipLoad map_flash g_tcpip f' = Some (kEipStatusOk, g_tcpip\<lparr>config_control := 2,
      interface_configuration := interface_configuration g_tcpip, hostname := string_of [0x64, 0x78], select_acd := False,
      tcpip_status := (tcpip_status g_tcpip OR 1) AND NOT kTcpipStatusIfaceCfgPend\<rparr>, f'')"
proof -
  have empty: "empty_string = string_of []" by (simp add: empty_string_def string_of_def)
  obtain f' where f': "NvTcpipStore map_flash named_device Map.empty = Some (kEipStatusOk, f')"
    using stored_string [of "[]" 48] stored_string [of "[0x64, 0x78]" 64]
    by (simp add: NvTcpipStore_def TcpipNvOpen_def map_flash_def named_device_def g_tcpip_def empty)
  from tcpip_configuration_restored [OF map_flash_keeps f', of "[]" "[0x64, 0x78]" g_tcpip] f' show ?thesis
    by (auto simp: named_device_def g_tcpip_def empty string_clean_def restored_def) (simp_all add: string_of_def)
qed

end
