(* ===== verification/DeviceStart.thy ===== *)
theory DeviceStart
  imports NetworkHandler NvData
begin

text \<open>
  The life of the device: the start of the CIP stack and its end (\<^verbatim>\<open>CipStackInit\<close> and \<^verbatim>\<open>ShutdownCipStack\<close> of
  \<^verbatim>\<open>cip/cipcommon.c\<close>), the interface data of \<^verbatim>\<open>ports/ESP32/networkconfig.c\<close>, and the task of \<^verbatim>\<open>ports/ESP32/opener.c\<close>.
\<close>

subsection \<open>The CIP stack\<close>

definition expect_ok :: "(EipStatus \<times> 's) run \<Rightarrow> 's run" where
  "expect_ok r = do { (status, st) \<leftarrow> r; c_assert (status = kEipStatusOk); Some st }"

text \<open>The device is not a ring node and has no file or security objects.\<close>

definition CipStackInit :: "(nat \<Rightarrow> heap_block) \<Rightarrow> CipUint \<Rightarrow> 'e stack_state_scheme \<Rightarrow> (EipStatus \<times> 'e stack_state_scheme) run" where
  "CipStackInit heap unique_connection_id st = do {
     st \<leftarrow> expect_ok (CipMessageRouterInit st);
     st \<leftarrow> expect_ok (CipIdentityInit st);
     st \<leftarrow> expect_ok (CipTcpIpInterfaceInit st);
     st \<leftarrow> expect_ok (CipEthernetLinkInit st);
     st \<leftarrow> expect_ok (ConnectionManagerInit unique_connection_id st);
     st \<leftarrow> expect_ok (CipAssemblyInitialize st);
     st \<leftarrow> expect_ok (CipQoSInit st);
     st \<leftarrow> expect_ok (ApplicationInitialization heap st);
     Some (kEipStatusOk, st) }"

text \<open>The byte arrays of the assemblies are freed; other cells stay.\<close>

fun free_assemblies :: "CipInstance list \<Rightarrow> CipClassObject \<Rightarrow> 'e cip_state_scheme \<Rightarrow> 'e cip_state_scheme run" where
  "free_assemblies [] ob st = Some st"
| "free_assemblies (i # rest) ob st = do {
     slot \<leftarrow> GetCipAttribute (inst_number i) 3 ob;
     st \<leftarrow> (case slot of
         None \<Rightarrow> Some st
       | Some k \<Rightarrow> do {
           a \<leftarrow> array_get (attributes i) k;
           Some (case attr_data a of Some (DVar c) \<Rightarrow> st\<lparr>data_store := (data_store st)(c := None)\<rparr> | _ \<Rightarrow> st) });
     free_assemblies rest ob st }"

definition ShutdownAssemblies :: "'e cip_state_scheme \<Rightarrow> 'e cip_state_scheme run" where
  "ShutdownAssemblies st = (case GetCipClass kCipAssemblyClassCode st of
       None \<Rightarrow> Some st
     | Some ob \<Rightarrow> free_assemblies (instances ob) ob st)"

definition ShutdownCipStack :: "'e network_state_scheme \<Rightarrow> 'e network_state_scheme run" where
  "ShutdownCipStack st = do {
     st \<leftarrow> CloseAllConnections st;
     st \<leftarrow> EncapsulationShutDown st;
     st \<leftarrow> ShutdownAssemblies st;
     let st = st\<lparr>tcpip_object := ShutdownTcpIpInterface (tcpip_object st)\<rparr>;
     Some (DeleteAllClasses st) }"

subsection \<open>The network interface (networkconfig.c)\<close>

record netif =
  hwaddr :: "CipOctet list"
  iface_ip_addr :: CipUdint
  iface_netmask :: CipUdint
  iface_gw :: CipUdint
  iface_hostname :: "CipOctet list"

definition IfaceGetMacAddress :: "netif \<Rightarrow> CipOctet list run" where
  "IfaceGetMacAddress iface = do { (mac, _) \<leftarrow> read_bytes 6 (hwaddr iface); Some mac }"

definition GetIpAndNetmaskFromInterface :: "netif \<Rightarrow> CipTcpIpInterfaceConfiguration \<Rightarrow>
    EipStatus \<times> CipTcpIpInterfaceConfiguration" where
  "GetIpAndNetmaskFromInterface iface c = (kEipStatusOk, c\<lparr>if_ip_address := iface_ip_addr iface, if_network_mask := iface_netmask iface\<rparr>)"

definition GetGatewayFromRoute :: "netif \<Rightarrow> CipTcpIpInterfaceConfiguration \<Rightarrow>
    EipStatus \<times> CipTcpIpInterfaceConfiguration" where
  "GetGatewayFromRoute iface c = (kEipStatusOk, c\<lparr>if_gateway := iface_gw iface\<rparr>)"

definition IfaceGetConfiguration :: "netif \<Rightarrow> CipTcpIpInterfaceConfiguration \<Rightarrow> EipStatus \<times> CipTcpIpInterfaceConfiguration" where
  "IfaceGetConfiguration iface iface_cfg = (
     let local_cfg = \<lparr>if_ip_address = 0, if_network_mask = 0, if_gateway = 0, if_name_server = 0, if_name_server_2 = 0,
           if_domain_name = empty_string\<rparr>;
         (status, local_cfg) = GetIpAndNetmaskFromInterface iface local_cfg;
         (status, local_cfg) = (if status = kEipStatusOk then GetGatewayFromRoute iface local_cfg else (status, local_cfg))
     in (status, if status = kEipStatusOk then local_cfg else iface_cfg))"

definition GetHostName :: "netif \<Rightarrow> CipString \<Rightarrow> CipString run" where
  "GetHostName iface s = SetCipStringByCstr s (iface_hostname iface)"

subsection \<open>The task (opener.c)\<close>

record device_state = network_state +
  g_end_stack :: bool
  opener_initialized :: bool

abbreviation (input) CbNvTcpipSet :: nat where "CbNvTcpipSet \<equiv> 70"

definition apply_system_config :: "system_ip_config_t \<Rightarrow> CipTcpIpObject \<Rightarrow> CipTcpIpObject" where
  "apply_system_config c t = t\<lparr>
     config_control := (config_control t AND NOT kTcpipCfgCtrlMethodMask) OR (if use_dhcp c then kTcpipCfgCtrlDhcp else kTcpipCfgCtrlStaticIp),
     interface_configuration := (interface_configuration t)\<lparr>if_ip_address := sys_ip_address c, if_network_mask := sys_netmask c,
       if_gateway := sys_gateway c, if_name_server := sys_dns1 c, if_name_server_2 := sys_dns2 c\<rparr>\<rparr>"

definition load_configuration :: "'f nvs_api \<Rightarrow> system_ip_config_t \<Rightarrow> CipTcpIpObject \<Rightarrow> 'f \<Rightarrow> (CipTcpIpObject \<times> 'f) run" where
  "load_configuration api garbage t f = do {
     (loaded, c, f) \<leftarrow> system_ip_config_load api garbage f;
     if loaded then Some (apply_system_config c t, f)
     else do { (_, t, f) \<leftarrow> NvTcpipLoad api t f; Some (t, f) } }"

text \<open>The part of the start-up for a link that is up. The status is that of an inner variable.\<close>

definition start_stack :: "net_env \<Rightarrow> 'f nvs_api \<Rightarrow> (nat \<Rightarrow> heap_block) \<Rightarrow> netif \<Rightarrow> system_ip_config_t \<Rightarrow> 'f \<Rightarrow>
    'e device_state_scheme \<Rightarrow> (EipStatus \<times> 'f \<times> 'e device_state_scheme) run" where
  "start_stack os api heap netif garbage f st = do {
     let st = st\<lparr>connection_list := DoublyLinkedListInitialize (connection_list st)\<rparr>;
     iface_mac \<leftarrow> IfaceGetMacAddress netif;
     let st = SetDeviceSerialNumber 123456789 st;
     let unique_connection_id = ucast (os_random os (os_calls st));
     (_, st) \<leftarrow> CipStackInit heap unique_connection_id (next_call st);
     st \<leftarrow> (if GetCipClass kCipTcpIpInterfaceClassCode st \<noteq> None
       then update_class kCipTcpIpInterfaceClassCode (on_cip_class (\<lambda>c. Some (InsertGetSetCallback CbNvTcpipSet kNvDataFunc c))) st
       else Some st);
     st \<leftarrow> CipEthernetLinkSetMac iface_mac st;
     let t = tcpip_object st;
     host \<leftarrow> GetHostName netif (hostname t);
     (t, f) \<leftarrow> load_configuration api garbage (t\<lparr>hostname := host\<rparr>) f;
     let (_, c) = IfaceGetConfiguration netif (interface_configuration t);
     let st = st\<lparr>tcpip_object := t\<lparr>interface_configuration := c\<rparr>, interface_ip_address := if_ip_address c, g_end_stack := False\<rparr>;
     (status, st) \<leftarrow> NetworkHandlerInitialize os st;
     Some (status, f, st) }"

text \<open>
  \<open>task\<close> says whether the task could be created. The status that is tested is the outer variable, which keeps its
  initial value 0.
\<close>

definition opener_init :: "net_env \<Rightarrow> 'f nvs_api \<Rightarrow> (nat \<Rightarrow> heap_block) \<Rightarrow> bool \<Rightarrow> bool \<Rightarrow> netif \<Rightarrow> system_ip_config_t \<Rightarrow> 'f \<Rightarrow>
    'e device_state_scheme \<Rightarrow> ('f \<times> 'e device_state_scheme) run" where
  "opener_init os api heap link_up task netif garbage f st = (
     if opener_initialized st then Some (f, st)
     else do {
       let eip_status = kEipStatusOk;
       (f, st) \<leftarrow> (if link_up then do { (_, f, st) \<leftarrow> start_stack os api heap netif garbage f st; Some (f, st) }
         else Some (f, st\<lparr>g_end_stack := True\<rparr>));
       Some (f, if \<not> g_end_stack st \<and> eip_status = kEipStatusOk then st\<lparr>opener_initialized := task\<rparr> else st) })"

partial_function (option) opener_loop :: "net_env \<Rightarrow> 'e device_state_scheme cip_env \<Rightarrow>
    (nat \<Rightarrow> MilliSeconds \<Rightarrow> 'e device_state_scheme \<Rightarrow> 'e device_state_scheme run) \<Rightarrow> (nat \<Rightarrow> bool) \<Rightarrow>
    'e device_state_scheme \<Rightarrow> 'e device_state_scheme option" where
  "opener_loop os env checkers link_up st = (
     if g_end_stack st then Some st
     else do {
       (status, st) \<leftarrow> NetworkHandlerProcessCyclic os env checkers st;
       let st = (if status \<noteq> kEipStatusOk then st\<lparr>g_end_stack := True\<rparr> else st);
       let st = (if \<not> link_up (os_calls st) then (next_call st)\<lparr>g_end_stack := True\<rparr> else next_call st);
       opener_loop os env checkers link_up st })"

definition opener_thread :: "net_env \<Rightarrow> 'e device_state_scheme cip_env \<Rightarrow>
    (nat \<Rightarrow> MilliSeconds \<Rightarrow> 'e device_state_scheme \<Rightarrow> 'e device_state_scheme run) \<Rightarrow> (nat \<Rightarrow> bool) \<Rightarrow>
    'e device_state_scheme \<Rightarrow> 'e device_state_scheme run" where
  "opener_thread os env checkers link_up st = do {
     st \<leftarrow> opener_loop os env checkers link_up st;
     (_, st) \<leftarrow> NetworkHandlerFinish st;
     st \<leftarrow> ShutdownCipStack st;
     Some (st\<lparr>opener_initialized := False\<rparr>) }"

subsection \<open>Creating the standard classes\<close>

text \<open>The object \<^verbatim>\<open>CreateCipClass\<close> registers does not depend on the state.\<close>

definition new_class_object :: "CipUdint \<Rightarrow> int \<Rightarrow> CipUdint \<Rightarrow> int \<Rightarrow> int \<Rightarrow> CipUdint \<Rightarrow> int \<Rightarrow> CipInstanceNum \<Rightarrow> CipUint \<Rightarrow>
    (CipClassObject \<Rightarrow> CipClassObject run) option \<Rightarrow> CipClassObject run" where
  "new_class_object code ca hca cs ia hia sv k r initializer = do {
     st \<leftarrow> CreateCipClass code ca hca cs ia hia sv k r initializer (example_state\<lparr>g_first_object := []\<rparr>);
     array_get (g_first_object st) 0 }"

lemma CreateCipClass_object:
  assumes "GetCipClass code st = None" and "new_class_object code ca hca cs ia hia sv k r initializer = Some ob"
  shows "CreateCipClass code ca hca cs ia hia sv k r initializer st = Some (st\<lparr>g_first_object := g_first_object st @ [ob]\<rparr>)"
  using assms
  by (auto simp: new_class_object_def CreateCipClass_def RegisterCipClass_def GetCipClass_def GetRegisteredObject_def Let_def
      Option.bind_eq_Some_conv split: prod.splits)

text \<open>The construction of an object by a list of updates; every stage has the class code.\<close>

fun finish_object :: "CipUdint \<Rightarrow> (CipClassObject \<Rightarrow> CipClassObject run) list \<Rightarrow> CipClassObject run \<Rightarrow> CipClassObject run" where
  "finish_object code [] r = do { ob \<leftarrow> r; c_assert (class_code (cip_class ob) = code); Some ob }"
| "finish_object code (f # fs) r = do { ob \<leftarrow> r; c_assert (class_code (cip_class ob) = code); finish_object code fs (f ob) }"

declare free_number.simps [code]

lemma router_object: "finish_object 2 [on_cip_class (InsertService kGetAttributeSingle SvcGetAttributeSingle)]
    (new_class_object 2 7 7 2 0 0 1 1 1 (Some InitializeCipMessageRouterClass)) \<noteq> None"
  by code_simp

text \<open>The numbers of the cells do not matter.\<close>

lemma identity_object: "finish_object 1 [insert_cells 1
       [(1, kCipUint, EncCipUint, c 1), (2, kCipUint, EncCipUint, c 2),
        (3, kCipUint, EncCipUint, c 3), (4, kCipUsintUsint, EncRevision, c 4),
        (5, kCipWord, EncCipWord, c 5), (6, kCipUdint, EncCipUdint, c 6),
        (7, kCipShortString, EncCipShortString, c 7), (8, kCipUsint, EncCipUsint, c 8)],
      insert_services
       [(kGetAttributeSingle, SvcGetAttributeSingle), (kGetAttributeAll, SvcGetAttributeAll), (kReset, SvcReset),
        (kGetAttributeList, SvcGetAttributeList), (kSetAttributeList, SvcSetAttributeList)]]
    (new_class_object 1 0 7 2 8 8 5 1 1 (Some InitializeCipIdentity)) \<noteq> None"
  by code_simp

lemma tcpip_object_built: "finish_object kCipTcpIpInterfaceClassCode [insert_attributes 1
       [(1, kCipDword, EncCipDword, None, c 1, kGetableSingleAndAll),
        (2, kCipDword, EncCipDword, None, c 2, kGetableSingleAndAll),
        (3, kCipDword, EncCipDword, Some DecConfigurationControl, c 3, kSetAndGetAble OR kNvDataFunc OR IFACE_CFG_SET_MODE),
        (4, kCipEpathType, EncCipEPath, None, c 4, kGetableSingleAndAll),
        (5, kCipUdintUdintUdintUdintUdintString, EncInterfaceConfiguration, Some DecInterfaceConfiguration, c 5,
          kGetableSingleAndAll OR kNvDataFunc OR IFACE_CFG_SET_MODE),
        (6, kCipString, EncCipString, Some DecInterfaceHostName, c 6, kGetableSingleAndAll OR kNvDataFunc OR IFACE_CFG_SET_MODE),
        (7, kCipAny, EncSafetyNetworkNumber, None, c 0, kGetableAllDummy),
        (8, kCipUsint, EncCipUsint, None, c 8, kGetableSingleAndAll),
        (9, kCipAny, EncMulticastConfiguration, None, c 9, kGetableSingleAndAll),
        (10, kCipBool, EncCipBool, Some DecSelectAcd, c 10, kGetableSingleAndAll OR kSetable OR kNvDataFunc),
        (11, kCipBool, EncLastConflictDetected, None, c 0, kGetableSingleAndAll),
        (12, kCipBool, EncCipBool, None, c 0, kGetableAllDummy),
        (13, kCipUint, EncCipUint, Some DecInactivityTimeout, c 13, kSetAndGetAble OR kNvDataFunc)],
      insert_services
       [(kGetAttributeSingle, SvcGetAttributeSingle), (kGetAttributeAll, SvcGetAttributeAll), (kSetAttributeSingle, SvcSetAttributeSingle)]]
    (new_class_object kCipTcpIpInterfaceClassCode 0 7 2 13 13 3 1 4 None) \<noteq> None"
  by code_simp

lemma ethernet_link_object: "finish_object kCipEthernetLinkClassCode [insert_services
       [(kGetAttributeSingle, SvcGetAttributeSingle), (kGetAttributeAll, SvcGetAttributeAllEthernetLink),
        (kEthLinkGetAndClear, SvcGetAndClearEthernetLink)],
      insert_attributes 1
       [(1, kCipUdint, EncCipUdint, None, c 1, kGetableSingleAndAll),
        (2, kCipDword, EncCipDword, None, c 2, kGetableSingleAndAll),
        (3, kCip6Usint, EncPhysicalAddress, None, c 3, kGetableSingleAndAll),
        (4, kCipAny, EncInterfaceCounters, None, c 4, kGetableSingleAndAll),
        (5, kCipAny, EncMediaCounters, None, c 5, kGetableSingleAndAll),
        (6, kCipAny, EncInterfaceControl, None, c 6, kGetableAll),
        (7, kCipUsint, EncCipUsint, None, c 7, kGetableSingleAndAll),
        (8, kCipUsint, EncCipUsint, None, c 8, kGetableAllDummy),
        (9, kCipUsint, EncCipUsint, None, c 9, kGetableAllDummy),
        (10, kCipShortString, EncCipShortString, None, c 10, kGetableAll),
        (11, kCipAny, EncInterfaceCaps, None, c 11, kGetableSingleAndAll)]]
    (new_class_object kCipEthernetLinkClassCode 0 7 2 11 11 3 1 4 None) \<noteq> None"
  by code_simp

lemma connection_manager_built: "finish_object 6 [insert_services
       [(kGetAttributeSingle, SvcGetAttributeSingle), (kGetAttributeAll, SvcGetAttributeAll),
        (kForwardOpen, SvcForwardOpen), (kLargeForwardOpen, SvcLargeForwardOpen), (kForwardClose, SvcForwardClose),
        (kGetConnectionOwner, SvcGetConnectionOwner), (kGetConnectionData, SvcGetConnectionData),
        (kSearchConnectionData, SvcSearchConnectionData)]]
    (new_class_object 6 0 7 2 13 14 8 1 1 (Some (\<lambda>ob. do {
     let cc = class_code (cip_class ob);
     ob \<leftarrow> class_attribute 1 (DRevision cc) kGetableSingleAndAll ob;
     ob \<leftarrow> class_attribute 2 (DNumberOfInstances cc) kGetableSingleAndAll ob;
     ob \<leftarrow> class_attribute 3 (DNumberOfInstances cc) kGetableSingle ob;
     ob \<leftarrow> class_attribute 4 DUintZero kNotSetOrGetable ob;
     ob \<leftarrow> class_attribute 5 DUintZero kNotSetOrGetable ob;
     ob \<leftarrow> class_attribute 6 (DMetaHighestAttribute cc) kGetableSingleAndAll ob;
     ob \<leftarrow> class_attribute 7 (DHighestAttribute cc) kGetableSingleAndAll ob;
     c_assert (find_instance 1 (instances ob) \<noteq> None);
     ob \<leftarrow> insert_cells 1
       [(1, kCipUint, EncCipUint, c 1), (2, kCipUint, EncCipUint, c 2), (3, kCipUint, EncCipUint, c 3),
        (4, kCipUint, EncCipUint, c 4), (5, kCipUint, EncCipUint, c 5), (6, kCipUint, EncCipUint, c 6),
        (7, kCipUint, EncCipUint, c 7), (8, kCipUint, EncCipUint, c 8), (9, kCipAny, EncConnectionEntryList, c 9),
        (11, kCipUint, EncCipUint, c 11), (12, kCipUint, EncCipUint, c 12), (13, kCipUint, EncCipUint, c 13)] ob;
     ob \<leftarrow> on_meta_class (InsertService kGetAttributeAll SvcGetAttributeAll) ob;
     on_meta_class (InsertService kGetAttributeSingle SvcGetAttributeSingle) ob }))) \<noteq> None"
  by code_simp

lemmas connection_manager_object = connection_manager_built [of s_statistic, folded InitializeConnectionManager_def [abs_def]]

lemma assembly_object: "finish_object 4 [insert_services
       [(kGetAttributeSingle, SvcGetAttributeSingle), (kSetAttributeSingle, SvcSetAttributeSingle)],
      on_cip_class (\<lambda>c. Some (InsertGetSetCallback CbAssemblyPostSet kPostSetFunc (InsertGetSetCallback CbAssemblyPreGet kPreGetFunc c)))]
    (new_class_object 4 0 7 1 2 4 2 0 2 None) \<noteq> None"
  by code_simp

lemma qos_object: "finish_object kCipQoSClassCode [insert_attributes 1
       ([(n, kCipUsint, EncCipUsint, None, c (unat n), kNotSetOrGetable). n \<leftarrow> [1, 2, 3]] @
        [(n, kCipUsint, EncCipUsint, Some DecQoSAttribute, c (unat n), kGetableSingle OR kSetable OR kNvDataFunc). n \<leftarrow> [4, 5, 6, 7, 8]]),
      insert_services
       [(kGetAttributeSingle, SvcGetAttributeSingle), (kSetAttributeSingle, SvcSetAttributeSingle)]]
    (new_class_object kCipQoSClassCode 7 7 2 8 8 2 1 1 None) \<noteq> None"
  by code_simp


subsection \<open>The start of the stack\<close>

lemma finish_object_SomeD: "finish_object code fs r = Some ob \<Longrightarrow> \<exists>ob0. r = Some ob0 \<and> class_code (cip_class ob0) = code"
  by (cases fs) (auto simp: c_assert_def Option.bind_eq_Some_conv split: if_splits)

lemma finish_object_code: "finish_object code fs r = Some ob \<Longrightarrow> class_code (cip_class ob) = code"
  by (induction fs arbitrary: r) (auto simp: c_assert_def Option.bind_eq_Some_conv split: if_splits)

fun update_all :: "CipUdint \<Rightarrow> (CipClassObject \<Rightarrow> CipClassObject run) list \<Rightarrow> 'e cip_state_scheme \<Rightarrow> 'e cip_state_scheme run" where
  "update_all code [] st = Some st"
| "update_all code (f # fs) st = do { st \<leftarrow> update_class code f st; update_all code fs st }"

lemma update_all_created:
  assumes "GetCipClass code st = None" and "finish_object code fs (Some ob0) = Some ob"
  shows "update_all code fs (st\<lparr>g_first_object := g_first_object st @ [ob0]\<rparr>) = Some (st\<lparr>g_first_object := g_first_object st @ [ob]\<rparr>)"
  using assms(2)
proof (induction fs arbitrary: ob0)
  case Nil
  then show ?case by (simp add: c_assert_def split: if_splits)
next
  case (Cons f fs)
  then have c: "class_code (cip_class ob0) = code" and rest: "finish_object code fs (f ob0) = Some ob"
    by (auto simp: c_assert_def split: if_splits)
  then obtain ob1 where ob1: "f ob0 = Some ob1" using finish_object_SomeD by blast
  with rest Cons.IH [of ob1] update_created_class [of code st ob0 f ob1] assms(1) c ob1 show ?case by simp
qed

lemma update_all_Nil: "update_all code [] = Some"
  by (intro ext) simp

lemma update_all_single: "update_all code [f] = update_class code f"
  by (intro ext) (simp add: update_all_Nil)

lemma update_all_pair: "update_all code [f, g] st = do { st \<leftarrow> update_class code f st; update_class code g st }"
  by (simp add: update_all_single)

declare finish_object.simps [simp del] update_all.simps [simp del]

text \<open>A class is created and completed: one object with its code is added to the registry.\<close>

lemma class_registered:
  assumes "finish_object code fs (new_class_object code ca hca cs ia hia sv k r initializer) \<noteq> None" and "GetCipClass code st = None"
  defines "ob0 \<equiv> the (new_class_object code ca hca cs ia hia sv k r initializer)"
    and "ob \<equiv> the (finish_object code fs (new_class_object code ca hca cs ia hia sv k r initializer))"
  shows "CreateCipClass code ca hca cs ia hia sv k r initializer st = Some (st\<lparr>g_first_object := g_first_object st @ [ob0]\<rparr>)"
    and "update_all code fs (st\<lparr>g_first_object := g_first_object st @ [ob0]\<rparr>) = Some (st\<lparr>g_first_object := g_first_object st @ [ob]\<rparr>)"
    and "class_code (cip_class ob) = code"
proof -
  have f: "finish_object code fs (new_class_object code ca hca cs ia hia sv k r initializer) = Some ob" using assms(1) by (auto simp: ob_def)
  then have o0: "new_class_object code ca hca cs ia hia sv k r initializer = Some ob0" using finish_object_SomeD by (fastforce simp: ob0_def)
  show "CreateCipClass code ca hca cs ia hia sv k r initializer st = Some (st\<lparr>g_first_object := g_first_object st @ [ob0]\<rparr>)"
    by (rule CreateCipClass_object [OF assms(2) o0])
  show "update_all code fs (st\<lparr>g_first_object := g_first_object st @ [ob0]\<rparr>) = Some (st\<lparr>g_first_object := g_first_object st @ [ob]\<rparr>)"
    using update_all_created [OF assms(2)] f o0 by simp
  show "class_code (cip_class ob) = code" by (rule finish_object_code [OF f])
qed

text \<open>The registered classes, and a step that registers one more without touching the static data of the robot.\<close>

definition registered_classes :: "'e cip_state_scheme \<Rightarrow> CipUdint set" where
  "registered_classes st = {code. GetCipClass code st \<noteq> None}"

definition adds_class :: "CipUdint \<Rightarrow> 'e cip_state_scheme \<Rightarrow> 'e cip_state_scheme \<Rightarrow> bool" where
  "adds_class code st st' \<longleftrightarrow> (\<exists>ob. class_code (cip_class ob) = code \<and> g_first_object st' = g_first_object st @ [ob]) \<and>
     (\<forall>x < 1000. data_store st' x = data_store st x)"

lemma find_append: "find P (xs @ ys) = (case find P xs of None \<Rightarrow> find P ys | Some x \<Rightarrow> Some x)"
  by (induction xs) auto

lemma adds_class_registered: "adds_class code st st' \<Longrightarrow> registered_classes st' = insert code (registered_classes st)"
  by (auto simp: adds_class_def registered_classes_def GetCipClass_def GetRegisteredObject_def find_append split: option.splits if_splits)

lemma adds_class_statics: "adds_class code st st' \<Longrightarrow> statics_loaded st' = statics_loaded st"
  by (simp add: adds_class_def statics_loaded_def)

lemma unregistered: "code \<notin> registered_classes st \<longleftrightarrow> GetCipClass code st = None"
  by (simp add: registered_classes_def)

lemma CipMessageRouterInit_adds:
  assumes "GetCipClass 2 st = None"
  shows "\<exists>st'. CipMessageRouterInit st = Some (kEipStatusOk, st') \<and> adds_class 2 st st' \<and> data_store st' = data_store st"
  using class_registered [OF router_object assms]
  by (auto simp: CipMessageRouterInit_def adds_class_def update_all_single)

lemma CipIdentityInit_adds:
  assumes "GetCipClass 1 st = None" and "data_store st (s_identity 7) = Some (VShortString name)"
  shows "\<exists>st'. CipIdentityInit st = Some (kEipStatusOk, st') \<and> adds_class 1 st st'"
proof -
  obtain s where s: "SetCipShortStringByCstr name OPENER_DEVICE_NAME = Some s"
    by (simp add: SetCipShortStringByCstr_def SetCipShortStringByData_def OPENER_DEVICE_NAME_def Let_def read_bytes_def)
  let ?st = "if css_length name = 0 then set_cell (s_identity 7) (VShortString s) st else st"
  have "GetCipClass 1 ?st = None" using assms(1) by (simp add: set_cell_def GetCipClass_data_store)
  note reg = class_registered [OF identity_object [of s_identity] this] and new = class_registered(1) [OF identity_object [of s_identity] assms(1)]
  let ?ob0 = "the (new_class_object 1 0 7 2 8 8 5 1 1 (Some InitializeCipIdentity))"
  have "(if css_length name = 0 then SetDeviceProductName (Some OPENER_DEVICE_NAME) (st\<lparr>g_first_object := g_first_object st @ [?ob0]\<rparr>)
      else Some (st\<lparr>g_first_object := g_first_object st @ [?ob0]\<rparr>)) = Some (?st\<lparr>g_first_object := g_first_object ?st @ [?ob0]\<rparr>)"
    using assms(2) s by (simp add: SetDeviceProductName_def set_cell_def)
  moreover have "GetDeviceProductName (st\<lparr>g_first_object := g_first_object st @ [?ob0]\<rparr>) = Some name"
    using assms(2) by (simp add: GetDeviceProductName_def)
  ultimately obtain ob where "CipIdentityInit st = Some (kEipStatusOk, ?st\<lparr>g_first_object := g_first_object ?st @ [ob]\<rparr>)" "class_code (cip_class ob) = 1"
    using reg(2,3) new unfolding update_all_pair
    by (simp only: CipIdentityInit_def Option.bind.bind_lunit Option.bind_assoc [symmetric])
  then show ?thesis by (auto simp: adds_class_def set_cell_def s_identity_def)
qed

lemma CipTcpIpInterfaceInit_adds:
  assumes "GetCipClass 0xF5 st = None"
  shows "\<exists>st'. CipTcpIpInterfaceInit st = Some (kEipStatusOk, st') \<and> adds_class 0xF5 st st'"
  using class_registered [OF tcpip_object_built [of s_tcpip] assms] unfolding update_all_pair
  by (auto simp: CipTcpIpInterfaceInit_def adds_class_def Option.bind_eq_Some_conv)


lemma registry_first: "st\<lparr>g_first_object := x, data_store := y\<rparr> = st\<lparr>data_store := y, g_first_object := x\<rparr>"
  by simp

lemma CipEthernetLinkInit_adds:
  assumes "GetCipClass 0xF6 st = None"
  shows "\<exists>st'. CipEthernetLinkInit st = Some (kEipStatusOk, st') \<and> adds_class 0xF6 st st'"
proof -
  let ?st = "st\<lparr>data_store := (data_store st)(s_ethernet_link 1 \<mapsto> V32 100, s_ethernet_link 2 \<mapsto> V32 0xF,
       s_ethernet_link 7 \<mapsto> V8 2, s_ethernet_link 8 \<mapsto> V8 0, s_ethernet_link 11 \<mapsto> VOctets [0x02, 0, 0, 0, 0x08, 0])\<rparr>"
  have "GetCipClass 0xF6 ?st = None" using assms by (simp add: GetCipClass_data_store)
  note reg = class_registered [OF ethernet_link_object [of s_ethernet_link] this] and new = class_registered(1) [OF ethernet_link_object [of s_ethernet_link] assms]
  show ?thesis
    using reg(2,3) new unfolding update_all_pair
    by (auto simp: CipEthernetLinkInit_def adds_class_def s_ethernet_link_def registry_first Option.bind_eq_Some_conv)
qed

lemma manager_data_frame:
  "g_first_object (InitializeConnectionManagerData st) = g_first_object st"
  "x < 1000 \<Longrightarrow> data_store (InitializeConnectionManagerData st) x = data_store st x"
  by (simp_all add: InitializeConnectionManagerData_def InitializeClass3ConnectionData_def InitializeIoConnectionData_def set_cell_def s_statistic_def Let_def)

lemma add_connectable_frame:
  "g_first_object (snd (AddConnectableObject cc f st)) = g_first_object st" "data_store (snd (AddConnectableObject cc f st)) = data_store st"
  by (simp_all add: AddConnectableObject_def split: option.splits)

lemma ConnectionManagerInit_adds:
  assumes "GetCipClass 6 st = None"
  shows "\<exists>st'. ConnectionManagerInit n st = Some (kEipStatusOk, st') \<and> adds_class 6 st st'"
proof -
  have "GetCipClass 6 (InitializeConnectionManagerData st) = None"
    using assms by (simp add: GetCipClass_def GetRegisteredObject_def manager_data_frame)
  from class_registered [OF connection_manager_object this] show ?thesis
    unfolding update_all_single
    by (auto simp: ConnectionManagerInit_def adds_class_def manager_data_frame add_connectable_frame Let_def case_prod_beta)
qed

lemma CipAssemblyInitialize_adds:
  assumes "GetCipClass 4 st = None"
  shows "\<exists>st'. CipAssemblyInitialize st = Some (kEipStatusOk, st') \<and> adds_class 4 st st'"
  using class_registered [OF assembly_object assms] unfolding update_all_pair
  by (auto simp: CipAssemblyInitialize_def CreateAssemblyClass_def adds_class_def Option.bind_eq_Some_conv)

lemma CipQoSInit_adds:
  assumes "GetCipClass 0x48 st = None"
  shows "\<exists>st'. CipQoSInit st = Some (kEipStatusOk, st') \<and> adds_class 0x48 st st'"
  using class_registered [OF qos_object [of s_qos] assms] unfolding update_all_pair
  by (auto simp: CipQoSInit_def adds_class_def Option.bind_eq_Some_conv)

definition standard_classes :: "CipUdint set" where
  "standard_classes = {2, 1, 0xF5, 0xF6, 6, 4, 0x48}"

definition robot_classes :: "CipUdint set" where
  "robot_classes = spec_code ` fst ` set robot_specs"

lemma robot_classes_distinct: "standard_classes \<inter> robot_classes = {}"
  by (auto simp: standard_classes_def robot_classes_def robot_specs_def robot_spec_defs robot_spec_def)

lemma expect_ok_Some: "expect_ok (Some (kEipStatusOk, st)) = Some st"
  by (simp add: expect_ok_def)

lemma standard_classes_start:
  assumes "g_first_object st = []" and "data_store st (s_identity 7) = Some (VShortString name)"
  shows "\<exists>st7. CipStackInit heap n st = do { st \<leftarrow> expect_ok (ApplicationInitialization heap st7); Some (kEipStatusOk, st) } \<and>
    registered_classes st7 = standard_classes \<and> statics_loaded st7 = statics_loaded st"
proof -
  have none: "registered_classes st = {}" using assms(1) by (simp add: registered_classes_def GetCipClass_def GetRegisteredObject_def)
  then obtain st1 where 1: "CipMessageRouterInit st = Some (kEipStatusOk, st1)" "adds_class 2 st st1" "data_store st1 = data_store st"
    using CipMessageRouterInit_adds unregistered by blast
  note r1 = adds_class_registered [OF 1(2), unfolded none]
  obtain st2 where 2: "CipIdentityInit st1 = Some (kEipStatusOk, st2)" "adds_class 1 st1 st2"
    using CipIdentityInit_adds [of st1 name] assms(2) 1(3) r1 by (auto simp flip: unregistered)
  note r2 = adds_class_registered [OF 2(2), unfolded r1]
  obtain st3 where 3: "CipTcpIpInterfaceInit st2 = Some (kEipStatusOk, st3)" "adds_class 0xF5 st2 st3"
    using CipTcpIpInterfaceInit_adds [of st2] r2 by (auto simp flip: unregistered)
  note r3 = adds_class_registered [OF 3(2), unfolded r2]
  obtain st4 where 4: "CipEthernetLinkInit st3 = Some (kEipStatusOk, st4)" "adds_class 0xF6 st3 st4"
    using CipEthernetLinkInit_adds [of st3] r3 by (auto simp flip: unregistered)
  note r4 = adds_class_registered [OF 4(2), unfolded r3]
  obtain st5 where 5: "ConnectionManagerInit n st4 = Some (kEipStatusOk, st5)" "adds_class 6 st4 st5"
    using ConnectionManagerInit_adds [of st4 n] r4 by (auto simp flip: unregistered)
  note r5 = adds_class_registered [OF 5(2), unfolded r4]
  obtain st6 where 6: "CipAssemblyInitialize st5 = Some (kEipStatusOk, st6)" "adds_class 4 st5 st6"
    using CipAssemblyInitialize_adds [of st5] r5 by (auto simp flip: unregistered)
  note r6 = adds_class_registered [OF 6(2), unfolded r5]
  obtain st7 where 7: "CipQoSInit st6 = Some (kEipStatusOk, st7)" "adds_class 0x48 st6 st7"
    using CipQoSInit_adds [of st6] r6 by (auto simp flip: unregistered)
  have "registered_classes st7 = standard_classes"
    using adds_class_registered [OF 7(2), unfolded r6] by (auto simp: standard_classes_def)
  moreover have "statics_loaded st7 = statics_loaded st"
    using 1(2) 2(2) 3(2) 4(2) 5(2) 6(2) 7(2) by (simp add: adds_class_statics)
  ultimately show ?thesis
    by (intro exI [of _ st7]) (simp add: CipStackInit_def 1(1) 2(1) 3(1) 4(1) 5(1) 6(1) 7(1) expect_ok_Some)
qed

lemma stack_start_serves:
  assumes "g_first_object st = []" and "statics_loaded st" and "data_store st (s_identity 7) = Some (VShortString name)"
    and "\<forall>k < 11. heap k \<noteq> NoMemory"
  shows "\<exists>st'. CipStackInit heap n st = Some (kEipStatusOk, st') \<and> robot_serving st' \<and>
    registered_classes st' = standard_classes \<union> robot_classes"
proof -
  obtain st7 where 7: "CipStackInit heap n st = do { st \<leftarrow> expect_ok (ApplicationInitialization heap st7); Some (kEipStatusOk, st) }"
      "registered_classes st7 = standard_classes" "statics_loaded st7"
    using standard_classes_start [OF assms(1,3)] assms(2) by blast
  have "\<forall>(s, bs) \<in> set robot_specs. GetCipClass (spec_code s) st7 = None"
    using robot_classes_distinct 7(2) by (force simp: robot_classes_def registered_classes_def)
  from ApplicationInitialization_serves [OF assms(4) 7(3) this] obtain st' where
    st': "ApplicationInitialization heap st7 = Some (kEipStatusOk, st')" "robot_serving st'"
      "\<forall>code. code \<notin> robot_classes \<longrightarrow> GetCipClass code st' = GetCipClass code st7"
    unfolding robot_classes_def by blast
  have "code \<in> registered_classes st'" if "code \<in> robot_classes" for code
    using st'(2) that by (fastforce simp: robot_serving_def robot_classes_def registered_classes_def)
  moreover have "code \<in> registered_classes st' \<longleftrightarrow> code \<in> standard_classes" if "code \<notin> robot_classes" for code
    using st'(3) that by (simp add: registered_classes_def flip: 7(2))
  ultimately have "registered_classes st' = standard_classes \<union> robot_classes" by blast
  then show ?thesis using 7(1) st'(1,2) by (simp add: expect_ok_Some)
qed

text \<open>
  C6: The start of the stack. With an empty registry, the static data loaded, a product name in the identity object
  and enough memory, no assertion of the start-up fails: \<^verbatim>\<open>CipStackInit\<close> returns success, exactly the seven standard
  classes and the eighteen classes of the robot are registered, and the robot is serving.
\<close>

theorem stack_starts:
  assumes "g_first_object st = []" and "statics_loaded st" and "data_store st (s_identity 7) = Some (VShortString name)"
    and "\<forall>k < 11. heap k \<noteq> NoMemory"
  shows "\<exists>st'. CipStackInit heap n st = Some (kEipStatusOk, st') \<and> robot_serving st' \<and>
    registered_classes st' = standard_classes \<union> robot_classes"
  by (rule stack_start_serves [OF assms])

subsection \<open>A start without a network\<close>

lemma update_class_total:
  assumes "GetCipClass code st \<noteq> None" and "\<And>ob. f ob \<noteq> None"
  shows "update_class code f st \<noteq> None"
proof -
  obtain ob where ob: "GetCipClass code st = Some ob" using assms(1) by blast
  obtain ob' where "f ob = Some ob'" using assms(2) [of ob] by blast
  with ob show ?thesis by (simp add: update_class_def)
qed

lemma no_stored_configuration:
  assumes "\<forall>ns mode f. nvs_open api ns mode f = (ESP_ERR_NVS_NOT_FOUND, f)"
  shows "load_configuration api garbage t f = Some (t, f)"
  using assms by (simp add: load_configuration_def system_ip_config_load_def NvTcpipLoad_def TcpipNvOpen_def)

lemma host_name_set: "length (iface_hostname netif) < 65536 \<Longrightarrow> \<exists>s'. GetHostName netif s = Some s'"
  by (auto simp: GetHostName_def SetCipStringByCstr_def SetCipStringByData_def Let_def read_bytes_def unat_of_nat take_bit_nat_eq_self)

lemma network_without_sockets:
  fixes st :: "'e device_state_scheme"
  assumes "\<forall>k. os_open os k = - 1"
  shows "\<exists>st'. NetworkHandlerInitialize os st = Some (kEipStatusError, st') \<and> tcp_listener st' = - 1 \<and> g_end_stack st' = g_end_stack st"
  using assms
  by (simp add: NetworkHandlerInitialize_def open_socket_def next_call_def EncapsulationInit_def CipQosUpdateUsedSetQosValues_def Let_def)

text \<open>
  C35: A failure of the network is ignored at the start. The result of \<^verbatim>\<open>NetworkHandlerInitialize\<close> is assigned to a variable
  of the inner block, while the test before the task is created reads the outer variable of the same name: when no
  socket can be opened, the device without a listening socket counts as initialised and its task is started.
\<close>

theorem start_ignores_network_failure:
  assumes "\<not> opener_initialized st" and "g_first_object st = []" and "statics_loaded st"
    and "data_store st (s_identity 7) = Some (VShortString name)" and "\<forall>k < 11. heap k \<noteq> NoMemory"
    and "length (hwaddr netif) = 6" and "length (iface_hostname netif) < 65536"
    and "\<forall>ns mode f. nvs_open api ns mode f = (ESP_ERR_NVS_NOT_FOUND, f)" and "\<forall>k. os_open os k = - 1"
  shows "\<exists>st'. opener_init os api heap True True netif garbage f st = Some (f, st') \<and>
    opener_initialized st' \<and> \<not> g_end_stack st' \<and> tcp_listener st' = - 1"
proof -
  let ?st0 = "next_call (SetDeviceSerialNumber 123456789 (st\<lparr>connection_list := DoublyLinkedListInitialize (connection_list st)\<rparr>))"
  let ?n = "ucast (os_random os (os_calls (SetDeviceSerialNumber 123456789 (st\<lparr>connection_list := DoublyLinkedListInitialize (connection_list st)\<rparr>)))) :: CipUint"
  have cells: "data_store ?st0 = (data_store st)(s_identity 6 \<mapsto> V32 123456789)" and objs: "g_first_object ?st0 = []"
    using assms(2) by (simp_all add: next_call_def SetDeviceSerialNumber_def set_cell_def)
  have "statics_loaded ?st0" "data_store ?st0 (s_identity 7) = Some (VShortString name)"
    unfolding statics_loaded_def cells using assms(3,4) by (simp_all add: statics_loaded_def s_identity_def)
  from stack_start_serves [OF objs this assms(5), of ?n] obtain st1 where
    1: "CipStackInit heap ?n ?st0 = Some (kEipStatusOk, st1)" "registered_classes st1 = standard_classes \<union> robot_classes"
    by blast
  have "0xF5 \<in> registered_classes st1" unfolding 1(2) by (simp add: standard_classes_def)
  then have reg: "GetCipClass 0xF5 st1 \<noteq> None" by (simp add: registered_classes_def)
  then obtain st2 where 2: "update_class 0xF5 (on_cip_class (\<lambda>c. Some (InsertGetSetCallback CbNvTcpipSet kNvDataFunc c))) st1 = Some st2"
    using update_class_total [OF reg, of "on_cip_class (\<lambda>c. Some (InsertGetSetCallback CbNvTcpipSet kNvDataFunc c))"] by (auto simp: on_cip_class_def)
  obtain mac where mac: "IfaceGetMacAddress netif = Some mac" "length mac = 6"
    using assms(6) by (auto simp: IfaceGetMacAddress_def read_bytes_def)
  obtain st3 where 3: "CipEthernetLinkSetMac mac st2 = Some st3"
    using mac(2) by (auto simp: CipEthernetLinkSetMac_def read_bytes_def)
  obtain host where host: "GetHostName netif (hostname (tcpip_object st3)) = Some host" using host_name_set [OF assms(7)] by blast
  let ?t = "(tcpip_object st3)\<lparr>hostname := host\<rparr>"
  let ?c = "snd (IfaceGetConfiguration netif (interface_configuration ?t))"
  let ?st4 = "st3\<lparr>tcpip_object := ?t\<lparr>interface_configuration := ?c\<rparr>, interface_ip_address := if_ip_address ?c, g_end_stack := False\<rparr>"
  obtain st5 where 5: "NetworkHandlerInitialize os ?st4 = Some (kEipStatusError, st5)" "tcp_listener st5 = - 1"
      "g_end_stack st5 = g_end_stack ?st4"
    using network_without_sockets [OF assms(9)] by blast
  then have running: "\<not> g_end_stack st5" by simp
  have "start_stack os api heap netif garbage f st = Some (kEipStatusError, f, st5)"
    using mac(1) 1(1) reg 2 3 host no_stored_configuration [OF assms(8)] 5(1)
    by (simp add: start_stack_def Let_def case_prod_beta)
  then show ?thesis
    using assms(1) 5(2) running by (simp add: opener_init_def)
qed

text \<open>A device that was switched on.\<close>

definition power_on :: device_state where
  "power_on = network_state.extend (encap_state.extend (stack_state.extend
       (initial_stack\<lparr>g_first_object := [], data_store := (map_of robot_statics)(s_identity 7 \<mapsto> VShortString \<lparr>css_length = 0, css_string = None\<rparr>)\<rparr>)
       (encap_state.fields [] \<lparr>service_type_code = 0, service_length = 0, encapsulation_protocol_version = 0,
         capability_flags = 0, name_of_service = replicate 16 0\<rparr> 0))
       (network_state.fields {} (- 1) (- 1) (- 1) 0 0 g_tcpip (replicate 10 None)))
     (device_state.fields False False)"

lemma power_on_simps:
  "g_first_object power_on = []" "statics_loaded power_on" "\<not> opener_initialized power_on"
  "data_store power_on (s_identity 7) = Some (VShortString \<lparr>css_length = 0, css_string = None\<rparr>)"
  by (simp_all add: power_on_def network_state.defs encap_state.defs stack_state.defs device_state.defs statics_loaded_def s_identity_def)

theorem stack_starts_witness:
  "\<exists>st'. CipStackInit (\<lambda>k. InternalBlock) 7 power_on = Some (kEipStatusOk, st') \<and> robot_serving st' \<and>
    registered_classes st' = standard_classes \<union> robot_classes"
  by (rule stack_starts [OF power_on_simps(1,2,4)]) simp

definition unwired_os :: net_env where
  "unwired_os = (stream_os [])\<lparr>os_open := (\<lambda>k. - 1)\<rparr>"

theorem start_ignores_network_failure_witness:
  "\<exists>st'. opener_init unwired_os (map_flash\<lparr>nvs_open := (\<lambda>ns mode f. (ESP_ERR_NVS_NOT_FOUND, f))\<rparr>) (\<lambda>k. InternalBlock) True True
      \<lparr>hwaddr = [2, 0, 0, 0, 0, 1], iface_ip_addr = 0, iface_netmask = 0, iface_gw = 0, iface_hostname = [0x64, 0x78]\<rparr>
      system_ip_config_get_defaults Map.empty power_on = Some (Map.empty, st') \<and>
    opener_initialized st' \<and> \<not> g_end_stack st' \<and> tcp_listener st' = - 1"
  by (rule start_ignores_network_failure [OF power_on_simps(3,1,2,4)]) (simp_all add: unwired_os_def)

end
