(* ===== verification/Ip4Addr.thy ===== *)
theory Ip4Addr
  imports TcpIpInterface
begin

text \<open>
  Dotted addresses: \<^verbatim>\<open>ip4addr_aton\<close>, \<^verbatim>\<open>ip4addr_ntoa_r\<close> and \<^verbatim>\<open>ip4_addr_netmask_valid\<close> of the network stack, which
  the web interface uses for its address fields. A C string is a list of octets with its terminating zero; reading
  past the end is undefined.
\<close>

unbundle bit_operations_syntax

abbreviation (input) IP4ADDR_STRLEN_MAX :: nat where "IP4ADDR_STRLEN_MAX \<equiv> 16"
abbreviation (input) dot :: CipOctet where "dot \<equiv> 0x2E"

definition isdigit :: "CipOctet \<Rightarrow> bool" where "isdigit c \<longleftrightarrow> 0x30 \<le> c \<and> c \<le> 0x39"
definition islower :: "CipOctet \<Rightarrow> bool" where "islower c \<longleftrightarrow> 0x61 \<le> c \<and> c \<le> 0x7A"
definition isxdigit :: "CipOctet \<Rightarrow> bool" where
  "isxdigit c \<longleftrightarrow> isdigit c \<or> 0x61 \<le> c \<and> c \<le> 0x66 \<or> 0x41 \<le> c \<and> c \<le> 0x46"
definition isspace :: "CipOctet \<Rightarrow> bool" where "isspace c \<longleftrightarrow> c = 0x20 \<or> 0x09 \<le> c \<and> c \<le> 0x0D"

subsection \<open>Reading\<close>

text \<open>The base of a number and where its digits start.\<close>

fun number_base :: "CipOctet list \<Rightarrow> (CipUdint \<times> CipOctet list) run" where
  "number_base (c # d # cs) = Some (if c = 0x30 then (if d = 0x78 \<or> d = 0x58 then (16, cs) else (8, d # cs)) else (10, c # d # cs))"
| "number_base _ = None"

fun number_from :: "CipUdint \<Rightarrow> CipUdint \<Rightarrow> CipOctet list \<Rightarrow> (CipUdint \<times> CipOctet list) run" where
  "number_from base v [] = None"
| "number_from base v (c # cs) = (
     if isdigit c then
       (if base = 8 \<and> c - 0x30 \<ge> 8 then Some (v, c # cs) else number_from base (v * base + ucast (c - 0x30)) cs)
     else if base = 16 \<and> isxdigit c then
       number_from base (push_bit 4 v OR ucast (c + 10 - (if islower c then 0x61 else 0x41))) cs
     else Some (v, c # cs))"

text \<open>The numbers before dots, at most \<open>k\<close> of them, and the number after the last dot.\<close>

fun parts_from :: "nat \<Rightarrow> CipUdint list \<Rightarrow> CipOctet list \<Rightarrow> (CipUdint list \<times> CipUdint \<times> CipOctet list) option run" where
  "parts_from k parts cs = do {
     c \<leftarrow> array_get cs 0;
     if \<not> isdigit c then Some None
     else do {
       (base, cs) \<leftarrow> number_base cs;
       (val, cs) \<leftarrow> number_from base 0 cs;
       c \<leftarrow> array_get cs 0;
       if c = dot then (case k of 0 \<Rightarrow> Some None | Suc k' \<Rightarrow> parts_from k' (parts @ [val]) (tl cs))
       else Some (Some (parts, val, cs)) } }"

fun concoct :: "CipUdint list \<Rightarrow> CipUdint \<Rightarrow> CipUdint option" where
  "concoct [] val = Some val"
| "concoct [p0] val = (if val > 0xFFFFFF \<or> p0 > 0xFF then None else Some (val OR push_bit 24 p0))"
| "concoct [p0, p1] val = (if val > 0xFFFF \<or> p0 > 0xFF \<or> p1 > 0xFF then None else Some (val OR (push_bit 24 p0 OR push_bit 16 p1)))"
| "concoct [p0, p1, p2] val = (if val > 0xFF \<or> p0 > 0xFF \<or> p1 > 0xFF \<or> p2 > 0xFF then None
     else Some (val OR (push_bit 24 p0 OR push_bit 16 p1 OR push_bit 8 p2)))"
| "concoct _ val = None"

definition ip4addr_aton :: "CipOctet list \<Rightarrow> CipUdint option run" where
  "ip4addr_aton cp = do {
     r \<leftarrow> parts_from 3 [] cp;
     case r of None \<Rightarrow> Some None
     | Some (parts, val, cs) \<Rightarrow> do {
         c \<leftarrow> array_get cs 0;
         if c \<noteq> 0 \<and> \<not> isspace c then Some None
         else Some (map_option htonl (concoct parts val)) } }"

subsection \<open>Printing\<close>

text \<open>The decimal digits of an octet, the last one first.\<close>

function digits_of :: "CipOctet \<Rightarrow> CipOctet list" where
  "digits_of b = (0x30 + b mod 10) # (if b div 10 = 0 then [] else digits_of (b div 10))"
  by pat_completeness auto

termination
proof (relation "measure unat")
  fix b :: CipOctet
  assume "b div 10 \<noteq> 0"
  then have "0 < unat b" by (auto simp: unat_gt_0)
  then show "(b div 10, b) \<in> measure unat" by (simp add: unat_div)
qed simp

fun put_octets :: "nat \<Rightarrow> CipOctet list \<Rightarrow> CipOctet list \<Rightarrow> CipOctet list option" where
  "put_octets buflen buf [] = Some buf"
| "put_octets buflen buf (c # cs) = (if length buf \<ge> buflen then None else put_octets buflen (buf @ [c]) cs)"

fun ntoa_from :: "nat \<Rightarrow> CipOctet list \<Rightarrow> CipOctet list \<Rightarrow> CipOctet list option" where
  "ntoa_from buflen buf [] = Some buf"
| "ntoa_from buflen buf (b # bs) = do {
     buf \<leftarrow> put_octets buflen buf (rev (digits_of b) @ [dot]);
     ntoa_from buflen buf bs }"

text \<open>The string in the buffer, or a null pointer when the buffer is too small.\<close>

definition ip4addr_ntoa_r :: "CipUdint \<Rightarrow> nat \<Rightarrow> CipOctet list option" where
  "ip4addr_ntoa_r address buflen = do {
     buf \<leftarrow> ntoa_from buflen [] (dint_bytes address);
     Some (butlast buf @ [0]) }"

definition ip4addr_ntoa :: "CipUdint \<Rightarrow> CipOctet list option" where
  "ip4addr_ntoa address = ip4addr_ntoa_r address IP4ADDR_STRLEN_MAX"

subsection \<open>Network masks\<close>

text \<open>The two loops over the bits from the highest one down: \<open>n\<close> bits are left.\<close>

fun skip_ones :: "CipUdint \<Rightarrow> nat \<Rightarrow> nat" where
  "skip_ones x 0 = 0"
| "skip_ones x (Suc n) = (if bit x n then skip_ones x n else Suc n)"

fun no_ones :: "CipUdint \<Rightarrow> nat \<Rightarrow> bool" where
  "no_ones x 0 = True"
| "no_ones x (Suc n) = (if bit x n then False else no_ones x n)"

definition ip4_addr_netmask_valid :: "CipUdint \<Rightarrow> bool" where
  "ip4_addr_netmask_valid netmask = (let nm_hostorder = htonl netmask in no_ones nm_hostorder (skip_ones nm_hostorder 32))"

subsection \<open>Printed addresses are read back\<close>

declare digits_of.simps [simp del] parts_from.simps [simp del]

lemma digit_of_octet: "isdigit (0x30 + b mod 10)" "0x30 + b mod 10 = (0x30 :: CipOctet) \<longleftrightarrow> b mod 10 = 0"
proof -
  have "unat (b mod 10) = unat b mod 10" by (simp add: unat_mod)
  moreover have "unat b mod 10 < 10" by simp
  ultimately have "unat (0x30 + b mod 10) = 0x30 + unat b mod 10" by (simp add: unat_word_ariths)
  then show "isdigit (0x30 + b mod 10)" by (simp add: isdigit_def word_le_nat_alt)
qed simp

lemma octet_by_ten: "(ucast (b div 10) :: CipUdint) * 10 + ucast (b mod 10) = ucast (b :: CipOctet)"
proof -
  have "unat b < 256" using unsigned_less [of b] by simp
  then have "unat b div 10 mod 256 = unat b div 10" "unat b < 4294967296" by simp_all
  then show ?thesis by (simp add: word_unat_eq_iff unat_word_ariths unat_div unat_mod)
qed

lemma digits_of_octet:
  shows "digits_of b \<noteq> []" and "\<forall>c\<in>set (digits_of b). isdigit c"
    and "b \<noteq> 0 \<Longrightarrow> last (digits_of b) \<noteq> 0x30" and "digits_of 0 = [0x30]"
    and "foldl (\<lambda>v c. v * 10 + ucast (c - 0x30)) (0 :: CipUdint) (rev (digits_of b)) = ucast b"
proof -
  show "digits_of b \<noteq> []" "digits_of 0 = [0x30]" by (subst digits_of.simps; simp)+
  show "\<forall>c\<in>set (digits_of b). isdigit c"
    by (induction b rule: digits_of.induct) (subst digits_of.simps, simp add: digit_of_octet)
  show "foldl (\<lambda>v c. v * 10 + ucast (c - 0x30)) (0 :: CipUdint) (rev (digits_of b)) = ucast b"
  proof (induction b rule: digits_of.induct)
    case (1 b)
    then show ?case
      using octet_by_ten [of b] by (subst digits_of.simps) (cases "b div 10 = 0"; simp)
  qed
  show "last (digits_of b) \<noteq> 0x30" if "b \<noteq> 0"
    using that
  proof (induction b rule: digits_of.induct)
    case (1 b)
    show ?case
    proof (cases "b div 10 = 0")
      case True
      then have "b mod 10 = b" using div_mult_mod_eq [of b 10] by simp
      with True 1(2) show ?thesis by (subst digits_of.simps) (simp add: digit_of_octet)
    next
      case False
      with 1(1) show ?thesis by (subst digits_of.simps) (simp add: digits_of.simps [of "b div 10"])
    qed
  qed
qed

lemma digits_of_length: "length (digits_of b) \<le> 3"
proof -
  have "unat b < 256" using unsigned_less [of b] by simp
  then have "unat b div 10 div 10 div 10 = 0" by simp
  then have "b div 10 div 10 div 10 = 0" by (simp add: word_unat_eq_iff unat_div)
  then show ?thesis by (simp add: digits_of.simps [of b] digits_of.simps [of "b div 10"] digits_of.simps [of "b div 10 div 10"])
qed

lemma number_from_digits:
  "\<forall>c\<in>set cs. isdigit c \<Longrightarrow> \<not> isdigit d \<Longrightarrow>
     number_from 10 v (cs @ d # r) = Some (foldl (\<lambda>v c. v * 10 + ucast (c - 0x30)) v cs, d # r)"
  by (induction cs arbitrary: v) simp_all

lemma number_of_octet:
  assumes "\<not> isdigit d" and "d \<noteq> 0x78" and "d \<noteq> 0x58"
  shows "do { (base, cs) \<leftarrow> number_base (rev (digits_of b) @ d # r); number_from base 0 cs } = Some (ucast b, d # r)"
proof (cases "b = 0")
  case True
  with assms show ?thesis by (simp add: digits_of_octet(4))
next
  case False
  obtain c cs where c: "rev (digits_of b) = c # cs" using digits_of_octet(1) [of b] by (cases "rev (digits_of b)") auto
  then have "c \<noteq> 0x30" using digits_of_octet(1,3) [of b] False by (metis hd_rev list.sel(1))
  moreover obtain e es where "cs @ d # r = e # es" by (cases cs) auto
  ultimately have "number_base (rev (digits_of b) @ d # r) = Some (10, rev (digits_of b) @ d # r)" by (simp add: c)
  then show ?thesis using number_from_digits [of "rev (digits_of b)" d 0 r] assms(1) digits_of_octet(2,5) [of b] by simp
qed

lemma parts_from_octet:
  assumes "\<not> isdigit d" and "d \<noteq> 0x78" and "d \<noteq> 0x58"
  shows "parts_from k parts (rev (digits_of b) @ d # r) =
    (if d = dot then (case k of 0 \<Rightarrow> Some None | Suc k' \<Rightarrow> parts_from k' (parts @ [ucast b]) r) else Some (Some (parts, ucast b, d # r)))"
proof -
  have first: "\<exists>c. array_get (rev (digits_of b) @ d # r) 0 = Some c \<and> isdigit c"
    using digits_of_octet(1,2) [of b] by (cases "rev (digits_of b)") (auto simp: array_get_def)
  obtain base cs where "number_base (rev (digits_of b) @ d # r) = Some (base, cs)" "number_from base 0 cs = Some (ucast b, d # r)"
    using number_of_octet [OF assms, of b r] by (auto split: bind_splits)
  with first show ?thesis by (subst parts_from.simps) (auto simp: array_get_def split: nat.splits)
qed

lemma put_octets_fit: "length buf + length cs \<le> buflen \<Longrightarrow> put_octets buflen buf cs = Some (buf @ cs)"
  by (induction cs arbitrary: buf) auto

definition dotted :: "CipUdint \<Rightarrow> CipOctet list" where
  "dotted a = (case dint_bytes a of [b0, b1, b2, b3] \<Rightarrow>
     rev (digits_of b0) @ dot # rev (digits_of b1) @ dot # rev (digits_of b2) @ dot # rev (digits_of b3))"

lemma dotted_length: "length (dotted a) \<le> 15"
  using digits_of_length [of "ucast a"] digits_of_length [of "ucast (drop_bit 8 a)"]
    digits_of_length [of "ucast (drop_bit 16 a)"] digits_of_length [of "ucast (drop_bit 24 a)"]
  by (simp add: dotted_def dint_bytes_def)

lemma ip4addr_ntoa_dotted: "ip4addr_ntoa a = Some (dotted a @ [0])"
  using dotted_length [of a]
  by (simp add: ip4addr_ntoa_def ip4addr_ntoa_r_def dotted_def dint_bytes_def put_octets_fit butlast_append)

lemma joined_octets: "(ucast (ucast (drop_bit 24 a) :: CipOctet) :: CipUdint) OR
    (push_bit 24 (ucast (ucast a :: CipOctet)) OR push_bit 16 (ucast (ucast (drop_bit 8 a) :: CipOctet)) OR
     push_bit 8 (ucast (ucast (drop_bit 16 a) :: CipOctet))) = ntohl (a :: CipUdint)" (is "?l = _")
proof (rule bit_word_eqI)
  fix n
  assume "n < LENGTH(32)"
  then consider "n < 8" | "8 \<le> n \<and> n < 16" | "16 \<le> n \<and> n < 24" | "24 \<le> n \<and> n < 32" by fastforce
  then show "bit ?l n \<longleftrightarrow> bit (ntohl a) n"
  proof cases
    case 1
    then show ?thesis by (simp add: bit_simps bit_ntohl add.commute)
  next
    case 2
    then have "n div 8 = 1" "n mod 8 = n - 8" "n - 8 < 8" by presburger+
    with 2 show ?thesis by (simp add: bit_simps bit_ntohl)
  next
    case 3
    then have "n div 8 = 2" "n mod 8 = n - 16" "n - 16 < 8" "\<not> n - 8 < 8" by presburger+
    with 3 show ?thesis by (simp add: bit_simps bit_ntohl)
  next
    case 4
    then have "n div 8 = 3" "n mod 8 = n - 24" "n - 24 < 8" "\<not> n - 8 < 8" "\<not> n - 16 < 8" by presburger+
    with 4 show ?thesis by (simp add: bit_simps bit_ntohl)
  qed
qed

lemma ip4addr_aton_dotted: "ip4addr_aton (dotted a @ [0]) = Some (Some a)"
proof -
  have "parts_from 3 [] (dotted a @ [0]) =
      Some (Some ([ucast (ucast a :: CipOctet), ucast (ucast (drop_bit 8 a) :: CipOctet), ucast (ucast (drop_bit 16 a) :: CipOctet)],
        ucast (ucast (drop_bit 24 a) :: CipOctet), [0]))"
    by (simp add: dotted_def dint_bytes_def parts_from_octet isdigit_def numeral_3_eq_3)
  moreover have "(ucast (b :: CipOctet) :: CipUdint) \<le> 0xFF" for b
  proof -
    have "unat b < 256" using unsigned_less [of b] by simp
    then show ?thesis by (simp add: word_le_nat_alt)
  qed
  moreover have "(ucast (ucast (drop_bit 24 a) :: CipOctet) :: CipUdint) OR
      (push_bit 24 (ucast (ucast a :: CipOctet)) OR push_bit 16 (ucast (ucast (drop_bit 8 a) :: CipOctet)) OR
       push_bit 8 (ucast (ucast (drop_bit 16 a) :: CipOctet))) = ntohl a"
    by (rule joined_octets)
  ultimately show ?thesis
    by (simp add: ip4addr_aton_def htonl_def not_less)
qed

text \<open>
  C30: Addresses survive printing and reading. For every address the printer fits its buffer of 16 octets, and the
  reader gives the address back from the text.
\<close>

theorem dotted_address_roundtrip:
  "\<exists>text. ip4addr_ntoa a = Some text \<and> length text \<le> IP4ADDR_STRLEN_MAX \<and> ip4addr_aton text = Some (Some a)"
  using ip4addr_ntoa_dotted [of a] dotted_length [of a] ip4addr_aton_dotted [of a] by simp

subsection \<open>Masks of the stack and of the TCP/IP object\<close>

lemma no_ones_iff: "no_ones x n \<longleftrightarrow> (\<forall>i<n. \<not> bit x i)"
  by (induction n) (auto simp: less_Suc_eq)

lemma skip_ones_bits: "skip_ones x n \<le> n" "\<forall>i. skip_ones x n \<le> i \<longrightarrow> i < n \<longrightarrow> bit x i"
    "skip_ones x n = 0 \<or> \<not> bit x (skip_ones x n - 1)"
  by (induction n) (auto simp: less_Suc_eq)

lemma ip4_addr_netmask_valid_iff: "ip4_addr_netmask_valid m \<longleftrightarrow> (\<exists>k \<le> 32. ntohl m = NOT (mask k))"
proof
  let ?x = "ntohl m"
  assume "ip4_addr_netmask_valid m"
  then have low: "\<forall>i < skip_ones ?x 32. \<not> bit ?x i" by (simp add: ip4_addr_netmask_valid_def htonl_def no_ones_iff Let_def)
  have "?x = NOT (mask (skip_ones ?x 32))"
    using low skip_ones_bits(2) [of ?x 32] by (intro bit_word_eqI) (auto simp: bit_simps not_less)
  then show "\<exists>k \<le> 32. ntohl m = NOT (mask k)" using skip_ones_bits(1) by blast
next
  assume "\<exists>k \<le> 32. ntohl m = NOT (mask k)"
  then obtain k where k: "k \<le> 32" "ntohl m = NOT (mask k)" by blast
  then have b: "bit (ntohl m) i \<longleftrightarrow> k \<le> i" if "i < 32" for i using that by (simp add: bit_simps not_less)
  have "skip_ones (ntohl m) 32 \<le> k"
    using skip_ones_bits(1,3) [of "ntohl m" 32] b [of "skip_ones (ntohl m) 32 - 1"] by fastforce
  then show "ip4_addr_netmask_valid m"
    using b k(1) by (simp add: ip4_addr_netmask_valid_def htonl_def no_ones_iff Let_def)
qed

text \<open>The network masks the TCP/IP object accepts are those of the stack but the two extreme ones.\<close>

lemma netmasks_agree: "IsValidNetmask m \<longleftrightarrow> ip4_addr_netmask_valid m \<and> m \<noteq> 0 \<and> m \<noteq> 0xFFFFFFFF"
proof -
  have full: "(mask 32 :: CipUdint) = - 1" using mask_full [where 'a = 32] by simp
  have ones: "ntohl m = NOT (mask 0) \<longleftrightarrow> m = 0xFFFFFFFF"
    using ntohl_eq_iff [of m "- 1"] by (simp del: ntohl_eq_iff) (simp only: minus_one_word_eq)
  have zero: "ntohl m = NOT (mask 32) \<longleftrightarrow> m = 0" by (simp add: full)
  show ?thesis
  proof
    assume "IsValidNetmask m"
    then obtain k where k: "1 \<le> k" "k \<le> 31" "ntohl m = NOT (mask k)" by (auto simp: netmask_word)
    have "bit (ntohl m) 31" "\<not> bit (ntohl m) 0" using k(1,2) unfolding k(3) by (simp_all add: bit_simps)
    then have "m \<noteq> 0" "ntohl m \<noteq> NOT (mask 0)" by (auto simp: bit_simps)
    moreover have "ip4_addr_netmask_valid m" using k(2,3) unfolding ip4_addr_netmask_valid_iff by (intro exI [of _ k]) simp
    ultimately show "ip4_addr_netmask_valid m \<and> m \<noteq> 0 \<and> m \<noteq> 0xFFFFFFFF" using ones by simp
  next
    assume r: "ip4_addr_netmask_valid m \<and> m \<noteq> 0 \<and> m \<noteq> 0xFFFFFFFF"
    then obtain k where k: "k \<le> 32" "ntohl m = NOT (mask k)" by (auto simp: ip4_addr_netmask_valid_iff)
    have "k \<noteq> 0" using r k(2) ones by metis
    moreover have "k \<noteq> 32" using r k(2) zero by metis
    ultimately have "k \<noteq> 0" "k \<noteq> 32" by simp_all
    then have "1 \<le> k" "k \<le> 31" using k(1) by simp_all
    with k(2) show "IsValidNetmask m" unfolding netmask_word by blast
  qed
qed

end
