(* ===== verification/WebUi.thy ===== *)
theory WebUi
  imports DeviceStart Ip4Addr
begin

text \<open>
  The web interface and the events of the network interface: \<^verbatim>\<open>webui_api.c\<close>, the transfer of the page in
  \<^verbatim>\<open>webui.c\<close>, and \<^verbatim>\<open>configure_netif\<close> and \<^verbatim>\<open>got_ip_event_handler\<close> of \<^verbatim>\<open>main.c\<close>. The JSON library is the
  record \<open>json_api\<close>; what the semaphores and the calls of the network interface return are arguments. Memory for
  replies is always there.
\<close>

unbundle bit_operations_syntax

record 'j json_api =
  json_parse :: "CipOctet list \<Rightarrow> 'j option"
  json_item :: "'j \<Rightarrow> string \<Rightarrow> 'j option"
  json_bool :: "'j \<Rightarrow> bool option"
  json_nonzero :: "'j \<Rightarrow> bool option"
  json_text :: "'j \<Rightarrow> CipOctet list option"

datatype web_value = WebBool bool | WebText "CipOctet list" | WebMessage string

datatype http_reply = JsonReply "(string \<times> web_value) list" | BadRequest | ServerError


record 'f web_state =
  web_tcpip :: CipTcpIpObject
  web_flash :: 'f
  s_tcpip_mutex :: bool

subsection \<open>The IP configuration (webui_api.c)\<close>










abbreviation (input) saved_reply :: "string \<Rightarrow> http_reply" where
  "saved_reply what \<equiv> JsonReply [(''status'', WebMessage ''ok''), (''message'', WebMessage what)]"


subsection \<open>The instance mapping\<close>

definition api_get_rs022_handler :: "'f nvs_api \<Rightarrow> 'f web_state \<Rightarrow> http_reply \<times> 'f web_state" where
  "api_get_rs022_handler api st = (case system_motoman_rs022_load api (web_flash st) of
     (_, rs022_enabled, f) \<Rightarrow> (JsonReply [(''rs022_enabled'', WebBool rs022_enabled)], st\<lparr>web_flash := f\<rparr>))"

definition api_post_rs022_handler :: "'j json_api \<Rightarrow> 'f nvs_api \<Rightarrow> CipOctet list \<Rightarrow> 'f web_state \<Rightarrow> http_reply \<times> 'f web_state" where
  "api_post_rs022_handler js api body st = (
     if body = [] then (ServerError, st)
     else case json_parse js (take 255 body) of
       None \<Rightarrow> (BadRequest, st)
     | Some j \<Rightarrow>
         let rs022_enabled = (case json_item js j ''rs022_enabled'' of
               None \<Rightarrow> True
             | Some item \<Rightarrow> (case json_bool js item of Some b \<Rightarrow> b
                 | None \<Rightarrow> (case json_nonzero js item of Some b \<Rightarrow> b | None \<Rightarrow> True)));
             (saved, f) = system_motoman_rs022_save api rs022_enabled (web_flash st);
             st = st\<lparr>web_flash := f\<rparr>
         in if saved then (saved_reply ''RS022 configuration saved successfully. Reboot required to apply changes.'', st)
            else (ServerError, st))"

subsection \<open>The page (webui.c)\<close>

text \<open>
  The chunks handed to the server and whether all calls succeeded. The index of the call decides its outcome, the
  rest of the page is sent in pieces of 4096 octets, and an empty chunk ends the transfer.
\<close>

function send_chunks :: "(nat \<Rightarrow> bool) \<Rightarrow> nat \<Rightarrow> CipOctet list \<Rightarrow> bool \<times> CipOctet list list" where
  "send_chunks ok n html = (
     if html = [] then (ok n, [[]])
     else
       let to_send = (if length html > 4096 then 4096 else length html); chunk = take to_send html
       in if \<not> ok n then (False, [chunk])
          else let (sent, chunks) = send_chunks ok (Suc n) (drop to_send html) in (sent, chunk # chunks))"
  by pat_completeness auto

termination
  by (relation "measure (\<lambda>(ok, n, html). length html)") (auto split: if_splits)

text \<open>A page of 200000 octets or more is refused.\<close>

definition root_handler :: "(nat \<Rightarrow> bool) \<Rightarrow> CipOctet list \<Rightarrow> bool \<times> CipOctet list list" where
  "root_handler ok page = (
     let html_len = min 200000 (length (takeWhile (\<lambda>c. c \<noteq> 0) page))
     in if html_len \<ge> 200000 then (False, []) else send_chunks ok 0 (take html_len page))"

subsection \<open>The network interface (main.c)\<close>

datatype netif_call = DhcpStop | DhcpStart | SetIpInfo CipUdint CipUdint CipUdint | SetDnsMain CipUdint | SetDnsBackup CipUdint


text \<open>
  The name server of the interface is replaced by a public one if it has none; then the stack is started. The web
  server is started after it whatever became of the stack.
\<close>

definition got_ip_event_handler :: "net_env \<Rightarrow> 'f nvs_api \<Rightarrow> (nat \<Rightarrow> heap_block) \<Rightarrow> bool \<Rightarrow> bool \<Rightarrow> CipUdint option \<Rightarrow>
    netif option \<Rightarrow> system_ip_config_t \<Rightarrow> 'f \<Rightarrow> 'e device_state_scheme \<Rightarrow> (netif_call list \<times> 'f \<times> 'e device_state_scheme) run" where
  "got_ip_event_handler os api heap link_up task dns lwip_netif garbage f st = do {
     let calls = (if dns = None \<or> dns = Some 0 then [SetDnsMain 0x08080808, SetDnsBackup 0x04040808] else []);
     case lwip_netif of
       None \<Rightarrow> Some (calls, f, st)
     | Some netif \<Rightarrow> do {
         (f, st) \<leftarrow> opener_init os api heap link_up task netif garbage f st;
         Some (calls, f, st) } }"

subsection \<open>The page arrives whole\<close>

declare send_chunks.simps [simp del]

lemma send_chunks_all:
  "(\<And>n. ok n) \<Longrightarrow> fst (send_chunks ok n html) \<and> concat (snd (send_chunks ok n html)) = html \<and>
     (\<forall>c\<in>set (snd (send_chunks ok n html)). length c \<le> 4096)"
proof (induction ok n html rule: send_chunks.induct)
  case (1 ok n html)
  define k where "k = (if length html > 4096 then 4096 else length html)"
  show ?case
  proof (cases "html = []")
    case True
    then show ?thesis using 1(2) by (simp add: send_chunks.simps)
  next
    case False
    have "fst (send_chunks ok (Suc n) (drop k html)) \<and> concat (snd (send_chunks ok (Suc n) (drop k html))) = drop k html \<and>
        (\<forall>c\<in>set (snd (send_chunks ok (Suc n) (drop k html))). length c \<le> 4096)"
      by (rule 1(1) [OF False k_def refl _ 1(2)]) (simp add: 1(2))
    moreover obtain sent chunks where s: "send_chunks ok (Suc n) (drop k html) = (sent, chunks)" by fastforce
    moreover have "send_chunks ok n html = (sent, take k html # chunks)"
      using False 1(2) s by (subst send_chunks.simps) (simp add: Let_def flip: k_def)
    moreover have "length (take k html) \<le> 4096" by (simp add: k_def)
    ultimately show ?thesis by simp
  qed
qed

subsection \<open>Namespaces of the flash\<close>








subsection \<open>From a request to the next start\<close>



















end
