(* ===== verification/Spec2Isabelle.thy ===== *)
theory Spec2Isabelle
  imports ConnectedRequests SessionTable CipStrings WebUi
begin

text \<open>
  A verification library for the EtherNet/IP device of this repository: the OpENer stack under
  \<^verbatim>\<open>components/opener/src\<close> with the Motoman DX200 robot simulator as its application.

  \<^bold>\<open>The program.\<close> A TCP or UDP message arrives at the network handler and is unpacked by the
  encapsulation layer (\<^verbatim>\<open>enet_encap/encap.c\<close>) and the common packet format (\<^verbatim>\<open>enet_encap/cpf.c\<close>).
  The message router (\<^verbatim>\<open>cip/cipmessagerouter.c\<close>) finds the addressed class, and the common services
  (\<^verbatim>\<open>cip/cipcommon.c\<close>) read and write attributes of its instances. The connection manager
  (\<^verbatim>\<open>cip/cipconnectionmanager.c\<close>) opens and closes explicit connections
  (\<^verbatim>\<open>cip/cipclass3connection.c\<close>) and I/O connections (\<^verbatim>\<open>cip/cipioconnection.c\<close>,
  \<^verbatim>\<open>cip/appcontype.c\<close>), whose objects (\<^verbatim>\<open>cip/cipconnectionobject.c\<close>) hang in a doubly linked list
  (\<^verbatim>\<open>utils/doublylinkedlist.c\<close>), and a timer runs over that list. The application
  (\<^verbatim>\<open>motoman_dx200_simulator.c\<close>) publishes the robot's data as eighteen classes. The task of the device
  (\<^verbatim>\<open>ports/ESP32/opener.c\<close>) starts the stack and runs the network handler
  (\<^verbatim>\<open>ports/generic_networkhandler.c\<close>); addresses and names are kept in flash (\<^verbatim>\<open>ports/nvdata/nvtcpip.c\<close>,
  \<^verbatim>\<open>system_config.c\<close>) and set over the network or in the web interface (\<^verbatim>\<open>webui_api.c\<close>).

  \<^bold>\<open>Conventions.\<close> A C function is a HOL function of the same name on an explicit state. Machine
  integers are words of their width. The result type \<open>run\<close> is an option: \<open>None\<close> stands for undefined
  behaviour of the C code (an access outside an array, a null pointer, a failed assertion) and for a
  loop that does not end, so a theorem with \<open>= Some\<close> also says that the code runs through. A status
  code, a general status or an extended status is a value of the result. Pointers to attribute data
  are references into a data store, pointers to connection objects are indices into the array of all
  of them, list nodes are indices into the node array the program allocates them from. What the
  operating system returns is a parameter: random numbers, sockets, results of \<^verbatim>\<open>sendto\<close> and addresses of
  peers in the record \<open>os_env\<close>, received octets, ready sockets and the clock in its extension \<open>net_env\<close>, the
  flash in \<open>nvs_api\<close> (with \<open>nvs_keeps\<close> and \<open>nvs_separate\<close> as its documented behaviour), the JSON library in
  \<open>json_api\<close>. What the stack does to sockets is recorded in the state.

  \<^bold>\<open>Theories.\<close>
  \<^item> \<open>Prelude\<close>: machine types, the monad of C runs, arrays and octet sequences, generic lemmas.
  \<^item> \<open>Endian\<close>: \<^verbatim>\<open>endianconv.c\<close> and \<^verbatim>\<open>enipmessage.c\<close>; the locale \<open>codec\<close> states what a reader owes
    to its writer and is interpreted for the 8, 16 and 32 bit readers.
  \<^item> \<open>CipTypes\<close>, \<open>EPath\<close>: constants, path segments, the electronic key and the path codec.
  \<^item> \<open>CipData\<close>: attribute values with their encoders and decoders; the locales \<open>attribute_codec\<close> and
    \<open>exact_attribute_codec\<close> are the contract of an attribute type.
  \<^item> \<open>CipStrings\<close>: strings with wide symbols and international strings; their decoder against the encoder.
  \<^item> \<open>CipObject\<close>, \<open>CipServices\<close>, \<open>MessageRouter\<close>: classes, instances, attributes and masks with their
    invariant, the common services, dispatch.
  \<^item> \<open>DoublyLinkedList\<close>: the list as an implementation of a sequence (locale \<open>node_sequence\<close>).
  \<^item> \<open>ClassLayout\<close>, \<open>Motoman\<close>, \<open>MotomanLayout\<close>, \<open>MotomanData\<close>, \<open>MotomanAccess\<close>: the robot's data and
    classes; the locale \<open>class_builder\<close> is what each of the eighteen creating functions promises.
    \<open>MotomanLayout\<close> lists what is published, attribute by attribute, independently of the creating functions.
  \<^item> \<open>ConnectionObject\<close>: the connection object, its timers, rates and network parameters.
  \<^item> \<open>Cpf\<close>: parsing and assembling of common packets.
  \<^item> \<open>ActiveConnections\<close>: the state of the stack, socket timers, the list of active connections as a
    sequence of objects, searches and closing.
  \<^item> \<open>Sessions\<close>: the session table, the closing of sessions and the time-out handlers; the functions with
    the suffix \<open>_by\<close> take the loop that clears timers as an argument, to say where it does not end.
  \<^item> \<open>Identity\<close>: the identity object. \<open>ConnectionPath\<close>: the path parser of Forward Open.
  \<^item> \<open>IoConnection\<close>: I/O connections, from connection points to sending and receiving.
  \<^item> \<open>ConnectionManager\<close>: Forward Open, Forward Close, data services, statistics, the periodic pass.
  \<^item> \<open>ForwardOpen\<close>: what Forward Open and Forward Close of explicit connections do, on every branch.
  \<^item> \<open>Encap\<close>: \<^verbatim>\<open>encap.c\<close> with both entry points, and the notification functions of \<^verbatim>\<open>cpf.c\<close>.
  \<^item> \<open>SessionTable\<close>: the session table and the socket timers as a transition system, its invariant and
    the outcomes of RegisterSession.
  \<^item> \<open>ListIdentity\<close>: the delayed replies to broadcast requests.
  \<^item> \<open>TcpRequests\<close>: unconnected requests from the octets of a TCP frame to the octets of the reply; the
    locale \<open>routed_request\<close> lifts what the message router does with a request to the frame that carries
    it and is interpreted for reading and writing a robot register.
  \<^item> \<open>ConnectedRequests\<close>: connected requests, sequence numbers and repeated replies.
  \<^item> \<open>TcpIpInterface\<close>: the TCP/IP interface object; which addresses and names it accepts, what setting its
    configuration does, and its multicast addresses.
  \<^item> \<open>LinkObjects\<close>: the random generator, the QoS, DLR and Ethernet link objects, and assemblies.
  \<^item> \<open>NetworkHandler\<close>: one pass of the network handler, from the sockets that are ready to the periodic
    work; packets on TCP sockets and inactive sessions.
  \<^item> \<open>NvData\<close>: the configuration in flash and that it is restored.
  \<^item> \<open>DeviceStart\<close>: start and shut-down of the stack, the interface and the loop of the task.
  \<^item> \<open>Ip4Addr\<close>: reading and printing of dotted addresses (\<^verbatim>\<open>ip4_addr.c\<close> of the network stack).
  \<^item> \<open>WebUi\<close>: the handlers of the web interface, the network interface at start-up (\<^verbatim>\<open>main.c\<close>), and the way
    of a configuration from a web request through flash to the next start.

  \<^bold>\<open>Loops.\<close> Loops over arrays and octets are structural recursions, those that divide or cut a number
  or send a page in pieces are functions with a measure. Loops over the linked list, over the rest of a path, over
  the sockets of a pass, the timers of a closed socket, the search for a free connection number, the dropping of a large packet and the loop of
  the task are \<open>partial_function\<close>s, since a corrupted list, an unlucky random sequence or an endless stream may
  keep them running; the theorems give a result from the invariant of the list. No fuel is used.

  \<^bold>\<open>Not modelled.\<close> The platform functions that make one call of the operating system each
  (\<^verbatim>\<open>ports/ESP32/networkhandler.c\<close>, \<^verbatim>\<open>opener_error.c\<close>), the QoS values in text files (\<^verbatim>\<open>nvqos.c\<close>,
  \<^verbatim>\<open>conffile.c\<close>), which the device does not load, tracing, the installation of the Ethernet driver in
  \<^verbatim>\<open>app_main\<close>, the registration of the web handlers and the text of the page are input and output or
  constants. Memory that is freed is not tracked, and allocation fails only where a theorem says so. The interface
  control attribute of the Ethernet link is compiled out. The rest of the vendored lwIP and ESP-IDF code is
  third-party.
\<close>

end
